(* ===== verification/Prelude.thy ===== *)
theory Prelude
  imports Complex_Main "HOL-Library.AList" "HOL-Library.Multiset" "HOL-Library.Sublist"
begin

text \<open>
  Shared vocabulary of the development: clock readings, Python exceptions and results,
  truthiness, the string methods and dictionary operations the sources use, and the
  generic lemmas on lists and association lists that the component theories rely on.

  A Python \<open>dict\<close> is an association list with distinct keys: assignment replaces in place
  or appends at the end (insertion order), which is \<^const>\<open>AList.update\<close>; \<open>pop\<close> and
  \<open>del\<close> are \<^const>\<open>AList.delete\<close>; \<open>d.get(k)\<close> is \<^const>\<open>map_of\<close>. Strings are lists
  of characters, and the character classes below are those of Python on ASCII text.
\<close>

section \<open>Rule collections\<close>

named_theorems store_defs \<open>definitions of the token-store operations\<close>
named_theorems budget_defs \<open>definitions of the token-budget operations\<close>
named_theorems guard_defs \<open>definitions of the request guards\<close>
named_theorems cascade_defs \<open>definitions of the LLM cascade operations\<close>
named_theorems screen_defs \<open>definitions of the ScreenQL generator\<close>

section \<open>Clocks, exceptions, results\<close>

text \<open>
  Clock readings (\<open>time.time()\<close>, \<open>time.monotonic()\<close>) and other Python floats are rational
  numbers: every float is one, and the sources only add, scale and compare them.
\<close>

type_synonym time = rat

lemma past_deadline: "0 < ttl \<Longrightarrow> now + of_int ttl < t \<Longrightarrow> now \<le> (t :: time)"
  by (metis le_add_same_cancel1 less_eq_rat_def of_int_0_less_iff order_trans)

datatype py_exn =
    HTTPException nat string
  | ValueError string
  | RuntimeError string
  | KeyError string
  | IndexError
  | JSONDecodeError
  | OtherError string

type_synonym 'a result = "py_exn + 'a"

fun bindE :: "'e + 'a \<Rightarrow> ('a \<Rightarrow> 'e + 'b) \<Rightarrow> 'e + 'b" where
  "bindE (Inl e) f = Inl e"
| "bindE (Inr a) f = f a"

lemma bindE_eq_Inr [simp]:
  "bindE m f = Inr b \<longleftrightarrow> (\<exists>a. m = Inr a \<and> f a = Inr b)"
  by (cases m) auto

section \<open>Truthiness\<close>

fun truthy_str :: "string option \<Rightarrow> bool" where
  "truthy_str None = False"
| "truthy_str (Some s) = (s \<noteq> [])"

text \<open>\<open>x or d\<close> for an optional string and for an optional integer.\<close>

fun str_or :: "string option \<Rightarrow> string \<Rightarrow> string" where
  "str_or None d = d"
| "str_or (Some s) d = (if s = [] then d else s)"

lemma str_or_Some_Nil [simp]: "str_or (Some s) [] = s"
  by (cases s) simp_all

fun int_or :: "int option \<Rightarrow> int \<Rightarrow> int" where
  "int_or None d = d"
| "int_or (Some i) d = (if i = 0 then d else i)"

section \<open>Searching\<close>

lemma find_append:
  "find P (xs @ ys) = (case find P xs of None \<Rightarrow> find P ys | Some x \<Rightarrow> Some x)"
  by (induction xs) simp_all

section \<open>Characters and strings\<close>

definition ord :: "char \<Rightarrow> nat" where
  "ord c = of_char c"

definition is_digit :: "char \<Rightarrow> bool" where
  "is_digit c \<longleftrightarrow> 48 \<le> ord c \<and> ord c \<le> 57"

definition is_upper :: "char \<Rightarrow> bool" where
  "is_upper c \<longleftrightarrow> 65 \<le> ord c \<and> ord c \<le> 90"

definition is_lower :: "char \<Rightarrow> bool" where
  "is_lower c \<longleftrightarrow> 97 \<le> ord c \<and> ord c \<le> 122"

definition is_alpha :: "char \<Rightarrow> bool" where
  "is_alpha c \<longleftrightarrow> is_upper c \<or> is_lower c"

definition is_alnum :: "char \<Rightarrow> bool" where
  "is_alnum c \<longleftrightarrow> is_alpha c \<or> is_digit c"

text \<open>Python's \<open>str.isspace\<close> and the regular-expression class \<open>\s\<close> on ASCII text.\<close>

definition is_space :: "char \<Rightarrow> bool" where
  "is_space c \<longleftrightarrow> ord c = 32 \<or> (9 \<le> ord c \<and> ord c \<le> 13) \<or> (28 \<le> ord c \<and> ord c \<le> 31)"

definition to_upper :: "char \<Rightarrow> char" where
  "to_upper c = (if is_lower c then char_of (ord c - 32) else c)"

definition to_lower :: "char \<Rightarrow> char" where
  "to_lower c = (if is_upper c then char_of (ord c + 32) else c)"

definition str_upper :: "string \<Rightarrow> string" where
  "str_upper = map to_upper"

definition str_lower :: "string \<Rightarrow> string" where
  "str_lower = map to_lower"

definition lstrip :: "string \<Rightarrow> string" where
  "lstrip = dropWhile is_space"

definition strip :: "string \<Rightarrow> string" where
  "strip s = rev (lstrip (rev (lstrip s)))"

definition startswith :: "string \<Rightarrow> string \<Rightarrow> bool" where
  "startswith s p \<longleftrightarrow> take (length p) s = p"

fun join :: "string \<Rightarrow> string list \<Rightarrow> string" where
  "join sep [] = []"
| "join sep [x] = x"
| "join sep (x # y # zs) = x @ sep @ join sep (y # zs)"

text \<open>Decimal rendering of a natural number, as \<open>str\<close> and f-strings print an int.\<close>

fun show_nat :: "nat \<Rightarrow> string" where
  "show_nat n = (if n < 10 then [char_of (48 + n)]
     else show_nat (n div 10) @ [char_of (48 + n mod 10)])"

declare show_nat.simps [simp del]

definition show_int :: "int \<Rightarrow> string" where
  "show_int i = (if i < 0 then CHR ''-'' # show_nat (nat (- i)) else show_nat (nat i))"

lemma startswith_iff_prefix [simp]: "startswith s p \<longleftrightarrow> prefix p s"
  unfolding startswith_def by (metis append_eq_conv_conj prefix_def)

lemma length_str_upper [simp]: "length (str_upper s) = length s"
  by (simp add: str_upper_def)

lemma length_str_lower [simp]: "length (str_lower s) = length s"
  by (simp add: str_lower_def)

lemma length_lstrip [simp]: "length (lstrip s) \<le> length s"
  by (simp add: lstrip_def length_dropWhile_le)

lemma show_nat_not_Nil [simp]: "show_nat n \<noteq> []"
  by (subst show_nat.simps) simp

lemma is_digit_char_of [simp]: "d < (10 :: nat) \<Longrightarrow> is_digit (char_of (48 + d))"
  by (simp add: is_digit_def ord_def)

lemma show_nat_digits: "c \<in> set (show_nat n) \<Longrightarrow> is_digit c"
proof (induction n rule: show_nat.induct)
  case (1 n)
  then show ?case
    by (cases "n < 10") (auto simp: show_nat.simps [of n])
qed

section \<open>Association lists as dictionaries\<close>

abbreviation keys :: "('k \<times> 'v) list \<Rightarrow> 'k list" where
  "keys al \<equiv> map fst al"

lemma map_of_AList_delete:
  "map_of (AList.delete k al) k' = (if k' = k then None else map_of al k')"
  by (simp add: delete_conv' fun_upd_def)

lemma map_of_AList_update:
  "map_of (AList.update k v al) k' = (if k' = k then Some v else map_of al k')"
  by (simp add: update_conv' fun_upd_def)

lemma keys_AList_delete: "set (keys (AList.delete k al)) = set (keys al) - {k}"
  by (simp add: delete_keys)

lemma keys_AList_update: "set (keys (AList.update k v al)) = insert k (set (keys al))"
  by (induction al) auto

lemmas dict_simps = map_of_AList_delete map_of_AList_update keys_AList_delete keys_AList_update

lemma distinct_keys_delete [simp]:
  "distinct (keys al) \<Longrightarrow> distinct (keys (AList.delete k al))"
  by (rule distinct_delete)

lemma distinct_keys_update [simp]:
  "distinct (keys al) \<Longrightarrow> distinct (keys (AList.update k v al))"
  by (rule distinct_update)

lemma map_of_fold_delete:
  "map_of (fold AList.delete ks al) k = (if k \<in> set ks then None else map_of al k)"
  by (induction ks arbitrary: al) (auto simp: map_of_AList_delete)

lemma distinct_fold_delete:
  "distinct (keys al) \<Longrightarrow> distinct (keys (fold AList.delete ks al))"
  by (induction ks arbitrary: al) auto

lemma keys_fold_delete: "set (keys (fold AList.delete ks al)) = set (keys al) - set ks"
  by (induction ks arbitrary: al) (auto simp: keys_AList_delete simp del: set_map)

section \<open>Lists\<close>

lemma sum_list_dropWhile_split:
  fixes f :: "'a \<Rightarrow> 'b::comm_monoid_add"
  shows "sum_list (map f xs) = sum_list (map f (takeWhile P xs)) + sum_list (map f (dropWhile P xs))"
  by (metis map_append sum_list_append takeWhile_dropWhile_id)

lemma dropWhile_sorted_filter:
  assumes "sorted (map f xs)"
  shows "dropWhile (\<lambda>x. f x < c) xs = filter (\<lambda>x. c \<le> f x) xs"
  using assms
proof (induction xs)
  case (Cons x xs)
  show ?case
  proof (cases "f x < c")
    case True
    with Cons show ?thesis by auto
  next
    case False
    with Cons.prems have "\<forall>y \<in> set xs. c \<le> f y" by force
    with False show ?thesis by (auto simp: filter_id_conv)
  qed
qed simp

end
