(* ===== verification/Token_Store.thy ===== *)
theory Token_Store
  imports Prelude
begin

text \<open>
  \<open>auth/token_store.py\<close>: the key-value stores with time-to-live behind the JWT deny-list
  and the session records. The \<open>TokenStore\<close> protocol is a record of operations, as a
  duck-typed Python object is; \<open>InMemoryTokenStore\<close> and \<open>RedisTokenStore\<close> are two
  values of it. The locale \<open>token_store\<close> is the contract both promise; the in-memory store
  is an interpretation of it, and the Redis store satisfies it whenever the server obeys
  the documented behaviour of its commands (\<open>redis_laws\<close>).
\<close>

section \<open>Stored values\<close>

text \<open>
  The JSON object \<open>AuthService.register_session\<close> serialises. A stored text is either what
  \<open>json.dumps\<close> made of such an object or a plain text; \<open>json.loads\<close> inverts the former
  and fails on the latter. Texts under a \<open>session:\<close> key are only written by
  \<open>register_session\<close>; plain texts are the \<open>"1"\<close> marks of the deny-list.
\<close>

record session_meta =
  session_id :: string
  meta_user_id :: string
  ip_address :: string
  user_agent :: string
  created_at :: time
  last_activity_at :: time

datatype json_text = Dumped session_meta | PlainText string

fun json_loads :: "json_text \<Rightarrow> session_meta result" where
  "json_loads (Dumped m) = Inr m"
| "json_loads (PlainText s) = Inl JSONDecodeError"

fun truthy_text :: "json_text option \<Rightarrow> bool" where
  "truthy_text None = False"
| "truthy_text (Some (Dumped m)) = True"
| "truthy_text (Some (PlainText s)) = (s \<noteq> [])"

section \<open>The protocol\<close>

text \<open>
  Every operation takes the store and the clock reading and returns the store it leaves;
  the operations that answer a question return the answer first.
\<close>

record 's token_store_ops =
  ts_add :: "'s \<Rightarrow> time \<Rightarrow> string \<Rightarrow> int \<Rightarrow> 's"
  ts_contains :: "'s \<Rightarrow> time \<Rightarrow> string \<Rightarrow> bool \<times> 's"
  ts_remove :: "'s \<Rightarrow> time \<Rightarrow> string \<Rightarrow> 's"
  ts_ping :: "'s \<Rightarrow> time \<Rightarrow> bool"
  ts_add_json :: "'s \<Rightarrow> time \<Rightarrow> string \<Rightarrow> json_text \<Rightarrow> int \<Rightarrow> 's"
  ts_get_json :: "'s \<Rightarrow> time \<Rightarrow> string \<Rightarrow> json_text option \<times> 's"
  ts_keys_by_prefix :: "'s \<Rightarrow> time \<Rightarrow> string \<Rightarrow> string list \<times> 's"

section \<open>InMemoryTokenStore\<close>

record mem_store =
  st_expiry :: "(string \<times> time) list"
  st_values :: "(string \<times> json_text) list"

definition mem_init :: mem_store where
  "mem_init = \<lparr>st_expiry = [], st_values = []\<rparr>"

definition mem_drop :: "string \<Rightarrow> mem_store \<Rightarrow> mem_store" where
  "mem_drop k s = s\<lparr>st_expiry := AList.delete k (st_expiry s),
                    st_values := AList.delete k (st_values s)\<rparr>"

definition mem_prune :: "mem_store \<Rightarrow> time \<Rightarrow> mem_store" where
  "mem_prune s now =
     (let expired = map fst (filter (\<lambda>(k, v). v < now) (st_expiry s))
      in fold mem_drop expired s)"

definition mem_add :: "mem_store \<Rightarrow> time \<Rightarrow> string \<Rightarrow> int \<Rightarrow> mem_store" where
  "mem_add s now key ttl_seconds =
     mem_prune (s\<lparr>st_expiry := AList.update key (now + of_int ttl_seconds) (st_expiry s)\<rparr>) now"

definition mem_contains :: "mem_store \<Rightarrow> time \<Rightarrow> string \<Rightarrow> bool \<times> mem_store" where
  "mem_contains s now key =
     (case map_of (st_expiry s) key of
        None \<Rightarrow> (False, s)
      | Some expires \<Rightarrow> if now > expires then (False, mem_drop key s) else (True, s))"

definition mem_remove :: "mem_store \<Rightarrow> time \<Rightarrow> string \<Rightarrow> mem_store" where
  "mem_remove s now key = mem_drop key s"

definition mem_ping :: "mem_store \<Rightarrow> time \<Rightarrow> bool" where
  "mem_ping s now = True"

definition mem_add_json :: "mem_store \<Rightarrow> time \<Rightarrow> string \<Rightarrow> json_text \<Rightarrow> int \<Rightarrow> mem_store" where
  "mem_add_json s now key value ttl_seconds =
     mem_prune (s\<lparr>st_expiry := AList.update key (now + of_int ttl_seconds) (st_expiry s),
                  st_values := AList.update key value (st_values s)\<rparr>) now"

definition mem_get_json :: "mem_store \<Rightarrow> time \<Rightarrow> string \<Rightarrow> json_text option \<times> mem_store" where
  "mem_get_json s now key =
     (case mem_contains s now key of
        (False, s') \<Rightarrow> (None, s')
      | (True, s') \<Rightarrow> (map_of (st_values s') key, s'))"

definition mem_keys_by_prefix :: "mem_store \<Rightarrow> time \<Rightarrow> string \<Rightarrow> string list \<times> mem_store" where
  "mem_keys_by_prefix s now pfx =
     (let s' = mem_prune s now
      in (filter (\<lambda>k. startswith k pfx) (keys (st_expiry s')), s'))"

definition mem_ops :: "mem_store token_store_ops" where
  "mem_ops = \<lparr>ts_add = mem_add, ts_contains = mem_contains, ts_remove = mem_remove,
     ts_ping = mem_ping, ts_add_json = mem_add_json, ts_get_json = mem_get_json,
     ts_keys_by_prefix = mem_keys_by_prefix\<rparr>"

lemmas mem_defs [store_defs] = mem_add_def mem_contains_def mem_remove_def mem_ping_def
  mem_add_json_def mem_get_json_def mem_keys_by_prefix_def

section \<open>RedisTokenStore\<close>

text \<open>
  The Redis client is code outside the repository: a parameter. Each command takes the
  server's state and the clock and returns its reply, \<^const>\<open>None\<close> when it raises
  \<open>RedisError\<close>, with the state the server is left in (a command whose reply is lost may
  still have run).
\<close>

record 'r redis_client =
  r_setex :: "'r \<Rightarrow> time \<Rightarrow> string \<Rightarrow> int \<Rightarrow> json_text \<Rightarrow> unit option \<times> 'r"
  r_exists :: "'r \<Rightarrow> time \<Rightarrow> string \<Rightarrow> int option \<times> 'r"
  r_delete :: "'r \<Rightarrow> time \<Rightarrow> string \<Rightarrow> unit option \<times> 'r"
  r_get :: "'r \<Rightarrow> time \<Rightarrow> string \<Rightarrow> json_text option option \<times> 'r"
  r_keys :: "'r \<Rightarrow> time \<Rightarrow> string \<Rightarrow> string list option \<times> 'r"
  r_ping :: "'r \<Rightarrow> time \<Rightarrow> bool option"

definition redis_add :: "'r redis_client \<Rightarrow> string \<Rightarrow> 'r \<Rightarrow> time \<Rightarrow> string \<Rightarrow> int \<Rightarrow> 'r" where
  "redis_add c pfx r now key ttl_seconds =
     snd (r_setex c r now (pfx @ key) ttl_seconds (PlainText ''1''))"

definition redis_contains :: "'r redis_client \<Rightarrow> string \<Rightarrow> 'r \<Rightarrow> time \<Rightarrow> string \<Rightarrow> bool \<times> 'r" where
  "redis_contains c pfx r now key =
     (case r_exists c r now (pfx @ key) of
        (Some n, r') \<Rightarrow> (n \<noteq> 0, r')
      | (None, r') \<Rightarrow> (False, r'))"

definition redis_remove :: "'r redis_client \<Rightarrow> string \<Rightarrow> 'r \<Rightarrow> time \<Rightarrow> string \<Rightarrow> 'r" where
  "redis_remove c pfx r now key = snd (r_delete c r now (pfx @ key))"

definition redis_ping :: "'r redis_client \<Rightarrow> 'r \<Rightarrow> time \<Rightarrow> bool" where
  "redis_ping c r now = (case r_ping c r now of Some b \<Rightarrow> b | None \<Rightarrow> False)"

definition redis_add_json ::
    "'r redis_client \<Rightarrow> string \<Rightarrow> 'r \<Rightarrow> time \<Rightarrow> string \<Rightarrow> json_text \<Rightarrow> int \<Rightarrow> 'r" where
  "redis_add_json c pfx r now key value ttl_seconds =
     snd (r_setex c r now (pfx @ key) ttl_seconds value)"

definition redis_get_json ::
    "'r redis_client \<Rightarrow> string \<Rightarrow> 'r \<Rightarrow> time \<Rightarrow> string \<Rightarrow> json_text option \<times> 'r" where
  "redis_get_json c pfx r now key =
     (case r_get c r now (pfx @ key) of
        (Some val, r') \<Rightarrow> (val, r')
      | (None, r') \<Rightarrow> (None, r'))"

text \<open>\<open>KEYS full*\<close>: the client operation gets the literal part \<open>full\<close> of the pattern.\<close>

definition redis_keys_by_prefix ::
    "'r redis_client \<Rightarrow> string \<Rightarrow> 'r \<Rightarrow> time \<Rightarrow> string \<Rightarrow> string list \<times> 'r" where
  "redis_keys_by_prefix c pfx r now prefx =
     (let full = pfx @ prefx in
      case r_keys c r now full of
        (Some raw, r') \<Rightarrow> (map (\<lambda>k. drop (length pfx) k) raw, r')
      | (None, r') \<Rightarrow> ([], r'))"

definition redis_ops :: "'r redis_client \<Rightarrow> string \<Rightarrow> 'r token_store_ops" where
  "redis_ops c pfx = \<lparr>ts_add = redis_add c pfx, ts_contains = redis_contains c pfx,
     ts_remove = redis_remove c pfx, ts_ping = redis_ping c, ts_add_json = redis_add_json c pfx,
     ts_get_json = redis_get_json c pfx, ts_keys_by_prefix = redis_keys_by_prefix c pfx\<rparr>"

lemmas redis_defs [store_defs] = redis_add_def redis_contains_def redis_remove_def
  redis_ping_def redis_add_json_def redis_get_json_def redis_keys_by_prefix_def

section \<open>Factory\<close>

text \<open>
  \<open>create_token_store\<close> picks the back end: Redis when a URL is given and
  \<open>get_redis_client\<close> (here its result) connected, the in-memory store otherwise.
\<close>

datatype 'r backend = RedisStore "'r redis_client" string | InMemoryStore

definition create_token_store ::
    "string \<Rightarrow> string \<Rightarrow> (string \<Rightarrow> 'r redis_client option) \<Rightarrow> 'r backend" where
  "create_token_store redis_url pfx get_redis_client =
     (if redis_url \<noteq> [] then
        (case get_redis_client redis_url of
           Some client \<Rightarrow> RedisStore client pfx
         | None \<Rightarrow> InMemoryStore)
      else InMemoryStore)"

section \<open>The contract\<close>

text \<open>
  \<open>live s t k\<close>: key \<open>k\<close> is held at time \<open>t\<close> if the store is left alone from now on;
  \<open>stored s t k\<close>: the text \<open>get_json\<close> would return then. Both back ends expire a key
  within the instant of its deadline, one inclusively and one exclusively, so the laws
  speak of times strictly before and strictly after it.
\<close>

locale token_store =
  fixes ops :: "'s token_store_ops"
    and live :: "'s \<Rightarrow> time \<Rightarrow> string \<Rightarrow> bool"
    and stored :: "'s \<Rightarrow> time \<Rightarrow> string \<Rightarrow> json_text option"
    and invar :: "'s \<Rightarrow> bool"
  assumes invar_add: "invar s \<Longrightarrow> invar (ts_add ops s now k ttl)"
    and invar_contains: "invar s \<Longrightarrow> invar (snd (ts_contains ops s now k))"
    and invar_remove: "invar s \<Longrightarrow> invar (ts_remove ops s now k)"
    and invar_add_json: "invar s \<Longrightarrow> invar (ts_add_json ops s now k v ttl)"
    and invar_get_json: "invar s \<Longrightarrow> invar (snd (ts_get_json ops s now k))"
    and invar_keys: "invar s \<Longrightarrow> invar (snd (ts_keys_by_prefix ops s now p))"
    and live_antimono: "invar s \<Longrightarrow> live s t k \<Longrightarrow> t' \<le> t \<Longrightarrow> live s t' k"
    and stored_live: "invar s \<Longrightarrow> stored s t k = Some v \<Longrightarrow> live s t k"
    and contains_ans: "invar s \<Longrightarrow> fst (ts_contains ops s now k) = live s now k"
    and contains_live: "invar s \<Longrightarrow> now \<le> t \<Longrightarrow>
          live (snd (ts_contains ops s now k)) t k' = live s t k'"
    and contains_stored: "invar s \<Longrightarrow> now \<le> t \<Longrightarrow>
          stored (snd (ts_contains ops s now k)) t k' = stored s t k'"
    and get_json_ans: "invar s \<Longrightarrow> fst (ts_get_json ops s now k) = stored s now k"
    and get_json_live: "invar s \<Longrightarrow> now \<le> t \<Longrightarrow>
          live (snd (ts_get_json ops s now k)) t k' = live s t k'"
    and get_json_stored: "invar s \<Longrightarrow> now \<le> t \<Longrightarrow>
          stored (snd (ts_get_json ops s now k)) t k' = stored s t k'"
    and keys_ans: "invar s \<Longrightarrow>
          set (fst (ts_keys_by_prefix ops s now p)) = {k. live s now k \<and> prefix p k}"
    and keys_distinct: "invar s \<Longrightarrow> distinct (fst (ts_keys_by_prefix ops s now p))"
    and keys_live: "invar s \<Longrightarrow> now \<le> t \<Longrightarrow>
          live (snd (ts_keys_by_prefix ops s now p)) t k' = live s t k'"
    and keys_stored: "invar s \<Longrightarrow> now \<le> t \<Longrightarrow>
          stored (snd (ts_keys_by_prefix ops s now p)) t k' = stored s t k'"
    and add_live: "invar s \<Longrightarrow> 0 < ttl \<Longrightarrow> now \<le> t \<Longrightarrow> t < now + of_int ttl \<Longrightarrow>
          live (ts_add ops s now k ttl) t k"
    and add_expired: "invar s \<Longrightarrow> 0 < ttl \<Longrightarrow> now + of_int ttl < t \<Longrightarrow>
          \<not> live (ts_add ops s now k ttl) t k"
    and add_live_other: "invar s \<Longrightarrow> now \<le> t \<Longrightarrow> k' \<noteq> k \<Longrightarrow>
          live (ts_add ops s now k ttl) t k' = live s t k'"
    and add_stored_other: "invar s \<Longrightarrow> now \<le> t \<Longrightarrow> k' \<noteq> k \<Longrightarrow>
          stored (ts_add ops s now k ttl) t k' = stored s t k'"
    and add_json_stored: "invar s \<Longrightarrow> 0 < ttl \<Longrightarrow> now \<le> t \<Longrightarrow> t < now + of_int ttl \<Longrightarrow>
          stored (ts_add_json ops s now k v ttl) t k = Some v"
    and add_json_expired: "invar s \<Longrightarrow> 0 < ttl \<Longrightarrow> now + of_int ttl < t \<Longrightarrow>
          \<not> live (ts_add_json ops s now k v ttl) t k"
    and add_json_live_other: "invar s \<Longrightarrow> now \<le> t \<Longrightarrow> k' \<noteq> k \<Longrightarrow>
          live (ts_add_json ops s now k v ttl) t k' = live s t k'"
    and add_json_stored_other: "invar s \<Longrightarrow> now \<le> t \<Longrightarrow> k' \<noteq> k \<Longrightarrow>
          stored (ts_add_json ops s now k v ttl) t k' = stored s t k'"
    and remove_live: "invar s \<Longrightarrow> now \<le> t \<Longrightarrow>
          live (ts_remove ops s now k) t k' = (k' \<noteq> k \<and> live s t k')"
    and remove_stored: "invar s \<Longrightarrow> now \<le> t \<Longrightarrow>
          stored (ts_remove ops s now k) t k' = (if k' = k then None else stored s t k')"
begin

lemmas invar_laws = invar_add invar_contains invar_remove invar_add_json invar_get_json invar_keys

lemma stored_add_json_contains:
  assumes "invar s" "0 < ttl" "now \<le> t" "t < now + of_int ttl"
  shows "fst (ts_contains ops (ts_add_json ops s now k v ttl) t k)"
    and "fst (ts_get_json ops (ts_add_json ops s now k v ttl) t k) = Some v"
  using assms add_json_stored [OF assms] stored_live [OF invar_add_json [OF assms(1)]]
  by (simp_all add: contains_ans get_json_ans invar_add_json)

text \<open>
  A deny-list entry survives every other operation until its deadline: adding other keys,
  lookups and removals of other keys never bring a revoked identifier back early.
\<close>

lemma live_kept_by_add:
  assumes "invar s" "live s t k" "0 < ttl" "now \<le> t" "t < now + of_int ttl"
  shows "live (ts_add ops s now k' ttl) t k"
  using assms by (cases "k' = k") (auto simp: add_live add_live_other)

lemma live_kept_by_remove:
  "invar s \<Longrightarrow> live s t k \<Longrightarrow> now \<le> t \<Longrightarrow> k \<noteq> k' \<Longrightarrow> live (ts_remove ops s now k') t k"
  by (simp add: remove_live)

end

section \<open>The in-memory store keeps the contract\<close>

definition mem_live :: "mem_store \<Rightarrow> time \<Rightarrow> string \<Rightarrow> bool" where
  "mem_live s t k = (case map_of (st_expiry s) k of None \<Rightarrow> False | Some e \<Rightarrow> t \<le> e)"

definition mem_stored :: "mem_store \<Rightarrow> time \<Rightarrow> string \<Rightarrow> json_text option" where
  "mem_stored s t k = (if mem_live s t k then map_of (st_values s) k else None)"

text \<open>Both dictionaries have distinct keys, and a value never outlives its expiry entry.\<close>

definition mem_invar :: "mem_store \<Rightarrow> bool" where
  "mem_invar s \<longleftrightarrow> distinct (keys (st_expiry s)) \<and> distinct (keys (st_values s)) \<and>
     set (keys (st_values s)) \<subseteq> set (keys (st_expiry s))"

lemmas mem_abs_defs = mem_live_def mem_stored_def mem_invar_def

lemma mem_drop_sel [simp]:
  "st_expiry (mem_drop k s) = AList.delete k (st_expiry s)"
  "st_values (mem_drop k s) = AList.delete k (st_values s)"
  by (simp_all add: mem_drop_def)

lemma fold_mem_drop_sel [simp]:
  "st_expiry (fold mem_drop ks s) = fold AList.delete ks (st_expiry s)"
  "st_values (fold mem_drop ks s) = fold AList.delete ks (st_values s)"
  by (induction ks arbitrary: s) simp_all

lemma expired_keys_iff:
  assumes "distinct (keys al)"
  shows "k \<in> set (map fst (filter (\<lambda>(k, v). v < now) al)) \<longleftrightarrow>
         (\<exists>e. map_of al k = Some e \<and> e < (now :: time))"
  using assms by (force simp: image_iff)

lemma mem_prune_expiry:
  assumes "distinct (keys (st_expiry s))"
  shows "map_of (st_expiry (mem_prune s now)) k =
     (case map_of (st_expiry s) k of None \<Rightarrow> None | Some e \<Rightarrow> if e < now then None else Some e)"
  unfolding mem_prune_def Let_def fold_mem_drop_sel map_of_fold_delete expired_keys_iff [OF assms]
  by (auto split: option.splits)

lemma mem_prune_values:
  assumes "distinct (keys (st_expiry s))"
  shows "map_of (st_values (mem_prune s now)) k =
     (case map_of (st_expiry s) k of
        None \<Rightarrow> map_of (st_values s) k
      | Some e \<Rightarrow> if e < now then None else map_of (st_values s) k)"
  unfolding mem_prune_def Let_def fold_mem_drop_sel map_of_fold_delete expired_keys_iff [OF assms]
  by (auto split: option.splits)

lemma mem_invar_drop: "mem_invar s \<Longrightarrow> mem_invar (mem_drop k s)"
  by (auto simp: mem_invar_def dict_simps simp del: set_map)

lemma mem_invar_prune: "mem_invar s \<Longrightarrow> mem_invar (mem_prune s now)"
  by (auto simp: mem_invar_def mem_prune_def Let_def distinct_fold_delete keys_fold_delete
      simp del: set_map)

lemma mem_live_prune:
  "mem_invar s \<Longrightarrow> now \<le> t \<Longrightarrow> mem_live (mem_prune s now) t k = mem_live s t k"
  by (auto simp: mem_live_def mem_invar_def mem_prune_expiry split: option.splits)

lemma mem_stored_prune:
  "mem_invar s \<Longrightarrow> now \<le> t \<Longrightarrow> mem_stored (mem_prune s now) t k = mem_stored s t k"
  by (auto simp: mem_abs_defs mem_prune_expiry mem_prune_values split: option.splits)

lemma mem_live_drop: "mem_live (mem_drop k s) t k' = (k' \<noteq> k \<and> mem_live s t k')"
  by (simp add: mem_live_def dict_simps)

lemma mem_stored_drop: "mem_stored (mem_drop k s) t k' = (if k' = k then None else mem_stored s t k')"
  by (simp add: mem_stored_def mem_live_drop dict_simps)

lemma mem_invar_update_expiry:
  "mem_invar s \<Longrightarrow> mem_invar (s\<lparr>st_expiry := AList.update k e (st_expiry s)\<rparr>)"
  by (auto simp: mem_invar_def dict_simps simp del: set_map)

lemma mem_invar_update_both:
  "mem_invar s \<Longrightarrow> mem_invar (s\<lparr>st_expiry := AList.update k e (st_expiry s),
     st_values := AList.update k v (st_values s)\<rparr>)"
  by (auto simp: mem_invar_def dict_simps simp del: set_map)

lemma mem_contains_cases:
  "mem_contains s now k = (mem_live s now k, if mem_live s now k \<or> map_of (st_expiry s) k = None
     then s else mem_drop k s)"
  by (auto simp: mem_contains_def mem_live_def split: option.splits)

lemma mem_get_json_eq:
  "mem_get_json s now k = (mem_stored s now k, snd (mem_contains s now k))"
  by (simp add: mem_get_json_def mem_contains_cases mem_stored_def)

lemma mem_contains_frame:
  assumes "now \<le> t"
  shows "mem_live (snd (mem_contains s now k)) t k' = mem_live s t k'"
    and "mem_stored (snd (mem_contains s now k)) t k' = mem_stored s t k'"
  using assms
  by (auto simp: mem_contains_cases mem_live_drop mem_stored_drop mem_abs_defs dict_simps split: option.splits)

lemma mem_keys_eq:
  assumes "mem_invar s"
  shows "set (fst (mem_keys_by_prefix s now p)) = {k. mem_live s now k \<and> prefix p k}"
proof -
  have "k \<in> set (keys (st_expiry (mem_prune s now))) \<longleftrightarrow> mem_live s now k" for k
  proof -
    have "k \<in> set (keys (st_expiry (mem_prune s now))) \<longleftrightarrow>
        map_of (st_expiry (mem_prune s now)) k \<noteq> None"
      by (metis dom_map_of_conv_image_fst domIff set_map)
    also have "\<dots> \<longleftrightarrow> mem_live s now k"
      using assms by (auto simp: mem_live_def mem_invar_def mem_prune_expiry split: option.splits)
    finally show ?thesis .
  qed
  then show ?thesis by (auto simp: mem_keys_by_prefix_def Let_def simp del: set_map)
qed

lemma mem_add_abs:
  assumes "mem_invar s" "now \<le> t"
  shows "mem_live (mem_add s now k ttl) t k' = (if k' = k then t \<le> now + of_int ttl else mem_live s t k')"
    and "k' \<noteq> k \<Longrightarrow> mem_stored (mem_add s now k ttl) t k' = mem_stored s t k'"
  using assms unfolding mem_add_def mem_live_prune [OF mem_invar_update_expiry [OF assms(1)] assms(2)]
    mem_stored_prune [OF mem_invar_update_expiry [OF assms(1)] assms(2)]
  by (simp_all add: mem_live_def mem_stored_def dict_simps)

lemma mem_add_json_abs:
  assumes "mem_invar s" "now \<le> t"
  shows "mem_live (mem_add_json s now k v ttl) t k' =
           (if k' = k then t \<le> now + of_int ttl else mem_live s t k')"
    and "mem_stored (mem_add_json s now k v ttl) t k' =
           (if k' = k then (if t \<le> now + of_int ttl then Some v else None) else mem_stored s t k')"
  using assms unfolding mem_add_json_def
    mem_live_prune [OF mem_invar_update_both [OF assms(1)] assms(2)]
    mem_stored_prune [OF mem_invar_update_both [OF assms(1)] assms(2)]
  by (simp_all add: mem_live_def mem_stored_def dict_simps)

lemma mem_invar_ops:
  assumes "mem_invar s"
  shows "mem_invar (mem_add s now k ttl)" "mem_invar (mem_add_json s now k v ttl)"
    "mem_invar (snd (mem_contains s now k))" "mem_invar (mem_remove s now k)"
    "mem_invar (snd (mem_get_json s now k))" "mem_invar (snd (mem_keys_by_prefix s now p))"
  using assms
  by (simp_all add: mem_add_def mem_add_json_def mem_contains_cases mem_remove_def mem_get_json_eq
      mem_keys_by_prefix_def Let_def mem_invar_prune mem_invar_drop mem_invar_update_expiry
      mem_invar_update_both)

lemma mem_keys_frame:
  assumes "mem_invar s"
  shows "distinct (fst (mem_keys_by_prefix s now p))"
    and "now \<le> t \<Longrightarrow> mem_live (snd (mem_keys_by_prefix s now p)) t k = mem_live s t k"
    and "now \<le> t \<Longrightarrow> mem_stored (snd (mem_keys_by_prefix s now p)) t k = mem_stored s t k"
  using assms mem_invar_prune [OF assms, of now]
  by (simp_all add: mem_keys_by_prefix_def Let_def mem_live_prune mem_stored_prune mem_invar_def)

lemma mem_remove_abs:
  "mem_live (mem_remove s now k) t k' = (k' \<noteq> k \<and> mem_live s t k')"
  "mem_stored (mem_remove s now k) t k' = (if k' = k then None else mem_stored s t k')"
  by (simp_all add: mem_remove_def mem_live_drop mem_stored_drop)

lemma mem_get_json_frame:
  assumes "now \<le> t"
  shows "mem_live (snd (mem_get_json s now k)) t k' = mem_live s t k'"
    and "mem_stored (snd (mem_get_json s now k)) t k' = mem_stored s t k'"
  using assms by (simp_all add: mem_get_json_eq mem_contains_frame)

lemma mem_abs_mono:
  "mem_live s t k \<Longrightarrow> t' \<le> t \<Longrightarrow> mem_live s t' k"
  "mem_stored s t k = Some v \<Longrightarrow> mem_live s t k"
  by (auto simp: mem_live_def mem_stored_def split: option.splits if_splits)

lemmas mem_contract = mem_add_abs mem_add_json_abs mem_invar_ops mem_keys_eq mem_keys_frame
  mem_remove_abs mem_get_json_frame mem_contains_frame

interpretation mem: token_store mem_ops mem_live mem_stored mem_invar
  by unfold_locales
     (auto simp: mem_ops_def mem_contract mem_contains_cases [THEN arg_cong [of _ _ fst]]
        mem_get_json_eq [THEN arg_cong [of _ _ fst]] past_deadline
      dest: mem_abs_mono)

lemma mem_invar_init: "mem_invar mem_init"
  by (simp add: mem_invar_def mem_init_def)

section \<open>The Redis store keeps the contract while the server does\<close>

text \<open>
  \<open>redis_laws c view ok\<close>: on a reachable server (\<open>ok\<close>) no command raises, and the commands
  act on the visible keys as their documentation says. \<open>view r t k\<close> is what \<open>GET k\<close> would
  answer at time \<open>t\<close>: \<open>SETEX\<close> makes a key visible for exactly \<open>ttl\<close> seconds and rejects a
  non-positive \<open>ttl\<close>, \<open>DEL\<close> removes it, reads change nothing, \<open>KEYS\<close> lists the visible
  keys with the given literal prefix.
\<close>

definition redis_laws ::
    "'r redis_client \<Rightarrow> ('r \<Rightarrow> time \<Rightarrow> string \<Rightarrow> json_text option) \<Rightarrow> ('r \<Rightarrow> bool) \<Rightarrow> bool" where
  "redis_laws c view ok \<longleftrightarrow>
     (\<forall>r t t' k v. ok r \<longrightarrow> view r t k = Some v \<longrightarrow> t' \<le> t \<longrightarrow> view r t' k = Some v) \<and>
     (\<forall>r now k ttl v. ok r \<longrightarrow> ok (snd (r_setex c r now k ttl v)) \<and>
        (\<forall>t k'. now \<le> t \<longrightarrow> view (snd (r_setex c r now k ttl v)) t k' =
           (if k' = k \<and> 0 < ttl then (if t < now + of_int ttl then Some v else None)
            else view r t k'))) \<and>
     (\<forall>r now k. ok r \<longrightarrow> ok (snd (r_delete c r now k)) \<and>
        (\<forall>t k'. now \<le> t \<longrightarrow> view (snd (r_delete c r now k)) t k' =
           (if k' = k then None else view r t k'))) \<and>
     (\<forall>r now k. ok r \<longrightarrow>
        fst (r_exists c r now k) = Some (if view r now k = None then 0 else 1) \<and>
        ok (snd (r_exists c r now k)) \<and>
        (\<forall>t k'. now \<le> t \<longrightarrow> view (snd (r_exists c r now k)) t k' = view r t k')) \<and>
     (\<forall>r now k. ok r \<longrightarrow>
        fst (r_get c r now k) = Some (view r now k) \<and> ok (snd (r_get c r now k)) \<and>
        (\<forall>t k'. now \<le> t \<longrightarrow> view (snd (r_get c r now k)) t k' = view r t k')) \<and>
     (\<forall>r now p. ok r \<longrightarrow>
        (\<exists>raw. fst (r_keys c r now p) = Some raw \<and> distinct raw \<and>
           set raw = {k. view r now k \<noteq> None \<and> prefix p k}) \<and>
        ok (snd (r_keys c r now p)) \<and>
        (\<forall>t k'. now \<le> t \<longrightarrow> view (snd (r_keys c r now p)) t k' = view r t k'))"

lemma redis_lawsD:
  assumes "redis_laws c view ok" "ok r"
  shows redis_antimono: "view r t k = Some v \<Longrightarrow> t' \<le> t \<Longrightarrow> view r t' k = Some v"
    and redis_setex_ok: "ok (snd (r_setex c r now k ttl v))"
    and redis_setex: "now \<le> t \<Longrightarrow> view (snd (r_setex c r now k ttl v)) t k' =
           (if k' = k \<and> 0 < ttl then (if t < now + of_int ttl then Some v else None)
            else view r t k')"
    and redis_delete_ok: "ok (snd (r_delete c r now k))"
    and redis_delete: "now \<le> t \<Longrightarrow> view (snd (r_delete c r now k)) t k' =
           (if k' = k then None else view r t k')"
    and redis_exists_ans: "fst (r_exists c r now k) = Some (if view r now k = None then 0 else 1)"
    and redis_exists_ok: "ok (snd (r_exists c r now k))"
    and redis_exists: "now \<le> t \<Longrightarrow> view (snd (r_exists c r now k)) t k' = view r t k'"
    and redis_get_ans: "fst (r_get c r now k) = Some (view r now k)"
    and redis_get_ok: "ok (snd (r_get c r now k))"
    and redis_get: "now \<le> t \<Longrightarrow> view (snd (r_get c r now k)) t k' = view r t k'"
    and redis_keys_ok: "ok (snd (r_keys c r now p))"
    and redis_keys: "now \<le> t \<Longrightarrow> view (snd (r_keys c r now p)) t k' = view r t k'"
    and redis_keys_ans: "\<exists>raw. fst (r_keys c r now p) = Some raw \<and> distinct raw \<and>
           set raw = {k. view r now k \<noteq> None \<and> prefix p k}"
proof -
  note L = assms(1) [unfolded redis_laws_def]
  note L1 = L [THEN conjunct1] note R1 = L [THEN conjunct2]
  note L2 = R1 [THEN conjunct1] note R2 = R1 [THEN conjunct2]
  note L3 = R2 [THEN conjunct1] note R3 = R2 [THEN conjunct2]
  note L4 = R3 [THEN conjunct1] note R4 = R3 [THEN conjunct2]
  note L5 = R4 [THEN conjunct1] note L6 = R4 [THEN conjunct2]
  show "view r t k = Some v \<Longrightarrow> t' \<le> t \<Longrightarrow> view r t' k = Some v"
    using L1 assms(2) by blast
  show "ok (snd (r_setex c r now k ttl v))"
    and "now \<le> t \<Longrightarrow> view (snd (r_setex c r now k ttl v)) t k' =
           (if k' = k \<and> 0 < ttl then (if t < now + of_int ttl then Some v else None)
            else view r t k')"
    using L2 assms(2) by blast+
  show "ok (snd (r_delete c r now k))"
    and "now \<le> t \<Longrightarrow> view (snd (r_delete c r now k)) t k' = (if k' = k then None else view r t k')"
    using L3 assms(2) by blast+
  show "fst (r_exists c r now k) = Some (if view r now k = None then 0 else 1)"
    and "ok (snd (r_exists c r now k))"
    and "now \<le> t \<Longrightarrow> view (snd (r_exists c r now k)) t k' = view r t k'"
    using L4 assms(2) by blast+
  show "fst (r_get c r now k) = Some (view r now k)" and "ok (snd (r_get c r now k))"
    and "now \<le> t \<Longrightarrow> view (snd (r_get c r now k)) t k' = view r t k'"
    using L5 assms(2) by blast+
  show "ok (snd (r_keys c r now p))"
    and "now \<le> t \<Longrightarrow> view (snd (r_keys c r now p)) t k' = view r t k'"
    and "\<exists>raw. fst (r_keys c r now p) = Some raw \<and> distinct raw \<and>
           set raw = {k. view r now k \<noteq> None \<and> prefix p k}"
    using L6 assms(2) by blast+
qed

lemma redis_contains_eq:
  assumes "redis_laws c view ok" "ok r"
  shows "redis_contains c pfx r now k = (view r now (pfx @ k) \<noteq> None, snd (r_exists c r now (pfx @ k)))"
  using redis_exists_ans [OF assms, of now "pfx @ k"]
  by (cases "r_exists c r now (pfx @ k)") (simp add: redis_contains_def)

lemma redis_get_json_eq:
  assumes "redis_laws c view ok" "ok r"
  shows "redis_get_json c pfx r now k = (view r now (pfx @ k), snd (r_get c r now (pfx @ k)))"
  using redis_get_ans [OF assms, of now "pfx @ k"]
  by (cases "r_get c r now (pfx @ k)") (simp add: redis_get_json_def)

lemma redis_keys_eq:
  assumes "redis_laws c view ok" "ok r"
  shows "set (fst (redis_keys_by_prefix c pfx r now p)) = {k. view r now (pfx @ k) \<noteq> None \<and> prefix p k}"
    and "distinct (fst (redis_keys_by_prefix c pfx r now p))"
    and "snd (redis_keys_by_prefix c pfx r now p) = snd (r_keys c r now (pfx @ p))"
proof -
  obtain raw where raw: "fst (r_keys c r now (pfx @ p)) = Some raw" "distinct raw"
    "set raw = {k. view r now k \<noteq> None \<and> prefix (pfx @ p) k}"
    using redis_keys_ans [OF assms] by blast
  have eq: "redis_keys_by_prefix c pfx r now p =
      (map (drop (length pfx)) raw, snd (r_keys c r now (pfx @ p)))"
    using raw(1) by (cases "r_keys c r now (pfx @ p)") (simp add: redis_keys_by_prefix_def)
  have img: "drop (length pfx) ` set raw = {k. view r now (pfx @ k) \<noteq> None \<and> prefix p k}"
    unfolding raw(3) by (force simp: prefix_def image_iff)
  have "inj_on (drop (length pfx)) (set raw)"
    unfolding raw(3) by (auto simp: inj_on_def prefix_def)
  then show "distinct (fst (redis_keys_by_prefix c pfx r now p))"
    using raw(2) by (simp add: eq distinct_map)
  show "set (fst (redis_keys_by_prefix c pfx r now p)) = {k. view r now (pfx @ k) \<noteq> None \<and> prefix p k}"
    by (simp add: eq img)
  show "snd (redis_keys_by_prefix c pfx r now p) = snd (r_keys c r now (pfx @ p))"
    by (simp add: eq)
qed

lemma redis_token_store:
  assumes laws: "redis_laws c view ok"
  shows "token_store (redis_ops c pfx) (\<lambda>r t k. view r t (pfx @ k) \<noteq> None)
           (\<lambda>r t k. view r t (pfx @ k)) ok"
proof -
  have conts: "fst (redis_contains c pfx r now k) = (view r now (pfx @ k) \<noteq> None)"
    "snd (redis_contains c pfx r now k) = snd (r_exists c r now (pfx @ k))"
    "fst (redis_get_json c pfx r now k) = view r now (pfx @ k)"
    "snd (redis_get_json c pfx r now k) = snd (r_get c r now (pfx @ k))" if "ok r" for r now k
    using redis_contains_eq [OF laws that] redis_get_json_eq [OF laws that] by simp_all
  note anti = redis_antimono [OF laws]
  note laws_simps = redis_setex_ok [OF laws] redis_setex [OF laws] redis_delete_ok [OF laws]
    redis_delete [OF laws] redis_exists_ok [OF laws] redis_exists [OF laws] redis_get_ok [OF laws]
    redis_get [OF laws] redis_keys_ok [OF laws] redis_keys [OF laws] redis_keys_eq [OF laws] conts
  show ?thesis
    by unfold_locales
       (auto simp: redis_ops_def redis_add_def redis_add_json_def redis_remove_def laws_simps
          past_deadline dest: anti)
qed

text \<open>
  A reference server: an association list from keys to their deadline and text. It obeys
  the laws, so the hypothesis of the Redis theorems can hold.
\<close>

type_synonym ref_server = "(string \<times> (time \<times> json_text)) list"

definition ref_view :: "ref_server \<Rightarrow> time \<Rightarrow> string \<Rightarrow> json_text option" where
  "ref_view r t k = (case map_of r k of None \<Rightarrow> None | Some (d, v) \<Rightarrow> if t < d then Some v else None)"

definition ref_redis :: "ref_server redis_client" where
  "ref_redis =
     \<lparr>r_setex = (\<lambda>r now k ttl v.
          if 0 < ttl then (Some (), AList.update k (now + of_int ttl, v) r) else (None, r)),
      r_exists = (\<lambda>r now k. (Some (if ref_view r now k = None then 0 else 1), r)),
      r_delete = (\<lambda>r now k. (Some (), AList.delete k r)),
      r_get = (\<lambda>r now k. (Some (ref_view r now k), r)),
      r_keys = (\<lambda>r now p. (Some (filter (\<lambda>k. ref_view r now k \<noteq> None \<and> prefix p k) (keys r)), r)),
      r_ping = (\<lambda>r now. Some True)\<rparr>"

definition ref_ok :: "ref_server \<Rightarrow> bool" where
  "ref_ok r \<longleftrightarrow> distinct (keys r)"

lemma ref_view_in_keys: "ref_view r t k \<noteq> None \<Longrightarrow> k \<in> fst ` set r"
  by (auto simp: ref_view_def dest: map_of_SomeD split: option.splits intro: rev_image_eqI)

lemma ref_redis_laws: "redis_laws ref_redis ref_view ref_ok"
  unfolding redis_laws_def
proof (intro conjI allI impI, goal_cases)
  case (1 r t t' k v)
  then show ?case by (auto simp: ref_view_def split: option.splits if_splits)
next
  case (12 r now p)
  have "set (filter (\<lambda>k. ref_view r now k \<noteq> None \<and> prefix p k) (keys r)) =
      {k. ref_view r now k \<noteq> None \<and> prefix p k}"
    using ref_view_in_keys [of r now] by auto
  with 12 show ?case by (simp add: ref_redis_def ref_ok_def)
qed (auto simp: ref_redis_def ref_ok_def ref_view_def dict_simps split: option.splits)

section \<open>The abstract store: a map from keys to deadlines\<close>

text \<open>
  Commands as a client issues them, with the clock reading of each. The specification keeps
  a map from keys to deadlines and never prunes; the stores prune lazily.
\<close>

datatype store_cmd =
    CmdAdd string int
  | CmdAddJson string json_text int
  | CmdContains string
  | CmdRemove string
  | CmdGetJson string
  | CmdKeys string

fun exec_cmd :: "'s token_store_ops \<Rightarrow> 's \<Rightarrow> time \<Rightarrow> store_cmd \<Rightarrow> 's" where
  "exec_cmd ops s now (CmdAdd k ttl) = ts_add ops s now k ttl"
| "exec_cmd ops s now (CmdAddJson k v ttl) = ts_add_json ops s now k v ttl"
| "exec_cmd ops s now (CmdContains k) = snd (ts_contains ops s now k)"
| "exec_cmd ops s now (CmdRemove k) = ts_remove ops s now k"
| "exec_cmd ops s now (CmdGetJson k) = snd (ts_get_json ops s now k)"
| "exec_cmd ops s now (CmdKeys p) = snd (ts_keys_by_prefix ops s now p)"

fun exec_cmds :: "'s token_store_ops \<Rightarrow> 's \<Rightarrow> (time \<times> store_cmd) list \<Rightarrow> 's" where
  "exec_cmds ops s [] = s"
| "exec_cmds ops s ((now, c) # cs) = exec_cmds ops (exec_cmd ops s now c) cs"

fun spec_cmd :: "(string \<rightharpoonup> time) \<Rightarrow> time \<Rightarrow> store_cmd \<Rightarrow> (string \<rightharpoonup> time)" where
  "spec_cmd m now (CmdAdd k ttl) = m(k \<mapsto> now + of_int ttl)"
| "spec_cmd m now (CmdAddJson k v ttl) = m(k \<mapsto> now + of_int ttl)"
| "spec_cmd m now (CmdRemove k) = m(k := None)"
| "spec_cmd m now _ = m"

fun spec_cmds :: "(string \<rightharpoonup> time) \<Rightarrow> (time \<times> store_cmd) list \<Rightarrow> (string \<rightharpoonup> time)" where
  "spec_cmds m [] = m"
| "spec_cmds m ((now, c) # cs) = spec_cmds (spec_cmd m now c) cs"

definition held :: "(string \<rightharpoonup> time) \<Rightarrow> time \<Rightarrow> string \<Rightarrow> bool" where
  "held m t k = (case m k of None \<Rightarrow> False | Some d \<Rightarrow> t \<le> d)"

lemma exec_cmd_refines:
  assumes "mem_invar s" and "\<And>u k. now \<le> u \<Longrightarrow> mem_live s u k = held m u k"
  shows "mem_invar (exec_cmd mem_ops s now c)"
    and "now \<le> u \<Longrightarrow> mem_live (exec_cmd mem_ops s now c) u k = held (spec_cmd m now c) u k"
  using assms by (cases c; simp add: mem_ops_def mem_contract held_def)+

lemma exec_cmds_refines:
  assumes "mem_invar s" and "sorted (map fst cs @ [t])"
    and "\<And>u k. \<forall>now \<in> set (take 1 (map fst cs @ [t])). now \<le> u \<Longrightarrow> mem_live s u k = held m u k"
  shows "mem_invar (exec_cmds mem_ops s cs) \<and>
    mem_live (exec_cmds mem_ops s cs) t k = held (spec_cmds m cs) t k"
  using assms
proof (induction cs arbitrary: s m)
  case Nil
  then show ?case by simp
next
  case (Cons c cs)
  obtain now cmd where c: "c = (now, cmd)" by force
  from Cons.prems c have agree: "\<And>u k. now \<le> u \<Longrightarrow> mem_live s u k = held m u k"
    and later: "\<forall>u \<in> set (map fst cs @ [t]). now \<le> u" and srt: "sorted (map fst cs @ [t])"
    by auto
  have next_le: "now \<le> u" if "\<forall>w \<in> set (take 1 (map fst cs @ [t])). w \<le> u" for u
  proof -
    obtain w where w: "w \<in> set (take 1 (map fst cs @ [t]))" by (cases cs) auto
    then have "now \<le> w" using later by (blast dest: in_set_takeD)
    also have "w \<le> u" using that w by blast
    finally show ?thesis .
  qed
  show ?case
    unfolding c exec_cmds.simps spec_cmds.simps
    using exec_cmd_refines [OF Cons.prems(1) agree] next_le
    by (intro Cons.IH srt) auto
qed

text \<open>
  C2: The in-memory store refines a map from keys to deadlines: after any sequence of
  commands issued with a monotone clock, a lookup answers whether the last write of the key
  is still within its time-to-live, however the lazy pruning interleaved with it.
\<close>

theorem mem_store_refines_deadline_map:
  assumes "sorted (map fst cs @ [t])"
  shows "fst (ts_contains mem_ops (exec_cmds mem_ops mem_init cs) t k) = held (spec_cmds Map.empty cs) t k"
proof -
  have "mem_live mem_init u k' = held Map.empty u k'" for u k'
    by (simp add: mem_live_def mem_init_def held_def)
  then have "mem_invar (exec_cmds mem_ops mem_init cs) \<and>
      mem_live (exec_cmds mem_ops mem_init cs) t k = held (spec_cmds Map.empty cs) t k"
    by (intro exec_cmds_refines mem_invar_init assms)
  then show ?thesis by (simp add: mem.contains_ans)
qed

theorem mem_store_refines_deadline_map_witness:
  "fst (ts_contains mem_ops (exec_cmds mem_ops mem_init
      [(0, CmdAdd ''a'' 10), (1, CmdAdd ''b'' 5), (7, CmdKeys ''a''), (8, CmdRemove ''b'')]) 9 ''a'') =
     held (spec_cmds Map.empty
      [(0, CmdAdd ''a'' 10), (1, CmdAdd ''b'' 5), (7, CmdKeys ''a''), (8, CmdRemove ''b'')]) 9 ''a'' \<and>
   held (spec_cmds Map.empty
      [(0, CmdAdd ''a'' 10), (1, CmdAdd ''b'' 5), (7, CmdKeys ''a''), (8, CmdRemove ''b'')]) 9 ''a''"
  by (rule conjI, rule mem_store_refines_deadline_map) (simp_all add: held_def)

end
