(* ===== verification/Auth_Tokens.thy ===== *)
theory Auth_Tokens
  imports Token_Store
begin

text \<open>
  \<open>auth/tokens.py\<close>, \<open>auth/password.py\<close> and \<open>auth/service.py\<close>: JWT creation, validation
  and revocation over a token store, the password rules, and the session records
  \<open>AuthService\<close> keeps next to the deny-list. The JWT library is a parameter
  (\<open>jwt_lib\<close>) with its documented behaviour as the hypothesis \<open>jwt_laws\<close>; the lemmas on
  revocation are proved once from the \<open>token_store\<close> contract and hold for both back ends.
\<close>

section \<open>The JWT library\<close>

text \<open>
  A decoded payload: \<^const>\<open>None\<close> for a claim that is absent or null. The library stores
  \<open>iat\<close> and \<open>exp\<close> as whole seconds.
\<close>

record jwt_payload =
  p_sub :: "string option"
  p_email :: "string option"
  p_role :: "string option"
  p_subscription_tier :: "string option"
  p_subscription_status :: "string option"
  p_usage_remaining :: "int option"
  p_type :: "string option"
  p_jti :: "string option"
  p_iat :: int
  p_exp :: int

record jwt_lib =
  jwt_encode :: "jwt_payload \<Rightarrow> string \<Rightarrow> string"
  jwt_decode :: "string \<Rightarrow> string \<Rightarrow> time \<Rightarrow> jwt_payload option"

text \<open>
  \<open>jwt.decode\<close> returns \<^const>\<open>None\<close> where it raises \<open>JWTError\<close>. Documented behaviour:
  decoding inverts encoding under the same key until the whole second \<open>exp\<close> has passed,
  and the clock matters for nothing but expiry.
\<close>

definition jwt_laws :: "jwt_lib \<Rightarrow> bool" where
  "jwt_laws J \<longleftrightarrow>
     (\<forall>p key now. jwt_decode J (jwt_encode J p key) key now =
        (if \<lfloor>now\<rfloor> \<le> p_exp p then Some p else None)) \<and>
     (\<forall>tok key now p. jwt_decode J tok key now = Some p \<longrightarrow>
        (\<forall>now'. jwt_decode J tok key now' = (if \<lfloor>now'\<rfloor> \<le> p_exp p then Some p else None)))"

lemma jwt_roundtrip:
  "jwt_laws J \<Longrightarrow> jwt_decode J (jwt_encode J p key) key now =
     (if \<lfloor>now\<rfloor> \<le> p_exp p then Some p else None)"
  by (simp add: jwt_laws_def)

lemma jwt_stable:
  "jwt_laws J \<Longrightarrow> jwt_decode J tok key now = Some p \<Longrightarrow>
     jwt_decode J tok key now' = (if \<lfloor>now'\<rfloor> \<le> p_exp p then Some p else None)"
  by (simp add: jwt_laws_def)

section \<open>tokens.py\<close>

definition ACCESS_TOKEN_TYPE :: string where "ACCESS_TOKEN_TYPE = ''access''"
definition REFRESH_TOKEN_TYPE :: string where "REFRESH_TOKEN_TYPE = ''refresh''"

text \<open>The fresh identifier of \<open>uuid.uuid4()\<close> and the clock reading are arguments.\<close>

definition create_access_token ::
    "jwt_lib \<Rightarrow> string \<Rightarrow> time \<Rightarrow> string \<Rightarrow> string \<Rightarrow> string \<Rightarrow> string \<Rightarrow> int \<Rightarrow>
     string \<Rightarrow> string \<Rightarrow> int option \<Rightarrow> string" where
  "create_access_token J uuid4 now user_id email role secret_key expire_minutes
     subscription_tier subscription_status usage_remaining =
     jwt_encode J
       \<lparr>p_sub = Some user_id, p_email = Some email, p_role = Some role,
        p_subscription_tier = Some subscription_tier,
        p_subscription_status = Some subscription_status,
        p_usage_remaining = usage_remaining,
        p_type = Some ACCESS_TOKEN_TYPE, p_jti = Some uuid4,
        p_iat = \<lfloor>now\<rfloor>, p_exp = \<lfloor>now + of_int (expire_minutes * 60)\<rfloor>\<rparr> secret_key"

definition create_refresh_token ::
    "jwt_lib \<Rightarrow> string \<Rightarrow> time \<Rightarrow> string \<Rightarrow> string \<Rightarrow> int \<Rightarrow> string" where
  "create_refresh_token J uuid4 now user_id secret_key expire_days =
     jwt_encode J
       \<lparr>p_sub = Some user_id, p_email = None, p_role = None,
        p_subscription_tier = None, p_subscription_status = None, p_usage_remaining = None,
        p_type = Some REFRESH_TOKEN_TYPE, p_jti = Some uuid4,
        p_iat = \<lfloor>now\<rfloor>, p_exp = \<lfloor>now + of_int (expire_days * 86400)\<rfloor>\<rparr> secret_key"

definition jti_of :: "jwt_payload \<Rightarrow> string" where
  "jti_of payload = (case p_jti payload of None \<Rightarrow> [] | Some j \<Rightarrow> j)"

definition show_claim :: "string option \<Rightarrow> string" where
  "show_claim c = (case c of None \<Rightarrow> ''None'' | Some x \<Rightarrow> x)"

definition wrong_type_detail :: "string option \<Rightarrow> string option \<Rightarrow> string" where
  "wrong_type_detail expected got =
     ''Expected token type '' @ [CHR 0x27] @ show_claim expected @ [CHR 0x27] @ '', got ''
       @ [CHR 0x27] @ show_claim got @ [CHR 0x27]"

definition decode_token ::
    "jwt_lib \<Rightarrow> 's token_store_ops \<Rightarrow> 's \<Rightarrow> time \<Rightarrow> string \<Rightarrow> string \<Rightarrow> string option \<Rightarrow>
     jwt_payload result \<times> 's" where
  "decode_token J store s now token secret_key expected_type =
     (case jwt_decode J token secret_key now of
        None \<Rightarrow> (Inl (HTTPException 401 ''Invalid or expired token''), s)
      | Some payload \<Rightarrow>
          (let jti = jti_of payload;
               (revoked, s') = (if jti \<noteq> [] then ts_contains store s now jti else (False, s))
           in if revoked then (Inl (HTTPException 401 ''Token has been revoked''), s')
              else if truthy_str expected_type \<and> p_type payload \<noteq> expected_type then
                (Inl (HTTPException 401 (wrong_type_detail expected_type (p_type payload))), s')
              else (Inr payload, s')))"

definition tok_revoke_refresh_token ::
    "jwt_lib \<Rightarrow> 's token_store_ops \<Rightarrow> 's \<Rightarrow> time \<Rightarrow> string \<Rightarrow> string \<Rightarrow> int \<Rightarrow> 's" where
  "tok_revoke_refresh_token J store s now token secret_key refresh_expire_days =
     (case jwt_decode J token secret_key now of
        None \<Rightarrow> s
      | Some payload \<Rightarrow>
          (let jti = jti_of payload in
           if jti \<noteq> [] then
             (let ttl = refresh_expire_days * 86400 in ts_add store s now jti ttl)
           else s))"

definition tok_is_token_revoked ::
    "jwt_lib \<Rightarrow> 's token_store_ops \<Rightarrow> 's \<Rightarrow> time \<Rightarrow> string \<Rightarrow> string \<Rightarrow> bool \<times> 's" where
  "tok_is_token_revoked J store s now token secret_key =
     (case jwt_decode J token secret_key now of
        None \<Rightarrow> (True, s)
      | Some payload \<Rightarrow> ts_contains store s now (jti_of payload))"

section \<open>password.py\<close>

text \<open>Hashing and checking are bcrypt's; the strength rules are the repository's own.\<close>

definition validate_password_strength :: "string \<Rightarrow> unit result" where
  "validate_password_strength password =
     (if length password < 8 then
        Inl (HTTPException 400 ''Password must be at least 8 characters.'')
      else if \<not> list_ex is_digit password then
        Inl (HTTPException 400 ''Password must contain at least one digit.'')
      else if \<not> list_ex is_upper password then
        Inl (HTTPException 400 ''Password must contain at least one uppercase letter.'')
      else if \<not> list_ex (\<lambda>c. \<not> is_alnum c) password then
        Inl (HTTPException 400 ''Password must contain at least one special character.'')
      else Inr ())"

section \<open>service.py\<close>

record auth_service =
  svc_secret_key :: string
  svc_access_expire_minutes :: int
  svc_refresh_expire_days :: int

definition AuthService :: "string \<Rightarrow> int \<Rightarrow> int \<Rightarrow> auth_service result" where
  "AuthService secret_key access_expire_minutes refresh_expire_days =
     (if secret_key = [] \<or> length secret_key < 32 then
        Inl (ValueError ''JWT_SECRET_KEY must be at least 32 characters.'')
      else Inr \<lparr>svc_secret_key = secret_key,
                svc_access_expire_minutes = access_expire_minutes,
                svc_refresh_expire_days = refresh_expire_days\<rparr>)"

definition svc_create_access_token ::
    "jwt_lib \<Rightarrow> auth_service \<Rightarrow> string \<Rightarrow> time \<Rightarrow> string \<Rightarrow> string \<Rightarrow> string \<Rightarrow> string \<Rightarrow>
     string \<Rightarrow> int option \<Rightarrow> string" where
  "svc_create_access_token J svc uuid4 now user_id email role tier status usage_remaining =
     create_access_token J uuid4 now user_id email role (svc_secret_key svc)
       (svc_access_expire_minutes svc) tier status usage_remaining"

definition svc_create_refresh_token ::
    "jwt_lib \<Rightarrow> auth_service \<Rightarrow> string \<Rightarrow> time \<Rightarrow> string \<Rightarrow> string" where
  "svc_create_refresh_token J svc uuid4 now user_id =
     create_refresh_token J uuid4 now user_id (svc_secret_key svc) (svc_refresh_expire_days svc)"

definition svc_decode_token ::
    "jwt_lib \<Rightarrow> 's token_store_ops \<Rightarrow> auth_service \<Rightarrow> 's \<Rightarrow> time \<Rightarrow> string \<Rightarrow> string option \<Rightarrow>
     jwt_payload result \<times> 's" where
  "svc_decode_token J store svc s now token expected_type =
     decode_token J store s now token (svc_secret_key svc) expected_type"

definition svc_revoke_refresh_token ::
    "jwt_lib \<Rightarrow> 's token_store_ops \<Rightarrow> auth_service \<Rightarrow> 's \<Rightarrow> time \<Rightarrow> string \<Rightarrow> 's" where
  "svc_revoke_refresh_token J store svc s now token =
     tok_revoke_refresh_token J store s now token (svc_secret_key svc) (svc_refresh_expire_days svc)"

definition svc_is_token_revoked ::
    "jwt_lib \<Rightarrow> 's token_store_ops \<Rightarrow> auth_service \<Rightarrow> 's \<Rightarrow> time \<Rightarrow> string \<Rightarrow> bool \<times> 's" where
  "svc_is_token_revoked J store svc s now token =
     tok_is_token_revoked J store s now token (svc_secret_key svc)"

definition session_prefix :: "string \<Rightarrow> string" where
  "session_prefix user_id = ''session:'' @ user_id @ '':''"

definition session_key :: "string \<Rightarrow> string \<Rightarrow> string" where
  "session_key user_id jti = ''session:'' @ user_id @ '':'' @ jti"

definition session_ttl :: "auth_service \<Rightarrow> int" where
  "session_ttl svc = svc_refresh_expire_days svc * 86400"

definition register_session ::
    "jwt_lib \<Rightarrow> 's token_store_ops \<Rightarrow> auth_service \<Rightarrow> 's \<Rightarrow> time \<Rightarrow> string \<Rightarrow> string \<Rightarrow>
     string \<Rightarrow> string \<Rightarrow> 's" where
  "register_session J store svc s now user_id refresh_token ip agent =
     (case jwt_decode J refresh_token (svc_secret_key svc) now of
        None \<Rightarrow> s
      | Some payload \<Rightarrow>
          (let jti = jti_of payload in
           if jti = [] then s
           else
             (let meta = Dumped \<lparr>session_id = jti, meta_user_id = user_id, ip_address = ip,
                           user_agent = agent, created_at = now, last_activity_at = now\<rparr>;
                  ttl = session_ttl svc;
                  key = session_key user_id jti
              in ts_add_json store s now key meta ttl)))"

fun list_sessions_loop ::
    "'s token_store_ops \<Rightarrow> time \<Rightarrow> string list \<Rightarrow> session_meta list \<Rightarrow> 's \<Rightarrow>
     session_meta list \<times> 's" where
  "list_sessions_loop store now [] sessions s = (sessions, s)"
| "list_sessions_loop store now (k # ks) sessions s =
     (let (raw, s') = ts_get_json store s now k in
      if truthy_text raw then
        (case json_loads (the raw) of
           Inr m \<Rightarrow> list_sessions_loop store now ks (sessions @ [m]) s'
         | Inl _ \<Rightarrow> list_sessions_loop store now ks sessions s')
      else list_sessions_loop store now ks sessions s')"

definition list_sessions ::
    "'s token_store_ops \<Rightarrow> 's \<Rightarrow> time \<Rightarrow> string \<Rightarrow> session_meta list \<times> 's" where
  "list_sessions store s now user_id =
     (let (ks, s') = ts_keys_by_prefix store s now (session_prefix user_id)
      in list_sessions_loop store now ks [] s')"

definition revoke_session ::
    "'s token_store_ops \<Rightarrow> auth_service \<Rightarrow> 's \<Rightarrow> time \<Rightarrow> string \<Rightarrow> string \<Rightarrow> bool \<times> 's" where
  "revoke_session store svc s now user_id sid =
     (let key = session_key user_id sid;
          (raw, s1) = ts_get_json store s now key
      in if \<not> truthy_text raw then (False, s1)
         else (let ttl = session_ttl svc;
                   s2 = ts_add store s1 now sid ttl;
                   s3 = ts_remove store s2 now key
               in (True, s3)))"

text \<open>The body of the loop of \<open>revoke_all_sessions\<close>, for one session key.\<close>

definition revoke_one :: "'s token_store_ops \<Rightarrow> time \<Rightarrow> int \<Rightarrow> string \<Rightarrow> 's \<Rightarrow> 's" where
  "revoke_one store now ttl k s =
     (let (raw, s1) = ts_get_json store s now k;
          s2 = (if truthy_text raw then
                  (case json_loads (the raw) of
                     Inr m \<Rightarrow> if session_id m \<noteq> [] then ts_add store s1 now (session_id m) ttl else s1
                   | Inl _ \<Rightarrow> s1)
                else s1)
      in ts_remove store s2 now k)"

fun revoke_all_loop ::
    "'s token_store_ops \<Rightarrow> time \<Rightarrow> int \<Rightarrow> string list \<Rightarrow> nat \<Rightarrow> 's \<Rightarrow> nat \<times> 's" where
  "revoke_all_loop store now ttl [] cnt s = (cnt, s)"
| "revoke_all_loop store now ttl (k # ks) cnt s =
     revoke_all_loop store now ttl ks (Suc cnt) (revoke_one store now ttl k s)"

definition revoke_all_sessions ::
    "'s token_store_ops \<Rightarrow> auth_service \<Rightarrow> 's \<Rightarrow> time \<Rightarrow> string \<Rightarrow> nat \<times> 's" where
  "revoke_all_sessions store svc s now user_id =
     (let (ks, s') = ts_keys_by_prefix store s now (session_prefix user_id)
      in revoke_all_loop store now (session_ttl svc) ks 0 s')"

definition store_health :: "'s token_store_ops \<Rightarrow> string \<Rightarrow> 's \<Rightarrow> time \<Rightarrow> string \<times> bool" where
  "store_health store backend s now = (backend, ts_ping store s now)"

section \<open>Revocation from the store contract\<close>

context token_store
begin

lemma decode_token_None:
  "jwt_decode J tok key now = None \<Longrightarrow>
     decode_token J ops s now tok key ty = (Inl (HTTPException 401 ''Invalid or expired token''), s)"
  by (simp add: decode_token_def)

lemma decode_token_Some:
  assumes "invar s" "jwt_decode J tok key now = Some p"
  shows "decode_token J ops s now tok key ty =
     ((if jti_of p \<noteq> [] \<and> live s now (jti_of p) then Inl (HTTPException 401 ''Token has been revoked'')
       else if truthy_str ty \<and> p_type p \<noteq> ty then
         Inl (HTTPException 401 (wrong_type_detail ty (p_type p)))
       else Inr p),
      if jti_of p \<noteq> [] then snd (ts_contains ops s now (jti_of p)) else s)"
  using assms contains_ans [OF assms(1), of now "jti_of p"]
  by (cases "ts_contains ops s now (jti_of p)") (auto simp: decode_token_def)

lemma decode_token_result:
  assumes "invar s"
  shows "fst (decode_token J ops s now tok key ty) = Inr p \<longleftrightarrow>
     jwt_decode J tok key now = Some p \<and> (jti_of p = [] \<or> \<not> live s now (jti_of p)) \<and>
     (truthy_str ty \<longrightarrow> p_type p = ty)"
  using assms by (cases "jwt_decode J tok key now") (auto simp: decode_token_None decode_token_Some)

lemma decode_token_frame:
  assumes "invar s" "now \<le> t"
  shows "live (snd (decode_token J ops s now tok key ty)) t k = live s t k"
    and "stored (snd (decode_token J ops s now tok key ty)) t k = stored s t k"
    and "invar (snd (decode_token J ops s now tok key ty))"
  using assms
  by (cases "jwt_decode J tok key now";
      simp add: decode_token_None decode_token_Some contains_live contains_stored invar_contains)+

lemma decode_revoked:
  assumes "invar s" "jwt_decode J tok key now = Some p" "jti_of p \<noteq> []" "live s now (jti_of p)"
  shows "fst (decode_token J ops s now tok key ty) = Inl (HTTPException 401 ''Token has been revoked'')"
  using assms by (simp add: decode_token_Some)

text \<open>
  A token revoked at \<open>now\<close> is refused at every later time. Until the deny-list entry lapses
  it is on the list; afterwards the token itself has expired, provided it was issued in an
  earlier whole second than it was revoked.
\<close>

lemma revoked_never_decodes:
  assumes laws: "jwt_laws J" and inv: "invar s" and days: "0 < days"
    and dec: "jwt_decode J tok key now = Some p" and jti: "jti_of p \<noteq> []"
    and exp: "p_exp p < \<lfloor>now\<rfloor> + days * 86400" and later: "now \<le> t"
  shows "\<exists>msg. fst (decode_token J ops (tok_revoke_refresh_token J ops s now tok key days) t tok key ty) =
           Inl (HTTPException 401 msg)"
proof -
  let ?ttl = "days * 86400"
  let ?s = "tok_revoke_refresh_token J ops s now tok key days"
  have s: "?s = ts_add ops s now (jti_of p) ?ttl"
    using dec jti by (simp add: tok_revoke_refresh_token_def Let_def)
  have inv': "invar ?s" unfolding s by (rule invar_add [OF inv])
  show ?thesis
  proof (cases "t < now + of_int ?ttl")
    case True
    then have "live ?s t (jti_of p)"
      unfolding s using add_live [OF inv, of ?ttl now t "jti_of p"] days later by simp
    moreover have "jwt_decode J tok key t = Some p \<or> jwt_decode J tok key t = None"
      using jwt_stable [OF laws dec, of t] by simp
    ultimately show ?thesis
      using decode_revoked [OF inv' _ jti] by (auto simp: decode_token_None)
  next
    case False
    then have "\<lfloor>now\<rfloor> + ?ttl \<le> \<lfloor>t\<rfloor>"
      by (metis floor_add_int floor_mono not_less)
    with exp have "jwt_decode J tok key t = None"
      using jwt_stable [OF laws dec, of t] by simp
    then show ?thesis by (simp add: decode_token_None)
  qed
qed

text \<open>A session key either carries an identifier to deny, or is just removed.\<close>

lemma revoke_one_cases:
  assumes "invar s"
  obtains (deny) m where "stored s now k = Some (Dumped m)" "session_id m \<noteq> []"
      "revoke_one ops now ttl k s = ts_remove ops
         (ts_add ops (snd (ts_get_json ops s now k)) now (session_id m) ttl) now k"
  | (plain) "\<nexists>m. stored s now k = Some (Dumped m) \<and> session_id m \<noteq> []"
      "revoke_one ops now ttl k s = ts_remove ops (snd (ts_get_json ops s now k)) now k"
proof -
  have get: "ts_get_json ops s now k = (stored s now k, snd (ts_get_json ops s now k))"
    using get_json_ans [OF assms, of now k] by (metis prod.collapse)
  show thesis
  proof (cases "\<exists>m. stored s now k = Some (Dumped m) \<and> session_id m \<noteq> []")
    case True
    then obtain m where m: "stored s now k = Some (Dumped m)" "session_id m \<noteq> []" by blast
    moreover have "revoke_one ops now ttl k s = ts_remove ops
        (ts_add ops (snd (ts_get_json ops s now k)) now (session_id m) ttl) now k"
      unfolding revoke_one_def by (subst get) (simp add: m)
    ultimately show thesis by (rule deny)
  next
    case False
    moreover have "revoke_one ops now ttl k s = ts_remove ops (snd (ts_get_json ops s now k)) now k"
      unfolding revoke_one_def
      by (subst get) (use False in \<open>auto split: option.splits json_text.splits sum.splits
            elim!: truthy_text.elims json_loads.elims\<close>)
    ultimately show thesis by (rule plain)
  qed
qed

lemma revoke_one_abs:
  assumes inv: "invar s" and ttl: "0 < ttl" and k: "prefix ''session:'' k"
    and ids: "\<And>m. stored s now k = Some (Dumped m) \<Longrightarrow> \<not> prefix ''session:'' (session_id m)"
  shows "invar (revoke_one ops now ttl k s) \<and>
    (\<forall>k' t. prefix ''session:'' k' \<longrightarrow> now \<le> t \<longrightarrow>
       live (revoke_one ops now ttl k s) t k' = (k' \<noteq> k \<and> live s t k') \<and>
       stored (revoke_one ops now ttl k s) t k' = (if k' = k then None else stored s t k')) \<and>
    (\<forall>k' t. \<not> prefix ''session:'' k' \<longrightarrow> now \<le> t \<longrightarrow> t < now + of_int ttl \<longrightarrow>
       live (revoke_one ops now ttl k s) t k' =
         (live s t k' \<or> (\<exists>m. stored s now k = Some (Dumped m) \<and> session_id m = k' \<and> k' \<noteq> [])))"
proof -
  note inv1 = invar_get_json [OF inv, of now k]
  note laws = remove_live remove_stored get_json_live get_json_stored invar_add invar_remove
    add_live_other add_stored_other inv inv1 ttl
  from inv show ?thesis
  proof (cases rule: revoke_one_cases [where now = now and k = k and ttl = ttl, consumes 1, case_names deny plain])
    case (deny m)
    have "k' \<noteq> session_id m" if "prefix ''session:'' k'" for k'
      using ids [OF deny(1)] that by blast
    moreover have "live (ts_add ops (snd (ts_get_json ops s now k)) now (session_id m) ttl) t k' =
        (live s t k' \<or> k' = session_id m)" if "now \<le> t" "t < now + of_int ttl" for k' t
      using that add_live [OF inv1 ttl that] by (cases "k' = session_id m") (simp_all add: laws)
    moreover have "session_id m \<noteq> k" using ids [OF deny(1)] k by blast
    ultimately show ?thesis unfolding deny(3) using deny(1,2) k by (auto simp: laws)
  next
    case plain
    then show ?thesis using k by (auto simp: laws)
  qed
qed

lemma revoke_all_loop_spec:
  assumes "invar s" and ttl: "0 < ttl" and "distinct ks"
    and "\<And>k. k \<in> set ks \<Longrightarrow> prefix ''session:'' k"
    and "\<And>k m. k \<in> set ks \<Longrightarrow> stored s now k = Some (Dumped m) \<Longrightarrow> \<not> prefix ''session:'' (session_id m)"
  shows "fst (revoke_all_loop ops now ttl ks n s) = n + length ks \<and>
     invar (snd (revoke_all_loop ops now ttl ks n s)) \<and>
     (\<forall>k' t. prefix ''session:'' k' \<longrightarrow> now \<le> t \<longrightarrow>
        live (snd (revoke_all_loop ops now ttl ks n s)) t k' = (k' \<notin> set ks \<and> live s t k')) \<and>
     (\<forall>k' t. \<not> prefix ''session:'' k' \<longrightarrow> now \<le> t \<longrightarrow> t < now + of_int ttl \<longrightarrow>
        live (snd (revoke_all_loop ops now ttl ks n s)) t k' = (live s t k' \<or>
          (\<exists>k \<in> set ks. \<exists>m. stored s now k = Some (Dumped m) \<and> session_id m = k' \<and> k' \<noteq> [])))"
  using assms
proof (induction ks arbitrary: n s)
  case Nil
  then show ?case by simp
next
  case (Cons k ks)
  let ?s = "revoke_one ops now ttl k s"
  have k: "prefix ''session:'' k" using Cons.prems(4) by simp
  note one = revoke_one_abs [OF Cons.prems(1) ttl k Cons.prems(5) [of k], simplified]
  have kept: "stored ?s now k2 = stored s now k2" if "k2 \<in> set ks" for k2
    using one Cons.prems(3,4) that by auto
  note IH = Cons.IH [of ?s "Suc n"]
  have ih: "fst (revoke_all_loop ops now ttl ks (Suc n) ?s) = Suc n + length ks \<and>
     invar (snd (revoke_all_loop ops now ttl ks (Suc n) ?s)) \<and>
     (\<forall>k' t. prefix ''session:'' k' \<longrightarrow> now \<le> t \<longrightarrow>
        live (snd (revoke_all_loop ops now ttl ks (Suc n) ?s)) t k' = (k' \<notin> set ks \<and> live ?s t k')) \<and>
     (\<forall>k' t. \<not> prefix ''session:'' k' \<longrightarrow> now \<le> t \<longrightarrow> t < now + of_int ttl \<longrightarrow>
        live (snd (revoke_all_loop ops now ttl ks (Suc n) ?s)) t k' = (live ?s t k' \<or>
          (\<exists>k \<in> set ks. \<exists>m. stored ?s now k = Some (Dumped m) \<and> session_id m = k' \<and> k' \<noteq> [])))"
    by (rule IH) (use Cons.prems one kept ttl in auto)
  show ?case
    using ih one kept by auto
qed

end

end
