(* ===== verification/User_Repo.thy ===== *)
theory User_Repo
  imports Prelude
begin

text \<open>
  \<open>auth/repo/user_reads.py\<close>, \<open>auth/repo/user_writes.py\<close> and the append of
  \<open>auth/repo/audit.py\<close>: the users table as a list of rows (the primary key and the unique
  e-mail index keep it free of duplicates), with the rule that ties a user's role to the
  subscription tier. Lemmas: what \<open>update\<close> does to every row, that superusers are never
  demoted by a tier change, and that a tier change leaves role and tier in agreement.
\<close>

section \<open>Rows\<close>

record user =
  user_id :: string
  email :: string
  hashed_password :: string
  full_name :: string
  role :: string
  is_active :: bool
  u_created_at :: time
  u_updated_at :: time
  last_login_at :: "time option"
  password_reset_token :: "string option"
  password_reset_expiry :: "time option"
  oauth_provider :: "string option"
  oauth_sub :: "string option"
  profile_picture_url :: "string option"
  page_permissions :: "string option"
  subscription_tier :: "string option"
  subscription_status :: "string option"
  razorpay_customer_id :: "string option"
  razorpay_subscription_id :: "string option"
  stripe_customer_id :: "string option"
  stripe_subscription_id :: "string option"
  monthly_usage_count :: "int option"
  usage_month :: "string option"
  subscription_start_at :: "time option"
  subscription_end_at :: "time option"
  chat_request_count :: int
  byo_monthly_limit :: int

record audit_event =
  event_type :: string
  actor_user_id :: string
  target_user_id :: string
  event_metadata :: "(string \<times> string) list"
  event_timestamp :: time

record auth_db =
  db_users :: "user list"
  db_audit :: "audit_event list"

text \<open>The entries of an \<open>updates\<close> dictionary.\<close>

datatype user_update =
    SetUserId string
  | SetCreatedAt time
  | SetEmail string
  | SetHashedPassword string
  | SetFullName string
  | SetRole string
  | SetIsActive bool
  | SetLastLoginAt "time option"
  | SetPasswordResetToken "string option"
  | SetPasswordResetExpiry "time option"
  | SetOauthProvider "string option"
  | SetOauthSub "string option"
  | SetProfilePictureUrl "string option"
  | SetPagePermissions "string option"
  | SetSubscriptionTier "string option"
  | SetSubscriptionStatus "string option"
  | SetRazorpayCustomerId "string option"
  | SetRazorpaySubscriptionId "string option"
  | SetStripeCustomerId "string option"
  | SetStripeSubscriptionId "string option"
  | SetMonthlyUsageCount "int option"
  | SetUsageMonth "string option"
  | SetSubscriptionStartAt "time option"
  | SetSubscriptionEndAt "time option"
  | SetChatRequestCount int
  | SetByoMonthlyLimit int

section \<open>Reads\<close>

definition get_by_email :: "auth_db \<Rightarrow> string \<Rightarrow> user option" where
  "get_by_email db e = find (\<lambda>u. email u = e) (db_users db)"

definition get_by_id :: "auth_db \<Rightarrow> string \<Rightarrow> user option" where
  "get_by_id db uid = find (\<lambda>u. user_id u = uid) (db_users db)"

definition list_all :: "auth_db \<Rightarrow> user list" where
  "list_all db = db_users db"

section \<open>Audit log\<close>

definition append_audit_event ::
    "auth_db \<Rightarrow> time \<Rightarrow> string \<Rightarrow> string \<Rightarrow> string \<Rightarrow> (string \<times> string) list \<Rightarrow> auth_db" where
  "append_audit_event db now evt actor target metadata =
     db\<lparr>db_audit := db_audit db @
        [\<lparr>event_type = evt, actor_user_id = actor, target_user_id = target,
          event_metadata = metadata, event_timestamp = now\<rparr>]\<rparr>"

section \<open>Writes\<close>

definition PAID_TIERS :: "string list" where
  "PAID_TIERS = [''pro'', ''premium'']"

definition role_for_tier :: "string option \<Rightarrow> string" where
  "role_for_tier tier = (if truthy_str tier \<and> the tier \<in> set PAID_TIERS then ''pro'' else ''general'')"

text \<open>\<open>setattr\<close> for one entry; the immutable fields are skipped.\<close>

fun set_field :: "user_update \<Rightarrow> user \<Rightarrow> user" where
  "set_field (SetUserId x) u = u"
| "set_field (SetCreatedAt x) u = u"
| "set_field (SetEmail x) u = u\<lparr>email := x\<rparr>"
| "set_field (SetHashedPassword x) u = u\<lparr>hashed_password := x\<rparr>"
| "set_field (SetFullName x) u = u\<lparr>full_name := x\<rparr>"
| "set_field (SetRole x) u = u\<lparr>role := x\<rparr>"
| "set_field (SetIsActive x) u = u\<lparr>is_active := x\<rparr>"
| "set_field (SetLastLoginAt x) u = u\<lparr>last_login_at := x\<rparr>"
| "set_field (SetPasswordResetToken x) u = u\<lparr>password_reset_token := x\<rparr>"
| "set_field (SetPasswordResetExpiry x) u = u\<lparr>password_reset_expiry := x\<rparr>"
| "set_field (SetSubscriptionTier x) u = u\<lparr>subscription_tier := x\<rparr>"
| "set_field (SetSubscriptionStatus x) u = u\<lparr>subscription_status := x\<rparr>"
| "set_field (SetMonthlyUsageCount x) u = u\<lparr>monthly_usage_count := x\<rparr>"
| "set_field (SetUsageMonth x) u = u\<lparr>usage_month := x\<rparr>"
| "set_field (SetOauthProvider x) u = u\<lparr>oauth_provider := x\<rparr>"
| "set_field (SetOauthSub x) u = u\<lparr>oauth_sub := x\<rparr>"
| "set_field (SetProfilePictureUrl x) u = u\<lparr>profile_picture_url := x\<rparr>"
| "set_field (SetPagePermissions x) u = u\<lparr>page_permissions := x\<rparr>"
| "set_field (SetRazorpayCustomerId x) u = u\<lparr>razorpay_customer_id := x\<rparr>"
| "set_field (SetRazorpaySubscriptionId x) u = u\<lparr>razorpay_subscription_id := x\<rparr>"
| "set_field (SetStripeCustomerId x) u = u\<lparr>stripe_customer_id := x\<rparr>"
| "set_field (SetStripeSubscriptionId x) u = u\<lparr>stripe_subscription_id := x\<rparr>"
| "set_field (SetSubscriptionStartAt x) u = u\<lparr>subscription_start_at := x\<rparr>"
| "set_field (SetSubscriptionEndAt x) u = u\<lparr>subscription_end_at := x\<rparr>"
| "set_field (SetChatRequestCount x) u = u\<lparr>chat_request_count := x\<rparr>"
| "set_field (SetByoMonthlyLimit x) u = u\<lparr>byo_monthly_limit := x\<rparr>"

fun new_tier_of :: "user_update list \<Rightarrow> string option option" where
  "new_tier_of [] = None"
| "new_tier_of (SetSubscriptionTier t # us) = (case new_tier_of us of None \<Rightarrow> Some t | Some t' \<Rightarrow> Some t')"
| "new_tier_of (_ # us) = new_tier_of us"

fun is_SetRole :: "user_update \<Rightarrow> bool" where
  "is_SetRole (SetRole x) = True"
| "is_SetRole _ = False"

text \<open>
  \<open>create\<close>: \<open>user_data\<close> is given by its mandatory entries, its optional ones and the list
  of the remaining entries, of which the source copies those named in \<open>is_create_field\<close>.
  A clash of primary keys is rejected by the database.
\<close>

fun is_create_field :: "user_update \<Rightarrow> bool" where
  "is_create_field (SetLastLoginAt x) = True"
| "is_create_field (SetPasswordResetToken x) = True"
| "is_create_field (SetPasswordResetExpiry x) = True"
| "is_create_field (SetSubscriptionTier x) = True"
| "is_create_field (SetSubscriptionStatus x) = True"
| "is_create_field (SetMonthlyUsageCount x) = True"
| "is_create_field (SetUsageMonth x) = True"
| "is_create_field (SetOauthProvider x) = True"
| "is_create_field (SetOauthSub x) = True"
| "is_create_field (SetProfilePictureUrl x) = True"
| "is_create_field (SetPagePermissions x) = True"
| "is_create_field (SetRazorpayCustomerId x) = True"
| "is_create_field (SetRazorpaySubscriptionId x) = True"
| "is_create_field (SetStripeCustomerId x) = True"
| "is_create_field (SetStripeSubscriptionId x) = True"
| "is_create_field (SetSubscriptionStartAt x) = True"
| "is_create_field (SetSubscriptionEndAt x) = True"
| "is_create_field _ = False"

definition create_user ::
    "auth_db \<Rightarrow> time \<Rightarrow> string \<Rightarrow> string option \<Rightarrow> string \<Rightarrow> string \<Rightarrow> string \<Rightarrow>
     string option \<Rightarrow> bool option \<Rightarrow> user_update list \<Rightarrow> (user \<times> auth_db) result" where
  "create_user db now uuid4 d_user_id d_email d_hashed d_full_name d_role d_active extra =
     (if get_by_email db d_email \<noteq> None then
        Inl (ValueError (''User with email '' @ d_email @ '' already exists''))
      else
        (let u0 = \<lparr>user_id = (case d_user_id of None \<Rightarrow> uuid4 | Some i \<Rightarrow> i), email = d_email,
               hashed_password = d_hashed, full_name = d_full_name,
               role = (case d_role of None \<Rightarrow> ''user'' | Some r \<Rightarrow> r),
               is_active = (case d_active of None \<Rightarrow> True | Some b \<Rightarrow> b),
               u_created_at = now, u_updated_at = now, last_login_at = None,
               password_reset_token = None, password_reset_expiry = None,
               oauth_provider = None, oauth_sub = None, profile_picture_url = None, page_permissions = None,
               subscription_tier = None, subscription_status = None, razorpay_customer_id = None, razorpay_subscription_id = None,
               stripe_customer_id = None, stripe_subscription_id = None, monthly_usage_count = None,
               usage_month = None, subscription_start_at = None, subscription_end_at = None,
               chat_request_count = 0, byo_monthly_limit = 100\<rparr>;
             u = fold set_field (filter is_create_field extra) u0
         in if get_by_id db (user_id u) \<noteq> None then Inl (OtherError ''IntegrityError'')
            else Inr (u, db\<lparr>db_users := db_users db @ [u]\<rparr>)))"

text \<open>The automatic role change of \<open>update\<close>: the extended updates and the transition to audit.\<close>

definition sync_role :: "user \<Rightarrow> user_update list \<Rightarrow> user_update list \<times> (string \<times> string \<times> string) option" where
  "sync_role u updates =
     (case new_tier_of updates of
        None \<Rightarrow> (updates, None)
      | Some new_tier \<Rightarrow>
          if role u \<noteq> ''superuser'' then
            (let new_role = role_for_tier new_tier in
             if role u \<noteq> new_role \<and> \<not> list_ex is_SetRole updates then
               (updates @ [SetRole new_role], Some (role u, new_role, str_or new_tier ''free''))
             else (updates, None))
          else (updates, None))"

definition replace_user :: "user \<Rightarrow> auth_db \<Rightarrow> auth_db" where
  "replace_user u' db = db\<lparr>db_users := map (\<lambda>u. if user_id u = user_id u' then u' else u) (db_users db)\<rparr>"

text \<open>
  \<open>update\<close>; \<open>audit_up\<close> says whether the audit append succeeds (a failure there is only
  logged).
\<close>

definition update_user ::
    "auth_db \<Rightarrow> time \<Rightarrow> bool \<Rightarrow> string \<Rightarrow> user_update list \<Rightarrow> (user \<times> auth_db) result" where
  "update_user db now audit_up uid updates =
     (case get_by_id db uid of
        None \<Rightarrow> Inl (ValueError (''User '' @ uid @ '' not found''))
      | Some u \<Rightarrow>
          (let (updates', transition) = sync_role u updates;
               u' = (fold set_field updates' u)\<lparr>u_updated_at := now\<rparr>;
               db' = replace_user u' db;
               db'' = (case transition of
                   None \<Rightarrow> db'
                 | Some (old_role, new_role, new_tier) \<Rightarrow>
                     if audit_up then
                       append_audit_event db' now
                         (if old_role = ''general'' \<and> new_role = ''pro'' then ''ROLE_PROMOTED''
                          else ''ROLE_DEMOTED'')
                         (user_id u') (user_id u')
                         [(''old_role'', old_role), (''new_role'', new_role),
                          (''reason'', ''subscription_tier_change''), (''new_tier'', new_tier)]
                     else db')
           in Inr (u', db'')))"

text \<open>\<open>delete\<close> is a soft delete.\<close>

definition delete_user :: "auth_db \<Rightarrow> time \<Rightarrow> string \<Rightarrow> auth_db result" where
  "delete_user db now uid =
     (case get_by_id db uid of
        None \<Rightarrow> Inl (ValueError (''User '' @ uid @ '' not found''))
      | Some u \<Rightarrow> Inr (replace_user (u\<lparr>is_active := False, u_updated_at := now\<rparr>) db))"

section \<open>Lemmas\<close>

lemma get_by_id_user_id: "get_by_id db uid = Some u \<Longrightarrow> user_id u = uid"
  by (auto simp: get_by_id_def find_Some_iff)

lemma get_by_email_email: "get_by_email db e = Some u \<Longrightarrow> email u = e"
  by (auto simp: get_by_email_def find_Some_iff)

lemma set_field_user_id [simp]: "user_id (set_field f u) = user_id u"
  by (cases f) simp_all

lemma fold_set_field_user_id [simp]: "user_id (fold set_field fs u) = user_id u"
  by (induction fs arbitrary: u) simp_all

lemma set_field_role: "\<not> is_SetRole f \<Longrightarrow> role (set_field f u) = role u"
  by (cases f) simp_all

lemma fold_set_field_role: "\<not> list_ex is_SetRole fs \<Longrightarrow> role (fold set_field fs u) = role u"
  by (induction fs arbitrary: u) (simp_all add: set_field_role)

lemma fold_set_field_tier:
  "subscription_tier (fold set_field fs u) =
     (case new_tier_of fs of None \<Rightarrow> subscription_tier u | Some t \<Rightarrow> t)"
proof (induction fs arbitrary: u)
  case (Cons f fs)
  then show ?case by (cases f) (simp_all split: option.splits)
qed simp

lemma new_tier_of_snoc_SetRole [simp]: "new_tier_of (fs @ [SetRole r]) = new_tier_of fs"
  by (induction fs rule: new_tier_of.induct) (simp_all split: option.splits)

lemma find_map_replace:
  assumes "user_id u' = uid"
  shows "find (\<lambda>u. user_id u = uid') (map (\<lambda>u. if user_id u = uid then u' else u) us) =
     (if uid' = uid then map_option (\<lambda>_. u') (find (\<lambda>u. user_id u = uid) us)
      else find (\<lambda>u. user_id u = uid') us)"
  using assms by (induction us) auto

lemma get_by_id_replace:
  "get_by_id (replace_user u' db) uid =
     (if uid = user_id u' then map_option (\<lambda>_. u') (get_by_id db uid) else get_by_id db uid)"
  by (simp add: get_by_id_def replace_user_def find_map_replace)

lemma get_by_id_audit [simp]:
  "get_by_id (append_audit_event db now evt a b md) uid = get_by_id db uid"
  by (simp add: get_by_id_def append_audit_event_def)

text \<open>The row \<open>update\<close> returns is the row it stores, and no other row changes.\<close>

lemma update_user_result:
  assumes "update_user db now up uid fs = Inr (u', db')"
  obtains u where "get_by_id db uid = Some u"
    and "u' = (fold set_field (fst (sync_role u fs)) u)\<lparr>u_updated_at := now\<rparr>"
    and "\<And>k. get_by_id db' k = (if k = uid then Some u' else get_by_id db k)"
proof -
  from assms obtain u where u: "get_by_id db uid = Some u"
    by (auto simp: update_user_def split: option.splits)
  have uid: "user_id u = uid" using u by (rule get_by_id_user_id)
  have u': "u' = (fold set_field (fst (sync_role u fs)) u)\<lparr>u_updated_at := now\<rparr>"
    using assms u by (auto simp: update_user_def Let_def split: prod.splits)
  have "get_by_id db' k = get_by_id (replace_user u' db) k" for k
    using assms u by (auto simp: update_user_def Let_def split: prod.splits option.splits if_splits)
  moreover have "user_id u' = uid" using u' uid by simp
  ultimately have "get_by_id db' k = (if k = uid then Some u' else get_by_id db k)" for k
    using u by (auto simp: get_by_id_replace)
  with u u' show thesis by (rule that)
qed

lemma update_user_exists:
  "get_by_id db uid = Some u \<Longrightarrow> \<exists>u' db'. update_user db now up uid fs = Inr (u', db')"
  by (auto simp: update_user_def Let_def split: prod.splits)

lemma update_user_missing:
  "get_by_id db uid = None \<Longrightarrow> update_user db now up uid fs = Inl (ValueError (''User '' @ uid @ '' not found''))"
  by (simp add: update_user_def)

lemma sync_role_superuser: "role u = ''superuser'' \<Longrightarrow> sync_role u fs = (fs, None)"
  by (simp add: sync_role_def split: option.splits)

lemma sync_role_effect:
  assumes "role u \<noteq> ''superuser''" "new_tier_of fs = Some nt" "\<not> list_ex is_SetRole fs"
  shows "role (fold set_field (fst (sync_role u fs)) u) = role_for_tier nt"
    and "subscription_tier (fold set_field (fst (sync_role u fs)) u) = nt"
  using assms by (auto simp: sync_role_def Let_def fold_set_field_role fold_set_field_tier)

text \<open>User ids and e-mails stay unique, so \<open>get_by_id\<close> and \<open>get_by_email\<close> find the row.\<close>

definition db_unique :: "auth_db \<Rightarrow> bool" where
  "db_unique db \<longleftrightarrow> distinct (map user_id (db_users db)) \<and> distinct (map email (db_users db))"

lemma create_field_email [simp]:
  "email (fold set_field (filter is_create_field fs) u) = email u"
proof (induction fs arbitrary: u)
  case (Cons f fs)
  then show ?case by (cases f) simp_all
qed simp

lemma find_snoc_new:
  "find P xs = None \<Longrightarrow> P x \<Longrightarrow> find P (xs @ [x]) = Some x"
  by (induction xs) (auto split: if_splits)

lemma create_user_unique:
  assumes "db_unique db" "create_user db now uuid4 i e h n r a extra = Inr (u, db')"
  shows "db_unique db'" "get_by_email db' e = Some u" "get_by_id db' (user_id u) = Some u"
  using assms
  by (auto simp: create_user_def db_unique_def Let_def get_by_email_def get_by_id_def find_snoc_new
      split: if_splits) (auto simp: find_None_iff split: option.splits)

lemma get_by_id_mem: "get_by_id db k = Some v \<Longrightarrow> v \<in> set (db_users db)"
  by (auto simp: get_by_id_def find_Some_iff)

lemma get_by_id_in:
  "u \<in> set (db_users db) \<Longrightarrow> \<exists>v. get_by_id db (user_id u) = Some v"
  by (cases "get_by_id db (user_id u)") (auto simp: get_by_id_def find_None_iff)

lemma get_by_id_unique:
  "distinct (map user_id (db_users db)) \<Longrightarrow> u \<in> set (db_users db) \<Longrightarrow> get_by_id db (user_id u) = Some u"
  using get_by_id_in [of u db]
  by (auto simp: get_by_id_def find_Some_iff distinct_map inj_on_def)

end
