(* ===== verification/Auth_Guards.thy ===== *)
theory Auth_Guards
  imports Auth_Tokens User_Repo
begin

text \<open>
  \<open>auth/dependencies.py\<close> with \<open>backend/subscription_config.py\<close>, the helpers of
  \<open>auth/endpoints/helpers.py\<close> and \<open>backend/usage_tracker.py\<close>: the FastAPI dependencies
  that admit or refuse a request, the subscription claims put into an access token, and the
  monthly usage counter with its lazy reset and archive.
\<close>

section \<open>subscription_config.py\<close>

definition TIER_ORDER :: "(string \<times> int) list" where
  "TIER_ORDER = [(''free'', 0), (''pro'', 1), (''premium'', 2)]"

definition USAGE_QUOTAS :: "(string \<times> int) list" where
  "USAGE_QUOTAS = [(''free'', 3), (''pro'', 30), (''premium'', 0)]"

definition DEFAULT_TIER :: string where "DEFAULT_TIER = ''free''"
definition DEFAULT_STATUS :: string where "DEFAULT_STATUS = ''active''"

definition dict_get :: "(string \<times> 'v) list \<Rightarrow> string \<Rightarrow> 'v \<Rightarrow> 'v" where
  "dict_get d k dflt = (case map_of d k of None \<Rightarrow> dflt | Some v \<Rightarrow> v)"

section \<open>dependencies.py\<close>

record user_context =
  ctx_user_id :: string
  ctx_email :: string
  ctx_role :: string
  ctx_subscription_tier :: string
  ctx_subscription_status :: string
  ctx_usage_remaining :: "int option"

definition get_current_user ::
    "jwt_lib \<Rightarrow> 's token_store_ops \<Rightarrow> auth_service \<Rightarrow> 's \<Rightarrow> time \<Rightarrow> string \<Rightarrow>
     user_context result \<times> 's" where
  "get_current_user J store svc s now token =
     (case svc_decode_token J store svc s now token (Some ''access'') of
        (Inl e, s') \<Rightarrow> (Inl e, s')
      | (Inr payload, s') \<Rightarrow>
          if \<not> truthy_str (p_sub payload) \<or> \<not> truthy_str (p_role payload) then
            (Inl (HTTPException 401 ''Malformed token payload''), s')
          else
            (Inr \<lparr>ctx_user_id = the (p_sub payload), ctx_email = str_or (p_email payload) [],
                  ctx_role = the (p_role payload),
                  ctx_subscription_tier =
                    (case p_subscription_tier payload of None \<Rightarrow> ''free'' | Some t \<Rightarrow> t),
                  ctx_subscription_status =
                    (case p_subscription_status payload of None \<Rightarrow> ''active'' | Some t \<Rightarrow> t),
                  ctx_usage_remaining = p_usage_remaining payload\<rparr>, s'))"

definition superuser_only :: "user_context \<Rightarrow> user_context result" where
  "superuser_only user =
     (if ctx_role user \<noteq> ''superuser'' then Inl (HTTPException 403 ''Superuser role required'')
      else Inr user)"

definition require_role :: "string list \<Rightarrow> user_context \<Rightarrow> user_context result" where
  "require_role allowed user =
     (if ctx_role user \<notin> set allowed then
        Inl (HTTPException 403 (''This action requires one of: '' @ join '', '' allowed))
      else Inr user)"

definition pro_or_superuser :: "user_context \<Rightarrow> user_context result" where
  "pro_or_superuser = require_role [''pro'', ''superuser'']"

definition require_tier :: "string \<Rightarrow> user_context \<Rightarrow> user_context result" where
  "require_tier min_tier user =
     (let required_level = dict_get TIER_ORDER min_tier 0;
          user_level = dict_get TIER_ORDER (ctx_subscription_tier user) 0
      in if user_level < required_level then
           Inl (HTTPException 403 (''This feature requires the '' @ min_tier @ '' tier or above''))
         else Inr user)"

definition check_usage_quota :: "user_context \<Rightarrow> user_context result" where
  "check_usage_quota user =
     (case ctx_usage_remaining user of
        None \<Rightarrow> Inr user
      | Some remaining \<Rightarrow>
          if remaining \<le> 0 then
            Inl (HTTPException 429 ''Monthly analysis quota exceeded. Upgrade your plan for more.'')
          else Inr user)"

lemmas guards [guard_defs] = superuser_only_def require_role_def pro_or_superuser_def
  require_tier_def check_usage_quota_def

section \<open>helpers.py\<close>

record sub_claims =
  cl_tier :: string
  cl_status :: string
  cl_usage_remaining :: "int option"

definition subscription_claims :: "user \<Rightarrow> sub_claims" where
  "subscription_claims user =
     (let tier = str_or (subscription_tier user) DEFAULT_TIER;
          status = str_or (subscription_status user) DEFAULT_STATUS;
          quota = dict_get USAGE_QUOTAS tier 0;
          cnt = int_or (monthly_usage_count user) 0;
          remaining = (if quota = 0 then None else Some (max 0 (quota - cnt)))
      in \<lparr>cl_tier = tier, cl_status = status, cl_usage_remaining = remaining\<rparr>)"

definition require_active_user :: "user option \<Rightarrow> user result" where
  "require_active_user u =
     (case u of
        None \<Rightarrow> Inl (HTTPException 401 ''Invalid credentials'')
      | Some u \<Rightarrow> if \<not> is_active u then Inl (HTTPException 401 ''Invalid credentials'') else Inr u)"

section \<open>usage_tracker.py\<close>

text \<open>
  The state: the users table and the rows of \<open>auth.usage_history\<close>. The current month
  \<open>YYYY-MM\<close> is an argument. The Iceberg append inside \<open>_archive_usage\<close> may fail, which is
  only logged: \<open>iceberg_up\<close> says whether it succeeds.
\<close>

record usage_row =
  h_user_id :: string
  h_month :: string
  h_usage_count :: int
  h_tier :: string

record usage_state =
  us_db :: auth_db
  us_history :: "usage_row list"

definition archive_usage ::
    "bool \<Rightarrow> string \<Rightarrow> string \<Rightarrow> int \<Rightarrow> string \<Rightarrow> usage_row list \<Rightarrow> usage_row list" where
  "archive_usage iceberg_up uid month cnt tier hist =
     (if cnt \<le> 0 then hist
      else if iceberg_up then
        hist @ [\<lparr>h_user_id = uid, h_month = month, h_usage_count = cnt, h_tier = tier\<rparr>]
      else hist)"

definition maybe_reset ::
    "bool \<Rightarrow> time \<Rightarrow> usage_state \<Rightarrow> user \<Rightarrow> string \<Rightarrow> (user \<times> usage_state) result" where
  "maybe_reset iceberg_up now st user current_month =
     (let stored_month = str_or (usage_month user) [] in
      if stored_month = current_month then Inr (user, st)
      else
        (let old_count = int_or (monthly_usage_count user) 0;
             old_tier = str_or (subscription_tier user) ''free'';
             uid = user_id user;
             hist = (if stored_month \<noteq> [] \<and> old_count > 0
                     then archive_usage iceberg_up uid stored_month old_count old_tier (us_history st)
                     else us_history st)
         in bindE (update_user (us_db st) now True uid
                     [SetMonthlyUsageCount (Some 0), SetUsageMonth (Some current_month)])
              (\<lambda>(_, db'). Inr (user\<lparr>monthly_usage_count := Some 0, usage_month := Some current_month\<rparr>,
                              \<lparr>us_db = db', us_history = hist\<rparr>))))"

text \<open>\<open>is_quota_exceeded\<close> fails open: any exception answers \<open>False\<close>.\<close>

definition is_quota_exceeded ::
    "bool \<Rightarrow> time \<Rightarrow> string \<Rightarrow> usage_state \<Rightarrow> string \<Rightarrow> bool \<times> usage_state" where
  "is_quota_exceeded iceberg_up now current_month st uid =
     (if uid = [] then (False, st)
      else
        (case get_by_id (us_db st) uid of
           None \<Rightarrow> (False, st)
         | Some user \<Rightarrow>
             (case maybe_reset iceberg_up now st user current_month of
                Inl _ \<Rightarrow> (False, st)
              | Inr (user', st') \<Rightarrow>
                  (let tier = str_or (subscription_tier user') ''free'';
                       quota = dict_get USAGE_QUOTAS tier 3
                   in if quota = 0 then (False, st')
                      else (int_or (monthly_usage_count user') 0 \<ge> quota, st')))))"

definition increment_usage ::
    "bool \<Rightarrow> time \<Rightarrow> string \<Rightarrow> usage_state \<Rightarrow> string \<Rightarrow> usage_state" where
  "increment_usage iceberg_up now current_month st uid =
     (case get_by_id (us_db st) uid of
        None \<Rightarrow> st
      | Some user \<Rightarrow>
          (case maybe_reset iceberg_up now st user current_month of
             Inl _ \<Rightarrow> st
           | Inr (user', st') \<Rightarrow>
               (let current = int_or (monthly_usage_count user') 0 in
                case update_user (us_db st') now True uid
                       [SetMonthlyUsageCount (Some (current + 1)), SetUsageMonth (Some current_month)] of
                  Inl _ \<Rightarrow> st'
                | Inr (_, db') \<Rightarrow> st'\<lparr>us_db := db'\<rparr>)))"

text \<open>The loop body shared by \<open>reset_user_usage\<close> and \<open>reset_monthly_usage\<close>.\<close>

definition reset_one ::
    "bool \<Rightarrow> time \<Rightarrow> string \<Rightarrow> string \<Rightarrow> user \<Rightarrow> nat \<times> usage_state \<Rightarrow> (nat \<times> usage_state) result" where
  "reset_one iceberg_up now month uid user acc =
     (let (cnt, st) = acc;
          old = int_or (monthly_usage_count user) 0
      in if old > 0 then
           (let hist = archive_usage iceberg_up uid (str_or (usage_month user) month) old
                         (str_or (subscription_tier user) ''free'') (us_history st)
            in bindE (update_user (us_db st) now True uid
                        [SetMonthlyUsageCount (Some 0), SetUsageMonth (Some month)])
                 (\<lambda>(_, db'). Inr (Suc cnt, \<lparr>us_db = db', us_history = hist\<rparr>)))
         else Inr (cnt, st))"

fun reset_user_usage ::
    "bool \<Rightarrow> time \<Rightarrow> string \<Rightarrow> string list \<Rightarrow> nat \<times> usage_state \<Rightarrow> (nat \<times> usage_state) result" where
  "reset_user_usage iceberg_up now month [] acc = Inr acc"
| "reset_user_usage iceberg_up now month (uid # uids) acc =
     (case get_by_id (us_db (snd acc)) uid of
        None \<Rightarrow> reset_user_usage iceberg_up now month uids acc
      | Some user \<Rightarrow>
          bindE (reset_one iceberg_up now month uid user acc)
            (\<lambda>acc'. reset_user_usage iceberg_up now month uids acc'))"

fun reset_monthly_loop ::
    "bool \<Rightarrow> time \<Rightarrow> string \<Rightarrow> user list \<Rightarrow> nat \<times> usage_state \<Rightarrow> (nat \<times> usage_state) result" where
  "reset_monthly_loop iceberg_up now month [] acc = Inr acc"
| "reset_monthly_loop iceberg_up now month (user # users) acc =
     bindE (reset_one iceberg_up now month (user_id user) user acc)
       (\<lambda>acc'. reset_monthly_loop iceberg_up now month users acc')"

definition reset_monthly_usage ::
    "bool \<Rightarrow> time \<Rightarrow> string \<Rightarrow> usage_state \<Rightarrow> (nat \<times> usage_state) result" where
  "reset_monthly_usage iceberg_up now month st =
     reset_monthly_loop iceberg_up now month (list_all (us_db st)) (0, st)"

section \<open>Lemmas\<close>

lemma int_or_zero [simp]: "int_or x 0 = (case x of None \<Rightarrow> 0 | Some i \<Rightarrow> i)"
  by (cases x) simp_all

text \<open>The monthly count a reader sees: stale months count as zero.\<close>

definition month_count :: "string \<Rightarrow> user \<Rightarrow> int" where
  "month_count month u = (if str_or (usage_month u) [] = month then int_or (monthly_usage_count u) 0 else 0)"

lemma str_or_Some [simp]: "m \<noteq> [] \<Longrightarrow> str_or (Some m) d = m"
  by (cases m) simp_all

lemma sync_role_no_tier [simp]: "new_tier_of fs = None \<Longrightarrow> sync_role u fs = (fs, None)"
  by (simp add: sync_role_def)

lemma update_usage_result:
  assumes "get_by_id db uid = Some u"
  obtains db' where "update_user db now True uid [SetMonthlyUsageCount c, SetUsageMonth m] =
      Inr (u\<lparr>monthly_usage_count := c, usage_month := m, u_updated_at := now\<rparr>, db')"
    and "\<And>k. get_by_id db' k =
      (if k = uid then Some (u\<lparr>monthly_usage_count := c, usage_month := m, u_updated_at := now\<rparr>)
       else get_by_id db k)"
proof -
  let ?fs = "[SetMonthlyUsageCount c, SetUsageMonth m]"
  obtain u' db' where up: "update_user db now True uid ?fs = Inr (u', db')"
    using update_user_exists [OF assms] by blast
  from up obtain v where v: "get_by_id db uid = Some v"
    and u': "u' = (fold set_field (fst (sync_role v ?fs)) v)\<lparr>u_updated_at := now\<rparr>"
    and row: "\<And>k. get_by_id db' k = (if k = uid then Some u' else get_by_id db k)"
    by (rule update_user_result) blast
  have eq: "u' = u\<lparr>monthly_usage_count := c, usage_month := m, u_updated_at := now\<rparr>"
    using v assms u' by simp
  show thesis by (rule that [OF up [unfolded eq] row [unfolded eq]])
qed

text \<open>
  The lazy reset never fails on an existing row, leaves the row in the current month with
  the count a reader of that month should see, and touches no other row.
\<close>

lemma maybe_reset_result:
  assumes user: "get_by_id (us_db st) uid = Some user" and month: "month \<noteq> []"
  obtains user' st' where "maybe_reset up now st user month = Inr (user', st')"
    and "str_or (usage_month user') [] = month"
    and "int_or (monthly_usage_count user') 0 = month_count month user"
    and "subscription_tier user' = subscription_tier user"
    and "\<And>k. k \<noteq> uid \<Longrightarrow> get_by_id (us_db st') k = get_by_id (us_db st) k"
    and "\<exists>row. get_by_id (us_db st') uid = Some row \<and> row\<lparr>u_updated_at := 0\<rparr> = user'\<lparr>u_updated_at := 0\<rparr>"
proof (cases "str_or (usage_month user) [] = month")
  case True
  with user show thesis by (intro that [of user st]) (simp_all add: maybe_reset_def month_count_def)
next
  case False
  have uid: "user_id user = uid" using user by (rule get_by_id_user_id)
  obtain db' where up: "update_user (us_db st) now True uid
        [SetMonthlyUsageCount (Some 0), SetUsageMonth (Some month)] =
      Inr (user\<lparr>monthly_usage_count := Some 0, usage_month := Some month, u_updated_at := now\<rparr>, db')"
    and row: "\<And>k. get_by_id db' k = (if k = uid
        then Some (user\<lparr>monthly_usage_count := Some 0, usage_month := Some month, u_updated_at := now\<rparr>)
        else get_by_id (us_db st) k)"
    using user by (rule update_usage_result) blast
  obtain hist where "maybe_reset up now st user month =
      Inr (user\<lparr>monthly_usage_count := Some 0, usage_month := Some month\<rparr>,
           \<lparr>us_db = db', us_history = hist\<rparr>)"
    using False up by (simp add: maybe_reset_def Let_def uid)
  then show thesis
    by (rule that) (use False month in \<open>simp_all add: row month_count_def\<close>)
qed

end
