(* ===== verification/Auth_Routes.thy ===== *)
theory Auth_Routes
  imports Auth_Guards
begin

text \<open>
  \<open>auth/endpoints/auth_routes.py\<close> and \<open>auth/endpoints/session_routes.py\<close>: login, token
  refresh with rotation, logout, password reset and session management, each handler whole:
  its guards, its writes to the users table, the audit log and the token store, and the
  cookies of its response. Password checking and hashing (bcrypt), fresh identifiers and
  reset tokens, and the clock are arguments.
\<close>

section \<open>Cookies\<close>

definition COOKIE_KEY :: string where "COOKIE_KEY = ''refresh_token''"
definition COOKIE_PATH :: string where "COOKIE_PATH = ''/''"
definition COOKIE_MAX_AGE :: int where "COOKIE_MAX_AGE = 7 * 24 * 3600"
definition ACCESS_COOKIE_KEY :: string where "ACCESS_COOKIE_KEY = ''access_token''"
definition ACCESS_COOKIE_MAX_AGE :: int where "ACCESS_COOKIE_MAX_AGE = 60 * 60"

text \<open>\<open>set_cookie\<close> (HttpOnly, SameSite=Lax) and \<open>delete_cookie\<close> entries of a response.\<close>

datatype cookie =
    SetCookie string string bool string int
  | DeleteCookie string string

definition set_refresh_cookie :: "bool \<Rightarrow> string \<Rightarrow> cookie" where
  "set_refresh_cookie secure tok = SetCookie COOKIE_KEY tok secure COOKIE_PATH COOKIE_MAX_AGE"

definition set_access_cookie :: "bool \<Rightarrow> string \<Rightarrow> cookie" where
  "set_access_cookie secure tok = SetCookie ACCESS_COOKIE_KEY tok secure COOKIE_PATH ACCESS_COOKIE_MAX_AGE"

definition clear_refresh_cookie :: "cookie list" where
  "clear_refresh_cookie = DeleteCookie COOKIE_KEY COOKIE_PATH #
     map (\<lambda>legacy. DeleteCookie COOKIE_KEY legacy) [''/auth'', ''/v1/auth'']"

definition clear_access_cookie :: "cookie list" where
  "clear_access_cookie = [DeleteCookie ACCESS_COOKIE_KEY COOKIE_PATH]"

record token_response =
  access_token :: string
  refresh_token :: string
  resp_cookies :: "cookie list"

section \<open>State and environment\<close>

text \<open>What a handler may change: the database and the token store.\<close>

record 's auth_state =
  as_db :: auth_db
  as_store :: 's

text \<open>What a handler is given: the JWT library, bcrypt, the service settings.\<close>

record 's auth_env =
  env_jwt :: jwt_lib
  env_checkpw :: "string \<Rightarrow> string \<Rightarrow> bool"
  env_hashpw :: "string \<Rightarrow> string"
  env_store :: "'s token_store_ops"
  env_svc :: auth_service
  env_secure :: bool
  env_debug :: bool

text \<open>The two tokens of a response, for the user row at hand.\<close>

definition issue_access :: "'s auth_env \<Rightarrow> time \<Rightarrow> string \<Rightarrow> user \<Rightarrow> string" where
  "issue_access E now uuid user =
     (let claims = subscription_claims user in
      svc_create_access_token (env_jwt E) (env_svc E) uuid now (user_id user) (email user) (role user)
        (cl_tier claims) (cl_status claims) (cl_usage_remaining claims))"

definition issue_refresh :: "'s auth_env \<Rightarrow> time \<Rightarrow> string \<Rightarrow> user \<Rightarrow> string" where
  "issue_refresh E now uuid user =
     svc_create_refresh_token (env_jwt E) (env_svc E) uuid now (user_id user)"

section \<open>Handlers\<close>

definition login ::
    "'s auth_env \<Rightarrow> time \<Rightarrow> string \<Rightarrow> string \<Rightarrow> string \<Rightarrow> string \<Rightarrow> string \<Rightarrow> string \<Rightarrow>
     's auth_state \<Rightarrow> token_response result \<times> 's auth_state" where
  "login E now uuid1 uuid2 body_email body_password client_host agent st =
     (case require_active_user (get_by_email (as_db st) body_email) of
        Inl e \<Rightarrow> (Inl e, st)
      | Inr user \<Rightarrow>
          if \<not> env_checkpw E body_password (hashed_password user) then
            (Inl (HTTPException 401 ''Invalid credentials''), st)
          else
            (case update_user (as_db st) now True (user_id user) [SetLastLoginAt (Some now)] of
               Inl e \<Rightarrow> (Inl e, st)
             | Inr (_, db1) \<Rightarrow>
                 (let db2 = append_audit_event db1 now ''LOGIN'' (user_id user) (user_id user) [];
                      access = issue_access E now uuid1 user;
                      refresh = issue_refresh E now uuid2 user;
                      store' = register_session (env_jwt E) (env_store E) (env_svc E) (as_store st) now
                                 (user_id user) refresh client_host agent
                  in (Inr \<lparr>access_token = access, refresh_token = refresh,
                           resp_cookies = [set_refresh_cookie (env_secure E) refresh,
                                           set_access_cookie (env_secure E) access]\<rparr>,
                      \<lparr>as_db = db2, as_store = store'\<rparr>))))"

text \<open>The OpenAPI form login issues tokens but registers no session and sets no cookie.\<close>

definition login_form ::
    "'s auth_env \<Rightarrow> time \<Rightarrow> string \<Rightarrow> string \<Rightarrow> string \<Rightarrow> string \<Rightarrow>
     's auth_state \<Rightarrow> token_response result \<times> 's auth_state" where
  "login_form E now uuid1 uuid2 username password st =
     (case require_active_user (get_by_email (as_db st) username) of
        Inl e \<Rightarrow> (Inl e, st)
      | Inr user \<Rightarrow>
          if \<not> env_checkpw E password (hashed_password user) then
            (Inl (HTTPException 401 ''Invalid credentials''), st)
          else
            (case update_user (as_db st) now True (user_id user) [SetLastLoginAt (Some now)] of
               Inl e \<Rightarrow> (Inl e, st)
             | Inr (_, db1) \<Rightarrow>
                 (Inr \<lparr>access_token = issue_access E now uuid1 user,
                       refresh_token = issue_refresh E now uuid2 user, resp_cookies = []\<rparr>,
                  st\<lparr>as_db := append_audit_event db1 now ''LOGIN'' (user_id user) (user_id user) []\<rparr>)))"

text \<open>The token a request presents: the cookie first, then the body.\<close>

definition presented_token :: "string option \<Rightarrow> string option \<Rightarrow> string option" where
  "presented_token cookie_tok body_tok = (if truthy_str cookie_tok then cookie_tok else body_tok)"

definition refresh_handler ::
    "'s auth_env \<Rightarrow> time \<Rightarrow> string \<Rightarrow> string \<Rightarrow> string option \<Rightarrow> string option \<Rightarrow>
     's auth_state \<Rightarrow> token_response result \<times> 's auth_state" where
  "refresh_handler E now uuid1 uuid2 cookie_tok body_tok st =
     (let tok = presented_token cookie_tok body_tok in
      if \<not> truthy_str tok then (Inl (HTTPException 401 ''Missing refresh token''), st)
      else
        (case svc_decode_token (env_jwt E) (env_store E) (env_svc E) (as_store st) now (the tok)
                (Some ''refresh'') of
           (Inl e, s1) \<Rightarrow> (Inl e, st\<lparr>as_store := s1\<rparr>)
         | (Inr payload, s1) \<Rightarrow>
             (case p_sub payload of
                None \<Rightarrow> (Inl (KeyError ''sub''), st\<lparr>as_store := s1\<rparr>)
              | Some uid \<Rightarrow>
                  (case get_by_id (as_db st) uid of
                     None \<Rightarrow> (Inl (HTTPException 401 ''User not found or deactivated''), st\<lparr>as_store := s1\<rparr>)
                   | Some user \<Rightarrow>
                       if \<not> is_active user then
                         (Inl (HTTPException 401 ''User not found or deactivated''), st\<lparr>as_store := s1\<rparr>)
                       else
                         (let s2 = svc_revoke_refresh_token (env_jwt E) (env_store E) (env_svc E) s1 now (the tok);
                              access = issue_access E now uuid1 user;
                              new_refresh = issue_refresh E now uuid2 user
                          in (Inr \<lparr>access_token = access, refresh_token = new_refresh,
                                   resp_cookies = [set_refresh_cookie (env_secure E) new_refresh,
                                                   set_access_cookie (env_secure E) access]\<rparr>,
                              st\<lparr>as_store := s2\<rparr>))))))"

definition logout ::
    "'s auth_env \<Rightarrow> time \<Rightarrow> string option \<Rightarrow> string option \<Rightarrow> 's auth_state \<Rightarrow>
     cookie list \<times> 's auth_state" where
  "logout E now cookie_tok body_tok st =
     (let tok = presented_token cookie_tok body_tok;
          store' = (if truthy_str tok
                    then svc_revoke_refresh_token (env_jwt E) (env_store E) (env_svc E) (as_store st) now (the tok)
                    else as_store st)
      in (clear_refresh_cookie @ clear_access_cookie, st\<lparr>as_store := store'\<rparr>))"

text \<open>The reset token is in the response only in debug mode.\<close>

definition password_reset_request ::
    "'s auth_env \<Rightarrow> time \<Rightarrow> string \<Rightarrow> string \<Rightarrow> user_context \<Rightarrow> 's auth_state \<Rightarrow>
     string option result \<times> 's auth_state" where
  "password_reset_request E now fresh_token body_email current_user st =
     (if str_lower body_email \<noteq> str_lower (ctx_email current_user) then
        (Inl (HTTPException 403 ''You may only reset your own password.''), st)
      else
        (case get_by_id (as_db st) (ctx_user_id current_user) of
           None \<Rightarrow> (Inl (HTTPException 404 ''User not found''), st)
         | Some user \<Rightarrow>
             (let expiry = now + 30 * 60 in
              case update_user (as_db st) now True (ctx_user_id current_user)
                     [SetPasswordResetToken (Some fresh_token), SetPasswordResetExpiry (Some expiry)] of
                Inl e \<Rightarrow> (Inl e, st)
              | Inr (_, db1) \<Rightarrow>
                  (Inr (if env_debug E then Some fresh_token else None),
                   st\<lparr>as_db := append_audit_event db1 now ''PASSWORD_RESET'' (ctx_user_id current_user)
                        (ctx_user_id current_user) [(''stage'', ''request'')]\<rparr>))))"

definition password_reset_confirm ::
    "'s auth_env \<Rightarrow> time \<Rightarrow> string \<Rightarrow> string \<Rightarrow> user_context \<Rightarrow> 's auth_state \<Rightarrow>
     unit result \<times> 's auth_state" where
  "password_reset_confirm E now reset_tok new_password current_user st =
     (case validate_password_strength new_password of
        Inl e \<Rightarrow> (Inl e, st)
      | Inr _ \<Rightarrow>
          (case get_by_id (as_db st) (ctx_user_id current_user) of
             None \<Rightarrow> (Inl (HTTPException 404 ''User not found''), st)
           | Some user \<Rightarrow>
               if \<not> truthy_str (password_reset_token user) \<or> password_reset_token user \<noteq> Some reset_tok then
                 (Inl (HTTPException 400 ''Invalid reset token''), st)
               else if (case password_reset_expiry user of None \<Rightarrow> False | Some expiry \<Rightarrow> now > expiry) then
                 (Inl (HTTPException 400 ''Reset token has expired''), st)
               else
                 (let new_hash = env_hashpw E new_password in
                  case update_user (as_db st) now True (ctx_user_id current_user)
                         [SetHashedPassword new_hash, SetPasswordResetToken None, SetPasswordResetExpiry None] of
                    Inl e \<Rightarrow> (Inl e, st)
                  | Inr (_, db1) \<Rightarrow>
                      (Inr (), st\<lparr>as_db := append_audit_event db1 now ''PASSWORD_RESET''
                         (ctx_user_id current_user) (ctx_user_id current_user) [(''stage'', ''confirm'')]\<rparr>))))"

section \<open>session_routes.py\<close>

definition route_list_sessions ::
    "'s auth_env \<Rightarrow> time \<Rightarrow> user_context \<Rightarrow> 's auth_state \<Rightarrow> session_meta list \<times> 's auth_state" where
  "route_list_sessions E now current_user st =
     (let (ss, s') = list_sessions (env_store E) (as_store st) now (ctx_user_id current_user)
      in (ss, st\<lparr>as_store := s'\<rparr>))"

definition route_revoke_session ::
    "'s auth_env \<Rightarrow> time \<Rightarrow> string \<Rightarrow> user_context \<Rightarrow> 's auth_state \<Rightarrow> string result \<times> 's auth_state" where
  "route_revoke_session E now sid current_user st =
     (let (revoked, s') = revoke_session (env_store E) (env_svc E) (as_store st) now
                            (ctx_user_id current_user) sid
      in if \<not> revoked then (Inl (HTTPException 404 ''Session not found''), st\<lparr>as_store := s'\<rparr>)
         else (Inr ''Session revoked'', st\<lparr>as_store := s'\<rparr>))"

definition route_revoke_all_sessions ::
    "'s auth_env \<Rightarrow> time \<Rightarrow> user_context \<Rightarrow> 's auth_state \<Rightarrow> nat \<times> 's auth_state" where
  "route_revoke_all_sessions E now current_user st =
     (let (cnt, s') = revoke_all_sessions (env_store E) (env_svc E) (as_store st) now (ctx_user_id current_user)
      in (cnt, st\<lparr>as_store := s'\<rparr>))"

section \<open>Lemmas\<close>

lemma floor_add_days: "\<lfloor>(t :: time) + of_int n\<rfloor> = \<lfloor>t\<rfloor> + n"
  by simp

lemma jwt_decode_refresh:
  assumes "jwt_laws J" "\<lfloor>t\<rfloor> \<le> \<lfloor>now\<rfloor> + days * 86400"
  shows "jwt_decode J (create_refresh_token J uuid now uid key days) key t =
     Some \<lparr>p_sub = Some uid, p_email = None, p_role = None, p_subscription_tier = None,
        p_subscription_status = None, p_usage_remaining = None, p_type = Some ''refresh'',
        p_jti = Some uuid, p_iat = \<lfloor>now\<rfloor>, p_exp = \<lfloor>now\<rfloor> + days * 86400\<rparr>"
  using assms unfolding create_refresh_token_def jwt_roundtrip [OF assms(1)] floor_add_days
  by (simp add: REFRESH_TOKEN_TYPE_def)

lemma jwt_decode_access:
  assumes "jwt_laws J" "\<lfloor>t\<rfloor> \<le> \<lfloor>now\<rfloor> + mins * 60"
  shows "jwt_decode J (create_access_token J uuid now uid em rl key mins tier status rem) key t =
     Some \<lparr>p_sub = Some uid, p_email = Some em, p_role = Some rl, p_subscription_tier = Some tier,
        p_subscription_status = Some status, p_usage_remaining = rem, p_type = Some ''access'',
        p_jti = Some uuid, p_iat = \<lfloor>now\<rfloor>, p_exp = \<lfloor>now\<rfloor> + mins * 60\<rparr>"
  using assms unfolding create_access_token_def jwt_roundtrip [OF assms(1)] floor_add_days
  by (simp add: ACCESS_TOKEN_TYPE_def)

lemma jwt_decode_refresh_expired:
  assumes "jwt_laws J" "\<not> \<lfloor>t\<rfloor> \<le> \<lfloor>now\<rfloor> + days * 86400"
  shows "jwt_decode J (create_refresh_token J uuid now uid key days) key t = None"
  using assms unfolding create_refresh_token_def jwt_roundtrip [OF assms(1)] floor_add_days by simp

lemma jwt_decode_access_expired:
  assumes "jwt_laws J" "\<not> \<lfloor>t\<rfloor> \<le> \<lfloor>now\<rfloor> + mins * 60"
  shows "jwt_decode J (create_access_token J uuid now uid em rl key mins tier status rem) key t = None"
  using assms unfolding create_access_token_def jwt_roundtrip [OF assms(1)] floor_add_days by simp

lemma refresh_handler_success:
  assumes "refresh_handler E now u1 u2 ck bd st = (Inr resp, st')"
  obtains tok payload uid user s1 where "presented_token ck bd = Some tok" "tok \<noteq> []"
    and "svc_decode_token (env_jwt E) (env_store E) (env_svc E) (as_store st) now tok (Some ''refresh'') =
         (Inr payload, s1)"
    and "p_sub payload = Some uid" "get_by_id (as_db st) uid = Some user" "is_active user"
    and "st' = st\<lparr>as_store := svc_revoke_refresh_token (env_jwt E) (env_store E) (env_svc E) s1 now tok\<rparr>"
    and "access_token resp = issue_access E now u1 user" "refresh_token resp = issue_refresh E now u2 user"
proof -
  obtain tok where tok: "presented_token ck bd = Some tok" "tok \<noteq> []"
    using assms by (cases "presented_token ck bd") (auto simp: refresh_handler_def Let_def split: if_splits)
  obtain payload s1 where dec: "svc_decode_token (env_jwt E) (env_store E) (env_svc E) (as_store st)
      now tok (Some ''refresh'') = (Inr payload, s1)"
    using assms tok by (auto simp: refresh_handler_def Let_def split: prod.splits sum.splits if_splits)
  from assms tok dec obtain uid user where "p_sub payload = Some uid"
    "get_by_id (as_db st) uid = Some user" "is_active user"
    by (auto simp: refresh_handler_def Let_def split: option.splits if_splits)
  with assms tok dec show thesis
    by (intro that [of tok payload s1 uid user])
       (auto simp: refresh_handler_def Let_def split: option.splits if_splits)
qed

end
