(* ===== verification/Jwt_Reference.thy ===== *)
theory Jwt_Reference
  imports Auth_Tokens
begin

text \<open>
  A reference JWT library: payload and key are written next to each other in a prefix code
  and read back, with the expiry check of the real library. It obeys \<open>jwt_laws\<close>, so the
  hypothesis under which the token theorems are stated can hold; the theorems themselves are
  about any library that obeys the laws.
\<close>

definition enc_nat :: "nat \<Rightarrow> string" where
  "enc_nat n = replicate n CHR ''1'' @ ''0''"

definition dec_nat :: "string \<Rightarrow> nat \<times> string" where
  "dec_nat s = (length (takeWhile (\<lambda>c. c = CHR ''1'') s), drop 1 (dropWhile (\<lambda>c. c = CHR ''1'') s))"

definition enc_int :: "int \<Rightarrow> string" where
  "enc_int i = (if i < 0 then enc_nat 0 else enc_nat 1) @ enc_nat (nat \<bar>i\<bar>)"

definition dec_int :: "string \<Rightarrow> int \<times> string" where
  "dec_int s = (let (sg, s1) = dec_nat s; (n, s2) = dec_nat s1 in (if sg = 0 then - int n else int n, s2))"

definition enc_str :: "string \<Rightarrow> string" where
  "enc_str x = enc_nat (length x) @ x"

definition dec_str :: "string \<Rightarrow> string \<times> string" where
  "dec_str s = (let (n, s1) = dec_nat s in (take n s1, drop n s1))"

definition enc_opt :: "('a \<Rightarrow> string) \<Rightarrow> 'a option \<Rightarrow> string" where
  "enc_opt e x = (case x of None \<Rightarrow> enc_nat 0 | Some y \<Rightarrow> enc_nat 1 @ e y)"

definition dec_opt :: "(string \<Rightarrow> 'a \<times> string) \<Rightarrow> string \<Rightarrow> 'a option \<times> string" where
  "dec_opt d s = (let (tag, s1) = dec_nat s in
     if tag = 0 then (None, s1) else (let (y, s2) = d s1 in (Some y, s2)))"

lemma dec_enc_nat [simp]: "dec_nat (enc_nat n @ r) = (n, r)"
  by (induction n) (simp_all add: dec_nat_def enc_nat_def)

lemma dec_enc_int [simp]: "dec_int (enc_int i @ r) = (i, r)"
  by (simp add: dec_int_def enc_int_def)

lemma dec_enc_str [simp]: "dec_str (enc_str x @ r) = (x, r)"
  by (simp add: dec_str_def enc_str_def)

lemma dec_enc_opt_str [simp]: "dec_opt dec_str (enc_opt enc_str x @ r) = (x, r)"
  by (cases x) (simp_all add: dec_opt_def enc_opt_def)

lemma dec_enc_opt_int [simp]: "dec_opt dec_int (enc_opt enc_int x @ r) = (x, r)"
  by (cases x) (simp_all add: dec_opt_def enc_opt_def)

definition ref_encode :: "jwt_payload \<Rightarrow> string \<Rightarrow> string" where
  "ref_encode p key =
     enc_str key @ enc_opt enc_str (p_sub p) @ enc_opt enc_str (p_email p) @ enc_opt enc_str (p_role p)
     @ enc_opt enc_str (p_subscription_tier p) @ enc_opt enc_str (p_subscription_status p)
     @ enc_opt enc_int (p_usage_remaining p) @ enc_opt enc_str (p_type p) @ enc_opt enc_str (p_jti p)
     @ enc_int (p_iat p) @ enc_int (p_exp p)"

definition ref_read :: "string \<Rightarrow> string \<times> jwt_payload" where
  "ref_read tok =
     (let (key, s0) = dec_str tok; (sub, s1) = dec_opt dec_str s0; (em, s2) = dec_opt dec_str s1;
          (rl, s3) = dec_opt dec_str s2; (tier, s4) = dec_opt dec_str s3; (status, s5) = dec_opt dec_str s4;
          (usage, s6) = dec_opt dec_int s5; (ty, s7) = dec_opt dec_str s6; (jti, s8) = dec_opt dec_str s7;
          (iat, s9) = dec_int s8; (ex, s10) = dec_int s9
      in (key, \<lparr>p_sub = sub, p_email = em, p_role = rl, p_subscription_tier = tier,
               p_subscription_status = status, p_usage_remaining = usage, p_type = ty, p_jti = jti,
               p_iat = iat, p_exp = ex\<rparr>))"

definition ref_decode :: "string \<Rightarrow> string \<Rightarrow> time \<Rightarrow> jwt_payload option" where
  "ref_decode tok key now =
     (let (k, p) = ref_read tok in if k = key \<and> \<lfloor>now\<rfloor> \<le> p_exp p then Some p else None)"

definition ref_jwt :: jwt_lib where
  "ref_jwt = \<lparr>jwt_encode = ref_encode, jwt_decode = ref_decode\<rparr>"

lemma ref_read_encode: "ref_read (ref_encode p key) = (key, p)"
proof -
  have dec_int_end: "dec_int (enc_int i) = (i, [])" for i
    using dec_enc_int [of i "[]"] by simp
  show ?thesis by (simp add: ref_read_def ref_encode_def dec_int_end)
qed

lemma ref_jwt_laws: "jwt_laws ref_jwt"
  by (auto simp: jwt_laws_def ref_jwt_def ref_decode_def ref_read_encode split: prod.splits if_splits)

end
