(* ===== verification/Auth_Properties.thy ===== *)
theory Auth_Properties
  imports Auth_Routes Jwt_Reference
begin

text \<open>
  Properties of the authentication stack that span its parts: the deny-list over the life
  of a token, refresh rotation, login and the request guards, session revocation, password
  reset, the tie between tier, role and guard, and the monthly usage counter. The lemmas on
  the store are proved from the \<open>token_store\<close> contract and used through its interpretation
  on the in-memory store.
\<close>

section \<open>Store commands that leave a key alone\<close>

fun writes_key :: "string \<Rightarrow> store_cmd \<Rightarrow> bool" where
  "writes_key k (CmdAdd k' ttl) = (k' = k)"
| "writes_key k (CmdAddJson k' v ttl) = (k' = k)"
| "writes_key k (CmdRemove k') = (k' = k)"
| "writes_key k _ = False"

context token_store
begin

lemma exec_cmd_frame:
  assumes "invar s"
  shows "invar (exec_cmd ops s now c)"
    and "now \<le> t \<Longrightarrow> \<not> writes_key k c \<Longrightarrow> live (exec_cmd ops s now c) t k = live s t k"
  using assms
  by (cases c; simp add: invar_laws add_live_other add_json_live_other contains_live remove_live
      get_json_live keys_live)+

lemma exec_cmds_frame:
  assumes "invar s" "\<forall>c \<in> set cs. fst c \<le> t \<and> \<not> writes_key k (snd c)"
  shows "invar (exec_cmds ops s cs) \<and> live (exec_cmds ops s cs) t k = live s t k"
  using assms
proof (induction cs arbitrary: s)
  case (Cons c cs)
  then show ?case by (cases c) (simp add: exec_cmd_frame)
qed simp

lemma exec_cmds_invar: "invar s \<Longrightarrow> invar (exec_cmds ops s cs)"
proof (induction cs arbitrary: s)
  case (Cons c cs)
  then show ?case by (cases c) (simp add: exec_cmd_frame)
qed simp

text \<open>
  Revocation outlives everything else that happens to the store, as long as nobody writes
  the deny-list key itself.
\<close>

lemma revoked_refused_after:
  assumes laws: "jwt_laws J" and inv: "invar s" and days: "0 < days" and uuid: "uuid \<noteq> []"
    and tok: "tok = create_refresh_token J uuid t0 uid key days"
    and issued: "\<lfloor>t0\<rfloor> < \<lfloor>now\<rfloor>" and later: "now \<le> t"
    and cs: "\<forall>c \<in> set cs. fst c \<le> t \<and> \<not> writes_key uuid (snd c)"
  shows "\<exists>msg. fst (decode_token J ops
      (exec_cmds ops (tok_revoke_refresh_token J ops s now tok key days) cs) t tok key ty) =
    Inl (HTTPException 401 msg)"
proof (cases "\<lfloor>t\<rfloor> \<le> \<lfloor>t0\<rfloor> + days * 86400")
  case False
  then have "jwt_decode J tok key t = None"
    unfolding tok by (rule jwt_decode_refresh_expired [OF laws])
  then show ?thesis by (simp add: decode_token_None)
next
  case True
  let ?s = "ts_add ops s now uuid (days * 86400)"
  have valid: "\<lfloor>now\<rfloor> \<le> \<lfloor>t0\<rfloor> + days * 86400"
    using True floor_mono [OF later] by linarith
  have s: "tok_revoke_refresh_token J ops s now tok key days = ?s"
    unfolding tok_revoke_refresh_token_def tok jwt_decode_refresh [OF laws valid]
    by (simp add: jti_of_def uuid)
  have "t < now + of_int (days * 86400)"
  proof -
    have "\<lfloor>t\<rfloor> < \<lfloor>now\<rfloor> + days * 86400" using True issued by linarith
    then show ?thesis by (metis floor_add_days floor_less_cancel)
  qed
  then have "live ?s t uuid" using add_live [OF inv _ later] days by simp
  then have "live (exec_cmds ops ?s cs) t uuid" and "invar (exec_cmds ops ?s cs)"
    using exec_cmds_frame [OF invar_add [OF inv] cs] by simp_all
  then show ?thesis
    unfolding s unfolding tok using decode_revoked [OF _ jwt_decode_refresh [OF laws True]]
    by (simp add: jti_of_def uuid)
qed

text \<open>What \<open>revoke_all_sessions\<close> does to every key, in terms of the records it found.\<close>

lemma revoke_all_sessions_live:
  assumes inv: "invar s" and days: "0 < svc_refresh_expire_days svc"
    and ids: "\<And>k m. stored s now k = Some (Dumped m) \<Longrightarrow> \<not> prefix ''session:'' (session_id m)"
    and k: "\<not> prefix ''session:'' k" and t: "now \<le> t" "t < now + of_int (session_ttl svc)"
  shows "live (snd (revoke_all_sessions ops svc s now uid)) t k =
     (live s t k \<or> (\<exists>key m. prefix (session_prefix uid) key \<and> stored s now key = Some (Dumped m) \<and>
        session_id m = k \<and> k \<noteq> []))"
    and "invar (snd (revoke_all_sessions ops svc s now uid))"
proof -
  let ?p = "session_prefix uid"
  obtain ks s1 where ks: "ts_keys_by_prefix ops s now ?p = (ks, s1)" by force
  have set_ks: "set ks = {k. live s now k \<and> prefix ?p k}" and "distinct ks"
    using keys_ans [OF inv, of now ?p] keys_distinct [OF inv, of now ?p] ks by simp_all
  have inv1: "invar s1" using invar_keys [OF inv, of now ?p] ks by simp
  have same: "live s1 t' k' = live s t' k'" "stored s1 t' k' = stored s t' k'" if "now \<le> t'" for t' k'
    using keys_live [OF inv that, of ?p] keys_stored [OF inv that, of ?p] ks by simp_all
  have pre: "prefix ''session:'' k'" if "k' \<in> set ks" for k'
    using that by (auto simp: set_ks session_prefix_def prefix_def)
  have ttl: "0 < session_ttl svc" using days by (simp add: session_ttl_def)
  note spec = revoke_all_loop_spec [OF inv1 ttl \<open>distinct ks\<close> pre, of now 0, simplified same [OF order_refl],
      OF _ ids]
  show "live (snd (revoke_all_sessions ops svc s now uid)) t k =
     (live s t k \<or> (\<exists>key m. prefix ?p key \<and> stored s now key = Some (Dumped m) \<and>
        session_id m = k \<and> k \<noteq> []))"
    using spec k t stored_live [OF inv, of now]
    by (auto simp: revoke_all_sessions_def ks set_ks same) metis+
  show "invar (snd (revoke_all_sessions ops svc s now uid))"
    using spec by (simp add: revoke_all_sessions_def ks)
qed

end

section \<open>What a successful login did\<close>

lemma login_success:
  assumes "login E now u1 u2 em pw host agent st = (Inr resp, st')"
  obtains user where "get_by_email (as_db st) em = Some user" "is_active user"
    "env_checkpw E pw (hashed_password user)"
    "access_token resp = issue_access E now u1 user" "refresh_token resp = issue_refresh E now u2 user"
    "as_store st' = register_session (env_jwt E) (env_store E) (env_svc E) (as_store st) now
        (user_id user) (issue_refresh E now u2 user) host agent"
proof -
  from assms obtain user where user: "get_by_email (as_db st) em = Some user" "is_active user"
    "env_checkpw E pw (hashed_password user)"
    by (auto simp: login_def require_active_user_def split: option.splits if_splits)
  with assms show thesis
    by (intro that [of user])
       (auto simp: login_def require_active_user_def Let_def split: option.splits sum.splits)
qed

section \<open>A concrete environment for the witnesses\<close>

definition svc0 :: auth_service where
  "svc0 = \<lparr>svc_secret_key = replicate 32 CHR ''k'', svc_access_expire_minutes = 60, svc_refresh_expire_days = 7\<rparr>"

definition env0 :: "mem_store auth_env" where
  "env0 = \<lparr>env_jwt = ref_jwt, env_checkpw = (\<lambda>plain hashed. plain = hashed), env_hashpw = (\<lambda>p. p),
     env_store = mem_ops, env_svc = svc0, env_secure = True, env_debug = False\<rparr>"

definition user0 :: user where
  "user0 = \<lparr>user_id = ''u1'', email = ''a@x.com'', hashed_password = ''Abcdef1!'', full_name = ''A'',
     role = ''general'', is_active = True, u_created_at = 0, u_updated_at = 0, last_login_at = None,
     password_reset_token = Some ''rst'', password_reset_expiry = Some 50,
     oauth_provider = None, oauth_sub = None, profile_picture_url = None, page_permissions = None,
     subscription_tier = Some ''free'', subscription_status = None,
     razorpay_customer_id = None, razorpay_subscription_id = None,
     stripe_customer_id = None, stripe_subscription_id = None,
     monthly_usage_count = Some 2, usage_month = Some ''2026-03'',
     subscription_start_at = None, subscription_end_at = None,
     chat_request_count = 0, byo_monthly_limit = 100\<rparr>"

definition st0 :: "mem_store auth_state" where
  "st0 = \<lparr>as_db = \<lparr>db_users = [user0], db_audit = []\<rparr>, as_store = mem_init\<rparr>"

lemma env0_sel: "env_jwt env0 = ref_jwt" "env_svc env0 = svc0"
  by (simp_all add: env0_def)

lemmas env0_simps = env0_def svc0_def st0_def user0_def

section \<open>Properties\<close>

text \<open>
  A refresh token that was revoked is refused at every later time, whatever else happens
  to the in-memory store in between (as long as no command writes the deny-list key itself):
  while the deny-list entry lasts the token is listed, and once it lapses the token has
  expired. The token must have been issued in an earlier whole second than its revocation.
\<close>

theorem revoked_refresh_token_stays_refused:
  assumes "jwt_laws J" and "mem_invar s" and "0 < days" and "uuid \<noteq> []"
    and "tok = create_refresh_token J uuid t0 uid key days"
    and "\<lfloor>t0\<rfloor> < \<lfloor>now\<rfloor>" and "now \<le> t"
    and "\<forall>c \<in> set cs. fst c \<le> t \<and> \<not> writes_key uuid (snd c)"
  shows "\<exists>msg. fst (decode_token J mem_ops
      (exec_cmds mem_ops (tok_revoke_refresh_token J mem_ops s now tok key days) cs) t tok key ty) =
    Inl (HTTPException 401 msg)"
  using assms by (rule mem.revoked_refused_after)

theorem revoked_refresh_token_stays_refused_witness:
  "\<exists>msg. fst (decode_token ref_jwt mem_ops
      (exec_cmds mem_ops (tok_revoke_refresh_token ref_jwt mem_ops mem_init 5
         (create_refresh_token ref_jwt ''j1'' 1 ''u1'' ''key'' 7) ''key'' 7)
       [(6, CmdAdd ''j2'' 10), (7, CmdKeys ''session:''), (9, CmdRemove ''j2'')]) 20
      (create_refresh_token ref_jwt ''j1'' 1 ''u1'' ''key'' 7) ''key'' (Some ''refresh'')) =
    Inl (HTTPException 401 msg)"
  by (rule revoked_refresh_token_stays_refused [OF ref_jwt_laws mem_invar_init, of 7 "''j1''" _ 1 "''u1''"])
     simp_all

text \<open>
  C1: Refresh rotates: after a successful refresh, the token it consumed is answered with
  HTTP 401 by every later refresh, whatever the database then holds and whatever else
  happened to the store.
\<close>

theorem refresh_rotation:
  assumes laws: "jwt_laws (env_jwt E)" and store: "env_store E = mem_ops"
    and inv: "mem_invar (as_store st)" and days: "0 < svc_refresh_expire_days (env_svc E)"
    and uuid: "uuid \<noteq> []"
    and tok: "tok = svc_create_refresh_token (env_jwt E) (env_svc E) uuid t0 uid"
    and issued: "\<lfloor>t0\<rfloor> < \<lfloor>now\<rfloor>"
    and ok: "refresh_handler E now u1 u2 (Some tok) bd st = (Inr resp, st')" and tok_ne: "tok \<noteq> []"
    and later: "now \<le> t" and cs: "\<forall>c \<in> set cs. fst c \<le> t \<and> \<not> writes_key uuid (snd c)"
  shows "\<exists>msg. fst (refresh_handler E t v1 v2 (Some tok) bd'
      \<lparr>as_db = db', as_store = exec_cmds mem_ops (as_store st') cs\<rparr>) = Inl (HTTPException 401 msg)"
proof -
  let ?J = "env_jwt E" and ?key = "svc_secret_key (env_svc E)"
  from ok obtain payload s1 where dec: "svc_decode_token ?J mem_ops (env_svc E) (as_store st) now tok
        (Some ''refresh'') = (Inr payload, s1)"
    and st': "as_store st' = svc_revoke_refresh_token ?J mem_ops (env_svc E) s1 now tok"
    by (rule refresh_handler_success) (use tok_ne store in \<open>simp add: presented_token_def\<close>)
  have inv1: "mem_invar s1"
    using mem.decode_token_frame(3) [OF inv order_refl] dec
    by (metis snd_conv svc_decode_token_def)
  obtain msg where "fst (decode_token ?J mem_ops (exec_cmds mem_ops (as_store st') cs) t tok ?key
      (Some ''refresh'')) = Inl (HTTPException 401 msg)"
    unfolding st' svc_revoke_refresh_token_def
    using mem.revoked_refused_after [OF laws inv1 days uuid tok [unfolded svc_create_refresh_token_def]
        issued later cs] by blast
  then show ?thesis
    using tok_ne store
    by (auto simp: refresh_handler_def presented_token_def svc_decode_token_def split: prod.splits)
qed

text \<open>The first refresh of the witness: issued at second 1, used at second 5.\<close>

abbreviation tok0 :: string where
  "tok0 \<equiv> svc_create_refresh_token ref_jwt svc0 ''j1'' 1 ''u1''"

lemma ref_token_nonempty: "svc_create_refresh_token ref_jwt svc uuid t uid \<noteq> []"
  by (simp add: svc_create_refresh_token_def create_refresh_token_def ref_jwt_def ref_encode_def
      enc_str_def enc_nat_def)

lemma refresh0:
  "refresh_handler env0 5 ''a1'' ''j2'' (Some tok0) None st0 =
     (Inr \<lparr>access_token = issue_access env0 5 ''a1'' user0, refresh_token = issue_refresh env0 5 ''j2'' user0,
        resp_cookies = [set_refresh_cookie True (issue_refresh env0 5 ''j2'' user0),
                        set_access_cookie True (issue_access env0 5 ''a1'' user0)]\<rparr>,
      st0\<lparr>as_store := mem_add mem_init 5 ''j1'' 604800\<rparr>)"
proof -
  have dec: "jwt_decode ref_jwt tok0 (svc_secret_key svc0) 5 =
     Some \<lparr>p_sub = Some ''u1'', p_email = None, p_role = None, p_subscription_tier = None,
        p_subscription_status = None, p_usage_remaining = None, p_type = Some ''refresh'',
        p_jti = Some ''j1'', p_iat = 1, p_exp = 604801\<rparr>"
    unfolding svc_create_refresh_token_def
    by (subst jwt_decode_refresh [OF ref_jwt_laws]) (simp_all add: svc0_def)
  have "svc_decode_token ref_jwt mem_ops svc0 mem_init 5 tok0 (Some ''refresh'') =
     (Inr \<lparr>p_sub = Some ''u1'', p_email = None, p_role = None, p_subscription_tier = None,
        p_subscription_status = None, p_usage_remaining = None, p_type = Some ''refresh'',
        p_jti = Some ''j1'', p_iat = 1, p_exp = 604801\<rparr>, mem_init)"
    unfolding svc_decode_token_def decode_token_def dec
    by (simp add: jti_of_def mem_ops_def mem_contains_def mem_init_def)
  moreover have "svc_revoke_refresh_token ref_jwt mem_ops svc0 mem_init 5 tok0 = mem_add mem_init 5 ''j1'' 604800"
    unfolding svc_revoke_refresh_token_def tok_revoke_refresh_token_def dec
    by (simp add: jti_of_def svc0_def mem_ops_def)
  ultimately show ?thesis
    using ref_token_nonempty [of svc0 "''j1''" 1 "''u1''"]
    by (simp add: refresh_handler_def presented_token_def env0_def st0_def get_by_id_def user0_def Let_def)
qed

theorem refresh_rotation_witness:
  "\<exists>msg. fst (refresh_handler env0 100 ''a2'' ''j3'' (Some tok0) None
      \<lparr>as_db = as_db st0, as_store = exec_cmds mem_ops
         (as_store (snd (refresh_handler env0 5 ''a1'' ''j2'' (Some tok0) None st0)))
         [(6, CmdContains ''j1'')]\<rparr>) = Inl (HTTPException 401 msg)"
proof -
  have "\<exists>resp. refresh_handler env0 5 ''a1'' ''j2'' (Some tok0) None st0 =
      (Inr resp, snd (refresh_handler env0 5 ''a1'' ''j2'' (Some tok0) None st0))"
    unfolding refresh0 by simp
  then obtain resp where "refresh_handler env0 5 ''a1'' ''j2'' (Some tok0) None st0 =
      (Inr resp, snd (refresh_handler env0 5 ''a1'' ''j2'' (Some tok0) None st0))" by blast
  note ok = this
  show ?thesis
    by (rule refresh_rotation [of env0 st0 "''j1''" tok0 1 "''u1''" 5 "''a1''" "''j2''" None resp])
       (use ok in \<open>simp_all add: env0_def st0_def ref_jwt_laws mem_invar_init svc0_def ref_token_nonempty\<close>)
qed

text \<open>
  C3: Logging in and presenting the access token returns the caller's own identity: the
  guard \<open>get_current_user\<close> accepts the token for its whole lifetime and yields the user's
  id, e-mail and role and the subscription claims computed at login.
\<close>

theorem login_then_current_user:
  assumes laws: "jwt_laws (env_jwt E)" and store: "env_store E = mem_ops"
    and inv: "mem_invar (as_store st)" and days: "0 < svc_refresh_expire_days (env_svc E)"
    and ok: "login E now u1 u2 em pw host agent st = (Inr resp, st')"
    and fresh: "u1 \<noteq> []" "\<not> mem_live (as_store st) t u1" "\<not> prefix ''session:'' u1"
    and t: "now \<le> t" "\<lfloor>t\<rfloor> \<le> \<lfloor>now\<rfloor> + svc_access_expire_minutes (env_svc E) * 60"
    and wf: "\<forall>u. get_by_email (as_db st) em = Some u \<longrightarrow> user_id u \<noteq> [] \<and> role u \<noteq> []"
  shows "\<exists>user. get_by_email (as_db st) em = Some user \<and>
     fst (get_current_user (env_jwt E) mem_ops (env_svc E) (as_store st') t (access_token resp)) =
       Inr \<lparr>ctx_user_id = user_id user, ctx_email = email user, ctx_role = role user,
            ctx_subscription_tier = cl_tier (subscription_claims user),
            ctx_subscription_status = cl_status (subscription_claims user),
            ctx_usage_remaining = cl_usage_remaining (subscription_claims user)\<rparr>"
proof -
  from ok obtain user where user: "get_by_email (as_db st) em = Some user"
    and acc: "access_token resp = issue_access E now u1 user"
    and st': "as_store st' = register_session (env_jwt E) (env_store E) (env_svc E) (as_store st) now
        (user_id user) (issue_refresh E now u2 user) host agent"
    by (rule login_success) blast
  have dead: "mem_invar (as_store st') \<and> \<not> mem_live (as_store st') t u1"
  proof -
    have "u1 \<noteq> session_key (user_id user) j" for j
      using fresh(3) by (auto simp: session_key_def prefix_def)
    then show ?thesis
      using inv fresh(2) mem.add_json_live_other [OF inv t(1)] mem.invar_add_json [OF inv]
      unfolding st' store register_session_def by (auto simp: Let_def split: option.splits)
  qed
  let ?cl = "subscription_claims user"
  have dec: "jwt_decode (env_jwt E) (access_token resp) (svc_secret_key (env_svc E)) t =
     Some \<lparr>p_sub = Some (user_id user), p_email = Some (email user), p_role = Some (role user),
        p_subscription_tier = Some (cl_tier ?cl), p_subscription_status = Some (cl_status ?cl),
        p_usage_remaining = cl_usage_remaining ?cl, p_type = Some ''access'', p_jti = Some u1,
        p_iat = \<lfloor>now\<rfloor>, p_exp = \<lfloor>now\<rfloor> + svc_access_expire_minutes (env_svc E) * 60\<rparr>"
    unfolding acc issue_access_def svc_create_access_token_def Let_def
    by (rule jwt_decode_access [OF laws t(2)])
  show ?thesis
    using user wf dead fresh(1)
    by (auto simp: get_current_user_def svc_decode_token_def mem.decode_token_Some [OF _ dec] jti_of_def)
qed

lemma login0:
  "\<exists>resp. login env0 5 ''a1'' ''j2'' ''a@x.com'' ''Abcdef1!'' ''1.2.3.4'' ''ua'' st0 =
     (Inr resp, snd (login env0 5 ''a1'' ''j2'' ''a@x.com'' ''Abcdef1!'' ''1.2.3.4'' ''ua'' st0))"
  by (simp add: login_def env0_def st0_def get_by_email_def require_active_user_def user0_def
      update_user_def get_by_id_def Let_def)

theorem login_then_current_user_witness:
  "\<exists>resp user. login env0 5 ''a1'' ''j2'' ''a@x.com'' ''Abcdef1!'' ''1.2.3.4'' ''ua'' st0 =
       (Inr resp, snd (login env0 5 ''a1'' ''j2'' ''a@x.com'' ''Abcdef1!'' ''1.2.3.4'' ''ua'' st0)) \<and>
     get_by_email (as_db st0) ''a@x.com'' = Some user \<and>
     fst (get_current_user ref_jwt mem_ops svc0
       (as_store (snd (login env0 5 ''a1'' ''j2'' ''a@x.com'' ''Abcdef1!'' ''1.2.3.4'' ''ua'' st0)))
       3000 (access_token resp)) =
       Inr \<lparr>ctx_user_id = user_id user, ctx_email = email user, ctx_role = role user,
            ctx_subscription_tier = cl_tier (subscription_claims user),
            ctx_subscription_status = cl_status (subscription_claims user),
            ctx_usage_remaining = cl_usage_remaining (subscription_claims user)\<rparr>"
proof -
  obtain resp where ok: "login env0 5 ''a1'' ''j2'' ''a@x.com'' ''Abcdef1!'' ''1.2.3.4'' ''ua'' st0 =
     (Inr resp, snd (login env0 5 ''a1'' ''j2'' ''a@x.com'' ''Abcdef1!'' ''1.2.3.4'' ''ua'' st0))"
    using login0 by blast
  have hyps: "jwt_laws (env_jwt env0)" "env_store env0 = mem_ops" "mem_invar (as_store st0)"
    "0 < svc_refresh_expire_days (env_svc env0)" "\<not> mem_live (as_store st0) 3000 ''a1''"
    "\<lfloor>3000 :: time\<rfloor> \<le> \<lfloor>5 :: time\<rfloor> + svc_access_expire_minutes (env_svc env0) * 60"
    "\<forall>u. get_by_email (as_db st0) ''a@x.com'' = Some u \<longrightarrow> user_id u \<noteq> [] \<and> role u \<noteq> []"
    by (simp_all add: env0_simps ref_jwt_laws mem_invar_def mem_live_def mem_init_def get_by_email_def)
  show ?thesis
    using login_then_current_user [OF hyps(1-4) ok _ hyps(5) _ _ hyps(6,7), unfolded env0_sel] ok
    by auto
qed

text \<open>
  With the Redis back end a revoked refresh token stays refused just the same, for every
  server that obeys the documented behaviour of its commands, whatever other commands the
  server executes in between.
\<close>

theorem revoked_stays_refused_on_redis:
  assumes "redis_laws c view ok" and "jwt_laws J" and "ok r" and "0 < days" and "uuid \<noteq> []"
    and "tok = create_refresh_token J uuid t0 uid key days"
    and "\<lfloor>t0\<rfloor> < \<lfloor>now\<rfloor>" and "now \<le> t"
    and "\<forall>c \<in> set cs. fst c \<le> t \<and> \<not> writes_key uuid (snd c)"
  shows "\<exists>msg. fst (decode_token J (redis_ops c pfx)
      (exec_cmds (redis_ops c pfx) (tok_revoke_refresh_token J (redis_ops c pfx) r now tok key days) cs)
      t tok key ty) = Inl (HTTPException 401 msg)"
  using token_store.revoked_refused_after [OF redis_token_store [OF assms(1)] assms(2-9)] .

theorem revoked_stays_refused_on_redis_witness:
  "\<exists>msg. fst (decode_token ref_jwt (redis_ops ref_redis ''auth:'')
      (exec_cmds (redis_ops ref_redis ''auth:'') (tok_revoke_refresh_token ref_jwt
         (redis_ops ref_redis ''auth:'') [] 5 (create_refresh_token ref_jwt ''j1'' 1 ''u1'' ''key'' 7) ''key'' 7)
       [(6, CmdAdd ''j2'' 10), (9, CmdRemove ''j2'')]) 20
      (create_refresh_token ref_jwt ''j1'' 1 ''u1'' ''key'' 7) ''key'' (Some ''refresh'')) =
    Inl (HTTPException 401 msg)"
  by (rule revoked_stays_refused_on_redis [OF ref_redis_laws ref_jwt_laws, of "[]" 7 "''j1''" _ 1 "''u1''"])
     (simp_all add: ref_ok_def)

text \<open>
  C4: Revoking all sessions of a user ends every session registered for that user: its
  refresh token is refused at every later time. The identifiers in session records are
  JWT identifiers (uuids), never themselves \<open>session:\<close> keys.
\<close>

theorem revoke_all_denies_registered_session:
  assumes laws: "jwt_laws J" and inv: "mem_invar s" and days: "0 < svc_refresh_expire_days svc"
    and uuid: "uuid \<noteq> []" "\<not> prefix ''session:'' uuid"
    and tok: "tok = svc_create_refresh_token J svc uuid t0 uid"
    and reg: "mem_stored s now (session_key uid uuid) = Some (Dumped m)" "session_id m = uuid"
    and ids: "\<forall>k m. mem_stored s now k = Some (Dumped m) \<longrightarrow> \<not> prefix ''session:'' (session_id m)"
    and issued: "\<lfloor>t0\<rfloor> < \<lfloor>now\<rfloor>" and later: "now \<le> t"
  shows "\<exists>msg. fst (svc_decode_token J mem_ops svc (snd (revoke_all_sessions mem_ops svc s now uid)) t tok ty) =
    Inl (HTTPException 401 msg)"
proof (cases "\<lfloor>t\<rfloor> \<le> \<lfloor>t0\<rfloor> + svc_refresh_expire_days svc * 86400")
  case False
  then have "jwt_decode J tok (svc_secret_key svc) t = None"
    unfolding tok svc_create_refresh_token_def by (rule jwt_decode_refresh_expired [OF laws])
  then show ?thesis by (simp add: svc_decode_token_def mem.decode_token_None)
next
  case True
  let ?s = "snd (revoke_all_sessions mem_ops svc s now uid)"
  have bound: "t < now + of_int (session_ttl svc)"
  proof -
    have "\<lfloor>t\<rfloor> < \<lfloor>now\<rfloor> + session_ttl svc" using True issued by (simp add: session_ttl_def)
    then show ?thesis by (metis floor_add_days floor_less_cancel)
  qed
  have "prefix (session_prefix uid) (session_key uid uuid)"
    by (simp add: session_prefix_def session_key_def)
  then have "mem_live ?s t uuid" "mem_invar ?s"
    using mem.revoke_all_sessions_live [OF inv days _ uuid(2) later bound] ids reg uuid(1) by blast+
  then show ?thesis
    unfolding tok svc_create_refresh_token_def svc_decode_token_def
    using mem.decode_revoked [OF _ jwt_decode_refresh [OF laws True]] uuid(1) by (simp add: jti_of_def)
qed

definition store1 :: mem_store where
  "store1 = register_session ref_jwt mem_ops svc0 mem_init 1 ''u1'' tok0 ''1.2.3.4'' ''ua''"

lemma store1_eq:
  "store1 = mem_add_json mem_init 1 ''session:u1:j1'' (Dumped \<lparr>session_id = ''j1'', meta_user_id = ''u1'',
     ip_address = ''1.2.3.4'', user_agent = ''ua'', created_at = 1, last_activity_at = 1\<rparr>) 604800"
  unfolding store1_def register_session_def svc_create_refresh_token_def
  by (subst jwt_decode_refresh [OF ref_jwt_laws])
     (simp_all add: svc0_def jti_of_def mem_ops_def session_ttl_def session_key_def Let_def)

lemma store1_stored:
  "mem_stored store1 5 k = (if k = ''session:u1:j1'' then Some (Dumped \<lparr>session_id = ''j1'',
     meta_user_id = ''u1'', ip_address = ''1.2.3.4'', user_agent = ''ua'', created_at = 1,
     last_activity_at = 1\<rparr>) else None)"
  unfolding store1_eq by (simp add: mem_add_json_abs mem_invar_init) (simp add: mem_stored_def mem_live_def mem_init_def)

theorem revoke_all_denies_registered_session_witness:
  "\<exists>msg. fst (svc_decode_token ref_jwt mem_ops svc0
      (snd (revoke_all_sessions mem_ops svc0 store1 5 ''u1'')) 100 tok0 (Some ''refresh'')) =
    Inl (HTTPException 401 msg)"
proof -
  have "mem_invar store1"
    unfolding store1_eq by (simp add: mem_invar_ops mem_invar_init)
  then show ?thesis
    using revoke_all_denies_registered_session [of ref_jwt store1 svc0 "''j1''" tok0 1 "''u1''" 5 _ 100]
      ref_jwt_laws by (auto simp: store1_stored svc0_def session_key_def split: if_splits)
qed

text \<open>
  The token a refresh hands out is not covered by \<open>revoke_all_sessions\<close>: the refresh
  handler registers no session for it, so after a later revocation of all the user's
  sessions the new refresh token still decodes until it expires.
\<close>

theorem refreshed_token_survives_revoke_all:
  assumes laws: "jwt_laws (env_jwt E)" and store: "env_store E = mem_ops"
    and inv: "mem_invar (as_store st)" and days: "0 < svc_refresh_expire_days (env_svc E)"
    and ok: "refresh_handler E now u1 u2 (Some tok) bd st = (Inr resp, st')"
    and fresh: "u2 \<noteq> []" "\<not> prefix ''session:'' u2" "\<not> mem_live (as_store st') t u2"
      "\<forall>k m. mem_stored (as_store st') t k = Some (Dumped m) \<longrightarrow>
          session_id m \<noteq> u2 \<and> \<not> prefix ''session:'' (session_id m)"
    and t: "now \<le> t" "\<lfloor>t\<rfloor> \<le> \<lfloor>now\<rfloor> + svc_refresh_expire_days (env_svc E) * 86400"
  shows "\<exists>payload. fst (svc_decode_token (env_jwt E) mem_ops (env_svc E)
      (snd (revoke_all_sessions mem_ops (env_svc E) (as_store st') t uid)) t
      (refresh_token resp) (Some ''refresh'')) = Inr payload"
proof -
  let ?svc = "env_svc E" and ?J = "env_jwt E"
  obtain tok1 payload uid1 user s1 where
    dec: "svc_decode_token ?J mem_ops ?svc (as_store st) now tok1 (Some ''refresh'') = (Inr payload, s1)"
    and st': "as_store st' = svc_revoke_refresh_token ?J mem_ops ?svc s1 now tok1"
    and resp: "refresh_token resp = issue_refresh E now u2 user"
    by (rule refresh_handler_success [OF ok]) (use store in simp)
  have "mem_invar s1"
    using mem.decode_token_frame(3) [OF inv order_refl] dec by (metis snd_conv svc_decode_token_def)
  then have inv': "mem_invar (as_store st')"
    unfolding st' svc_revoke_refresh_token_def tok_revoke_refresh_token_def
    by (auto simp: Let_def mem.invar_add split: option.splits)
  have ttl: "t < t + of_int (session_ttl ?svc)" using days by (simp add: session_ttl_def)
  have "\<not> mem_live (snd (revoke_all_sessions mem_ops ?svc (as_store st') t uid)) t u2"
    and "mem_invar (snd (revoke_all_sessions mem_ops ?svc (as_store st') t uid))"
    using mem.revoke_all_sessions_live [OF inv' days _ fresh(2) order_refl ttl, of uid] fresh(3,4) by blast+
  then show ?thesis
    unfolding resp issue_refresh_def svc_create_refresh_token_def svc_decode_token_def
    using mem.decode_token_Some [OF _ jwt_decode_refresh [OF laws t(2)]]
    by (simp add: jti_of_def)
qed

theorem refreshed_token_survives_revoke_all_witness:
  "\<exists>resp payload. refresh_handler env0 5 ''a1'' ''j2'' (Some tok0) None st0 =
      (Inr resp, st0\<lparr>as_store := mem_add mem_init 5 ''j1'' 604800\<rparr>) \<and>
    fst (svc_decode_token ref_jwt mem_ops svc0
      (snd (revoke_all_sessions mem_ops svc0 (mem_add mem_init 5 ''j1'' 604800) 60 ''u1'')) 60
      (refresh_token resp) (Some ''refresh'')) = Inr payload"
proof -
  have hyps: "jwt_laws (env_jwt env0)" "env_store env0 = mem_ops" "mem_invar (as_store st0)"
    "0 < svc_refresh_expire_days (env_svc env0)"
    by (simp_all add: env0_simps ref_jwt_laws mem_invar_def mem_init_def)
  have gone: "mem_stored (mem_add mem_init 5 ''j1'' 604800) 60 k = None"
    "\<not> mem_live (mem_add mem_init 5 ''j1'' 604800) 60 ''j2''" for k
    by (simp_all add: mem_add_def mem_prune_def mem_init_def mem_stored_def mem_live_def)
  show ?thesis
    unfolding refresh0
    using refreshed_token_survives_revoke_all [OF hyps refresh0, of 60 "''u1''"] gone
    by (simp add: env0_def svc0_def st0_def)
qed

end
