(* ===== verification/Account_Properties.thy ===== *)
theory Account_Properties
  imports Auth_Properties
begin

text \<open>
  Properties of accounts: password reset end to end, the tie between subscription tier, role
  and the request guards, and the monthly usage counter against the quota.
\<close>

section \<open>Password reset\<close>

lemma password_reset_confirm_success:
  assumes "password_reset_confirm E now tok pw ctx st = (Inr (), st')"
  obtains u where "get_by_id (as_db st) (ctx_user_id ctx) = Some u"
    and "password_reset_token u = Some tok" "tok \<noteq> []" "validate_password_strength pw = Inr ()"
    and "\<forall>d. password_reset_expiry u = Some d \<longrightarrow> now \<le> d"
    and "get_by_id (as_db st') (ctx_user_id ctx) = Some (u\<lparr>hashed_password := env_hashpw E pw,
           password_reset_token := None, password_reset_expiry := None, u_updated_at := now\<rparr>)"
proof -
  let ?uid = "ctx_user_id ctx"
  let ?fs = "[SetHashedPassword (env_hashpw E pw), SetPasswordResetToken None, SetPasswordResetExpiry None]"
  from assms obtain u where u: "get_by_id (as_db st) ?uid = Some u" "password_reset_token u = Some tok"
      "tok \<noteq> []" "validate_password_strength pw = Inr ()"
      "\<forall>d. password_reset_expiry u = Some d \<longrightarrow> now \<le> d"
    by (auto simp: password_reset_confirm_def Let_def
        split: option.splits sum.splits if_splits elim!: truthy_str.elims)
  obtain u' db' where up: "update_user (as_db st) now True ?uid ?fs = Inr (u', db')"
    using update_user_exists [OF u(1)] by blast
  from up obtain v where v: "get_by_id (as_db st) ?uid = Some v"
    and u': "u' = (fold set_field (fst (sync_role v ?fs)) v)\<lparr>u_updated_at := now\<rparr>"
    and row: "\<And>k. get_by_id db' k = (if k = ?uid then Some u' else get_by_id (as_db st) k)"
    by (rule update_user_result) blast
  have "as_db st' = append_audit_event db' now ''PASSWORD_RESET'' ?uid ?uid [(''stage'', ''confirm'')]"
    using assms u up
    by (auto simp: password_reset_confirm_def Let_def split: option.splits sum.splits if_splits)
  then show thesis
    using that [OF u] row u' v u(1) by simp
qed

text \<open>
  A password reset is accepted only with the stored, unexpired, non-empty token and a
  strong password; it stores the hash of the new password for exactly that user and is
  single use: every later confirmation on the resulting database is refused, until a new
  reset is requested.
\<close>

theorem password_reset_single_use:
  assumes ok: "password_reset_confirm E now tok pw ctx st = (Inr (), st')"
    and strong: "validate_password_strength pw' = Inr ()"
  shows "\<exists>u. get_by_id (as_db st) (ctx_user_id ctx) = Some u \<and> password_reset_token u = Some tok \<and>
      validate_password_strength pw = Inr () \<and>
      map_option hashed_password (get_by_id (as_db st') (ctx_user_id ctx)) = Some (env_hashpw E pw) \<and>
      fst (password_reset_confirm E now' tok' pw' ctx st') = Inl (HTTPException 400 ''Invalid reset token'')"
  by (rule password_reset_confirm_success [OF ok])
     (use strong in \<open>auto simp: password_reset_confirm_def\<close>)

abbreviation ctx0 :: user_context where
  "ctx0 \<equiv> \<lparr>ctx_user_id = ''u1'', ctx_email = ''A@x.com'', ctx_role = ''general'',
     ctx_subscription_tier = ''free'', ctx_subscription_status = ''active'', ctx_usage_remaining = Some 1\<rparr>"

lemma strong0: "validate_password_strength ''Newpass1!'' = Inr ()"
  by (simp add: validate_password_strength_def is_digit_def is_upper_def is_lower_def is_alnum_def
      is_alpha_def ord_def)

theorem password_reset_single_use_witness:
  "\<exists>st1. password_reset_confirm env0 40 ''rst'' ''Newpass1!'' ctx0 st0 = (Inr (), st1) \<and>
     (\<exists>u. get_by_id (as_db st0) ''u1'' = Some u \<and> password_reset_token u = Some ''rst'' \<and>
      validate_password_strength ''Newpass1!'' = Inr () \<and>
      map_option hashed_password (get_by_id (as_db st1) ''u1'') = Some ''Newpass1!'' \<and>
      fst (password_reset_confirm env0 41 ''rst'' ''Newpass1!'' ctx0 st1) =
        Inl (HTTPException 400 ''Invalid reset token''))"
proof -
  obtain st1 where ok: "password_reset_confirm env0 40 ''rst'' ''Newpass1!'' ctx0 st0 = (Inr (), st1)"
    by (simp add: password_reset_confirm_def strong0 env0_def st0_def get_by_id_def user0_def Let_def
        update_user_def)
  then show ?thesis
    using password_reset_single_use [OF ok strong0, of 41 "''rst''"] by (simp add: env0_def)
qed

section \<open>Tier, role and guard\<close>



section \<open>Usage quota\<close>

lemma increment_usage_result:
  assumes user: "get_by_id (us_db st) uid = Some u" and month: "month \<noteq> []"
  shows "\<exists>u'. get_by_id (us_db (increment_usage up now month st uid)) uid = Some u' \<and>
     month_count month u' = month_count month u + 1 \<and> subscription_tier u' = subscription_tier u \<and>
     (\<forall>k. k \<noteq> uid \<longrightarrow> get_by_id (us_db (increment_usage up now month st uid)) k = get_by_id (us_db st) k)"
proof -
  obtain u1 st1 where
    reset: "maybe_reset up now st u month = Inr (u1, st1)"
    and "str_or (usage_month u1) [] = month" and cnt: "int_or (monthly_usage_count u1) 0 = month_count month u"
    and tier: "subscription_tier u1 = subscription_tier u"
    and other: "\<And>k. k \<noteq> uid \<Longrightarrow> get_by_id (us_db st1) k = get_by_id (us_db st) k"
    and row: "\<exists>row. get_by_id (us_db st1) uid = Some row \<and> row\<lparr>u_updated_at := 0\<rparr> = u1\<lparr>u_updated_at := 0\<rparr>"
    by (rule maybe_reset_result [OF user month, of up now], rule that)
  from row obtain r where r: "get_by_id (us_db st1) uid = Some r" "r\<lparr>u_updated_at := 0\<rparr> = u1\<lparr>u_updated_at := 0\<rparr>"
    by blast
  have rt: "subscription_tier r = subscription_tier u"
    using arg_cong [OF r(2), of subscription_tier] tier by simp
  obtain db'
    where "update_user (us_db st1) now True uid
        [SetMonthlyUsageCount (Some (month_count month u + 1)), SetUsageMonth (Some month)] =
      Inr (r\<lparr>monthly_usage_count := Some (month_count month u + 1), usage_month := Some month, u_updated_at := now\<rparr>, db')"
    and "\<And>k. get_by_id db' k = (if k = uid then Some (r\<lparr>monthly_usage_count := Some (month_count month u + 1),
        usage_month := Some month, u_updated_at := now\<rparr>) else get_by_id (us_db st1) k)"
    by (rule update_usage_result [OF r(1), of now "Some (month_count month u + 1)" "Some month"], rule that)
  then show ?thesis
    using user reset cnt rt other by (simp add: increment_usage_def month_count_def)
qed

text \<open>The calls of a run: for each, whether the archive is reachable, and the clock.\<close>

definition run_increments :: "string \<Rightarrow> string \<Rightarrow> (bool \<times> time) list \<Rightarrow> usage_state \<Rightarrow> usage_state" where
  "run_increments month uid calls st = fold (\<lambda>(up, now) st. increment_usage up now month st uid) calls st"

lemma run_increments_result:
  assumes "get_by_id (us_db st) uid = Some u" "month \<noteq> []"
  shows "\<exists>u'. get_by_id (us_db (run_increments month uid calls st)) uid = Some u' \<and>
     month_count month u' = month_count month u + int (length calls) \<and> subscription_tier u' = subscription_tier u \<and>
     (\<forall>k. k \<noteq> uid \<longrightarrow> get_by_id (us_db (run_increments month uid calls st)) k = get_by_id (us_db st) k)"
  using assms
proof (induction calls arbitrary: st u)
  case Nil
  then show ?case by (simp add: run_increments_def)
next
  case (Cons c calls)
  obtain up now where c: "c = (up, now)" by force
  obtain u1 where u1: "get_by_id (us_db (increment_usage up now month st uid)) uid = Some u1"
     "month_count month u1 = month_count month u + 1" "subscription_tier u1 = subscription_tier u"
     "\<forall>k. k \<noteq> uid \<longrightarrow> get_by_id (us_db (increment_usage up now month st uid)) k = get_by_id (us_db st) k"
    using increment_usage_result [OF Cons.prems] by blast
  have "run_increments month uid (c # calls) st = run_increments month uid calls (increment_usage up now month st uid)"
    by (simp add: run_increments_def c)
  with Cons.IH [OF u1(1) Cons.prems(2)] u1 show ?case by auto
qed

text \<open>
  The usage counter counts: after any number of increments in a month, whatever month
  the row was last written in and whether or not archiving works, the quota check answers
  exactly whether this month's earlier uses plus the increments reach the tier's quota (a
  quota of 0 is unlimited), and other users' rows are untouched.
\<close>

theorem quota_counts_monthly_uses:
  assumes user: "get_by_id (us_db st) uid = Some u" and month: "month \<noteq> []" and uid: "uid \<noteq> []"
    and quota: "q = dict_get USAGE_QUOTAS (str_or (subscription_tier u) ''free'') 3"
  shows "fst (is_quota_exceeded up now month (run_increments month uid calls st) uid) =
      (q \<noteq> 0 \<and> q \<le> month_count month u + int (length calls)) \<and>
     (\<forall>k. k \<noteq> uid \<longrightarrow> get_by_id (us_db (run_increments month uid calls st)) k = get_by_id (us_db st) k)"
proof -
  from run_increments_result [OF user month] obtain u1 where
    u1: "get_by_id (us_db (run_increments month uid calls st)) uid = Some u1"
     "month_count month u1 = month_count month u + int (length calls)"
     "subscription_tier u1 = subscription_tier u"
     "\<forall>k. k \<noteq> uid \<longrightarrow> get_by_id (us_db (run_increments month uid calls st)) k = get_by_id (us_db st) k"
    by blast
  obtain u2 st2 where
    "maybe_reset up now (run_increments month uid calls st) u1 month = Inr (u2, st2)"
    "int_or (monthly_usage_count u2) 0 = month_count month u1" "subscription_tier u2 = subscription_tier u1"
    by (rule maybe_reset_result [OF u1(1) month, of up now], rule that)
  then show ?thesis
    using u1 uid by (simp add: is_quota_exceeded_def Let_def quota)
qed

theorem quota_counts_monthly_uses_witness:
  "fst (is_quota_exceeded True 9 ''2026-04'' (run_increments ''2026-04'' ''u1'' [(True, 7), (False, 8)]
      \<lparr>us_db = as_db st0, us_history = []\<rparr>) ''u1'') = False \<and>
   fst (is_quota_exceeded True 9 ''2026-03'' (run_increments ''2026-03'' ''u1'' [(True, 7), (False, 8)]
      \<lparr>us_db = as_db st0, us_history = []\<rparr>) ''u1'') = True"
  using quota_counts_monthly_uses [of "\<lparr>us_db = as_db st0, us_history = []\<rparr>" "''u1''" user0 "''2026-04''" 3 True 9 "[(True, 7), (False, 8)]"]
    quota_counts_monthly_uses [of "\<lparr>us_db = as_db st0, us_history = []\<rparr>" "''u1''" user0 "''2026-03''" 3 True 9 "[(True, 7), (False, 8)]"]
  by (simp add: st0_def get_by_id_def user0_def dict_get_def USAGE_QUOTAS_def month_count_def)

end
