(* ===== verification/Messages.thy ===== *)
theory Messages
  imports Prelude
begin

text \<open>
  LangChain messages as the cascade, the compressor and the budget read them: the four
  message classes, content that is a text or a list of structured blocks, the tool calls of
  an assistant message (identifier, name of the tool, and the arguments as their rendering \<open>str(args)\<close>) and the
  identifier and tool name of a tool result. System prompts are texts.
\<close>

datatype msg_content = Text string | Blocks "string list"

record tool_call =
  tc_id :: "string option"
  tc_name :: string
  tc_args :: string

datatype message =
    SystemMessage string
  | HumanMessage msg_content
  | AIMessage msg_content "tool_call list"
  | ToolMessage msg_content string "string option"

fun content :: "message \<Rightarrow> msg_content" where
  "content (SystemMessage c) = Text c"
| "content (HumanMessage c) = c"
| "content (AIMessage c tcs) = c"
| "content (ToolMessage c i n) = c"

fun tool_calls :: "message \<Rightarrow> tool_call list" where
  "tool_calls (AIMessage c tcs) = tcs"
| "tool_calls _ = []"

fun is_system :: "message \<Rightarrow> bool" where
  "is_system (SystemMessage c) = True"
| "is_system _ = False"

fun is_human :: "message \<Rightarrow> bool" where
  "is_human (HumanMessage c) = True"
| "is_human _ = False"

fun is_ai :: "message \<Rightarrow> bool" where
  "is_ai (AIMessage c tcs) = True"
| "is_ai _ = False"

fun is_tool :: "message \<Rightarrow> bool" where
  "is_tool (ToolMessage c i n) = True"
| "is_tool _ = False"

text \<open>The characters \<open>estimate_tokens\<close> counts in a content: structured blocks count nothing.\<close>

fun content_chars :: "msg_content \<Rightarrow> int" where
  "content_chars (Text s) = int (length s)"
| "content_chars (Blocks bs) = 0"

lemma content_chars_nonneg [simp]: "0 \<le> content_chars c"
  by (cases c) simp_all

end
