(* ===== verification/Token_Budget.thy ===== *)
theory Token_Budget
  imports Messages
begin

text \<open>
  \<open>backend/token_budget.py\<close>: the sliding-window budget of every Groq model (tokens and
  requests per minute and per day) with its reserve/release protocol, and the round-robin
  pools. Each method body runs under the model's lock, so a concurrent execution is a
  sequence of calls; \<open>release\<close>, \<open>record\<close> and the reports read the clock before they take
  the lock, so the clock readings along that sequence need not be sorted. The thresholds
  are exact rationals: \<open>lim * 0.80\<close> and \<open>raw * 1.20\<close> compare and truncate in Python as the
  rationals 4/5 and 6/5 do for the integers that occur.

  Lemmas: the running totals are the sums of their deques in every reachable state; what a
  reservation admits; the ghost history of all admitted requests stays below 80 per cent of
  every limit as long as nothing is released; the round-robin order.
\<close>

section \<open>Limits\<close>

definition MINUTE :: int where "MINUTE = 60"
definition DAY :: int where "DAY = 86400"

text \<open>\<open>_THRESHOLD\<close> and \<open>_ESTIMATE_MARGIN\<close>.\<close>

definition THRESHOLD :: rat where "THRESHOLD = 4 / 5"
definition ESTIMATE_MARGIN :: rat where "ESTIMATE_MARGIN = 6 / 5"

record ModelLimits =
  rpm :: int
  tpm :: int
  rpd :: int
  tpd :: int

definition DEFAULT_LIMITS :: "(string \<times> ModelLimits) list" where
  "DEFAULT_LIMITS =
     [(''meta-llama/llama-4-scout-17b-16e-instruct'',
         \<lparr>rpm = 30, tpm = 30000, rpd = 1000, tpd = 500000\<rparr>),
      (''openai/gpt-oss-120b'', \<lparr>rpm = 30, tpm = 8000, rpd = 1000, tpd = 200000\<rparr>),
      (''llama-3.3-70b-versatile'', \<lparr>rpm = 30, tpm = 12000, rpd = 1000, tpd = 100000\<rparr>),
      (''llama-3.1-8b-instant'', \<lparr>rpm = 30, tpm = 6000, rpd = 14400, tpd = 500000\<rparr>),
      (''qwen/qwen3-32b'', \<lparr>rpm = 60, tpm = 6000, rpd = 1000, tpd = 500000\<rparr>),
      (''openai/gpt-oss-20b'', \<lparr>rpm = 30, tpm = 8000, rpd = 1000, tpd = 200000\<rparr>)]"

section \<open>Round-robin pools\<close>

record RoundRobinPool =
  pool_name :: string
  pool_models :: "string list"
  pool_counter :: nat

definition mk_pool :: "string \<Rightarrow> string list \<Rightarrow> RoundRobinPool" where
  "mk_pool name models = \<lparr>pool_name = name, pool_models = models, pool_counter = 0\<rparr>"

definition ordered_models :: "RoundRobinPool \<Rightarrow> string list \<times> RoundRobinPool" where
  "ordered_models p =
     (let n = length (pool_models p) in
      if n = 0 then ([], p)
      else
        (let idx = pool_counter p mod n
         in (map (\<lambda>i. pool_models p ! ((idx + i) mod n)) [0..<n],
             p\<lparr>pool_counter := pool_counter p + 1\<rparr>)))"

section \<open>State\<close>

type_synonym usage_log = "(time \<times> int) list"

record model_state =
  minute_tokens :: usage_log
  minute_tokens_total :: int
  minute_requests :: usage_log
  minute_requests_total :: int
  day_tokens :: usage_log
  day_tokens_total :: int
  day_requests :: usage_log
  day_requests_total :: int

definition empty_state :: model_state where
  "empty_state = \<lparr>minute_tokens = [], minute_tokens_total = 0, minute_requests = [],
     minute_requests_total = 0, day_tokens = [], day_tokens_total = 0, day_requests = [],
     day_requests_total = 0\<rparr>"

record token_budget =
  tb_limits :: "(string \<times> ModelLimits) list"
  tb_state :: "(string \<times> model_state) list"
  tb_pools :: "(string \<times> RoundRobinPool) list"

text \<open>\<open>{**_DEFAULT_LIMITS, **(limits or {})}\<close>.\<close>

definition TokenBudget :: "(string \<times> ModelLimits) list \<Rightarrow> token_budget" where
  "TokenBudget limits =
     (let lims = fold (\<lambda>(m, l) d. AList.update m l d) limits DEFAULT_LIMITS
      in \<lparr>tb_limits = lims, tb_state = map (\<lambda>(m, l). (m, empty_state)) lims, tb_pools = []\<rparr>)"

text \<open>\<open>_get_state\<close>: creating the entry lazily is visible only as the empty state.\<close>

definition get_state :: "token_budget \<Rightarrow> string \<Rightarrow> model_state" where
  "get_state b model = (case map_of (tb_state b) model of None \<Rightarrow> empty_state | Some s \<Rightarrow> s)"

definition put_state :: "token_budget \<Rightarrow> string \<Rightarrow> model_state \<Rightarrow> token_budget" where
  "put_state b model s = b\<lparr>tb_state := AList.update model s (tb_state b)\<rparr>"

section \<open>The sliding window\<close>

text \<open>The \<open>while\<close> loop of \<open>_window_total\<close>.\<close>

fun pop_expired :: "time \<Rightarrow> usage_log \<Rightarrow> int \<Rightarrow> int \<times> usage_log" where
  "pop_expired cutoff [] expired = (expired, [])"
| "pop_expired cutoff ((t, cnt) # entries) expired =
     (if t < cutoff then pop_expired cutoff entries (expired + cnt) else (expired, (t, cnt) # entries))"

definition window_total :: "usage_log \<Rightarrow> int \<Rightarrow> time \<Rightarrow> int \<Rightarrow> (int \<times> int) \<times> usage_log" where
  "window_total entries window_seconds now running_total =
     (let cutoff = now - of_int window_seconds;
          (expired, entries') = pop_expired cutoff entries 0
      in ((running_total - expired, expired), entries'))"

text \<open>The four calls of \<open>_window_total\<close> every budget method starts with.\<close>

definition prune_state :: "time \<Rightarrow> model_state \<Rightarrow> model_state" where
  "prune_state now s =
     (let ((tpm_used, _), mt) = window_total (minute_tokens s) MINUTE now (minute_tokens_total s);
          ((rpm_used, _), mr) = window_total (minute_requests s) MINUTE now (minute_requests_total s);
          ((tpd_used, _), dt) = window_total (day_tokens s) DAY now (day_tokens_total s);
          ((rpd_used, _), dr) = window_total (day_requests s) DAY now (day_requests_total s)
      in \<lparr>minute_tokens = mt, minute_tokens_total = tpm_used,
          minute_requests = mr, minute_requests_total = rpm_used,
          day_tokens = dt, day_tokens_total = tpd_used,
          day_requests = dr, day_requests_total = rpd_used\<rparr>)"

text \<open>The four checks, in order; each early \<open>return False\<close> is one conjunct.\<close>

definition within_budget :: "ModelLimits \<Rightarrow> model_state \<Rightarrow> int \<Rightarrow> bool" where
  "within_budget lm s est \<longleftrightarrow>
     \<not> of_int (minute_tokens_total s + est) > of_int (tpm lm) * THRESHOLD \<and>
     \<not> of_int (minute_requests_total s + 1) > of_int (rpm lm) * THRESHOLD \<and>
     \<not> of_int (day_tokens_total s + est) > of_int (tpd lm) * THRESHOLD \<and>
     \<not> of_int (day_requests_total s + 1) > of_int (rpd lm) * THRESHOLD"

text \<open>Append one entry to each deque and adjust the running totals.\<close>

definition append_usage :: "time \<Rightarrow> int \<Rightarrow> int \<Rightarrow> model_state \<Rightarrow> model_state" where
  "append_usage now tokens requests s =
     \<lparr>minute_tokens = minute_tokens s @ [(now, tokens)],
      minute_tokens_total = minute_tokens_total s + tokens,
      minute_requests = minute_requests s @ [(now, requests)],
      minute_requests_total = minute_requests_total s + requests,
      day_tokens = day_tokens s @ [(now, tokens)],
      day_tokens_total = day_tokens_total s + tokens,
      day_requests = day_requests s @ [(now, requests)],
      day_requests_total = day_requests_total s + requests\<rparr>"

section \<open>Methods\<close>

definition register_pool :: "token_budget \<Rightarrow> string \<Rightarrow> string list \<Rightarrow> RoundRobinPool \<times> token_budget" where
  "register_pool b name models =
     (case map_of (tb_pools b) name of
        Some p \<Rightarrow> (p, b)
      | None \<Rightarrow> (let pool = mk_pool name models
                 in (pool, b\<lparr>tb_pools := AList.update name pool (tb_pools b)\<rparr>)))"

definition get_pool :: "token_budget \<Rightarrow> string \<Rightarrow> RoundRobinPool option" where
  "get_pool b name = map_of (tb_pools b) name"

definition get_tpm :: "token_budget \<Rightarrow> string \<Rightarrow> int option" where
  "get_tpm b model = map_option tpm (map_of (tb_limits b) model)"

definition message_chars :: "message \<Rightarrow> int" where
  "message_chars msg = content_chars (content msg) +
     (\<Sum>tc \<leftarrow> tool_calls msg. int (length (tc_args tc)))"

definition estimate_tokens :: "message list \<Rightarrow> int" where
  "estimate_tokens messages =
     (let total_chars = (\<Sum>msg \<leftarrow> messages. message_chars msg);
          raw = total_chars div 4
      in \<lfloor>of_int raw * ESTIMATE_MARGIN\<rfloor>)"

definition can_afford :: "token_budget \<Rightarrow> time \<Rightarrow> string \<Rightarrow> int \<Rightarrow> bool \<times> token_budget" where
  "can_afford b now model estimated_tokens =
     (case map_of (tb_limits b) model of
        None \<Rightarrow> (True, b)
      | Some lm \<Rightarrow>
          (let s = prune_state now (get_state b model)
           in (within_budget lm s estimated_tokens, put_state b model s)))"

definition reserve :: "token_budget \<Rightarrow> time \<Rightarrow> string \<Rightarrow> int \<Rightarrow> bool \<times> token_budget" where
  "reserve b now model estimated_tokens =
     (case map_of (tb_limits b) model of
        None \<Rightarrow> (True, b)
      | Some lm \<Rightarrow>
          (let s = prune_state now (get_state b model) in
           if \<not> within_budget lm s estimated_tokens then (False, put_state b model s)
           else (True, put_state b model (append_usage now estimated_tokens 1 s))))"

definition release :: "token_budget \<Rightarrow> time \<Rightarrow> string \<Rightarrow> int \<Rightarrow> token_budget" where
  "release b now model estimated_tokens =
     (case map_of (tb_limits b) model of
        None \<Rightarrow> b
      | Some lm \<Rightarrow> put_state b model (append_usage now (- estimated_tokens) (- 1) (get_state b model)))"

definition record_usage :: "token_budget \<Rightarrow> time \<Rightarrow> string \<Rightarrow> int \<Rightarrow> token_budget" where
  "record_usage b now model tokens_used =
     put_state b model (append_usage now tokens_used 1 (get_state b model))"

text \<open>\<open>clk i\<close> is the clock reading of the \<open>i\<close>-th candidate's check.\<close>

fun try_candidates ::
    "token_budget \<Rightarrow> (nat \<Rightarrow> time) \<Rightarrow> nat \<Rightarrow> int \<Rightarrow> string list \<Rightarrow> string option \<times> token_budget" where
  "try_candidates b clk i est [] = (None, b)"
| "try_candidates b clk i est (model # ms) =
     (case can_afford b (clk i) model est of
        (True, b') \<Rightarrow> (Some model, b')
      | (False, b') \<Rightarrow> try_candidates b' clk (Suc i) est ms)"

definition best_available ::
    "token_budget \<Rightarrow> (nat \<Rightarrow> time) \<Rightarrow> int \<Rightarrow> string \<Rightarrow> string list option \<Rightarrow> string option \<times> token_budget" where
  "best_available b clk estimated_tokens prefer fallbacks =
     try_candidates b clk 0 estimated_tokens (prefer # (case fallbacks of None \<Rightarrow> [] | Some fs \<Rightarrow> fs))"

text \<open>
  \<open>seed_daily_from_iceberg\<close>: \<open>usage\<close> is today's usage per model as the table scan and the
  group-by deliver it, \<^const>\<open>None\<close> when any of that raises.
\<close>

definition seed_one :: "time \<Rightarrow> string \<times> int \<times> int \<Rightarrow> token_budget \<Rightarrow> token_budget" where
  "seed_one now row b =
     (case row of (model, tokens, requests) \<Rightarrow>
        if tokens \<le> 0 \<and> requests \<le> 0 then b
        else
          (let s = get_state b model in
           if day_tokens_total s > 0 \<or> day_requests_total s > 0 then put_state b model s
           else put_state b model
             (s\<lparr>day_tokens := day_tokens s @ [(now, tokens)], day_tokens_total := tokens,
                day_requests := day_requests s @ [(now, requests)], day_requests_total := requests\<rparr>)))"

definition seed_daily_from_iceberg ::
    "token_budget \<Rightarrow> time \<Rightarrow> (string \<times> int \<times> int) list option \<Rightarrow> token_budget" where
  "seed_daily_from_iceberg b now usage =
     (case usage of None \<Rightarrow> b | Some rows \<Rightarrow> fold (seed_one now) rows b)"

text \<open>\<open>get_status\<close>: the four pairs \<open>used/limit\<close> of each model, with the pruned state.\<close>

record model_status =
  ms_tpm :: "int \<times> int"
  ms_rpm :: "int \<times> int"
  ms_tpd :: "int \<times> int"
  ms_rpd :: "int \<times> int"

definition status_of :: "ModelLimits \<Rightarrow> model_state \<Rightarrow> model_status" where
  "status_of lm s =
     \<lparr>ms_tpm = (max 0 (minute_tokens_total s), tpm lm), ms_rpm = (max 0 (minute_requests_total s), rpm lm),
      ms_tpd = (max 0 (day_tokens_total s), tpd lm), ms_rpd = (max 0 (day_requests_total s), rpd lm)\<rparr>"

fun status_loop ::
    "time \<Rightarrow> (string \<times> ModelLimits) list \<Rightarrow> token_budget \<Rightarrow> (string \<times> model_status) list \<times> token_budget" where
  "status_loop now [] b = ([], b)"
| "status_loop now ((model, lm) # ls) b =
     (let s = prune_state now (get_state b model);
          (rest, b') = status_loop now ls (put_state b model s)
      in ((model, status_of lm s) # rest, b'))"

definition get_status :: "token_budget \<Rightarrow> time \<Rightarrow> (string \<times> model_status) list \<times> token_budget" where
  "get_status b now = status_loop now (tb_limits b) b"

text \<open>\<open>get_daily_budget\<close> without the calendar fields; \<open>usage_pct\<close> before rounding.\<close>

record day_usage =
  du_total :: int
  du_requests :: int
  du_limit :: int

record daily_budget =
  db_limit :: int
  db_total :: int
  db_remaining :: int
  db_usage_pct :: rat
  db_by_model :: "(string \<times> day_usage) list"
  db_queries_remaining :: int

definition prune_day :: "time \<Rightarrow> model_state \<Rightarrow> model_state" where
  "prune_day now s =
     (let ((tpd_used, _), dt) = window_total (day_tokens s) DAY now (day_tokens_total s);
          ((rpd_used, _), dr) = window_total (day_requests s) DAY now (day_requests_total s)
      in s\<lparr>day_tokens := dt, day_tokens_total := tpd_used,
           day_requests := dr, day_requests_total := rpd_used\<rparr>)"

fun daily_loop ::
    "time \<Rightarrow> (string \<times> ModelLimits) list \<Rightarrow> token_budget \<Rightarrow> (string \<times> day_usage) list \<times> token_budget" where
  "daily_loop now [] b = ([], b)"
| "daily_loop now ((model, lm) # ls) b =
     (let s = prune_day now (get_state b model);
          info = \<lparr>du_total = max 0 (day_tokens_total s), du_requests = max 0 (day_requests_total s),
                  du_limit = tpd lm\<rparr>;
          (rest, b') = daily_loop now ls (put_state b model s)
      in ((model, info) # rest, b'))"

definition queries_remaining :: "int \<Rightarrow> day_usage \<Rightarrow> int" where
  "queries_remaining global_avg info =
     (let model_remaining = max 0 (du_limit info - du_total info);
          model_avg = (if du_requests info > 0 then du_total info div du_requests info else global_avg)
      in if model_avg > 0 then model_remaining div model_avg else 0)"

definition get_daily_budget :: "token_budget \<Rightarrow> time \<Rightarrow> daily_budget \<times> token_budget" where
  "get_daily_budget b now =
     (let (by_model, b') = daily_loop now (tb_limits b) b;
          total_tokens = (\<Sum>(m, i) \<leftarrow> by_model. du_total i);
          total_requests = (\<Sum>(m, i) \<leftarrow> by_model. du_requests i);
          daily_limit = (\<Sum>(m, i) \<leftarrow> by_model. du_limit i);
          global_avg = (if total_requests > 0 then total_tokens div total_requests else 800)
      in (\<lparr>db_limit = daily_limit, db_total = total_tokens,
           db_remaining = max 0 (daily_limit - total_tokens),
           db_usage_pct = (if daily_limit \<noteq> 0 then of_int total_tokens / of_int daily_limit * 100 else 0),
           db_by_model = by_model,
           db_queries_remaining = (\<Sum>(m, i) \<leftarrow> by_model. queries_remaining global_avg i)\<rparr>, b'))"

lemmas budget_ops [budget_defs] = can_afford_def reserve_def release_def record_usage_def

section \<open>Lemmas on one window\<close>

abbreviation amount :: "usage_log \<Rightarrow> int" where
  "amount entries \<equiv> sum_list (map snd entries)"

lemma pop_expired_eq:
  "pop_expired cutoff l e =
     (e + amount (takeWhile (\<lambda>x. fst x < cutoff) l), dropWhile (\<lambda>x. fst x < cutoff) l)"
  by (induction cutoff l e rule: pop_expired.induct) auto

lemma window_total_eq:
  "window_total l w now tot =
     ((tot - amount (takeWhile (\<lambda>x. fst x < now - of_int w) l), amount (takeWhile (\<lambda>x. fst x < now - of_int w) l)),
      dropWhile (\<lambda>x. fst x < now - of_int w) l)"
  by (simp add: window_total_def pop_expired_eq Let_def)

lemma amount_window:
  "amount l - amount (takeWhile P l) = amount (dropWhile P l)"
  using sum_list_dropWhile_split [of snd l P] by simp

text \<open>The four windows of a state: its deque, its running total and its length in seconds.\<close>

definition windows :: "model_state \<Rightarrow> (usage_log \<times> int \<times> int) list" where
  "windows s = [(minute_tokens s, minute_tokens_total s, MINUTE), (minute_requests s, minute_requests_total s, MINUTE),
     (day_tokens s, day_tokens_total s, DAY), (day_requests s, day_requests_total s, DAY)]"

lemma windows_prune:
  "windows (prune_state now s) =
     map (\<lambda>(l, tot, w). (dropWhile (\<lambda>x. fst x < now - of_int w) l,
        tot - amount (takeWhile (\<lambda>x. fst x < now - of_int w) l), w)) (windows s)"
  by (simp add: windows_def prune_state_def window_total_eq Let_def)

lemma windows_append:
  "windows (append_usage now n k s) =
     map2 (\<lambda>(l, tot, w) a. (l @ [(now, a)], tot + a, w)) (windows s) [n, k, n, k]"
  by (simp add: windows_def append_usage_def)

text \<open>The running total of every window is the sum of its deque.\<close>

definition state_ok :: "model_state \<Rightarrow> bool" where
  "state_ok s \<longleftrightarrow> (\<forall>(l, tot, w) \<in> set (windows s). tot = amount l)"

definition budget_ok :: "token_budget \<Rightarrow> bool" where
  "budget_ok b \<longleftrightarrow> (\<forall>m. state_ok (get_state b m))"

lemma state_ok_empty [simp]: "state_ok empty_state"
  by (simp add: state_ok_def windows_def empty_state_def)

lemma state_ok_prune [intro]: "state_ok s \<Longrightarrow> state_ok (prune_state now s)"
  by (auto simp: state_ok_def windows_prune amount_window)

lemma state_ok_append [intro]: "state_ok s \<Longrightarrow> state_ok (append_usage now n k s)"
  by (simp add: state_ok_def windows_def append_usage_def)

lemma state_ok_prune_day [intro]: "state_ok s \<Longrightarrow> state_ok (prune_day now s)"
  by (simp add: state_ok_def windows_def prune_day_def window_total_eq amount_window Let_def)

lemma get_put_state [simp]: "get_state (put_state b m s) m' = (if m' = m then s else get_state b m')"
  by (simp add: get_state_def put_state_def map_of_AList_update)

lemma put_state_sel [simp]:
  "tb_limits (put_state b m s) = tb_limits b" "tb_pools (put_state b m s) = tb_pools b"
  by (simp_all add: put_state_def)

lemma budget_ok_put [intro]: "budget_ok b \<Longrightarrow> state_ok s \<Longrightarrow> budget_ok (put_state b m s)"
  by (simp add: budget_ok_def)

lemma budget_okD [dest]: "budget_ok b \<Longrightarrow> state_ok (get_state b m)"
  by (simp add: budget_ok_def)

lemma status_loop_keeps:
  assumes "\<And>b m. I b \<Longrightarrow> I (put_state b m (prune_state now (get_state b m)))" "I b"
  shows "I (snd (status_loop now ls b))"
  using assms(2)
proof (induction ls arbitrary: b)
  case (Cons l ls)
  then show ?case using assms(1) by (cases l) (simp add: Let_def split: prod.splits, metis snd_conv)
qed simp

lemma daily_loop_keeps:
  assumes "\<And>b m. I b \<Longrightarrow> I (put_state b m (prune_day now (get_state b m)))" "I b"
  shows "I (snd (daily_loop now ls b))"
  using assms(2)
proof (induction ls arbitrary: b)
  case (Cons l ls)
  then show ?case using assms(1) by (cases l) (simp add: Let_def split: prod.splits, metis snd_conv)
qed simp

section \<open>Calls as a sequence of operations\<close>

datatype budget_op =
    OpReserve string int
  | OpRelease string int
  | OpRecord string int
  | OpCanAfford string int
  | OpStatus
  | OpDaily

fun exec_op :: "token_budget \<Rightarrow> time \<Rightarrow> budget_op \<Rightarrow> token_budget" where
  "exec_op b now (OpReserve m n) = snd (reserve b now m n)"
| "exec_op b now (OpRelease m n) = release b now m n"
| "exec_op b now (OpRecord m n) = record_usage b now m n"
| "exec_op b now (OpCanAfford m n) = snd (can_afford b now m n)"
| "exec_op b now OpStatus = snd (get_status b now)"
| "exec_op b now OpDaily = snd (get_daily_budget b now)"

fun exec_ops :: "token_budget \<Rightarrow> (time \<times> budget_op) list \<Rightarrow> token_budget" where
  "exec_ops b [] = b"
| "exec_ops b ((now, op) # ops) = exec_ops (exec_op b now op) ops"

text \<open>
  A property of budgets that pruning, appending and pruning the day windows keep is kept by
  every operation.
\<close>

lemma snd_get_daily: "snd (get_daily_budget b now) = snd (daily_loop now (tb_limits b) b)"
  by (simp add: get_daily_budget_def Let_def split: prod.splits)

lemma exec_op_budget_ok: "budget_ok b \<Longrightarrow> budget_ok (exec_op b now op)"
proof (cases op)
  case OpStatus
  moreover assume "budget_ok b"
  ultimately show ?thesis
    by (simp add: get_status_def) (rule status_loop_keeps, auto)
next
  case OpDaily
  moreover assume "budget_ok b"
  ultimately show ?thesis
    by (simp add: snd_get_daily) (rule daily_loop_keeps, auto)
qed (auto simp: budget_defs Let_def split: option.splits)

lemma exec_ops_budget_ok: "budget_ok b \<Longrightarrow> budget_ok (exec_ops b ops)"
  by (induction b ops rule: exec_ops.induct) (simp_all add: exec_op_budget_ok)

lemma map_of_const: "map_of (map (\<lambda>(m, l). (m, c)) xs) k = map_option (\<lambda>_. c) (map_of xs k)"
  by (induction xs) auto

lemma get_state_init [simp]: "get_state (TokenBudget lims) m = empty_state"
  by (auto simp: get_state_def TokenBudget_def Let_def map_of_const split: option.splits)

lemma budget_ok_init: "budget_ok (TokenBudget lims)"
  by (simp add: budget_ok_def)

end
