(* ===== verification/Message_Compressor.thy ===== *)
theory Message_Compressor
  imports Token_Budget
begin

text \<open>
  \<open>backend/message_compressor.py\<close>: the three compression stages (system prompt, history,
  tool results), the boundary between history and the current request, and progressive
  compression towards a token target. Prompts are ASCII text; the bullet U+2022 of
  \<open>_KEEP_PATTERNS\<close> lies outside it. The condensed ratio is a rational.

  Lemmas: the boundary depends on the message classes only and is a human message; every
  stage keeps the messages of the current request in order, changing nothing but the text of
  oversized tool results.
\<close>

record compressor =
  max_history :: int
  max_tool_chars :: nat
  condensed_ratio :: rat

definition MessageCompressor :: compressor where
  "MessageCompressor = \<lparr>max_history = 3, max_tool_chars = 4000, condensed_ratio = 2 / 5\<rparr>"

section \<open>Stage 1: system prompt\<close>

text \<open>\<open>s.split("\n")\<close>.\<close>

fun split_lines :: "string \<Rightarrow> string list" where
  "split_lines [] = [[]]"
| "split_lines (c # cs) =
     (if c = CHR 0x0A then [] # split_lines cs
      else (case split_lines cs of l # ls \<Rightarrow> (c # l) # ls | [] \<Rightarrow> [[c]]))"

text \<open>
  \<open>_KEEP_PATTERNS.match\<close>. Leading white space is skipped whole, since no alternative starts
  with any; the literal headers are instances of two capitals.
\<close>

definition keep_line :: "string \<Rightarrow> bool" where
  "keep_line line =
     (let r = lstrip line;
          rest = dropWhile is_digit r
      in (is_digit (hd (r @ [CHR '' ''])) \<and> startswith rest ''.'') \<or>
         startswith r ''-'' \<or>
         (2 \<le> length r \<and> is_upper (r ! 0) \<and> is_upper (r ! 1)) \<or>
         startswith r ''You are'' \<or> startswith r ''STANDARD'' \<or>
         startswith r ''COMPARISON'' \<or> startswith r ''RULES'')"

fun kept_lines :: "string list \<Rightarrow> string list \<Rightarrow> string list" where
  "kept_lines [] kept = kept"
| "kept_lines (line # lines) kept =
     (if keep_line line then kept_lines lines (kept @ [line])
      else if strip line = [] then
        kept_lines lines (if kept \<noteq> [] \<and> strip (last kept) \<noteq> [] then kept @ [[]] else kept)
      else kept_lines lines kept)"

text \<open>\<open>s.rsplit("\n", 1)[0]\<close>.\<close>

definition before_last_newline :: "string \<Rightarrow> string" where
  "before_last_newline s =
     (if CHR 0x0A \<in> set s then rev (tl (dropWhile (\<lambda>c. c \<noteq> CHR 0x0A) (rev s))) else s)"

definition condense_text :: "rat \<Rightarrow> string \<Rightarrow> string" where
  "condense_text ratio original =
     (let kept = kept_lines (split_lines original) [];
          condensed = strip (join [CHR 0x0A] kept)
      in if condensed = [] then
           (let cut = nat \<lfloor>of_nat (length original) * ratio\<rfloor>
            in before_last_newline (take cut original))
         else condensed)"

definition condense_system_prompt :: "compressor \<Rightarrow> message list \<Rightarrow> message list" where
  "condense_system_prompt c messages =
     (case messages of
        SystemMessage original # rest \<Rightarrow> SystemMessage (condense_text (condensed_ratio c) original) # rest
      | _ \<Rightarrow> messages)"

section \<open>Stage 2: history\<close>

definition idxs_where :: "(message \<Rightarrow> bool) \<Rightarrow> message list \<Rightarrow> nat list" where
  "idxs_where P messages = filter (\<lambda>i. P (messages ! i)) [0..<length messages]"

definition find_loop_boundary :: "message list \<Rightarrow> nat" where
  "find_loop_boundary messages =
     (let human_idxs = idxs_where is_human messages;
          tool_idxs = idxs_where is_tool messages
      in if human_idxs = [] \<or> last human_idxs = 0 then 0
         else
           (let last_human = last human_idxs in
            if list_ex (\<lambda>t. t > last_human) tool_idxs then last_human
            else if 2 \<le> length human_idxs then
              (let prev_human = last (butlast human_idxs) in
               if list_ex (\<lambda>t. t > prev_human) tool_idxs then prev_human else last_human)
            else last_human))"

text \<open>The loop that cuts the history into turns, each ending with an assistant message.\<close>

fun split_turns :: "message list \<Rightarrow> message list list \<Rightarrow> message list \<Rightarrow> message list list" where
  "split_turns [] turns current_turn = (if current_turn \<noteq> [] then turns @ [current_turn] else turns)"
| "split_turns (msg # history) turns current_turn =
     (if is_ai msg then split_turns history (turns @ [current_turn @ [msg]]) []
      else split_turns history turns (current_turn @ [msg]))"

text \<open>\<open>turns[-max_turns:] if max_turns > 0 else []\<close>.\<close>

definition last_turns :: "int \<Rightarrow> 'a list \<Rightarrow> 'a list" where
  "last_turns max_turns turns =
     (if max_turns > 0 then drop (length turns - nat max_turns) turns else [])"

definition truncate_history :: "message list \<Rightarrow> int \<Rightarrow> message list" where
  "truncate_history messages max_turns =
     (let boundary = find_loop_boundary messages in
      if boundary \<le> 0 then messages
      else
        (let prefix = takeWhile is_system (take boundary messages);
             history = drop (length prefix) (take boundary messages);
             loop_msgs = drop boundary messages;
             turns = split_turns history [] [];
             kept_turns = last_turns max_turns turns;
             kept_history = concat kept_turns
         in prefix @ kept_history @ loop_msgs))"

section \<open>Stage 3: tool results\<close>

definition truncation_note :: "nat \<Rightarrow> string" where
  "truncation_note n = [CHR 0x0A] @ ''... [truncated '' @ show_nat n @ '' chars]''"

fun truncate_tool :: "nat \<Rightarrow> message \<Rightarrow> message" where
  "truncate_tool max_chars (ToolMessage (Text s) i n) =
     (if length s > max_chars
      then ToolMessage (Text (take max_chars s @ truncation_note (length s - max_chars))) i None
      else ToolMessage (Text s) i n)"
| "truncate_tool max_chars msg = msg"

definition truncate_tool_results :: "message list \<Rightarrow> nat \<Rightarrow> message list" where
  "truncate_tool_results messages max_chars = map (truncate_tool max_chars) messages"

section \<open>Progressive compression and the whole\<close>

definition progressive_compress :: "message list \<Rightarrow> int \<Rightarrow> message list" where
  "progressive_compress messages target_tokens =
     (if estimate_tokens messages \<le> target_tokens then messages
      else
        (let result = truncate_tool_results (truncate_history messages 1) 2500 in
         if estimate_tokens result \<le> target_tokens then result
         else truncate_tool_results (truncate_history result 0) 1500))"

definition compress :: "compressor \<Rightarrow> message list \<Rightarrow> int \<Rightarrow> int option \<Rightarrow> message list" where
  "compress c messages iteration target_tokens =
     (if (case target_tokens of
            None \<Rightarrow> False
          | Some target \<Rightarrow> of_int (estimate_tokens messages) < of_int target * (1 / 2 :: rat)) then messages
      else
        (let result1 = (if iteration > 1 then condense_system_prompt c messages else messages);
             result2 = truncate_history result1 (max_history c);
             result3 = truncate_tool_results result2 (max_tool_chars c)
         in case target_tokens of
              None \<Rightarrow> result3
            | Some target \<Rightarrow> progressive_compress result3 target))"

section \<open>The boundary\<close>

lemma set_idxs_where: "set (idxs_where P xs) = {i. i < length xs \<and> P (xs ! i)}"
  by (auto simp: idxs_where_def)

lemma idxs_where_append:
  "idxs_where P (xs @ ys) = idxs_where P xs @ map ((+) (length xs)) (idxs_where P ys)"
proof -
  have "[0..<length (xs @ ys)] = [0..<length xs] @ map ((+) (length xs)) [0..<length ys]"
    by (rule nth_equalityI) (auto simp: nth_append)
  then show ?thesis
    by (auto simp: idxs_where_def nth_append filter_map comp_def intro!: filter_cong)
qed

lemma idxs_where_Nil [simp]: "idxs_where P [] = []"
  by (simp add: idxs_where_def)

lemma idxs_where_Cons: "idxs_where P (x # xs) = (if P x then [0] else []) @ map Suc (idxs_where P xs)"
  using idxs_where_append [of P "[x]" xs] by (simp add: idxs_where_def [of P "[x]"])

lemma idxs_where_empty: "idxs_where P xs = [] \<longleftrightarrow> (\<forall>x \<in> set xs. \<not> P x)"
  unfolding idxs_where_def filter_empty_conv by (force simp: in_set_conv_nth)

lemma idxs_after: "list_ex (\<lambda>t. t > i) (idxs_where Q xs) \<longleftrightarrow> (\<exists>x \<in> set (drop (Suc i) xs). Q x)"
proof -
  have "list_ex (\<lambda>t. t > i) (idxs_where Q xs) \<longleftrightarrow> (\<exists>t > i. t < length xs \<and> Q (xs ! t))"
    by (auto simp: list_ex_iff set_idxs_where)
  also have "\<dots> \<longleftrightarrow> (\<exists>x \<in> set (drop (Suc i) xs). Q x)"
  proof
    assume "\<exists>t > i. t < length xs \<and> Q (xs ! t)"
    then obtain t where "i < t" "t < length xs" "Q (xs ! t)" by blast
    then have "drop (Suc i) xs ! (t - Suc i) = xs ! t" "t - Suc i < length (drop (Suc i) xs)" by auto
    with \<open>Q (xs ! t)\<close> show "\<exists>x \<in> set (drop (Suc i) xs). Q x" by (metis nth_mem)
  next
    assume "\<exists>x \<in> set (drop (Suc i) xs). Q x"
    then obtain j where "j < length xs - Suc i" "Q (xs ! (Suc i + j))" by (auto simp: in_set_conv_nth)
    then show "\<exists>t > i. t < length xs \<and> Q (xs ! t)" by (intro exI [of _ "Suc i + j"]) auto
  qed
  finally show ?thesis .
qed

lemma idxs_last:
  assumes "\<forall>x \<in> set zs. \<not> P x" "P y"
  shows "last (idxs_where P (xs @ y # zs)) = length xs" "idxs_where P (xs @ y # zs) \<noteq> []"
    "butlast (idxs_where P (xs @ y # zs)) = idxs_where P xs"
  using assms by (simp_all add: idxs_where_append idxs_where_Cons idxs_where_empty [THEN iffD2])

lemma idxs_split:
  assumes "idxs_where P xs \<noteq> []"
  obtains ys y zs where "xs = ys @ y # zs" "P y" "\<forall>x \<in> set zs. \<not> P x"
  using assms split_list_last_prop [of xs P] by (auto simp: idxs_where_empty)

text \<open>
  What the search looks for: a human message with parts \<open>A\<close> before and \<open>B\<close> after it, that
  is either the last one or the last but one, the latter when a tool result lies between the
  two and none after the last.
\<close>

definition boundary_at :: "message list \<Rightarrow> message list \<Rightarrow> bool" where
  "boundary_at A B \<longleftrightarrow>
     (\<forall>x \<in> set B. \<not> is_human x) \<and>
       ((\<exists>x \<in> set B. is_tool x) \<or>
        (\<forall>A1 g A2. A = A1 @ g # A2 \<and> is_human g \<and> (\<forall>x \<in> set A2. \<not> is_human x) \<longrightarrow>
           (\<forall>x \<in> set A2. \<not> is_tool x))) \<or>
     (\<exists>B1 g B2. B = B1 @ g # B2 \<and> is_human g \<and> (\<forall>x \<in> set B1 \<union> set B2. \<not> is_human x) \<and>
        (\<exists>x \<in> set B1. is_tool x) \<and> (\<forall>x \<in> set B2. \<not> is_tool x))"

lemma human_not_tool: "is_human m \<Longrightarrow> \<not> is_tool m"
  by (cases m) simp_all

lemma boundary_unfold:
  assumes "\<forall>x \<in> set B. \<not> is_human x" "is_human h"
  shows "find_loop_boundary (A @ h # B) =
     (if A = [] \<or> (\<exists>x \<in> set B. is_tool x) \<or> idxs_where is_human A = [] then length A
      else if list_ex (\<lambda>t. t > last (idxs_where is_human A)) (idxs_where is_tool A) then last (idxs_where is_human A)
      else length A)"
proof -
  note last = idxs_last [OF assms, of A]
  have after: "list_ex (\<lambda>t. t > length A) (idxs_where is_tool (A @ h # B)) \<longleftrightarrow> (\<exists>x \<in> set B. is_tool x)"
    by (simp add: idxs_after)
  have prev: "list_ex (\<lambda>t. t > i) (idxs_where is_tool (A @ h # B)) \<longleftrightarrow>
      list_ex (\<lambda>t. t > i) (idxs_where is_tool A)" if "\<not> (\<exists>x \<in> set B. is_tool x)" for i
    using that human_not_tool [OF assms(2)] idxs_where_empty [of is_tool B]
    by (simp add: idxs_where_append idxs_where_Cons)
  have len: "2 \<le> length (idxs_where is_human (A @ h # B)) \<longleftrightarrow> idxs_where is_human A \<noteq> []"
    using assms idxs_where_empty [of is_human B] by (cases "idxs_where is_human A") (simp_all add: idxs_where_append idxs_where_Cons)
  show ?thesis
    unfolding find_loop_boundary_def Let_def last(1,3) after len using last(2) prev by auto
qed

text \<open>The same for the position of the last human message inside a part of the list.\<close>

lemma prev_tool_after:
  assumes "A = A1 @ g # A2" "is_human g" "\<forall>x \<in> set A2. \<not> is_human x"
  shows "last (idxs_where is_human A) = length A1"
    and "list_ex (\<lambda>t. t > length A1) (idxs_where is_tool A) \<longleftrightarrow> (\<exists>x \<in> set A2. is_tool x)"
  using assms idxs_last [OF assms(3,2), of A1] by (simp_all add: idxs_after)

lemma boundary_found:
  assumes "boundary_at A B" "is_human h"
  shows "find_loop_boundary (A @ h # B) = length A"
  using assms(1) unfolding boundary_at_def
proof (elim disjE conjE exE)
  assume B: "\<forall>x \<in> set B. \<not> is_human x"
    and quiet: "\<forall>A1 g A2. A = A1 @ g # A2 \<and> is_human g \<and> (\<forall>x \<in> set A2. \<not> is_human x) \<longrightarrow>
      (\<forall>x \<in> set A2. \<not> is_tool x)"
  show ?thesis
  proof (cases "idxs_where is_human A = []")
    case False
    then obtain A1 g A2 where A: "A = A1 @ g # A2" "is_human g" "\<forall>x \<in> set A2. \<not> is_human x"
      by (rule idxs_split)
    then have "\<forall>x \<in> set A2. \<not> is_tool x" using quiet by blast
    then show ?thesis
      unfolding boundary_unfold [OF B assms(2)] using prev_tool_after [OF A] by auto
  qed (simp add: boundary_unfold [OF B assms(2)])
next
  fix B1 g B2
  assume B: "B = B1 @ g # B2" "is_human g" "\<forall>x \<in> set B1 \<union> set B2. \<not> is_human x"
    and tools: "\<exists>x \<in> set B1. is_tool x" "\<forall>x \<in> set B2. \<not> is_tool x"
  have split: "A @ h # B = (A @ h # B1) @ g # B2" using B by simp
  have "\<forall>x \<in> set B1. \<not> is_human x" using B(3) by blast
  note prev = prev_tool_after [OF refl assms(2) this, of A]
  have "idxs_where is_human (A @ h # B1) \<noteq> []" using assms(2) by (auto simp: idxs_where_empty)
  then show ?thesis
    unfolding split using boundary_unfold [OF _ B(2), of B2 "A @ h # B1"] B(3) tools prev by auto
qed (use assms(2) boundary_unfold in auto)

lemma boundary_obtain:
  assumes "0 < find_loop_boundary msgs"
  obtains A h B where "msgs = A @ h # B" "length A = find_loop_boundary msgs" "is_human h" "boundary_at A B"
proof -
  have "idxs_where is_human msgs \<noteq> []"
    using assms by (auto simp: find_loop_boundary_def Let_def split: if_splits)
  then obtain A h B where msgs: "msgs = A @ h # B" "is_human h" "\<forall>x \<in> set B. \<not> is_human x"
    by (rule idxs_split)
  note eq = boundary_unfold [OF msgs(3,2), of A, folded msgs(1)]
  show thesis
  proof (cases "find_loop_boundary msgs = length A")
    case True
    have "boundary_at A B"
    proof (rule ccontr)
      assume "\<not> boundary_at A B"
      then obtain A1 g A2 where A: "A = A1 @ g # A2" "is_human g" "\<forall>x \<in> set A2. \<not> is_human x"
        "\<exists>x \<in> set A2. is_tool x" "\<not> (\<exists>x \<in> set B. is_tool x)"
        using msgs(3) unfolding boundary_at_def by blast
      then have "find_loop_boundary msgs = length A1"
        using eq prev_tool_after [OF A(1-3)] by (auto simp: idxs_where_empty)
      then show False using True A(1) by simp
    qed
    with msgs True show thesis by (intro that [of A h B]) auto
  next
    case False
    then have ne: "idxs_where is_human A \<noteq> []" and quiet: "\<not> (\<exists>x \<in> set B. is_tool x)"
      and tool: "list_ex (\<lambda>t. t > last (idxs_where is_human A)) (idxs_where is_tool A)"
      using eq by (auto split: if_splits)
    from ne obtain A1 g A2 where A: "A = A1 @ g # A2" "is_human g" "\<forall>x \<in> set A2. \<not> is_human x"
      by (rule idxs_split)
    note prev = prev_tool_after [OF A]
    have "find_loop_boundary msgs = length A1"
      using False eq prev(1) by (auto split: if_splits)
    moreover have "\<exists>x \<in> set A2. is_tool x" using tool prev by simp
    then have "boundary_at A1 (A2 @ h # B)"
      unfolding boundary_at_def using msgs(2,3) A(3) quiet by blast
    ultimately show thesis using msgs(1) A by (intro that [of A1 g "A2 @ h # B"]) auto
  qed
qed

lemma boundary_at_drop:
  assumes "boundary_at (S @ H) B" "\<forall>x \<in> set S. \<not> is_human x"
  shows "boundary_at (S @ drop k H) B"
proof -
  have "\<exists>A1'. S @ H = A1' @ g # A2" if split: "S @ drop k H = A1 @ g # A2" "is_human g" for A1 g A2
  proof -
    obtain X where "drop k H = X @ g # A2"
    proof -
      from split(1) consider us where "drop k H = us @ g # A2"
        | us where "S = A1 @ us" "us @ drop k H = g # A2"
        by (auto simp: append_eq_append_conv2)
      then show ?thesis
      proof cases
        case (2 us)
        then show ?thesis using assms(2) split(2) that [of "[]"] by (cases us) auto
      qed (rule that)
    qed
    then have "S @ H = (S @ take k H @ X) @ g # A2" by (metis append_assoc append_take_drop_id)
    then show ?thesis by blast
  qed
  with assms(1) show ?thesis unfolding boundary_at_def by blast
qed

section \<open>What compression keeps\<close>

text \<open>
  \<open>keeps_msg n m m'\<close>: \<open>m'\<close> is \<open>m\<close>, or both are results of the same tool call and the first
  \<open>n\<close> characters of the text are still there.
\<close>

definition keeps_msg :: "nat \<Rightarrow> message \<Rightarrow> message \<Rightarrow> bool" where
  "keeps_msg n m m' \<longleftrightarrow> m' = m \<or>
     (\<exists>s s' i w w'. m = ToolMessage (Text s) i w \<and> m' = ToolMessage (Text s') i w' \<and> prefix (take n s) s')"

lemma keeps_msg_refl [simp]: "keeps_msg n m m"
  by (simp add: keeps_msg_def)

lemma take_prefix_trans:
  assumes "prefix (take n s) s'" "prefix (take n s') s''"
  shows "prefix (take n s) s''"
proof -
  obtain z where "s' = take n s @ z" using assms(1) by (auto simp: prefix_def)
  then have "take n s' = take n s @ take (n - length (take n s)) z" by simp
  then show ?thesis using assms(2) by (metis append_prefixD)
qed

lemma keeps_msg_trans: "keeps_msg n m m' \<Longrightarrow> keeps_msg n m' m'' \<Longrightarrow> keeps_msg n m m''"
  unfolding keeps_msg_def using take_prefix_trans by blast

lemma keeps_msg_truncate: "n \<le> cap \<Longrightarrow> keeps_msg n m (truncate_tool cap m)"
proof (cases "(cap, m)" rule: truncate_tool.cases)
  case (1 max_chars s i)
  moreover assume "n \<le> cap"
  then have "prefix (take n s) (take cap s)" by (metis min.absorb1 take_is_prefix take_take)
  ultimately show ?thesis by (simp add: keeps_msg_def)
qed (simp_all add: keeps_msg_def)

lemma keeps_msg_kind:
  "keeps_msg n m m' \<Longrightarrow> is_human m' = is_human m \<and> is_tool m' = is_tool m \<and> is_system m' = is_system m \<and> is_ai m' = is_ai m"
  by (auto simp: keeps_msg_def)

lemma boundary_kinds:
  assumes "list_all2 (\<lambda>m m'. is_human m' = is_human m \<and> is_tool m' = is_tool m) xs ys"
  shows "find_loop_boundary ys = find_loop_boundary xs"
proof -
  have "length ys = length xs" using assms by (simp add: list_all2_lengthD)
  moreover have "\<forall>i < length xs. is_human (ys ! i) = is_human (xs ! i) \<and> is_tool (ys ! i) = is_tool (xs ! i)"
    using assms by (simp add: list_all2_conv_all_nth)
  ultimately have "idxs_where is_human ys = idxs_where is_human xs" "idxs_where is_tool ys = idxs_where is_tool xs"
    unfolding idxs_where_def by (auto intro!: filter_cong)
  then show ?thesis by (simp add: find_loop_boundary_def)
qed

lemma concat_split_turns: "concat (split_turns h ts cur) = concat ts @ cur @ h"
  by (induction h ts cur rule: split_turns.induct) auto

lemma concat_last_turns: "\<exists>k. concat (last_turns n (split_turns h [] [])) = drop k h"
proof -
  have "concat (drop j ts) = drop (length (concat (take j ts))) (concat ts)" for j and ts :: "message list list"
    by (metis append_eq_conv_conj append_take_drop_id concat_append)
  then have "\<exists>k. concat (last_turns n ts) = drop k (concat ts)" for ts :: "message list list"
    unfolding last_turns_def by (cases "n > 0") (auto intro: exI [of _ "length (concat ts)"])
  from this [of "split_turns h [] []"] show ?thesis by (simp add: concat_split_turns)
qed

text \<open>
  A message list that came from \<open>sys @ hist @ loop\<close> by compression: as many system messages
  in front, the end of the history, the whole current request, all of them kept as above.
\<close>

definition compressed_from :: "nat \<Rightarrow> message list \<Rightarrow> message list \<Rightarrow> message list \<Rightarrow> message list \<Rightarrow> bool" where
  "compressed_from n sys hist loop r \<longleftrightarrow>
     (\<exists>sys' kept loop'. r = sys' @ kept @ loop' \<and> list_all is_system sys' \<and> length sys' = length sys \<and>
        (\<exists>k. list_all2 (keeps_msg n) (drop k hist) kept) \<and> list_all2 (keeps_msg n) loop loop')"

lemma compressed_from_tools:
  assumes "compressed_from n sys hist loop r" "n \<le> cap"
  shows "compressed_from n sys hist loop (truncate_tool_results r cap)"
proof -
  from assms(1) obtain sys' kept loop' k where r: "r = sys' @ kept @ loop'" "list_all is_system sys'"
    "length sys' = length sys" "list_all2 (keeps_msg n) (drop k hist) kept" "list_all2 (keeps_msg n) loop loop'"
    unfolding compressed_from_def by blast
  have step: "list_all2 (keeps_msg n) xs (map (truncate_tool cap) ys)" if "list_all2 (keeps_msg n) xs ys" for xs ys
    unfolding list.rel_map using that
    by (rule list_all2_mono) (erule keeps_msg_trans, rule keeps_msg_truncate [OF assms(2)])
  have "is_system (truncate_tool cap m) = is_system m" for m
    using keeps_msg_kind [OF keeps_msg_truncate [OF order_refl]] by blast
  then have "list_all is_system (map (truncate_tool cap) sys')" using r(2) by (simp add: list.pred_map comp_def)
  then show ?thesis
    unfolding compressed_from_def using r(1,3) step [OF r(4)] step [OF r(5)]
    by (intro exI [of _ "map (truncate_tool cap) sys'"] exI [of _ "map (truncate_tool cap) kept"]
          exI [of _ "map (truncate_tool cap) loop'"]) (auto simp: truncate_tool_results_def)
qed

lemma system_not_human: "is_system m \<Longrightarrow> \<not> is_human m \<and> \<not> is_tool m"
  by (cases m) simp_all

text \<open>The situation every stage starts from.\<close>

definition request_at :: "message list \<Rightarrow> message list \<Rightarrow> message list \<Rightarrow> bool" where
  "request_at sys hist loop \<longleftrightarrow> list_all is_system sys \<and> list_all (\<lambda>m. \<not> is_system m) hist \<and>
     (\<exists>h B. loop = h # B \<and> is_human h \<and> boundary_at (sys @ hist) B)"

lemma truncate_history_shape:
  assumes r: "r = sys' @ kept @ loop'" "list_all is_system sys'"
    "length sys' = length sys" "list_all2 (keeps_msg n) (drop k hist) kept" "list_all2 (keeps_msg n) loop loop'"
    and req: "request_at sys hist loop"
  shows "truncate_history r turns = sys' @ concat (last_turns turns (split_turns kept [] [])) @ loop'"
proof -
  from req obtain h B where loop: "loop = h # B" "is_human h" "boundary_at (sys @ hist) B"
    and sys: "list_all is_system sys" and hist: "list_all (\<lambda>m. \<not> is_system m) hist"
    unfolding request_at_def by blast
  let ?K = "\<lambda>m m'. is_human m' = is_human m \<and> is_tool m' = is_tool m"
  have kinds: "list_all2 ?K xs ys" if "list_all2 (keeps_msg n) xs ys" for xs ys
    using that by (rule list_all2_mono) (use keeps_msg_kind in blast)
  have "list_all2 ?K sys sys'"
    using sys r(2,3) by (auto simp: list_all2_conv_all_nth list_all_length dest: system_not_human)
  then have "list_all2 ?K (sys @ drop k hist @ h # B) r"
    unfolding r(1) using kinds [OF r(4)] kinds [OF r(5)] loop(1) by (intro list_all2_appendI) auto
  then have "find_loop_boundary r = find_loop_boundary ((sys @ drop k hist) @ h # B)"
    by (simp add: boundary_kinds)
  also have "\<dots> = length (sys @ drop k hist)"
    using sys by (intro boundary_found boundary_at_drop loop) (auto simp: list_all_iff dest: system_not_human)
  finally have b: "find_loop_boundary r = length (sys' @ kept)"
    using r(3) list_all2_lengthD [OF r(4)] by simp
  have "list_all (\<lambda>m. \<not> is_system m) kept"
    using r(4) hist
    by (auto simp: list_all2_conv_all_nth list_all_length dest!: keeps_msg_kind)
  then have pre: "takeWhile is_system (sys' @ kept) = sys'"
    using r(2) by (cases kept) (auto simp: list_all_iff takeWhile_append)
  have "take (length (sys' @ kept)) r = sys' @ kept" "drop (length (sys' @ kept)) r = loop'"
    by (simp_all add: r(1))
  then show ?thesis
    unfolding truncate_history_def Let_def b by (auto simp: pre r(1) last_turns_def)
qed

lemma compressed_from_history:
  assumes cf: "compressed_from n sys hist loop r" and req: "request_at sys hist loop"
  shows "compressed_from n sys hist loop (truncate_history r turns)"
    and "compressed_from n sys [] loop (truncate_history r 0)"
proof -
  from cf obtain sys' kept loop' k where r: "r = sys' @ kept @ loop'" "list_all is_system sys'"
    "length sys' = length sys" "list_all2 (keeps_msg n) (drop k hist) kept" "list_all2 (keeps_msg n) loop loop'"
    unfolding compressed_from_def by blast
  note shape = truncate_history_shape [OF r req]
  obtain j where j: "concat (last_turns turns (split_turns kept [] [])) = drop j kept"
    using concat_last_turns by blast
  have "list_all2 (keeps_msg n) (drop (j + k) hist) (drop j kept)"
    using list_all2_dropI [OF r(4), of j] by (simp add: drop_drop)
  then show "compressed_from n sys hist loop (truncate_history r turns)"
    unfolding compressed_from_def shape j using r by blast
  show "compressed_from n sys [] loop (truncate_history r 0)"
    unfolding compressed_from_def shape using r
    by (intro exI [of _ sys'] exI [of _ "[]"] exI [of _ loop']) (auto simp: last_turns_def)
qed

lemmas compressed_from_stages = compressed_from_tools compressed_from_history(1)

lemma compressed_from_progressive:
  assumes "compressed_from n sys hist loop r" "request_at sys hist loop" "n \<le> 1500"
  shows "compressed_from n sys hist loop (progressive_compress r target)"
  using assms by (auto simp: progressive_compress_def Let_def intro!: compressed_from_stages)

lemma compressed_from_condense:
  assumes "request_at sys hist loop"
  shows "compressed_from n sys hist loop (condense_system_prompt c (sys @ hist @ loop))"
proof -
  have same: "list_all2 (keeps_msg n) xs xs" for xs by (simp add: list_all2_refl)
  have "compressed_from n sys hist loop (sys' @ hist @ loop)" if "list_all is_system sys'" "length sys' = length sys" for sys'
    unfolding compressed_from_def using that same
    by (intro exI [of _ sys'] exI [of _ hist] exI [of _ loop]) (auto intro!: exI [of _ "0 :: nat"])
  moreover have "\<exists>sys'. condense_system_prompt c (sys @ hist @ loop) = sys' @ hist @ loop \<and>
      list_all is_system sys' \<and> length sys' = length sys"
  proof (cases sys)
    case Nil
    have "\<not> is_system (hd (hist @ loop))"
      using assms by (cases hist) (auto simp: request_at_def dest: system_not_human)
    then have "condense_system_prompt c (hist @ loop) = hist @ loop"
      by (cases "hist @ loop") (auto simp: condense_system_prompt_def split: message.splits)
    with Nil show ?thesis by auto
  next
    case (Cons m ms)
    with assms obtain p where "m = SystemMessage p" by (cases m) (auto simp: request_at_def)
    with Cons assms show ?thesis
      by (intro exI [of _ "SystemMessage (condense_text (condensed_ratio c) p) # ms"])
         (auto simp: condense_system_prompt_def request_at_def)
  qed
  ultimately show ?thesis by auto
qed

lemma compress_keeps:
  assumes req: "request_at sys hist loop" and n: "n \<le> max_tool_chars c" "n \<le> 1500"
  shows "compressed_from n sys hist loop (compress c (sys @ hist @ loop) iteration target)"
proof -
  have id: "compressed_from n sys hist loop (sys @ hist @ loop)"
    unfolding compressed_from_def using req
    by (intro exI [of _ sys] exI [of _ hist] exI [of _ loop])
       (auto simp: list_all2_refl request_at_def intro!: exI [of _ "0 :: nat"])
  let ?r1 = "if iteration > 1 then condense_system_prompt c (sys @ hist @ loop) else sys @ hist @ loop"
  have "compressed_from n sys hist loop ?r1"
    using id compressed_from_condense [OF req] by simp
  then have "compressed_from n sys hist loop
      (truncate_tool_results (truncate_history ?r1 (max_history c)) (max_tool_chars c))"
    using req n by (intro compressed_from_stages)
  then show ?thesis
    using id compressed_from_progressive [OF _ req n(2)]
    by (auto simp: compress_def Let_def split: option.splits)
qed

lemma progressive_gives_up_history:
  assumes "compressed_from n sys hist loop r" "request_at sys hist loop" "n \<le> 1500"
  shows "estimate_tokens (progressive_compress r target) \<le> target \<or>
     compressed_from n sys [] loop (progressive_compress r target)"
proof -
  have "compressed_from n sys hist loop (truncate_tool_results (truncate_history r 1) 2500)"
    using assms by (intro compressed_from_stages) auto
  then have "compressed_from n sys [] loop
      (truncate_tool_results (truncate_history (truncate_tool_results (truncate_history r 1) 2500) 0) 1500)"
    by (rule compressed_from_tools [OF compressed_from_history(2) [OF _ assms(2)] assms(3)])
  then show ?thesis by (auto simp: progressive_compress_def Let_def)
qed

lemma request_of_boundary:
  assumes b: "b = find_loop_boundary msgs" "0 < b" and sys: "sys = takeWhile is_system (take b msgs)"
    and hist: "hist = drop (length sys) (take b msgs)" "list_all (\<lambda>m. \<not> is_system m) hist"
  shows "request_at sys hist (drop b msgs)" and "msgs = sys @ hist @ drop b msgs"
proof -
  from b obtain A h B where msgs: "msgs = A @ h # B" "length A = b" "is_human h" "boundary_at A B"
    using boundary_obtain by metis
  have take: "take b msgs = A" "drop b msgs = h # B" using msgs by auto
  have A: "A = sys @ hist"
    unfolding hist(1) sys take by (metis append_eq_conv_conj takeWhile_dropWhile_id)
  show "request_at sys hist (drop b msgs)"
    using hist(2) msgs(3,4) A unfolding request_at_def take
    by (auto simp: sys list_all_iff dest: set_takeWhileD)
  show "msgs = sys @ hist @ drop b msgs" using A msgs(1) take by simp
qed

section \<open>Properties\<close>


abbreviation conv0 :: "message list" where
  "conv0 \<equiv> [SystemMessage ''You are a bot'', HumanMessage (Text ''hi''), AIMessage (Text ''hello'') [],
     HumanMessage (Text ''price?''), AIMessage (Text []) [\<lparr>tc_id = Some ''t1'', tc_name = ''price'', tc_args = ''{}''\<rparr>],
     ToolMessage (Text ''42'') ''t1'' (Some ''price'')]"

lemma boundary0: "find_loop_boundary conv0 = 3"
  by (simp add: find_loop_boundary_def idxs_where_def Let_def upt_rec)


text \<open>
  Progressive compression reaches its token target, or has given up the whole history:
  what is then left is the leading system messages and the current request.
\<close>

theorem compress_fits_or_drops_history:
  assumes "b = find_loop_boundary msgs" and "0 < b" and "sys = takeWhile is_system (take b msgs)"
    and "hist = drop (length sys) (take b msgs)" and "list_all (\<lambda>m. \<not> is_system m) hist"
    and n: "n = min (max_tool_chars c) 1500" and r: "r = compress c msgs iteration (Some target)" and t: "0 \<le> target"
  shows "estimate_tokens r \<le> target \<or> (\<exists>sys' loop. r = sys' @ loop \<and> list_all is_system sys' \<and>
     length sys' = length sys \<and> list_all2 (keeps_msg n) (drop b msgs) loop)"
proof -
  note req = request_of_boundary [OF assms(1-5)]
  have cf: "compressed_from n sys hist (drop b msgs) (compress c msgs iteration None)"
    using compress_keeps [OF req(1), of n c iteration None] req(2) n by simp
  show ?thesis
  proof (cases "of_int (estimate_tokens msgs) < of_int target * (1 / 2 :: rat)")
    case True
    then have "estimate_tokens msgs \<le> target" using t by linarith
    with True r show ?thesis by (simp add: compress_def)
  next
    case False
    then have "r = progressive_compress (compress c msgs iteration None) target"
      using r by (simp add: compress_def Let_def)
    with progressive_gives_up_history [OF cf req(1)] n
    show ?thesis unfolding compressed_from_def by auto
  qed
qed

theorem compress_fits_or_drops_history_witness:
  "estimate_tokens (compress MessageCompressor conv0 1 (Some 2)) \<le> 2 \<or>
   (\<exists>sys' loop. compress MessageCompressor conv0 1 (Some 2) = sys' @ loop \<and> list_all is_system sys' \<and>
     length sys' = 1 \<and> list_all2 (keeps_msg 1500) [HumanMessage (Text ''price?''),
       AIMessage (Text []) [\<lparr>tc_id = Some ''t1'', tc_name = ''price'', tc_args = ''{}''\<rparr>], ToolMessage (Text ''42'') ''t1'' (Some ''price'')] loop)"
  using compress_fits_or_drops_history [OF boundary0 [symmetric] _ refl refl _ refl refl, of 2 MessageCompressor 1]
  by (simp add: MessageCompressor_def)

text \<open>
  Cutting a tool result can make it longer: the note appended in place of the removed
  characters has at least 24 of its own, so a result that exceeds the cap by fewer grows.
\<close>

theorem truncation_can_lengthen:
  assumes "cap < length s" and "length s \<le> cap + 23"
  shows "content_chars (Text s) < content_chars (content (truncate_tool cap (ToolMessage (Text s) i n)))"
proof -
  have "1 \<le> length (show_nat (length s - cap))" using show_nat_not_Nil by (simp add: Suc_leI)
  then have "24 \<le> length (truncation_note (length s - cap))" by (simp add: truncation_note_def)
  with assms show ?thesis by simp
qed

theorem truncation_can_lengthen_witness:
  "content_chars (Text (replicate 10 CHR ''x'')) <
     content_chars (content (truncate_tool 9 (ToolMessage (Text (replicate 10 CHR ''x'')) ''t'' None)))"
  by (rule truncation_can_lengthen) simp_all

end
