(* ===== verification/Llm_Byo.thy ===== *)
theory Llm_Byo
  imports Prelude
begin

text \<open>
  \<open>backend/llm_byo.py\<close> with the counters of \<open>backend/cache.py\<close>: routing a chat request to
  the user's own provider keys under a monthly limit. The Redis client is a parameter with
  the documented effect of \<open>INCRBY\<close> and \<open>DECRBY\<close> as the hypothesis \<open>counter_laws\<close>; the
  key table, the clock and SHA-256 are arguments. Concurrent requests interleave between the
  increment and the decision on its result: they are the step relation \<open>byo_step\<close>, whose
  lemmas show that the limit is never overrun and no request is refused while it has room.
\<close>

section \<open>cache.py: counters\<close>

record 'r redis_counter =
  rc_incrby :: "'r \<Rightarrow> string \<Rightarrow> int \<Rightarrow> int option \<Rightarrow> int option \<times> 'r"
  rc_decrby :: "'r \<Rightarrow> string \<Rightarrow> int \<Rightarrow> int option \<times> 'r"
  rc_get :: "'r \<Rightarrow> string \<Rightarrow> int option option"

text \<open>
  \<open>CacheService\<close> over a client, or without one (\<open>self._client is None\<close>, and the no-op stub
  \<open>_NoOpCache\<close>, answer alike). A reply \<^const>\<open>None\<close> is a raised \<open>RedisError\<close>.
\<close>

type_synonym 'r cache = "'r redis_counter option"

definition cache_incr :: "'r cache \<Rightarrow> 'r \<Rightarrow> string \<Rightarrow> int \<Rightarrow> int option \<Rightarrow> int option \<times> 'r" where
  "cache_incr client r key by_n ttl =
     (case client of None \<Rightarrow> (None, r) | Some c \<Rightarrow> rc_incrby c r key by_n ttl)"

definition cache_decr :: "'r cache \<Rightarrow> 'r \<Rightarrow> string \<Rightarrow> int \<Rightarrow> int option \<times> 'r" where
  "cache_decr client r key by_n =
     (case client of None \<Rightarrow> (None, r) | Some c \<Rightarrow> rc_decrby c r key by_n)"

definition cache_get :: "'r cache \<Rightarrow> 'r \<Rightarrow> string \<Rightarrow> int option" where
  "cache_get client r key =
     (case client of None \<Rightarrow> None | Some c \<Rightarrow> (case rc_get c r key of None \<Rightarrow> None | Some v \<Rightarrow> v))"

section \<open>llm_byo.py\<close>

definition FREE_ALLOWANCE_LIMIT :: int where "FREE_ALLOWANCE_LIMIT = 10"

record BYOContext =
  byo_user_id :: string
  groq_key :: "string option"
  anthropic_key :: "string option"

definition has_any_key :: "BYOContext \<Rightarrow> bool" where
  "has_any_key c \<longleftrightarrow> truthy_str (groq_key c) \<or> truthy_str (anthropic_key c)"

text \<open>The month \<open>YYYY-MM\<close> in IST is an argument.\<close>

definition month_key :: "string \<Rightarrow> string \<Rightarrow> string" where
  "month_key month uid = ''byo:month_counter:'' @ uid @ '':'' @ month"

definition read_byo_month_used :: "'r cache \<Rightarrow> 'r \<Rightarrow> string \<Rightarrow> string \<Rightarrow> int" where
  "read_byo_month_used cache r month uid =
     (case cache_get cache r (month_key month uid) of None \<Rightarrow> 0 | Some v \<Rightarrow> v)"

definition byo_limit_detail :: "int \<Rightarrow> string" where
  "byo_limit_detail limit = ''BYO monthly chat limit reached ('' @ show_int limit @
     ''). Raise your limit on the My LLM Usage page or wait for next month'' @ [CHR 0x27] @ ''s reset.''"

text \<open>The two halves of \<open>_check_and_increment_byo_counter\<close> on either side of the point where another request may come in between.\<close>

definition byo_increment :: "'r cache \<Rightarrow> 'r \<Rightarrow> string \<Rightarrow> int option \<times> 'r" where
  "byo_increment cache r key = cache_incr cache r key 1 (Some (40 * 24 * 3600))"

definition byo_decide :: "'r cache \<Rightarrow> string \<Rightarrow> int \<Rightarrow> int option \<Rightarrow> 'r \<Rightarrow> int result \<times> 'r" where
  "byo_decide cache key limit new_count r =
     (case new_count of
        None \<Rightarrow> (Inr 0, r)
      | Some n \<Rightarrow>
          if n > limit then (Inl (HTTPException 429 (byo_limit_detail limit)), snd (cache_decr cache r key 1))
          else (Inr n, r))"

definition check_and_increment_byo_counter ::
    "'r cache \<Rightarrow> 'r \<Rightarrow> string \<Rightarrow> string \<Rightarrow> int \<Rightarrow> int result \<times> 'r" where
  "check_and_increment_byo_counter cache r month uid limit =
     (let key = month_key month uid;
          (new_count, r') = byo_increment cache r key
      in byo_decide cache key limit new_count r')"

text \<open>
  The state a chat request may change: the counters and the \<open>last_used_at\<close> column of the
  key table. \<open>key_of\<close> is \<open>byo_repo.get_decrypted_key\<close> for the user's row of a provider;
  \<open>pg_up\<close> says whether the update of \<open>last_used_at\<close> goes through.
\<close>

record 'r byo_state =
  bs_redis :: 'r
  bs_last_used :: "((string \<times> string) \<times> time) list"

definition resolve_byo_for_chat ::
    "'r cache \<Rightarrow> (string \<Rightarrow> string \<Rightarrow> string option) \<Rightarrow> bool \<Rightarrow> time \<Rightarrow> string \<Rightarrow> 'r byo_state \<Rightarrow>
     string \<Rightarrow> string \<Rightarrow> int \<Rightarrow> int \<Rightarrow> BYOContext option result \<times> 'r byo_state" where
  "resolve_byo_for_chat cache key_of pg_up now month st uid role chat_request_count byo_monthly_limit =
     (if role = ''superuser'' then (Inr None, st)
      else if chat_request_count < FREE_ALLOWANCE_LIMIT then (Inr None, st)
      else
        (let groq = key_of uid ''groq'';
             anthropic = key_of uid ''anthropic''
         in if \<not> (truthy_str groq \<or> truthy_str anthropic) then
              (Inl (HTTPException 429 (''Free chat allowance exhausted. Configure a Groq or Anthropic key on '' @
                 ''the My LLM Usage page to keep chatting.'')), st)
            else
              (case check_and_increment_byo_counter cache (bs_redis st) month uid byo_monthly_limit of
                 (Inl e, r') \<Rightarrow> (Inl e, st\<lparr>bs_redis := r'\<rparr>)
               | (Inr _, r') \<Rightarrow>
                   (let providers_used = (if truthy_str groq then [''groq''] else []) @
                          (if truthy_str anthropic then [''anthropic''] else []);
                        used = (if pg_up then fold (\<lambda>p. AList.update (uid, p) now) providers_used (bs_last_used st)
                                else bs_last_used st)
                    in (Inr (Some \<lparr>byo_user_id = uid, groq_key = groq, anthropic_key = anthropic\<rparr>),
                        \<lparr>bs_redis = r', bs_last_used = used\<rparr>)))))"

text \<open>\<open>apply_byo_context\<close>: the body runs with the variable set, which is restored after it.\<close>

definition apply_byo_context ::
    "BYOContext option \<Rightarrow> (BYOContext option \<Rightarrow> 'a \<times> BYOContext option) \<Rightarrow> BYOContext option \<Rightarrow>
     'a \<times> BYOContext option" where
  "apply_byo_context ctx body var =
     (case ctx of
        None \<Rightarrow> body var
      | Some c \<Rightarrow> (let (result, _) = body (Some c) in (result, var)))"

text \<open>The per-user clients: \<open>kh\<close> is the 12-digit digest prefix of a key.\<close>

datatype client = ChatGroq string time string | ChatAnthropic string time string

type_synonym client_cache = "((string \<times> string \<times> string) \<times> client) list"

definition get_user_groq_client ::
    "(string \<Rightarrow> string) \<Rightarrow> client_cache \<Rightarrow> string \<Rightarrow> string \<Rightarrow> time \<Rightarrow> client \<times> client_cache" where
  "get_user_groq_client sha12 cache api_key model temperature =
     (let cache_key = (''groq'', model, sha12 api_key) in
      case map_of cache cache_key of
        Some cached \<Rightarrow> (cached, cache)
      | None \<Rightarrow> (let c = ChatGroq model temperature api_key in (c, AList.update cache_key c cache)))"

definition get_user_anthropic_client ::
    "(string \<Rightarrow> string) \<Rightarrow> client_cache \<Rightarrow> string \<Rightarrow> string \<Rightarrow> time \<Rightarrow> client \<times> client_cache" where
  "get_user_anthropic_client sha12 cache api_key model temperature =
     (let cache_key = (''anthropic'', model, sha12 api_key) in
      case map_of cache cache_key of
        Some cached \<Rightarrow> (cached, cache)
      | None \<Rightarrow> (let c = ChatAnthropic model temperature api_key in (c, AList.update cache_key c cache)))"

section \<open>The counter server\<close>

text \<open>
  Documented behaviour of a reachable server, with \<open>val r k\<close> the number under a key (0 when
  unset): \<open>INCRBY\<close> and \<open>DECRBY\<close> are atomic, reply with the new value and touch no other key.
\<close>

definition counter_laws :: "'r redis_counter \<Rightarrow> ('r \<Rightarrow> string \<Rightarrow> int) \<Rightarrow> bool" where
  "counter_laws c val \<longleftrightarrow>
     (\<forall>r k n ttl. fst (rc_incrby c r k n ttl) = Some (val r k + n) \<and>
        (\<forall>k'. val (snd (rc_incrby c r k n ttl)) k' = (if k' = k then val r k + n else val r k'))) \<and>
     (\<forall>r k n. fst (rc_decrby c r k n) = Some (val r k - n) \<and>
        (\<forall>k'. val (snd (rc_decrby c r k n)) k' = (if k' = k then val r k - n else val r k')))"

lemma counter_incr:
  assumes "counter_laws c val"
  shows "fst (byo_increment (Some c) r k) = Some (val r k + 1)"
    and "val (snd (byo_increment (Some c) r k)) k' = (if k' = k then val r k + 1 else val r k')"
  using assms by (auto simp: counter_laws_def byo_increment_def cache_incr_def)

lemma counter_decr:
  assumes "counter_laws c val"
  shows "val (snd (cache_decr (Some c) r k 1)) k' = (if k' = k then val r k - 1 else val r k')"
  using assms by (auto simp: counter_laws_def cache_decr_def)

text \<open>A reference server: an association list.\<close>

definition ref_val :: "(string \<times> int) list \<Rightarrow> string \<Rightarrow> int" where
  "ref_val r k = (case map_of r k of None \<Rightarrow> 0 | Some n \<Rightarrow> n)"

definition ref_counter :: "(string \<times> int) list redis_counter" where
  "ref_counter =
     \<lparr>rc_incrby = (\<lambda>r k n ttl. (Some (ref_val r k + n), AList.update k (ref_val r k + n) r)),
      rc_decrby = (\<lambda>r k n. (Some (ref_val r k - n), AList.update k (ref_val r k - n) r)),
      rc_get = (\<lambda>r k. Some (map_of r k))\<rparr>"

lemma ref_counter_laws: "counter_laws ref_counter ref_val"
  by (simp add: counter_laws_def ref_counter_def ref_val_def map_of_AList_update)

section \<open>Concurrent requests\<close>

text \<open>
  Each request of a user is waiting, has incremented (and holds the reply), or is done. A
  step is one server command of one request with the decision that follows from its reply.
\<close>

datatype request = Waiting | Counted "int option" | Admitted | Rejected

inductive byo_step ::
    "'r cache \<Rightarrow> string \<Rightarrow> int \<Rightarrow> 'r \<times> request list \<Rightarrow> 'r \<times> request list \<Rightarrow> bool"
  for cache :: "'r cache" and key :: string and limit :: int where
  increment: "\<lbrakk>i < length rs; rs ! i = Waiting; byo_increment cache r key = (reply, r')\<rbrakk> \<Longrightarrow>
     byo_step cache key limit (r, rs) (r', rs[i := Counted reply])"
| decide: "\<lbrakk>i < length rs; rs ! i = Counted reply; byo_decide cache key limit reply r = (res, r')\<rbrakk> \<Longrightarrow>
     byo_step cache key limit (r, rs) (r', rs[i := (case res of Inr _ \<Rightarrow> Admitted | Inl _ \<Rightarrow> Rejected)])"

abbreviation byo_steps where
  "byo_steps cache key limit \<equiv> (byo_step cache key limit)\<^sup>*\<^sup>*"

text \<open>Winners hold a reply within the limit or are admitted; losers hold one above it.\<close>

fun is_winner :: "int \<Rightarrow> request \<Rightarrow> bool" where
  "is_winner limit (Counted (Some n)) = (n \<le> limit)"
| "is_winner limit Admitted = True"
| "is_winner limit _ = False"

fun is_loser :: "int \<Rightarrow> request \<Rightarrow> bool" where
  "is_loser limit (Counted (Some n)) = (n > limit)"
| "is_loser limit _ = False"

definition count_req :: "(request \<Rightarrow> bool) \<Rightarrow> request list \<Rightarrow> int" where
  "count_req P rs = int (length (filter P rs))"

lemma count_req_update:
  assumes "i < length rs"
  shows "count_req P (rs[i := x]) = count_req P rs - of_bool (P (rs ! i)) + of_bool (P x)"
proof -
  have "count_req P (take i rs @ rs ! i # drop (Suc i) rs) =
      count_req P (take i rs) + of_bool (P (rs ! i)) + count_req P (drop (Suc i) rs)"
    by (simp add: count_req_def)
  then have "count_req P rs = count_req P (take i rs) + of_bool (P (rs ! i)) + count_req P (drop (Suc i) rs)"
    by (simp only: id_take_nth_drop [OF assms, symmetric])
  moreover have "count_req P (rs[i := x]) = count_req P (take i rs) + of_bool (P x) + count_req P (drop (Suc i) rs)"
    using assms by (simp add: upd_conv_take_nth_drop count_req_def)
  ultimately show ?thesis by simp
qed

lemma count_req_nonneg [simp]: "0 \<le> count_req P rs"
  by (simp add: count_req_def)

definition byo_inv :: "int \<Rightarrow> int \<Rightarrow> int \<Rightarrow> request list \<Rightarrow> bool" where
  "byo_inv start limit v rs \<longleftrightarrow>
     v = start + count_req (is_winner limit) rs + count_req (is_loser limit) rs \<and>
     start + count_req (is_winner limit) rs \<le> limit \<and> Counted None \<notin> set rs \<and>
     (0 < count_req (is_loser limit) rs \<or> Rejected \<in> set rs \<longrightarrow>
        start + count_req (is_winner limit) rs = limit)"

lemma byo_inv_increment:
  assumes inv: "byo_inv start limit v rs" and i: "i < length rs" "rs ! i = Waiting"
  shows "byo_inv start limit (v + 1) (rs[i := Counted (Some (v + 1))])"
proof (cases "v + 1 \<le> limit")
  case True
  then have "count_req (is_loser limit) rs = 0" "Rejected \<notin> set rs"
    using inv count_req_nonneg [of "is_loser limit" rs] unfolding byo_inv_def by linarith+
  with True inv i show ?thesis
    by (auto simp: byo_inv_def count_req_update dest: set_update_subset_insert [THEN subsetD])
next
  case False
  then show ?thesis
    using inv i count_req_nonneg [of "is_loser limit" rs]
    by (auto simp: byo_inv_def count_req_update dest: set_update_subset_insert [THEN subsetD])
qed

lemma byo_inv_decide:
  assumes inv: "byo_inv start limit v rs" and i: "i < length rs" "rs ! i = Counted (Some n)"
  shows "n > limit \<Longrightarrow> byo_inv start limit (v - 1) (rs[i := Rejected])"
    and "n \<le> limit \<Longrightarrow> byo_inv start limit v (rs[i := Admitted])"
proof -
  note upd = count_req_update [OF i(1)]
  have sub: "Counted None \<in> set (rs[i := q]) \<Longrightarrow> q \<noteq> Counted None \<Longrightarrow> Counted None \<in> set rs"
    "Rejected \<in> set (rs[i := q]) \<Longrightarrow> q \<noteq> Rejected \<Longrightarrow> Rejected \<in> set rs" for q
    using set_update_subset_insert [of rs i q] by auto
  assume "n > limit"
  then have "0 < count_req (is_loser limit) rs"
    using upd [of "is_loser limit" Rejected] i(2) count_req_nonneg [of "is_loser limit" "rs[i := Rejected]"] by simp
  then show "byo_inv start limit (v - 1) (rs[i := Rejected])"
    using inv i(2) \<open>n > limit\<close> sub(1) [of Rejected] unfolding byo_inv_def upd by auto
next
  note upd = count_req_update [OF i(1)]
  have sub: "Counted None \<in> set (rs[i := q]) \<Longrightarrow> q \<noteq> Counted None \<Longrightarrow> Counted None \<in> set rs"
    "Rejected \<in> set (rs[i := q]) \<Longrightarrow> q \<noteq> Rejected \<Longrightarrow> Rejected \<in> set rs" for q
    using set_update_subset_insert [of rs i q] by auto
  assume "n \<le> limit"
  then show "byo_inv start limit v (rs[i := Admitted])"
    using inv i(2) sub [of Admitted] unfolding byo_inv_def upd by auto
qed

lemma byo_step_inv:
  assumes laws: "counter_laws c val" and step: "byo_step (Some c) key limit (r, rs) (r', rs')"
    and inv: "byo_inv start limit (val r key) rs"
  shows "byo_inv start limit (val r' key) rs'"
  using step
proof cases
  case (increment i reply)
  then have "reply = Some (val r key + 1)" "val r' key = val r key + 1"
    using counter_incr [OF laws, of r key] by (metis fst_conv, metis snd_conv)
  with increment inv show ?thesis by (simp add: byo_inv_increment)
next
  case (decide i reply res)
  have "Counted None \<notin> set rs" using inv by (simp add: byo_inv_def)
  with decide obtain n where n: "reply = Some n" by (metis nth_mem option.exhaust)
  show ?thesis
  proof (cases "n > limit")
    case True
    then have "rs' = rs[i := Rejected]" "val r' key = val r key - 1"
      using decide n counter_decr [OF laws, of r key] by (auto simp: byo_decide_def)
    then show ?thesis using byo_inv_decide(1) [OF inv _ _ True] decide n by simp
  next
    case False
    then have "rs' = rs[i := Admitted]" "r' = r" using decide n by (auto simp: byo_decide_def)
    then show ?thesis using byo_inv_decide(2) [OF inv _ _] False decide n by simp
  qed
qed

lemma byo_steps_inv:
  assumes laws: "counter_laws c val" and "byo_steps (Some c) key limit s s'"
    and "byo_inv start limit (val (fst s) key) (snd s)"
  shows "byo_inv start limit (val (fst s') key) (snd s')"
  using assms(2,3)
proof (induction rule: rtranclp_induct)
  case (step y z)
  then show ?case using byo_step_inv [OF laws] by (metis prod.collapse)
qed

lemma byo_inv_start: "start \<le> limit \<Longrightarrow> byo_inv start limit start (replicate n Waiting)"
  by (induction n) (auto simp: byo_inv_def count_req_def)

section \<open>Properties\<close>

text \<open>
  C18: The monthly limit holds under any interleaving of concurrent requests: with \<open>start\<close>
  uses already counted, never more requests are admitted than the limit leaves, a request is
  refused only when the limit is fully used by requests that are or will be admitted, and
  once no request is between its increment and its decision the stored counter is exactly
  the number of uses, hence within the limit.
\<close>

theorem byo_limit_under_interleaving:
  assumes "counter_laws c val" and "val r key = start" and "start \<le> limit"
    and "byo_steps (Some c) key limit (r, replicate n Waiting) (r', rs)"
  shows "start + count_req (\<lambda>q. q = Admitted) rs \<le> limit \<and>
     (Rejected \<in> set rs \<longrightarrow> start + count_req (is_winner limit) rs = limit) \<and>
     ((\<forall>q \<in> set rs. q \<in> {Waiting, Admitted, Rejected}) \<longrightarrow>
        val r' key = start + count_req (\<lambda>q. q = Admitted) rs)"
proof -
  have inv: "byo_inv start limit (val r' key) rs"
    using byo_steps_inv [OF assms(1,4), of start] byo_inv_start [OF assms(3)] assms(2) by simp
  have le: "count_req (\<lambda>q. q = Admitted) rs \<le> count_req (is_winner limit) rs" for rs
    by (induction rs) (auto simp: count_req_def)
  have quiet: "count_req (is_winner limit) rs = count_req (\<lambda>q. q = Admitted) rs \<and> count_req (is_loser limit) rs = 0"
    if "\<forall>q \<in> set rs. q \<in> {Waiting, Admitted, Rejected}" for rs
    using that by (induction rs) (auto simp: count_req_def)
  show ?thesis
    using inv le [of rs] quiet [of rs] unfolding byo_inv_def by (intro conjI impI) simp_all
qed

lemma byo_run0:
  "byo_steps (Some ref_counter) ''k'' 1 ([], replicate 2 Waiting) ([(''k'', 2)], [Counted (Some 1), Counted (Some 2)])"
proof -
  have "byo_step (Some ref_counter) ''k'' 1 ([], [Waiting, Waiting]) ([(''k'', 1)], [Waiting, Waiting][0 := Counted (Some 1)])"
    by (rule increment) (simp_all add: byo_increment_def cache_incr_def ref_counter_def ref_val_def)
  moreover have "byo_step (Some ref_counter) ''k'' 1 ([(''k'', 1)], [Counted (Some 1), Waiting])
      ([(''k'', 2)], [Counted (Some 1), Waiting][1 := Counted (Some 2)])"
    by (rule increment) (simp_all add: byo_increment_def cache_incr_def ref_counter_def ref_val_def)
  ultimately show ?thesis by (simp add: numeral_2_eq_2 converse_rtranclp_into_rtranclp)
qed

theorem byo_limit_under_interleaving_witness:
  "\<exists>r' rs. byo_steps (Some ref_counter) ''k'' 1 ([], replicate 2 Waiting) (r', rs) \<and>
     0 + count_req (\<lambda>q. q = Admitted) rs \<le> 1 \<and>
     (Rejected \<in> set rs \<longrightarrow> 0 + count_req (is_winner 1) rs = 1)"
  using byo_limit_under_interleaving [OF ref_counter_laws _ _ byo_run0, of 0] byo_run0
  by (auto simp: ref_val_def intro!: exI)

text \<open>
  The stored counter itself does exceed the limit while a rejected request has
  incremented and not yet rolled back: a reachable state has a counter above the limit.
\<close>

theorem byo_counter_transiently_exceeds_limit:
  "\<exists>r' rs. byo_steps (Some ref_counter) ''k'' 1 ([], replicate 2 Waiting) (r', rs) \<and> ref_val r' ''k'' > 1"
  using byo_run0 by (intro exI conjI) (auto simp: ref_val_def)

text \<open>
  A chat request is routed to the user's keys, refused, or left on the platform keys
  exactly as the rules say: superusers and users within the free allowance stay on the
  platform and change nothing; a user past it without a key, or past the own monthly limit,
  is refused with 429; otherwise the context carries the user's keys, has at least one, and
  the month's counter went up by one.
\<close>

theorem resolve_byo_decision:
  assumes "counter_laws c val" and "key = month_key month uid"
    and "resolve_byo_for_chat (Some c) key_of pg_up now month st uid role cnt limit = (res, st')"
  shows "(res = Inr None \<longleftrightarrow> role = ''superuser'' \<or> cnt < FREE_ALLOWANCE_LIMIT) \<and>
     (res = Inr None \<longrightarrow> st' = st) \<and>
     (\<forall>ctx. res = Inr (Some ctx) \<longrightarrow> byo_user_id ctx = uid \<and> has_any_key ctx \<and>
        groq_key ctx = key_of uid ''groq'' \<and> anthropic_key ctx = key_of uid ''anthropic'' \<and>
        val (bs_redis st) key < limit \<and> val (bs_redis st') key = val (bs_redis st) key + 1) \<and>
     (\<forall>e. res = Inl e \<longrightarrow> (\<exists>msg. e = HTTPException 429 msg) \<and> val (bs_redis st') key = val (bs_redis st) key \<and>
        ((\<not> truthy_str (key_of uid ''groq'') \<and> \<not> truthy_str (key_of uid ''anthropic'')) \<or>
         limit \<le> val (bs_redis st) key))"
proof -
  obtain reply r1 where inc: "byo_increment (Some c) (bs_redis st) key = (reply, r1)" by force
  have reply: "reply = Some (val (bs_redis st) key + 1)" "val r1 key = val (bs_redis st) key + 1"
    using counter_incr [OF assms(1), of "bs_redis st" key] inc by simp_all
  obtain out r2 where dec: "check_and_increment_byo_counter (Some c) (bs_redis st) month uid limit = (out, r2)" by force
  have out: "(\<exists>n. out = Inr n) \<and> val (bs_redis st) key < limit \<and> val r2 key = val (bs_redis st) key + 1 \<or>
      out = Inl (HTTPException 429 (byo_limit_detail limit)) \<and> limit \<le> val (bs_redis st) key \<and>
      val r2 key = val (bs_redis st) key"
    using dec inc reply counter_decr [OF assms(1), of r1 key key] assms(2)
    by (auto simp: check_and_increment_byo_counter_def byo_decide_def Let_def split: if_splits)
  show ?thesis
    using assms(3) dec out
    by (auto simp: resolve_byo_for_chat_def Let_def has_any_key_def split: if_splits sum.splits)
qed

theorem resolve_byo_decision_witness:
  "\<exists>res st'. resolve_byo_for_chat (Some ref_counter) (\<lambda>_ p. if p = ''groq'' then Some ''gk'' else None) True 1
      ''2026-03'' \<lparr>bs_redis = [], bs_last_used = []\<rparr> ''u'' ''general'' 12 5 = (res, st') \<and>
     res \<noteq> Inr None \<and> (\<forall>ctx. res = Inr (Some ctx) \<longrightarrow> byo_user_id ctx = ''u'')"
proof -
  obtain res st' where r: "resolve_byo_for_chat (Some ref_counter) (\<lambda>_ p. if p = ''groq'' then Some ''gk'' else None) True 1
      ''2026-03'' \<lparr>bs_redis = [], bs_last_used = []\<rparr> ''u'' ''general'' 12 5 = (res, st')" by force
  show ?thesis
    using resolve_byo_decision [OF ref_counter_laws refl r] r by (auto simp: FREE_ALLOWANCE_LIMIT_def)
qed

text \<open>
  The client cache ignores the temperature: once a client for a key and model is cached,
  a request for another temperature gets the old client back.
\<close>

theorem client_cache_ignores_temperature:
  assumes "map_of cache (''groq'', model, sha12 key) = None"
  shows "fst (get_user_groq_client sha12 (snd (get_user_groq_client sha12 cache key model t1)) key model t2) =
     ChatGroq model t1 key"
  using assms by (simp add: get_user_groq_client_def Let_def map_of_AList_update)

theorem client_cache_ignores_temperature_witness:
  "fst (get_user_groq_client (take 12) (snd (get_user_groq_client (take 12) [] ''secret'' ''m'' 0)) ''secret'' ''m'' 1) =
     ChatGroq ''m'' 0 ''secret''"
  by (rule client_cache_ignores_temperature) simp

end
