(* ===== verification/Llm_Fallback.thy ===== *)
theory Llm_Fallback
  imports Message_Compressor Llm_Byo
begin

text \<open>
  \<open>backend/llm_fallback.py\<close>: the cascade over Groq models, a local Ollama model and
  Anthropic, with the shared token budget, the compressor, round-robin pools, the per-request
  pin and the user's own keys. The chat clients are a parameter: the \<open>n\<close>-th call of the
  process gets a reply, a retriable API error or another exception. The clock is read once
  per reservation and release. Tracing callbacks and log lines have no effect on the result
  and are left out; the observability records are kept, as a list, for a configured
  collector. The availability answers of \<open>ollama_manager\<close> are arguments.
\<close>

section \<open>Tool-call identifiers\<close>

definition id_char :: "char \<Rightarrow> bool" where
  "id_char c \<longleftrightarrow> is_alnum c \<or> c = CHR ''_'' \<or> c = CHR ''-''"

text \<open>
  \<open>_VALID_ID.match\<close> for \<open>^[a-zA-Z0-9_-]+$\<close>: in Python \<open>$\<close> also matches before a final
  newline.
\<close>

definition valid_id :: "string \<Rightarrow> bool" where
  "valid_id s \<longleftrightarrow> (s \<noteq> [] \<and> list_all id_char s) \<or>
     (2 \<le> length s \<and> last s = CHR 0x0A \<and> list_all id_char (butlast s))"

definition sanitize_id :: "string \<Rightarrow> string" where
  "sanitize_id tid = (if tid \<noteq> [] \<and> \<not> valid_id tid then map (\<lambda>c. if id_char c then c else CHR ''_'') tid else tid)"

fun sanitize_msg :: "message \<Rightarrow> message" where
  "sanitize_msg (AIMessage c tcs) = AIMessage c (map (tc_id_update (map_option sanitize_id)) tcs)"
| "sanitize_msg (ToolMessage c tcid n) = ToolMessage c (sanitize_id tcid) n"
| "sanitize_msg m = m"

text \<open>The source rewrites in place; the list it returns is what Anthropic receives.\<close>

definition sanitize_tool_ids :: "message list \<Rightarrow> message list" where
  "sanitize_tool_ids messages = map sanitize_msg messages"

section \<open>Clients, environment, state\<close>

datatype llm = PlatformGroq string | PlatformAnthropic string | LocalOllama string | UserClient client

text \<open>A client with the tools bound to it, if any.\<close>

record handle =
  h_llm :: llm
  h_tools :: "string list option"

datatype llm_reply = Reply message | RetriableError string | OtherFailure string

datatype key_source = PlatformKey | UserKey

datatype obs_event =
    RecordRequest string string nat key_source
  | RecordCascade string string string nat
  | RecordCompression

record cascade_env =
  ce_clk :: "nat \<Rightarrow> time"
  ce_llm :: "nat \<Rightarrow> handle \<Rightarrow> message list \<Rightarrow> llm_reply"
  ce_byo :: "BYOContext option"
  ce_build_ok :: "string \<Rightarrow> string \<Rightarrow> bool"
  ce_sha12 :: "string \<Rightarrow> string"
  ce_ollama_up :: bool
  ce_ollama_loaded :: "string \<Rightarrow> bool"
  ce_compressor :: compressor

record fallback_llm =
  fb_profile :: string
  fb_temperature :: time
  fb_ollama :: "(string \<times> handle) option"
  fb_num_ctx :: int
  fb_ollama_first :: bool
  fb_groq_tiers :: "(string \<times> handle) list"
  fb_pool_groups :: "string list"
  fb_anthropic :: "(string \<times> handle) option"
  fb_bound_tools :: "string list option"

record cascade_state =
  cs_budget :: token_budget
  cs_pinned :: "string option"
  cs_clients :: client_cache
  cs_ticks :: nat
  cs_calls :: nat
  cs_obs :: "obs_event list"

section \<open>Construction\<close>

definition plain_handle :: "llm \<Rightarrow> handle" where
  "plain_handle l = \<lparr>h_llm = l, h_tools = None\<rparr>"

text \<open>\<open>pool_name = f"{cascade_profile}:{i}"\<close>, registered in order.\<close>

fun register_pools :: "string \<Rightarrow> nat \<Rightarrow> string list list \<Rightarrow> token_budget \<Rightarrow> string list \<times> token_budget" where
  "register_pools profile i [] b = ([], b)"
| "register_pools profile i (models # groups) b =
     (let name = profile @ '':'' @ show_nat i;
          (_, b1) = register_pool b name models;
          (names, b2) = register_pools profile (Suc i) groups b1
      in (name # names, b2))"

text \<open>
  \<open>__init__\<close>: \<open>ollama\<close> is the local model with its context size when it is configured,
  enabled and available; \<open>has_groq\<close> says whether the Groq packages and an API key are there.
\<close>

definition FallbackLLM ::
    "bool \<Rightarrow> string list \<Rightarrow> string option \<Rightarrow> time \<Rightarrow> string \<Rightarrow> (string \<times> int) option \<Rightarrow> bool \<Rightarrow>
     string list list \<Rightarrow> token_budget \<Rightarrow> fallback_llm \<times> token_budget" where
  "FallbackLLM has_groq groq_models anthropic_model temperature profile ollama ollama_first pool_groups b =
     (let (pools, b') = register_pools profile 0 pool_groups b
      in (\<lparr>fb_profile = profile, fb_temperature = temperature,
           fb_ollama = map_option (\<lambda>(m, ctx). (m, plain_handle (LocalOllama m))) ollama,
           fb_num_ctx = (case ollama of None \<Rightarrow> 0 | Some (m, ctx) \<Rightarrow> ctx),
           fb_ollama_first = ollama_first,
           fb_groq_tiers = (if has_groq then map (\<lambda>m. (m, plain_handle (PlatformGroq m))) groq_models else []),
           fb_pool_groups = pools,
           fb_anthropic = (if truthy_str anthropic_model
                           then Some (the anthropic_model, plain_handle (PlatformAnthropic (the anthropic_model)))
                           else None),
           fb_bound_tools = None\<rparr>, b'))"

definition bind_handle :: "string list \<Rightarrow> handle \<Rightarrow> handle" where
  "bind_handle tools h = h\<lparr>h_tools := Some tools\<rparr>"

definition bind_tools :: "string list \<Rightarrow> fallback_llm \<Rightarrow> fallback_llm" where
  "bind_tools tools fb =
     fb\<lparr>fb_bound_tools := Some tools,
        fb_ollama := map_option (\<lambda>(n, h). (n, bind_handle tools h)) (fb_ollama fb),
        fb_groq_tiers := map (\<lambda>(n, h). (n, bind_handle tools h)) (fb_groq_tiers fb),
        fb_anthropic := map_option (\<lambda>(n, h). (n, bind_handle tools h)) (fb_anthropic fb)\<rparr>"

text \<open>\<open>_model_lookup\<close>: a later tier of the same name wins.\<close>

definition model_lookup :: "fallback_llm \<Rightarrow> string \<Rightarrow> handle option" where
  "model_lookup fb = map_of (fold (\<lambda>(n, h) d. AList.update n h d) (fb_groq_tiers fb) [])"

definition pin_reset :: "cascade_state \<Rightarrow> cascade_state" where
  "pin_reset st = st\<lparr>cs_pinned := None\<rparr>"

section \<open>Primitive effects\<close>

definition do_reserve :: "cascade_env \<Rightarrow> string \<Rightarrow> int \<Rightarrow> cascade_state \<Rightarrow> bool \<times> cascade_state" where
  "do_reserve E model est st =
     (let (ok, b) = reserve (cs_budget st) (ce_clk E (cs_ticks st)) model est
      in (ok, st\<lparr>cs_budget := b, cs_ticks := Suc (cs_ticks st)\<rparr>))"

definition do_release :: "cascade_env \<Rightarrow> string \<Rightarrow> int \<Rightarrow> cascade_state \<Rightarrow> cascade_state" where
  "do_release E model est st =
     st\<lparr>cs_budget := release (cs_budget st) (ce_clk E (cs_ticks st)) model est,
        cs_ticks := Suc (cs_ticks st)\<rparr>"

definition do_call :: "cascade_env \<Rightarrow> handle \<Rightarrow> message list \<Rightarrow> cascade_state \<Rightarrow> llm_reply \<times> cascade_state" where
  "do_call E h messages st =
     (ce_llm E (cs_calls st) h messages, st\<lparr>cs_calls := Suc (cs_calls st)\<rparr>)"

definition observe :: "obs_event \<Rightarrow> cascade_state \<Rightarrow> cascade_state" where
  "observe e st = st\<lparr>cs_obs := cs_obs st @ [e]\<rparr>"

text \<open>The user-keyed client of the BYO override, or the platform client when it cannot be built.\<close>

definition groq_client ::
    "cascade_env \<Rightarrow> fallback_llm \<Rightarrow> string \<Rightarrow> handle \<Rightarrow> cascade_state \<Rightarrow> (handle \<times> key_source) \<times> cascade_state" where
  "groq_client E fb model bound st =
     (case ce_byo E of
        None \<Rightarrow> ((bound, PlatformKey), st)
      | Some byo \<Rightarrow>
          if truthy_str (groq_key byo) \<and> ce_build_ok E ''groq'' model then
            (let (c, cache) = get_user_groq_client (ce_sha12 E) (cs_clients st) (the (groq_key byo)) model (fb_temperature fb)
             in ((\<lparr>h_llm = UserClient c, h_tools = fb_bound_tools fb\<rparr>, UserKey), st\<lparr>cs_clients := cache\<rparr>))
          else ((bound, PlatformKey), st))"

definition anthropic_client ::
    "cascade_env \<Rightarrow> fallback_llm \<Rightarrow> string \<Rightarrow> handle \<Rightarrow> cascade_state \<Rightarrow> (handle \<times> key_source) \<times> cascade_state" where
  "anthropic_client E fb model bound st =
     (case ce_byo E of
        None \<Rightarrow> ((bound, PlatformKey), st)
      | Some byo \<Rightarrow>
          if truthy_str (anthropic_key byo) \<and> ce_build_ok E ''anthropic'' model then
            (let (c, cache) = get_user_anthropic_client (ce_sha12 E) (cs_clients st) (the (anthropic_key byo)) model (fb_temperature fb)
             in ((\<lparr>h_llm = UserClient c, h_tools = fb_bound_tools fb\<rparr>, UserKey), st\<lparr>cs_clients := cache\<rparr>))
          else ((bound, PlatformKey), st))"

section \<open>One model\<close>

text \<open>
  What an attempt comes to: an answer, \<open>None\<close> (go on with the cascade), or an exception.
\<close>

datatype attempt = Answered message | Skipped | Raised py_exn

text \<open>\<open>_try_model\<close> from the reservation on: call, and release on any failure.\<close>

definition call_reserved ::
    "cascade_env \<Rightarrow> fallback_llm \<Rightarrow> string \<Rightarrow> handle \<Rightarrow> message list \<Rightarrow> int \<Rightarrow> nat \<Rightarrow> cascade_state \<Rightarrow>
     attempt \<times> cascade_state" where
  "call_reserved E fb model bound cur_compressed cur_est tier st =
     (let ((h, src), st1) = groq_client E fb model bound st;
          (reply, st2) = do_call E h cur_compressed st1
      in case reply of
           Reply msg \<Rightarrow> (Answered msg, observe (RecordRequest ''groq'' model tier src) st2)
         | RetriableError _ \<Rightarrow>
             (Skipped, observe (RecordCascade ''groq'' model ''api_error'' tier) (do_release E model cur_est st2))
         | OtherFailure e \<Rightarrow> (Raised (OtherError e), do_release E model cur_est st2))"

definition try_model ::
    "cascade_env \<Rightarrow> fallback_llm \<Rightarrow> string \<Rightarrow> handle \<Rightarrow> message list \<Rightarrow> int \<Rightarrow> message list \<Rightarrow> int \<Rightarrow> nat \<Rightarrow>
     cascade_state \<Rightarrow> attempt \<times> cascade_state" where
  "try_model E fb model bound compressed est messages iteration tier st =
     (case do_reserve E model est st of
        (True, st1) \<Rightarrow> call_reserved E fb model bound compressed est tier st1
      | (False, st1) \<Rightarrow>
          (let (cur_compressed, cur_est, st2) =
                 (case get_tpm (cs_budget st1) model of
                    None \<Rightarrow> (compressed, est, st1)
                  | Some tpm_limit \<Rightarrow>
                      (let target = \<lfloor>of_int tpm_limit * (7 / 10 :: rat)\<rfloor>;
                           c = compress (ce_compressor E) messages iteration (Some target)
                       in (c, estimate_tokens c, observe RecordCompression st1)))
           in case do_reserve E model cur_est st2 of
                (True, st3) \<Rightarrow> call_reserved E fb model bound cur_compressed cur_est tier st3
              | (False, st3) \<Rightarrow>
                  (Skipped, observe (RecordCascade ''groq'' model ''budget_exhausted'' tier) st3)))"

section \<open>The cascade\<close>

text \<open>The loop body shared by the pools and the flat list; a success pins its model.\<close>

fun try_models ::
    "cascade_env \<Rightarrow> fallback_llm \<Rightarrow> message list \<Rightarrow> int \<Rightarrow> message list \<Rightarrow> int \<Rightarrow> nat \<Rightarrow>
     (string \<times> handle) list \<Rightarrow> cascade_state \<Rightarrow> attempt \<times> cascade_state" where
  "try_models E fb compressed est messages iteration tier [] st = (Skipped, st)"
| "try_models E fb compressed est messages iteration tier ((model, bound) # ms) st =
     (case try_model E fb model bound compressed est messages iteration tier st of
        (Answered msg, st') \<Rightarrow> (Answered msg, st'\<lparr>cs_pinned := Some model\<rparr>)
      | (Raised e, st') \<Rightarrow> (Raised e, st')
      | (Skipped, st') \<Rightarrow> try_models E fb compressed est messages iteration (Suc tier) ms st')"

text \<open>\<open>pool.ordered_models()\<close> on the pool object shared through the budget.\<close>

definition next_order :: "string \<Rightarrow> cascade_state \<Rightarrow> string list \<times> cascade_state" where
  "next_order name st =
     (case get_pool (cs_budget st) name of
        None \<Rightarrow> ([], st)
      | Some p \<Rightarrow>
          (let (ms, p') = ordered_models p
           in (ms, st\<lparr>cs_budget := (cs_budget st)\<lparr>tb_pools := AList.update name p' (tb_pools (cs_budget st))\<rparr>\<rparr>)))"

definition known_models :: "fallback_llm \<Rightarrow> string list \<Rightarrow> (string \<times> handle) list" where
  "known_models fb ms = List.map_filter (\<lambda>m. map_option (\<lambda>h. (m, h)) (model_lookup fb m)) ms"

fun try_pools ::
    "cascade_env \<Rightarrow> fallback_llm \<Rightarrow> message list \<Rightarrow> int \<Rightarrow> message list \<Rightarrow> int \<Rightarrow> nat \<Rightarrow>
     string list \<Rightarrow> cascade_state \<Rightarrow> attempt \<times> cascade_state" where
  "try_pools E fb compressed est messages iteration tier [] st = (Skipped, st)"
| "try_pools E fb compressed est messages iteration tier (pool # pools) st =
     (let (ordered, st1) = next_order pool st;
          cands = known_models fb ordered
      in case try_models E fb compressed est messages iteration tier cands st1 of
           (Skipped, st2) \<Rightarrow>
             try_pools E fb compressed est messages iteration (tier + length cands) pools st2
         | res \<Rightarrow> res)"

text \<open>The local model; only the variant before Groq reports an exceeded context.\<close>

definition try_ollama ::
    "cascade_env \<Rightarrow> fallback_llm \<Rightarrow> bool \<Rightarrow> message list \<Rightarrow> int \<Rightarrow> nat \<Rightarrow> cascade_state \<Rightarrow> attempt \<times> cascade_state" where
  "try_ollama E fb before_groq compressed est tier st =
     (case fb_ollama fb of
        None \<Rightarrow> (Skipped, st)
      | Some (oname, obound) \<Rightarrow>
          if ce_ollama_up E \<and> ce_ollama_loaded E oname then
            if est \<le> fb_num_ctx fb then
              (let (reply, st1) = do_call E obound compressed st
               in case reply of
                    Reply msg \<Rightarrow> (Answered msg, observe (RecordRequest ''ollama'' oname tier PlatformKey) st1)
                  | _ \<Rightarrow> (Skipped, observe (RecordCascade ''ollama'' oname ''ollama_error'' tier) st1))
            else (Skipped, if before_groq then observe (RecordCascade ''ollama'' oname ''context_exceeded'' tier) st else st)
          else (Skipped, st))"

definition ollama_before_groq ::
    "cascade_env \<Rightarrow> fallback_llm \<Rightarrow> message list \<Rightarrow> int \<Rightarrow> cascade_state \<Rightarrow> attempt \<times> cascade_state" where
  "ollama_before_groq E fb compressed est st =
     (if fb_ollama_first fb then try_ollama E fb True compressed est 0 st else (Skipped, st))"

definition ollama_after_groq ::
    "cascade_env \<Rightarrow> fallback_llm \<Rightarrow> message list \<Rightarrow> int \<Rightarrow> nat \<Rightarrow> cascade_state \<Rightarrow> attempt \<times> cascade_state" where
  "ollama_after_groq E fb compressed est tier st =
     (if \<not> fb_ollama_first fb then try_ollama E fb False compressed est tier st else (Skipped, st))"

lemmas ollama_steps = ollama_before_groq_def ollama_after_groq_def

definition try_pinned ::
    "cascade_env \<Rightarrow> fallback_llm \<Rightarrow> message list \<Rightarrow> int \<Rightarrow> message list \<Rightarrow> int \<Rightarrow> nat \<Rightarrow> cascade_state \<Rightarrow>
     attempt \<times> cascade_state" where
  "try_pinned E fb compressed est messages iteration tier st =
     (case cs_pinned st of
        None \<Rightarrow> (Skipped, st)
      | Some m \<Rightarrow>
          (case model_lookup fb m of
             None \<Rightarrow> (Skipped, st\<lparr>cs_pinned := None\<rparr>)
           | Some bound \<Rightarrow>
               (case try_model E fb m bound compressed est messages iteration tier st of
                  (Skipped, st') \<Rightarrow> (Skipped, st'\<lparr>cs_pinned := None\<rparr>)
                | res \<Rightarrow> res)))"

definition exhausted_detail :: "fallback_llm \<Rightarrow> string" where
  "exhausted_detail fb = ''All free-tier models exhausted (profile='' @ fb_profile fb @
     ''). No paid fallback available.''"

definition call_anthropic ::
    "cascade_env \<Rightarrow> fallback_llm \<Rightarrow> message list \<Rightarrow> nat \<Rightarrow> cascade_state \<Rightarrow> attempt \<times> cascade_state" where
  "call_anthropic E fb compressed tier st =
     (case fb_anthropic fb of
        None \<Rightarrow> (Raised (RuntimeError (exhausted_detail fb)), st)
      | Some (model, bound) \<Rightarrow>
          (let ((h, src), st1) = anthropic_client E fb model bound st;
               (reply, st2) = do_call E h (sanitize_tool_ids compressed) st1
           in case reply of
                Reply msg \<Rightarrow> (Answered msg, observe (RecordRequest ''anthropic'' model tier src) st2)
              | RetriableError e \<Rightarrow> (Raised (OtherError e), st2)
              | OtherFailure e \<Rightarrow> (Raised (OtherError e), st2)))"

text \<open>Steps of \<open>invoke\<close> in order; each is left by an answer or an exception.\<close>

fun first_of :: "(cascade_state \<Rightarrow> attempt \<times> cascade_state) list \<Rightarrow> cascade_state \<Rightarrow> attempt \<times> cascade_state" where
  "first_of [] st = (Skipped, st)"
| "first_of (step # steps) st =
     (case step st of (Skipped, st') \<Rightarrow> first_of steps st' | res \<Rightarrow> res)"

definition cascade_steps ::
    "cascade_env \<Rightarrow> fallback_llm \<Rightarrow> message list \<Rightarrow> int \<Rightarrow> message list \<Rightarrow> int \<Rightarrow>
     (cascade_state \<Rightarrow> attempt \<times> cascade_state) list" where
  "cascade_steps E fb compressed est messages iteration =
     (let offset = (if fb_ollama fb \<noteq> None then 1 else 0);
          last_tier = length (fb_groq_tiers fb) + offset
      in [ollama_before_groq E fb compressed est,
          try_pinned E fb compressed est messages iteration offset,
          \<lambda>st. if fb_pool_groups fb \<noteq> []
               then try_pools E fb compressed est messages iteration offset (fb_pool_groups fb) st
               else try_models E fb compressed est messages iteration offset (fb_groq_tiers fb) st,
          ollama_after_groq E fb compressed est last_tier,
          call_anthropic E fb compressed last_tier])"

definition invoke ::
    "cascade_env \<Rightarrow> fallback_llm \<Rightarrow> message list \<Rightarrow> int \<Rightarrow> cascade_state \<Rightarrow> attempt \<times> cascade_state" where
  "invoke E fb messages iteration st =
     (let compressed = compress (ce_compressor E) messages iteration None;
          est = estimate_tokens compressed
      in first_of (cascade_steps E fb compressed est messages iteration) st)"

lemmas cascade_effects [cascade_defs] = do_reserve_def do_release_def do_call_def observe_def
  groq_client_def anthropic_client_def

end
