(* ===== verification/Budget_Properties.thy ===== *)
theory Budget_Properties
  imports Token_Budget
begin

text \<open>
  Properties of the token budget: its running totals, what it admits over any interleaving
  of calls, how reservation and query agree, the effect of a release, and the round-robin
  pools.
\<close>

section \<open>The ghost history of admitted requests\<close>

text \<open>What an operation spends on a model: the entry of a successful reservation or of a record.\<close>

fun spent :: "token_budget \<Rightarrow> time \<Rightarrow> budget_op \<Rightarrow> string \<Rightarrow> usage_log" where
  "spent b now (OpReserve m' n) m = (if m' = m \<and> fst (reserve b now m' n) then [(now, n)] else [])"
| "spent b now (OpRecord m' n) m = (if m' = m then [(now, n)] else [])"
| "spent b now _ m = []"

fun spends :: "token_budget \<Rightarrow> (time \<times> budget_op) list \<Rightarrow> string \<Rightarrow> usage_log" where
  "spends b [] m = []"
| "spends b ((now, op) # ops) m = spent b now op m @ spends (exec_op b now op) ops m"

fun spends_forward :: "budget_op \<Rightarrow> bool" where
  "spends_forward (OpReserve m n) = (0 \<le> n)"
| "spends_forward (OpRecord m n) = (0 \<le> n)"
| "spends_forward (OpRelease m n) = False"
| "spends_forward _ = True"

text \<open>The amount spent in the last \<open>w\<close> seconds.\<close>

definition in_window :: "int \<Rightarrow> time \<Rightarrow> usage_log \<Rightarrow> usage_log" where
  "in_window w now h = filter (\<lambda>x. now - of_int w \<le> fst x) h"

abbreviation unit_log :: "usage_log \<Rightarrow> usage_log" where
  "unit_log h \<equiv> map (\<lambda>x. (fst x, 1)) h"

text \<open>
  A deque keeps a history up to time \<open>T\<close>: it holds every entry of the history that can
  still be inside the window at \<open>T\<close> or later, and nothing negative.
\<close>

definition keeps :: "time \<Rightarrow> int \<Rightarrow> usage_log \<Rightarrow> usage_log \<Rightarrow> bool" where
  "keeps T w l h \<longleftrightarrow> (\<forall>x \<in> set l. 0 \<le> snd x) \<and> (\<forall>now \<ge> T. in_window w now l = in_window w now h)"

definition state_keeps :: "time \<Rightarrow> model_state \<Rightarrow> usage_log \<Rightarrow> bool" where
  "state_keeps T s h \<longleftrightarrow> keeps T MINUTE (minute_tokens s) h \<and> keeps T MINUTE (minute_requests s) (unit_log h) \<and>
     keeps T DAY (day_tokens s) h \<and> keeps T DAY (day_requests s) (unit_log h)"

lemma in_window_dropWhile:
  assumes "now \<le> T"
  shows "in_window w T (dropWhile (\<lambda>x. fst x < now - of_int w) l) = in_window w T l"
proof (induction l)
  case (Cons x l)
  then show ?case using assms by (auto simp: in_window_def)
qed (simp add: in_window_def)

lemma in_window_append [simp]: "in_window w T (l @ l') = in_window w T l @ in_window w T l'"
  by (simp add: in_window_def)

lemma in_window_Nil [simp]: "in_window w T [] = []"
  by (simp add: in_window_def)

lemma keeps_prune: "keeps T w l h \<Longrightarrow> now \<le> T \<Longrightarrow> keeps T w (dropWhile (\<lambda>x. fst x < now - of_int w) l) h"
  by (auto simp: keeps_def in_window_dropWhile dest: set_dropWhileD)

lemma keeps_append: "keeps T w l h \<Longrightarrow> 0 \<le> n \<Longrightarrow> keeps T w (l @ [(now, n)]) (h @ [(now, n)])"
  by (auto simp: keeps_def)

lemma state_keeps_empty: "state_keeps T empty_state []"
  by (simp add: state_keeps_def keeps_def empty_state_def)

lemma prune_state_logs:
  "minute_tokens (prune_state now s) = dropWhile (\<lambda>x. fst x < now - of_int MINUTE) (minute_tokens s)"
  "minute_requests (prune_state now s) = dropWhile (\<lambda>x. fst x < now - of_int MINUTE) (minute_requests s)"
  "day_tokens (prune_state now s) = dropWhile (\<lambda>x. fst x < now - of_int DAY) (day_tokens s)"
  "day_requests (prune_state now s) = dropWhile (\<lambda>x. fst x < now - of_int DAY) (day_requests s)"
  by (simp_all add: prune_state_def window_total_eq Let_def)

lemma prune_day_logs:
  "minute_tokens (prune_day now s) = minute_tokens s"
  "minute_requests (prune_day now s) = minute_requests s"
  "day_tokens (prune_day now s) = dropWhile (\<lambda>x. fst x < now - of_int DAY) (day_tokens s)"
  "day_requests (prune_day now s) = dropWhile (\<lambda>x. fst x < now - of_int DAY) (day_requests s)"
  by (simp_all add: prune_day_def window_total_eq Let_def)

lemma state_keeps_prune: "state_keeps T s h \<Longrightarrow> now \<le> T \<Longrightarrow> state_keeps T (prune_state now s) h"
  unfolding state_keeps_def prune_state_logs by (blast intro: keeps_prune)

lemma state_keeps_prune_day: "state_keeps T s h \<Longrightarrow> now \<le> T \<Longrightarrow> state_keeps T (prune_day now s) h"
  unfolding state_keeps_def prune_day_logs by (blast intro: keeps_prune)

lemma state_keeps_append:
  "state_keeps T s h \<Longrightarrow> 0 \<le> n \<Longrightarrow> state_keeps T (append_usage now n 1 s) (h @ [(now, n)])"
  by (simp add: state_keeps_def append_usage_def keeps_append)

text \<open>The history lemma: the state of every known model keeps its history.\<close>

definition budget_keeps :: "time \<Rightarrow> token_budget \<Rightarrow> (string \<Rightarrow> usage_log) \<Rightarrow> bool" where
  "budget_keeps T b H \<longleftrightarrow>
     (\<forall>m. map_of (tb_limits b) m \<noteq> None \<longrightarrow> state_keeps T (get_state b m) (H m))"

lemma budget_keeps_put:
  assumes "budget_keeps T b H" "map_of (tb_limits b) m \<noteq> None \<Longrightarrow> state_keeps T s h"
  shows "budget_keeps T (put_state b m s) (H(m := h))"
  using assms by (simp add: budget_keeps_def)

lemma budget_keeps_refresh:
  assumes "budget_keeps T b H" "map_of (tb_limits b) m \<noteq> None \<Longrightarrow> state_keeps T s (H m)"
  shows "budget_keeps T (put_state b m s) H"
  using assms by (simp add: budget_keeps_def)

lemma exec_op_limits [simp]: "tb_limits (exec_op b now op) = tb_limits b"
proof (cases op)
  case OpStatus
  then show ?thesis
    using status_loop_keeps [where I = "\<lambda>c. tb_limits c = tb_limits b"] by (simp add: get_status_def)
next
  case OpDaily
  then show ?thesis
    using daily_loop_keeps [where I = "\<lambda>c. tb_limits c = tb_limits b"] by (simp add: snd_get_daily)
qed (simp_all add: budget_defs Let_def split: option.splits)

lemma exec_op_keeps:
  assumes keep: "budget_keeps T b H" and now: "now \<le> T" and op: "spends_forward op"
  shows "budget_keeps T (exec_op b now op) (\<lambda>m. H m @ spent b now op m)"
proof -
  have known: "state_keeps T (prune_state now (get_state b m)) (H m)"
    if "map_of (tb_limits b) m \<noteq> None" for m
    using keep that now by (simp add: budget_keeps_def state_keeps_prune)
  show ?thesis
  proof (cases op)
    case (OpReserve m n)
    show ?thesis
    proof (cases "map_of (tb_limits b) m")
      case None
      then show ?thesis using keep OpReserve by (auto simp: reserve_def budget_keeps_def)
    next
      case (Some lm)
      then show ?thesis
        using keep known [of m] op OpReserve
        by (auto simp: reserve_def Let_def budget_keeps_def state_keeps_append)
    qed
  next
    case (OpRecord m n)
    then show ?thesis
      using keep op by (auto simp: record_usage_def budget_keeps_def state_keeps_append)
  next
    case (OpCanAfford m n)
    then show ?thesis
      using keep known [of m] by (auto simp: can_afford_def Let_def budget_keeps_def split: option.splits)
  next
    case OpStatus
    then show ?thesis
      using keep now
      by (simp add: get_status_def) (rule status_loop_keeps, auto simp: budget_keeps_def state_keeps_prune)
  next
    case OpDaily
    then show ?thesis
      using keep now
      by (simp add: snd_get_daily) (rule daily_loop_keeps, auto simp: budget_keeps_def state_keeps_prune_day)
  qed (use op in simp)
qed

lemma exec_ops_keeps:
  assumes "budget_keeps T b H" "\<forall>(now, op) \<in> set ops. now \<le> T \<and> spends_forward op"
  shows "budget_keeps T (exec_ops b ops) (\<lambda>m. H m @ spends b ops m) \<and> tb_limits (exec_ops b ops) = tb_limits b"
  using assms
proof (induction b ops arbitrary: H rule: exec_ops.induct)
  case (2 b now op ops)
  from "2.prems" have "budget_keeps T (exec_op b now op) (\<lambda>m. H m @ spent b now op m)"
    by (intro exec_op_keeps) auto
  from "2.IH" [OF this] "2.prems"(2) show ?case by simp
qed simp

lemma amount_filter_le: "\<forall>x \<in> set l. 0 \<le> snd x \<Longrightarrow> amount (filter P l) \<le> amount l"
  by (induction l) auto

lemma window_below_total:
  assumes "keeps now w l h" "tot = amount l"
  shows "amount (in_window w now h) \<le> tot - amount (takeWhile (\<lambda>x. fst x < now - of_int w) l)"
proof -
  let ?d = "dropWhile (\<lambda>x. fst x < now - of_int w) l"
  have "in_window w now h = in_window w now ?d"
    using assms(1) in_window_dropWhile [of now now w l] by (simp add: keeps_def)
  moreover have "\<forall>x \<in> set ?d. 0 \<le> snd x"
    using assms(1) by (auto simp: keeps_def dest: set_dropWhileD)
  then have "amount (in_window w now ?d) \<le> amount ?d"
    unfolding in_window_def by (rule amount_filter_le)
  ultimately show ?thesis
    using amount_window [of l] assms(2) by simp
qed

lemma prune_state_totals:
  "minute_tokens_total (prune_state now s) =
     minute_tokens_total s - amount (takeWhile (\<lambda>x. fst x < now - of_int MINUTE) (minute_tokens s))"
  "minute_requests_total (prune_state now s) =
     minute_requests_total s - amount (takeWhile (\<lambda>x. fst x < now - of_int MINUTE) (minute_requests s))"
  "day_tokens_total (prune_state now s) =
     day_tokens_total s - amount (takeWhile (\<lambda>x. fst x < now - of_int DAY) (day_tokens s))"
  "day_requests_total (prune_state now s) =
     day_requests_total s - amount (takeWhile (\<lambda>x. fst x < now - of_int DAY) (day_requests s))"
  by (simp_all add: prune_state_def window_total_eq Let_def)

lemma state_okD:
  assumes "state_ok s"
  shows "minute_tokens_total s = amount (minute_tokens s)" "minute_requests_total s = amount (minute_requests s)"
    "day_tokens_total s = amount (day_tokens s)" "day_requests_total s = amount (day_requests s)"
  using assms by (simp_all add: state_ok_def windows_def)

lemma reserve_known:
  assumes "map_of (tb_limits b) m = Some lm"
  shows "fst (reserve b now m est) = within_budget lm (prune_state now (get_state b m)) est"
    and "fst (can_afford b now m est) = within_budget lm (prune_state now (get_state b m)) est"
  using assms by (simp_all add: reserve_def can_afford_def Let_def)

lemma amount_unit_log [simp]: "amount (in_window w now (unit_log h)) = int (length (in_window w now h))"
  by (induction h) (auto simp: in_window_def)

section \<open>Properties\<close>

text \<open>
  In every state any interleaving of reserve, release, record, queries and reports can
  reach, whatever their clock readings, the four running totals of every model are the sums
  of the deques they summarise: the constant-time totals never drift.
\<close>

theorem running_totals_are_sums:
  "state_ok (get_state (exec_ops (TokenBudget lims) ops) m)"
  using exec_ops_budget_ok [OF budget_ok_init] by (rule budget_okD)

text \<open>
  C14: As long as nothing is released, a reservation that succeeds keeps the requests admitted
  for the model within 80 per cent of every limit: the tokens and the requests admitted in
  the last minute and in the last day, the new one included. The earlier calls may come in
  any order with any clock readings up to the present one.
\<close>

theorem admitted_within_threshold:
  assumes ops: "\<forall>(now', op) \<in> set ops. now' \<le> now \<and> spends_forward op"
    and known: "map_of (tb_limits (TokenBudget lims)) m = Some lm"
    and ok: "fst (reserve (exec_ops (TokenBudget lims) ops) now m est)"
    and h: "h = spends (TokenBudget lims) ops m"
  shows "of_int (amount (in_window MINUTE now h) + est) \<le> of_int (tpm lm) * THRESHOLD \<and>
     of_int (int (length (in_window MINUTE now h)) + 1) \<le> of_int (rpm lm) * THRESHOLD \<and>
     of_int (amount (in_window DAY now h) + est) \<le> of_int (tpd lm) * THRESHOLD \<and>
     of_int (int (length (in_window DAY now h)) + 1) \<le> of_int (rpd lm) * THRESHOLD"
proof -
  let ?b = "exec_ops (TokenBudget lims) ops" and ?s = "get_state (exec_ops (TokenBudget lims) ops) m"
  have "budget_keeps now (TokenBudget lims) (\<lambda>_. [])"
    by (simp add: budget_keeps_def state_keeps_empty)
  from exec_ops_keeps [OF this ops] have keeps: "state_keeps now ?s h" and "map_of (tb_limits ?b) m = Some lm"
    using known by (auto simp: budget_keeps_def h)
  then have within: "within_budget lm (prune_state now ?s) est"
    using ok reserve_known by blast
  have "state_ok ?s" using exec_ops_budget_ok [OF budget_ok_init] by (rule budget_okD)
  note tot = state_okD [OF this]
  have le: "amount (in_window MINUTE now h) \<le> minute_tokens_total (prune_state now ?s)"
    "int (length (in_window MINUTE now h)) \<le> minute_requests_total (prune_state now ?s)"
    "amount (in_window DAY now h) \<le> day_tokens_total (prune_state now ?s)"
    "int (length (in_window DAY now h)) \<le> day_requests_total (prune_state now ?s)"
    using keeps window_below_total [OF _ tot(1)] window_below_total [OF _ tot(2)]
      window_below_total [OF _ tot(3)] window_below_total [OF _ tot(4)]
    unfolding state_keeps_def prune_state_totals amount_unit_log [symmetric] by blast+
  have mono: "of_int (a + c) \<le> r" if "a \<le> b" "\<not> of_int (b + c) > (r :: rat)" for a b c r
    using that by (meson add_right_mono not_less of_int_le_iff order_trans)
  show ?thesis
    using within unfolding within_budget_def by (intro conjI mono [OF le(1)] mono [OF le(2)] mono [OF le(3)] mono [OF le(4)]) auto
qed

theorem admitted_within_threshold_witness:
  "of_int (amount (in_window MINUTE 30 (spends (TokenBudget [])
       [(1, OpReserve ''openai/gpt-oss-120b'' 3000), (9, OpRecord ''openai/gpt-oss-120b'' 1000)]
       ''openai/gpt-oss-120b'')) + 2000) \<le> of_int 8000 * THRESHOLD"
proof -
  let ?ops = "[(1, OpReserve ''openai/gpt-oss-120b'' 3000), (9, OpRecord ''openai/gpt-oss-120b'' 1000)]"
  let ?lm = "\<lparr>rpm = 30, tpm = 8000, rpd = 1000, tpd = 200000\<rparr>"
  have known: "map_of (tb_limits (TokenBudget [])) ''openai/gpt-oss-120b'' = Some ?lm"
    by (simp add: TokenBudget_def DEFAULT_LIMITS_def)
  have step: "fst (reserve (exec_ops (TokenBudget []) ?ops) 30 ''openai/gpt-oss-120b'' 2000)"
    using known
    by (simp add: reserve_def Let_def within_budget_def record_usage_def prune_state_def window_total_def
        append_usage_def empty_state_def THRESHOLD_def MINUTE_def DAY_def)
  show ?thesis
    using admitted_within_threshold [OF _ known step refl] by simp
qed

lemma reserve_parts:
  assumes ok: "budget_ok b" and known: "map_of (tb_limits b) m = Some lm" and s: "s = get_state b m"
    and sorted: "sorted (map fst (minute_tokens s))" "sorted (map fst (minute_requests s))"
      "sorted (map fst (day_tokens s))" "sorted (map fst (day_requests s))"
    and r: "reserve b now m est = (granted, b')"
  shows "granted = fst (can_afford b now m est)"
    and "granted \<longleftrightarrow>
      of_int (amount (in_window MINUTE now (minute_tokens s)) + est) \<le> of_int (tpm lm) * THRESHOLD \<and>
      of_int (amount (in_window MINUTE now (minute_requests s)) + 1) \<le> of_int (rpm lm) * THRESHOLD \<and>
      of_int (amount (in_window DAY now (day_tokens s)) + est) \<le> of_int (tpd lm) * THRESHOLD \<and>
      of_int (amount (in_window DAY now (day_requests s)) + 1) \<le> of_int (rpd lm) * THRESHOLD"
    and "now \<le> t \<Longrightarrow> in_window MINUTE t (minute_tokens (get_state b' m)) =
      in_window MINUTE t (minute_tokens s @ (if granted then [(now, est)] else []))"
    and "m' \<noteq> m \<Longrightarrow> get_state b' m' = get_state b m'"
proof -
  have window: "amount l - amount (takeWhile (\<lambda>x. fst x < now - of_int w) l) = amount (in_window w now l)"
    if "sorted (map fst l)" for l :: usage_log and w
    unfolding amount_window in_window_def using dropWhile_sorted_filter [OF that] by simp
  note tot = state_okD [OF budget_okD [OF ok], of m, folded s]
  have granted: "granted = within_budget lm (prune_state now s) est"
    using reserve_known(1) [OF known, of now est] r s by simp
  show "granted = fst (can_afford b now m est)"
    using reserve_known(2) [OF known, of now est] granted s by simp
  show "granted \<longleftrightarrow>
      of_int (amount (in_window MINUTE now (minute_tokens s)) + est) \<le> of_int (tpm lm) * THRESHOLD \<and>
      of_int (amount (in_window MINUTE now (minute_requests s)) + 1) \<le> of_int (rpm lm) * THRESHOLD \<and>
      of_int (amount (in_window DAY now (day_tokens s)) + est) \<le> of_int (tpd lm) * THRESHOLD \<and>
      of_int (amount (in_window DAY now (day_requests s)) + 1) \<le> of_int (rpd lm) * THRESHOLD"
    unfolding granted within_budget_def prune_state_totals tot
    by (simp add: window sorted not_less)
  show "now \<le> t \<Longrightarrow> in_window MINUTE t (minute_tokens (get_state b' m)) =
      in_window MINUTE t (minute_tokens s @ (if granted then [(now, est)] else []))"
    using r known granted s
    by (auto simp: reserve_def Let_def append_usage_def prune_state_logs in_window_dropWhile split: if_splits)
  show "m' \<noteq> m \<Longrightarrow> get_state b' m' = get_state b m'"
    using r known by (auto simp: reserve_def Let_def split: if_splits)
qed

text \<open>
  With deques in time order (no call was delayed between reading the clock and taking the
  lock) a reservation succeeds exactly when the entries of the last minute and of the last
  day leave room below the thresholds, and \<open>can_afford\<close> predicts its answer; a refused
  reservation leaves what every window holds now and later as it was, a granted one adds
  exactly its own entry, and no other model is affected.
\<close>

theorem reserve_exact:
  assumes "budget_ok b" and "map_of (tb_limits b) m = Some lm" and "s = get_state b m"
    and "sorted (map fst (minute_tokens s))" "sorted (map fst (minute_requests s))"
      "sorted (map fst (day_tokens s))" "sorted (map fst (day_requests s))"
    and "reserve b now m est = (granted, b')"
  shows "granted = fst (can_afford b now m est) \<and>
    (granted \<longleftrightarrow>
      of_int (amount (in_window MINUTE now (minute_tokens s)) + est) \<le> of_int (tpm lm) * THRESHOLD \<and>
      of_int (amount (in_window MINUTE now (minute_requests s)) + 1) \<le> of_int (rpm lm) * THRESHOLD \<and>
      of_int (amount (in_window DAY now (day_tokens s)) + est) \<le> of_int (tpd lm) * THRESHOLD \<and>
      of_int (amount (in_window DAY now (day_requests s)) + 1) \<le> of_int (rpd lm) * THRESHOLD) \<and>
    (\<forall>t. now \<le> t \<longrightarrow> in_window MINUTE t (minute_tokens (get_state b' m)) =
      in_window MINUTE t (minute_tokens s @ (if granted then [(now, est)] else []))) \<and>
    (\<forall>m'. m' \<noteq> m \<longrightarrow> get_state b' m' = get_state b m')"
  using reserve_parts [OF assms] by blast

lemma known0: "map_of (tb_limits (TokenBudget [])) ''openai/gpt-oss-120b'' =
    Some \<lparr>rpm = 30, tpm = 8000, rpd = 1000, tpd = 200000\<rparr>"
  by (simp add: TokenBudget_def DEFAULT_LIMITS_def)

theorem reserve_exact_witness:
  "\<exists>b'. reserve (TokenBudget []) 5 ''openai/gpt-oss-120b'' 6401 = (False, b') \<and>
     \<not> fst (can_afford (TokenBudget []) 5 ''openai/gpt-oss-120b'' 6401) \<and>
     get_state b' ''qwen/qwen3-32b'' = empty_state"
proof -
  obtain g b' where r: "reserve (TokenBudget []) 5 ''openai/gpt-oss-120b'' 6401 = (g, b')" by force
  have "g = fst (can_afford (TokenBudget []) 5 ''openai/gpt-oss-120b'' 6401)" "\<not> g"
    "get_state b' ''qwen/qwen3-32b'' = empty_state"
    using reserve_exact [OF budget_ok_init known0 refl _ _ _ _ r] by (auto simp: empty_state_def THRESHOLD_def)
  with r show ?thesis by auto
qed

text \<open>
  A released reservation does not simply cancel: between the expiry of the reservation
  and the expiry of its compensating entry the minute window counts minus the estimate, so
  that the budget then admits the released amount on top of the threshold.
\<close>

theorem release_leaves_negative_window:
  assumes known: "map_of (tb_limits b) m = Some lm" and fresh: "get_state b m = empty_state"
    and ok: "reserve b t0 m est = (True, b1)" and t: "t0 \<le> t1"
    and now: "t0 + of_int MINUTE < now" "now \<le> t1 + of_int MINUTE"
  shows "minute_tokens_total (prune_state now (get_state (release b1 t1 m est) m)) = - est \<and>
     minute_requests_total (prune_state now (get_state (release b1 t1 m est) m)) = - 1"
proof -
  have b1: "get_state b1 m = append_usage t0 est 1 (prune_state t0 empty_state)"
    using ok known fresh by (auto simp: reserve_def Let_def split: if_splits)
  have lims: "map_of (tb_limits b1) m = Some lm"
    using ok known by (auto simp: reserve_def Let_def split: if_splits)
  have "t0 < now - of_int MINUTE" "\<not> t1 < now - of_int MINUTE" using now by linarith+
  then show ?thesis
    using lims by (simp add: release_def b1 prune_state_totals append_usage_def prune_state_logs empty_state_def)
qed

theorem release_leaves_negative_window_witness:
  "\<exists>b1. reserve (TokenBudget []) 0 ''openai/gpt-oss-120b'' 6400 = (True, b1) \<and>
     minute_tokens_total (prune_state 61 (get_state (release b1 50 ''openai/gpt-oss-120b'' 6400) ''openai/gpt-oss-120b'')) = - 6400 \<and>
     fst (reserve (exec_ops (release b1 50 ''openai/gpt-oss-120b'' 6400) [(61, OpReserve ''openai/gpt-oss-120b'' 6400)])
        62 ''openai/gpt-oss-120b'' 6400)"
proof -
  let ?m = "''openai/gpt-oss-120b''"
  obtain g b1 where r: "reserve (TokenBudget []) 0 ?m 6400 = (g, b1)" by force
  have g: "g" using reserve_known(1) [OF known0, of 0 6400] r
    by (simp add: within_budget_def prune_state_def window_total_def empty_state_def THRESHOLD_def)
  have s1: "get_state b1 ?m = append_usage 0 6400 1 (prune_state 0 empty_state)"
    and l1: "map_of (tb_limits b1) ?m = Some \<lparr>rpm = 30, tpm = 8000, rpd = 1000, tpd = 200000\<rparr>"
    using r g known0 by (auto simp: reserve_def Let_def split: if_splits)
  have "fst (reserve (exec_ops (release b1 50 ?m 6400) [(61, OpReserve ?m 6400)]) 62 ?m 6400)"
    using s1 l1
    by (simp add: reserve_def release_def Let_def within_budget_def prune_state_def window_total_def
        append_usage_def empty_state_def THRESHOLD_def MINUTE_def DAY_def)
  moreover have "minute_tokens_total (prune_state 61 (get_state (release b1 50 ?m 6400) ?m)) = - 6400"
    using release_leaves_negative_window [OF known0 _ r [unfolded g [THEN eq_True [THEN iffD2]]], of 50 61]
    by (simp add: MINUTE_def)
  ultimately show ?thesis using r g by auto
qed

lemma mset_rotate: "mset (rotate n xs) = mset xs"
  by (metis append_take_drop_id mset_append rotate_drop_take union_commute)

lemma ordered_models_eq:
  "fst (ordered_models p) = rotate (pool_counter p) (pool_models p)"
  by (rule nth_equalityI) (auto simp: ordered_models_def Let_def nth_rotate mod_add_left_eq)

lemma ordered_models_iter:
  "pool_models (((snd \<circ> ordered_models) ^^ k) p) = pool_models p \<and>
   (pool_models p \<noteq> [] \<longrightarrow> pool_counter (((snd \<circ> ordered_models) ^^ k) p) = pool_counter p + k)"
  by (induction k) (auto simp: ordered_models_def Let_def)

text \<open>
  Round robin: the \<open>k\<close>-th call of \<open>ordered_models\<close> returns the pool's models rotated by
  the counter plus \<open>k\<close>, so every call offers every model exactly once, and among any
  consecutive calls as many as the pool has models every model comes first exactly once.
\<close>

theorem round_robin_is_fair:
  assumes "models \<noteq> []" and "pool_models p = models"
  shows "fst (ordered_models (((snd \<circ> ordered_models) ^^ k) p)) = rotate (pool_counter p + k) models \<and>
     mset (map (\<lambda>k. hd (fst (ordered_models (((snd \<circ> ordered_models) ^^ k) p)))) [0..<length models]) = mset models"
proof -
  have eq: "fst (ordered_models (((snd \<circ> ordered_models) ^^ k) p)) = rotate (pool_counter p + k) models" for k
    using ordered_models_iter [of k p] assms by (simp add: ordered_models_eq)
  have "map (\<lambda>k. hd (rotate (pool_counter p + k) models)) [0..<length models] = rotate (pool_counter p) models"
    using assms(1) by (intro nth_equalityI) (auto simp: hd_rotate_conv_nth nth_rotate)
  then show ?thesis unfolding eq by (simp add: mset_rotate)
qed

theorem round_robin_is_fair_witness:
  "fst (ordered_models (((snd \<circ> ordered_models) ^^ 4) (mk_pool ''tool:0'' [''a'', ''b'', ''c'']))) = [''b'', ''c'', ''a'']"
  using round_robin_is_fair [of "[''a'', ''b'', ''c'']" "mk_pool ''tool:0'' [''a'', ''b'', ''c'']" 4]
  by (simp add: mk_pool_def rotate_def numeral_eq_Suc)

lemma can_afford_other:
  "m' \<noteq> m \<Longrightarrow> fst (can_afford (snd (can_afford b now m est)) now' m' est) = fst (can_afford b now' m' est)"
  by (simp add: can_afford_def Let_def split: option.splits)

lemma try_candidates_first:
  assumes "distinct ms"
    and "\<forall>j < length ms. fst (can_afford b (clk (i + j)) (ms ! j) est) = aff j"
  shows "case fst (try_candidates b clk i est ms) of
      None \<Rightarrow> \<forall>j < length ms. \<not> aff j
    | Some m \<Rightarrow> \<exists>j < length ms. ms ! j = m \<and> aff j \<and> (\<forall>k < j. \<not> aff k)"
  using assms
proof (induction ms arbitrary: b i aff)
  case (Cons m ms)
  let ?b = "snd (can_afford b (clk i) m est)"
  have head: "fst (can_afford b (clk i) m est) = aff 0"
    using Cons.prems(2) [rule_format, of 0] by simp
  have tail: "\<forall>j < length ms. fst (can_afford ?b (clk (Suc i + j)) (ms ! j) est) = aff (Suc j)"
  proof (intro allI impI)
    fix j assume j: "j < length ms"
    then have "ms ! j \<noteq> m" using Cons.prems(1) by auto
    then show "fst (can_afford ?b (clk (Suc i + j)) (ms ! j) est) = aff (Suc j)"
      using Cons.prems(2) [rule_format, of "Suc j"] j by (simp add: can_afford_other)
  qed
  show ?case
  proof (cases "aff 0")
    case True
    then have "fst (try_candidates b clk i est (m # ms)) = Some m"
      using head by (cases "can_afford b (clk i) m est") simp
    then show ?thesis using True by auto
  next
    case False
    then have eq: "try_candidates b clk i est (m # ms) = try_candidates ?b clk (Suc i) est ms"
      using head by (cases "can_afford b (clk i) m est") simp
    show ?thesis
      unfolding eq using Cons.IH [OF _ tail] Cons.prems(1) False
      by (auto simp: less_Suc_eq_0_disj split: option.splits)
         (metis less_Suc_eq_0_disj nth_Cons_Suc)
  qed
qed simp

text \<open>
  \<open>best_available\<close> returns the first candidate, in the order preferred model then
  fallbacks, that the budget at hand can afford when it is asked, and \<open>None\<close> only if it can
  afford none of them.
\<close>

theorem best_available_is_first_affordable:
  assumes "cands = prefer # fallbacks" and "distinct cands"
  shows "case fst (best_available b clk est prefer (Some fallbacks)) of
      None \<Rightarrow> \<forall>j < length cands. \<not> fst (can_afford b (clk j) (cands ! j) est)
    | Some m \<Rightarrow> \<exists>j < length cands. cands ! j = m \<and> fst (can_afford b (clk j) m est) \<and>
        (\<forall>k < j. \<not> fst (can_afford b (clk k) (cands ! k) est))"
  using try_candidates_first [OF assms(2), of b clk 0 est "\<lambda>j. fst (can_afford b (clk j) (cands ! j) est)"] assms(1)
  by (auto simp: best_available_def split: option.splits)

theorem best_available_is_first_affordable_witness:
  "fst (best_available (TokenBudget []) (\<lambda>_. 1) 6000 ''qwen/qwen3-32b'' (Some [''openai/gpt-oss-120b''])) =
     Some ''openai/gpt-oss-120b''"
proof -
  have q: "map_of (tb_limits (TokenBudget [])) ''qwen/qwen3-32b'' =
      Some \<lparr>rpm = 60, tpm = 6000, rpd = 1000, tpd = 500000\<rparr>"
    by (simp add: TokenBudget_def DEFAULT_LIMITS_def)
  have no: "\<not> fst (can_afford (TokenBudget []) 1 ''qwen/qwen3-32b'' 6000)"
    and yes: "fst (can_afford (TokenBudget []) 1 ''openai/gpt-oss-120b'' 6000)"
    using reserve_known(2) [OF q, of 1 6000] reserve_known(2) [OF known0, of 1 6000]
    by (simp_all add: within_budget_def prune_state_def window_total_def empty_state_def THRESHOLD_def)
  show ?thesis
    using best_available_is_first_affordable [of "[''qwen/qwen3-32b'', ''openai/gpt-oss-120b'']" "''qwen/qwen3-32b''"
        "[''openai/gpt-oss-120b'']" "TokenBudget []" "\<lambda>_. 1" 6000] no yes
    by (auto simp: less_Suc_eq split: option.splits)
qed

end
