(* ===== verification/Cascade_Properties.thy ===== *)
theory Cascade_Properties
  imports Llm_Fallback Budget_Properties
begin

text \<open>
  Properties of the LLM cascade. The locale \<open>cascade_contract\<close> is a Hoare-style contract for
  attempts: what a skipped, an answered and a failed attempt may do to the state, closed
  under the composition the cascade uses. Its lemma carries a contract from the single model,
  the local model and Anthropic to \<open>invoke\<close>; it is interpreted for the budget balance and
  for the origin of the answer.
\<close>

section \<open>Contracts of attempts\<close>

fun holds ::
    "('s \<Rightarrow> 's \<Rightarrow> bool) \<Rightarrow> (message \<Rightarrow> 's \<Rightarrow> 's \<Rightarrow> bool) \<Rightarrow> (py_exn \<Rightarrow> 's \<Rightarrow> 's \<Rightarrow> bool) \<Rightarrow>
     's \<Rightarrow> attempt \<times> 's \<Rightarrow> bool" where
  "holds skip ans bad s (Skipped, s') = skip s s'"
| "holds skip ans bad s (Answered m, s') = ans m s s'"
| "holds skip ans bad s (Raised e, s') = bad e s s'"

locale cascade_contract =
  fixes E :: cascade_env and fb :: fallback_llm
    and skip :: "cascade_state \<Rightarrow> cascade_state \<Rightarrow> bool"
    and ans :: "message \<Rightarrow> cascade_state \<Rightarrow> cascade_state \<Rightarrow> bool"
    and bad :: "py_exn \<Rightarrow> cascade_state \<Rightarrow> cascade_state \<Rightarrow> bool"
  assumes skip_refl: "skip s s"
    and skip_trans: "skip s s' \<Longrightarrow> skip s' s'' \<Longrightarrow> skip s s''"
    and skip_ans: "skip s s' \<Longrightarrow> ans m s' s'' \<Longrightarrow> ans m s s''"
    and skip_bad: "skip s s' \<Longrightarrow> bad e s' s'' \<Longrightarrow> bad e s s''"
    and skip_pin: "skip s s' \<Longrightarrow> skip s (s'\<lparr>cs_pinned := p\<rparr>)"
    and ans_pin: "ans m s s' \<Longrightarrow> ans m s (s'\<lparr>cs_pinned := p\<rparr>)"
    and order: "skip s (snd (next_order pool s))"
    and model: "holds skip ans bad s (try_model E fb mdl bound c est msgs it tier s)"
    and ollama: "holds skip ans bad s (try_ollama E fb before c est tier s)"
    and anthropic: "holds skip ans bad s (call_anthropic E fb c tier s)"
begin

lemma holds_trans:
  assumes "skip s s'" "holds skip ans bad s' r"
  shows "holds skip ans bad s r"
proof -
  obtain a s2 where "r = (a, s2)" by force
  with assms show ?thesis by (cases a) (auto intro: skip_trans skip_ans skip_bad)
qed

lemma try_models_holds: "holds skip ans bad s (try_models E fb c est msgs it tier ms s)"
proof (induction ms arbitrary: s tier)
  case (Cons mb ms)
  obtain mdl bound where [simp]: "mb = (mdl, bound)" by force
  obtain a s' where t: "try_model E fb mdl bound c est msgs it tier s = (a, s')" by force
  with model [of s mdl bound c est msgs it tier] Cons.IH [of s' "Suc tier"] show ?case
    by (cases a) (auto intro: ans_pin holds_trans)
qed (simp add: skip_refl)

lemma try_pools_holds: "holds skip ans bad s (try_pools E fb c est msgs it tier pools s)"
proof (induction pools arbitrary: s tier)
  case (Cons pool pools)
  obtain ordered s1 where o: "next_order pool s = (ordered, s1)" by force
  then have s1: "skip s s1" using order [of s pool] by simp
  obtain a s2 where t: "try_models E fb c est msgs it tier (known_models fb ordered) s1 = (a, s2)" by force
  have h: "holds skip ans bad s (a, s2)"
    using holds_trans [OF s1] try_models_holds [of s1] t by metis
  show ?case
  proof (cases a)
    case Skipped
    then have "skip s s2" using h by simp
    then show ?thesis
      using holds_trans Cons.IH Skipped t o by (simp add: Let_def)
  qed (use h t o in \<open>auto simp: Let_def\<close>)
qed (simp add: skip_refl)

lemma try_pinned_holds: "holds skip ans bad s (try_pinned E fb c est msgs it tier s)"
proof (cases "cs_pinned s")
  case (Some m)
  show ?thesis
  proof (cases "model_lookup fb m")
    case None
    then show ?thesis using Some by (simp add: try_pinned_def skip_pin skip_refl)
  next
    case (Some bound)
    obtain a s' where "try_model E fb m bound c est msgs it tier s = (a, s')" by force
    with Some \<open>cs_pinned s = Some m\<close> model [of s m bound c est msgs it tier] show ?thesis
      by (cases a) (auto simp: try_pinned_def skip_pin)
  qed
qed (simp add: try_pinned_def skip_refl)

lemma first_of_holds:
  assumes "\<forall>step \<in> set steps. \<forall>s. holds skip ans bad s (step s)"
  shows "holds skip ans bad s (first_of steps s)"
  using assms
proof (induction steps arbitrary: s)
  case (Cons step steps)
  obtain a s' where "step s = (a, s')" by force
  moreover have "holds skip ans bad s (step s)" using Cons.prems by simp
  ultimately show ?case using Cons by (cases a) (auto intro: holds_trans)
qed (simp add: skip_refl)

lemma invoke_holds: "holds skip ans bad s (invoke E fb msgs it s)"
  unfolding invoke_def Let_def
  by (rule first_of_holds)
     (auto simp: cascade_steps_def ollama_steps Let_def skip_refl ollama anthropic try_pinned_holds try_pools_holds try_models_holds)

end

text \<open>A skip at the end is impossible: Anthropic answers, or something is raised.\<close>

lemma first_of_last:
  assumes "fst (first_of steps s) = Skipped" "steps \<noteq> []"
  shows "\<exists>s'. fst (last steps s') = Skipped"
  using assms
proof (induction steps arbitrary: s)
  case (Cons step steps)
  obtain a s' where a: "step s = (a, s')" by force
  with Cons.prems have "a = Skipped" by (cases a) auto
  with Cons a show ?case by (cases steps) (auto, metis fst_conv)
qed simp

lemma invoke_not_skipped: "fst (invoke E fb msgs it s) \<noteq> Skipped"
proof
  have last: "last (cascade_steps E fb c est msgs it) =
      call_anthropic E fb c (length (fb_groq_tiers fb) + (if fb_ollama fb \<noteq> None then 1 else 0))" for c est
    by (simp add: cascade_steps_def Let_def)
  have ne: "cascade_steps E fb c est msgs it \<noteq> []" for c est
    by (simp add: cascade_steps_def Let_def)
  assume "fst (invoke E fb msgs it s) = Skipped"
  then obtain c tier s' where "fst (call_anthropic E fb c tier s') = Skipped"
    unfolding invoke_def Let_def using first_of_last [OF _ ne] last by metis
  then show False
    by (auto simp: call_anthropic_def Let_def split: option.splits prod.splits llm_reply.splits)
qed

section \<open>The budget balance\<close>

text \<open>The four totals the budget would report for a model at time \<open>t\<close>, and a charge on them.\<close>

definition usage_at :: "time \<Rightarrow> token_budget \<Rightarrow> string \<Rightarrow> int list" where
  "usage_at t b m = map (fst \<circ> snd) (windows (prune_state t (get_state b m)))"

definition charge :: "int \<Rightarrow> int list \<Rightarrow> int list" where
  "charge est us = map2 (+) us [est, 1, est, 1]"

lemma dropWhile_now: "takeWhile (\<lambda>x. fst x < t - of_int w) (l @ [(t, n)]) = takeWhile (\<lambda>x. fst x < t - of_int w) l"
  if "0 \<le> w" for l :: usage_log
  using that by (induction l) auto

lemma window_lengths: "0 \<le> MINUTE" "0 \<le> DAY"
  by (simp_all add: MINUTE_def DAY_def)

lemma usage_append:
  "map (fst \<circ> snd) (windows (prune_state t (append_usage t n k s))) =
     map2 (+) (map (fst \<circ> snd) (windows (prune_state t s))) [n, k, n, k]"
  by (simp add: windows_def prune_state_totals append_usage_def dropWhile_now [OF window_lengths(1)]
      dropWhile_now [OF window_lengths(2)])

lemma usage_prune: "map (fst \<circ> snd) (windows (prune_state t (prune_state t s))) = map (fst \<circ> snd) (windows (prune_state t s))"
proof -
  have "takeWhile P (dropWhile P l) = []" for P and l :: usage_log by (induction l) auto
  then show ?thesis by (simp add: windows_def prune_state_totals prune_state_logs)
qed

lemma usage_reserve:
  "usage_at t (snd (reserve b t m est)) m' =
     (if m' = m \<and> fst (reserve b t m est) \<and> map_of (tb_limits b) m \<noteq> None then charge est (usage_at t b m')
      else usage_at t b m')"
  by (auto simp: usage_at_def reserve_def Let_def usage_append usage_prune charge_def split: option.splits)

lemma usage_release:
  "usage_at t (release b t m est) m' =
     (if m' = m \<and> map_of (tb_limits b) m \<noteq> None then map2 (+) (usage_at t b m') [- est, - 1, - est, - 1]
      else usage_at t b m')"
  by (auto simp: usage_at_def release_def usage_append split: option.splits)

lemma length_usage [simp]: "length (usage_at t b m) = 4"
  by (simp add: usage_at_def windows_def)

lemma charge_cancel:
  assumes "length us = 4"
  shows "map2 (+) (charge est us) [- est, - 1, - est, - 1] = us"
proof -
  from assms obtain a b c d where "us = [a, b, c, d]" by (auto simp: numeral_eq_Suc length_Suc_conv)
  then show ?thesis by (simp add: charge_def)
qed

text \<open>
  Nothing outstanding; and, after an answer, exactly the reservation of the Groq model that
  gave it (the one the collector recorded last), if its limits are known.
\<close>

definition balanced :: "time \<Rightarrow> cascade_state \<Rightarrow> cascade_state \<Rightarrow> bool" where
  "balanced t s s' \<longleftrightarrow> tb_limits (cs_budget s') = tb_limits (cs_budget s) \<and>
     (\<forall>m. usage_at t (cs_budget s') m = usage_at t (cs_budget s) m)"

definition answer_charged :: "time \<Rightarrow> cascade_state \<Rightarrow> cascade_state \<Rightarrow> bool" where
  "answer_charged t s s' \<longleftrightarrow> tb_limits (cs_budget s') = tb_limits (cs_budget s) \<and>
     (\<exists>prov model tier src est. cs_obs s' \<noteq> [] \<and> last (cs_obs s') = RecordRequest prov model tier src \<and>
        (\<forall>m. usage_at t (cs_budget s') m =
           (if prov = ''groq'' \<and> m = model \<and> map_of (tb_limits (cs_budget s)) m \<noteq> None
            then charge est (usage_at t (cs_budget s) m) else usage_at t (cs_budget s) m)))"

text \<open>The call takes no time: every clock reading is \<open>t\<close>.\<close>

definition frozen :: "time \<Rightarrow> cascade_env \<Rightarrow> cascade_env" where
  "frozen t E = E\<lparr>ce_clk := \<lambda>_. t\<rparr>"

lemma frozen_sel [simp]: "ce_clk (frozen t E) = (\<lambda>_. t)"
  by (simp add: frozen_def)

lemma limits_kept [simp]:
  "tb_limits (snd (reserve b t m est)) = tb_limits b" "tb_limits (release b t m est) = tb_limits b"
  by (simp_all add: reserve_def release_def Let_def split: option.splits)

lemma do_reserve_usage:
  assumes "do_reserve (frozen t E) m est s = (ok, s')"
  shows "tb_limits (cs_budget s') = tb_limits (cs_budget s)" "cs_obs s' = cs_obs s"
    "usage_at t (cs_budget s') m' = (if m' = m \<and> ok \<and> map_of (tb_limits (cs_budget s)) m \<noteq> None
       then charge est (usage_at t (cs_budget s) m') else usage_at t (cs_budget s) m')"
proof -
  obtain b where r: "reserve (cs_budget s) t m est = (ok, b)" "s' = s\<lparr>cs_budget := b, cs_ticks := Suc (cs_ticks s)\<rparr>"
    using assms by (auto simp: do_reserve_def split: prod.splits)
  show "tb_limits (cs_budget s') = tb_limits (cs_budget s)" "cs_obs s' = cs_obs s"
    using r limits_kept(1) [of "cs_budget s" t m est] by simp_all
  show "usage_at t (cs_budget s') m' = (if m' = m \<and> ok \<and> map_of (tb_limits (cs_budget s)) m \<noteq> None
       then charge est (usage_at t (cs_budget s) m') else usage_at t (cs_budget s) m')"
    using r usage_reserve [of t "cs_budget s" m est m'] by simp
qed

lemma client_budget:
  "groq_client E fb m bound s = (hs, s') \<Longrightarrow> cs_budget s' = cs_budget s \<and> cs_obs s' = cs_obs s"
  "anthropic_client E fb m bound s = (hs, s') \<Longrightarrow> cs_budget s' = cs_budget s \<and> cs_obs s' = cs_obs s"
  by (auto simp: groq_client_def anthropic_client_def Let_def split: option.splits if_splits prod.splits)

text \<open>The state after a successful reservation at \<open>s\<close>: a call answers or gives it back.\<close>

lemma call_reserved_balance:
  assumes "tb_limits (cs_budget s1) = tb_limits (cs_budget s)"
    and "\<And>m'. usage_at t (cs_budget s1) m' = (if m' = m \<and> map_of (tb_limits (cs_budget s)) m \<noteq> None
       then charge est (usage_at t (cs_budget s) m') else usage_at t (cs_budget s) m')"
  shows "holds (balanced t) (\<lambda>_. answer_charged t) (\<lambda>_. balanced t) s
     (call_reserved (frozen t E) fb m bound c est tier s1)"
proof -
  obtain h src s2 where cl: "groq_client (frozen t E) fb m bound s1 = ((h, src), s2)"
    by (metis surj_pair)
  note same = client_budget(1) [OF cl]
  have undo: "usage_at t (release (cs_budget s1) t m est) m' = usage_at t (cs_budget s) m'" for m'
    using assms by (auto simp: usage_release charge_cancel)
  show ?thesis
    using assms same undo
    by (cases "ce_llm (frozen t E) (cs_calls s2) h c")
       (auto simp: call_reserved_def cl do_call_def do_release_def observe_def Let_def balanced_def answer_charged_def)
qed

lemma try_model_balance:
  "holds (balanced t) (\<lambda>_. answer_charged t) (\<lambda>_. balanced t) s
     (try_model (frozen t E) fb m bound c est msgs it tier s)"
proof -
  obtain ok s1 where r1: "do_reserve (frozen t E) m est s = (ok, s1)" by force
  note u1 = do_reserve_usage [OF r1]
  show ?thesis
  proof (cases ok)
    case True
    then show ?thesis using r1 u1 by (simp add: try_model_def call_reserved_balance)
  next
    case False
    define cur where "cur = (case get_tpm (cs_budget s1) m of
                    None \<Rightarrow> (c, est, s1)
                  | Some tpm_limit \<Rightarrow>
                      (let target = \<lfloor>of_int tpm_limit * (7 / 10 :: rat)\<rfloor>;
                           c = compress (ce_compressor (frozen t E)) msgs it (Some target)
                       in (c, estimate_tokens c, observe RecordCompression s1)))"
    obtain c2 e2 s2 where cur2: "cur = (c2, e2, s2)" by (metis surj_pair)
    have b2: "cs_budget s2 = cs_budget s1"
      using cur2 by (auto simp: cur_def observe_def Let_def split: option.splits)
    obtain ok2 s3 where r2: "do_reserve (frozen t E) m e2 s2 = (ok2, s3)" by force
    note u2 = do_reserve_usage [OF r2]
    have lims: "tb_limits (cs_budget s3) = tb_limits (cs_budget s)" using u1(1) u2(1) b2 by simp
    have u3: "usage_at t (cs_budget s3) m' = (if m' = m \<and> map_of (tb_limits (cs_budget s)) m \<noteq> None
       then charge e2 (usage_at t (cs_budget s) m') else usage_at t (cs_budget s) m')" if ok2 for m'
      using u1 u2(3) [of m'] b2 that False by auto
    have "try_model (frozen t E) fb m bound c est msgs it tier s =
        (if ok2 then call_reserved (frozen t E) fb m bound c2 e2 tier s3
         else (Skipped, observe (RecordCascade ''groq'' m ''budget_exhausted'' tier) s3))"
      using False r1 r2 cur2 unfolding try_model_def cur_def by (simp split: bool.splits)
    then show ?thesis
      using u1 b2 False call_reserved_balance [OF lims u3]
      by (cases ok2) (simp_all add: u2 balanced_def observe_def)
  qed
qed

interpretation balance: cascade_contract "frozen t E" fb "balanced t" "\<lambda>_. answer_charged t" "\<lambda>_. balanced t"
  for t E fb
proof (unfold_locales, goal_cases)
  case (3 s s' m s'')
  then have eq: "usage_at t (cs_budget s') = usage_at t (cs_budget s)"
    and lims: "tb_limits (cs_budget s') = tb_limits (cs_budget s)" by (auto simp: balanced_def)
  from 3(2) show ?case unfolding answer_charged_def eq lims .
next
  case (7 s pool)
  then show ?case
    by (auto simp: next_order_def balanced_def usage_at_def get_state_def split: option.splits prod.splits)
next
  case (8 s mdl bound c est msgs it tier)
  then show ?case by (rule try_model_balance)
next
  case (9 s before c est tier)
  then show ?case
    by (cases "fb_ollama fb")
       (auto simp: try_ollama_def Let_def do_call_def observe_def balanced_def answer_charged_def split: llm_reply.splits)
next
  case (10 s c tier)
  show ?case
  proof (cases "fb_anthropic fb")
    case (Some ma)
    obtain model a where ma: "ma = (model, a)" by force
    obtain h src s1 where cl: "anthropic_client (frozen t E) fb model a s = ((h, src), s1)" by (metis surj_pair)
    show ?thesis
      using client_budget(2) [OF cl] Some ma
      by (cases "ce_llm (frozen t E) (cs_calls s1) h (sanitize_tool_ids c)")
         (auto simp: call_anthropic_def cl do_call_def observe_def Let_def balanced_def answer_charged_def)
  qed (simp add: call_anthropic_def balanced_def)
qed (auto simp: balanced_def answer_charged_def)

section \<open>The origin of answers and failures\<close>

definition answer_from :: "cascade_env \<Rightarrow> message \<Rightarrow> cascade_state \<Rightarrow> cascade_state \<Rightarrow> bool" where
  "answer_from E msg s s' \<longleftrightarrow> cs_calls s < cs_calls s' \<and>
     (\<exists>h ms. ce_llm E (cs_calls s' - 1) h ms = Reply msg)"

definition failure_from :: "cascade_env \<Rightarrow> fallback_llm \<Rightarrow> py_exn \<Rightarrow> cascade_state \<Rightarrow> cascade_state \<Rightarrow> bool" where
  "failure_from E fb e s s' \<longleftrightarrow>
     (e = RuntimeError (exhausted_detail fb) \<and> fb_anthropic fb = None) \<or>
     (cs_calls s < cs_calls s' \<and> (\<exists>h ms x. e = OtherError x \<and>
        (ce_llm E (cs_calls s' - 1) h ms = OtherFailure x \<or>
         ce_llm E (cs_calls s' - 1) h ms = RetriableError x \<and>
           (\<exists>model bound. fb_anthropic fb = Some (model, bound) \<and> (ce_byo E = None \<longrightarrow> h = bound)))))"

definition calls_grow :: "cascade_state \<Rightarrow> cascade_state \<Rightarrow> bool" where
  "calls_grow s s' \<longleftrightarrow> cs_calls s \<le> cs_calls s'"

lemma client_calls:
  "groq_client E fb m bound s = (hs, s') \<Longrightarrow> cs_calls s' = cs_calls s"
  "anthropic_client E fb m bound s = ((h, src), s') \<Longrightarrow> cs_calls s' = cs_calls s \<and> (ce_byo E = None \<longrightarrow> h = bound)"
  by (auto simp: groq_client_def anthropic_client_def Let_def split: option.splits if_splits prod.splits)

lemma do_reserve_calls: "do_reserve E m est s = (ok, s') \<Longrightarrow> cs_calls s' = cs_calls s"
  by (auto simp: do_reserve_def split: prod.splits)

lemmas origin_defs = answer_from_def failure_from_def calls_grow_def

lemma call_reserved_origin:
  assumes "cs_calls s1 = cs_calls s"
  shows "holds calls_grow (answer_from E) (failure_from E fb) s (call_reserved E fb m bound c est tier s1)"
proof -
  obtain h src s2 where cl: "groq_client E fb m bound s1 = ((h, src), s2)" by (metis surj_pair)
  show ?thesis
    using client_calls(1) [OF cl] assms
    by (cases "ce_llm E (cs_calls s2) h c")
       (auto simp: call_reserved_def cl do_call_def do_release_def observe_def Let_def origin_defs)
qed

lemma try_model_origin:
  "holds calls_grow (answer_from E) (failure_from E fb) s (try_model E fb m bound c est msgs it tier s)"
proof -
  have obs: "cs_calls (observe e s') = cs_calls s'" for e s' by (simp add: observe_def)
  show ?thesis
    unfolding try_model_def
    by (auto simp: obs calls_grow_def Let_def dest!: do_reserve_calls intro!: call_reserved_origin
        split: prod.splits bool.splits option.splits)
qed

interpretation origin: cascade_contract E fb calls_grow "answer_from E" "failure_from E fb" for E fb
proof (unfold_locales, goal_cases)
  case (4 s s' e s'')
  then have "cs_calls s' < cs_calls s'' \<Longrightarrow> cs_calls s < cs_calls s''" by (simp add: calls_grow_def)
  with 4(2) show ?case unfolding failure_from_def by blast
next
  case (7 s pool)
  then show ?case by (auto simp: next_order_def calls_grow_def split: option.splits prod.splits)
next
  case (8 s mdl bound c est msgs it tier)
  then show ?case by (rule try_model_origin)
next
  case (9 s before c est tier)
  then show ?case
    by (cases "fb_ollama fb")
       (auto simp: try_ollama_def Let_def do_call_def observe_def origin_defs split: llm_reply.splits, blast)
next
  case (10 s c tier)
  show ?case
  proof (cases "fb_anthropic fb")
    case (Some ma)
    obtain model a where ma: "ma = (model, a)" by force
    obtain h src s1 where cl: "anthropic_client E fb model a s = ((h, src), s1)" by (metis surj_pair)
    show ?thesis
      using client_calls(2) [OF cl] Some ma
      by (cases "ce_llm E (cs_calls s1) h (sanitize_tool_ids c)")
         (auto simp: call_anthropic_def cl do_call_def observe_def Let_def origin_defs, blast)
  qed (simp add: call_anthropic_def failure_from_def)
qed (auto simp: origin_defs)

section \<open>Properties\<close>

text \<open>
  C13: The cascade settles its reservations: for a call that takes less time than any window
  moves, an exception and an answer from the local model or Anthropic leave every model's
  four budget totals as they were, and an answer from a Groq model leaves exactly one request
  and its estimate charged to that model and nothing to any other, however many models were
  tried and failed before.
\<close>

theorem invoke_settles_budget:
  "case invoke (frozen t E) fb msgs it s of
     (Answered msg, s') \<Rightarrow> answer_charged t s s'
   | (Raised e, s') \<Rightarrow> balanced t s s'
   | (Skipped, s') \<Rightarrow> False"
  using balance.invoke_holds [where t = t and E = E and fb = fb and s = s and msgs = msgs and it = it] invoke_not_skipped [of "frozen t E" fb msgs it s]
  by (auto split: prod.splits attempt.splits)

text \<open>
  Nothing is made up and nothing is swallowed: what the cascade returns is the reply of
  the last call it made to a provider; it raises the exhaustion error only when Anthropic is
  not configured, and any other exception is one a provider raised in the last call.
\<close>

theorem invoke_origin:
  "case invoke E fb msgs it s of
     (Answered msg, s') \<Rightarrow> answer_from E msg s s'
   | (Raised e, s') \<Rightarrow> failure_from E fb e s s'
   | (Skipped, s') \<Rightarrow> False"
  using origin.invoke_holds [where E = E and fb = fb and s = s and msgs = msgs and it = it] invoke_not_skipped [of E fb msgs it s]
  by (auto split: prod.splits attempt.splits)

text \<open>
  With Anthropic configured (and platform keys) every request is answered, whatever the
  budgets, pools and pins are: if providers fail only with retriable API errors and the
  Anthropic client replies, \<open>invoke\<close> returns a message.
\<close>

theorem invoke_always_answers:
  assumes "fb_anthropic fb = Some (model, bound)" and "ce_byo E = None"
    and "\<forall>n h ms x. ce_llm E n h ms \<noteq> OtherFailure x"
    and "\<forall>n ms. \<exists>msg. ce_llm E n bound ms = Reply msg"
  shows "\<exists>msg s'. invoke E fb msgs it s = (Answered msg, s')"
proof -
  obtain a s' where inv: "invoke E fb msgs it s = (a, s')" by force
  have "\<not> failure_from E fb e s s'" for e
    using assms unfolding failure_from_def by (metis llm_reply.distinct(1) old.prod.inject option.distinct(1) option.inject)
  with origin.invoke_holds [where E = E and fb = fb and s = s and msgs = msgs and it = it] invoke_not_skipped [of E fb msgs it s] inv show ?thesis
    by (cases a) auto
qed

definition env_up :: cascade_env where
  "env_up = \<lparr>ce_clk = \<lambda>_. 0,
     ce_llm = (\<lambda>n h ms. case h_llm h of
        PlatformGroq m \<Rightarrow> RetriableError ''429'' | _ \<Rightarrow> Reply (AIMessage (Text ''ok'') [])),
     ce_byo = None, ce_build_ok = \<lambda>_ _. True, ce_sha12 = take 12, ce_ollama_up = False,
     ce_ollama_loaded = \<lambda>_. False, ce_compressor = MessageCompressor\<rparr>"

definition fb0 :: fallback_llm where
  "fb0 = fst (FallbackLLM True [''qwen/qwen3-32b''] (Some ''claude'') 0 ''tool'' None False [] (TokenBudget []))"

definition cs0 :: cascade_state where
  "cs0 = \<lparr>cs_budget = TokenBudget [], cs_pinned = None, cs_clients = [], cs_ticks = 0, cs_calls = 0, cs_obs = []\<rparr>"

theorem invoke_always_answers_witness:
  "\<exists>msg s'. invoke env_up fb0 [HumanMessage (Text ''hi'')] 1 cs0 = (Answered msg, s')"
  by (rule invoke_always_answers [where model = "''claude''" and bound = "plain_handle (PlatformAnthropic ''claude'')"])
     (auto simp: env_up_def fb0_def FallbackLLM_def plain_handle_def split: llm.splits)

text \<open>The pools only move when \<open>next_order\<close> asks them.\<close>

lemma pools_kept:
  "tb_pools (snd (reserve b t m est)) = tb_pools b" "tb_pools (release b t m est) = tb_pools b"
  by (simp_all add: reserve_def release_def Let_def split: option.splits)

lemma do_reserve_pools:
  "do_reserve E m est s = (ok, s') \<Longrightarrow> tb_pools (cs_budget s') = tb_pools (cs_budget s) \<and> cs_pinned s' = cs_pinned s"
  using pools_kept(1) [of "cs_budget s" "ce_clk E (cs_ticks s)" m est]
  by (auto simp: do_reserve_def split: prod.splits)

lemma client_pinned: "groq_client E fb m bound s = (hs, s') \<Longrightarrow> cs_pinned s' = cs_pinned s"
  by (auto simp: groq_client_def Let_def split: option.splits if_splits prod.splits)

lemma call_reserved_pools:
  assumes "call_reserved E fb m bound c est tier s = (a, s')"
  shows "tb_pools (cs_budget s') = tb_pools (cs_budget s) \<and> cs_pinned s' = cs_pinned s"
proof -
  obtain h src s2 where cl: "groq_client E fb m bound s = ((h, src), s2)" by (metis surj_pair)
  show ?thesis
    using assms client_budget(1) [OF cl] client_pinned [OF cl]
    by (cases "ce_llm E (cs_calls s2) h c")
       (auto simp: call_reserved_def cl do_call_def do_release_def observe_def Let_def pools_kept)
qed

lemma try_model_pools:
  assumes "try_model E fb m bound c est msgs it tier s = (a, s')"
  shows "tb_pools (cs_budget s') = tb_pools (cs_budget s) \<and> cs_pinned s' = cs_pinned s"
proof -
  have obs: "cs_budget (observe e s') = cs_budget s' \<and> cs_pinned (observe e s') = cs_pinned s'" for e s'
    by (simp add: observe_def)
  show ?thesis
    using assms unfolding try_model_def
    by (auto simp: obs Let_def dest!: do_reserve_pools call_reserved_pools
        split: prod.splits bool.splits option.splits)
qed

text \<open>
  The pin gives a request affinity to one model: while a model is pinned and still
  answers, every further call goes to it, the round-robin pools do not advance and the pin
  stays; if it cannot answer, the pin is dropped before the rest of the cascade runs.
\<close>

theorem pinned_model_is_reused:
  assumes pin: "cs_pinned s = Some m" and known: "model_lookup fb m = Some bound" and noollama: "fb_ollama fb = None"
    and c: "c = compress (ce_compressor E) msgs it None"
    and t: "try_model E fb m bound c (estimate_tokens c) msgs it 0 s = (a, s')"
  shows "case a of
      Answered r \<Rightarrow> invoke E fb msgs it s = (Answered r, s') \<and> cs_pinned s' = Some m \<and>
        tb_pools (cs_budget s') = tb_pools (cs_budget s)
    | Skipped \<Rightarrow> cs_pinned (snd (try_pinned E fb c (estimate_tokens c) msgs it 0 s)) = None
    | Raised e \<Rightarrow> invoke E fb msgs it s = (Raised e, s')"
proof -
  let ?steps = "cascade_steps E fb c (estimate_tokens c) msgs it"
  have steps: "?steps = hd ?steps # try_pinned E fb c (estimate_tokens c) msgs it 0 # tl (tl ?steps)"
    using noollama by (simp add: cascade_steps_def Let_def)
  have "hd ?steps s = (Skipped, s)"
    using noollama by (simp add: cascade_steps_def ollama_steps Let_def try_ollama_def)
  then have "invoke E fb msgs it s = first_of (try_pinned E fb c (estimate_tokens c) msgs it 0 # tl (tl ?steps)) s"
    unfolding invoke_def Let_def c [symmetric] by (subst steps) simp
  moreover have "try_pinned E fb c (estimate_tokens c) msgs it 0 s =
      (case a of Skipped \<Rightarrow> (Skipped, s'\<lparr>cs_pinned := None\<rparr>) | _ \<Rightarrow> (a, s'))"
    using pin known t by (simp add: try_pinned_def split: attempt.splits)
  ultimately show ?thesis
    using try_model_pools [OF t] pin by (cases a) simp_all
qed

definition env_groq :: cascade_env where
  "env_groq = env_up\<lparr>ce_llm := \<lambda>n h ms. Reply (AIMessage (Text ''ok'') [])\<rparr>"

theorem pinned_model_is_reused_witness:
  "\<exists>a s'. try_model env_groq fb0 ''qwen/qwen3-32b'' (plain_handle (PlatformGroq ''qwen/qwen3-32b''))
       [HumanMessage (Text ''hi'')] (estimate_tokens [HumanMessage (Text ''hi'')]) [HumanMessage (Text ''hi'')] 1 0
       (cs0\<lparr>cs_pinned := Some ''qwen/qwen3-32b''\<rparr>) = (a, s') \<and>
     (\<forall>r. a = Answered r \<longrightarrow>
        invoke env_groq fb0 [HumanMessage (Text ''hi'')] 1 (cs0\<lparr>cs_pinned := Some ''qwen/qwen3-32b''\<rparr>) = (Answered r, s'))"
proof -
  let ?ms = "[HumanMessage (Text ''hi'')]" and ?s = "cs0\<lparr>cs_pinned := Some ''qwen/qwen3-32b''\<rparr>"
  have c: "?ms = compress (ce_compressor env_groq) ?ms 1 None"
    by (simp add: env_groq_def env_up_def compress_def truncate_history_def find_loop_boundary_def idxs_where_def
        truncate_tool_results_def Let_def)
  have l: "model_lookup fb0 ''qwen/qwen3-32b'' = Some (plain_handle (PlatformGroq ''qwen/qwen3-32b''))"
    "fb_ollama fb0 = None"
    by (simp_all add: model_lookup_def fb0_def FallbackLLM_def)
  obtain a s' where t: "try_model env_groq fb0 ''qwen/qwen3-32b'' (plain_handle (PlatformGroq ''qwen/qwen3-32b''))
       ?ms (estimate_tokens ?ms) ?ms 1 0 ?s = (a, s')" by force
  show ?thesis
    using pinned_model_is_reused [OF _ l c t] t by (auto split: attempt.splits)
qed

text \<open>
  What Anthropic receives has tool-call identifiers it accepts: after sanitising, every
  non-empty identifier that does not end in a newline consists of letters, digits,
  underscores and hyphens, sanitising again changes nothing, and equal identifiers stay
  equal, so every tool result still answers the call it answered.
\<close>

theorem sanitized_ids_are_valid:
  assumes "tid \<noteq> []" and "last tid \<noteq> CHR 0x0A"
  shows "list_all id_char (sanitize_id tid) \<and> sanitize_id (sanitize_id tid) = sanitize_id tid \<and>
     length (sanitize_id tid) = length tid \<and>
     sanitize_tool_ids [AIMessage c [\<lparr>tc_id = Some tid, tc_name = nm, tc_args = args\<rparr>], ToolMessage d tid n] =
       [AIMessage c [\<lparr>tc_id = Some (sanitize_id tid), tc_name = nm, tc_args = args\<rparr>], ToolMessage d (sanitize_id tid) n]"
proof -
  have under: "id_char CHR ''_''" by (simp add: id_char_def)
  have ok: "list_all id_char (sanitize_id tid)"
    using assms under by (auto simp: sanitize_id_def valid_id_def list_all_iff)
  have len: "length (sanitize_id tid) = length tid" by (simp add: sanitize_id_def)
  then have "sanitize_id tid \<noteq> []" using assms(1) by (metis length_0_conv)
  then have "valid_id (sanitize_id tid)" using ok by (simp add: valid_id_def)
  then have "sanitize_id (sanitize_id tid) = sanitize_id tid" by (simp add: sanitize_id_def [of "sanitize_id tid"])
  then show ?thesis using ok len by (simp add: sanitize_tool_ids_def)
qed

theorem sanitized_ids_are_valid_witness:
  "list_all id_char (sanitize_id ''call.1'') \<and> sanitize_id (sanitize_id ''call.1'') = sanitize_id ''call.1''"
  using sanitized_ids_are_valid [of "''call.1''"] by simp

text \<open>
  The newline slips through: an identifier of valid characters followed by a newline is
  taken for valid (\<open>$\<close> matches before it) and passed on unchanged.
\<close>

theorem newline_id_not_sanitized:
  assumes "tid \<noteq> []" and "list_all id_char tid"
  shows "sanitize_id (tid @ [CHR 0x0A]) = tid @ [CHR 0x0A] \<and> \<not> list_all id_char (sanitize_id (tid @ [CHR 0x0A]))"
proof -
  have "\<not> id_char CHR 0x0A"
    by (simp add: id_char_def is_alnum_def is_alpha_def is_upper_def is_lower_def is_digit_def ord_def)
  moreover have "valid_id (tid @ [CHR 0x0A])"
    using assms by (cases tid) (auto simp: valid_id_def butlast_append)
  ultimately show ?thesis by (simp add: sanitize_id_def)
qed

theorem newline_id_not_sanitized_witness:
  "sanitize_id (''abc'' @ [CHR 0x0A]) = ''abc'' @ [CHR 0x0A]"
  using newline_id_not_sanitized [of "''abc''"]
  by (simp add: id_char_def is_alnum_def is_alpha_def is_upper_def is_lower_def is_digit_def ord_def)

end
