(* ===== verification/Screen_Catalog.thy ===== *)
theory Screen_Catalog
  imports Prelude
begin

text \<open>
  The data of \<open>backend/insights/screen_parser.py\<close>: the field catalogue of ScreenQL, the
  operators each field type admits, the common table expressions of the generated SQL and
  the columns every result has.
\<close>

datatype field_type = NUMBER | TEXT | ARRAY

record field_def =
  fd_table :: string
  fd_column :: string
  fd_type :: field_type
  fd_label :: string
  fd_category :: string

definition MAX_CONDITIONS :: nat where "MAX_CONDITIONS = 20"

definition FIELD_CATALOG :: "(string \<times> field_def) list" where
  "FIELD_CATALOG =
     [(''ticker'', \<lparr>fd_table = ''ci'', fd_column = ''ticker'', fd_type = TEXT,
        fd_label = ''Ticker'', fd_category = ''Identity''\<rparr>),
      (''company_name'', \<lparr>fd_table = ''ci'', fd_column = ''company_name'', fd_type = TEXT,
        fd_label = ''Company Name'', fd_category = ''Identity''\<rparr>),
      (''sector'', \<lparr>fd_table = ''ci'', fd_column = ''sector'', fd_type = TEXT,
        fd_label = ''Sector'', fd_category = ''Identity''\<rparr>),
      (''industry'', \<lparr>fd_table = ''ci'', fd_column = ''industry'', fd_type = TEXT,
        fd_label = ''Industry'', fd_category = ''Identity''\<rparr>),
      (''market'', \<lparr>fd_table = ''ci'', fd_column = ''market'', fd_type = TEXT,
        fd_label = ''Market'', fd_category = ''Identity''\<rparr>),
      (''currency'', \<lparr>fd_table = ''ci'', fd_column = ''currency'', fd_type = TEXT,
        fd_label = ''Currency'', fd_category = ''Identity''\<rparr>),
      (''market_cap'', \<lparr>fd_table = ''ci'', fd_column = ''market_cap'', fd_type = NUMBER,
        fd_label = ''Market Cap'', fd_category = ''Valuation''\<rparr>),
      (''pe_ratio'', \<lparr>fd_table = ''ci'', fd_column = ''pe_ratio'', fd_type = NUMBER,
        fd_label = ''P/E Ratio'', fd_category = ''Valuation''\<rparr>),
      (''peg_ratio'', \<lparr>fd_table = ''ci'', fd_column = ''peg_ratio'', fd_type = NUMBER,
        fd_label = ''PEG (trailing)'', fd_category = ''Valuation''\<rparr>),
      (''peg_ratio_yf'', \<lparr>fd_table = ''ci'', fd_column = ''peg_ratio_yf'', fd_type = NUMBER,
        fd_label = ''PEG (yfinance)'', fd_category = ''Valuation''\<rparr>),
      (''price_to_book'', \<lparr>fd_table = ''ci'', fd_column = ''price_to_book'', fd_type = NUMBER,
        fd_label = ''Price/Book'', fd_category = ''Valuation''\<rparr>),
      (''dividend_yield'', \<lparr>fd_table = ''ci'', fd_column = ''dividend_yield'', fd_type = NUMBER,
        fd_label = ''Dividend Yield'', fd_category = ''Valuation''\<rparr>),
      (''current_price'', \<lparr>fd_table = ''ci'', fd_column = ''current_price'', fd_type = NUMBER,
        fd_label = ''Current Price'', fd_category = ''Valuation''\<rparr>),
      (''week_52_high'', \<lparr>fd_table = ''ci'', fd_column = ''week_52_high'', fd_type = NUMBER,
        fd_label = ''52W High'', fd_category = ''Valuation''\<rparr>),
      (''week_52_low'', \<lparr>fd_table = ''ci'', fd_column = ''week_52_low'', fd_type = NUMBER,
        fd_label = ''52W Low'', fd_category = ''Valuation''\<rparr>),
      (''profit_margins'', \<lparr>fd_table = ''ci'', fd_column = ''profit_margins'', fd_type = NUMBER,
        fd_label = ''Profit Margins'', fd_category = ''Profitability''\<rparr>),
      (''earnings_growth'', \<lparr>fd_table = ''ci'', fd_column = ''earnings_growth'', fd_type = NUMBER,
        fd_label = ''Earnings Growth'', fd_category = ''Profitability''\<rparr>),
      (''revenue_growth'', \<lparr>fd_table = ''ci'', fd_column = ''revenue_growth'', fd_type = NUMBER,
        fd_label = ''Revenue Growth'', fd_category = ''Profitability''\<rparr>),
      (''revenue'', \<lparr>fd_table = ''qr'', fd_column = ''revenue'', fd_type = NUMBER,
        fd_label = ''Revenue'', fd_category = ''Profitability''\<rparr>),
      (''net_income'', \<lparr>fd_table = ''qr'', fd_column = ''net_income'', fd_type = NUMBER,
        fd_label = ''Net Income'', fd_category = ''Profitability''\<rparr>),
      (''eps'', \<lparr>fd_table = ''qr'', fd_column = ''eps_diluted'', fd_type = NUMBER,
        fd_label = ''EPS'', fd_category = ''Profitability''\<rparr>),
      (''sharpe_ratio'', \<lparr>fd_table = ''as_'', fd_column = ''sharpe_ratio'', fd_type = NUMBER,
        fd_label = ''Sharpe Ratio'', fd_category = ''Risk''\<rparr>),
      (''annualized_return_pct'', \<lparr>fd_table = ''as_'', fd_column = ''annualized_return_pct'', fd_type = NUMBER,
        fd_label = ''Ann. Return %'', fd_category = ''Risk''\<rparr>),
      (''annualized_volatility_pct'', \<lparr>fd_table = ''as_'', fd_column = ''annualized_volatility_pct'', fd_type = NUMBER,
        fd_label = ''Ann. Volatility %'', fd_category = ''Risk''\<rparr>),
      (''max_drawdown_pct'', \<lparr>fd_table = ''as_'', fd_column = ''max_drawdown_pct'', fd_type = NUMBER,
        fd_label = ''Max Drawdown %'', fd_category = ''Risk''\<rparr>),
      (''beta'', \<lparr>fd_table = ''ci'', fd_column = ''beta'', fd_type = NUMBER,
        fd_label = ''Beta'', fd_category = ''Risk''\<rparr>),
      (''rsi_14'', \<lparr>fd_table = ''as_'', fd_column = ''rsi_14'', fd_type = NUMBER,
        fd_label = ''RSI 14'', fd_category = ''Technical''\<rparr>),
      (''rsi_signal'', \<lparr>fd_table = ''as_'', fd_column = ''rsi_signal'', fd_type = TEXT,
        fd_label = ''RSI Signal'', fd_category = ''Technical''\<rparr>),
      (''macd_signal'', \<lparr>fd_table = ''as_'', fd_column = ''macd_signal_text'', fd_type = TEXT,
        fd_label = ''MACD Signal'', fd_category = ''Technical''\<rparr>),
      (''sma_200_signal'', \<lparr>fd_table = ''as_'', fd_column = ''sma_200_signal'', fd_type = TEXT,
        fd_label = ''SMA 200 Signal'', fd_category = ''Technical''\<rparr>),
      (''sentiment_score'', \<lparr>fd_table = ''ss'', fd_column = ''avg_score'', fd_type = NUMBER,
        fd_label = ''Sentiment Score'', fd_category = ''Technical''\<rparr>),
      (''piotroski_score'', \<lparr>fd_table = ''ps'', fd_column = ''total_score'', fd_type = NUMBER,
        fd_label = ''Piotroski Score'', fd_category = ''Quality''\<rparr>),
      (''piotroski_label'', \<lparr>fd_table = ''ps'', fd_column = ''label'', fd_type = TEXT,
        fd_label = ''Piotroski Label'', fd_category = ''Quality''\<rparr>),
      (''forecast_confidence'', \<lparr>fd_table = ''fr'', fd_column = ''confidence_score'', fd_type = NUMBER,
        fd_label = ''Forecast Confidence'', fd_category = ''Quality''\<rparr>),
      (''target_3m_pct'', \<lparr>fd_table = ''fr'', fd_column = ''target_3m_pct_change'', fd_type = NUMBER,
        fd_label = ''3M Target %'', fd_category = ''Forecast''\<rparr>),
      (''target_6m_pct'', \<lparr>fd_table = ''fr'', fd_column = ''target_6m_pct_change'', fd_type = NUMBER,
        fd_label = ''6M Target %'', fd_category = ''Forecast''\<rparr>),
      (''target_9m_pct'', \<lparr>fd_table = ''fr'', fd_column = ''target_9m_pct_change'', fd_type = NUMBER,
        fd_label = ''9M Target %'', fd_category = ''Forecast''\<rparr>)]"

definition NUMERIC_OPS :: "string list" where
  "NUMERIC_OPS = [''>'', ''<'', ''>='', ''<='', ''='', ''!='']"

definition TEXT_OPS :: "string list" where
  "TEXT_OPS = [''='', ''!='']"

definition ARRAY_OPS :: "string list" where
  "ARRAY_OPS = [''CONTAINS'']"

definition type_name :: "field_type \<Rightarrow> string" where
  "type_name t = (case t of NUMBER \<Rightarrow> ''number'' | TEXT \<Rightarrow> ''text'' | ARRAY \<Rightarrow> ''array'')"

text \<open>Name, label, type and category of each field.\<close>

definition get_field_catalog_json :: "(string \<times> string \<times> string \<times> string) list" where
  "get_field_catalog_json =
     map (\<lambda>(name, fd). (name, fd_label fd, type_name (fd_type fd), fd_category fd)) FIELD_CATALOG"

text \<open>
  SQL text by lines, with a backquote for the single quote and a tilde for the backslash.
\<close>

definition sql_char :: "char \<Rightarrow> char" where
  "sql_char c = (if c = CHR 0x60 then CHR 0x27 else if c = CHR 0x7E then CHR 0x5C else c)"

definition sql_text :: "string list \<Rightarrow> string" where
  "sql_text lines = join [CHR 0x0A] (map (map sql_char) lines)"

definition CTE_TEMPLATES :: "(string \<times> string) list" where
  "CTE_TEMPLATES =
     [(''ci'', sql_text
       [''ci_raw AS ('',
        ''  SELECT *,'',
        ''    CASE'',
        ''      WHEN exchange IN (`NSI`, `BSE`)'',
        ''        THEN `india`'',
        ''      WHEN exchange IS NOT NULL'',
        ''        AND exchange != ``'',
        ''        THEN `us`'',
        ''      WHEN ticker LIKE `%.NS`'',
        ''        OR ticker LIKE `%.BO`'',
        ''        THEN `india`'',
        ''      WHEN ticker IN ('',
        ''        `^NSEI`, `^BSESN`, `^INDIAVIX`'',
        ''      ) THEN `india`'',
        ''      ELSE `us`'',
        ''    END AS market,'',
        ''    CASE'',
        ''      WHEN pe_ratio IS NULL'',
        ''        OR pe_ratio <= 0'',
        ''        THEN NULL'',
        ''      WHEN earnings_growth IS NULL'',
        ''        OR earnings_growth <= 0'',
        ''        THEN NULL'',
        ''      ELSE pe_ratio'',
        ''        / (earnings_growth * 100.0)'',
        ''    END AS peg_ratio,'',
        ''    ROW_NUMBER() OVER ('',
        ''      PARTITION BY ticker'',
        ''      ORDER BY fetched_at DESC'',
        ''    ) AS rn'',
        ''  FROM company_info'',
        ''),'',
        ''ci AS ('',
        ''  SELECT * FROM ci_raw WHERE rn = 1'',
        '')'']),
      (''as_'', sql_text
       [''as_raw AS ('',
        ''  SELECT *,'',
        ''    TRY_CAST('',
        ''      regexp_extract('',
        ''        rsi_signal, `RSI:~s*([~d.]+)`,1'',
        ''      ) AS DOUBLE'',
        ''    ) AS rsi_14,'',
        ''    ROW_NUMBER() OVER ('',
        ''      PARTITION BY ticker'',
        ''      ORDER BY computed_at DESC'',
        ''    ) AS rn'',
        ''  FROM analysis_summary'',
        ''),'',
        ''as_ AS ('',
        ''  SELECT * FROM as_raw WHERE rn = 1'',
        '')'']),
      (''ps'', sql_text
       [''ps_raw AS ('',
        ''  SELECT *, ROW_NUMBER() OVER ('',
        ''    PARTITION BY ticker'',
        ''    ORDER BY score_date DESC'',
        ''  ) AS rn FROM piotroski_scores'',
        ''),'',
        ''ps AS ('',
        ''  SELECT * FROM ps_raw WHERE rn = 1'',
        '')'']),
      (''fr'', sql_text
       [''fr_raw AS ('',
        ''  SELECT *, ROW_NUMBER() OVER ('',
        ''    PARTITION BY ticker'',
        ''    ORDER BY computed_at DESC'',
        ''  ) AS rn FROM forecast_runs'',
        ''  WHERE horizon_months != 0'',
        ''),'',
        ''fr AS ('',
        ''  SELECT * FROM fr_raw WHERE rn = 1'',
        '')'']),
      (''ss'', sql_text
       [''ss_raw AS ('',
        ''  SELECT *, ROW_NUMBER() OVER ('',
        ''    PARTITION BY ticker'',
        ''    ORDER BY score_date DESC'',
        ''  ) AS rn FROM sentiment_scores'',
        ''),'',
        ''ss AS ('',
        ''  SELECT * FROM ss_raw WHERE rn = 1'',
        '')'']),
      (''qr'', sql_text
       [''qr_raw AS ('',
        ''  SELECT *, ROW_NUMBER() OVER ('',
        ''    PARTITION BY ticker'',
        ''    ORDER BY quarter_end DESC'',
        ''  ) AS rn FROM quarterly_results'',
        ''  WHERE statement_type = `income`'',
        ''),'',
        ''qr AS ('',
        ''  SELECT * FROM qr_raw WHERE rn = 1'',
        '')''])]"

definition BASE_COLUMNS :: "(string \<times> string) list" where
  "BASE_COLUMNS = [(''ci'', ''ticker''), (''ci'', ''company_name''), (''ci'', ''sector''),
     (''ci'', ''market_cap''), (''ci'', ''current_price''), (''ci'', ''currency'')]"

section \<open>Facts about the catalogue\<close>

definition lookup_field :: "string \<Rightarrow> field_def option" where
  "lookup_field name = map_of FIELD_CATALOG name"

text \<open>The tables the generator can join.\<close>

definition TABLE_ALIASES :: "string list" where
  "TABLE_ALIASES = [''ci'', ''as_'', ''ps'', ''fr'', ''ss'', ''qr'']"

lemma catalog_entries:
  "list_all (\<lambda>(n, fd). str_lower n = n \<and> fd_table fd \<in> set TABLE_ALIASES \<and> fd_type fd \<noteq> ARRAY) FIELD_CATALOG"
  by code_simp

lemma lookup_field_facts:
  assumes "lookup_field n = Some fd"
  shows "str_lower n = n" "fd_table fd \<in> set TABLE_ALIASES" "fd_type fd \<noteq> ARRAY"
  using assms catalog_entries by (auto simp: lookup_field_def list_all_iff dest!: map_of_SomeD)

end
