(* ===== verification/Screen_Lexer.thy ===== *)
theory Screen_Lexer
  imports Screen_Catalog
begin

text \<open>
  \<open>tokenize\<close> of \<open>backend/insights/screen_parser.py\<close>: lines joined with an implicit
  \<open>AND\<close>, then one match of \<open>_TOKEN_RE\<close> after another. Text is ASCII. A number with a point is the
  rational its digits denote. Lemmas: the loop ends because every match consumes text, and
  every token list ends with the end marker, its only one.
\<close>

datatype num_val = IntVal int | FloatVal rat

datatype token_kind =
    FIELD string
  | OP string
  | VALUE_NUM num_val
  | VALUE_STR string
  | AND
  | OR
  | LPAREN
  | RPAREN
  | CONTAINS
  | EOF

record token =
  tok_kind :: token_kind
  tok_pos :: nat

datatype screen_error = ScreenQLError string int

type_synonym 'a screen_result = "screen_error + 'a"

section \<open>Lines\<close>

definition is_linebreak :: "char \<Rightarrow> bool" where
  "is_linebreak c \<longleftrightarrow> (10 \<le> ord c \<and> ord c \<le> 13) \<or> (28 \<le> ord c \<and> ord c \<le> 30)"

text \<open>\<open>str.splitlines\<close>: a carriage return and line feed count once; no empty last line.\<close>

fun splitlines_acc :: "string \<Rightarrow> string \<Rightarrow> string list" where
  "splitlines_acc cur [] = (if cur = [] then [] else [cur])"
| "splitlines_acc cur (c # cs) =
     (if is_linebreak c then
        (case cs of
           d # ds \<Rightarrow> if c = CHR 0x0D \<and> d = CHR 0x0A then cur # splitlines_acc [] ds
                     else cur # splitlines_acc [] cs
         | [] \<Rightarrow> [cur])
      else splitlines_acc (cur @ [c]) cs)"

definition splitlines :: "string \<Rightarrow> string list" where
  "splitlines s = splitlines_acc [] s"

fun join_lines :: "string list \<Rightarrow> string list \<Rightarrow> string list" where
  "join_lines parts [] = parts"
| "join_lines parts (line # rest_lines) =
     (let upper = str_upper line;
          parts1 = (if parts \<noteq> [] \<and> \<not> (startswith upper ''AND '' \<or> startswith upper ''OR '')
                    then parts @ [''AND''] else parts)
      in join_lines (parts1 @ [line]) rest_lines)"

text \<open>The single line the tokens are read from.\<close>

definition normalize_query :: "string \<Rightarrow> string" where
  "normalize_query text = join '' '' (join_lines [] (filter (\<lambda>l. l \<noteq> []) (map strip (splitlines text))))"

section \<open>One token\<close>

definition match_op :: "string \<Rightarrow> (string \<times> string) option" where
  "match_op s =
     (if startswith s ''>='' then Some (''>='', drop 2 s)
      else if startswith s ''<='' then Some (''<='', drop 2 s)
      else if startswith s ''!='' then Some (''!='', drop 2 s)
      else if startswith s ''>'' then Some (''>'', drop 1 s)
      else if startswith s ''<'' then Some (''<'', drop 1 s)
      else if startswith s ''='' then Some (''='', drop 1 s)
      else None)"

text \<open>The body of a string up to its closing quote; \<open>.\<close> does not match a newline.\<close>

fun match_str_body :: "string \<Rightarrow> (string \<times> string) option" where
  "match_str_body [] = None"
| "match_str_body (c # cs) =
     (if c = CHR 0x22 then Some ([], cs)
      else if c = CHR 0x5C then
        (case cs of
           d # ds \<Rightarrow> if d = CHR 0x0A then None
                     else map_option (\<lambda>(b, r). (c # d # b, r)) (match_str_body ds)
         | [] \<Rightarrow> None)
      else map_option (\<lambda>(b, r). (c # b, r)) (match_str_body cs))"

text \<open>\<open>raw.replace('\\"', '"')\<close>.\<close>

fun unescape :: "string \<Rightarrow> string" where
  "unescape (c # d # cs) =
     (if c = CHR 0x5C \<and> d = CHR 0x22 then CHR 0x22 # unescape cs else c # unescape (d # cs))"
| "unescape cs = cs"

definition digits_val :: "string \<Rightarrow> int" where
  "digits_val ds = foldl (\<lambda>n c. 10 * n + (int (ord c) - 48)) 0 ds"

definition match_num :: "string \<Rightarrow> (num_val \<times> string) option" where
  "match_num s =
     (let neg = startswith s ''-'';
          s1 = (if neg then drop 1 s else s);
          ip = takeWhile is_digit s1;
          s2 = dropWhile is_digit s1;
          sign = (if neg then -1 else 1)
      in if ip = [] then None
         else
           (let fp = takeWhile is_digit (drop 1 s2) in
            if startswith s2 ''.'' \<and> fp \<noteq> [] then
              Some (FloatVal (of_int sign * (of_int (digits_val (ip @ fp)) / 10 ^ length fp)),
                    dropWhile is_digit (drop 1 s2))
            else Some (IntVal (sign * digits_val ip), s2)))"

definition word_start :: "char \<Rightarrow> bool" where
  "word_start c \<longleftrightarrow> is_alpha c \<or> c = CHR ''_''"

definition word_char :: "char \<Rightarrow> bool" where
  "word_char c \<longleftrightarrow> is_alnum c \<or> c = CHR ''_''"

definition word_token :: "string \<Rightarrow> token_kind" where
  "word_token word =
     (let upper = str_upper word in
      if upper = ''AND'' then AND else if upper = ''OR'' then OR
      else if upper = ''CONTAINS'' then CONTAINS else FIELD word)"

text \<open>
  \<open>_TOKEN_RE.match\<close>: white space, the alternatives in order, white space. No alternative
  starts with white space, so the leading run is consumed whole.
\<close>

definition match_body :: "string \<Rightarrow> (token_kind \<times> string) option" where
  "match_body s =
     (case match_op s of
        Some (op, r) \<Rightarrow> Some (OP op, r)
      | None \<Rightarrow>
          (case (if startswith s [CHR 0x22] then match_str_body (drop 1 s) else None) of
             Some (body, r) \<Rightarrow> Some (VALUE_STR (unescape body), r)
           | None \<Rightarrow>
               (case match_num s of
                  Some (n, r) \<Rightarrow> Some (VALUE_NUM n, r)
                | None \<Rightarrow>
                    if startswith s ''('' then Some (LPAREN, drop 1 s)
                    else if startswith s '')'' then Some (RPAREN, drop 1 s)
                    else (case s of
                            c # cs \<Rightarrow> if word_start c then Some (word_token (takeWhile word_char s), dropWhile word_char s)
                                      else None
                          | [] \<Rightarrow> None))))"

definition match_token :: "string \<Rightarrow> (token_kind \<times> string) option" where
  "match_token s = map_option (\<lambda>(k, r). (k, lstrip r)) (match_body (lstrip s))"

section \<open>The loop\<close>

lemma match_str_body_consumes: "match_str_body s = Some (b, r) \<Longrightarrow> length r < length s"
  by (induction s arbitrary: b r rule: match_str_body.induct)
     (auto split: if_splits list.splits, fastforce+)

lemma dropWhile_shrinks: "takeWhile P s \<noteq> [] \<Longrightarrow> length (dropWhile P s) < length s"
  by (metis length_append length_greater_0_conv less_add_same_cancel2 takeWhile_dropWhile_id)

lemma match_op_consumes: "match_op s = Some (b, r) \<Longrightarrow> length r < length s"
  by (auto simp: match_op_def split: if_splits dest!: prefix_length_le)

lemma match_num_consumes:
  assumes "match_num s = Some (b, r)"
  shows "length r < length s"
proof -
  define s1 where "s1 = (if startswith s ''-'' then drop 1 s else s)"
  have le: "length s1 \<le> length s" by (simp add: s1_def)
  have ip: "takeWhile is_digit s1 \<noteq> []"
    and r: "r = dropWhile is_digit s1 \<or> r = dropWhile is_digit (drop 1 (dropWhile is_digit s1))"
    using assms by (auto simp: match_num_def s1_def Let_def split: if_splits)
  have "length (dropWhile is_digit (drop 1 t)) \<le> length t" for t
    using length_dropWhile_le [of is_digit "drop 1 t"] by simp
  then have "length r \<le> length (dropWhile is_digit s1)" using r by auto
  also have "\<dots> < length s1" using ip by (rule dropWhile_shrinks)
  finally show ?thesis using le by simp
qed

lemma match_body_consumes:
  assumes "match_body s = Some (k, r)"
  shows "length r < length s"
proof -
  have word: "word_char c" if "word_start c" for c
    using that by (auto simp: word_start_def word_char_def is_alnum_def)
  have drop: "length (dropWhile word_char cs) < Suc (length cs)" for cs
    by (simp add: le_imp_less_Suc length_dropWhile_le)
  have paren: "startswith s [c] \<Longrightarrow> length (drop 1 s) < length s" for c
    by (cases s) auto
  have str: "startswith s [c] \<Longrightarrow> match_str_body (drop 1 s) = Some (b, r) \<Longrightarrow> length r < length s" for c b
    using match_str_body_consumes [of "drop 1 s" b r] by (cases s) auto
  show ?thesis
    using assms word drop paren str match_op_consumes [of s] match_num_consumes [of s]
    by (auto simp: match_body_def simp del: startswith_iff_prefix split: option.splits if_splits list.splits)
qed

lemma match_token_consumes: "match_token s = Some (k, r) \<Longrightarrow> length r < length s"
  using match_body_consumes [of "lstrip s"] length_lstrip [of s]
  by (auto simp: match_token_def) (metis le_less_trans length_lstrip less_le_trans)

definition unexpected_char :: "nat \<Rightarrow> char \<Rightarrow> string" where
  "unexpected_char pos c =
     ''Unexpected character at position '' @ show_nat pos @ '': '' @ [CHR 0x27, c, CHR 0x27]"

function lex_loop :: "nat \<Rightarrow> string \<Rightarrow> token list \<Rightarrow> token list screen_result" where
  "lex_loop pos s tokens =
     (if s = [] then Inr (tokens @ [\<lparr>tok_kind = EOF, tok_pos = pos\<rparr>])
      else
        (case match_token s of
           None \<Rightarrow> Inl (ScreenQLError (unexpected_char pos (hd s)) (int pos))
         | Some (k, r) \<Rightarrow> lex_loop (pos + (length s - length r)) r (tokens @ [\<lparr>tok_kind = k, tok_pos = pos\<rparr>])))"
  by pat_completeness auto
termination
  by (relation "measure (\<lambda>(pos, s, tokens). length s)") (auto dest: match_token_consumes)

declare lex_loop.simps [simp del]

definition tokenize :: "string \<Rightarrow> token list screen_result" where
  "tokenize query =
     (let text = strip query in
      if text = [] then Inl (ScreenQLError ''Query cannot be empty'' (-1))
      else lex_loop 0 (normalize_query text) [])"

section \<open>Shape of a token list\<close>

lemma match_body_not_EOF: "match_body s = Some (k, r) \<Longrightarrow> k \<noteq> EOF"
  by (auto simp: match_body_def word_token_def Let_def split: option.splits if_splits list.splits)

lemma lex_loop_shape:
  assumes "lex_loop pos s tokens = Inr ts" "\<forall>t \<in> set tokens. tok_kind t \<noteq> EOF"
  shows "\<exists>us p. ts = us @ [\<lparr>tok_kind = EOF, tok_pos = p\<rparr>] \<and> (\<forall>t \<in> set us. tok_kind t \<noteq> EOF)"
  using assms
proof (induction pos s tokens arbitrary: ts rule: lex_loop.induct)
  case (1 pos s tokens)
  show ?case
  proof (cases "s = []")
    case True
    with "1.prems" show ?thesis by (auto simp: lex_loop.simps [of pos "[]"])
  next
    case False
    with "1.prems"(1) obtain k r where m: "match_token s = Some (k, r)"
      by (auto simp: lex_loop.simps [of pos s] split: option.splits)
    then have "k \<noteq> EOF" by (auto simp: match_token_def dest: match_body_not_EOF)
    with "1.IH" [OF False m refl] "1.prems" False m show ?thesis
      by (simp add: lex_loop.simps [of pos s])
  qed
qed

lemma tokenize_shape:
  assumes "tokenize q = Inr ts"
  obtains us p where "ts = us @ [\<lparr>tok_kind = EOF, tok_pos = p\<rparr>]" "\<forall>t \<in> set us. tok_kind t \<noteq> EOF"
  using assms lex_loop_shape [of 0 _ "[]"] by (auto simp: tokenize_def Let_def split: if_splits)

end
