(* ===== verification/Screen_Parser.thy ===== *)
theory Screen_Parser
  imports Screen_Lexer
begin

text \<open>
  The recursive-descent parser of \<open>backend/insights/screen_parser.py\<close> with its validation
  of fields, operators and values. The methods call each other through the token list, so
  they carry fuel; \<open>parse\<close> provides four units per token, which is enough: no parse runs
  out. Lemmas: the parser never reads past the end marker, every successful call consumes
  tokens, results are well-typed.
\<close>

section \<open>Syntax trees\<close>

datatype screen_value = VNum num_val | VStr string

datatype ast =
    Condition string string screen_value field_def
  | BinaryOp string ast ast

section \<open>The parser state\<close>

record pstate =
  ps_tokens :: "token list"
  ps_count :: nat

text \<open>\<open>_peek\<close> and \<open>_advance\<close>; past the end Python would raise \<open>IndexError\<close>.\<close>

definition peek :: "pstate \<Rightarrow> token" where
  "peek st = (case ps_tokens st of [] \<Rightarrow> \<lparr>tok_kind = EOF, tok_pos = 0\<rparr> | t # ts \<Rightarrow> t)"

definition advance :: "pstate \<Rightarrow> pstate" where
  "advance st = st\<lparr>ps_tokens := tl (ps_tokens st)\<rparr>"

definition at_position :: "nat \<Rightarrow> string" where
  "at_position pos = '' at position '' @ show_nat pos"

definition quoted :: "string \<Rightarrow> string" where
  "quoted s = [CHR 0x27] @ s @ [CHR 0x27]"

text \<open>The rendering of a token in an error message; \<open>sf\<close> is Python's \<open>str\<close> of a float.\<close>

fun show_token :: "(rat \<Rightarrow> string) \<Rightarrow> token_kind \<Rightarrow> string" where
  "show_token sf (FIELD w) = w"
| "show_token sf (OP op) = op"
| "show_token sf (VALUE_NUM (IntVal i)) = show_int i"
| "show_token sf (VALUE_NUM (FloatVal r)) = sf r"
| "show_token sf (VALUE_STR s) = s"
| "show_token sf AND = ''AND''"
| "show_token sf OR = ''OR''"
| "show_token sf LPAREN = ''(''"
| "show_token sf RPAREN = '')''"
| "show_token sf CONTAINS = ''CONTAINS''"
| "show_token sf EOF = ''None''"

section \<open>Conditions\<close>

text \<open>\<open>suggest\<close> is \<open>_suggest_field\<close>, the closest name by \<open>difflib\<close>, which only words the error.\<close>

definition unknown_field :: "(string \<Rightarrow> string option) \<Rightarrow> string \<Rightarrow> string" where
  "unknown_field suggest word =
     ''Unknown field: '' @ word @
     (case suggest (str_lower word) of None \<Rightarrow> [] | Some s \<Rightarrow> ''. Did you mean: '' @ s @ ''?'')"

definition allowed_ops :: "field_type \<Rightarrow> string list" where
  "allowed_ops t = (case t of NUMBER \<Rightarrow> NUMERIC_OPS | TEXT \<Rightarrow> TEXT_OPS | ARRAY \<Rightarrow> ARRAY_OPS)"

definition op_error :: "field_type \<Rightarrow> string \<Rightarrow> string \<Rightarrow> string" where
  "op_error t op field =
     (case t of
        NUMBER \<Rightarrow> ''Cannot use '' @ op @ '' with number field '' @ quoted field
      | TEXT \<Rightarrow> ''Cannot use '' @ op @ '' with text field '' @ quoted field @ ''. Use = or !=''
      | ARRAY \<Rightarrow> ''Use CONTAINS with array field '' @ quoted field)"

definition value_error :: "field_type \<Rightarrow> string \<Rightarrow> string \<Rightarrow> nat \<Rightarrow> string" where
  "value_error t field op pos =
     (case t of NUMBER \<Rightarrow> ''Expected number after '' | _ \<Rightarrow> ''Expected quoted string after '') @
     quoted (field @ '' '' @ op) @ at_position pos"

definition parse_operator :: "token_kind \<Rightarrow> string option" where
  "parse_operator k = (case k of CONTAINS \<Rightarrow> Some ''CONTAINS'' | OP op \<Rightarrow> Some op | _ \<Rightarrow> None)"

definition parse_value :: "field_type \<Rightarrow> token_kind \<Rightarrow> screen_value option" where
  "parse_value t k =
     (case (t, k) of
        (NUMBER, VALUE_NUM n) \<Rightarrow> Some (VNum n)
      | (TEXT, VALUE_STR s) \<Rightarrow> Some (VStr s)
      | (ARRAY, VALUE_STR s) \<Rightarrow> Some (VStr s)
      | _ \<Rightarrow> None)"

definition parse_condition :: "(string \<Rightarrow> string option) \<Rightarrow> pstate \<Rightarrow> (ast \<times> pstate) screen_result" where
  "parse_condition suggest st0 =
     (let st = st0\<lparr>ps_count := Suc (ps_count st0)\<rparr> in
      if ps_count st > MAX_CONDITIONS then
        Inl (ScreenQLError (''Maximum '' @ show_nat MAX_CONDITIONS @ '' conditions per query'') (-1))
      else
        (case tok_kind (peek st) of
           FIELD word \<Rightarrow>
             (let field = str_lower word; fpos = tok_pos (peek st); st1 = advance st in
              case lookup_field field of
                None \<Rightarrow> Inl (ScreenQLError (unknown_field suggest word) (int fpos))
              | Some fd \<Rightarrow>
                  (let t = peek st1 in
                   case parse_operator (tok_kind t) of
                     None \<Rightarrow> Inl (ScreenQLError (''Expected operator after '' @ quoted field @ at_position (tok_pos t)) (int (tok_pos t)))
                   | Some op \<Rightarrow>
                       (let st2 = advance st1 in
                        if op \<notin> set (allowed_ops (fd_type fd)) then
                          Inl (ScreenQLError (op_error (fd_type fd) op field) (int (tok_pos t)))
                        else
                          (let vt = peek st2 in
                           case parse_value (fd_type fd) (tok_kind vt) of
                             None \<Rightarrow> Inl (ScreenQLError (value_error (fd_type fd) field op (tok_pos vt)) (int (tok_pos vt)))
                           | Some v \<Rightarrow> Inr (Condition field op v fd, advance st2)))))
         | _ \<Rightarrow> Inl (ScreenQLError (''Expected field name'' @ at_position (tok_pos (peek st))) (int (tok_pos (peek st))))))"

section \<open>The descent\<close>

text \<open>
  \<^const>\<open>None\<close>: out of fuel. The \<open>while\<close> loops of \<open>_parse_or\<close> and \<open>_parse_and\<close> are the
  functions \<open>or_loop\<close> and \<open>and_loop\<close>.
\<close>

definition bindF ::
    "'a screen_result option \<Rightarrow> ('a \<Rightarrow> 'b screen_result option) \<Rightarrow> 'b screen_result option" where
  "bindF m f = (case m of None \<Rightarrow> None | Some (Inl e) \<Rightarrow> Some (Inl e) | Some (Inr a) \<Rightarrow> f a)"

lemma bindF_cong [fundef_cong]:
  "m = m' \<Longrightarrow> (\<And>a. m' = Some (Inr a) \<Longrightarrow> f a = f' a) \<Longrightarrow> bindF m f = bindF m' f'"
  by (auto simp: bindF_def split: option.splits sum.splits)

fun parse_or :: "(string \<Rightarrow> string option) \<Rightarrow> nat \<Rightarrow> pstate \<Rightarrow> (ast \<times> pstate) screen_result option"
and or_loop :: "(string \<Rightarrow> string option) \<Rightarrow> nat \<Rightarrow> ast \<Rightarrow> pstate \<Rightarrow> (ast \<times> pstate) screen_result option"
and parse_and :: "(string \<Rightarrow> string option) \<Rightarrow> nat \<Rightarrow> pstate \<Rightarrow> (ast \<times> pstate) screen_result option"
and and_loop :: "(string \<Rightarrow> string option) \<Rightarrow> nat \<Rightarrow> ast \<Rightarrow> pstate \<Rightarrow> (ast \<times> pstate) screen_result option"
and parse_atom :: "(string \<Rightarrow> string option) \<Rightarrow> nat \<Rightarrow> pstate \<Rightarrow> (ast \<times> pstate) screen_result option" where
  "parse_or sg 0 st = None"
| "parse_or sg (Suc n) st = bindF (parse_and sg n st) (\<lambda>(left, st1). or_loop sg n left st1)"
| "or_loop sg 0 left st = None"
| "or_loop sg (Suc n) left st =
     (if tok_kind (peek st) = OR
      then bindF (parse_and sg n (advance st)) (\<lambda>(right, st1). or_loop sg n (BinaryOp ''OR'' left right) st1)
      else Some (Inr (left, st)))"
| "parse_and sg 0 st = None"
| "parse_and sg (Suc n) st = bindF (parse_atom sg n st) (\<lambda>(left, st1). and_loop sg n left st1)"
| "and_loop sg 0 left st = None"
| "and_loop sg (Suc n) left st =
     (if tok_kind (peek st) = AND
      then bindF (parse_atom sg n (advance st)) (\<lambda>(right, st1). and_loop sg n (BinaryOp ''AND'' left right) st1)
      else Some (Inr (left, st)))"
| "parse_atom sg 0 st = None"
| "parse_atom sg (Suc n) st =
     (if tok_kind (peek st) = LPAREN
      then bindF (parse_or sg n (advance st)) (\<lambda>(node, st1).
        if tok_kind (peek st1) = RPAREN then Some (Inr (node, advance st1))
        else Some (Inl (ScreenQLError (''Expected '' @ quoted '')'' @ at_position (tok_pos (peek st1))) (int (tok_pos (peek st1))))))
      else Some (parse_condition sg st))"

definition parse_fuel :: "pstate \<Rightarrow> nat" where
  "parse_fuel st = 4 * length (ps_tokens st) + 3"

definition parse :: "(string \<Rightarrow> string option) \<Rightarrow> (rat \<Rightarrow> string) \<Rightarrow> token list \<Rightarrow> ast screen_result option" where
  "parse sg sf tokens =
     (let st0 = \<lparr>ps_tokens = tokens, ps_count = 0\<rparr> in
      bindF (parse_or sg (parse_fuel st0) st0) (\<lambda>(node, st).
        if tok_kind (peek st) \<noteq> EOF then
          Some (Inl (ScreenQLError (''Unexpected token'' @ at_position (tok_pos (peek st)) @ '': '' @
             quoted (show_token sf (tok_kind (peek st)))) (int (tok_pos (peek st)))))
        else Some (Inr node)))"

definition parse_query :: "(string \<Rightarrow> string option) \<Rightarrow> (rat \<Rightarrow> string) \<Rightarrow> string \<Rightarrow> ast screen_result option" where
  "parse_query sg sf query =
     (case tokenize query of Inl e \<Rightarrow> Some (Inl e) | Inr tokens \<Rightarrow> parse sg sf tokens)"

section \<open>Progress and fuel\<close>

lemma advance_sel [simp]:
  "ps_tokens (advance st) = tl (ps_tokens st)" "ps_count (advance st) = ps_count st"
  by (simp_all add: advance_def)

lemma bindF_Inr [simp]:
  "bindF m f = Some (Inr b) \<longleftrightarrow> (\<exists>a. m = Some (Inr a) \<and> f a = Some (Inr b))"
  by (auto simp: bindF_def split: option.splits sum.splits)

lemma bindF_None [simp]: "bindF m f = None \<longleftrightarrow> m = None \<or> (\<exists>a. m = Some (Inr a) \<and> f a = None)"
  by (auto simp: bindF_def split: option.splits sum.splits)

abbreviation left_over :: "pstate \<Rightarrow> nat" where
  "left_over st \<equiv> length (ps_tokens st)"

lemma peek_kind_nonempty: "tok_kind (peek st) \<noteq> EOF \<Longrightarrow> ps_tokens st \<noteq> []"
  by (auto simp: peek_def)

lemma parse_condition_consumes:
  assumes "parse_condition sg st = Inr (node, st')"
  shows "left_over st' < left_over st"
proof -
  have "tok_kind (peek st) \<noteq> EOF"
    using assms by (auto simp: parse_condition_def peek_def Let_def split: if_splits token_kind.splits)
  then have "ps_tokens st \<noteq> []" by (rule peek_kind_nonempty)
  moreover have "ps_tokens st' = tl (tl (tl (ps_tokens st)))"
    using assms by (auto simp: parse_condition_def Let_def split: if_splits token_kind.splits option.splits)
  ultimately show ?thesis by (cases "ps_tokens st") auto
qed

text \<open>
  What a method returns satisfies any relation \<open>Q\<close> between the state before, the tree and the state
  after that holds of conditions and is kept by parentheses and by connectives.
\<close>

locale descent_contract =
  fixes sg :: "string \<Rightarrow> string option" and Q :: "pstate \<Rightarrow> ast \<Rightarrow> pstate \<Rightarrow> bool"
  assumes condition: "parse_condition sg st = Inr (node, st') \<Longrightarrow> Q st node st'"
    and paren: "tok_kind (peek st) = LPAREN \<Longrightarrow> Q (advance st) node st1 \<Longrightarrow> tok_kind (peek st1) = RPAREN
      \<Longrightarrow> Q st node (advance st1)"
    and connective: "Q st l st1 \<Longrightarrow> (tok_kind (peek st1), c) \<in> {(AND, ''AND''), (OR, ''OR'')}
      \<Longrightarrow> Q (advance st1) r st2 \<Longrightarrow> Q st (BinaryOp c l r) st2"
begin

lemma descent:
  "(parse_or sg n st = Some (Inr (node, st')) \<longrightarrow> Q st node st') \<and>
   (or_loop sg n left st1 = Some (Inr (node, st')) \<longrightarrow> Q st left st1 \<longrightarrow> Q st node st') \<and>
   (parse_and sg n st = Some (Inr (node, st')) \<longrightarrow> Q st node st') \<and>
   (and_loop sg n left st1 = Some (Inr (node, st')) \<longrightarrow> Q st left st1 \<longrightarrow> Q st node st') \<and>
   (parse_atom sg n st = Some (Inr (node, st')) \<longrightarrow> Q st node st')"
proof (induction n arbitrary: st st1 st' node left)
  case (Suc n)
  note IH = Suc.IH [THEN conjunct1, rule_format] Suc.IH [THEN conjunct2, THEN conjunct1, rule_format]
    Suc.IH [THEN conjunct2, THEN conjunct2, THEN conjunct1, rule_format]
    Suc.IH [THEN conjunct2, THEN conjunct2, THEN conjunct2, THEN conjunct1, rule_format]
    Suc.IH [THEN conjunct2, THEN conjunct2, THEN conjunct2, THEN conjunct2, rule_format]
  have "Q st node st'" if "parse_or sg (Suc n) st = Some (Inr (node, st'))"
    using that IH(2) [OF _ IH(3)] by auto
  moreover have "Q st node st'" if "parse_and sg (Suc n) st = Some (Inr (node, st'))"
    using that IH(4) [OF _ IH(5)] by auto
  moreover have "Q st node st'" if run: "or_loop sg (Suc n) left st1 = Some (Inr (node, st'))" and l: "Q st left st1"
  proof (cases "tok_kind (peek st1) = OR")
    case True
    with run obtain r st2 where r: "parse_and sg n (advance st1) = Some (Inr (r, st2))"
      and loop: "or_loop sg n (BinaryOp ''OR'' left r) st2 = Some (Inr (node, st'))" by auto
    show ?thesis by (rule IH(2) [OF loop]) (rule connective [OF l _ IH(3) [OF r]], use True in simp)
  qed (use run l in simp)
  moreover have "Q st node st'" if run: "and_loop sg (Suc n) left st1 = Some (Inr (node, st'))" and l: "Q st left st1"
  proof (cases "tok_kind (peek st1) = AND")
    case True
    with run obtain r st2 where r: "parse_atom sg n (advance st1) = Some (Inr (r, st2))"
      and loop: "and_loop sg n (BinaryOp ''AND'' left r) st2 = Some (Inr (node, st'))" by auto
    show ?thesis by (rule IH(4) [OF loop]) (rule connective [OF l _ IH(5) [OF r]], use True in simp)
  qed (use run l in simp)
  moreover have "Q st node st'" if run: "parse_atom sg (Suc n) st = Some (Inr (node, st'))"
  proof (cases "tok_kind (peek st) = LPAREN")
    case True
    with run obtain st2 where "parse_or sg n (advance st) = Some (Inr (node, st2))"
      "tok_kind (peek st2) = RPAREN" "st' = advance st2" by (auto split: if_splits)
    then show ?thesis using paren [OF True IH(1)] by blast
  qed (use run condition in auto)
  ultimately show ?case by blast
qed simp

lemmas parse_or_sound = descent [THEN conjunct1, rule_format]
lemmas parse_and_sound = descent [THEN conjunct2, THEN conjunct2, THEN conjunct1, rule_format]
lemmas parse_atom_sound = descent [THEN conjunct2, THEN conjunct2, THEN conjunct2, THEN conjunct2, rule_format]

end

interpretation progress: descent_contract sg "\<lambda>st node st'. left_over st' < left_over st" for sg
proof unfold_locales
  fix st l st1 c r st2
  assume "left_over st1 < left_over st" "left_over st2 < left_over (advance st1)"
  then show "left_over st2 < left_over st" by simp
qed (auto dest: parse_condition_consumes)

lemma descent_fuel:
  "(4 * left_over st + 3 \<le> n \<longrightarrow> parse_or sg n st \<noteq> None) \<and>
   (4 * left_over st + 1 \<le> n \<longrightarrow> or_loop sg n left st \<noteq> None) \<and>
   (4 * left_over st + 2 \<le> n \<longrightarrow> parse_and sg n st \<noteq> None) \<and>
   (4 * left_over st + 1 \<le> n \<longrightarrow> and_loop sg n left st \<noteq> None) \<and>
   (4 * left_over st + 1 \<le> n \<longrightarrow> parse_atom sg n st \<noteq> None)"
proof (induction n arbitrary: st left)
  case (Suc n)
  have adv: "Suc (left_over (advance st)) = left_over st" if "tok_kind (peek st) \<noteq> EOF" for st
    using peek_kind_nonempty [OF that] by simp
  have or: "parse_or sg (Suc n) st \<noteq> None" if "4 * left_over st + 3 \<le> Suc n"
  proof -
    have "parse_and sg n st \<noteq> None" using Suc.IH that by simp
    moreover have "or_loop sg n l st1 \<noteq> None" if "parse_and sg n st = Some (Inr (l, st1))" for l st1
      using Suc.IH [of st1 l] progress.parse_and_sound [OF that] \<open>4 * left_over st + 3 \<le> Suc n\<close> by simp
    ultimately show ?thesis by auto
  qed
  have "parse_and sg (Suc n) st \<noteq> None" if "4 * left_over st + 2 \<le> Suc n"
  proof -
    have "parse_atom sg n st \<noteq> None" using Suc.IH that by simp
    moreover have "and_loop sg n l st1 \<noteq> None" if "parse_atom sg n st = Some (Inr (l, st1))" for l st1
      using Suc.IH [of st1 l] progress.parse_atom_sound [OF that] \<open>4 * left_over st + 2 \<le> Suc n\<close> by simp
    ultimately show ?thesis by auto
  qed
  moreover have "or_loop sg (Suc n) left st \<noteq> None" if "4 * left_over st + 1 \<le> Suc n"
  proof (cases "tok_kind (peek st) = OR")
    case True
    then have adv1: "Suc (left_over (advance st)) = left_over st" by (intro adv) simp
    then have "parse_and sg n (advance st) \<noteq> None" using Suc.IH [of "advance st"] that by simp
    moreover have "or_loop sg n l st1 \<noteq> None" if "parse_and sg n (advance st) = Some (Inr (r, st1))" for l r st1
      using Suc.IH [of st1 l] progress.parse_and_sound [OF that] adv1 \<open>4 * left_over st + 1 \<le> Suc n\<close> by simp
    ultimately show ?thesis using True by auto
  qed simp
  moreover have "and_loop sg (Suc n) left st \<noteq> None" if "4 * left_over st + 1 \<le> Suc n"
  proof (cases "tok_kind (peek st) = AND")
    case True
    then have adv1: "Suc (left_over (advance st)) = left_over st" by (intro adv) simp
    then have "parse_atom sg n (advance st) \<noteq> None" using Suc.IH [of "advance st"] that by simp
    moreover have "and_loop sg n l st1 \<noteq> None" if "parse_atom sg n (advance st) = Some (Inr (r, st1))" for l r st1
      using Suc.IH [of st1 l] progress.parse_atom_sound [OF that] adv1 \<open>4 * left_over st + 1 \<le> Suc n\<close> by simp
    ultimately show ?thesis using True by auto
  qed simp
  moreover have "parse_atom sg (Suc n) st \<noteq> None" if "4 * left_over st + 1 \<le> Suc n"
  proof (cases "tok_kind (peek st) = LPAREN")
    case True
    then have "Suc (left_over (advance st)) = left_over st" by (intro adv) simp
    then have "parse_or sg n (advance st) \<noteq> None" using Suc.IH [of "advance st"] that by simp
    then show ?thesis using True by auto
  qed simp
  ultimately show ?case using or by blast
qed simp

lemma parse_total: "parse sg sf tokens \<noteq> None"
  using descent_fuel [of "\<lparr>ps_tokens = tokens, ps_count = 0\<rparr>"]
  by (auto simp: parse_def parse_fuel_def Let_def)

section \<open>Well-typed trees\<close>

fun value_fits :: "field_type \<Rightarrow> screen_value \<Rightarrow> bool" where
  "value_fits NUMBER (VNum n) = True"
| "value_fits TEXT (VStr s) = True"
| "value_fits ARRAY (VStr s) = True"
| "value_fits _ _ = False"

fun well_typed :: "ast \<Rightarrow> bool" where
  "well_typed (Condition f op v fd) \<longleftrightarrow>
     lookup_field f = Some fd \<and> op \<in> set (allowed_ops (fd_type fd)) \<and> value_fits (fd_type fd) v"
| "well_typed (BinaryOp c l r) \<longleftrightarrow> c \<in> {''AND'', ''OR''} \<and> well_typed l \<and> well_typed r"

fun n_conditions :: "ast \<Rightarrow> nat" where
  "n_conditions (Condition f op v fd) = 1"
| "n_conditions (BinaryOp c l r) = n_conditions l + n_conditions r"

lemma parse_value_fits: "parse_value t k = Some v \<Longrightarrow> value_fits t v"
  by (auto simp: parse_value_def split: field_type.splits token_kind.splits)

lemma parse_condition_typed:
  assumes "parse_condition sg st = Inr (node, st')"
  shows "well_typed node \<and> n_conditions node = 1 \<and>
    ps_count st' = Suc (ps_count st) \<and> ps_count st' \<le> MAX_CONDITIONS"
  using assms by (auto simp: parse_condition_def Let_def not_less Suc_le_eq
      split: if_splits token_kind.splits option.splits dest: parse_value_fits)

interpretation typing: descent_contract sg
  "\<lambda>st node st'. well_typed node \<and> ps_count st' = ps_count st + n_conditions node \<and> ps_count st' \<le> MAX_CONDITIONS"
  for sg
  by unfold_locales (auto dest: parse_condition_typed)

section \<open>The end marker\<close>

text \<open>\<open>Parser\<close> indexes the token list without a check: it stays inside because the marker is last and never passed.\<close>

definition eof_ended :: "pstate \<Rightarrow> bool" where
  "eof_ended st \<longleftrightarrow> (\<exists>us p. ps_tokens st = us @ [\<lparr>tok_kind = EOF, tok_pos = p\<rparr>])"

lemma eof_ended_advance: "eof_ended st \<Longrightarrow> tok_kind (peek st) \<noteq> EOF \<Longrightarrow> eof_ended (advance st)"
proof -
  assume "eof_ended st" "tok_kind (peek st) \<noteq> EOF"
  moreover from this obtain us p where "ps_tokens st = us @ [\<lparr>tok_kind = EOF, tok_pos = p\<rparr>]"
    by (auto simp: eof_ended_def)
  moreover from calculation have "us \<noteq> []" by (cases us) (auto simp: peek_def)
  ultimately show "eof_ended (advance st)" by (auto simp: eof_ended_def)
qed

lemma parse_condition_eof:
  assumes "parse_condition sg st = Inr (node, st')" "eof_ended st"
  shows "eof_ended st'"
proof -
  define s0 where "s0 = st\<lparr>ps_count := Suc (ps_count st)\<rparr>"
  have same: "eof_ended s0" using assms(2) by (simp add: s0_def eof_ended_def)
  from assms(1) obtain t :: field_type where st': "st' = advance (advance (advance s0))"
    and "tok_kind (peek s0) \<noteq> EOF" "parse_operator (tok_kind (peek (advance s0))) \<noteq> None"
      "parse_value t (tok_kind (peek (advance (advance s0)))) \<noteq> None"
    unfolding parse_condition_def Let_def s0_def [symmetric]
    by (auto split: if_splits token_kind.splits option.splits)
  then have "tok_kind (peek (advance s0)) \<noteq> EOF" "tok_kind (peek (advance (advance s0))) \<noteq> EOF"
    by (auto simp: parse_operator_def parse_value_def split: field_type.splits)
  with same \<open>tok_kind (peek s0) \<noteq> EOF\<close> show ?thesis unfolding st' by (intro eof_ended_advance) auto
qed

interpretation in_range: descent_contract sg "\<lambda>st node st'. eof_ended st \<longrightarrow> eof_ended st'" for sg
  by unfold_locales (auto dest: parse_condition_eof intro: eof_ended_advance)

section \<open>The result of a query\<close>

lemma parse_query_InrE:
  assumes "parse_query sg sf q = Some (Inr node)"
  obtains ts st n where "tokenize q = Inr ts"
    "parse_or sg n \<lparr>ps_tokens = ts, ps_count = 0\<rparr> = Some (Inr (node, st))" "tok_kind (peek st) = EOF"
  using assms by (auto simp: parse_query_def parse_def Let_def split: sum.splits if_splits)

lemma parse_query_typed:
  assumes "parse_query sg sf q = Some (Inr node)"
  shows "well_typed node" "n_conditions node \<le> MAX_CONDITIONS"
  using assms by (auto elim!: parse_query_InrE dest!: typing.parse_or_sound)

lemma parse_query_total: "parse_query sg sf q \<noteq> None"
  using parse_total [of sg sf] by (auto simp: parse_query_def split: sum.splits)

end
