(* ===== verification/Screen_Print.thy ===== *)
theory Screen_Print
  imports Screen_Parser
begin

text \<open>
  A printer for syntax trees, the reference the parser is compared with: connectives associate
  to the left, \<open>AND\<close> binds tighter than \<open>OR\<close>, parentheses only where a tree needs them. Lemmas:
  more fuel never changes an answer, and the parser maps what is printed back to the tree.
\<close>

section \<open>Printing\<close>

definition op_token :: "string \<Rightarrow> token_kind" where
  "op_token op = (if op = ''CONTAINS'' then CONTAINS else OP op)"

fun value_token :: "screen_value \<Rightarrow> token_kind" where
  "value_token (VNum n) = VALUE_NUM n"
| "value_token (VStr s) = VALUE_STR s"

definition connective_token :: "string \<Rightarrow> token_kind" where
  "connective_token c = (if c = ''AND'' then AND else OR)"

definition connective_level :: "string \<Rightarrow> nat" where
  "connective_level c = (if c = ''AND'' then 1 else 0)"

text \<open>Level 0 is the place of a whole query, 1 that of an operand of \<open>OR\<close>, 2 that of one of \<open>AND\<close>.\<close>

fun print_at :: "nat \<Rightarrow> ast \<Rightarrow> token_kind list" where
  "print_at p (Condition f op v fd) = [FIELD f, op_token op, value_token v]"
| "print_at p (BinaryOp c l r) =
     (let q = connective_level c;
          body = print_at q l @ [connective_token c] @ print_at (Suc q) r
      in if q < p then [LPAREN] @ body @ [RPAREN] else body)"

section \<open>Fuel\<close>

lemma bindF_more:
  assumes "bindF m f = Some x" "\<And>y. m = Some y \<Longrightarrow> m' = Some y"
    "\<And>a y. f a = Some y \<Longrightarrow> f' a = Some y"
  shows "bindF m' f' = Some x"
  using assms by (auto simp: bindF_def split: option.splits sum.splits)

lemmas descent_simps = parse_or.simps or_loop.simps parse_and.simps and_loop.simps parse_atom.simps

lemma descent_more_fuel:
  "(parse_or sg n st = Some x \<longrightarrow> parse_or sg (Suc n) st = Some x) \<and>
   (or_loop sg n left st = Some x \<longrightarrow> or_loop sg (Suc n) left st = Some x) \<and>
   (parse_and sg n st = Some x \<longrightarrow> parse_and sg (Suc n) st = Some x) \<and>
   (and_loop sg n left st = Some x \<longrightarrow> and_loop sg (Suc n) left st = Some x) \<and>
   (parse_atom sg n st = Some x \<longrightarrow> parse_atom sg (Suc n) st = Some x)"
proof (induction n arbitrary: st left x)
  case (Suc n)
  have step: "parse_or sg n st = Some x \<Longrightarrow> parse_or sg (Suc n) st = Some x"
    "or_loop sg n left st = Some x \<Longrightarrow> or_loop sg (Suc n) left st = Some x"
    "parse_and sg n st = Some x \<Longrightarrow> parse_and sg (Suc n) st = Some x"
    "and_loop sg n left st = Some x \<Longrightarrow> and_loop sg (Suc n) left st = Some x"
    "parse_atom sg n st = Some x \<Longrightarrow> parse_atom sg (Suc n) st = Some x" for st left x
    using Suc.IH by blast+
  have "parse_or sg (Suc (Suc n)) st = Some x" if run: "parse_or sg (Suc n) st = Some x"
    using run [unfolded parse_or.simps(2) [of sg n st]] unfolding parse_or.simps(2) [of sg "Suc n" st]
    by (auto simp del: descent_simps
        elim!: bindF_more intro: step split: if_splits)
  moreover have "or_loop sg (Suc (Suc n)) left st = Some x" if run: "or_loop sg (Suc n) left st = Some x"
    using run [unfolded or_loop.simps(2) [of sg n left st]] unfolding or_loop.simps(2) [of sg "Suc n" left st]
    by (auto simp del: descent_simps
        elim!: bindF_more intro: step split: if_splits)
  moreover have "parse_and sg (Suc (Suc n)) st = Some x" if run: "parse_and sg (Suc n) st = Some x"
    using run [unfolded parse_and.simps(2) [of sg n st]] unfolding parse_and.simps(2) [of sg "Suc n" st]
    by (auto simp del: descent_simps
        elim!: bindF_more intro: step split: if_splits)
  moreover have "and_loop sg (Suc (Suc n)) left st = Some x" if run: "and_loop sg (Suc n) left st = Some x"
    using run [unfolded and_loop.simps(2) [of sg n left st]] unfolding and_loop.simps(2) [of sg "Suc n" left st]
    by (auto simp del: descent_simps
        elim!: bindF_more intro: step split: if_splits)
  moreover have "parse_atom sg (Suc (Suc n)) st = Some x" if run: "parse_atom sg (Suc n) st = Some x"
    using run [unfolded parse_atom.simps(2) [of sg n st]] unfolding parse_atom.simps(2) [of sg "Suc n" st]
    by (auto simp del: descent_simps
        elim!: bindF_more intro: step split: if_splits)
  ultimately show ?case by blast
qed simp

text \<open>The answers of the methods with some fuel.\<close>

definition or_answers :: "(string \<Rightarrow> string option) \<Rightarrow> pstate \<Rightarrow> ast \<times> pstate \<Rightarrow> bool" where
  "or_answers sg st y \<longleftrightarrow> (\<exists>n. parse_or sg n st = Some (Inr y))"

definition or_loop_answers :: "(string \<Rightarrow> string option) \<Rightarrow> ast \<Rightarrow> pstate \<Rightarrow> ast \<times> pstate \<Rightarrow> bool" where
  "or_loop_answers sg l st y \<longleftrightarrow> (\<exists>n. or_loop sg n l st = Some (Inr y))"

definition and_answers :: "(string \<Rightarrow> string option) \<Rightarrow> pstate \<Rightarrow> ast \<times> pstate \<Rightarrow> bool" where
  "and_answers sg st y \<longleftrightarrow> (\<exists>n. parse_and sg n st = Some (Inr y))"

definition and_loop_answers :: "(string \<Rightarrow> string option) \<Rightarrow> ast \<Rightarrow> pstate \<Rightarrow> ast \<times> pstate \<Rightarrow> bool" where
  "and_loop_answers sg l st y \<longleftrightarrow> (\<exists>n. and_loop sg n l st = Some (Inr y))"

definition atom_answers :: "(string \<Rightarrow> string option) \<Rightarrow> pstate \<Rightarrow> ast \<times> pstate \<Rightarrow> bool" where
  "atom_answers sg st y \<longleftrightarrow> (\<exists>n. parse_atom sg n st = Some (Inr y))"

lemma fuel_le:
  assumes "\<And>n. f n = Some x \<Longrightarrow> f (Suc n) = Some x" "f m = Some x" "m \<le> n"
  shows "f n = Some (x :: 'a)"
  using assms(3,2) by (induction rule: dec_induct) (auto intro: assms(1))

lemma more_fuel:
  "parse_or sg m st = Some x \<Longrightarrow> m \<le> n \<Longrightarrow> parse_or sg n st = Some x"
  "or_loop sg m left st = Some x \<Longrightarrow> m \<le> n \<Longrightarrow> or_loop sg n left st = Some x"
  "parse_and sg m st = Some x \<Longrightarrow> m \<le> n \<Longrightarrow> parse_and sg n st = Some x"
  "and_loop sg m left st = Some x \<Longrightarrow> m \<le> n \<Longrightarrow> and_loop sg n left st = Some x"
  "parse_atom sg m st = Some x \<Longrightarrow> m \<le> n \<Longrightarrow> parse_atom sg n st = Some x"
  using descent_more_fuel
  by (metis fuel_le [of "\<lambda>n. parse_or sg n st"], metis fuel_le [of "\<lambda>n. or_loop sg n left st"],
      metis fuel_le [of "\<lambda>n. parse_and sg n st"], metis fuel_le [of "\<lambda>n. and_loop sg n left st"],
      metis fuel_le [of "\<lambda>n. parse_atom sg n st"])

lemma or_answersI: "and_answers sg st (l, st1) \<Longrightarrow> or_loop_answers sg l st1 y \<Longrightarrow> or_answers sg st y"
  unfolding and_answers_def or_loop_answers_def or_answers_def
proof safe
  fix m n assume a: "parse_and sg m st = Some (Inr (l, st1))" and b: "or_loop sg n l st1 = Some (Inr y)"
  have "parse_or sg (Suc (max m n)) st = Some (Inr y)"
    using more_fuel(3) [OF a max.cobounded1] more_fuel(2) [OF b max.cobounded2] by simp
  then show "\<exists>n. parse_or sg n st = Some (Inr y)" ..
qed

lemma and_answersI: "atom_answers sg st (l, st1) \<Longrightarrow> and_loop_answers sg l st1 y \<Longrightarrow> and_answers sg st y"
  unfolding atom_answers_def and_loop_answers_def and_answers_def
proof safe
  fix m n assume a: "parse_atom sg m st = Some (Inr (l, st1))" and b: "and_loop sg n l st1 = Some (Inr y)"
  have "parse_and sg (Suc (max m n)) st = Some (Inr y)"
    using more_fuel(5) [OF a max.cobounded1] more_fuel(4) [OF b max.cobounded2] by simp
  then show "\<exists>n. parse_and sg n st = Some (Inr y)" ..
qed

lemma or_loop_moreI:
  assumes "tok_kind (peek st) = OR"
  shows "and_answers sg (advance st) (r, st1) \<Longrightarrow> or_loop_answers sg (BinaryOp ''OR'' l r) st1 y \<Longrightarrow>
    or_loop_answers sg l st y"
  unfolding and_answers_def or_loop_answers_def
proof safe
  fix m n assume a: "parse_and sg m (advance st) = Some (Inr (r, st1))" and b: "or_loop sg n (BinaryOp ''OR'' l r) st1 = Some (Inr y)"
  have "or_loop sg (Suc (max m n)) l st = Some (Inr y)"
    using more_fuel(3) [OF a max.cobounded1] more_fuel(2) [OF b max.cobounded2] assms by simp
  then show "\<exists>n. or_loop sg n l st = Some (Inr y)" ..
qed

lemma and_loop_moreI:
  assumes "tok_kind (peek st) = AND"
  shows "atom_answers sg (advance st) (r, st1) \<Longrightarrow> and_loop_answers sg (BinaryOp ''AND'' l r) st1 y \<Longrightarrow>
    and_loop_answers sg l st y"
  unfolding atom_answers_def and_loop_answers_def
proof safe
  fix m n assume a: "parse_atom sg m (advance st) = Some (Inr (r, st1))" and b: "and_loop sg n (BinaryOp ''AND'' l r) st1 = Some (Inr y)"
  have "and_loop sg (Suc (max m n)) l st = Some (Inr y)"
    using more_fuel(5) [OF a max.cobounded1] more_fuel(4) [OF b max.cobounded2] assms by simp
  then show "\<exists>n. and_loop sg n l st = Some (Inr y)" ..
qed

lemma loop_doneI:
  "tok_kind (peek st) \<noteq> OR \<Longrightarrow> or_loop_answers sg l st (l, st)"
  "tok_kind (peek st) \<noteq> AND \<Longrightarrow> and_loop_answers sg l st (l, st)"
  by (auto simp: or_loop_answers_def and_loop_answers_def intro!: exI [of _ "Suc 0"])

lemma atom_parenI:
  "tok_kind (peek st) = LPAREN \<Longrightarrow> or_answers sg (advance st) (node, st1) \<Longrightarrow> tok_kind (peek st1) = RPAREN \<Longrightarrow>
   atom_answers sg st (node, advance st1)"
  unfolding or_answers_def atom_answers_def
proof safe
  fix n assume "tok_kind (peek st) = LPAREN" "parse_or sg n (advance st) = Some (Inr (node, st1))"
    "tok_kind (peek st1) = RPAREN"
  then have "parse_atom sg (Suc n) st = Some (Inr (node, advance st1))" by (simp add: bindF_def)
  then show "\<exists>n. parse_atom sg n st = Some (Inr (node, advance st1))" ..
qed

lemma atom_conditionI:
  "tok_kind (peek st) \<noteq> LPAREN \<Longrightarrow> parse_condition sg st = Inr y \<Longrightarrow> atom_answers sg st y"
  by (auto simp: atom_answers_def intro!: exI [of _ "Suc 0"])

section \<open>Reading what was printed\<close>

definition starts :: "token list \<Rightarrow> token_kind list \<Rightarrow> token list \<Rightarrow> bool" where
  "starts ts ks rest \<longleftrightarrow> (\<exists>us. ts = us @ rest \<and> map tok_kind us = ks)"

abbreviation after :: "pstate \<Rightarrow> ast \<Rightarrow> token list \<Rightarrow> pstate" where
  "after st node rest \<equiv> \<lparr>ps_tokens = rest, ps_count = ps_count st + n_conditions node\<rparr>"

lemma starts_Cons: "starts ts (k # ks) rest \<longleftrightarrow> (\<exists>t us. ts = t # us \<and> tok_kind t = k \<and> starts us ks rest)"
  by (auto simp: starts_def Cons_eq_map_conv map_eq_Cons_conv append_eq_Cons_conv Cons_eq_append_conv)

lemma starts_append: "starts ts (ks @ ks') rest \<longleftrightarrow> (\<exists>mid. starts ts ks mid \<and> starts mid ks' rest)"
  by (auto simp: starts_def map_eq_append_conv) (metis append.assoc map_append)+

lemma starts_Nil [simp]: "starts ts [] rest \<longleftrightarrow> ts = rest"
  by (auto simp: starts_def)

lemma peek_Cons [simp]: "ps_tokens st = t # ts \<Longrightarrow> peek st = t"
  by (simp add: peek_def)

lemma allowed_op_token:
  assumes "op \<in> set (allowed_ops t)"
  shows "parse_operator (op_token op) = Some op"
  using assms by (auto simp: allowed_ops_def op_token_def parse_operator_def NUMERIC_OPS_def TEXT_OPS_def ARRAY_OPS_def
      split: field_type.splits)

lemma fitting_value_token: "value_fits t v \<Longrightarrow> parse_value t (value_token v) = Some v"
  by (cases "(t, v)" rule: value_fits.cases) (auto simp: parse_value_def)

lemma parse_condition_print:
  assumes "well_typed (Condition f op v fd)" "ps_count st < MAX_CONDITIONS"
    "starts (ps_tokens st) (print_at p (Condition f op v fd)) rest"
  shows "parse_condition sg st = Inr (Condition f op v fd, after st (Condition f op v fd) rest)"
proof -
  obtain t1 t2 t3 where ts: "ps_tokens st = t1 # t2 # t3 # rest"
    "tok_kind t1 = FIELD f" "tok_kind t2 = op_token op" "tok_kind t3 = value_token v"
    using assms(3) by (auto simp: starts_Cons)
  have "str_lower f = f" "parse_operator (op_token op) = Some op" "parse_value (fd_type fd) (value_token v) = Some v"
    using assms(1) lookup_field_facts allowed_op_token fitting_value_token by auto
  then show ?thesis using assms(1,2) ts
    by (simp add: parse_condition_def advance_def peek_def)
qed

text \<open>How each method reads a tree printed for its place, whatever follows.\<close>

definition reads_atom :: "(string \<Rightarrow> string option) \<Rightarrow> ast \<Rightarrow> bool" where
  "reads_atom sg node \<longleftrightarrow> (\<forall>st rest. ps_count st + n_conditions node \<le> MAX_CONDITIONS \<longrightarrow>
     starts (ps_tokens st) (print_at 2 node) rest \<longrightarrow> atom_answers sg st (node, after st node rest))"

definition reads_and :: "(string \<Rightarrow> string option) \<Rightarrow> ast \<Rightarrow> bool" where
  "reads_and sg node \<longleftrightarrow> (\<forall>st rest y. ps_count st + n_conditions node \<le> MAX_CONDITIONS \<longrightarrow>
     starts (ps_tokens st) (print_at 1 node) rest \<longrightarrow>
     and_loop_answers sg node (after st node rest) y \<longrightarrow> and_answers sg st y)"

definition reads_or :: "(string \<Rightarrow> string option) \<Rightarrow> ast \<Rightarrow> bool" where
  "reads_or sg node \<longleftrightarrow> (\<forall>st rest y. ps_count st + n_conditions node \<le> MAX_CONDITIONS \<longrightarrow>
     starts (ps_tokens st) (print_at 0 node) rest \<longrightarrow> tok_kind (peek (after st node rest)) \<noteq> AND \<longrightarrow>
     or_loop_answers sg node (after st node rest) y \<longrightarrow> or_answers sg st y)"

lemmas reads_atomD = reads_atom_def [THEN iffD1, rule_format]
lemmas reads_andD = reads_and_def [THEN iffD1, rule_format]
lemmas reads_orD = reads_or_def [THEN iffD1, rule_format]

lemma reads_and_from_atom:
  "reads_atom sg node \<Longrightarrow> print_at 1 node = print_at 2 node \<Longrightarrow> reads_and sg node"
  by (auto simp: reads_atom_def reads_and_def intro: and_answersI)

lemma reads_or_from_and:
  assumes "reads_and sg node" "print_at 0 node = print_at 1 node"
  shows "reads_or sg node"
  using assms loop_doneI(2) unfolding reads_and_def reads_or_def by (metis or_answersI)

lemma reads_atom_from_or:
  assumes "reads_or sg node" "print_at 2 node = [LPAREN] @ print_at 0 node @ [RPAREN]"
  shows "reads_atom sg node"
  unfolding reads_atom_def
proof (intro allI impI)
  fix st :: pstate and rest
  assume n: "ps_count st + n_conditions node \<le> MAX_CONDITIONS" and ts: "starts (ps_tokens st) (print_at 2 node) rest"
  then obtain t u us where t: "ps_tokens st = t # us" "tok_kind t = LPAREN"
    and u: "starts us (print_at 0 node) (u # rest)" "tok_kind u = RPAREN"
    using assms(2) by (auto simp: starts_Cons starts_append)
  let ?st1 = "after st node (u # rest)"
  have close: "tok_kind (peek ?st1) = RPAREN" using u(2) by simp
  then have "or_loop_answers sg node ?st1 (node, ?st1)" by (intro loop_doneI) simp
  then have "or_answers sg (advance st) (node, ?st1)"
    using reads_orD [OF assms(1), of "advance st" "u # rest"] n t u by (simp add: advance_def)
  then have "atom_answers sg st (node, advance ?st1)" using t close by (intro atom_parenI) auto
  then show "atom_answers sg st (node, after st node rest)" by (simp add: advance_def)
qed

lemma reads_and_step:
  assumes "reads_and sg l" "reads_atom sg r"
  shows "reads_and sg (BinaryOp ''AND'' l r)"
  unfolding reads_and_def
proof (intro allI impI)
  let ?node = "BinaryOp ''AND'' l r"
  fix st :: pstate and rest y
  assume n: "ps_count st + n_conditions ?node \<le> MAX_CONDITIONS"
    and ts: "starts (ps_tokens st) (print_at 1 ?node) rest"
    and y: "and_loop_answers sg ?node (after st ?node rest) y"
  from ts obtain t us where l: "starts (ps_tokens st) (print_at 1 l) (t # us)"
    and t: "tok_kind t = AND" and r: "starts us (print_at 2 r) rest"
    by (auto simp: connective_level_def connective_token_def starts_Cons starts_append numeral_2_eq_2)
  let ?st1 = "after st l (t # us)"
  have "atom_answers sg (advance ?st1) (r, after ?st1 r rest)"
    using reads_atomD [OF assms(2), of "advance ?st1" rest] n r by (simp add: advance_def add.assoc)
  then have "and_loop_answers sg l ?st1 y"
    using y t by (intro and_loop_moreI [of ?st1]) (auto simp: add.assoc)
  then show "and_answers sg st y"
    using reads_andD [OF assms(1), of st "t # us"] n l by simp
qed

lemma reads_or_step:
  assumes "reads_or sg l" "reads_and sg r"
  shows "reads_or sg (BinaryOp ''OR'' l r)"
  unfolding reads_or_def
proof (intro allI impI)
  let ?node = "BinaryOp ''OR'' l r"
  fix st :: pstate and rest y
  assume n: "ps_count st + n_conditions ?node \<le> MAX_CONDITIONS"
    and ts: "starts (ps_tokens st) (print_at 0 ?node) rest"
    and stop: "tok_kind (peek (after st ?node rest)) \<noteq> AND"
    and y: "or_loop_answers sg ?node (after st ?node rest) y"
  from ts obtain t us where l: "starts (ps_tokens st) (print_at 0 l) (t # us)"
    and t: "tok_kind t = OR" and r: "starts us (print_at 1 r) rest"
    by (auto simp: connective_level_def connective_token_def starts_Cons starts_append)
  let ?st1 = "after st l (t # us)"
  have "and_loop_answers sg r (after ?st1 r rest) (r, after ?st1 r rest)"
    using stop by (intro loop_doneI) (simp add: peek_def)
  then have "and_answers sg (advance ?st1) (r, after ?st1 r rest)"
    using reads_andD [OF assms(2), of "advance ?st1" rest] n r by (simp add: advance_def add.assoc)
  then have "or_loop_answers sg l ?st1 y"
    using y t by (intro or_loop_moreI [of ?st1]) (auto simp: add.assoc)
  then show "or_answers sg st y"
    using reads_orD [OF assms(1), of st "t # us"] n l t by simp
qed

lemma parser_reads_printed:
  assumes "well_typed node"
  shows "reads_atom sg node \<and> reads_and sg node \<and> reads_or sg node"
  using assms
proof (induction node)
  case (Condition f op v fd)
  then have "reads_atom sg (Condition f op v fd)"
    using parse_condition_print [OF Condition.prems, where p = 2 and sg = sg]
    by (auto simp: reads_atom_def starts_Cons Suc_le_eq intro!: atom_conditionI)
  then show ?case using reads_and_from_atom reads_or_from_and by auto
next
  case (BinaryOp c l r)
  show ?case
  proof (cases "c = ''AND''")
    case True
    then have "reads_and sg (BinaryOp c l r)" using BinaryOp reads_and_step by auto
    moreover from this have "reads_or sg (BinaryOp c l r)"
      using True by (intro reads_or_from_and) (auto simp: connective_level_def)
    ultimately show ?thesis using True by (auto simp: connective_level_def intro: reads_atom_from_or)
  next
    case False
    then have c: "c = ''OR''" using BinaryOp by simp
    then have "reads_or sg (BinaryOp c l r)" using BinaryOp reads_or_step by auto
    moreover from this have "reads_atom sg (BinaryOp c l r)"
      using c by (intro reads_atom_from_or) (auto simp: connective_level_def)
    ultimately show ?thesis using c by (auto simp: connective_level_def intro: reads_and_from_atom)
  qed
qed

lemma parse_printed:
  assumes "well_typed node" "n_conditions node \<le> MAX_CONDITIONS"
    "map tok_kind tokens = print_at 0 node @ [EOF]"
  shows "parse sg sf tokens = Some (Inr node)"
proof -
  define st :: pstate where "st = \<lparr>ps_tokens = tokens, ps_count = 0\<rparr>"
  obtain e where e: "starts tokens (print_at 0 node) [e]" "tok_kind e = EOF"
    using assms(3) by (auto simp: starts_def map_eq_append_conv)
  let ?fin = "after st node [e]"
  have "or_loop_answers sg node ?fin (node, ?fin)" using e by (intro loop_doneI) simp
  then have "or_answers sg st (node, ?fin)"
    using reads_orD [of sg node st "[e]"] parser_reads_printed [OF assms(1), of sg] assms(2) e by (simp add: st_def)
  then obtain n where n: "parse_or sg n st = Some (Inr (node, ?fin))" by (auto simp: or_answers_def)
  obtain x where x: "parse_or sg (parse_fuel st) st = Some x"
    using descent_fuel [of st "parse_fuel st" sg] by (auto simp: parse_fuel_def)
  then have "x = Inr (node, ?fin)"
    using more_fuel(1) [OF n max.cobounded1 [of n "parse_fuel st"]] more_fuel(1) [OF x max.cobounded2 [of "parse_fuel st" n]]
    by simp
  then show ?thesis using x e by (simp add: parse_def bindF_def flip: st_def)
qed

end
