(* ===== verification/Screen_Sql.thy ===== *)
theory Screen_Sql
  imports Screen_Parser
begin

text \<open>
  \<open>generate_sql\<close> of \<open>backend/insights/screen_parser.py\<close> and the part of the route
  \<open>run_screen\<close> (\<open>backend/insights_routes.py\<close>) that scopes, generates and runs a query. The
  SQL text is built character by character as the code builds it; a parameter of the statement
  is a \<^typ>\<open>screen_value\<close>. \<^const>\<open>None\<close> is the \<open>KeyError\<close> of a field outside the catalogue.
\<close>

definition newline :: string where "newline = [CHR 0x0A]"

section \<open>Collecting and the WHERE clause\<close>

fun collect_tables :: "ast \<Rightarrow> string set" where
  "collect_tables (Condition f op v fd) = {fd_table fd}"
| "collect_tables (BinaryOp c l r) = collect_tables l \<union> collect_tables r"

fun collect_fields :: "ast \<Rightarrow> string list" where
  "collect_fields (Condition f op v fd) = [f]"
| "collect_fields (BinaryOp c l r) = collect_fields l @ collect_fields r"

definition placeholder :: "nat \<Rightarrow> string" where
  "placeholder k = ''$'' @ show_nat k"

definition qual_name :: "field_def \<Rightarrow> string" where
  "qual_name fd = fd_table fd @ ''.'' @ fd_column fd"

fun build_where :: "ast \<Rightarrow> screen_value list \<Rightarrow> string \<times> screen_value list" where
  "build_where (BinaryOp c l r) params =
     (let (left, params1) = build_where l params;
          (right, params2) = build_where r params1
      in (''('' @ left @ '' '' @ c @ '' '' @ right @ '')'', params2))"
| "build_where (Condition f op v fd) params =
     (let params1 = params @ [v]; idx = length params1 in
      if op = ''CONTAINS'' then
        (''EXISTS (SELECT 1 FROM st WHERE st.ticker = ci.ticker AND st.tag = '' @ placeholder idx @ '')'', params1)
      else
        (''('' @ qual_name fd @ '' IS NOT NULL AND '' @ qual_name fd @ '' '' @ op @ '' '' @ placeholder idx @ '')'', params1))"

section \<open>The statement\<close>

record generated_query =
  gq_sql :: string
  gq_count_sql :: string
  gq_params :: "screen_value list"
  gq_columns_used :: "string list"
  gq_tables_used :: "string set"

text \<open>The loop over \<open>display_columns\<close>: the extra fields and the tables they need.\<close>

fun merge_display :: "string list \<Rightarrow> string list \<Rightarrow> string list \<times> string set \<Rightarrow> string list \<times> string set" where
  "merge_display seen [] (extra, tables) = (extra, tables)"
| "merge_display seen (name # names) (extra, tables) =
     (case lookup_field name of
        Some fd \<Rightarrow>
          if name \<notin> set seen then
            merge_display (name # seen) names
              (extra @ [name], if fd_table fd \<noteq> ''st'' then insert (fd_table fd) tables else tables)
          else merge_display seen names (extra, tables)
      | None \<Rightarrow> merge_display seen names (extra, tables))"

definition fields_and_tables :: "ast \<Rightarrow> string list option \<Rightarrow> string list \<times> string set" where
  "fields_and_tables node display_columns =
     (let tables = insert ''ci'' (collect_tables node); fields_used = collect_fields node in
      case display_columns of
        None \<Rightarrow> (fields_used, tables)
      | Some cols \<Rightarrow>
          (let (extra, tables1) = merge_display fields_used cols ([], tables)
           in (fields_used @ extra, tables1)))"

definition ticker_placeholders :: "nat \<Rightarrow> nat \<Rightarrow> string" where
  "ticker_placeholders n k = join '', '' (map (\<lambda>i. placeholder (n + i + 1)) [0..<k])"

definition scoped_where :: "ast \<Rightarrow> string list option \<Rightarrow> string \<times> screen_value list" where
  "scoped_where node ticker_filter =
     (let (where_clause, params) = build_where node [] in
      case ticker_filter of
        None \<Rightarrow> (where_clause, params)
      | Some tickers \<Rightarrow>
          (''('' @ where_clause @ '') AND ci.ticker IN ('' @ ticker_placeholders (length params) (length tickers) @ '')'',
           params @ map VStr tickers))"

definition cte_template :: "string \<Rightarrow> string" where
  "cte_template alias = (case map_of CTE_TEMPLATES alias of Some t \<Rightarrow> t | None \<Rightarrow> [])"

definition cte_sql :: "string set \<Rightarrow> string" where
  "cte_sql tables = ''WITH '' @ join ('','' @ newline) (map cte_template (filter (\<lambda>a. a \<in> tables) TABLE_ALIASES))"

definition left_join :: "string \<Rightarrow> string" where
  "left_join alias = ''LEFT JOIN '' @ alias @ '' ON '' @ alias @ ''.ticker = ci.ticker''"

definition join_str :: "string set \<Rightarrow> string" where
  "join_str tables = join newline (map left_join (filter (\<lambda>a. a \<in> tables) [''as_'', ''ps'', ''fr'', ''ss'', ''qr'']))"

text \<open>The select list: the base columns, then every field not selected yet.\<close>

fun base_cols :: "(string \<times> string) list \<Rightarrow> string list \<times> string list \<Rightarrow> string list \<times> string list" where
  "base_cols [] (cols, seen) = (cols, seen)"
| "base_cols ((tbl, col) # rest) (cols, seen) =
     (let key = tbl @ ''.'' @ col in
      if key \<in> set seen then base_cols rest (cols, seen) else base_cols rest (cols @ [key], key # seen))"

fun field_cols :: "string list \<Rightarrow> string list \<times> string list \<Rightarrow> (string list \<times> string list) option" where
  "field_cols [] (cols, seen) = Some (cols, seen)"
| "field_cols (f # fs) (cols, seen) =
     (case lookup_field f of
        None \<Rightarrow> None
      | Some fd \<Rightarrow>
          if fd_table fd = ''st'' then field_cols fs (cols, seen)
          else if qual_name fd \<in> set seen then field_cols fs (cols, seen)
          else field_cols fs (cols @ [qual_name fd @ '' AS '' @ f], qual_name fd # seen))"

definition select_cols :: "string list \<Rightarrow> string list option" where
  "select_cols fields_used = map_option fst (field_cols fields_used (base_cols BASE_COLUMNS ([], [])))"

definition order_column :: "string option \<Rightarrow> string" where
  "order_column sort_by =
     (case sort_by of
        None \<Rightarrow> ''ci.market_cap''
      | Some s \<Rightarrow>
          (case (if s \<noteq> [] then lookup_field s else None) of
             Some sfd \<Rightarrow> if fd_table sfd = ''st'' then ''ci.ticker'' else qual_name sfd
           | None \<Rightarrow>
               if s = ''company_name'' then ''ci.company_name''
               else if s = ''current_price'' then ''ci.current_price''
               else ''ci.market_cap''))"

definition order_clause :: "string option \<Rightarrow> string \<Rightarrow> string" where
  "order_clause sort_by sort_dir =
     order_column sort_by @ '' '' @ (if sort_dir = ''asc'' then ''ASC'' else ''DESC'') @ '' NULLS LAST''"

fun dedupe :: "string list \<Rightarrow> string list \<Rightarrow> string list" where
  "dedupe acc [] = acc"
| "dedupe acc (f # fs) = (if f \<in> set acc then dedupe acc fs else dedupe (acc @ [f]) fs)"

definition statement :: "string set \<Rightarrow> string \<Rightarrow> string \<Rightarrow> string \<Rightarrow> string" where
  "statement tables select_str where_clause tail =
     cte_sql tables @ newline @ ''SELECT '' @ select_str @ newline @ ''FROM ci'' @ newline @
     join_str tables @ newline @ ''WHERE '' @ where_clause @ tail"

definition generate_sql ::
    "ast \<Rightarrow> int \<Rightarrow> int \<Rightarrow> string option \<Rightarrow> string \<Rightarrow> string list option \<Rightarrow> string list option \<Rightarrow> generated_query option" where
  "generate_sql node page page_size sort_by sort_dir ticker_filter display_columns =
     (let (fields_used, tables) = fields_and_tables node display_columns;
          (where_clause, params) = scoped_where node ticker_filter;
          params1 = params @ [VNum (IntVal page_size)];
          limit_idx = length params1;
          params2 = params1 @ [VNum (IntVal ((page - 1) * page_size))];
          offset_idx = length params2
      in case select_cols fields_used of
           None \<Rightarrow> None
         | Some cols \<Rightarrow>
             Some \<lparr>gq_sql = statement tables (join '', '' cols) where_clause
                      (newline @ ''ORDER BY '' @ order_clause sort_by sort_dir @ newline @
                       ''LIMIT '' @ placeholder limit_idx @ '' OFFSET '' @ placeholder offset_idx),
                   gq_count_sql = statement tables ''COUNT(*) AS cnt'' where_clause [],
                   gq_params = params2,
                   gq_columns_used = dedupe [] fields_used,
                   gq_tables_used = tables\<rparr>)"

section \<open>The route\<close>

text \<open>The tickers a user may see; \<open>universe\<close> is the registry with the type of each ticker.\<close>

datatype ticker_scope = Discovery | Watchlist | Portfolio

fun dedup_acc :: "string list \<Rightarrow> string list \<Rightarrow> string list \<Rightarrow> string list" where
  "dedup_acc seen out [] = out"
| "dedup_acc seen out (t # ts) =
     (if str_upper t \<notin> set seen then dedup_acc (str_upper t # seen) (out @ [t]) ts else dedup_acc seen out ts)"

definition dedup :: "string list list \<Rightarrow> string list" where
  "dedup lsts = dedup_acc [] [] (concat lsts)"

definition full_universe :: "(string \<times> string option) list \<Rightarrow> string list" where
  "full_universe registry =
     map fst (filter (\<lambda>(t, ticker_type). (case ticker_type of None \<Rightarrow> ''stock'' | Some x \<Rightarrow> x) \<in> {''stock'', ''etf''}) registry)"

definition scoped_tickers ::
    "string \<Rightarrow> ticker_scope \<Rightarrow> (string \<times> string option) list \<Rightarrow> string list \<Rightarrow> string list \<Rightarrow> string list" where
  "scoped_tickers user_role scope registry watchlist portfolio =
     (case scope of
        Portfolio \<Rightarrow> portfolio
      | Watchlist \<Rightarrow> dedup [watchlist, portfolio]
      | Discovery \<Rightarrow>
          if user_role \<in> {''pro'', ''superuser''} then dedup [full_universe registry, watchlist, portfolio]
          else dedup [watchlist, portfolio])"

record screen_request =
  rq_query :: string
  rq_page :: int
  rq_page_size :: int
  rq_sort_by :: "string option"
  rq_sort_dir :: string
  rq_display_columns :: "string list"

datatype screen_failure = HTTP_422 string | ServerError

text \<open>
  From the request to the generated statement: parsing, the user's scope, generation. A \<open>KeyError\<close>
  of the generator would be a server error.
\<close>

definition screen_statement ::
    "(string \<Rightarrow> string option) \<Rightarrow> (rat \<Rightarrow> string) \<Rightarrow> screen_request \<Rightarrow> string list \<Rightarrow> (screen_failure + generated_query) option" where
  "screen_statement sg sf req tickers =
     (case parse_query sg sf (rq_query req) of
        None \<Rightarrow> None
      | Some (Inl (ScreenQLError msg pos)) \<Rightarrow> Some (Inl (HTTP_422 msg))
      | Some (Inr node) \<Rightarrow>
          (case generate_sql node (rq_page req) (rq_page_size req) (rq_sort_by req) (rq_sort_dir req)
             (if tickers \<noteq> [] then Some tickers else None) (Some (rq_display_columns req)) of
             None \<Rightarrow> Some (Inl ServerError)
           | Some gen \<Rightarrow> Some (Inr gen)))"

definition ALIAS_TO_ICEBERG :: "(string \<times> string) list" where
  "ALIAS_TO_ICEBERG =
     [(''ci'', ''stocks.company_info''), (''as_'', ''stocks.analysis_summary''), (''ps'', ''stocks.piotroski_scores''),
      (''fr'', ''stocks.forecast_runs''), (''ss'', ''stocks.sentiment_scores''), (''qr'', ''stocks.quarterly_results'')]"

text \<open>
  Running the statement. \<open>rows_of\<close> and \<open>count_of\<close> are \<open>query_iceberg_multi\<close>, the warehouse:
  the rows of a statement, and the \<open>cnt\<close> of the first row of a count (\<open>Some None\<close> when
  there is no row); \<^const>\<open>None\<close> when the engine raises. The route answers an empty page then.
\<close>

definition execute_screen ::
    "(string set \<Rightarrow> string \<Rightarrow> screen_value list \<Rightarrow> 'r list option) \<Rightarrow>
     (string set \<Rightarrow> string \<Rightarrow> screen_value list \<Rightarrow> nat option option) \<Rightarrow> generated_query \<Rightarrow> 'r list \<times> nat" where
  "execute_screen rows_of count_of gen =
     (let tables = set (map snd (filter (\<lambda>(a, t). a \<in> gq_tables_used gen) ALIAS_TO_ICEBERG)) in
      case rows_of tables (gq_sql gen) (gq_params gen) of
        None \<Rightarrow> ([], 0)
      | Some rows \<Rightarrow>
          (case count_of tables (gq_count_sql gen) (take (length (gq_params gen) - 2) (gq_params gen)) of
             None \<Rightarrow> ([], 0)
           | Some cnt \<Rightarrow> (rows, case cnt of None \<Rightarrow> 0 | Some n \<Rightarrow> n)))"

definition run_screen ::
    "(string \<Rightarrow> string option) \<Rightarrow> (rat \<Rightarrow> string) \<Rightarrow>
     (string set \<Rightarrow> string \<Rightarrow> screen_value list \<Rightarrow> 'r list option) \<Rightarrow>
     (string set \<Rightarrow> string \<Rightarrow> screen_value list \<Rightarrow> nat option option) \<Rightarrow>
     string \<Rightarrow> (string \<times> string option) list \<Rightarrow> string list \<Rightarrow> string list \<Rightarrow> screen_request \<Rightarrow>
     (screen_failure + ('r list \<times> nat)) option" where
  "run_screen sg sf rows_of count_of user_role registry watchlist portfolio req =
     (case screen_statement sg sf req (scoped_tickers user_role Discovery registry watchlist portfolio) of
        None \<Rightarrow> None
      | Some (Inl e) \<Rightarrow> Some (Inl e)
      | Some (Inr gen) \<Rightarrow> Some (Inr (execute_screen rows_of count_of gen)))"

section \<open>Parameters and placeholders\<close>

fun cond_values :: "ast \<Rightarrow> screen_value list" where
  "cond_values (Condition f op v fd) = [v]"
| "cond_values (BinaryOp c l r) = cond_values l @ cond_values r"

text \<open>The numbers after the dollar signs of a text, in order.\<close>

fun placeholders :: "string \<Rightarrow> nat list" where
  "placeholders [] = []"
| "placeholders (c # cs) =
     (if c = CHR ''$'' then nat (digits_val (takeWhile is_digit cs)) # placeholders cs else placeholders cs)"

abbreviation no_dollar :: "string \<Rightarrow> bool" where
  "no_dollar s \<equiv> CHR ''$'' \<notin> set s"

lemma digits_val_show_nat: "digits_val (show_nat n) = int n"
proof (induction n rule: show_nat.induct)
  case (1 n)
  moreover have "10 * int (n div 10) + int (n mod 10) = int n" by presburger
  ultimately show ?case by (auto simp: digits_val_def show_nat.simps [of n] ord_def)
qed

lemma placeholders_append:
  "(b = [] \<or> \<not> is_digit (hd b)) \<Longrightarrow> placeholders (a @ b) = placeholders a @ placeholders b"
proof (induction a)
  case (Cons c a)
  have "takeWhile is_digit b = []" using Cons.prems by (cases b) auto
  then have "takeWhile is_digit (a @ b) = takeWhile is_digit a"
    by (simp add: takeWhile_append takeWhile_eq_all_conv [THEN iffD2])
  with Cons show ?case by simp
qed simp

lemma placeholders_no_dollar [simp]: "no_dollar a \<Longrightarrow> placeholders (a @ b) = placeholders b"
  by (induction a) auto

lemma no_dollar_placeholders: "no_dollar a \<Longrightarrow> placeholders a = []"
  using placeholders_no_dollar [of a "[]"] by simp

lemma no_dollar_show_nat [simp]: "no_dollar (show_nat n)"
  using show_nat_digits [of "CHR ''$''" n] by (auto simp: is_digit_def ord_def)

lemma placeholders_placeholder:
  "(b = [] \<or> \<not> is_digit (hd b)) \<Longrightarrow> placeholders (placeholder k @ b) = k # placeholders b"
proof -
  assume b: "b = [] \<or> \<not> is_digit (hd b)"
  have "takeWhile is_digit (show_nat k @ b) = show_nat k"
    using b by (cases b) (auto simp: takeWhile_append dest: show_nat_digits)
  then show ?thesis by (simp add: placeholder_def digits_val_show_nat)
qed

lemma placeholders_join:
  "placeholders (join '', '' (map placeholder ks)) = ks"
proof (induction ks rule: induct_list012)
  case (2 k)
  then show ?case using placeholders_placeholder [of "[]" k] by simp
next
  case (3 k k' ks)
  then show ?case
    using placeholders_placeholder [of "'', '' @ join '', '' (map placeholder (k' # ks))" k]
    by (simp add: is_digit_def ord_def)
qed simp

lemma catalog_no_dollar:
  "list_all (\<lambda>(n, fd). no_dollar n \<and> no_dollar (fd_table fd) \<and> no_dollar (fd_column fd)) FIELD_CATALOG"
  by code_simp

lemma templates_no_dollar: "list_all (\<lambda>(a, t). no_dollar t) CTE_TEMPLATES"
  by code_simp

lemma ops_no_dollar: "list_all (\<lambda>t. list_all no_dollar (allowed_ops t)) [NUMBER, TEXT, ARRAY]"
  by code_simp

lemma lookup_no_dollar:
  assumes "lookup_field n = Some fd"
  shows "no_dollar n" "no_dollar (qual_name fd)"
  using assms catalog_no_dollar by (auto simp: lookup_field_def list_all_iff qual_name_def dest!: map_of_SomeD)

lemma allowed_no_dollar: "op \<in> set (allowed_ops t) \<Longrightarrow> no_dollar op"
  using ops_no_dollar by (cases t) (auto simp: list_all_iff)

lemma cte_template_no_dollar [simp]: "no_dollar (cte_template a)"
  using templates_no_dollar
  by (cases "map_of CTE_TEMPLATES a") (auto simp: cte_template_def list_all_iff dest!: map_of_SomeD)

lemma set_join: "set (join sep xs) \<subseteq> set sep \<union> (\<Union>x \<in> set xs. set x)"
  by (induction sep xs rule: join.induct) auto

lemma no_dollar_join: "no_dollar sep \<Longrightarrow> (\<And>x. x \<in> set xs \<Longrightarrow> no_dollar x) \<Longrightarrow> no_dollar (join sep xs)"
  using set_join [of sep xs] by blast

lemma build_where_params: "snd (build_where node params) = params @ cond_values node"
  by (induction node params rule: build_where.induct) (auto simp: Let_def split: prod.splits)

lemma build_where_placeholders:
  assumes "well_typed node"
  shows "placeholders (fst (build_where node params)) = [Suc (length params)..<Suc (length params + length (cond_values node))]"
  using assms
proof (induction node params rule: build_where.induct)
  case (1 c l r params)
  obtain w1 p1 where l: "build_where l params = (w1, p1)" by fastforce
  obtain w2 p2 where r: "build_where r p1 = (w2, p2)" by fastforce
  have p1: "p1 = params @ cond_values l" using build_where_params [of l params] l by simp
  have "no_dollar c" using "1.prems" by auto
  then have "placeholders (w1 @ '' '' @ c @ '' '' @ w2 @ '')'') = placeholders w1 @ placeholders w2"
    by (subst placeholders_append) (auto simp: is_digit_def ord_def placeholders_append)
  moreover have "placeholders w1 = [Suc (length params)..<Suc (length params + length (cond_values l))]"
    "placeholders w2 = [Suc (length p1)..<Suc (length p1 + length (cond_values r))]"
    using "1.IH" "1.prems" l r by (auto simp del: upt_Suc)
  moreover have "fst (build_where (BinaryOp c l r) params) = ''('' @ w1 @ '' '' @ c @ '' '' @ w2 @ '')''"
    by (simp add: l r)
  ultimately show ?case
    using upt_add_eq_append [of "Suc (length params)" "Suc (length params + length (cond_values l))" "length (cond_values r)"]
    by (simp add: p1 add.assoc del: upt_Suc build_where.simps)
next
  case (2 f op v fd params)
  then have "no_dollar (qual_name fd)" "no_dollar op"
    using lookup_no_dollar allowed_no_dollar by auto
  then show ?case
    using placeholders_placeholder [of "'')''" "Suc (length params)"] by (auto simp: Let_def is_digit_def ord_def)
qed

lemma length_ge_2_drop: "take (length (xs @ [a, b]) - 2) (xs @ [a, b]) = xs"
  by simp

section \<open>The fields of a well-typed query\<close>

lemma collect_fields_known:
  "well_typed node \<Longrightarrow> f \<in> set (collect_fields node) \<Longrightarrow> \<exists>fd. lookup_field f = Some fd \<and> fd_table fd \<in> collect_tables node"
  by (induction node) auto

lemma collect_tables_known: "well_typed node \<Longrightarrow> collect_tables node \<subseteq> set TABLE_ALIASES"
  by (induction node) (auto dest: lookup_field_facts)

lemma merge_display_spec:
  assumes "merge_display seen cols (extra, tables) = (extra', tables')"
    "\<forall>f \<in> set extra. \<exists>fd. lookup_field f = Some fd \<and> fd_table fd \<in> tables" "tables \<subseteq> set TABLE_ALIASES"
  shows "(\<forall>f \<in> set extra'. \<exists>fd. lookup_field f = Some fd \<and> fd_table fd \<in> tables') \<and>
    tables \<subseteq> tables' \<and> tables' \<subseteq> set TABLE_ALIASES"
  using assms
proof (induction seen cols "(extra, tables)" arbitrary: extra tables rule: merge_display.induct)
  case (2 seen name names extra tables)
  show ?case
  proof (cases "\<exists>fd. lookup_field name = Some fd \<and> name \<notin> set seen")
    case True
    then obtain fd where fd: "lookup_field name = Some fd" "name \<notin> set seen" by auto
    then have "fd_table fd \<in> set TABLE_ALIASES" by (auto dest: lookup_field_facts)
    moreover from this have "fd_table fd \<noteq> ''st''" by (auto simp: TABLE_ALIASES_def)
    moreover have weak: "\<forall>f \<in> set extra. \<exists>fd'. lookup_field f = Some fd' \<and> (fd_table fd' = fd_table fd \<or> fd_table fd' \<in> tables)"
      using "2.prems"(2) by blast
    ultimately show ?thesis using "2.prems" "2.hyps"(2) [OF fd] fd weak by auto
  next
    case False
    then show ?thesis using "2.prems" "2.hyps"(1,3) by (auto split: option.splits)
  qed
qed auto

lemma fields_and_tables_spec:
  assumes "well_typed node" "fields_and_tables node display_columns = (flds, tables)"
  shows "\<forall>f \<in> set flds. \<exists>fd. lookup_field f = Some fd \<and> fd_table fd \<in> tables"
    "''ci'' \<in> tables" "collect_tables node \<subseteq> tables" "tables \<subseteq> set TABLE_ALIASES"
proof -
  have ci: "insert ''ci'' (collect_tables node) \<subseteq> set TABLE_ALIASES"
    using collect_tables_known [OF assms(1)] by (simp add: TABLE_ALIASES_def)
  have "(\<forall>f \<in> set flds. \<exists>fd. lookup_field f = Some fd \<and> fd_table fd \<in> tables) \<and>
    insert ''ci'' (collect_tables node) \<subseteq> tables \<and> tables \<subseteq> set TABLE_ALIASES"
  proof (cases display_columns)
    case None
    then show ?thesis using assms collect_fields_known [OF assms(1)] ci by (auto simp: fields_and_tables_def)
  next
    case (Some cols)
    obtain extra where m: "merge_display (collect_fields node) cols ([], insert ''ci'' (collect_tables node)) = (extra, tables)"
      and f: "flds = collect_fields node @ extra"
      using assms(2) Some by (auto simp: fields_and_tables_def Let_def split: prod.splits)
    show ?thesis using merge_display_spec [OF m _ ci] collect_fields_known [OF assms(1)] by (fastforce simp: f)
  qed
  then show "\<forall>f \<in> set flds. \<exists>fd. lookup_field f = Some fd \<and> fd_table fd \<in> tables"
    "''ci'' \<in> tables" "collect_tables node \<subseteq> tables" "tables \<subseteq> set TABLE_ALIASES" by auto
qed

lemma field_cols_total:
  "\<forall>f \<in> set fs. lookup_field f \<noteq> None \<Longrightarrow> field_cols fs (cols, seen) \<noteq> None"
  by (induction fs "(cols, seen)" arbitrary: cols seen rule: field_cols.induct) (auto split: option.splits)

lemma generate_sql_total:
  assumes "well_typed node"
  shows "generate_sql node page page_size sort_by sort_dir ticker_filter display_columns \<noteq> None"
proof -
  obtain flds tables where ft: "fields_and_tables node display_columns = (flds, tables)" by fastforce
  have "\<forall>f \<in> set flds. lookup_field f \<noteq> None" using fields_and_tables_spec(1) [OF assms ft] by auto
  then have "select_cols flds \<noteq> None"
    using field_cols_total [of flds "fst (base_cols BASE_COLUMNS ([], []))" "snd (base_cols BASE_COLUMNS ([], []))"]
    by (simp add: select_cols_def)
  then show ?thesis by (auto simp: generate_sql_def ft Let_def split: prod.splits)
qed

section \<open>Dollar signs of the statement\<close>

lemma base_cols_no_dollar:
  "\<forall>(t, c) \<in> set bs. no_dollar t \<and> no_dollar c \<Longrightarrow> \<forall>x \<in> set cols. no_dollar x \<Longrightarrow>
   \<forall>x \<in> set (fst (base_cols bs (cols, seen))). no_dollar x"
  by (induction bs "(cols, seen)" arbitrary: cols seen rule: base_cols.induct) (auto simp: Let_def)

lemma field_cols_no_dollar:
  "field_cols fs (cols, seen) = Some (cols', seen') \<Longrightarrow> \<forall>x \<in> set cols. no_dollar x \<Longrightarrow> \<forall>x \<in> set cols'. no_dollar x"
proof (induction fs "(cols, seen)" arbitrary: cols seen rule: field_cols.induct)
  case (2 f fs cols seen)
  then show ?case using lookup_no_dollar [of f] by (auto split: option.splits if_splits)
qed auto

lemma select_cols_no_dollar:
  assumes "select_cols flds = Some cols"
  shows "no_dollar (join '', '' cols)"
proof (rule no_dollar_join)
  fix x assume "x \<in> set cols"
  moreover have "\<forall>x \<in> set (fst (base_cols BASE_COLUMNS ([], []))). no_dollar x" by code_simp
  ultimately show "no_dollar x"
    using assms field_cols_no_dollar [of flds "fst (base_cols BASE_COLUMNS ([], []))" "snd (base_cols BASE_COLUMNS ([], []))"]
    by (auto simp: select_cols_def simp del: base_cols.simps)
qed simp

lemma order_clause_no_dollar [simp]: "no_dollar (order_clause sort_by sort_dir)"
  using lookup_no_dollar by (auto simp: order_clause_def order_column_def split: option.splits)

lemma cte_sql_no_dollar [simp]: "no_dollar (cte_sql tables)"
proof -
  have "no_dollar (join ('','' @ newline) (map cte_template (filter (\<lambda>a. a \<in> tables) TABLE_ALIASES)))"
    by (rule no_dollar_join) (auto simp: newline_def)
  then show ?thesis by (simp add: cte_sql_def)
qed

lemma join_str_no_dollar [simp]: "no_dollar (join_str tables)"
  unfolding join_str_def by (rule no_dollar_join) (auto simp: newline_def left_join_def split: if_splits)

lemma scoped_where_placeholders:
  assumes "well_typed node" "scoped_where node ticker_filter = (w, params)"
  shows "placeholders w = [1..<Suc (length params)]"
    "params = cond_values node @ map VStr (case ticker_filter of None \<Rightarrow> [] | Some ts \<Rightarrow> ts)"
proof -
  obtain w0 where b: "build_where node [] = (w0, cond_values node)"
    using build_where_params [of node "[]"] by (metis append_Nil prod.collapse)
  let ?n = "length (cond_values node)"
  have w0: "placeholders w0 = [1..<Suc ?n]"
    using build_where_placeholders [OF assms(1), of "[]"] b by simp
  have "placeholders w = [1..<Suc (length params)] \<and>
    params = cond_values node @ map VStr (case ticker_filter of None \<Rightarrow> [] | Some ts \<Rightarrow> ts)"
  proof (cases ticker_filter)
    case None
    then show ?thesis using assms(2) b w0 by (auto simp: scoped_where_def)
  next
    case (Some ts)
    have "map (\<lambda>i. placeholder (?n + i + 1)) [0..<length ts] = map placeholder [Suc ?n..<Suc (?n + length ts)]"
      by (rule nth_equalityI) (auto simp del: upt_Suc)
    then have "placeholders (ticker_placeholders ?n (length ts)) = [Suc ?n..<Suc (?n + length ts)]"
      by (simp add: ticker_placeholders_def placeholders_join del: upt_Suc)
    moreover have "placeholders (w0 @ '') AND ci.ticker IN ('' @ ticker_placeholders ?n (length ts) @ '')'') =
      placeholders w0 @ placeholders (ticker_placeholders ?n (length ts))"
      by (simp add: placeholders_append is_digit_def ord_def)
    moreover have "[1..<Suc ?n] @ [Suc ?n..<Suc (?n + length ts)] = [1..<Suc (?n + length ts)]"
      using upt_add_eq_append [of 1 "Suc ?n" "length ts"] by simp
    ultimately show ?thesis using assms(2) b w0 Some by (auto simp: scoped_where_def simp del: upt_Suc)
  qed
  then show "placeholders w = [1..<Suc (length params)]"
    "params = cond_values node @ map VStr (case ticker_filter of None \<Rightarrow> [] | Some ts \<Rightarrow> ts)" by auto
qed

lemma statement_placeholders:
  assumes "no_dollar select_str" "tail = [] \<or> \<not> is_digit (hd tail)"
  shows "placeholders (statement tables select_str w tail) = placeholders w @ placeholders tail"
  using assms by (simp add: statement_def newline_def placeholders_append)

end
