(* ===== verification/Screen_Properties.thy ===== *)
theory Screen_Properties
  imports Screen_Print Screen_Sql
begin

text \<open>
  What a ScreenQL request promises: it is always answered, what is parsed is well-typed and is
  what was written, the statement's parameters and placeholders agree, no value reaches the
  text of the statement, the tables a statement selects from are joined; and where the sorting
  and the scope of the route fall short.
\<close>

section \<open>The parser\<close>

text \<open>C22: parsing any text ends, with a tree or with an error, never out of fuel.\<close>

theorem screen_parse_total: "\<exists>r. parse_query sg sf q = Some r"
  using parse_query_total [of sg sf q] by auto

text \<open>
  C21: a query that parses is well-typed: every field is in the catalogue, its operator is
  allowed for the field's type and its value has that type; and it has at most
  \<open>MAX_CONDITIONS\<close> conditions.
\<close>

theorem parsed_query_well_typed:
  assumes "parse_query sg sf q = Some (Inr node)"
  shows "well_typed node \<and> 1 \<le> n_conditions node \<and> n_conditions node \<le> MAX_CONDITIONS"
proof -
  have "1 \<le> n_conditions node" by (induction node) auto
  with parse_query_typed [OF assms] show ?thesis by simp
qed

definition example_query :: string where
  "example_query = ''pe_ratio < 15 AND sector = '' @ [CHR 0x22] @ ''Technology'' @ [CHR 0x22]"

lemma example_query_parses:
  "parse_query (\<lambda>_. None) (\<lambda>_. []) example_query =
     Some (Inr (BinaryOp ''AND''
       (Condition ''pe_ratio'' ''<'' (VNum (IntVal 15)) (the (lookup_field ''pe_ratio'')))
       (Condition ''sector'' ''='' (VStr ''Technology'') (the (lookup_field ''sector'')))))"
  by code_simp

theorem parsed_query_well_typed_witness:
  "\<exists>node. parse_query (\<lambda>_. None) (\<lambda>_. []) example_query = Some (Inr node) \<and> well_typed node \<and>
     1 \<le> n_conditions node \<and> n_conditions node \<le> MAX_CONDITIONS"
  using parsed_query_well_typed [OF example_query_parses] example_query_parses by blast

text \<open>
  C20: printing a well-typed tree with \<open>AND\<close> above \<open>OR\<close>, left association and parentheses only
  where they are needed, and parsing the tokens, gives the tree back, wherever the tokens stand
  in the text.
\<close>

theorem parse_print_roundtrip:
  assumes "well_typed node" "n_conditions node \<le> MAX_CONDITIONS"
    "map tok_kind tokens = print_at 0 node @ [EOF]"
  shows "parse sg sf tokens = Some (Inr node)"
  using assms by (rule parse_printed)

definition example_tree :: ast where
  "example_tree = BinaryOp ''AND''
     (BinaryOp ''OR'' (Condition ''pe_ratio'' ''<'' (VNum (IntVal 15)) (the (lookup_field ''pe_ratio'')))
        (Condition ''sector'' ''='' (VStr ''Energy'') (the (lookup_field ''sector''))))
     (Condition ''market'' ''!='' (VStr ''us'') (the (lookup_field ''market'')))"

lemma example_tree_facts: "well_typed example_tree" "n_conditions example_tree \<le> MAX_CONDITIONS"
  by code_simp+

theorem parse_print_roundtrip_witness:
  "parse (\<lambda>_. None) (\<lambda>_. []) (map (\<lambda>k. \<lparr>tok_kind = k, tok_pos = 0\<rparr>) (print_at 0 example_tree @ [EOF]))
     = Some (Inr example_tree)"
  by (rule parse_print_roundtrip) (simp_all add: example_tree_facts comp_def del: print_at.simps)

text \<open>The list the descent leaves still ends with the end marker, so \<open>_peek\<close> is in range.\<close>

lemma parser_stays_in_range:
  assumes "tokenize q = Inr ts" "parse_or sg n \<lparr>ps_tokens = ts, ps_count = 0\<rparr> = Some (Inr (node, st))"
  shows "ps_tokens st \<noteq> [] \<and> tok_kind (last (ps_tokens st)) = EOF"
proof -
  obtain us p where "ts = us @ [\<lparr>tok_kind = EOF, tok_pos = p\<rparr>]" using assms(1) by (rule tokenize_shape)
  then have "eof_ended st" using in_range.parse_or_sound [OF assms(2)] by (auto simp: eof_ended_def)
  then show ?thesis by (auto simp: eof_ended_def)
qed

text \<open>
  No catalogue field is an array, so no parsed query has a \<open>CONTAINS\<close>; and the implicit
  \<open>AND\<close> breaks a query whose line ends with a connective.
\<close>

lemma array_operator_unused:
  assumes "well_typed (Condition f op v fd)"
  shows "op \<noteq> ''CONTAINS''"
  using assms lookup_field_facts(3) [of f fd]
  by (cases "fd_type fd") (auto simp: allowed_ops_def NUMERIC_OPS_def TEXT_OPS_def)

lemma trailing_connective_rejected:
  "parse_query (\<lambda>_. None) (\<lambda>_. []) (''pe_ratio < 15 AND'' @ newline @ ''market_cap > 7'') =
     Some (Inl (ScreenQLError ''Expected field name at position 18'' 18))"
  by code_simp

section \<open>The statement\<close>

text \<open>
  C19: for a well-typed query the generator succeeds; the parameters are the compared values in
  the order they are written, the tickers of the scope, the page size and the offset; the
  placeholders of the statement, read off its text, are \<open>$1\<close>, \<open>$2\<close>, up to their number,
  in that order, and those of the count are the same without the last two.
\<close>

theorem statement_parameters_match:
  assumes "well_typed node"
  shows "\<exists>gen. generate_sql node page page_size sort_by sort_dir ticker_filter display_columns = Some gen \<and>
    gq_params gen = cond_values node @ map VStr (case ticker_filter of None \<Rightarrow> [] | Some ts \<Rightarrow> ts) @
      [VNum (IntVal page_size), VNum (IntVal ((page - 1) * page_size))] \<and>
    placeholders (gq_sql gen) = [1..<Suc (length (gq_params gen))] \<and>
    placeholders (gq_count_sql gen) = [1..<Suc (length (gq_params gen) - 2)]"
proof -
  obtain gen where gen: "generate_sql node page page_size sort_by sort_dir ticker_filter display_columns = Some gen"
    using generate_sql_total [OF assms] by blast
  obtain flds tables where ft: "fields_and_tables node display_columns = (flds, tables)" by fastforce
  obtain w params where w: "scoped_where node ticker_filter = (w, params)" by fastforce
  obtain cols where cols: "select_cols flds = Some cols"
    using gen ft w by (auto simp: generate_sql_def Let_def split: option.splits)
  define tail where "tail = newline @ ''ORDER BY '' @ order_clause sort_by sort_dir @ newline @
    ''LIMIT '' @ placeholder (Suc (length params)) @ '' OFFSET '' @ placeholder (Suc (Suc (length params)))"
  have [simp]: "gen = \<lparr>gq_sql = statement tables (join '', '' cols) w tail, gq_count_sql = statement tables ''COUNT(*) AS cnt'' w [],
      gq_params = params @ [VNum (IntVal page_size), VNum (IntVal ((page - 1) * page_size))],
      gq_columns_used = dedupe [] flds, gq_tables_used = tables\<rparr>"
    using gen ft w cols by (simp add: generate_sql_def Let_def tail_def)
  have "placeholders tail = [Suc (length params), Suc (Suc (length params))]"
    using placeholders_placeholder [of "'' OFFSET '' @ placeholder (Suc (Suc (length params)))" "Suc (length params)"]
      placeholders_placeholder [of "[]" "Suc (Suc (length params))"]
    by (simp add: tail_def newline_def is_digit_def ord_def)
  moreover have "\<not> is_digit (hd tail)" by (simp add: tail_def newline_def is_digit_def ord_def)
  ultimately show ?thesis
    using gen scoped_where_placeholders [OF assms w] select_cols_no_dollar [OF cols]
    by (simp add: statement_placeholders upt_Suc_append del: upt_Suc)
qed

theorem statement_parameters_match_witness:
  "\<exists>gen. generate_sql example_tree 2 10 None ''asc'' (Some [''AAPL'', ''TCS.NS'']) None = Some gen \<and>
    gq_params gen = [VNum (IntVal 15), VStr ''Energy'', VStr ''us'', VStr ''AAPL'', VStr ''TCS.NS'', VNum (IntVal 10), VNum (IntVal 10)] \<and>
    placeholders (gq_sql gen) = [1, 2, 3, 4, 5, 6, 7] \<and> placeholders (gq_count_sql gen) = [1, 2, 3, 4, 5]"
proof -
  obtain gen where gen: "generate_sql example_tree 2 10 None ''asc'' (Some [''AAPL'', ''TCS.NS'']) None = Some gen"
    and params: "gq_params gen = cond_values example_tree @ map VStr [''AAPL'', ''TCS.NS''] @ [VNum (IntVal 10), VNum (IntVal 10)]"
    and marks: "placeholders (gq_sql gen) = [1..<Suc (length (gq_params gen))]"
      "placeholders (gq_count_sql gen) = [1..<Suc (length (gq_params gen) - 2)]"
    using statement_parameters_match [OF example_tree_facts(1), of 2 10 None "''asc''" "Some [''AAPL'', ''TCS.NS'']" None]
    by (auto simp del: upt_Suc)
  from params have "length (gq_params gen) = 7" by (simp add: example_tree_def)
  with gen params marks show ?thesis by (simp add: example_tree_def upt_conv_Cons)
qed

text \<open>The tree without its values.\<close>

fun same_shape :: "ast \<Rightarrow> ast \<Rightarrow> bool" where
  "same_shape (Condition f op v fd) (Condition f' op' v' fd') \<longleftrightarrow> f = f' \<and> op = op' \<and> fd = fd'"
| "same_shape (BinaryOp c l r) (BinaryOp c' l' r') \<longleftrightarrow> c = c' \<and> same_shape l l' \<and> same_shape r r'"
| "same_shape _ _ \<longleftrightarrow> False"

lemma same_shape_collect:
  assumes "same_shape a b"
  shows "collect_tables a = collect_tables b" "collect_fields a = collect_fields b"
    "length (cond_values a) = length (cond_values b)"
  using assms by (induction a b rule: same_shape.induct) auto

lemma same_shape_where:
  "same_shape a b \<Longrightarrow> length p = length q \<Longrightarrow> fst (build_where a p) = fst (build_where b q)"
proof (induction a b arbitrary: p q rule: same_shape.induct)
  case (2 c l r c' l' r')
  have "fst (build_where r (snd (build_where l p))) = fst (build_where r' (snd (build_where l' q)))"
    using "2.prems" same_shape_collect(3) [of l l'] by (intro "2.IH"(2)) (auto simp: build_where_params)
  with "2.IH"(1) [of p q] "2.prems" show ?case by (auto simp: Let_def split: prod.splits)
qed (auto simp: Let_def)

text \<open>
  No value reaches the text of the statement: two queries that differ only in the values
  they compare with, for scopes with as many tickers and for any page, give the same texts.
\<close>

theorem values_never_reach_sql:
  assumes "same_shape a b"
    "map_option length tickers = map_option length tickers'"
    "generate_sql a page psize sort_by sort_dir tickers cols = Some gen"
    "generate_sql b page' psize' sort_by sort_dir tickers' cols = Some gen'"
  shows "gq_sql gen = gq_sql gen' \<and> gq_count_sql gen = gq_count_sql gen'"
proof -
  have "fst (build_where a []) = fst (build_where b [])" by (rule same_shape_where [OF assms(1) refl])
  then have "fst (scoped_where a tickers) = fst (scoped_where b tickers') \<and>
    length (snd (scoped_where a tickers)) = length (snd (scoped_where b tickers'))"
    using assms(2) same_shape_collect(3) [OF assms(1)] build_where_params [of a "[]"] build_where_params [of b "[]"]
    by (cases tickers; cases tickers') (auto simp: scoped_where_def split: prod.splits)
  moreover have "fields_and_tables a cols = fields_and_tables b cols"
    by (simp add: fields_and_tables_def same_shape_collect [OF assms(1)])
  ultimately show ?thesis
    using assms(3,4) by (auto simp: generate_sql_def Let_def split: prod.splits option.splits)
qed

theorem values_never_reach_sql_witness:
  "gq_sql (the (generate_sql example_tree 1 25 None ''desc'' (Some [''AAPL'']) None)) =
   gq_sql (the (generate_sql
     (BinaryOp ''AND''
       (BinaryOp ''OR'' (Condition ''pe_ratio'' ''<'' (VNum (IntVal 99)) (the (lookup_field ''pe_ratio'')))
          (Condition ''sector'' ''='' (VStr ''x; DROP TABLE st'') (the (lookup_field ''sector''))))
       (Condition ''market'' ''!='' (VStr ''india'') (the (lookup_field ''market''))))
     3 50 None ''desc'' (Some [''TCS.NS'']) None))" (is "_ = gq_sql (the (generate_sql ?b _ _ _ _ _ _))")
proof -
  have b: "well_typed ?b" by code_simp
  have shape: "same_shape example_tree ?b" by (simp add: example_tree_def)
  obtain g where g: "generate_sql example_tree 1 25 None ''desc'' (Some [''AAPL'']) None = Some g"
    using generate_sql_total [OF example_tree_facts(1)] by blast
  obtain g' where g': "generate_sql ?b 3 50 None ''desc'' (Some [''TCS.NS'']) None = Some g'"
    using generate_sql_total [OF b] by blast
  show ?thesis using values_never_reach_sql [OF shape _ g g'] g g' by simp
qed

section \<open>Tables\<close>

lemma sublist_widen:
  assumes "sublist x y"
  shows "sublist x (a @ y @ b)"
proof -
  obtain p q where "y = p @ x @ q" using assms by (auto simp: sublist_def)
  then have "a @ y @ b = (a @ p) @ x @ (q @ b)" by simp
  then show ?thesis unfolding sublist_def by blast
qed

lemma sublist_join: "x \<in> set xs \<Longrightarrow> sublist x (join sep xs)"
proof (induction sep xs rule: join.induct)
  case (3 sep y z zs)
  then show ?case
    using sublist_widen [of x x "[]" "sep @ join sep (z # zs)"]
      sublist_widen [of x "join sep (z # zs)" "y @ sep" "[]"] by auto
qed auto

lemma sublist_statement:
  "sublist x (cte_sql tables) \<Longrightarrow> sublist x (statement tables sel w tail)"
  "sublist x (join_str tables) \<Longrightarrow> sublist x (statement tables sel w tail)"
proof -
  assume "sublist x (cte_sql tables)"
  from sublist_widen [OF this, of "[]"] show "sublist x (statement tables sel w tail)"
    unfolding statement_def by simp
next
  let ?a = "cte_sql tables @ newline @ ''SELECT '' @ sel @ newline @ ''FROM ci'' @ newline"
  assume "sublist x (join_str tables)"
  from sublist_widen [OF this, of ?a "newline @ ''WHERE '' @ w @ tail"]
  show "sublist x (statement tables sel w tail)" by (simp add: statement_def)
qed

lemma used_tables_in_statement:
  assumes "t \<in> tables" "tables \<subseteq> set TABLE_ALIASES"
  shows "sublist (cte_template t) (statement tables sel w tail)"
    "t \<noteq> ''ci'' \<Longrightarrow> sublist (left_join t) (statement tables sel w tail)"
proof -
  have "sublist (cte_template t) (join ('','' @ newline) (map cte_template (filter (\<lambda>a. a \<in> tables) TABLE_ALIASES)))"
    using assms by (intro sublist_join) auto
  then have "sublist (cte_template t) (cte_sql tables)"
    unfolding cte_sql_def using sublist_widen [of _ _ "''WITH ''" "[]"] by simp
  then show "sublist (cte_template t) (statement tables sel w tail)" by (rule sublist_statement(1))
  assume "t \<noteq> ''ci''"
  moreover have "t \<in> set TABLE_ALIASES" using assms by blast
  ultimately have "t \<in> set [''as_'', ''ps'', ''fr'', ''ss'', ''qr'']" by (simp add: TABLE_ALIASES_def)
  with assms(1) have "left_join t \<in> set (map left_join (filter (\<lambda>a. a \<in> tables) [''as_'', ''ps'', ''fr'', ''ss'', ''qr'']))"
    unfolding set_map set_filter by blast
  then have "sublist (left_join t) (join_str tables)" unfolding join_str_def by (rule sublist_join)
  then show "sublist (left_join t) (statement tables sel w tail)" by (rule sublist_statement(2))
qed

lemma dedupe_set: "set (dedupe acc fs) = set acc \<union> set fs"
  by (induction acc fs rule: dedupe.induct) auto

lemma generate_sql_fields:
  assumes "generate_sql node page psize sort_by sort_dir tickers cols = Some gen"
  obtains flds sel w tail where
    "fields_and_tables node cols = (flds, gq_tables_used gen)" "gq_columns_used gen = dedupe [] flds"
    "gq_sql gen = statement (gq_tables_used gen) sel w (newline @ ''ORDER BY '' @ order_column sort_by @ tail)"
    "gq_count_sql gen = statement (gq_tables_used gen) ''COUNT(*) AS cnt'' w []"
proof -
  obtain flds tables where ft: "fields_and_tables node cols = (flds, tables)" by fastforce
  obtain w params where w: "scoped_where node tickers = (w, params)" by fastforce
  obtain sel where sel: "select_cols flds = Some sel"
    using assms ft w by (auto simp: generate_sql_def Let_def split: option.splits)
  define tail where "tail = '' '' @ (if sort_dir = ''asc'' then ''ASC'' else ''DESC'') @ '' NULLS LAST'' @ newline @
    ''LIMIT '' @ placeholder (Suc (length params)) @ '' OFFSET '' @ placeholder (Suc (Suc (length params)))"
  have "gen = \<lparr>gq_sql = statement tables (join '', '' sel) w (newline @ ''ORDER BY '' @ order_column sort_by @ tail),
      gq_count_sql = statement tables ''COUNT(*) AS cnt'' w [],
      gq_params = params @ [VNum (IntVal psize), VNum (IntVal ((page - 1) * psize))],
      gq_columns_used = dedupe [] flds, gq_tables_used = tables\<rparr>"
    using assms ft w sel by (simp add: generate_sql_def Let_def tail_def order_clause_def)
  with that [of flds "join '', '' sel" w tail] ft show thesis by simp
qed

text \<open>
  Every table a well-typed query compares or displays a field of is defined by a common
  table expression of both statements and, except the main one, joined to it.
\<close>

theorem used_tables_are_joined:
  assumes "well_typed node"
    "generate_sql node page psize sort_by sort_dir tickers cols = Some gen"
  shows "''ci'' \<in> gq_tables_used gen \<and> collect_tables node \<subseteq> gq_tables_used gen \<and>
    (\<forall>f \<in> set (gq_columns_used gen). \<exists>fd. lookup_field f = Some fd \<and> fd_table fd \<in> gq_tables_used gen) \<and>
    (\<forall>t \<in> gq_tables_used gen. \<forall>text \<in> {gq_sql gen, gq_count_sql gen}.
       sublist (cte_template t) text \<and> (t \<noteq> ''ci'' \<longrightarrow> sublist (left_join t) text))"
proof -
  obtain flds sel w tail where ft: "fields_and_tables node cols = (flds, gq_tables_used gen)"
    and used: "gq_columns_used gen = dedupe [] flds"
    and sql: "gq_sql gen = statement (gq_tables_used gen) sel w (newline @ ''ORDER BY '' @ order_column sort_by @ tail)"
      "gq_count_sql gen = statement (gq_tables_used gen) ''COUNT(*) AS cnt'' w []"
    using assms(2) by (rule generate_sql_fields)
  note spec = fields_and_tables_spec [OF assms(1) ft]
  show ?thesis
    using spec used_tables_in_statement [OF _ spec(4)] by (auto simp: used dedupe_set sql)
qed

definition pe_below_15 :: ast where
  "pe_below_15 = Condition ''pe_ratio'' ''<'' (VNum (IntVal 15)) (the (lookup_field ''pe_ratio''))"

lemma pe_below_15_typed: "well_typed pe_below_15" and pe_below_15_tables: "collect_tables pe_below_15 = {''ci''}"
  by code_simp+

theorem used_tables_are_joined_witness:
  "''ps'' \<in> gq_tables_used (the (generate_sql pe_below_15 1 25 None ''desc'' None (Some [''piotroski_score'']))) \<and>
   sublist (left_join ''ps'') (gq_sql (the (generate_sql pe_below_15 1 25 None ''desc'' None (Some [''piotroski_score'']))))"
proof -
  obtain g where g: "generate_sql pe_below_15 1 25 None ''desc'' None (Some [''piotroski_score'']) = Some g"
    using generate_sql_total [OF pe_below_15_typed] by blast
  have "snd (fields_and_tables pe_below_15 (Some [''piotroski_score''])) = {''ps'', ''ci''}" by code_simp
  then have "''ps'' \<in> gq_tables_used g" using generate_sql_fields [OF g] by (metis insertI1 snd_conv)
  with used_tables_are_joined [OF pe_below_15_typed g] g show ?thesis by auto
qed

text \<open>
  Sorting is not covered: a catalogue field to sort by brings no table in. When its table is
  not used otherwise, the statement orders by a column of a table it neither defines nor joins,
  since its expressions and joins are those of \<open>tables_used\<close>.
\<close>

theorem sort_table_not_joined:
  assumes "generate_sql node page psize (Some f) sort_dir tickers cols = Some gen"
    "f \<noteq> []" "lookup_field f = Some fd" "fd_table fd \<notin> gq_tables_used gen"
  shows "\<exists>sel w tail. gq_sql gen =
    statement (gq_tables_used gen) sel w (newline @ ''ORDER BY '' @ fd_table fd @ ''.'' @ fd_column fd @ tail)"
proof -
  have "fd_table fd \<noteq> ''st''" using lookup_field_facts(2) [OF assms(3)] by (auto simp: TABLE_ALIASES_def)
  then have "order_column (Some f) = fd_table fd @ ''.'' @ fd_column fd"
    using assms(2,3) by (simp add: order_column_def qual_name_def)
  with generate_sql_fields [OF assms(1)] show ?thesis by (metis append.assoc)
qed

theorem sort_table_not_joined_witness:
  "\<exists>gen sel w tail. generate_sql pe_below_15 1 25 (Some ''piotroski_score'') ''desc'' None None = Some gen \<and>
     gq_tables_used gen = {''ci''} \<and>
     gq_sql gen = statement {''ci''} sel w (newline @ ''ORDER BY '' @ ''ps.total_score'' @ tail)"
proof -
  obtain g where g: "generate_sql pe_below_15 1 25 (Some ''piotroski_score'') ''desc'' None None = Some g"
    using generate_sql_total [OF pe_below_15_typed] by blast
  have t: "gq_tables_used g = {''ci''}"
    using generate_sql_fields [OF g] by (auto simp: fields_and_tables_def pe_below_15_tables)
  obtain fd where fd: "lookup_field ''piotroski_score'' = Some fd" "fd_table fd = ''ps''" "fd_column fd = ''total_score''"
    by (auto simp: lookup_field_def FIELD_CATALOG_def)
  with sort_table_not_joined [OF g _ fd(1)] t g show ?thesis by fastforce
qed

section \<open>The route\<close>

text \<open>
  The route always answers, with the rows and the total or with the parser's message as a 422;
  the generator never raises \<open>KeyError\<close>, whatever the query, the sort field and the
  display columns are.
\<close>

theorem screen_route_answers:
  "\<exists>r. run_screen sg sf rows_of count_of user_role registry watchlist portfolio req = Some r \<and> r \<noteq> Inl ServerError"
proof -
  obtain p where p: "parse_query sg sf (rq_query req) = Some p" using screen_parse_total by blast
  show ?thesis
  proof (cases p)
    case (Inl e)
    with p show ?thesis by (cases e) (simp add: run_screen_def screen_statement_def)
  next
    case (Inr node)
    then have "well_typed node" using p parse_query_typed by blast
    then obtain gen where "generate_sql node (rq_page req) (rq_page_size req) (rq_sort_by req) (rq_sort_dir req)
        (let ts = scoped_tickers user_role Discovery registry watchlist portfolio in if ts \<noteq> [] then Some ts else None)
        (Some (rq_display_columns req)) = Some gen"
      using generate_sql_total by blast
    with p Inr show ?thesis by (simp add: run_screen_def screen_statement_def Let_def)
  qed
qed




definition example_request :: screen_request where
  "example_request = \<lparr>rq_query = example_query, rq_page = 1, rq_page_size = 25, rq_sort_by = None,
     rq_sort_dir = ''desc'', rq_display_columns = []\<rparr>"


text \<open>
  With nothing watched and nothing held the restriction disappears: the route takes the empty
  scope for no scope and runs the statement over the whole universe, for a role that is meant
  to see its own tickers only.
\<close>

theorem empty_scope_sees_everything:
  assumes "user_role \<notin> {''pro'', ''superuser''}"
    "parse_query sg sf (rq_query req) = Some (Inr node)"
  shows "\<exists>gen. run_screen sg sf rows_of count_of user_role registry [] [] req =
      Some (Inr (execute_screen rows_of count_of gen)) \<and>
    generate_sql node (rq_page req) (rq_page_size req) (rq_sort_by req) (rq_sort_dir req) None
      (Some (rq_display_columns req)) = Some gen \<and>
    gq_params gen = cond_values node @ [VNum (IntVal (rq_page_size req)), VNum (IntVal ((rq_page req - 1) * rq_page_size req))]"
proof -
  have scope: "scoped_tickers user_role Discovery registry [] [] = []"
    using assms(1) by (simp add: scoped_tickers_def dedup_def)
  obtain gen where "generate_sql node (rq_page req) (rq_page_size req) (rq_sort_by req) (rq_sort_dir req) None
      (Some (rq_display_columns req)) = Some gen"
    "gq_params gen = cond_values node @ [VNum (IntVal (rq_page_size req)), VNum (IntVal ((rq_page req - 1) * rq_page_size req))]"
    using statement_parameters_match [OF parse_query_typed(1) [OF assms(2)], of "rq_page req" "rq_page_size req"
        "rq_sort_by req" "rq_sort_dir req" None "Some (rq_display_columns req)"] by auto
  then show ?thesis using assms(2) scope by (auto simp: run_screen_def screen_statement_def)
qed

theorem empty_scope_sees_everything_witness:
  "\<exists>gen. run_screen (\<lambda>_. None) (\<lambda>_. []) (\<lambda>_ _ _. Some [1 :: nat]) (\<lambda>_ _ _. Some (Some 1)) ''general'' [(''AAPL'', None)] [] []
      example_request = Some (Inr (execute_screen (\<lambda>_ _ _. Some [1 :: nat]) (\<lambda>_ _ _. Some (Some 1)) gen)) \<and>
     gq_params gen = [VNum (IntVal 15), VStr ''Technology'', VNum (IntVal 25), VNum (IntVal 0)]"
proof -
  have q: "rq_query example_request = example_query" by (simp add: example_request_def)
  show ?thesis
    using empty_scope_sees_everything [of "''general''" "\<lambda>_. None" "\<lambda>_. []" example_request, unfolded q,
        OF _ example_query_parses, of "\<lambda>_ _ _. Some [1 :: nat]" "\<lambda>_ _ _. Some (Some 1)" "[(''AAPL'', None)]"]
    by (auto simp: example_request_def)
qed

end
