(* ===== verification/Ingest_Cursor.thy ===== *)
theory Ingest_Cursor
  imports Prelude
begin

text \<open>
  \<open>backend/pipeline/cursor.py\<close> with the tables it works on
  (\<open>backend/db/models/ingestion_cursor.py\<close>, \<open>ingestion_skipped.py\<close>, \<open>stock_master.py\<close>) and the
  registry functions of \<open>backend/db/pg_stocks.py\<close>: resumable cursors over the active stocks,
  keyset pagination, and the list of failed tickers. A table is the list of its rows; a
  transaction returns the new database or the exception it raises, and then commits nothing.
  Dates are day numbers. Lemmas: at most one failure record of a ticker is open, so recording
  a failure never meets two; pages are sorted, bounded and complete.
\<close>

section \<open>Tables\<close>

record stock =
  sk_id :: int
  sk_symbol :: string
  sk_yf_ticker :: string
  sk_nse_symbol :: "string option"
  sk_sector :: "string option"
  sk_industry :: "string option"
  sk_market_cap :: "int option"
  sk_currency :: string
  sk_is_active :: bool

record cursor =
  cu_name :: string
  cu_total :: int
  cu_last :: int
  cu_batch_size :: nat
  cu_status :: string

record skipped_row =
  sp_id :: int
  sp_cursor :: string
  sp_ticker :: string
  sp_job_type :: string
  sp_error_message :: string
  sp_error_category :: string
  sp_attempts :: int
  sp_resolved :: bool
  sp_last_attempted_at :: int

record registry_row =
  rg_last_fetch_date :: int
  rg_total_rows :: int
  rg_start :: "int option"
  rg_end :: "int option"
  rg_market :: string

record ingest_db =
  db_stocks :: "stock list"
  db_cursors :: "cursor list"
  db_skipped :: "skipped_row list"
  db_next_skip_id :: int
  db_registry :: "(string \<times> registry_row) list"

datatype ingest_error =
    Value_Error string
  | Multiple_Results
  | Integrity_Error
  | Source_Error string string
  | Other_Error string

type_synonym 'a ingest_result = "ingest_error + 'a"

text \<open>SQLAlchemy's \<open>scalar_one_or_none\<close>.\<close>

definition one_or_none :: "'a list \<Rightarrow> 'a option ingest_result" where
  "one_or_none rows = (case rows of [] \<Rightarrow> Inr None | [r] \<Rightarrow> Inr (Some r) | _ \<Rightarrow> Inl Multiple_Results)"

section \<open>Cursors\<close>

definition get_cursor :: "ingest_db \<Rightarrow> string \<Rightarrow> cursor option ingest_result" where
  "get_cursor db name = one_or_none (filter (\<lambda>c. cu_name c = name) (db_cursors db))"

definition cursor_not_found :: "string \<Rightarrow> string" where
  "cursor_not_found name = ''Cursor not found: '' @ name"

text \<open>The unique constraint on \<open>cursor_name\<close> rejects a second row.\<close>

definition create_cursor :: "ingest_db \<Rightarrow> string \<Rightarrow> int \<Rightarrow> nat \<Rightarrow> ingest_db ingest_result" where
  "create_cursor db name total_tickers batch_size =
     (if name \<in> cu_name ` set (db_cursors db) then Inl Integrity_Error
      else Inr (db\<lparr>db_cursors := db_cursors db @
        [\<lparr>cu_name = name, cu_total = total_tickers, cu_last = 0, cu_batch_size = batch_size, cu_status = ''pending''\<rparr>]\<rparr>))"

definition update_cursor :: "ingest_db \<Rightarrow> string \<Rightarrow> (cursor \<Rightarrow> cursor) \<Rightarrow> ingest_db ingest_result" where
  "update_cursor db name f =
     (case get_cursor db name of
        Inl e \<Rightarrow> Inl e
      | Inr None \<Rightarrow> Inl (Value_Error (cursor_not_found name))
      | Inr (Some c) \<Rightarrow> Inr (db\<lparr>db_cursors := map (\<lambda>d. if cu_name d = name then f d else d) (db_cursors db)\<rparr>))"

definition advance_cursor :: "ingest_db \<Rightarrow> string \<Rightarrow> int \<Rightarrow> ingest_db ingest_result" where
  "advance_cursor db name last_processed_id = update_cursor db name (\<lambda>c. c\<lparr>cu_last := last_processed_id\<rparr>)"

definition set_cursor_status :: "ingest_db \<Rightarrow> string \<Rightarrow> string \<Rightarrow> ingest_db ingest_result" where
  "set_cursor_status db name status = update_cursor db name (\<lambda>c. c\<lparr>cu_status := status\<rparr>)"

definition reset_cursor :: "ingest_db \<Rightarrow> string \<Rightarrow> ingest_db ingest_result" where
  "reset_cursor db name = update_cursor db name (\<lambda>c. c\<lparr>cu_last := 0, cu_status := ''pending''\<rparr>)"

definition pending_stocks :: "ingest_db \<Rightarrow> int \<Rightarrow> stock list" where
  "pending_stocks db last_id = sort_key sk_id (filter (\<lambda>s. last_id < sk_id s \<and> sk_is_active s) (db_stocks db))"

definition get_next_batch :: "ingest_db \<Rightarrow> string \<Rightarrow> stock list ingest_result" where
  "get_next_batch db name =
     (case get_cursor db name of
        Inl e \<Rightarrow> Inl e
      | Inr None \<Rightarrow> Inl (Value_Error (cursor_not_found name))
      | Inr (Some c) \<Rightarrow> Inr (take (cu_batch_size c) (pending_stocks db (cu_last c))))"

section \<open>Failed tickers\<close>

definition open_skip :: "string \<Rightarrow> string \<Rightarrow> string \<Rightarrow> skipped_row \<Rightarrow> bool" where
  "open_skip name ticker job r \<longleftrightarrow>
     sp_cursor r = name \<and> sp_ticker r = ticker \<and> sp_job_type r = job \<and> \<not> sp_resolved r"

text \<open>The foreign key on \<open>cursor_name\<close> rejects a row of an unknown cursor.\<close>

definition log_skipped ::
    "ingest_db \<Rightarrow> int \<Rightarrow> string \<Rightarrow> string \<Rightarrow> string \<Rightarrow> string \<Rightarrow> string \<Rightarrow> ingest_db ingest_result" where
  "log_skipped db now name ticker job error_message error_category =
     (let truncated = take 1000 error_message in
      case one_or_none (filter (open_skip name ticker job) (db_skipped db)) of
        Inl e \<Rightarrow> Inl e
      | Inr (Some existing) \<Rightarrow>
          Inr (db\<lparr>db_skipped := map (\<lambda>r. if sp_id r = sp_id existing then
            r\<lparr>sp_attempts := sp_attempts r + 1, sp_error_message := truncated,
              sp_error_category := error_category, sp_last_attempted_at := now\<rparr> else r) (db_skipped db)\<rparr>)
      | Inr None \<Rightarrow>
          if name \<notin> cu_name ` set (db_cursors db) then Inl Integrity_Error
          else Inr (db\<lparr>db_skipped := db_skipped db @
             [\<lparr>sp_id = db_next_skip_id db, sp_cursor = name, sp_ticker = ticker, sp_job_type = job,
               sp_error_message = truncated, sp_error_category = error_category, sp_attempts = 1,
               sp_resolved = False, sp_last_attempted_at = now\<rparr>],
             db_next_skip_id := db_next_skip_id db + 1\<rparr>))"

definition get_skipped ::
    "ingest_db \<Rightarrow> string option \<Rightarrow> string option \<Rightarrow> bool option \<Rightarrow> string option \<Rightarrow> skipped_row list" where
  "get_skipped db name category resolved ticker =
     filter (\<lambda>r. (case name of None \<Rightarrow> True | Some n \<Rightarrow> sp_cursor r = n) \<and>
                 (case category of None \<Rightarrow> True | Some c \<Rightarrow> sp_error_category r = c) \<and>
                 (case resolved of None \<Rightarrow> True | Some b \<Rightarrow> sp_resolved r = b) \<and>
                 (case ticker of None \<Rightarrow> True | Some t \<Rightarrow> sp_ticker r = t)) (db_skipped db)"

definition skipped_not_found :: "int \<Rightarrow> string" where
  "skipped_not_found i = ''Skipped record not found: '' @ show_int i"

definition mark_resolved :: "ingest_db \<Rightarrow> int \<Rightarrow> ingest_db ingest_result" where
  "mark_resolved db skipped_id =
     (case one_or_none (filter (\<lambda>r. sp_id r = skipped_id) (db_skipped db)) of
        Inl e \<Rightarrow> Inl e
      | Inr None \<Rightarrow> Inl (Value_Error (skipped_not_found skipped_id))
      | Inr (Some rec) \<Rightarrow>
          Inr (db\<lparr>db_skipped := map (\<lambda>r. if sp_id r = skipped_id then r\<lparr>sp_resolved := True\<rparr> else r) (db_skipped db)\<rparr>))"

definition RETRYABLE_CATEGORIES :: "string list" where
  "RETRYABLE_CATEGORIES = [''rate_limit'', ''timeout'']"

definition get_retryable_skipped :: "ingest_db \<Rightarrow> string \<Rightarrow> bool \<Rightarrow> skipped_row list" where
  "get_retryable_skipped db name all_categories =
     filter (\<lambda>r. sp_cursor r = name \<and> \<not> sp_resolved r \<and>
                 (all_categories \<or> sp_error_category r \<in> set RETRYABLE_CATEGORIES)) (db_skipped db)"

section \<open>Registry\<close>

definition get_registry :: "ingest_db \<Rightarrow> string \<Rightarrow> registry_row option" where
  "get_registry db ticker = map_of (db_registry db) ticker"

definition upsert_registry :: "ingest_db \<Rightarrow> string \<Rightarrow> registry_row \<Rightarrow> ingest_db" where
  "upsert_registry db ticker row = db\<lparr>db_registry := AList.update ticker row (db_registry db)\<rparr>"

section \<open>Invariant of the tables\<close>

text \<open>
  Names of cursors and identifiers of failure records are unique, and a ticker has at most one
  open failure per cursor and job.
\<close>

definition ingest_inv :: "ingest_db \<Rightarrow> bool" where
  "ingest_inv db \<longleftrightarrow>
     distinct (map cu_name (db_cursors db)) \<and>
     distinct (map sp_id (db_skipped db)) \<and>
     (\<forall>r \<in> set (db_skipped db). sp_id r < db_next_skip_id db) \<and>
     (\<forall>name ticker job. length (filter (open_skip name ticker job) (db_skipped db)) \<le> 1)"

lemmas ingest_invD = ingest_inv_def [THEN iffD1, THEN conjunct1] ingest_inv_def [THEN iffD1, THEN conjunct2, THEN conjunct1]

lemma one_or_none_le_1: "length rows \<le> 1 \<Longrightarrow> \<exists>r. one_or_none rows = Inr r"
  by (cases rows rule: remdups_adj.cases) (auto simp: one_or_none_def)

lemma one_or_none_simps [simp]:
  "one_or_none rows = Inr None \<longleftrightarrow> rows = []"
  "one_or_none rows = Inr (Some r) \<longleftrightarrow> rows = [r]"
  by (auto simp: one_or_none_def split: list.splits)

lemma filter_key_le_1: "distinct (map f xs) \<Longrightarrow> length (filter (\<lambda>x. f x = k) xs) \<le> 1"
proof (induction xs)
  case (Cons x xs)
  have "filter (\<lambda>y. f y = k) xs = []" if "f x = k"
    unfolding filter_empty_conv using Cons.prems that by (auto simp: image_iff)
  with Cons show ?case by auto
qed simp

lemma get_cursor_cases:
  assumes "distinct (map cu_name (db_cursors db))"
  shows "(get_cursor db name = Inr None \<and> name \<notin> cu_name ` set (db_cursors db)) \<or>
    (\<exists>c. get_cursor db name = Inr (Some c) \<and> c \<in> set (db_cursors db) \<and> cu_name c = name)"
proof -
  have le: "length (filter (\<lambda>c. cu_name c = name) (db_cursors db)) \<le> 1"
    by (rule filter_key_le_1 [OF assms])
  show ?thesis
  proof (cases "filter (\<lambda>c. cu_name c = name) (db_cursors db)")
    case Nil
    then show ?thesis by (auto simp: get_cursor_def filter_empty_conv)
  next
    case (Cons c cs)
    with le have "cs = []" by simp
    with Cons have "get_cursor db name = Inr (Some c)" by (simp add: get_cursor_def)
    moreover have "c \<in> set (filter (\<lambda>c. cu_name c = name) (db_cursors db))" using Cons by simp
    ultimately show ?thesis by auto
  qed
qed

lemma update_cursor_inv:
  assumes "ingest_inv db" "update_cursor db name f = Inr db'" "\<And>c. cu_name (f c) = cu_name c"
  shows "ingest_inv db'"
proof -
  have "map cu_name (map (\<lambda>d. if cu_name d = name then f d else d) cs) = map cu_name cs" for cs
    by (auto simp: assms(3))
  then show ?thesis using assms(1,2)
    by (auto simp: update_cursor_def ingest_inv_def simp del: map_map split: sum.splits option.splits)
qed

lemma cursor_ops_inv:
  assumes "ingest_inv db"
  shows "advance_cursor db name i = Inr db' \<Longrightarrow> ingest_inv db'"
    "set_cursor_status db name st = Inr db' \<Longrightarrow> ingest_inv db'"
    "reset_cursor db name = Inr db' \<Longrightarrow> ingest_inv db'"
    "create_cursor db name n bs = Inr db' \<Longrightarrow> ingest_inv db'"
  using update_cursor_inv [OF assms]
  by (simp_all add: advance_cursor_def set_cursor_status_def reset_cursor_def)
     (use assms in \<open>auto simp: create_cursor_def ingest_inv_def split: if_splits\<close>)

lemma open_skip_update:
  assumes "distinct (map sp_id rows)" "\<And>r. sp_id (f r) = sp_id r"
    "\<And>r. open_skip n t j (f r) \<Longrightarrow> open_skip n t j r"
  shows "length (filter (open_skip n t j) (map (\<lambda>r. if sp_id r = i then f r else r) rows))
    \<le> length (filter (open_skip n t j) rows)"
  by (induction rows) (auto dest: assms(3))

lemma mark_resolved_inv:
  assumes "ingest_inv db" "mark_resolved db i = Inr db'"
  shows "ingest_inv db'"
proof -
  have db': "db' = db\<lparr>db_skipped := map (\<lambda>r. if sp_id r = i then r\<lparr>sp_resolved := True\<rparr> else r) (db_skipped db)\<rparr>"
    using assms(2) by (auto simp: mark_resolved_def split: sum.splits option.splits)
  have "map sp_id (map (\<lambda>r. if sp_id r = i then r\<lparr>sp_resolved := True\<rparr> else r) (db_skipped db)) = map sp_id (db_skipped db)"
    by auto
  moreover have "length (filter (open_skip n t j) (map (\<lambda>r. if sp_id r = i then r\<lparr>sp_resolved := True\<rparr> else r) (db_skipped db))) \<le> 1"
    for n t j
    using open_skip_update [of "db_skipped db" "\<lambda>r. r\<lparr>sp_resolved := True\<rparr>" n t j i] assms(1)
    by (auto simp: open_skip_def ingest_inv_def intro: order_trans)
  ultimately show ?thesis using assms(1) by (auto simp: db' ingest_inv_def simp del: map_map)
qed

lemma log_skipped_inv:
  assumes "ingest_inv db" "log_skipped db now n t j msg cat = Inr db'"
  shows "ingest_inv db'"
proof -
  let ?rows = "filter (open_skip n t j) (db_skipped db)"
  have "length ?rows \<le> 1" using assms(1) by (simp add: ingest_inv_def)
  then consider "?rows = []" | r where "?rows = [r]" by (cases ?rows) auto
  then show ?thesis
  proof cases
    case 1
    let ?new = "\<lparr>sp_id = db_next_skip_id db, sp_cursor = n, sp_ticker = t, sp_job_type = j,
      sp_error_message = take 1000 msg, sp_error_category = cat, sp_attempts = 1, sp_resolved = False, sp_last_attempted_at = now\<rparr>"
    have db': "db' = db\<lparr>db_skipped := db_skipped db @ [?new], db_next_skip_id := db_next_skip_id db + 1\<rparr>"
      using assms(2) 1 by (auto simp: log_skipped_def one_or_none_def split: if_splits)
    have "length (filter (open_skip n' t' j') (db_skipped db @ [?new])) \<le> 1" for n' t' j'
      using assms(1) 1 by (cases "n' = n \<and> t' = t \<and> j' = j") (auto simp: ingest_inv_def open_skip_def)
    then show ?thesis using assms(1) by (fastforce simp: db' ingest_inv_def simp del: filter_append)
  next
    case (2 r)
    let ?f = "\<lambda>r. r\<lparr>sp_attempts := sp_attempts r + 1, sp_error_message := take 1000 msg,
      sp_error_category := cat, sp_last_attempted_at := now\<rparr>"
    have db': "db' = db\<lparr>db_skipped := map (\<lambda>x. if sp_id x = sp_id r then ?f x else x) (db_skipped db)\<rparr>"
      using assms(2) 2 by (simp add: log_skipped_def one_or_none_def)
    have "map sp_id (map (\<lambda>x. if sp_id x = sp_id r then ?f x else x) (db_skipped db)) = map sp_id (db_skipped db)"
      by auto
    moreover have "length (filter (open_skip n' t' j') (map (\<lambda>x. if sp_id x = sp_id r then ?f x else x) (db_skipped db))) \<le> 1"
      for n' t' j'
      using open_skip_update [of "db_skipped db" ?f n' t' j' "sp_id r"] assms(1)
      by (auto simp: open_skip_def ingest_inv_def intro: order_trans)
    ultimately show ?thesis using assms(1) by (auto simp: db' ingest_inv_def simp del: map_map)
  qed
qed

text \<open>With the invariant a failure of a known cursor is always recorded, never \<open>MultipleResultsFound\<close>.\<close>

lemma log_skipped_total:
  assumes "ingest_inv db" "name \<in> cu_name ` set (db_cursors db)"
  shows "\<exists>db'. log_skipped db now name t j msg cat = Inr db'"
proof -
  obtain r where "one_or_none (filter (open_skip name t j) (db_skipped db)) = Inr r"
    using assms(1) one_or_none_le_1 by (fastforce simp: ingest_inv_def)
  with assms(2) show ?thesis by (cases r) (auto simp: log_skipped_def one_or_none_def)
qed

lemma log_skipped_records:
  assumes "log_skipped db now name t j msg cat = Inr db'"
  shows "\<exists>r \<in> set (db_skipped db'). open_skip name t j r"
    "\<And>r n' t' j'. r \<in> set (db_skipped db) \<Longrightarrow> open_skip n' t' j' r \<Longrightarrow> \<exists>r' \<in> set (db_skipped db'). open_skip n' t' j' r'"
    "db_stocks db' = db_stocks db \<and> db_cursors db' = db_cursors db \<and> db_registry db' = db_registry db"
proof -
  consider "filter (open_skip name t j) (db_skipped db) = []" | r where "filter (open_skip name t j) (db_skipped db) = [r]"
    using assms by (auto simp: log_skipped_def one_or_none_def split: list.splits)
  then have "(\<exists>r \<in> set (db_skipped db'). open_skip name t j r) \<and>
    (\<forall>r n' t' j'. r \<in> set (db_skipped db) \<longrightarrow> open_skip n' t' j' r \<longrightarrow> (\<exists>r' \<in> set (db_skipped db'). open_skip n' t' j' r')) \<and>
    db_stocks db' = db_stocks db \<and> db_cursors db' = db_cursors db \<and> db_registry db' = db_registry db"
  proof cases
    case 1
    with assms show ?thesis by (auto simp: log_skipped_def one_or_none_def open_skip_def split: if_splits)
  next
    case (2 r)
    then have r: "r \<in> set (db_skipped db)" "open_skip name t j r"
      by (metis filter_eq_ConsD in_set_conv_decomp list.set_intros(1) mem_Collect_eq set_filter)+
    define g :: "skipped_row \<Rightarrow> skipped_row" where "g = (\<lambda>x. if sp_id x = sp_id r then x\<lparr>sp_attempts := sp_attempts x + 1,
      sp_error_message := take 1000 msg, sp_error_category := cat, sp_last_attempted_at := now\<rparr> else x)"
    have "open_skip n' t' j' (g x) = open_skip n' t' j' x" for n' t' j' x
      by (simp add: g_def open_skip_def)
    moreover have "db' = db\<lparr>db_skipped := map g (db_skipped db)\<rparr>"
      using assms 2 by (simp add: log_skipped_def one_or_none_def g_def)
    ultimately show ?thesis using r by auto
  qed
  then show "\<exists>r \<in> set (db_skipped db'). open_skip name t j r"
    "\<And>r n' t' j'. r \<in> set (db_skipped db) \<Longrightarrow> open_skip n' t' j' r \<Longrightarrow> \<exists>r' \<in> set (db_skipped db'). open_skip n' t' j' r'"
    "db_stocks db' = db_stocks db \<and> db_cursors db' = db_cursors db \<and> db_registry db' = db_registry db"
    by blast+
qed

end
