(* ===== verification/Market_Utils.thy ===== *)
theory Market_Utils
  imports Prelude
begin

text \<open>
  \<open>backend/market_utils.py\<close>: market and currency of a ticker, and the clean-up of optional
  strings. A value read from a row is absent, a string, a NaN or another value, of which only
  the rendering matters.
\<close>

datatype cell = Missing | Str string | NaN | Other_Value string

definition INDIAN_INDEX_TICKERS :: "string list" where
  "INDIAN_INDEX_TICKERS = [''^NSEI'', ''^BSESN'', ''^INDIAVIX'']"

definition MISSING_SENTINELS :: "string list" where
  "MISSING_SENTINELS = [''nan'', ''none'', ''null'', ''n/a'', ''na'', ''nat'']"

definition endswith :: "string \<Rightarrow> string \<Rightarrow> bool" where
  "endswith s p \<longleftrightarrow> drop (length s - length p) s = p"

definition detect_market :: "string \<Rightarrow> string option \<Rightarrow> string" where
  "detect_market ticker registry_market =
     (if endswith ticker ''.NS'' \<or> endswith ticker ''.BO'' then ''india''
      else if ticker \<in> set INDIAN_INDEX_TICKERS then ''india''
      else if truthy_str registry_market \<and> str_upper (the registry_market) \<in> {''NSE'', ''BSE'', ''INDIA''} then ''india''
      else ''us'')"

definition detect_currency :: "string \<Rightarrow> string" where
  "detect_currency market = (if market = ''india'' then ''INR'' else ''USD'')"

definition is_indian_market :: "string \<Rightarrow> string option \<Rightarrow> bool" where
  "is_indian_market ticker registry_market \<longleftrightarrow> detect_market ticker registry_market = ''india''"

fun safe_str :: "cell \<Rightarrow> string option" where
  "safe_str Missing = None"
| "safe_str NaN = None"
| "safe_str (Str s) =
     (let stripped = strip s in
      if stripped = [] then None
      else if str_lower stripped \<in> set MISSING_SENTINELS then None
      else Some stripped)"
| "safe_str (Other_Value s) = Some s"

definition safe_sector :: "cell \<Rightarrow> string \<Rightarrow> string" where
  "safe_sector val fallback = str_or (safe_str val) fallback"

end
