(* ===== verification/Ingest_Jobs.thy ===== *)
theory Ingest_Jobs
  imports Ingest_Cursor Market_Utils
begin

text \<open>
  The ingestion jobs: retry with backoff and the rate-limit tracker
  (\<open>backend/pipeline/observability.py\<close>), the bulk and daily price jobs
  (\<open>backend/pipeline/jobs/ohlcv.py\<close>), the fundamentals job (\<open>jobs/fundamentals.py\<close>) and the
  retry command of \<open>backend/pipeline/runner.py\<close>. The data sources and the warehouse are
  parameters: the \<open>n\<close>-th call of the process gets an answer or fails with a classified
  \<open>SourceError\<close> or another exception. Sleeping and timing are left out; the events of the pipeline
  logger that name a ticker are kept.
\<close>

section \<open>Environment and state\<close>

datatype 'a reply =
    Answer 'a
  | Source_Fail string string
  | Other_Fail string

record fund_info =
  fi_sector :: cell
  fi_industry :: cell
  fi_market_cap :: "int option"

record ingest_env =
  ie_today :: int
  ie_now :: "nat \<Rightarrow> int"
  ie_is_nse :: bool
  ie_fetch :: "nat \<Rightarrow> string \<Rightarrow> int \<Rightarrow> int \<Rightarrow> int list reply"
  ie_insert_ohlcv :: "nat \<Rightarrow> string \<Rightarrow> int list \<Rightarrow> int option"
  ie_fetch_fund :: "nat \<Rightarrow> string \<Rightarrow> (fund_info \<times> nat) reply"
  ie_write_info :: "nat \<Rightarrow> string \<Rightarrow> (string \<times> string) option"
  ie_write_dividends :: "nat \<Rightarrow> string \<Rightarrow> string \<Rightarrow> nat \<Rightarrow> (string \<times> string) option"

datatype ticker_event =
    Ticker_Fetched string
  | Ticker_Skipped string string
  | Ticker_Failed string string string

record ingest_world =
  iw_db :: ingest_db
  iw_calls :: nat
  iw_429 :: nat
  iw_log :: "ticker_event list"

datatype outcome = Ticker_Ok | Ticker_Skip | Ticker_Bad

definition DEFAULT_BATCH_SIZE :: nat where "DEFAULT_BATCH_SIZE = 50"
definition DEFAULT_HISTORY_YEARS :: int where "DEFAULT_HISTORY_YEARS = 10"
definition MAX_RETRIES :: nat where "MAX_RETRIES = 3"
definition MAX_CONSECUTIVE_429 :: nat where "MAX_CONSECUTIVE_429 = 3"

definition RATE_LIMIT :: string where "RATE_LIMIT = ''rate_limit''"

definition log_event :: "ticker_event \<Rightarrow> ingest_world \<Rightarrow> ingest_world" where
  "log_event e w = w\<lparr>iw_log := iw_log w @ [e]\<rparr>"

text \<open>A database transaction inside a job.\<close>

definition transact :: "(ingest_db \<Rightarrow> ingest_db ingest_result) \<Rightarrow> ingest_world \<Rightarrow> unit ingest_result \<times> ingest_world" where
  "transact f w = (case f (iw_db w) of Inl e \<Rightarrow> (Inl e, w) | Inr db \<Rightarrow> (Inr (), w\<lparr>iw_db := db\<rparr>))"

section \<open>Retries and rate limits\<close>

text \<open>The loop of \<open>retry_with_backoff\<close>; \<open>last_err\<close> is what it raises when no attempt is left.\<close>

fun retry_with_backoff ::
    "(nat \<Rightarrow> 'a reply) \<Rightarrow> string \<Rightarrow> nat \<Rightarrow> ingest_error \<Rightarrow> ingest_world \<Rightarrow> 'a ingest_result \<times> ingest_world" where
  "retry_with_backoff call ticker 0 last_err w = (Inl last_err, w)"
| "retry_with_backoff call ticker (Suc attempts) last_err w =
     (let w1 = w\<lparr>iw_calls := Suc (iw_calls w)\<rparr> in
      case call (iw_calls w) of
        Answer a \<Rightarrow> (Inr a, w1)
      | Other_Fail msg \<Rightarrow> (Inl (Other_Error msg), w1)
      | Source_Fail cat msg \<Rightarrow>
          if cat = RATE_LIMIT then (Inl (Source_Error cat msg), w1)
          else retry_with_backoff call ticker attempts (Source_Error cat msg)
                 (if attempts > 0 then log_event (Ticker_Failed ticker cat msg) w1 else w1))"

definition consecutive_msg :: string where
  "consecutive_msg = ''Hit '' @ show_nat MAX_CONSECUTIVE_429 @ '' consecutive 429s, pausing cursor''"

definition record_rate_limit :: "ingest_world \<Rightarrow> unit ingest_result \<times> ingest_world" where
  "record_rate_limit w =
     (let n = Suc (iw_429 w); w1 = w\<lparr>iw_429 := n\<rparr> in
      if n \<ge> MAX_CONSECUTIVE_429 then (Inl (Source_Error RATE_LIMIT consecutive_msg), w1) else (Inr (), w1))"

definition record_success :: "ingest_world \<Rightarrow> ingest_world" where
  "record_success w = w\<lparr>iw_429 := 0\<rparr>"

definition should_pause :: "ingest_world \<Rightarrow> bool" where
  "should_pause w \<longleftrightarrow> iw_429 w \<ge> MAX_CONSECUTIVE_429"

section \<open>Prices: one ticker\<close>

definition nse_suffixed :: "string \<Rightarrow> string" where
  "nse_suffixed symbol = symbol @ ''.NS''"

definition store_as :: "stock \<Rightarrow> string" where
  "store_as s = (if sk_yf_ticker s = [] then nse_suffixed (sk_symbol s) else sk_yf_ticker s)"

definition fetch_symbol :: "ingest_env \<Rightarrow> stock \<Rightarrow> string" where
  "fetch_symbol E s = (if ie_is_nse E then str_or (sk_nse_symbol s) (sk_symbol s) else store_as s)"

text \<open>The tail of a failed ticker: the failure record, when the job has a cursor.\<close>

definition fail_ticker ::
    "ingest_env \<Rightarrow> string option \<Rightarrow> string \<Rightarrow> string \<Rightarrow> string \<Rightarrow> string \<Rightarrow> ingest_world \<Rightarrow> outcome ingest_result \<times> ingest_world" where
  "fail_ticker E cursor_name symbol job msg cat w =
     (if truthy_str cursor_name then
        (case transact (\<lambda>db. log_skipped db (ie_now E (iw_calls w)) (the cursor_name) symbol job msg cat) w of
           (Inl e, w') \<Rightarrow> (Inl e, w')
         | (Inr _, w') \<Rightarrow> (Inr Ticker_Bad, w'))
      else (Inr Ticker_Bad, w))"

definition list_min :: "int list \<Rightarrow> int" where "list_min ds = foldr min (tl ds) (hd ds)"
definition list_max :: "int list \<Rightarrow> int" where "list_max ds = foldr max (tl ds) (hd ds)"

text \<open>The registry row after \<open>rows\<close> new rows over the dates \<open>ds\<close>.\<close>

definition merged_registry :: "ingest_env \<Rightarrow> registry_row option \<Rightarrow> int \<Rightarrow> int list \<Rightarrow> registry_row" where
  "merged_registry E existing rows ds =
     \<lparr>rg_last_fetch_date = ie_today E,
      rg_total_rows = rows + (case existing of None \<Rightarrow> 0 | Some r \<Rightarrow> rg_total_rows r),
      rg_start = (case existing of Some r \<Rightarrow> (case rg_start r of Some d \<Rightarrow> Some d | None \<Rightarrow> Some (list_min ds))
                                 | None \<Rightarrow> Some (list_min ds)),
      rg_end = Some (list_max ds),
      rg_market = ''india''\<rparr>"

text \<open>Storing the fetched days and updating the registry.\<close>

definition store_prices ::
    "ingest_env \<Rightarrow> stock \<Rightarrow> string option \<Rightarrow> int list \<Rightarrow> ingest_world \<Rightarrow> outcome ingest_result \<times> ingest_world" where
  "store_prices E s cursor_name ds w =
     (let w1 = w\<lparr>iw_calls := Suc (iw_calls w)\<rparr> in
      case ie_insert_ohlcv E (iw_calls w) (store_as s) ds of
        None \<Rightarrow> fail_ticker E cursor_name (sk_symbol s) ''bulk'' ''Iceberg write failed'' ''unknown'' w1
      | Some rows \<Rightarrow>
          (let w2 = record_success w1; db = iw_db w2 in
           (Inr Ticker_Ok,
            w2\<lparr>iw_db := upsert_registry db (store_as s) (merged_registry E (get_registry db (store_as s)) rows ds)\<rparr>)))"

definition fetch_and_store ::
    "ingest_env \<Rightarrow> stock \<Rightarrow> string option \<Rightarrow> int \<Rightarrow> ingest_world \<Rightarrow> outcome ingest_result \<times> ingest_world" where
  "fetch_and_store E s cursor_name start_date w =
     (case retry_with_backoff (\<lambda>n. ie_fetch E n (fetch_symbol E s) start_date (ie_today E)) (sk_symbol s)
        MAX_RETRIES (Other_Error ''TypeError'') w of
        (Inr ds, w1) \<Rightarrow>
          (let w2 = log_event (Ticker_Fetched (sk_symbol s)) w1 in
           if ds = [] then (Inr Ticker_Skip, log_event (Ticker_Skipped (sk_symbol s) ''empty_response'') w2)
           else store_prices E s cursor_name ds w2)
      | (Inl (Source_Error cat msg), w1) \<Rightarrow>
          (case (if cat = RATE_LIMIT then record_rate_limit w1 else (Inr (), w1)) of
             (Inl e, w2) \<Rightarrow> (Inl e, w2)
           | (Inr _, w2) \<Rightarrow>
               fail_ticker E cursor_name (sk_symbol s) ''bulk'' msg cat (log_event (Ticker_Failed (sk_symbol s) cat msg) w2))
      | (Inl e, w1) \<Rightarrow> (Inl e, w1))"

definition process_ticker ::
    "ingest_env \<Rightarrow> stock \<Rightarrow> string option \<Rightarrow> ingest_world \<Rightarrow> outcome ingest_result \<times> ingest_world" where
  "process_ticker E s cursor_name w =
     (case Option.bind (get_registry (iw_db w) (store_as s)) rg_end of
        Some end_date \<Rightarrow>
          if end_date \<ge> ie_today E - 1 then (Inr Ticker_Skip, log_event (Ticker_Skipped (sk_symbol s) ''fresh'') w)
          else fetch_and_store E s cursor_name (end_date + 1) w
      | None \<Rightarrow> fetch_and_store E s cursor_name (ie_today E - 365 * DEFAULT_HISTORY_YEARS) w)"

section \<open>The bulk job\<close>

record summary =
  su_status :: string
  su_processed :: nat
  su_skipped :: nat
  su_failed :: nat

definition count_outcome :: "outcome \<Rightarrow> summary \<Rightarrow> summary" where
  "count_outcome out su =
     (case out of
        Ticker_Ok \<Rightarrow> su\<lparr>su_processed := Suc (su_processed su)\<rparr>
      | Ticker_Skip \<Rightarrow> su\<lparr>su_skipped := Suc (su_skipped su)\<rparr>
      | Ticker_Bad \<Rightarrow> su\<lparr>su_failed := Suc (su_failed su)\<rparr>)"

text \<open>
  The loop over a batch: \<open>_bounded\<close> processes the ticker and then advances the cursor. A
  \<open>SourceError\<close> stops the batch, another exception leaves the job.
\<close>

fun bulk_loop :: "ingest_env \<Rightarrow> string \<Rightarrow> stock list \<Rightarrow> summary \<Rightarrow> ingest_world \<Rightarrow> summary ingest_result \<times> ingest_world" where
  "bulk_loop E name [] su w = (Inr su, w)"
| "bulk_loop E name (s # stocks) su w =
     (case process_ticker E s (Some name) w of
        (Inl (Source_Error cat msg), w1) \<Rightarrow> (Inr (su\<lparr>su_failed := Suc (su_failed su)\<rparr>), w1)
      | (Inl e, w1) \<Rightarrow> (Inl e, w1)
      | (Inr out, w1) \<Rightarrow>
          (case transact (\<lambda>db. advance_cursor db name (sk_id s)) w1 of
             (Inl e, w2) \<Rightarrow> (Inl e, w2)
           | (Inr _, w2) \<Rightarrow> bulk_loop E name stocks (count_outcome out su) w2))"

text \<open>The end of a run: the cursor is completed when no stock is left.\<close>

definition bulk_finish :: "string \<Rightarrow> summary \<Rightarrow> ingest_world \<Rightarrow> summary ingest_result \<times> ingest_world" where
  "bulk_finish name su w =
     (case get_next_batch (iw_db w) name of
        Inl e \<Rightarrow> (Inl e, w)
      | Inr [] \<Rightarrow>
          (case transact (\<lambda>db. set_cursor_status db name ''completed'') w of
             (Inl e, w1) \<Rightarrow> (Inl e, w1)
           | (Inr _, w1) \<Rightarrow> (Inr (su\<lparr>su_status := ''completed''\<rparr>), w1))
      | Inr _ \<Rightarrow> (Inr (su\<lparr>su_status := ''in_progress''\<rparr>), w))"

text \<open>\<open>batch_size\<close> only reaches a log line.\<close>

definition run_bulk :: "ingest_env \<Rightarrow> string \<Rightarrow> nat option \<Rightarrow> ingest_world \<Rightarrow> summary ingest_result \<times> ingest_world" where
  "run_bulk E name batch_size w0 =
     (let w = w0\<lparr>iw_429 := 0\<rparr>; su = \<lparr>su_status = [], su_processed = 0, su_skipped = 0, su_failed = 0\<rparr> in
      case get_cursor (iw_db w) name of
        Inl e \<Rightarrow> (Inl e, w)
      | Inr None \<Rightarrow> (Inl (Value_Error (cursor_not_found name)), w)
      | Inr (Some c) \<Rightarrow>
          (case transact (\<lambda>db. set_cursor_status db name ''in_progress'') w of
             (Inl e, w1) \<Rightarrow> (Inl e, w1)
           | (Inr _, w1) \<Rightarrow>
               (case get_next_batch (iw_db w1) name of
                  Inl e \<Rightarrow> (Inl e, w1)
                | Inr [] \<Rightarrow>
                    (case transact (\<lambda>db. set_cursor_status db name ''completed'') w1 of
                       (Inl e, w2) \<Rightarrow> (Inl e, w2)
                     | (Inr _, w2) \<Rightarrow> (Inr (su\<lparr>su_status := ''completed''\<rparr>), w2))
                | Inr stocks \<Rightarrow>
                    (case bulk_loop E name stocks su w1 of
                       (Inl e, w2) \<Rightarrow> (Inl e, w2)
                     | (Inr su', w2) \<Rightarrow> bulk_finish name su' w2))))"

section \<open>The daily job\<close>

fun daily_tickers :: "ingest_env \<Rightarrow> stock list \<Rightarrow> summary \<Rightarrow> ingest_world \<Rightarrow> summary ingest_result \<times> ingest_world" where
  "daily_tickers E [] su w = (Inr su, w)"
| "daily_tickers E (s # stocks) su w =
     (case process_ticker E s None w of
        (Inl (Source_Error cat msg), w1) \<Rightarrow> (Inr (su\<lparr>su_failed := Suc (su_failed su)\<rparr>), w1)
      | (Inl e, w1) \<Rightarrow> (Inl e, w1)
      | (Inr out, w1) \<Rightarrow> daily_tickers E stocks (count_outcome out su) w1)"

definition daily_eligible :: "ingest_db \<Rightarrow> stock list" where
  "daily_eligible db =
     filter (\<lambda>s. Option.bind (get_registry db (if sk_yf_ticker s = [] then sk_symbol s else sk_yf_ticker s)) rg_end \<noteq> None)
       (filter sk_is_active (db_stocks db))"

definition run_daily :: "ingest_env \<Rightarrow> ingest_world \<Rightarrow> summary ingest_result \<times> ingest_world" where
  "run_daily E w0 =
     (let w = w0\<lparr>iw_429 := 0\<rparr> in
      daily_tickers E (daily_eligible (iw_db w)) \<lparr>su_status = [], su_processed = 0, su_skipped = 0, su_failed = 0\<rparr> w)"

end
