(* ===== verification/Ingest_Fundamentals.thy ===== *)
theory Ingest_Fundamentals
  imports Ingest_Jobs
begin

text \<open>
  The fundamentals job (\<open>backend/pipeline/jobs/fundamentals.py\<close>) and the commands of
  \<open>backend/pipeline/runner.py\<close> that work on cursors: retry, correct, quarterly and reset.
  \<open>asyncio.gather\<close> starts all tickers of a batch at once; the model runs them one after another in an
  order that is an argument, which gives some of the interleavings: what can go wrong here
  can go wrong there.
\<close>

section \<open>One ticker\<close>

definition fund_failed ::
    "ingest_env \<Rightarrow> string \<Rightarrow> stock \<Rightarrow> string \<Rightarrow> string \<Rightarrow> ingest_world \<Rightarrow> outcome ingest_result \<times> ingest_world" where
  "fund_failed E name s cat msg w =
     (let w1 = log_event (Ticker_Failed (sk_symbol s) cat msg) w in
      case transact (\<lambda>db. log_skipped db (ie_now E (iw_calls w)) name (sk_symbol s) ''fundamentals'' msg cat) w1 of
        (Inl e, w2) \<Rightarrow> (Inl e, w2)
      | (Inr _, w2) \<Rightarrow>
          (case transact (\<lambda>db. advance_cursor db name (sk_id s)) w2 of
             (Inl e, w3) \<Rightarrow> (Inl e, w3)
           | (Inr _, w3) \<Rightarrow> (Inr Ticker_Bad, w3)))"

text \<open>Writing \<open>company_info\<close> and the dividends: the error that stops it, if any.\<close>

definition persist_fund :: "ingest_env \<Rightarrow> stock \<Rightarrow> nat \<Rightarrow> ingest_world \<Rightarrow> (string \<times> string) option \<times> ingest_world" where
  "persist_fund E s n_dividends w =
     (let w1 = w\<lparr>iw_calls := Suc (iw_calls w)\<rparr> in
      case ie_write_info E (iw_calls w) (sk_yf_ticker s) of
        Some err \<Rightarrow> (Some err, w1)
      | None \<Rightarrow>
          if n_dividends = 0 then (None, w1)
          else (ie_write_dividends E (iw_calls w1) (sk_yf_ticker s)
                  (if sk_currency s = [] then ''INR'' else sk_currency s) n_dividends,
                w1\<lparr>iw_calls := Suc (iw_calls w1)\<rparr>))"

definition patch_stock :: "fund_info \<Rightarrow> stock \<Rightarrow> stock" where
  "patch_stock info s =
     (let s1 = (case safe_str (fi_sector info) of
                  Some x \<Rightarrow> if x \<noteq> [] \<and> sk_sector s \<noteq> Some x then s\<lparr>sk_sector := Some x\<rparr> else s | None \<Rightarrow> s);
          s2 = (case safe_str (fi_industry info) of
                  Some x \<Rightarrow> if x \<noteq> [] \<and> sk_industry s1 \<noteq> Some x then s1\<lparr>sk_industry := Some x\<rparr> else s1 | None \<Rightarrow> s1)
      in case fi_market_cap info of
           Some m \<Rightarrow> if m \<noteq> 0 \<and> sk_market_cap s2 \<noteq> Some m then s2\<lparr>sk_market_cap := Some m\<rparr> else s2
         | None \<Rightarrow> s2)"

definition process_fundamentals ::
    "ingest_env \<Rightarrow> string \<Rightarrow> stock \<Rightarrow> ingest_world \<Rightarrow> outcome ingest_result \<times> ingest_world" where
  "process_fundamentals E name s w =
     (case retry_with_backoff (\<lambda>n. ie_fetch_fund E n (sk_yf_ticker s)) (sk_symbol s) MAX_RETRIES (Other_Error ''TypeError'') w of
        (Inl (Source_Error cat msg), w1) \<Rightarrow>
          (case (if cat = RATE_LIMIT then record_rate_limit w1 else (Inr (), w1)) of
             (Inl e, w2) \<Rightarrow> (Inl e, w2)
           | (Inr _, w2) \<Rightarrow> fund_failed E name s cat msg w2)
      | (Inl e, w1) \<Rightarrow> (Inl e, w1)
      | (Inr (info, n_dividends), w1) \<Rightarrow>
          (case persist_fund E s n_dividends w1 of
             (Some (cat, msg), w2) \<Rightarrow> fund_failed E name s cat msg w2
           | (None, w2) \<Rightarrow>
               (let db = iw_db w2;
                    w3 = w2\<lparr>iw_db := db\<lparr>db_stocks :=
                      map (\<lambda>t. if sk_id t = sk_id s then patch_stock info t else t) (db_stocks db)\<rparr>\<rparr> in
                case transact (\<lambda>db. advance_cursor db name (sk_id s)) w3 of
                  (Inl e, w4) \<Rightarrow> (Inl e, w4)
                | (Inr _, w4) \<Rightarrow> (Inr Ticker_Ok, record_success (log_event (Ticker_Fetched (sk_symbol s)) w4)))))"

section \<open>The batch\<close>

text \<open>\<open>gather(..., return_exceptions=True)\<close>: an exception of one ticker counts as a failure.\<close>

fun fund_loop :: "ingest_env \<Rightarrow> string \<Rightarrow> stock list \<Rightarrow> summary \<Rightarrow> ingest_world \<Rightarrow> summary \<times> ingest_world" where
  "fund_loop E name [] su w = (su, w)"
| "fund_loop E name (s # stocks) su w =
     (case process_fundamentals E name s w of
        (Inr Ticker_Ok, w1) \<Rightarrow> fund_loop E name stocks (su\<lparr>su_processed := Suc (su_processed su)\<rparr>) w1
      | (_, w1) \<Rightarrow> fund_loop E name stocks (su\<lparr>su_failed := Suc (su_failed su)\<rparr>) w1)"

text \<open>The cursor is created, or its batch size adjusted.\<close>

definition ensure_cursor :: "string \<Rightarrow> nat option \<Rightarrow> ingest_db \<Rightarrow> ingest_db ingest_result" where
  "ensure_cursor name batch_size db =
     (let bs = (case batch_size of Some n \<Rightarrow> (if n = 0 then DEFAULT_BATCH_SIZE else n) | None \<Rightarrow> DEFAULT_BATCH_SIZE) in
      case get_cursor db name of
        Inl e \<Rightarrow> Inl e
      | Inr None \<Rightarrow> create_cursor db name (int (length (filter sk_is_active (db_stocks db)))) bs
      | Inr (Some c) \<Rightarrow>
          (case batch_size of
             Some n \<Rightarrow> if n \<noteq> 0 \<and> cu_batch_size c \<noteq> n then update_cursor db name (\<lambda>c. c\<lparr>cu_batch_size := n\<rparr>) else Inr db
           | None \<Rightarrow> Inr db))"

definition run_fundamentals ::
    "ingest_env \<Rightarrow> string \<Rightarrow> nat option \<Rightarrow> (stock list \<Rightarrow> stock list) \<Rightarrow> ingest_world \<Rightarrow> summary ingest_result \<times> ingest_world" where
  "run_fundamentals E name batch_size order w0 =
     (let su = \<lparr>su_status = ''ok'', su_processed = 0, su_skipped = 0, su_failed = 0\<rparr> in
      case transact (ensure_cursor name batch_size) w0 of
        (Inl e, w) \<Rightarrow> (Inl e, w)
      | (Inr _, w) \<Rightarrow>
          (case transact (\<lambda>db. set_cursor_status db name ''in_progress'') w of
             (Inl e, w1) \<Rightarrow> (Inl e, w1)
           | (Inr _, w1) \<Rightarrow>
               (case get_next_batch (iw_db w1) name of
                  Inl e \<Rightarrow> (Inl e, w1)
                | Inr [] \<Rightarrow>
                    (case transact (\<lambda>db. set_cursor_status db name ''completed'') w1 of
                       (Inl e, w2) \<Rightarrow> (Inl e, w2)
                     | (Inr _, w2) \<Rightarrow> (Inr (su\<lparr>su_status := ''completed''\<rparr>), w2))
                | Inr batch \<Rightarrow>
                    (case fund_loop E name (order batch) su (w1\<lparr>iw_429 := 0\<rparr>) of
                       (su', w2) \<Rightarrow>
                         if should_pause w2 then
                           (case transact (\<lambda>db. set_cursor_status db name ''paused'') w2 of
                              (Inl e, w3) \<Rightarrow> (Inl e, w3)
                            | (Inr _, w3) \<Rightarrow> (Inr (su'\<lparr>su_status := ''paused''\<rparr>), w3))
                         else (Inr su', w2)))))"

section \<open>Commands\<close>

definition find_stock :: "ingest_db \<Rightarrow> string \<Rightarrow> stock option ingest_result" where
  "find_stock db symbol = one_or_none (filter (\<lambda>s. sk_symbol s = symbol) (db_stocks db))"

text \<open>The loop of \<open>_cmd_retry\<close>: numbers of retried and failed records.\<close>

fun retry_loop ::
    "ingest_env \<Rightarrow> string \<Rightarrow> skipped_row list \<Rightarrow> nat \<times> nat \<Rightarrow> ingest_world \<Rightarrow> (nat \<times> nat) ingest_result \<times> ingest_world" where
  "retry_loop E name [] (ok, failed) w = (Inr (ok, failed), w)"
| "retry_loop E name (r # recs) (ok, failed) w =
     (case find_stock (iw_db w) (sp_ticker r) of
        Inl e \<Rightarrow> (Inl e, w)
      | Inr None \<Rightarrow> retry_loop E name recs (ok, Suc failed) w
      | Inr (Some s) \<Rightarrow>
          (case process_ticker E s (Some name) w of
             (Inl e, w1) \<Rightarrow> (Inl e, w1)
           | (Inr Ticker_Bad, w1) \<Rightarrow> retry_loop E name recs (ok, Suc failed) w1
           | (Inr _, w1) \<Rightarrow>
               (case transact (\<lambda>db. mark_resolved db (sp_id r)) w1 of
                  (Inl e, w2) \<Rightarrow> (Inl e, w2)
                | (Inr _, w2) \<Rightarrow> retry_loop E name recs (Suc ok, failed) w2)))"

definition cmd_retry ::
    "ingest_env \<Rightarrow> string \<Rightarrow> string option \<Rightarrow> bool \<Rightarrow> ingest_world \<Rightarrow> (nat \<times> nat) ingest_result \<times> ingest_world" where
  "cmd_retry E name ticker all_categories w0 =
     (let w = w0\<lparr>iw_429 := 0\<rparr>;
          recs = (if truthy_str ticker then get_skipped (iw_db w) (Some name) None (Some False) ticker
                  else get_retryable_skipped (iw_db w) name all_categories)
      in if recs = [] then (Inr (0, 0), w) else retry_loop E name recs (0, 0) w)"

definition cmd_correct :: "ingest_env \<Rightarrow> string \<Rightarrow> ingest_world \<Rightarrow> outcome option ingest_result \<times> ingest_world" where
  "cmd_correct E arg w =
     (case find_stock (iw_db w) (strip (str_upper arg)) of
        Inl e \<Rightarrow> (Inl e, w)
      | Inr None \<Rightarrow> (Inr None, w)
      | Inr (Some s) \<Rightarrow>
          (case process_ticker E s None (w\<lparr>iw_429 := 0\<rparr>) of
             (Inl e, w1) \<Rightarrow> (Inl e, w1)
           | (Inr out, w1) \<Rightarrow> (Inr (Some out), w1)))"

text \<open>
  \<open>_cmd_quarterly\<close>: \<open>fetch_quarterly\<close>, the statement tool, succeeds or raises; numbers of processed and
  failed tickers, \<^const>\<open>None\<close> when there was nothing to do.
\<close>

fun quarterly_loop ::
    "(nat \<Rightarrow> string \<Rightarrow> bool) \<Rightarrow> string \<Rightarrow> stock list \<Rightarrow> nat \<times> nat \<Rightarrow> ingest_world \<Rightarrow> (nat \<times> nat) ingest_result \<times> ingest_world" where
  "quarterly_loop fetch_quarterly name [] (n, failed) w = (Inr (n, failed), w)"
| "quarterly_loop fetch_quarterly name (s # stocks) (n, failed) w =
     (let fine = fetch_quarterly (iw_calls w) (sk_yf_ticker s); w1 = w\<lparr>iw_calls := Suc (iw_calls w)\<rparr> in
      case transact (\<lambda>db. advance_cursor db name (sk_id s)) w1 of
        (Inl e, w2) \<Rightarrow> (Inl e, w2)
      | (Inr _, w2) \<Rightarrow> quarterly_loop fetch_quarterly name stocks (Suc n, if fine then failed else Suc failed) w2)"

definition cmd_quarterly ::
    "(nat \<Rightarrow> string \<Rightarrow> bool) \<Rightarrow> string \<Rightarrow> nat \<Rightarrow> ingest_world \<Rightarrow> (nat \<times> nat) option ingest_result \<times> ingest_world" where
  "cmd_quarterly fetch_quarterly name batch_size w0 =
     (case (case get_cursor (iw_db w0) name of
              Inl e \<Rightarrow> (Inl e, w0)
            | Inr None \<Rightarrow> transact (\<lambda>db. create_cursor db name (int (length (filter sk_is_active (db_stocks db)))) batch_size) w0
            | Inr (Some c) \<Rightarrow> (Inr (), w0)) of
        (Inl e, w) \<Rightarrow> (Inl e, w)
      | (Inr _, w) \<Rightarrow>
          (case get_cursor (iw_db w) name of
             Inl e \<Rightarrow> (Inl e, w)
           | Inr None \<Rightarrow> (Inl (Value_Error (cursor_not_found name)), w)
           | Inr (Some c) \<Rightarrow>
               if cu_status c = ''completed'' then (Inr None, w)
               else
                 (case transact (\<lambda>db. set_cursor_status db name ''in_progress'') w of
                    (Inl e, w1) \<Rightarrow> (Inl e, w1)
                  | (Inr _, w1) \<Rightarrow>
                      (case get_next_batch (iw_db w1) name of
                         Inl e \<Rightarrow> (Inl e, w1)
                       | Inr [] \<Rightarrow>
                           (case transact (\<lambda>db. set_cursor_status db name ''completed'') w1 of
                              (Inl e, w2) \<Rightarrow> (Inl e, w2)
                            | (Inr _, w2) \<Rightarrow> (Inr None, w2))
                       | Inr batch \<Rightarrow>
                           (case quarterly_loop fetch_quarterly name batch (0, 0) w1 of
                              (Inl e, w2) \<Rightarrow> (Inl e, w2)
                            | (Inr r, w2) \<Rightarrow> (Inr (Some r), w2))))))"

end
