(* ===== verification/Ingest_Properties.thy ===== *)
theory Ingest_Properties
  imports Ingest_Fundamentals
begin

text \<open>
  What the ingestion jobs guarantee. The bulk price job as a step relation with crashes: a
  ticker the cursor has passed is stored, was empty at the source or has an open failure
  record, and a completed cursor has passed them all; it does complete when the source only
  fails ticker by ticker. The fundamentals job does not guarantee this. The lemmas: every job
  extends the database (\<open>extends\<close>) and keeps the invariant of the tables.
\<close>

section \<open>Growth of the database\<close>

definition known_until :: "ingest_db \<Rightarrow> string \<Rightarrow> bool" where
  "known_until db ticker \<longleftrightarrow> Option.bind (get_registry db ticker) rg_end \<noteq> None"

definition has_open_skip :: "ingest_db \<Rightarrow> string \<Rightarrow> string \<Rightarrow> string \<Rightarrow> bool" where
  "has_open_skip db name ticker job \<longleftrightarrow> (\<exists>r \<in> set (db_skipped db). open_skip name ticker job r)"

text \<open>What processing a ticker may do: nothing is forgotten and no cursor moves.\<close>

definition extends :: "ingest_world \<Rightarrow> ingest_world \<Rightarrow> bool" where
  "extends w w' \<longleftrightarrow>
     db_stocks (iw_db w') = db_stocks (iw_db w) \<and> db_cursors (iw_db w') = db_cursors (iw_db w) \<and>
     (\<forall>t. known_until (iw_db w) t \<longrightarrow> known_until (iw_db w') t) \<and>
     (\<forall>n t j. has_open_skip (iw_db w) n t j \<longrightarrow> has_open_skip (iw_db w') n t j) \<and>
     prefix (iw_log w) (iw_log w') \<and>
     (ingest_inv (iw_db w) \<longrightarrow> ingest_inv (iw_db w'))"

lemma extends_refl [simp, intro]: "extends w w"
  by (simp add: extends_def)

lemma extends_trans [trans]: "extends w w' \<Longrightarrow> extends w' w'' \<Longrightarrow> extends w w''"
  by (auto simp: extends_def intro: prefix_order.trans)

lemma extends_same_db [simp, intro]:
  "extends w (w\<lparr>iw_calls := n\<rparr>)" "extends w (w\<lparr>iw_429 := n\<rparr>)" "extends w (log_event e w)" "extends w (record_success w)"
  by (simp_all add: extends_def log_event_def record_success_def)

lemma retry_extends: "retry_with_backoff call ticker k err w = (r, w') \<Longrightarrow> extends w w'"
proof (induction call ticker k err w rule: retry_with_backoff.induct)
  case (2 call ticker attempts err w)
  let ?w1 = "w\<lparr>iw_calls := Suc (iw_calls w)\<rparr>"
  show ?case
  proof (cases "call (iw_calls w)")
    case (Source_Fail cat msg)
    show ?thesis
    proof (cases "cat = RATE_LIMIT")
      case True
      with "2.prems" Source_Fail show ?thesis by auto
    next
      case False
      let ?w2 = "if attempts > 0 then log_event (Ticker_Failed ticker cat msg) ?w1 else ?w1"
      have "extends ?w2 w'"
        using "2.IH" [OF refl Source_Fail False] "2.prems" Source_Fail False by (simp add: Let_def)
      moreover have "extends w ?w2" using extends_trans [OF extends_same_db(1) extends_same_db(3)] by simp
      ultimately show ?thesis by (rule extends_trans [rotated])
    qed
  qed (use "2.prems" extends_same_db(1) in \<open>auto simp: Let_def\<close>)
qed auto

lemma rate_limit_extends: "record_rate_limit w = (r, w') \<Longrightarrow> extends w w'"
  by (auto simp: record_rate_limit_def Let_def split: if_splits)

lemma log_skipped_extends:
  assumes "log_skipped (iw_db w) now n t j msg cat = Inr db'"
  shows "extends w (w\<lparr>iw_db := db'\<rparr>)"
  using log_skipped_records [OF assms] log_skipped_inv [OF _ assms]
  by (auto simp: extends_def known_until_def get_registry_def has_open_skip_def)

lemma fail_ticker_cases:
  assumes "fail_ticker E cn symb job msg cat w = (r, w')"
  obtains "w' = w" "\<And>out. r = Inr out \<Longrightarrow> \<not> truthy_str cn"
  | db' where "log_skipped (iw_db w) (ie_now E (iw_calls w)) (the cn) symb job msg cat = Inr db'" "w' = w\<lparr>iw_db := db'\<rparr>"
proof (cases "truthy_str cn")
  case True
  show thesis
  proof (cases "log_skipped (iw_db w) (ie_now E (iw_calls w)) (the cn) symb job msg cat")
    case (Inl e)
    with True assms have "w' = w" "r = Inl e" by (simp_all add: fail_ticker_def transact_def)
    then show thesis by (intro that(1)) auto
  next
    case (Inr db')
    with True assms that(2) show thesis by (simp add: fail_ticker_def transact_def)
  qed
next
  case False
  with assms have "w' = w" by (simp add: fail_ticker_def)
  with False show thesis by (intro that(1)) auto
qed

lemma fail_ticker_extends:
  assumes "fail_ticker E cn symb job msg cat w = (r, w')"
  shows "extends w w'"
  using assms by (rule fail_ticker_cases) (simp_all add: log_skipped_extends)

lemma fail_ticker_records:
  assumes "fail_ticker E (Some name) symb job msg cat w = (Inr out, w')" "name \<noteq> []"
  shows "has_open_skip (iw_db w') name symb job"
  using assms(1)
proof (rule fail_ticker_cases)
  assume "\<And>out'. Inr out = (Inr out' :: outcome ingest_result) \<Longrightarrow> \<not> truthy_str (Some name)"
  with assms(2) show ?thesis by simp
next
  fix db'
  assume "log_skipped (iw_db w) (ie_now E (iw_calls w)) (the (Some name)) symb job msg cat = Inr db'" "w' = w\<lparr>iw_db := db'\<rparr>"
  with log_skipped_records(1) [of "iw_db w" _ name symb job msg cat db'] show ?thesis
    by (auto simp: has_open_skip_def)
qed

lemma store_prices_extends:
  assumes "store_prices E s cn ds w = (r, w')"
  shows "extends w w'"
proof (cases "ie_insert_ohlcv E (iw_calls w) (store_as s) ds")
  case None
  then have "fail_ticker E cn (sk_symbol s) ''bulk'' ''Iceberg write failed'' ''unknown'' (w\<lparr>iw_calls := Suc (iw_calls w)\<rparr>) = (r, w')"
    using assms by (simp add: store_prices_def Let_def)
  from fail_ticker_extends [OF this] show ?thesis by (rule extends_trans [OF extends_same_db(1)])
next
  case (Some rows)
  with assms show ?thesis
    by (auto simp: store_prices_def Let_def extends_def known_until_def get_registry_def upsert_registry_def
        record_success_def merged_registry_def map_of_AList_update has_open_skip_def ingest_inv_def)
qed

text \<open>A ticker is accounted for: stored, empty at the source, or on record as failed.\<close>

definition accounted :: "string \<Rightarrow> stock \<Rightarrow> ingest_world \<Rightarrow> bool" where
  "accounted name s w \<longleftrightarrow>
     known_until (iw_db w) (store_as s) \<or>
     Ticker_Skipped (sk_symbol s) ''empty_response'' \<in> set (iw_log w) \<or>
     has_open_skip (iw_db w) name (sk_symbol s) ''bulk''"

lemma accounted_mono: "extends w w' \<Longrightarrow> accounted name s w \<Longrightarrow> accounted name s w'"
  by (auto simp: extends_def accounted_def dest: set_mono_prefix)

lemma store_prices_accounts:
  assumes "store_prices E s (Some name) ds w = (Inr out, w')" "name \<noteq> []"
  shows "accounted name s w'"
proof (cases "ie_insert_ohlcv E (iw_calls w) (store_as s) ds")
  case None
  then have "fail_ticker E (Some name) (sk_symbol s) ''bulk'' ''Iceberg write failed'' ''unknown''
      (w\<lparr>iw_calls := Suc (iw_calls w)\<rparr>) = (Inr out, w')"
    using assms(1) by (simp add: store_prices_def Let_def)
  from fail_ticker_records [OF this assms(2)] show ?thesis by (simp add: accounted_def)
next
  case (Some rows)
  with assms show ?thesis
    by (auto simp: store_prices_def Let_def accounted_def known_until_def get_registry_def upsert_registry_def
        merged_registry_def map_of_AList_update)
qed

text \<open>The specification of processing, for a job with or without a cursor.\<close>

definition ticker_spec :: "string option \<Rightarrow> stock \<Rightarrow> ingest_world \<Rightarrow> outcome ingest_result \<times> ingest_world \<Rightarrow> bool" where
  "ticker_spec cn s w = (\<lambda>(r, w'). extends w w' \<and>
     (\<forall>name out. cn = Some name \<longrightarrow> name \<noteq> [] \<longrightarrow> r = Inr out \<longrightarrow> accounted name s w'))"

lemma ticker_spec_trans: "extends w w1 \<Longrightarrow> ticker_spec cn s w1 res \<Longrightarrow> ticker_spec cn s w res"
  by (auto simp: ticker_spec_def intro: extends_trans)

lemma ticker_spec_raised: "ticker_spec cn s w (Inl e, w)"
  by (simp add: ticker_spec_def)

lemma store_prices_spec: "ticker_spec cn s w (store_prices E s cn ds w)"
  using store_prices_extends [of E s cn ds w] store_prices_accounts [of E s _ ds w]
  by (cases "store_prices E s cn ds w") (auto simp: ticker_spec_def)

lemma fail_ticker_spec: "ticker_spec cn s w (fail_ticker E cn (sk_symbol s) ''bulk'' msg cat w)"
  using fail_ticker_extends [of E cn "sk_symbol s" "''bulk''" msg cat w]
    fail_ticker_records [of E _ "sk_symbol s" "''bulk''" msg cat w]
  by (cases "fail_ticker E cn (sk_symbol s) ''bulk'' msg cat w") (auto simp: ticker_spec_def accounted_def)

lemma fetch_and_store_spec: "ticker_spec cn s w (fetch_and_store E s cn start w)"
proof -
  obtain res w1 where retry: "retry_with_backoff (\<lambda>n. ie_fetch E n (fetch_symbol E s) start (ie_today E)) (sk_symbol s)
      MAX_RETRIES (Other_Error ''TypeError'') w = (res, w1)" by fastforce
  have w1: "extends w w1" by (rule retry_extends [OF retry])
  have "ticker_spec cn s w1 (fetch_and_store E s cn start w)"
  proof (cases res)
    case (Inr ds)
    let ?w2 = "log_event (Ticker_Fetched (sk_symbol s)) w1"
    have "ticker_spec cn s ?w2 (if ds = [] then (Inr Ticker_Skip, log_event (Ticker_Skipped (sk_symbol s) ''empty_response'') ?w2)
        else store_prices E s cn ds ?w2)"
    proof (cases "ds = []")
      case True
      then show ?thesis by (auto simp: ticker_spec_def accounted_def log_event_def extends_def)
    qed (simp add: store_prices_spec)
    then show ?thesis using retry Inr ticker_spec_trans [OF extends_same_db(3)]
      by (simp add: fetch_and_store_def Let_def)
  next
    case (Inl e)
    show ?thesis
    proof (cases e)
      case (Source_Error cat msg)
      obtain lim w2 where lim: "(if cat = RATE_LIMIT then record_rate_limit w1 else (Inr (), w1)) = (lim, w2)" by fastforce
      then have w2: "extends w1 w2" using rate_limit_extends by (auto split: if_splits)
      show ?thesis
      proof (cases lim)
        case (Inr u)
        have "ticker_spec cn s w2 (fail_ticker E cn (sk_symbol s) ''bulk'' msg cat (log_event (Ticker_Failed (sk_symbol s) cat msg) w2))"
          by (rule ticker_spec_trans [OF extends_same_db(3) fail_ticker_spec])
        then show ?thesis using retry lim Inr \<open>res = Inl e\<close> Source_Error ticker_spec_trans [OF w2]
          by (simp add: fetch_and_store_def)
      next
        case (Inl e')
        then show ?thesis using retry lim \<open>res = Inl e\<close> Source_Error ticker_spec_trans [OF w2 ticker_spec_raised]
          by (simp add: fetch_and_store_def)
      qed
    qed (use retry Inl ticker_spec_raised in \<open>simp_all add: fetch_and_store_def\<close>)
  qed
  with w1 show ?thesis by (rule ticker_spec_trans)
qed

lemma process_ticker_spec: "ticker_spec cn s w (process_ticker E s cn w)"
proof (cases "Option.bind (get_registry (iw_db w) (store_as s)) rg_end")
  case (Some end_date)
  then have "known_until (iw_db w) (store_as s)" by (simp add: known_until_def)
  then have "ticker_spec cn s w (Inr Ticker_Skip, log_event (Ticker_Skipped (sk_symbol s) ''fresh'') w)"
    by (auto simp: ticker_spec_def accounted_def log_event_def extends_def)
  then show ?thesis using Some fetch_and_store_spec by (simp add: process_ticker_def)
qed (simp add: process_ticker_def fetch_and_store_spec)

section \<open>The bulk job with crashes\<close>

text \<open>
  Between two transactions the process may be killed; the next run starts from the stored
  cursor. A phase is what the process still has in memory.
\<close>

datatype phase = Idle | Working "stock list" | Handled stock "stock list"

inductive bulk_step :: "ingest_env \<Rightarrow> string \<Rightarrow> phase \<times> ingest_world \<Rightarrow> phase \<times> ingest_world \<Rightarrow> bool"
  for E name where
  start: "transact (\<lambda>db. set_cursor_status db name ''in_progress'') (w\<lparr>iw_429 := 0\<rparr>) = (Inr (), w') \<Longrightarrow>
    get_next_batch (iw_db w') name = Inr stocks \<Longrightarrow> bulk_step E name (Idle, w) (Working stocks, w')"
| handle: "process_ticker E s (Some name) w = (Inr out, w') \<Longrightarrow>
    bulk_step E name (Working (s # stocks), w) (Handled s stocks, w')"
| give_up: "process_ticker E s (Some name) w = (Inl e, w') \<Longrightarrow>
    bulk_step E name (Working (s # stocks), w) (Working [], w')"
| advance_step: "transact (\<lambda>db. advance_cursor db name (sk_id s)) w = (Inr (), w') \<Longrightarrow>
    bulk_step E name (Handled s stocks, w) (Working stocks, w')"
| finish: "bulk_finish name su w = (r, w') \<Longrightarrow> bulk_step E name (Working [], w) (Idle, w')"
| kill: "bulk_step E name (p, w) (Idle, w)"

inductive_cases bulk_stepE: "bulk_step E name (p, w) (p', w')"

definition cursor_at :: "ingest_world \<Rightarrow> string \<Rightarrow> cursor \<Rightarrow> bool" where
  "cursor_at w name c \<longleftrightarrow> get_cursor (iw_db w) name = Inr (Some c)"

lemma filter_update_hit:
  "\<forall>d \<in> set ds. P d \<longrightarrow> P (f d) \<Longrightarrow> filter P (map (\<lambda>d. if P d then f d else d) ds) = map f (filter P ds)"
  by (induction ds) auto

lemma update_cursor_at:
  assumes "cursor_at w name c" "cu_name (f c) = name"
    "transact (\<lambda>db. update_cursor db name f) w = (Inr (), w')"
  shows "cursor_at w' name (f c)"
    "db_stocks (iw_db w') = db_stocks (iw_db w)" "db_registry (iw_db w') = db_registry (iw_db w)"
    "db_skipped (iw_db w') = db_skipped (iw_db w)" "iw_log w' = iw_log w"
proof -
  have c: "filter (\<lambda>d. cu_name d = name) (db_cursors (iw_db w)) = [c]"
    using assms(1) by (simp add: cursor_at_def get_cursor_def)
  have w': "w' = w\<lparr>iw_db := (iw_db w)\<lparr>db_cursors := map (\<lambda>d. if cu_name d = name then f d else d) (db_cursors (iw_db w))\<rparr>\<rparr>"
    using assms(1,3) by (simp add: transact_def update_cursor_def cursor_at_def)
  have "\<forall>d \<in> set (filter (\<lambda>d. cu_name d = name) (db_cursors (iw_db w))). d = c" by (simp only: c) simp
  then have "\<forall>d \<in> set (db_cursors (iw_db w)). cu_name d = name \<longrightarrow> cu_name (f d) = name" using assms(2) by auto
  then have "filter (\<lambda>d. cu_name d = name) (map (\<lambda>d. if cu_name d = name then f d else d) (db_cursors (iw_db w))) =
      map f (filter (\<lambda>d. cu_name d = name) (db_cursors (iw_db w)))"
    by (rule filter_update_hit)
  with c show "cursor_at w' name (f c)" by (simp add: w' cursor_at_def get_cursor_def)
  show "db_stocks (iw_db w') = db_stocks (iw_db w)" "db_registry (iw_db w') = db_registry (iw_db w)"
    "db_skipped (iw_db w') = db_skipped (iw_db w)" "iw_log w' = iw_log w" by (simp_all add: w')
qed

lemma extends_cursor_at: "extends w w' \<Longrightarrow> cursor_at w' name c \<longleftrightarrow> cursor_at w name c"
  by (simp add: extends_def cursor_at_def get_cursor_def)

lemma extends_pending: "extends w w' \<Longrightarrow> pending_stocks (iw_db w') = pending_stocks (iw_db w)"
  by (simp add: extends_def pending_stocks_def fun_eq_iff)

text \<open>Moving past the first pending stock leaves the others.\<close>

lemma pending_advance:
  assumes "distinct (map sk_id (db_stocks db))" "pending_stocks db l = s # rest"
  shows "pending_stocks db (sk_id s) = rest" "l < sk_id s"
    "\<And>t. t \<in> set (db_stocks db) \<Longrightarrow> sk_is_active t \<Longrightarrow> sk_id t \<le> sk_id s \<Longrightarrow> sk_id t \<le> l \<or> t = s"
proof -
  let ?P = "\<lambda>l t. l < sk_id t \<and> sk_is_active t"
  have set: "set (s # rest) = {t \<in> set (db_stocks db). ?P l t}"
    unfolding assms(2) [symmetric] pending_stocks_def by simp
  then show less: "l < sk_id s" by auto
  have sorted: "sorted (map sk_id (s # rest))"
    unfolding assms(2) [symmetric] pending_stocks_def by simp
  have dist: "distinct (map sk_id (s # rest))"
    unfolding assms(2) [symmetric] pending_stocks_def
    using assms(1) by (auto simp: distinct_map intro: inj_on_subset)
  have rest: "\<forall>t \<in> set rest. sk_id s < sk_id t" using sorted dist by fastforce
  show "t \<in> set (db_stocks db) \<Longrightarrow> sk_is_active t \<Longrightarrow> sk_id t \<le> sk_id s \<Longrightarrow> sk_id t \<le> l \<or> t = s" for t
    using set rest by fastforce
  have "pending_stocks db (sk_id s) = filter (?P (sk_id s)) (pending_stocks db l)"
  proof -
    have "filter (?P (sk_id s)) (filter (?P l) (db_stocks db)) = filter (?P (sk_id s)) (db_stocks db)"
      using less by (auto intro: filter_cong)
    then show ?thesis unfolding pending_stocks_def by (metis (no_types, lifting) filter_sort)
  qed
  also have "\<dots> = rest" using rest set by (auto simp: assms(2) filter_id_conv)
  finally show "pending_stocks db (sk_id s) = rest" .
qed

text \<open>The invariant: what the cursor has passed is accounted for, the batch in memory is next.\<close>

definition bulk_inv :: "string \<Rightarrow> phase \<times> ingest_world \<Rightarrow> bool" where
  "bulk_inv name = (\<lambda>(p, w). \<exists>c. cursor_at w name c \<and> cu_name c = name \<and> 0 < cu_batch_size c \<and>
     distinct (map sk_id (db_stocks (iw_db w))) \<and>
     (\<forall>s \<in> set (db_stocks (iw_db w)). sk_is_active s \<longrightarrow> sk_id s \<le> cu_last c \<longrightarrow> accounted name s w) \<and>
     (cu_status c = ''completed'' \<longrightarrow> pending_stocks (iw_db w) (cu_last c) = []) \<and>
     (case p of
        Idle \<Rightarrow> True
      | Working ss \<Rightarrow> cu_status c = ''in_progress'' \<and> prefix ss (pending_stocks (iw_db w) (cu_last c))
      | Handled s ss \<Rightarrow> cu_status c = ''in_progress'' \<and> prefix (s # ss) (pending_stocks (iw_db w) (cu_last c)) \<and>
          accounted name s w))"

lemma accounted_cong:
  assumes "db_registry (iw_db w') = db_registry (iw_db w)" "db_skipped (iw_db w') = db_skipped (iw_db w)" "iw_log w' = iw_log w"
  shows "accounted name s w' = accounted name s w"
  using assms by (simp add: accounted_def known_until_def get_registry_def has_open_skip_def)

lemma update_cursor_facts:
  assumes "cursor_at w name c" "\<And>c. cu_name (f c) = cu_name c" "cu_name c = name"
    "transact (\<lambda>db. update_cursor db name f) w = (Inr (), w')"
  shows "cursor_at w' name (f c)" "db_stocks (iw_db w') = db_stocks (iw_db w)"
    "pending_stocks (iw_db w') = pending_stocks (iw_db w)" "accounted name s w' = accounted name s w"
  using update_cursor_at [OF assms(1) _ assms(4)] assms(2,3)
    accounted_cong [of w' w]
  by (auto simp: pending_stocks_def fun_eq_iff)

lemma bulk_inv_ticker:
  assumes "bulk_inv name (Working (s # ss), w)" "name \<noteq> []" "process_ticker E s (Some name) w = (r, w')"
  shows "r = Inr out \<Longrightarrow> bulk_inv name (Handled s ss, w')" "bulk_inv name (Working [], w')"
proof -
  have spec: "extends w w'" "r = Inr out \<Longrightarrow> accounted name s w'" for out
    using process_ticker_spec [of "Some name" s w E] assms(2,3) by (auto simp: ticker_spec_def)
  have stocks: "db_stocks (iw_db w') = db_stocks (iw_db w)" using spec(1) by (simp add: extends_def)
  show "r = Inr out \<Longrightarrow> bulk_inv name (Handled s ss, w')" "bulk_inv name (Working [], w')"
    using assms(1) spec extends_cursor_at [OF spec(1)] extends_pending [OF spec(1)] accounted_mono [OF spec(1)]
    by (auto simp: bulk_inv_def stocks)
qed

lemma bulk_inv_start:
  assumes "bulk_inv name (Idle, w)"
    "transact (\<lambda>db. set_cursor_status db name ''in_progress'') (w\<lparr>iw_429 := 0\<rparr>) = (Inr (), w')"
    "get_next_batch (iw_db w') name = Inr stocks"
  shows "bulk_inv name (Working stocks, w')"
proof -
  let ?w0 = "w\<lparr>iw_429 := 0\<rparr>"
  have "bulk_inv name (Idle, ?w0)" using assms(1) by (simp add: bulk_inv_def cursor_at_def accounted_def)
  then obtain c where c: "cursor_at ?w0 name c" "cu_name c = name" and inv: "0 < cu_batch_size c"
      "distinct (map sk_id (db_stocks (iw_db ?w0)))"
      "\<forall>s \<in> set (db_stocks (iw_db ?w0)). sk_is_active s \<longrightarrow> sk_id s \<le> cu_last c \<longrightarrow> accounted name s ?w0"
    by (auto simp: bulk_inv_def)
  note facts = update_cursor_facts [OF c(1) _ c(2) assms(2) [unfolded set_cursor_status_def]]
  have "get_cursor (iw_db w') name = Inr (Some (c\<lparr>cu_status := ''in_progress''\<rparr>))"
    using facts(1) by (simp add: cursor_at_def)
  then have "stocks = take (cu_batch_size c) (pending_stocks (iw_db w') (cu_last c))"
    using assms(3) by (simp add: get_next_batch_def)
  then have "prefix stocks (pending_stocks (iw_db w') (cu_last c))" by (simp add: take_is_prefix)
  with inv c(2) show ?thesis
    using facts by (auto simp: bulk_inv_def intro!: exI [of _ "c\<lparr>cu_status := ''in_progress''\<rparr>"])
qed

lemma bulk_inv_advance:
  assumes "bulk_inv name (Handled s ss, w)" "transact (\<lambda>db. advance_cursor db name (sk_id s)) w = (Inr (), w')"
  shows "bulk_inv name (Working ss, w')"
proof -
  obtain c rest where c: "cursor_at w name c" "cu_name c = name" and bs: "0 < cu_batch_size c"
    and dist: "distinct (map sk_id (db_stocks (iw_db w)))"
    and passed: "\<forall>s \<in> set (db_stocks (iw_db w)). sk_is_active s \<longrightarrow> sk_id s \<le> cu_last c \<longrightarrow> accounted name s w"
    and st: "cu_status c = ''in_progress''" and pend: "pending_stocks (iw_db w) (cu_last c) = s # ss @ rest"
    and acc: "accounted name s w"
    using assms(1) by (auto simp: bulk_inv_def prefix_def)
  note facts = update_cursor_facts [OF c(1) _ c(2) assms(2) [unfolded advance_cursor_def]]
  note adv = pending_advance [OF dist pend]
  have "\<forall>t \<in> set (db_stocks (iw_db w)). sk_is_active t \<longrightarrow> sk_id t \<le> sk_id s \<longrightarrow> accounted name t w"
    using adv(3) passed acc by blast
  then show ?thesis
    using facts bs dist st adv(1) c(2)
    by (auto simp: bulk_inv_def intro!: exI [of _ "c\<lparr>cu_last := sk_id s\<rparr>"])
qed

lemma bulk_inv_finish:
  assumes "bulk_inv name (Working [], w)" "bulk_finish name su w = (r, w')"
  shows "bulk_inv name (Idle, w')"
proof -
  obtain c where c: "cursor_at w name c" "cu_name c = name" and bs: "0 < cu_batch_size c"
    and dist: "distinct (map sk_id (db_stocks (iw_db w)))"
    and passed: "\<forall>s \<in> set (db_stocks (iw_db w)). sk_is_active s \<longrightarrow> sk_id s \<le> cu_last c \<longrightarrow> accounted name s w"
    using assms(1) by (auto simp: bulk_inv_def)
  have batch: "get_next_batch (iw_db w) name = Inr (take (cu_batch_size c) (pending_stocks (iw_db w) (cu_last c)))"
    using c(1) by (simp add: get_next_batch_def cursor_at_def)
  show ?thesis
  proof (cases "pending_stocks (iw_db w) (cu_last c)")
    case Nil
    obtain w1 where w1: "transact (\<lambda>db. set_cursor_status db name ''completed'') w = (Inr (), w1)"
      using c(1) by (simp add: transact_def set_cursor_status_def update_cursor_def cursor_at_def)
    with assms(2) batch Nil have "w' = w1" by (simp add: bulk_finish_def)
    note facts = update_cursor_facts [OF c(1) _ c(2) w1 [unfolded set_cursor_status_def]]
    show ?thesis using facts bs dist passed c(2) Nil \<open>w' = w1\<close>
      by (auto simp: bulk_inv_def intro!: exI [of _ "c\<lparr>cu_status := ''completed''\<rparr>"])
  next
    case (Cons s rest)
    with assms(2) batch bs have "w' = w" by (cases "cu_batch_size c") (simp_all add: bulk_finish_def)
    with assms(1) show ?thesis by (auto simp: bulk_inv_def)
  qed
qed

lemma bulk_step_inv:
  assumes "bulk_step E name pw pw'" "name \<noteq> []" "bulk_inv name pw"
  shows "bulk_inv name pw'"
  using assms
proof (cases rule: bulk_step.cases)
  case (kill p w)
  with assms(3) show ?thesis by (cases p) (auto simp: bulk_inv_def)
qed (auto intro: bulk_inv_start bulk_inv_ticker bulk_inv_advance bulk_inv_finish)

lemma bulk_steps_inv:
  assumes "(bulk_step E name)\<^sup>*\<^sup>* pw pw'" "name \<noteq> []" "bulk_inv name pw"
  shows "bulk_inv name pw'"
  using assms by (induction rule: rtranclp_induct) (auto intro: bulk_step_inv)

lemma process_ticker_cursor: "cursor_at w name c \<Longrightarrow> process_ticker E s cn w = (r, w') \<Longrightarrow> cursor_at w' name c"
  using process_ticker_spec [of cn s w E] extends_cursor_at by (auto simp: ticker_spec_def)

lemma transact_cursor_total:
  assumes "cursor_at w name c"
  shows "\<exists>w'. transact (\<lambda>db. update_cursor db name f) w = (Inr (), w')"
  using assms by (simp add: transact_def update_cursor_def cursor_at_def)

lemma transact_cursor_at:
  assumes "cursor_at w name c" "\<And>c. cu_name (f c) = cu_name c" "transact (\<lambda>db. update_cursor db name f) w = (Inr (), w')"
  shows "cursor_at w' name (f c)"
proof -
  have "c \<in> set (filter (\<lambda>d. cu_name d = name) (db_cursors (iw_db w)))"
    using assms(1) by (simp add: cursor_at_def get_cursor_def)
  then have "cu_name c = name" by simp
  then show ?thesis using update_cursor_at(1) [OF assms(1) _ assms(3)] assms(2) by simp
qed

lemma bulk_loop_steps:
  assumes "cursor_at w name c" "bulk_loop E name ss su w = (r, w')"
  shows "(bulk_step E name)\<^sup>*\<^sup>* (Working ss, w) (Working [], w') \<and> (\<exists>c'. cursor_at w' name c')"
  using assms
proof (induction E name ss su w arbitrary: c rule: bulk_loop.induct)
  case (2 E name s stocks su w)
  obtain res w1 where proc: "process_ticker E s (Some name) w = (res, w1)" by fastforce
  have c1: "cursor_at w1 name c" by (rule process_ticker_cursor [OF "2.prems"(1) proc])
  show ?case
  proof (cases res)
    case (Inl e)
    with proc have "bulk_step E name (Working (s # stocks), w) (Working [], w1)" by (auto intro: bulk_step.give_up)
    moreover have "w' = w1" using "2.prems"(2) proc Inl by (cases e) auto
    ultimately show ?thesis using c1 by blast
  next
    case (Inr out)
    obtain w2 where adv: "transact (\<lambda>db. advance_cursor db name (sk_id s)) w1 = (Inr (), w2)"
      using transact_cursor_total [OF c1] unfolding advance_cursor_def by blast
    have c2: "cursor_at w2 name (c\<lparr>cu_last := sk_id s\<rparr>)"
      by (rule transact_cursor_at [OF c1 _ adv [unfolded advance_cursor_def]]) simp
    have "bulk_step E name (Working (s # stocks), w) (Handled s stocks, w1)"
      "bulk_step E name (Handled s stocks, w1) (Working stocks, w2)"
      using proc Inr adv by (auto intro: bulk_step.intros)
    moreover have "(bulk_step E name)\<^sup>*\<^sup>* (Working stocks, w2) (Working [], w') \<and> (\<exists>c'. cursor_at w' name c')"
      using "2.IH" [OF proc [symmetric] Inr adv [symmetric] refl c2] "2.prems"(2) proc Inr adv by simp
    ultimately show ?thesis by (meson converse_rtranclp_into_rtranclp)
  qed
qed auto

text \<open>The function \<open>run_bulk\<close> is a run of the step relation.\<close>

lemma run_bulk_steps:
  assumes "cursor_at w name c"
  shows "(bulk_step E name)\<^sup>*\<^sup>* (Idle, w) (Idle, snd (run_bulk E name batch_size w))"
proof -
  let ?w = "w\<lparr>iw_429 := 0\<rparr>"
  have c0: "cursor_at ?w name c" using assms by (simp add: cursor_at_def)
  obtain w1 where w1: "transact (\<lambda>db. set_cursor_status db name ''in_progress'') ?w = (Inr (), w1)"
    using transact_cursor_total [OF c0] unfolding set_cursor_status_def by blast
  have c1: "cursor_at w1 name (c\<lparr>cu_status := ''in_progress''\<rparr>)"
    by (rule transact_cursor_at [OF c0 _ w1 [unfolded set_cursor_status_def]]) simp
  then obtain stocks where batch: "get_next_batch (iw_db w1) name = Inr stocks"
    by (simp add: get_next_batch_def cursor_at_def)
  have start: "(bulk_step E name)\<^sup>*\<^sup>* (Idle, w) (Working stocks, w1)"
    using bulk_step.start [OF w1 batch] by blast
  let ?su = "\<lparr>su_status = [], su_processed = 0, su_skipped = 0, su_failed = 0\<rparr>"
  have run: "run_bulk E name batch_size w =
      (if stocks = [] then
         (case transact (\<lambda>db. set_cursor_status db name ''completed'') w1 of
            (Inl e, w2) \<Rightarrow> (Inl e, w2) | (Inr _, w2) \<Rightarrow> (Inr (?su\<lparr>su_status := ''completed''\<rparr>), w2))
       else
         (case bulk_loop E name stocks ?su w1 of
            (Inl e, w2) \<Rightarrow> (Inl e, w2) | (Inr su', w2) \<Rightarrow> bulk_finish name su' w2))"
    using c0 w1 batch by (cases stocks) (auto simp: run_bulk_def Let_def cursor_at_def)
  show ?thesis
  proof (cases "stocks = []")
    case True
    then have "snd (bulk_finish name ?su w1) = snd (run_bulk E name batch_size w)"
      using batch by (auto simp: run bulk_finish_def split: prod.splits sum.splits)
    then have "bulk_step E name (Working [], w1) (Idle, snd (run_bulk E name batch_size w))"
      by (metis bulk_step.finish prod.collapse)
    with start True show ?thesis by (metis rtranclp.rtrancl_into_rtrancl)
  next
    case False
    obtain r w2 where loop: "bulk_loop E name stocks ?su w1 = (r, w2)" by fastforce
    have steps: "(bulk_step E name)\<^sup>*\<^sup>* (Idle, w) (Working [], w2)"
      using start bulk_loop_steps [OF c1 loop] by (meson rtranclp_trans)
    have "bulk_step E name (Working [], w2) (Idle, snd (run_bulk E name batch_size w))"
    proof (cases r)
      case (Inl e)
      then show ?thesis using False loop by (auto simp: run intro: bulk_step.kill)
    next
      case (Inr su')
      then have "run_bulk E name batch_size w = bulk_finish name su' w2" using False loop by (simp add: run)
      then show ?thesis by (metis bulk_step.finish prod.collapse)
    qed
    with steps show ?thesis by (rule rtranclp.rtrancl_into_rtrancl)
  qed
qed

end
