(* ===== verification/Ingest_Claims.thy ===== *)
theory Ingest_Claims
  imports Ingest_Properties
begin

text \<open>
  The properties of ingestion: the bulk job loses no ticker over crashes and restarts and
  completes when the source only fails ticker by ticker; the fundamentals job can pass over a
  ticker for good; the retry command closes failures of other jobs; the tables keep their
  invariant.
\<close>

section \<open>The bulk job loses no ticker\<close>

definition fresh_cursor :: "ingest_world \<Rightarrow> string \<Rightarrow> bool" where
  "fresh_cursor w name \<longleftrightarrow>
     (case get_cursor (iw_db w) name of
        Inr (Some c) \<Rightarrow> cu_last c = 0 \<and> cu_status c = ''pending'' \<and> 0 < cu_batch_size c
      | _ \<Rightarrow> False) \<and>
     distinct (map sk_id (db_stocks (iw_db w))) \<and> (\<forall>s \<in> set (db_stocks (iw_db w)). 0 < sk_id s)"

lemma fresh_cursor_inv: "fresh_cursor w name \<Longrightarrow> bulk_inv name (Idle, w)"
proof -
  assume fresh: "fresh_cursor w name"
  then obtain c where c: "get_cursor (iw_db w) name = Inr (Some c)" "cu_last c = 0" "cu_status c = ''pending''" "0 < cu_batch_size c"
    by (auto simp: fresh_cursor_def split: sum.splits option.splits)
  have "c \<in> set (filter (\<lambda>d. cu_name d = name) (db_cursors (iw_db w)))" using c(1) by (simp add: get_cursor_def)
  then have "cu_name c = name" by simp
  then show ?thesis using fresh c by (fastforce simp: bulk_inv_def cursor_at_def fresh_cursor_def)
qed

text \<open>
  C24: starting from a fresh cursor, over any sequence of runs, each killed at any transaction
  or ended by an exception, every active stock the cursor has passed is accounted for (its prices are
  stored, its source was empty, or it has an open failure record), and once the cursor is
  completed every active stock is.
\<close>

theorem bulk_loses_no_ticker:
  assumes "fresh_cursor w0 name" "name \<noteq> []" "(bulk_step E name)\<^sup>*\<^sup>* (Idle, w0) (p, w)"
  shows "\<exists>c. get_cursor (iw_db w) name = Inr (Some c) \<and>
    (\<forall>s \<in> set (db_stocks (iw_db w)). sk_is_active s \<and> (sk_id s \<le> cu_last c \<or> cu_status c = ''completed'') \<longrightarrow>
       accounted name s w)"
proof -
  have "bulk_inv name (p, w)" by (rule bulk_steps_inv [OF assms(3,2) fresh_cursor_inv [OF assms(1)]])
  then obtain c where c: "get_cursor (iw_db w) name = Inr (Some c)"
    and passed: "\<forall>s \<in> set (db_stocks (iw_db w)). sk_is_active s \<longrightarrow> sk_id s \<le> cu_last c \<longrightarrow> accounted name s w"
    and completed: "cu_status c = ''completed'' \<longrightarrow> pending_stocks (iw_db w) (cu_last c) = []"
    by (auto simp: bulk_inv_def cursor_at_def)
  have "sk_id s \<le> cu_last c" if "cu_status c = ''completed''" "s \<in> set (db_stocks (iw_db w))" "sk_is_active s" for s
  proof -
    have "s \<notin> set (pending_stocks (iw_db w) (cu_last c))" using completed that(1) by simp
    then show ?thesis using that(2,3) by (auto simp: pending_stocks_def)
  qed
  with c passed show ?thesis by blast
qed

definition example_stock :: "int \<Rightarrow> string \<Rightarrow> stock" where
  "example_stock i symb = \<lparr>sk_id = i, sk_symbol = symb, sk_yf_ticker = symb @ ''.NS'', sk_nse_symbol = None,
     sk_sector = None, sk_industry = None, sk_market_cap = None, sk_currency = ''INR'', sk_is_active = True\<rparr>"

definition example_ingest :: "string \<Rightarrow> string list \<Rightarrow> ingest_world" where
  "example_ingest name symbols =
     \<lparr>iw_db = \<lparr>db_stocks = map (\<lambda>(i, s). example_stock (int (Suc i)) s) (enumerate 0 symbols),
        db_cursors = [\<lparr>cu_name = name, cu_total = int (length symbols), cu_last = 0, cu_batch_size = 2, cu_status = ''pending''\<rparr>],
        db_skipped = [], db_next_skip_id = 1, db_registry = []\<rparr>,
      iw_calls = 0, iw_429 = 0, iw_log = []\<rparr>"

definition example_env :: "(nat \<Rightarrow> string \<Rightarrow> int list reply) \<Rightarrow> ingest_env" where
  "example_env f = \<lparr>ie_today = 20000, ie_now = int, ie_is_nse = False, ie_fetch = (\<lambda>n s a b. f n s),
     ie_insert_ohlcv = (\<lambda>n s ds. Some (int (length ds))),
     ie_fetch_fund = (\<lambda>n s. if s = ''C.NS'' \<or> s = ''A.NS'' \<or> s = ''B.NS'' then Source_Fail RATE_LIMIT ''429''
        else Answer (\<lparr>fi_sector = Missing, fi_industry = Missing, fi_market_cap = None\<rparr>, 0)),
     ie_write_info = (\<lambda>n s. None), ie_write_dividends = (\<lambda>n s c k. None)\<rparr>"

abbreviation "ticker_b_fails \<equiv> \<lambda>(n :: nat) s. if s = ''B.NS'' then Source_Fail ''timeout'' ''slow'' else Answer [19998, 19999]"

abbreviation "example_bulk \<equiv> example_ingest ''bulk'' [''A'', ''B'', ''C'']"

lemma example_bulk_fresh: "fresh_cursor example_bulk ''bulk''"
  by (simp add: fresh_cursor_def example_ingest_def get_cursor_def one_or_none_def example_stock_def)

theorem bulk_loses_no_ticker_witness:
  "\<exists>w c. (bulk_step (example_env ticker_b_fails) ''bulk'')\<^sup>*\<^sup>* (Idle, example_bulk) (Idle, w) \<and>
     get_cursor (iw_db w) ''bulk'' = Inr (Some c) \<and>
     (\<forall>s \<in> set (db_stocks (iw_db w)). sk_is_active s \<and> (sk_id s \<le> cu_last c \<or> cu_status c = ''completed'') \<longrightarrow>
        accounted ''bulk'' s w)"
proof -
  let ?w = "snd (run_bulk (example_env ticker_b_fails) ''bulk'' None example_bulk)"
  obtain c where "cursor_at example_bulk ''bulk'' c"
    by (simp add: cursor_at_def example_ingest_def get_cursor_def one_or_none_def)
  from run_bulk_steps [OF this] have steps: "(bulk_step (example_env ticker_b_fails) ''bulk'')\<^sup>*\<^sup>* (Idle, example_bulk) (Idle, ?w)" .
  with bulk_loses_no_ticker [OF example_bulk_fresh _ steps] show ?thesis by blast
qed

section \<open>The bulk job completes\<close>

text \<open>The source neither rate-limits nor raises anything but a classified error.\<close>

definition calm :: "ingest_env \<Rightarrow> bool" where
  "calm E \<longleftrightarrow> (\<forall>n s a b. case ie_fetch E n s a b of
     Answer _ \<Rightarrow> True | Source_Fail cat msg \<Rightarrow> cat \<noteq> RATE_LIMIT | Other_Fail _ \<Rightarrow> False)"

lemma calm_retry:
  assumes "\<And>n. case call n of Answer _ \<Rightarrow> True | Source_Fail cat msg \<Rightarrow> cat \<noteq> RATE_LIMIT | Other_Fail _ \<Rightarrow> False"
    "0 < k \<or> (\<exists>cat msg. err = Source_Error cat msg \<and> cat \<noteq> RATE_LIMIT)"
    "retry_with_backoff call ticker k err w = (r, w')"
  shows "(\<exists>a. r = Inr a) \<or> (\<exists>cat msg. r = Inl (Source_Error cat msg) \<and> cat \<noteq> RATE_LIMIT)"
  using assms(2,3)
proof (induction k arbitrary: err w)
  case (Suc k)
  show ?case
  proof (cases "call (iw_calls w)")
    case (Source_Fail cat msg)
    then have "cat \<noteq> RATE_LIMIT" using assms(1) [of "iw_calls w"] by simp
    with Suc.prems Source_Fail show ?thesis
      using Suc.IH [of "Source_Error cat msg"] by (auto simp: Let_def)
  qed (use assms(1) [of "iw_calls w"] Suc.prems in \<open>auto simp: Let_def\<close>)
qed auto

lemma fail_ticker_total:
  assumes "ingest_inv (iw_db w)" "cursor_at w name c"
  shows "\<exists>out w'. fail_ticker E (Some name) symb job msg cat w = (Inr out, w')"
proof -
  have "c \<in> set (filter (\<lambda>d. cu_name d = name) (db_cursors (iw_db w)))"
    using assms(2) by (simp add: cursor_at_def get_cursor_def)
  then have "name \<in> cu_name ` set (db_cursors (iw_db w))" by auto
  from log_skipped_total [OF assms(1) this] obtain db' where
    "log_skipped (iw_db w) (ie_now E (iw_calls w)) name symb job msg cat = Inr db'" by blast
  then show ?thesis by (simp add: fail_ticker_def transact_def)
qed

lemma extends_inv: "extends w w' \<Longrightarrow> ingest_inv (iw_db w) \<Longrightarrow> ingest_inv (iw_db w')"
  by (simp add: extends_def)

lemma calm_process:
  assumes "calm E" "ingest_inv (iw_db w)" "cursor_at w name c"
  shows "\<exists>out w'. process_ticker E s (Some name) w = (Inr out, w')"
proof -
  have fetch: "\<exists>out w'. fetch_and_store E s (Some name) start w = (Inr out, w')" for start
  proof -
    obtain r w1 where retry: "retry_with_backoff (\<lambda>n. ie_fetch E n (fetch_symbol E s) start (ie_today E)) (sk_symbol s)
        MAX_RETRIES (Other_Error ''TypeError'') w = (r, w1)" by fastforce
    have w1: "extends w w1" by (rule retry_extends [OF retry])
    have keep: "ingest_inv (iw_db w1)" "cursor_at w1 name c"
      using extends_inv [OF w1] extends_cursor_at [OF w1] assms(2,3) by auto
    have "(\<exists>a. r = Inr a) \<or> (\<exists>cat msg. r = Inl (Source_Error cat msg) \<and> cat \<noteq> RATE_LIMIT)"
      by (rule calm_retry [OF _ _ retry]) (use assms(1) in \<open>simp_all add: calm_def MAX_RETRIES_def\<close>)
    then show ?thesis
    proof (elim disjE exE conjE)
      fix ds assume ds: "r = Inr ds"
      let ?w2 = "log_event (Ticker_Fetched (sk_symbol s)) w1"
      have "ingest_inv (iw_db (?w2\<lparr>iw_calls := n\<rparr>))" "cursor_at (?w2\<lparr>iw_calls := n\<rparr>) name c" for n
        using keep by (simp_all add: log_event_def cursor_at_def)
      from fail_ticker_total [OF this] have "\<exists>out w'. store_prices E s (Some name) ds ?w2 = (Inr out, w')"
        by (cases "ie_insert_ohlcv E (iw_calls ?w2) (store_as s) ds") (simp_all add: store_prices_def Let_def)
      then show ?thesis using retry ds by (cases "ds = []") (simp_all add: fetch_and_store_def Let_def)
    next
      fix cat msg assume bad: "r = Inl (Source_Error cat msg)" "cat \<noteq> RATE_LIMIT"
      have "ingest_inv (iw_db (log_event e w1))" "cursor_at (log_event e w1) name c" for e
        using keep by (simp_all add: log_event_def cursor_at_def)
      from fail_ticker_total [OF this] show ?thesis
        using retry bad by (simp add: fetch_and_store_def)
    qed
  qed
  show ?thesis by (cases "Option.bind (get_registry (iw_db w) (store_as s)) rg_end") (simp_all add: process_ticker_def fetch)
qed

text \<open>Where a run stands: the cursor, what it still has to do, the invariants.\<close>

definition bulk_at :: "string \<Rightarrow> nat \<Rightarrow> stock list \<Rightarrow> ingest_world \<Rightarrow> bool" where
  "bulk_at name bs pend w \<longleftrightarrow> ingest_inv (iw_db w) \<and> distinct (map sk_id (db_stocks (iw_db w))) \<and>
     (\<exists>c. cursor_at w name c \<and> cu_name c = name \<and> cu_batch_size c = bs \<and> pending_stocks (iw_db w) (cu_last c) = pend)"

lemma bulk_at_cursor:
  assumes "bulk_at name bs pend w" "\<And>c. cu_name (f c) = cu_name c \<and> cu_batch_size (f c) = cu_batch_size c"
    "transact (\<lambda>db. update_cursor db name f) w = (Inr (), w')"
    "\<And>c. cursor_at w name c \<Longrightarrow> pending_stocks (iw_db w) (cu_last (f c)) = pend'"
  shows "bulk_at name bs pend' w'"
proof -
  obtain c where c: "cursor_at w name c" "cu_name c = name" "cu_batch_size c = bs"
    and inv: "ingest_inv (iw_db w)" "distinct (map sk_id (db_stocks (iw_db w)))"
    using assms(1) by (auto simp: bulk_at_def)
  note facts = update_cursor_facts [OF c(1) _ c(2) assms(3)]
  have "update_cursor (iw_db w) name f = Inr (iw_db w')" using assms(3) by (auto simp: transact_def split: sum.splits)
  then have "ingest_inv (iw_db w')" using update_cursor_inv [OF inv(1)] assms(2) by blast
  then show ?thesis using facts assms(2,4) c inv(2) by (auto simp: bulk_at_def intro!: exI [of _ "f c"])
qed

lemma bulk_loop_calm:
  assumes "calm E" "bulk_at name bs (ss @ rest) w"
  shows "\<exists>su' w'. bulk_loop E name ss su w = (Inr su', w') \<and> bulk_at name bs rest w'"
  using assms(2)
proof (induction ss arbitrary: su w)
  case (Cons s ss)
  obtain c where c: "cursor_at w name c" "cu_name c = name" "cu_batch_size c = bs"
    and pend: "pending_stocks (iw_db w) (cu_last c) = s # (ss @ rest)"
    and inv: "ingest_inv (iw_db w)" "distinct (map sk_id (db_stocks (iw_db w)))"
    using Cons.prems by (auto simp: bulk_at_def)
  obtain out w1 where proc: "process_ticker E s (Some name) w = (Inr out, w1)"
    using calm_process [OF assms(1) inv(1) c(1)] by blast
  have ext: "extends w w1" using process_ticker_spec [of "Some name" s w E] proc by (simp add: ticker_spec_def)
  have c1: "cursor_at w1 name c" using extends_cursor_at [OF ext] c(1) by simp
  have w1: "bulk_at name bs (s # (ss @ rest)) w1"
    using extends_inv [OF ext] extends_pending [OF ext] c1 c pend inv ext by (auto simp: bulk_at_def extends_def)
  obtain w2 where adv: "transact (\<lambda>db. advance_cursor db name (sk_id s)) w1 = (Inr (), w2)"
    using transact_cursor_total [OF c1] unfolding advance_cursor_def by blast
  have "bulk_at name bs (ss @ rest) w2"
  proof (rule bulk_at_cursor [OF w1 _ adv [unfolded advance_cursor_def]])
    have "distinct (map sk_id (db_stocks (iw_db w1)))" "pending_stocks (iw_db w1) (cu_last c) = s # (ss @ rest)"
      using w1 c1 by (auto simp: bulk_at_def cursor_at_def)
    from pending_advance(1) [OF this]
    show "pending_stocks (iw_db w1) (cu_last (d\<lparr>cu_last := sk_id s\<rparr>)) = ss @ rest" for d :: cursor by simp
  qed simp
  from Cons.IH [OF this] proc adv show ?case by simp
qed simp

lemma bulk_finish_calm:
  assumes "bulk_at name bs pend w" "0 < bs"
  shows "bulk_at name bs pend (snd (bulk_finish name su w)) \<and>
    (pend = [] \<longrightarrow> (\<exists>c. cursor_at (snd (bulk_finish name su w)) name c \<and> cu_status c = ''completed''))"
proof -
  obtain c where c: "cursor_at w name c" "cu_name c = name" "cu_batch_size c = bs" "pending_stocks (iw_db w) (cu_last c) = pend"
    using assms(1) by (auto simp: bulk_at_def)
  have batch: "get_next_batch (iw_db w) name = Inr (take bs pend)"
    using c by (simp add: get_next_batch_def cursor_at_def)
  show ?thesis
  proof (cases pend)
    case Nil
    obtain w1 where w1: "transact (\<lambda>db. set_cursor_status db name ''completed'') w = (Inr (), w1)"
      using transact_cursor_total [OF c(1)] unfolding set_cursor_status_def by blast
    have "bulk_at name bs pend w1"
      by (rule bulk_at_cursor [OF assms(1) _ w1 [unfolded set_cursor_status_def]]) (use c in \<open>auto simp: cursor_at_def\<close>)
    moreover have "cursor_at w1 name (c\<lparr>cu_status := ''completed''\<rparr>)"
      by (rule transact_cursor_at [OF c(1) _ w1 [unfolded set_cursor_status_def]]) simp
    ultimately show ?thesis using Nil batch w1 by (auto simp: bulk_finish_def intro!: exI [of _ "c\<lparr>cu_status := ''completed''\<rparr>"])
  next
    case (Cons s rest)
    then show ?thesis using batch assms by (cases bs) (auto simp: bulk_finish_def)
  qed
qed

lemma run_bulk_calm:
  assumes "calm E" "bulk_at name bs pend w" "0 < bs"
  shows "bulk_at name bs (drop bs pend) (snd (run_bulk E name b w)) \<and>
    (drop bs pend = [] \<longrightarrow> (\<exists>c. cursor_at (snd (run_bulk E name b w)) name c \<and> cu_status c = ''completed''))"
proof -
  let ?w = "w\<lparr>iw_429 := 0\<rparr>" let ?su = "\<lparr>su_status = [], su_processed = 0, su_skipped = 0, su_failed = 0\<rparr>"
  have w0: "bulk_at name bs pend ?w" using assms(2) by (simp add: bulk_at_def cursor_at_def)
  then obtain c where c: "cursor_at ?w name c" "cu_name c = name" "cu_batch_size c = bs" "pending_stocks (iw_db ?w) (cu_last c) = pend"
    by (auto simp: bulk_at_def)
  obtain w1 where w1: "transact (\<lambda>db. set_cursor_status db name ''in_progress'') ?w = (Inr (), w1)"
    using transact_cursor_total [OF c(1)] unfolding set_cursor_status_def by blast
  have at1: "bulk_at name bs pend w1"
    by (rule bulk_at_cursor [OF w0 _ w1 [unfolded set_cursor_status_def]]) (use c in \<open>auto simp: cursor_at_def\<close>)
  then have batch: "get_next_batch (iw_db w1) name = Inr (take bs pend)"
    by (auto simp: bulk_at_def get_next_batch_def cursor_at_def)
  show ?thesis
  proof (cases "pend = []")
    case True
    then have "snd (run_bulk E name b w) = snd (bulk_finish name ?su w1)"
      using c(1) w1 batch by (auto simp: run_bulk_def bulk_finish_def Let_def cursor_at_def split: prod.splits sum.splits)
    with bulk_finish_calm [OF at1 assms(3), of ?su] True show ?thesis by simp
  next
    case False
    obtain su' w2 where loop: "bulk_loop E name (take bs pend) ?su w1 = (Inr su', w2)" and at2: "bulk_at name bs (drop bs pend) w2"
      using bulk_loop_calm [OF assms(1), of name bs "take bs pend" "drop bs pend" w1 ?su] at1 by auto
    have "take bs pend \<noteq> []" using False assms(3) by simp
    then have "run_bulk E name b w = bulk_finish name su' w2"
      using c(1) w1 batch loop by (auto simp: run_bulk_def Let_def cursor_at_def split: list.splits)
    with bulk_finish_calm [OF at2 assms(3), of su'] show ?thesis by simp
  qed
qed

text \<open>
  With a source that only fails ticker by ticker the bulk job completes: after \<open>k\<close> runs, if \<open>k\<close>
  batches hold the stocks still pending, the cursor is completed.
\<close>

theorem bulk_completes:
  assumes "calm E" "ingest_inv (iw_db w)" "distinct (map sk_id (db_stocks (iw_db w)))"
    "get_cursor (iw_db w) name = Inr (Some c)" "0 < k" "0 < cu_batch_size c"
    "length (pending_stocks (iw_db w) (cu_last c)) \<le> k * cu_batch_size c"
  shows "\<exists>c'. get_cursor (iw_db (((\<lambda>w. snd (run_bulk E name None w)) ^^ k) w)) name = Inr (Some c') \<and> cu_status c' = ''completed''"
proof -
  let ?run = "\<lambda>w. snd (run_bulk E name None w)" let ?bs = "cu_batch_size c" let ?pend = "pending_stocks (iw_db w) (cu_last c)"
  have "c \<in> set (filter (\<lambda>d. cu_name d = name) (db_cursors (iw_db w)))" using assms(4) by (simp add: get_cursor_def)
  then have at0: "bulk_at name ?bs ?pend w" using assms(2-4) by (auto simp: bulk_at_def cursor_at_def)
  have "bulk_at name ?bs (drop (j * ?bs) ?pend) ((?run ^^ j) w)" for j
  proof (induction j)
    case (Suc j)
    from run_bulk_calm [OF assms(1) this assms(6)] show ?case by (simp add: add.commute)
  qed (simp add: at0)
  from run_bulk_calm [OF assms(1) this assms(6), of "k - 1"] assms(5,7)
  show ?thesis by (cases k) (auto simp: cursor_at_def)
qed

lemma example_bulk_inv: "ingest_inv (iw_db example_bulk)"
  by (simp add: ingest_inv_def example_ingest_def)

lemma ticker_b_fails_calm: "calm (example_env ticker_b_fails)"
  by (simp add: calm_def example_env_def RATE_LIMIT_def)

theorem bulk_completes_witness:
  "\<exists>c. get_cursor (iw_db (((\<lambda>w. snd (run_bulk (example_env ticker_b_fails) ''bulk'' None w)) ^^ 2) example_bulk)) ''bulk'' =
     Inr (Some c) \<and> cu_status c = ''completed''"
proof -
  have "get_cursor (iw_db example_bulk) ''bulk'' =
    Inr (Some \<lparr>cu_name = ''bulk'', cu_total = 3, cu_last = 0, cu_batch_size = 2, cu_status = ''pending''\<rparr>)"
    by (simp add: example_ingest_def get_cursor_def one_or_none_def)
  from bulk_completes [OF ticker_b_fails_calm example_bulk_inv _ this, of 2] show ?thesis
    by (simp add: example_ingest_def example_stock_def pending_stocks_def)
qed

section \<open>Every job keeps the invariant of the tables\<close>

abbreviation sound :: "ingest_world \<Rightarrow> bool" where
  "sound w \<equiv> ingest_inv (iw_db w)"

text \<open>Soundness through one step of a job: a call, its error branch, the rest of the job.\<close>

lemma step_sound:
  assumes "sound (snd m)" "\<And>e w. sound w \<Longrightarrow> sound (snd (f e w))" "\<And>a w. sound w \<Longrightarrow> sound (snd (g a w))"
  shows "sound (snd (case m of (Inl e, w) \<Rightarrow> f e w | (Inr a, w) \<Rightarrow> g a w))"
  using assms by (cases m; cases "fst m") auto

lemma sound_simps [simp]: "sound (w\<lparr>iw_429 := n\<rparr>) = sound w" "sound (w\<lparr>iw_calls := n\<rparr>) = sound w"
  "sound (log_event e w) = sound w" "sound (record_success w) = sound w"
  by (simp_all add: log_event_def record_success_def)

lemma transact_sound:
  assumes "sound w" "\<And>db db'. ingest_inv db \<Longrightarrow> f db = Inr db' \<Longrightarrow> ingest_inv db'"
  shows "sound (snd (transact f w))"
  using assms by (cases "f (iw_db w)") (auto simp: transact_def)

lemma transact_job_sound:
  assumes "sound w"
  shows "sound (snd (transact (\<lambda>db. set_cursor_status db name st) w))"
    "sound (snd (transact (\<lambda>db. advance_cursor db name i) w))"
    "sound (snd (transact (\<lambda>db. create_cursor db name (n db) bs) w))"
    "sound (snd (transact (\<lambda>db. log_skipped db now name t j msg cat) w))"
    "sound (snd (transact (\<lambda>db. mark_resolved db k) w))"
  by (rule transact_sound [OF assms]; erule (1) cursor_ops_inv log_skipped_inv mark_resolved_inv)+

lemma process_ticker_sound: "sound w \<Longrightarrow> sound (snd (process_ticker E s cn w))"
  using process_ticker_spec [of cn s w E] by (auto simp: ticker_spec_def extends_def split: prod.splits)

lemma retry_sound: "sound w \<Longrightarrow> sound (snd (retry_with_backoff call ticker k err w))"
  using retry_extends [of call ticker k err w] extends_inv by (metis prod.collapse)

lemma bulk_loop_sound: "sound w \<Longrightarrow> sound (snd (bulk_loop E name ss su w))"
proof (induction ss arbitrary: su w)
  case (Cons s ss)
  show ?case unfolding bulk_loop.simps
    by (rule step_sound [OF process_ticker_sound [OF Cons.prems]])
       (auto split: ingest_error.splits intro!: step_sound transact_job_sound Cons.IH)
qed simp

lemma daily_tickers_sound: "sound w \<Longrightarrow> sound (snd (daily_tickers E ss su w))"
proof (induction ss arbitrary: su w)
  case (Cons s ss)
  show ?case unfolding daily_tickers.simps
    by (rule step_sound [OF process_ticker_sound [OF Cons.prems]])
       (auto split: ingest_error.splits intro!: Cons.IH)
qed simp

lemma bulk_finish_sound: "sound w \<Longrightarrow> sound (snd (bulk_finish name su w))"
  by (auto simp: bulk_finish_def split: sum.splits list.splits intro!: step_sound transact_job_sound)

lemma run_bulk_sound: "sound w \<Longrightarrow> sound (snd (run_bulk E name b w))"
  by (auto simp: run_bulk_def Let_def simp del: bulk_loop.simps split: sum.splits option.splits list.splits
      intro!: step_sound transact_job_sound bulk_loop_sound bulk_finish_sound)

lemma fund_failed_sound: "sound w \<Longrightarrow> sound (snd (fund_failed E name s cat msg w))"
  by (auto simp: fund_failed_def Let_def intro!: step_sound transact_job_sound)

lemma persist_fund_sound: "sound w \<Longrightarrow> sound (snd (persist_fund E s n w))"
  by (auto simp: persist_fund_def Let_def split: option.splits)

lemma stocks_sound: "sound w \<Longrightarrow> sound (w\<lparr>iw_db := (iw_db w)\<lparr>db_stocks := ss\<rparr>\<rparr>)"
  by (simp add: ingest_inv_def)

lemma process_fundamentals_sound:
  assumes "sound w"
  shows "sound (snd (process_fundamentals E name s w))"
proof -
  have lim: "sound w \<Longrightarrow> sound (snd (record_rate_limit w))" for w
    by (simp add: record_rate_limit_def Let_def)
  have persisted: "sound w \<Longrightarrow> sound (snd (case persist_fund E s n w of
      (Some (cat, msg), w2) \<Rightarrow> fund_failed E name s cat msg w2 | (None, w2) \<Rightarrow> g w2))"
    if "\<And>w. sound w \<Longrightarrow> sound (snd (g w))" for n w g
    using persist_fund_sound [of w E s n] fund_failed_sound that by (auto split: prod.splits option.splits)
  show ?thesis unfolding process_fundamentals_def
    by (rule step_sound [OF retry_sound [OF assms]])
       (auto simp: Let_def split: ingest_error.splits
        intro!: step_sound lim fund_failed_sound persisted transact_job_sound stocks_sound)
qed

lemma fund_loop_sound: "sound w \<Longrightarrow> sound (snd (fund_loop E name ss su w))"
proof (induction ss arbitrary: su w)
  case (Cons s ss)
  obtain r w1 where p: "process_fundamentals E name s w = (r, w1)" by fastforce
  then have "sound w1" using process_fundamentals_sound [OF Cons.prems, of E name s] by simp
  with p Cons.IH show ?case by (cases r) (auto split: outcome.splits)
qed simp

lemma ensure_cursor_sound: "sound w \<Longrightarrow> sound (snd (transact (ensure_cursor name b) w))"
  by (rule transact_sound)
     (auto simp: ensure_cursor_def Let_def split: sum.splits option.splits if_splits
      intro: cursor_ops_inv(4) update_cursor_inv)

lemma pair_sound:
  assumes "sound (snd m)" "\<And>a w. sound w \<Longrightarrow> sound (snd (g a w))"
  shows "sound (snd (case m of (a, w) \<Rightarrow> g a w))"
  using assms by (cases m) auto

lemma fund_batch_sound:
  assumes "sound w"
  shows "sound (snd (case fund_loop E name ss su (w\<lparr>iw_429 := 0\<rparr>) of (su', w2) \<Rightarrow>
    if should_pause w2 then
      (case transact (\<lambda>db. set_cursor_status db name ''paused'') w2 of
         (Inl e, w3) \<Rightarrow> (Inl e, w3) | (Inr _, w3) \<Rightarrow> (Inr (su'\<lparr>su_status := ''paused''\<rparr>), w3))
    else (Inr su', w2)))"
proof (rule pair_sound [OF fund_loop_sound])
  fix su' w2 assume "sound w2"
  then show "sound (snd (if should_pause w2 then
      (case transact (\<lambda>db. set_cursor_status db name ''paused'') w2 of
         (Inl e, w3) \<Rightarrow> (Inl e, w3) | (Inr _, w3) \<Rightarrow> (Inr (su'\<lparr>su_status := ''paused''\<rparr>), w3))
    else (Inr su', w2)))"
    by (cases "should_pause w2") (simp_all add: step_sound transact_job_sound)
qed (simp add: assms)

lemma run_fundamentals_sound: "sound w \<Longrightarrow> sound (snd (run_fundamentals E name b order w))"
  unfolding run_fundamentals_def Let_def
  by (rule step_sound [OF ensure_cursor_sound], assumption)
     (auto simp del: fund_loop.simps split: sum.splits list.splits intro!: step_sound transact_job_sound fund_batch_sound)

lemma retry_loop_sound: "sound w \<Longrightarrow> sound (snd (retry_loop E name recs res w))"
proof (induction recs arbitrary: res w)
  case (Cons r recs)
  obtain k n where res: "res = (k, n)" by fastforce
  show ?case unfolding res retry_loop.simps
    by (auto split: sum.splits option.splits outcome.splits
        intro!: step_sound process_ticker_sound transact_job_sound Cons.IH Cons.prems)
qed (cases res, auto)

lemma cmd_retry_sound: "sound w \<Longrightarrow> sound (snd (cmd_retry E name t a w))"
  by (auto simp: cmd_retry_def Let_def intro!: retry_loop_sound)

lemma quarterly_loop_sound: "sound w \<Longrightarrow> sound (snd (quarterly_loop f name ss res w))"
proof (induction ss arbitrary: res w)
  case (Cons s ss)
  obtain k n where res: "res = (k, n)" by fastforce
  show ?case unfolding res quarterly_loop.simps Let_def
    by (auto intro!: step_sound transact_job_sound Cons.IH Cons.prems)
qed (cases res, auto)

lemma cmd_quarterly_sound: "sound w \<Longrightarrow> sound (snd (cmd_quarterly f name b w))"
  unfolding cmd_quarterly_def
  by (rule step_sound)
     (auto split: sum.splits option.splits list.splits intro!: step_sound transact_job_sound quarterly_loop_sound)

text \<open>
  C25: every job keeps the invariant of the tables: names of cursors and ids of failure records are
  unique and a ticker has at most one open failure per cursor and job, so that a job never
  meets two rows where it expects one.
\<close>

theorem jobs_keep_ingest_inv:
  assumes "ingest_inv (iw_db w)"
  shows "ingest_inv (iw_db (snd (run_bulk E name b w))) \<and>
    ingest_inv (iw_db (snd (run_daily E w))) \<and>
    ingest_inv (iw_db (snd (run_fundamentals E name b order w))) \<and>
    ingest_inv (iw_db (snd (cmd_retry E name ticker all_categories w))) \<and>
    ingest_inv (iw_db (snd (cmd_quarterly f name n w))) \<and>
    (name \<in> cu_name ` set (db_cursors (iw_db w)) \<longrightarrow>
       (\<exists>db'. log_skipped (iw_db w) now name t j msg cat = Inr db'))"
  using assms run_bulk_sound run_fundamentals_sound cmd_retry_sound cmd_quarterly_sound log_skipped_total
    daily_tickers_sound [of "w\<lparr>iw_429 := 0\<rparr>"]
  by (simp add: run_daily_def Let_def)

theorem jobs_keep_ingest_inv_witness:
  "ingest_inv (iw_db (snd (run_fundamentals (example_env ticker_b_fails) ''bulk'' None rev example_bulk)))"
  using jobs_keep_ingest_inv [OF example_bulk_inv] by blast

section \<open>The fundamentals job can lose a ticker\<close>

lemma rate_limited_raises:
  assumes "\<And>n. ie_fetch_fund E n (sk_yf_ticker s) = Source_Fail RATE_LIMIT msg" "Suc (iw_429 w) \<ge> MAX_CONSECUTIVE_429"
  shows "\<exists>e. process_fundamentals E name s w = (Inl e, w\<lparr>iw_calls := Suc (iw_calls w), iw_429 := Suc (iw_429 w)\<rparr>)"
  using assms by (simp add: process_fundamentals_def MAX_RETRIES_def eval_nat_numeral record_rate_limit_def)

lemma answered_advances:
  assumes "\<And>n. ie_fetch_fund E n (sk_yf_ticker t) = Answer (info, 0)" "\<And>n. ie_write_info E n (sk_yf_ticker t) = None"
    "cursor_at w name c"
  shows "\<exists>w'. process_fundamentals E name t w = (Inr Ticker_Ok, w') \<and> cursor_at w' name (c\<lparr>cu_last := sk_id t\<rparr>) \<and>
    db_skipped (iw_db w') = db_skipped (iw_db w) \<and> iw_log w' = iw_log w @ [Ticker_Fetched (sk_symbol t)]"
proof -
  let ?w = "w\<lparr>iw_calls := Suc (Suc (iw_calls w)), iw_db := (iw_db w)\<lparr>db_stocks :=
    map (\<lambda>u. if sk_id u = sk_id t then patch_stock info u else u) (db_stocks (iw_db w))\<rparr>\<rparr>"
  have c: "cursor_at ?w name c" using assms(3) by (simp add: cursor_at_def get_cursor_def)
  obtain w' where adv: "transact (\<lambda>db. advance_cursor db name (sk_id t)) ?w = (Inr (), w')"
    using transact_cursor_total [OF c] unfolding advance_cursor_def by blast
  have "cursor_at w' name (c\<lparr>cu_last := sk_id t\<rparr>)"
    by (rule transact_cursor_at [OF c _ adv [unfolded advance_cursor_def]]) simp
  moreover have "db_skipped (iw_db w') = db_skipped (iw_db w)" "iw_log w' = iw_log w"
    using adv by (auto simp: transact_def advance_cursor_def update_cursor_def split: sum.splits option.splits)
  moreover have "process_fundamentals E name t w =
      (Inr Ticker_Ok, record_success (log_event (Ticker_Fetched (sk_symbol t)) w'))"
    using assms(1,2) adv by (simp add: process_fundamentals_def persist_fund_def MAX_RETRIES_def eval_nat_numeral Let_def)
  ultimately show ?thesis by (simp add: record_success_def log_event_def cursor_at_def)
qed

text \<open>
  After two rate-limited tickers in a row a third one is lost: its task raises before the failure is
  recorded, \<open>gather\<close> swallows the exception, and when a later ticker of the batch is fetched
  the cursor passes the lost one, with no failure record and no event of it.
\<close>

theorem fundamentals_loses_ticker:
  assumes "\<And>n. ie_fetch_fund E n (sk_yf_ticker s) = Source_Fail RATE_LIMIT msg"
    "Suc (iw_429 w) \<ge> MAX_CONSECUTIVE_429" "cursor_at w name c" "sk_id s < sk_id t"
    "\<And>n. ie_fetch_fund E n (sk_yf_ticker t) = Answer (info, 0)" "\<And>n. ie_write_info E n (sk_yf_ticker t) = None"
  shows "\<exists>su' w' c'. fund_loop E name [s, t] su w = (su', w') \<and>
    get_cursor (iw_db w') name = Inr (Some c') \<and> sk_id s < cu_last c' \<and>
    db_skipped (iw_db w') = db_skipped (iw_db w) \<and> iw_log w' = iw_log w @ [Ticker_Fetched (sk_symbol t)]"
proof -
  let ?w1 = "w\<lparr>iw_calls := Suc (iw_calls w), iw_429 := Suc (iw_429 w)\<rparr>"
  obtain e where s: "process_fundamentals E name s w = (Inl e, ?w1)"
    using rate_limited_raises [OF assms(1,2)] by blast
  have "cursor_at ?w1 name c" using assms(3) by (simp add: cursor_at_def)
  from answered_advances [OF assms(5,6) this] obtain w' where "process_fundamentals E name t ?w1 = (Inr Ticker_Ok, w')"
    "cursor_at w' name (c\<lparr>cu_last := sk_id t\<rparr>)" "db_skipped (iw_db w') = db_skipped (iw_db w)"
    "iw_log w' = iw_log w @ [Ticker_Fetched (sk_symbol t)]" by auto
  with s assms(4) show ?thesis by (simp add: cursor_at_def)
qed

theorem fundamentals_loses_ticker_witness:
  "\<exists>su' w' c'. fund_loop (example_env ticker_b_fails) ''bulk'' [example_stock 3 ''C'', example_stock 4 ''D'']
       \<lparr>su_status = ''ok'', su_processed = 0, su_skipped = 0, su_failed = 2\<rparr>
       (example_bulk\<lparr>iw_429 := 2\<rparr>) = (su', w') \<and>
     get_cursor (iw_db w') ''bulk'' = Inr (Some c') \<and> 3 < cu_last c' \<and> db_skipped (iw_db w') = []"
proof -
  have "cursor_at (example_bulk\<lparr>iw_429 := 2\<rparr>) ''bulk''
      \<lparr>cu_name = ''bulk'', cu_total = 3, cu_last = 0, cu_batch_size = 2, cu_status = ''pending''\<rparr>"
    by (simp add: cursor_at_def example_ingest_def get_cursor_def one_or_none_def)
  from fundamentals_loses_ticker [OF _ _ this, of "example_env ticker_b_fails" "example_stock 3 ''C''" "''429''"
      "example_stock 4 ''D''" "\<lparr>fi_sector = Missing, fi_industry = Missing, fi_market_cap = None\<rparr>"
      "\<lparr>su_status = ''ok'', su_processed = 0, su_skipped = 0, su_failed = 2\<rparr>"]
  show ?thesis by (auto simp: example_env_def example_stock_def MAX_CONSECUTIVE_429_def example_ingest_def)
qed

text \<open>The cursor ends at the ticker that completes last, wherever it stands in the batch.\<close>

lemma fundamentals_cursor_moves_back:
  assumes "\<And>n. ie_fetch_fund E n (sk_yf_ticker s) = Answer (info, 0)" "\<And>n. ie_write_info E n (sk_yf_ticker s) = None"
    "\<And>n. ie_fetch_fund E n (sk_yf_ticker t) = Answer (info', 0)" "\<And>n. ie_write_info E n (sk_yf_ticker t) = None"
    "cursor_at w name c"
  shows "\<exists>su' w'. fund_loop E name [t, s] su w = (su', w') \<and> cursor_at w' name (c\<lparr>cu_last := sk_id s\<rparr>)"
proof -
  from answered_advances [OF assms(3,4,5)] obtain w1 where w1: "process_fundamentals E name t w = (Inr Ticker_Ok, w1)"
    "cursor_at w1 name (c\<lparr>cu_last := sk_id t\<rparr>)" by blast
  from answered_advances [OF assms(1,2) w1(2)] w1(1) show ?thesis by auto
qed

section \<open>The retry command closes failures of other jobs\<close>

text \<open>
  The retry command asks nobody what job a failure belongs to: the open failure of a ticker
  whose prices are fresh is closed without any call to a source, even one of the fundamentals job.
\<close>

theorem retry_closes_other_jobs:
  assumes "ingest_inv (iw_db w)"
    "get_skipped (iw_db w) (Some name) None (Some False) (Some (sk_symbol s)) = [r]" "sk_symbol s \<noteq> []"
    "filter (\<lambda>t. sk_symbol t = sk_symbol s) (db_stocks (iw_db w)) = [s]"
    "get_registry (iw_db w) (store_as s) = Some row" "rg_end row = Some d" "ie_today E - 1 \<le> d"
  shows "\<exists>w'. cmd_retry E name (Some (sk_symbol s)) False w = (Inr (1, 0), w') \<and> iw_calls w' = iw_calls w \<and>
    (\<forall>r' \<in> set (db_skipped (iw_db w')). sp_id r' = sp_id r \<longrightarrow> sp_resolved r')"
proof -
  have r: "r \<in> set (db_skipped (iw_db w))" "sp_ticker r = sk_symbol s"
    using assms(2) by (auto simp: get_skipped_def filter_eq_Cons_iff)
  let ?w1 = "log_event (Ticker_Skipped (sk_symbol s) ''fresh'') (w\<lparr>iw_429 := 0\<rparr>)"
  have proc: "process_ticker E s (Some name) (w\<lparr>iw_429 := 0\<rparr>) = (Inr Ticker_Skip, ?w1)"
    using assms(5-7) by (simp add: process_ticker_def)
  have dist: "distinct (map sp_id (db_skipped (iw_db w)))" using assms(1) by (simp add: ingest_inv_def)
  have le: "length (filter (\<lambda>x. sp_id x = sp_id r) (db_skipped (iw_db w))) \<le> 1"
    by (rule filter_key_le_1 [OF dist])
  have "filter (\<lambda>x. sp_id x = sp_id r) (db_skipped (iw_db w)) \<noteq> []" using r(1) by (auto simp: filter_empty_conv)
  with le obtain q where "filter (\<lambda>x. sp_id x = sp_id r) (db_skipped (iw_db w)) = [q]"
    by (cases "filter (\<lambda>x. sp_id x = sp_id r) (db_skipped (iw_db w))") auto
  then have "transact (\<lambda>db. mark_resolved db (sp_id r)) ?w1 =
    (Inr (), ?w1\<lparr>iw_db := (iw_db w)\<lparr>db_skipped := map (\<lambda>x. if sp_id x = sp_id r then x\<lparr>sp_resolved := True\<rparr> else x) (db_skipped (iw_db w))\<rparr>\<rparr>)"
    by (simp add: transact_def mark_resolved_def one_or_none_def log_event_def)
  with proc r assms(2-4) show ?thesis
    by (auto simp: cmd_retry_def Let_def find_stock_def one_or_none_def log_event_def)
qed

definition example_failure :: skipped_row where
  "example_failure = \<lparr>sp_id = 7, sp_cursor = ''bulk'', sp_ticker = ''A'', sp_job_type = ''fundamentals'',
     sp_error_message = ''down'', sp_error_category = ''timeout'', sp_attempts = 1, sp_resolved = False, sp_last_attempted_at = 0\<rparr>"

definition example_registry :: registry_row where
  "example_registry = \<lparr>rg_last_fetch_date = 20000, rg_total_rows = 5, rg_start = Some 1, rg_end = Some 20000, rg_market = ''india''\<rparr>"

definition example_retry :: ingest_world where
  "example_retry = example_bulk\<lparr>iw_db := (iw_db example_bulk)\<lparr>db_skipped := [example_failure], db_next_skip_id := 8,
     db_registry := [(''A.NS'', example_registry)]\<rparr>\<rparr>"

theorem retry_closes_other_jobs_witness:
  "\<exists>w'. cmd_retry (example_env ticker_b_fails) ''bulk'' (Some ''A'') False example_retry = (Inr (1, 0), w') \<and> iw_calls w' = 0 \<and>
     (\<forall>r' \<in> set (db_skipped (iw_db w')). sp_id r' = 7 \<longrightarrow> sp_resolved r')"
proof -
  let ?s = "example_stock 1 ''A''"
  have symb: "sk_symbol ?s = ''A''" and st: "store_as ?s = ''A.NS''" by (simp_all add: example_stock_def store_as_def)
  have inv: "ingest_inv (iw_db example_retry)"
    by (simp add: ingest_inv_def example_retry_def example_ingest_def open_skip_def example_failure_def)
  have skip: "get_skipped (iw_db example_retry) (Some ''bulk'') None (Some False) (Some (sk_symbol ?s)) = [example_failure]"
    by (simp add: symb get_skipped_def example_retry_def example_failure_def)
  have stock: "filter (\<lambda>t. sk_symbol t = sk_symbol ?s) (db_stocks (iw_db example_retry)) = [?s]"
    by (simp add: example_retry_def example_ingest_def example_stock_def)
  have reg: "get_registry (iw_db example_retry) (store_as ?s) = Some example_registry"
    by (simp add: st get_registry_def example_retry_def)
  have "rg_end example_registry = Some 20000" "ie_today (example_env ticker_b_fails) - 1 \<le> 20000" "sp_id example_failure = 7"
    "iw_calls example_retry = 0"
    by (simp_all add: example_registry_def example_env_def example_failure_def example_retry_def example_ingest_def)
  then show ?thesis
    using retry_closes_other_jobs [OF inv skip _ stock reg, of 20000 "example_env ticker_b_fails"] by (simp add: symb)
qed

end
