(* ===== verification/Calendar.thy ===== *)
theory Calendar
  imports Prelude
begin

text \<open>
  Dates of the proleptic Gregorian calendar as Python's \<open>datetime\<close> has them: the ordinal of a
  date (\<open>toordinal\<close>), its weekday, the next and the previous day, and naive date-times, a date
  and the microseconds since midnight. Years are unbounded; Python stops at 9999.
  Lemmas: the ordinal numbers the valid dates one by one, so that \<open>k\<close> days later is \<open>k\<close> steps
  later; within seven days every weekday comes, within 62 every day of the month.
\<close>

section \<open>Dates\<close>

record date =
  yr :: int
  mon :: nat
  dy :: nat

definition is_leap :: "int \<Rightarrow> bool" where
  "is_leap y \<longleftrightarrow> y mod 4 = 0 \<and> (y mod 100 \<noteq> 0 \<or> y mod 400 = 0)"

definition DAYS_IN_MONTH :: "nat list" where
  "DAYS_IN_MONTH = [0, 31, 28, 31, 30, 31, 30, 31, 31, 30, 31, 30, 31]"

definition DAYS_BEFORE_MONTH :: "nat list" where
  "DAYS_BEFORE_MONTH = [0, 0, 31, 59, 90, 120, 151, 181, 212, 243, 273, 304, 334]"

definition days_in_month :: "int \<Rightarrow> nat \<Rightarrow> nat" where
  "days_in_month y m = (if m = 2 \<and> is_leap y then 29 else DAYS_IN_MONTH ! m)"

definition days_before_month :: "int \<Rightarrow> nat \<Rightarrow> nat" where
  "days_before_month y m = DAYS_BEFORE_MONTH ! m + (if m > 2 \<and> is_leap y then 1 else 0)"

definition days_before_year :: "int \<Rightarrow> int" where
  "days_before_year y = (let p = y - 1 in p * 365 + p div 4 - p div 100 + p div 400)"

definition toordinal :: "date \<Rightarrow> int" where
  "toordinal d = days_before_year (yr d) + int (days_before_month (yr d) (mon d)) + int (dy d)"

text \<open>Monday is 0.\<close>

definition weekday :: "date \<Rightarrow> nat" where
  "weekday d = nat ((toordinal d + 6) mod 7)"

definition valid_date :: "date \<Rightarrow> bool" where
  "valid_date d \<longleftrightarrow> mon d \<in> {1..12} \<and> dy d \<in> {1..days_in_month (yr d) (mon d)}"

definition first_of_next :: "date \<Rightarrow> date" where
  "first_of_next d = (if mon d < 12 then \<lparr>yr = yr d, mon = mon d + 1, dy = 1\<rparr> else \<lparr>yr = yr d + 1, mon = 1, dy = 1\<rparr>)"

definition end_of_prev :: "date \<Rightarrow> date" where
  "end_of_prev d = (let (y, m) = (if mon d > 1 then (yr d, mon d - 1) else (yr d - 1, 12))
     in \<lparr>yr = y, mon = m, dy = days_in_month y m\<rparr>)"

definition next_date :: "date \<Rightarrow> date" where
  "next_date d = (if dy d < days_in_month (yr d) (mon d) then d\<lparr>dy := dy d + 1\<rparr> else first_of_next d)"

definition prev_date :: "date \<Rightarrow> date" where
  "prev_date d = (if dy d > 1 then d\<lparr>dy := dy d - 1\<rparr> else end_of_prev d)"

text \<open>\<open>d + timedelta(days=k)\<close> and \<open>d - timedelta(days=k)\<close>.\<close>

definition add_days :: "nat \<Rightarrow> date \<Rightarrow> date" where "add_days k = next_date ^^ k"
definition sub_days :: "nat \<Rightarrow> date \<Rightarrow> date" where "sub_days k = prev_date ^^ k"

section \<open>The ordinal\<close>

lemma month_cases:
  assumes "m \<in> {1..12}"
  obtains "m = 1" | "m = 2" | "m = 3" | "m = 4" | "m = 5" | "m = 6" | "m = 7" | "m = 8" | "m = 9"
    | "m = 10" | "m = 11" | "m = (12 :: nat)"
proof -
  have "m = 1 \<or> m = 2 \<or> m = 3 \<or> m = 4 \<or> m = 5 \<or> m = 6 \<or> m = 7 \<or> m = 8 \<or> m = 9 \<or> m = 10 \<or> m = 11 \<or> m = 12"
    using assms unfolding atLeastAtMost_iff by presburger
  then show ?thesis using that by blast
qed

lemmas month_tables = days_in_month_def days_before_month_def DAYS_IN_MONTH_def DAYS_BEFORE_MONTH_def

lemma month_bounds: "m \<in> {1..12} \<Longrightarrow> 28 \<le> days_in_month y m \<and> days_in_month y m \<le> 31"
  by (erule month_cases) (simp_all add: month_tables)

lemma month_bounds': "1 \<le> m \<Longrightarrow> m \<le> 12 \<Longrightarrow> 28 \<le> days_in_month y m" "1 \<le> m \<Longrightarrow> m \<le> 12 \<Longrightarrow> days_in_month y m \<le> 31"
  using month_bounds [of m y] by auto

lemma before_next_month: "m \<in> {1..11} \<Longrightarrow> days_before_month y (m + 1) = days_before_month y m + days_in_month y m"
  by (rule month_cases [of m]) (simp_all add: month_tables)

lemma div_step: "0 < k \<Longrightarrow> (y :: int) div k = (y - 1) div k + of_bool (y mod k = 0)"
proof (cases "y mod k = 0")
  case True
  assume "0 < k"
  with True have "(y - 1) div k = y div k - 1"
    by (intro int_div_pos_eq [where r = "k - 1"]) (auto simp: algebra_simps)
  with True show ?thesis by simp
next
  case False
  assume k: "0 < k"
  then have "0 \<le> y mod k - 1" "y mod k - 1 < k" using False pos_mod_bound [OF k, of y] pos_mod_sign [OF k, of y] by linarith+
  then have "(y - 1) div k = y div k"
    by (intro int_div_pos_eq [where r = "y mod k - 1"]) auto
  with False show ?thesis by simp
qed

lemma before_next_year: "days_before_year (y + 1) = days_before_year y + 365 + of_bool (is_leap y)"
proof -
  have "400 dvd y \<Longrightarrow> 100 dvd y" by (rule dvd_trans [of 100 400]) simp_all
  moreover have "100 dvd y \<Longrightarrow> 4 dvd y" by (rule dvd_trans [of 4 100]) simp_all
  ultimately have nested: "y mod 400 = 0 \<longrightarrow> y mod 100 = 0" "y mod 100 = 0 \<longrightarrow> y mod 4 = 0"
    unfolding dvd_eq_mod_eq_0 by blast+
  have bools: "of_bool (a \<and> (\<not> b \<or> c)) = of_bool a - of_bool b + (of_bool c :: int)" if "c \<longrightarrow> b" "b \<longrightarrow> a" for a b c
    using that by (cases a; cases b; cases c) simp_all
  have "of_bool (is_leap y) = of_bool (y mod 4 = 0) - of_bool (y mod 100 = 0) + (of_bool (y mod 400 = 0) :: int)"
    unfolding is_leap_def by (rule bools [OF nested])
  note leap = this
  have combine: "y * 365 + p4 - p100 + p400 = (y - 1) * 365 + q4 - q100 + q400 + 365 + z"
    if "z = a - b + c" "p4 = q4 + a" "p100 = q100 + b" "p400 = q400 + c" for p4 p100 p400 q4 q100 q400 a b c z :: int
    using that by (simp add: algebra_simps)
  show ?thesis
    unfolding days_before_year_def Let_def add_diff_cancel_right'
    by (rule combine [OF leap div_step div_step div_step]) simp_all
qed

lemma december: "days_before_month y 12 + days_in_month y 12 = 365 + of_bool (is_leap y)"
  by (simp add: month_tables)

lemma ordinal_first_of_next:
  assumes "valid_date d"
  shows "toordinal (first_of_next d) = toordinal d + int (days_in_month (yr d) (mon d)) - int (dy d) + 1"
proof (cases "mon d = 12")
  case True
  have "days_before_month (yr d + 1) 1 = 0" by (simp add: month_tables)
  moreover have "int (days_before_month (yr d) 12) + int (days_in_month (yr d) 12) = 365 + of_bool (is_leap (yr d))"
    using december [of "yr d"] by (simp flip: of_nat_add)
  ultimately show ?thesis
    using True before_next_year [of "yr d"] by (simp add: first_of_next_def toordinal_def del: of_bool_eq_iff split del: if_split)
next
  case False
  then have "mon d \<in> {1..11}" using assms by (auto simp: valid_date_def)
  from before_next_month [OF this, of "yr d"] this show ?thesis by (simp add: first_of_next_def toordinal_def)
qed

lemma next_date_facts:
  assumes "valid_date d"
  shows "valid_date (next_date d)" "toordinal (next_date d) = toordinal d + 1"
proof -
  have "mon d < 12 \<Longrightarrow> 1 \<le> days_in_month (yr d) (Suc (mon d))" "1 \<le> days_in_month (yr d + 1) 1"
    using month_bounds [of "Suc (mon d)" "yr d"] month_bounds [of 1 "yr d + 1"] assms by (auto simp: valid_date_def)
  with assms show "valid_date (next_date d)" by (auto simp: next_date_def valid_date_def first_of_next_def)
  show "toordinal (next_date d) = toordinal d + 1"
    using ordinal_first_of_next [OF assms] assms by (auto simp: next_date_def toordinal_def valid_date_def)
qed

lemma prev_next: "valid_date d \<Longrightarrow> prev_date (next_date d) = d"
  by (auto simp: prev_date_def next_date_def first_of_next_def end_of_prev_def valid_date_def month_tables)

lemma end_of_prev_valid:
  assumes "valid_date d"
  shows "valid_date (end_of_prev d)"
proof (cases "mon d > 1")
  case True
  then have "1 \<le> mon d - 1" "mon d - 1 \<le> 12" using assms by (auto simp: valid_date_def)
  then have "1 \<le> days_in_month (yr d) (mon d - 1)" using month_bounds' (1) [of "mon d - 1" "yr d"] by linarith
  with True assms show ?thesis by (auto simp: end_of_prev_def valid_date_def)
next
  case False
  with month_bounds' (1) [of 12 "yr d - 1"] show ?thesis by (simp add: end_of_prev_def valid_date_def)
qed

lemma next_prev:
  assumes "valid_date d"
  shows "valid_date (prev_date d) \<and> next_date (prev_date d) = d"
  using assms end_of_prev_valid [OF assms]
  by (auto simp: prev_date_def next_date_def first_of_next_def valid_date_def)
     (auto simp: end_of_prev_def)

section \<open>Counting days\<close>

lemma add_days_0 [simp]: "add_days 0 d = d" "sub_days 0 d = d"
  by (simp_all add: add_days_def sub_days_def)

lemma add_days_Suc: "add_days (Suc k) d = next_date (add_days k d)" "sub_days (Suc k) d = prev_date (sub_days k d)"
  by (simp_all add: add_days_def sub_days_def)

lemma add_days_add: "add_days (j + k) d = add_days k (add_days j d)" "sub_days (j + k) d = sub_days k (sub_days j d)"
  by (simp_all add: add_days_def sub_days_def funpow_add add.commute [of j])

lemma add_days_facts:
  assumes "valid_date d"
  shows "valid_date (add_days k d)" "toordinal (add_days k d) = toordinal d + int k"
  by (induction k) (use assms next_date_facts in \<open>auto simp: add_days_Suc\<close>)

lemma sub_days_facts:
  assumes "valid_date d"
  shows "valid_date (sub_days k d)" "toordinal (sub_days k d) = toordinal d - int k"
proof -
  have "valid_date (sub_days k d) \<and> toordinal (sub_days k d) = toordinal d - int k"
  proof (induction k)
    case (Suc k)
    then have "next_date (prev_date (sub_days k d)) = sub_days k d" "valid_date (prev_date (sub_days k d))"
      using next_prev by blast+
    with next_date_facts(2) [of "prev_date (sub_days k d)"] Suc show ?case by (simp add: add_days_Suc)
  qed (simp add: assms)
  then show "valid_date (sub_days k d)" "toordinal (sub_days k d) = toordinal d - int k" by blast+
qed

lemma weekday_less: "weekday d < 7"
  by (simp add: weekday_def nat_less_iff)

lemma weekday_add: "valid_date d \<Longrightarrow> weekday (add_days k d) = (weekday d + k) mod 7"
  by (simp add: weekday_def add_days_facts nat_mod_as_int mod_add_right_eq algebra_simps flip: nat_int_add)

lemma add_sub: "valid_date d \<Longrightarrow> add_days k (sub_days k d) = d"
proof (induction k)
  case (Suc k)
  have "add_days (1 + k) (sub_days (Suc k) d) = add_days k (add_days 1 (sub_days (Suc k) d))" by (rule add_days_add)
  then have "add_days (Suc k) (sub_days (Suc k) d) = add_days k (next_date (prev_date (sub_days k d)))"
    by (simp add: add_days_Suc)
  with Suc next_prev [OF sub_days_facts(1) [OF Suc.prems, of k]] show ?case by simp
qed simp

section \<open>Dates are numbered one by one\<close>

lemma year_gap: "y < y' \<Longrightarrow> days_before_year y + 365 + of_bool (is_leap y) \<le> days_before_year y'"
proof (induction "nat (y' - y - 1)" arbitrary: y')
  case 0
  then have "y' = y + 1" by simp
  then show ?case by (simp only: before_next_year)
next
  case (Suc n)
  then have "days_before_year y + 365 + of_bool (is_leap y) \<le> days_before_year (y' - 1)" by (intro Suc.hyps(1)) auto
  also have "\<dots> \<le> days_before_year y'" using before_next_year [of "y' - 1"] by simp
  finally show ?case .
qed

lemma month_gap: "1 \<le> m \<Longrightarrow> m < m' \<Longrightarrow> m' \<le> 12 \<Longrightarrow> days_before_month y m + days_in_month y m \<le> days_before_month y m'"
proof (induction m')
  case (Suc k)
  then have "days_before_month y (k + 1) = days_before_month y k + days_in_month y k" by (intro before_next_month) auto
  with Suc show ?case by (cases "m = k") auto
qed simp

lemma valid_in_year:
  assumes "valid_date d"
  shows "1 \<le> days_before_month (yr d) (mon d) + dy d"
    "days_before_month (yr d) (mon d) + dy d \<le> 365 + of_bool (is_leap (yr d))"
proof -
  have "days_before_month (yr d) (mon d) + days_in_month (yr d) (mon d) \<le> 365 + of_bool (is_leap (yr d))"
    using month_gap [of "mon d" 12 "yr d"] december [of "yr d"] assms
    by (cases "mon d = 12") (simp_all add: valid_date_def)
  with assms show "1 \<le> days_before_month (yr d) (mon d) + dy d"
    "days_before_month (yr d) (mon d) + dy d \<le> 365 + of_bool (is_leap (yr d))" by (simp_all add: valid_date_def)
qed

lemma ordinal_less:
  assumes "valid_date d" "valid_date e" "yr d < yr e \<or> yr d = yr e \<and> (mon d < mon e \<or> mon d = mon e \<and> dy d < dy e)"
  shows "toordinal d < toordinal e"
proof (cases "yr d < yr e")
  case True
  have "int (days_before_month (yr d) (mon d) + dy d) \<le> 365 + of_bool (is_leap (yr d))"
    using valid_in_year(2) [OF assms(1)] by (cases "is_leap (yr d)") auto
  with year_gap [OF True] valid_in_year(1) [OF assms(2)] show ?thesis by (simp add: toordinal_def)
next
  case False
  with assms month_gap [of "mon d" "mon e" "yr d"] show ?thesis
    by (cases "mon d < mon e") (auto simp: toordinal_def valid_date_def)
qed

lemma toordinal_inj: "valid_date d \<Longrightarrow> valid_date e \<Longrightarrow> toordinal d = toordinal e \<Longrightarrow> d = e"
  using ordinal_less [of d e] ordinal_less [of e d] by (cases d; cases e) (metis date.select_convs(1-3) linorder_neqE less_irrefl)

lemma later_date:
  assumes "valid_date d" "valid_date e" "toordinal d \<le> toordinal e"
  shows "e = add_days (nat (toordinal e - toordinal d)) d"
  by (rule toordinal_inj) (use assms add_days_facts in auto)

lemma earlier_date:
  assumes "valid_date d" "valid_date e" "toordinal e \<le> toordinal d"
  shows "e = sub_days (nat (toordinal d - toordinal e)) d"
  by (rule toordinal_inj) (use assms sub_days_facts in auto)

section \<open>Every weekday and every day of the month comes again\<close>

lemma weekday_recurs:
  assumes "valid_date d" "w < 7"
  shows "\<exists>k \<in> {1..7}. weekday (add_days k d) = w" "\<exists>k \<in> {1..7}. weekday (sub_days k d) = w"
proof -
  let ?k = "(if w \<le> weekday d then 7 + w - weekday d else w - weekday d)"
  let ?j = "(if weekday d \<le> w then 7 + weekday d - w else weekday d - w)"
  have "weekday (add_days ?k d) = w" "?k \<in> {1..7}"
    using assms weekday_less [of d] by (auto simp: weekday_add)
  then show "\<exists>k \<in> {1..7}. weekday (add_days k d) = w" by blast
  have "weekday d = (weekday (sub_days ?j d) + ?j) mod 7"
    using weekday_add [OF sub_days_facts(1) [OF assms(1)], of ?j ?j] by (simp only: add_sub [OF assms(1)])
  moreover have "?j \<in> {1..7}" using assms weekday_less [of d] by auto
  ultimately have "weekday (sub_days ?j d) = w"
    using assms(2) weekday_less [of d] weekday_less [of "sub_days ?j d"] by (auto simp: mod_if split: if_splits)
  with \<open>?j \<in> {1..7}\<close> show "\<exists>k \<in> {1..7}. weekday (sub_days k d) = w" by blast
qed

lemma add_within_month: "dy d + k \<le> days_in_month (yr d) (mon d) \<Longrightarrow> add_days k d = d\<lparr>dy := dy d + k\<rparr>"
  by (induction k) (auto simp: add_days_Suc next_date_def)

lemma sub_within_month: "k < dy d \<Longrightarrow> sub_days k d = d\<lparr>dy := dy d - k\<rparr>"
  by (induction k) (auto simp: add_days_Suc prev_date_def)

lemma add_to_next_month:
  assumes "valid_date d"
  shows "add_days (days_in_month (yr d) (mon d) - dy d + 1) d = first_of_next d"
proof -
  let ?k = "days_in_month (yr d) (mon d) - dy d"
  have "add_days ?k d = d\<lparr>dy := days_in_month (yr d) (mon d)\<rparr>"
    using assms by (subst add_within_month) (auto simp: valid_date_def)
  then show ?thesis by (simp add: add_days_Suc next_date_def first_of_next_def)
qed

lemma sub_to_prev_month:
  assumes "valid_date d"
  shows "sub_days (dy d) d = end_of_prev d"
proof -
  obtain k where k: "dy d = Suc k" using assms by (cases "dy d") (auto simp: valid_date_def)
  then have "sub_days k d = d\<lparr>dy := 1\<rparr>" by (subst sub_within_month) auto
  then show ?thesis by (simp add: k add_days_Suc prev_date_def end_of_prev_def)
qed

lemma first_of_next_valid: "valid_date d \<Longrightarrow> valid_date (first_of_next d) \<and> dy (first_of_next d) = 1"
  using add_to_next_month [of d] add_days_facts(1) [of d] by (metis first_of_next_def date.select_convs(3))

text \<open>A month of less than 31 days stands between two of 31.\<close>

lemma around_short_month:
  assumes "m \<in> {1..12}" "days_in_month y m < 31"
  shows "m < 12" "days_in_month y (m + 1) = 31" "m > 1" "days_in_month y (m - 1) = 31"
  by (rule month_cases [OF assms(1)]; use assms(2) in \<open>simp add: month_tables split: if_splits\<close>)+

lemma day_of_month_in_next:
  assumes "valid_date d" "1 \<le> a" "a \<le> days_in_month (yr (first_of_next d)) (mon (first_of_next d))"
  shows "dy (add_days (days_in_month (yr d) (mon d) - dy d + a) d) = a"
proof -
  obtain b where a: "a = 1 + b" using assms(2) by (metis le_Suc_ex)
  have "dy (add_days b (first_of_next d)) = a"
    using first_of_next_valid [OF assms(1)] assms(3) a by (subst add_within_month) auto
  then show ?thesis using add_to_next_month [OF assms(1)] add_days_add(1) [of "days_in_month (yr d) (mon d) - dy d + 1" b d]
    by (simp add: a add.assoc)
qed

lemma day_of_month_in_prev:
  assumes "valid_date d" "1 \<le> a" "a \<le> dy (end_of_prev d)"
  shows "dy (sub_days (dy d + (dy (end_of_prev d) - a)) d) = a"
proof -
  have "dy (sub_days (dy (end_of_prev d) - a) (end_of_prev d)) = a"
    using assms by (subst sub_within_month) auto
  then show ?thesis by (simp add: add_days_add sub_to_prev_month [OF assms(1)])
qed

lemma day_of_month_recurs:
  assumes "valid_date d" "1 \<le> a" "a \<le> 31"
  shows "\<exists>k \<in> {1..62}. dy (add_days k d) = a"
proof -
  let ?dim = "\<lambda>d. days_in_month (yr d) (mon d)" let ?n = "first_of_next d"
  note valid = first_of_next_valid [OF assms(1)]
  have dims: "28 \<le> ?dim e \<and> ?dim e \<le> 31" if "valid_date e" for e
    using month_bounds [of "mon e" "yr e"] that by (auto simp: valid_date_def)
  consider "dy d < a" "a \<le> ?dim d" | "a \<le> dy d \<or> ?dim d < a" "a \<le> ?dim ?n" | "a \<le> dy d \<or> ?dim d < a" "?dim ?n < a"
    by linarith
  then show ?thesis
  proof cases
    case 1
    then have "dy (add_days (a - dy d) d) = a" by (subst add_within_month) auto
    with 1 assms show ?thesis by (intro bexI [of _ "a - dy d"]) auto
  next
    case 2
    have "?dim d - dy d + a \<in> {1..62}" using 2 assms dims [OF assms(1)] by (auto simp: valid_date_def)
    with day_of_month_in_next [OF assms(1,2) 2(2)] show ?thesis by blast
  next
    case 3
    then have short: "?dim ?n < 31" using assms(3) by linarith
    have "mon ?n \<in> {1..12}" using valid by (simp add: valid_date_def)
    note around = around_short_month [OF this short]
    then have prev: "?dim d = 31" and nxt: "?dim (first_of_next ?n) = 31"
      by (auto simp: first_of_next_def split: if_splits)
    have "dy (add_days (?dim ?n - dy ?n + a) ?n) = a"
      using assms nxt valid by (intro day_of_month_in_next) auto
    moreover have "add_days (?dim ?n - dy ?n + a) ?n = add_days (?dim d - dy d + 1 + (?dim ?n - dy ?n + a)) d"
      using add_days_add(1) [of "?dim d - dy d + 1" "?dim ?n - dy ?n + a" d] add_to_next_month [OF assms(1)] by simp
    moreover have "?dim d - dy d + 1 + (?dim ?n - dy ?n + a) \<in> {1..62}"
      using 3 prev assms valid short dims [of ?n] by (auto simp: valid_date_def)
    ultimately show ?thesis by metis
  qed
qed

lemma day_of_month_recurred:
  assumes "valid_date d" "1 \<le> a" "a \<le> 31"
  shows "\<exists>k \<in> {1..62}. dy (sub_days k d) = a"
proof -
  let ?p = "end_of_prev d"
  have valid: "valid_date ?p" by (rule end_of_prev_valid [OF assms(1)])
  have len: "dy ?p = days_in_month (yr ?p) (mon ?p)" by (simp add: end_of_prev_def split: prod.split)
  have le: "dy d \<le> 31" "1 \<le> dy d" "dy ?p \<le> 31"
    using month_bounds [of "mon d" "yr d"] month_bounds [of "mon ?p" "yr ?p"] assms(1) valid by (auto simp: valid_date_def)
  consider "a < dy d" | "dy d \<le> a" "a \<le> dy ?p" | "dy ?p < a" by linarith
  then show ?thesis
  proof cases
    case 1
    then have "dy (sub_days (dy d - a) d) = a" using assms(2) by (subst sub_within_month) auto
    with 1 le show ?thesis by (intro bexI [of _ "dy d - a"]) auto
  next
    case 2
    have "dy d + (dy ?p - a) \<in> {1..62}" using 2 le by auto
    with day_of_month_in_prev [OF assms(1,2) 2(2)] show ?thesis by blast
  next
    case 3
    then have short: "days_in_month (yr ?p) (mon ?p) < 31" using assms(3) len by linarith
    have "mon ?p \<in> {1..12}" using valid by (simp add: valid_date_def)
    note around = around_short_month [OF this short]
    then have prev: "dy (end_of_prev ?p) = 31" by (simp add: end_of_prev_def [of ?p])
    have "dy (sub_days (dy ?p + (dy (end_of_prev ?p) - a)) ?p) = a"
      using assms prev valid by (intro day_of_month_in_prev) auto
    moreover have "sub_days (dy ?p + (dy (end_of_prev ?p) - a)) ?p = sub_days (dy d + (dy ?p + (dy (end_of_prev ?p) - a))) d"
      unfolding add_days_add(2) [of "dy d"] sub_to_prev_month [OF assms(1)] ..
    moreover have "dy d + (dy ?p + (dy (end_of_prev ?p) - a)) \<in> {1..62}" using 3 prev le assms by auto
    ultimately show ?thesis by metis
  qed
qed

end
