(* ===== verification/Sched_Cron.thy ===== *)
theory Sched_Cron
  imports Calendar
begin

text \<open>
  When jobs are due (\<open>backend/jobs/scheduler_service.py\<close>): the day and date fields of a job, its
  next run and its last window. All times are Indian standard time, which has had one offset
  from UTC since 1945, so that IST date-times compare by date and time of day. Every function
  gets the reading of the clock as an argument.
  A \<open>recurrence\<close> is a set of days that comes again within a window; the search over the
  offsets of a window finds the nearest instant. Weekdays recur within 8 days, days of the month
  within 63, the bounds of the loops in the code.
\<close>

section \<open>Times\<close>

record datetime =
  dt_date :: date
  dt_us :: int

definition DAY_US :: int where "DAY_US = 86400 * 1000000"
definition IST_OFFSET :: int where "IST_OFFSET = (5 * 60 + 30) * 60 * 1000000"

text \<open>Microseconds since the day before 0001-01-01, of the local clock and of UTC.\<close>

definition instant :: "datetime \<Rightarrow> int" where
  "instant t = toordinal (dt_date t) * DAY_US + dt_us t"

definition utc_of_ist :: "datetime \<Rightarrow> int" where
  "utc_of_ist t = instant t - IST_OFFSET"

definition valid_time :: "datetime \<Rightarrow> bool" where
  "valid_time t \<longleftrightarrow> valid_date (dt_date t) \<and> 0 \<le> dt_us t \<and> dt_us t < DAY_US"

section \<open>The fields of a job\<close>

fun split_on :: "char \<Rightarrow> string \<Rightarrow> string list" where
  "split_on c [] = [[]]"
| "split_on c (x # xs) =
     (if x = c then [] # split_on c xs
      else (case split_on c xs of [] \<Rightarrow> [[x]] | w # ws \<Rightarrow> (x # w) # ws))"

definition isdigit :: "string \<Rightarrow> bool" where
  "isdigit s \<longleftrightarrow> s \<noteq> [] \<and> list_all is_digit s"

definition int_of :: "string \<Rightarrow> nat" where
  "int_of s = foldl (\<lambda>n c. 10 * n + (ord c - 48)) 0 s"

definition DAY_MAP :: "(string \<times> string) list" where
  "DAY_MAP = [(''mon'', ''monday''), (''tue'', ''tuesday''), (''wed'', ''wednesday''), (''thu'', ''thursday''),
     (''fri'', ''friday''), (''sat'', ''saturday''), (''sun'', ''sunday'')]"

definition ALL_DAYS :: "string list" where
  "ALL_DAYS = [''mon'', ''tue'', ''wed'', ''thu'', ''fri'', ''sat'', ''sun'']"

definition parse_cron_days :: "string option \<Rightarrow> string list" where
  "parse_cron_days raw =
     (case raw of None \<Rightarrow> ALL_DAYS
      | Some r \<Rightarrow> if strip r = [] then ALL_DAYS
          else filter (\<lambda>d. d \<in> set (keys DAY_MAP)) (map (\<lambda>d. str_lower (strip d)) (split_on (CHR '','') r)))"

text \<open>\<open>[int(d.strip()) for d in cron_dates.split(",") if d.strip().isdigit()]\<close>\<close>

definition parse_cron_dates :: "string \<Rightarrow> nat list" where
  "parse_cron_dates raw = map (\<lambda>d. int_of (strip d)) (filter (\<lambda>d. isdigit (strip d)) (split_on (CHR '','') raw))"

text \<open>\<open>strptime(cron_time, "%H:%M")\<close>, in microseconds; a value that is not text raises \<open>TypeError\<close>.\<close>

definition short_number :: "nat \<Rightarrow> string \<Rightarrow> bool" where
  "short_number bound s \<longleftrightarrow> isdigit s \<and> length s \<le> 2 \<and> int_of s < bound"

definition parse_time :: "string option \<Rightarrow> int result" where
  "parse_time cron_time =
     (case cron_time of
        None \<Rightarrow> Inl (OtherError ''TypeError'')
      | Some s \<Rightarrow>
          (case split_on (CHR '':'') s of
             [h, m] \<Rightarrow> if short_number 24 h \<and> short_number 60 m
               then Inr (int (int_of h * 60 + int_of m) * 60 * 1000000)
               else Inl (ValueError ''time data does not match format'')
           | _ \<Rightarrow> Inl (ValueError ''time data does not match format'')))"

section \<open>The searches\<close>

fun first_some :: "('a \<Rightarrow> 'b option) \<Rightarrow> 'a list \<Rightarrow> 'b option" where
  "first_some f [] = None"
| "first_some f (x # xs) = (case f x of None \<Rightarrow> first_some f xs | Some y \<Rightarrow> Some y)"

text \<open>The loops over \<open>offset\<close>: forward to a later instant, back to one that has come.\<close>

definition search_next :: "(date \<Rightarrow> bool) \<Rightarrow> nat \<Rightarrow> datetime \<Rightarrow> int \<Rightarrow> datetime option" where
  "search_next on_day window now time_us =
     first_some (\<lambda>offset.
       let candidate = add_days offset (dt_date now) in
       if on_day candidate then
         (let candidate_dt = \<lparr>dt_date = candidate, dt_us = time_us\<rparr> in
          if instant now < instant candidate_dt then Some candidate_dt else None)
       else None) [0..<window]"

definition search_last :: "(date \<Rightarrow> bool) \<Rightarrow> nat \<Rightarrow> datetime \<Rightarrow> int \<Rightarrow> datetime option" where
  "search_last on_day window now time_us =
     first_some (\<lambda>offset.
       let candidate = sub_days offset (dt_date now) in
       if on_day candidate then
         (let candidate_dt = \<lparr>dt_date = candidate, dt_us = time_us\<rparr> in
          if instant candidate_dt \<le> instant now then Some candidate_dt else None)
       else None) [0..<window]"

definition on_weekday :: "string list \<Rightarrow> date \<Rightarrow> bool" where
  "on_weekday cron_days d \<longleftrightarrow> ALL_DAYS ! weekday d \<in> set cron_days"

definition on_date :: "nat list \<Rightarrow> date \<Rightarrow> bool" where
  "on_date allowed d \<longleftrightarrow> dy d \<in> set allowed"

definition next_run_ist :: "datetime \<Rightarrow> string list \<Rightarrow> string option \<Rightarrow> datetime option result" where
  "next_run_ist now cron_days cron_time =
     bindE (parse_time cron_time) (\<lambda>t. Inr (search_next (on_weekday cron_days) 8 now t))"

definition last_scheduled_window :: "datetime \<Rightarrow> string list \<Rightarrow> string option \<Rightarrow> datetime option result" where
  "last_scheduled_window now cron_days cron_time =
     bindE (parse_time cron_time) (\<lambda>t. Inr (search_last (on_weekday cron_days) 8 now t))"

definition next_run_ist_dates :: "datetime \<Rightarrow> string \<Rightarrow> string option \<Rightarrow> datetime option result" where
  "next_run_ist_dates now cron_dates cron_time =
     (let stripped = strip cron_dates; allowed = parse_cron_dates stripped in
      if stripped = [] \<or> allowed = [] then Inr None
      else bindE (parse_time cron_time) (\<lambda>t. Inr (search_next (on_date allowed) 63 now t)))"

definition last_window_dates :: "datetime \<Rightarrow> string \<Rightarrow> string option \<Rightarrow> datetime option result" where
  "last_window_dates now cron_dates cron_time =
     (let stripped = strip cron_dates; allowed = parse_cron_dates stripped in
      if stripped = [] \<or> allowed = [] then Inr None
      else bindE (parse_time cron_time) (\<lambda>t. Inr (search_last (on_date allowed) 63 now t)))"

section \<open>The search finds the nearest instant\<close>

definition scheduled :: "(date \<Rightarrow> bool) \<Rightarrow> int \<Rightarrow> datetime \<Rightarrow> bool" where
  "scheduled on_day time_us s \<longleftrightarrow> valid_date (dt_date s) \<and> on_day (dt_date s) \<and> dt_us s = time_us"

lemma first_some_upt:
  "case first_some f [i..<n] of
     None \<Rightarrow> \<forall>k \<in> {i..<n}. f k = None
   | Some y \<Rightarrow> \<exists>k \<in> {i..<n}. f k = Some y \<and> (\<forall>j \<in> {i..<k}. f j = None)"
proof (induction "n - i" arbitrary: i)
  case (Suc m)
  then have upt: "[i..<n] = i # [Suc i..<n]" by (simp add: upt_conv_Cons)
  show ?case
  proof (cases "f i")
    case None
    have from_i: "j = i \<or> j \<in> {Suc i..<n'}" if "j \<in> {i..<n'}" for j n' using that by auto
    have "m = n - Suc i" using Suc.hyps(2) by simp
    note IH = Suc.hyps(1) [OF this]
    show ?thesis
    proof (cases "first_some f [Suc i..<n]")
      assume none: "first_some f [Suc i..<n] = None"
      with IH have "\<forall>k \<in> {Suc i..<n}. f k = None" by simp
      with None from_i have "\<forall>k \<in> {i..<n}. f k = None" by blast
      with none None show ?thesis unfolding upt by simp
    next
      fix y assume some: "first_some f [Suc i..<n] = Some y"
      with IH obtain k where k: "k \<in> {Suc i..<n}" "f k = Some y" "\<forall>j \<in> {Suc i..<k}. f j = None" by auto
      then have "\<forall>j \<in> {i..<k}. f j = None" using None from_i by blast
      with k have "\<exists>k \<in> {i..<n}. f k = Some y \<and> (\<forall>j \<in> {i..<k}. f j = None)" by force
      with some None show ?thesis unfolding upt by simp
    qed
  next
    case (Some y)
    then show ?thesis unfolding upt using Suc.hyps(2) by (auto intro!: bexI [of _ i])
  qed
qed simp

lemma instant_le: "valid_time s \<Longrightarrow> valid_time t \<Longrightarrow> instant s \<le> instant t \<Longrightarrow> toordinal (dt_date s) \<le> toordinal (dt_date t)"
  by (simp add: instant_def valid_time_def DAY_US_def)

lemma instant_date_less:
  "valid_time s \<Longrightarrow> valid_time t \<Longrightarrow> toordinal (dt_date s) < toordinal (dt_date t) \<Longrightarrow> instant s < instant t"
  by (simp add: instant_def valid_time_def DAY_US_def)

locale recurrence =
  fixes on_day :: "date \<Rightarrow> bool" and window :: nat
  assumes comes: "valid_date d \<Longrightarrow> valid_date e \<Longrightarrow> on_day e \<Longrightarrow> \<exists>k \<in> {1..<window}. on_day (add_days k d)"
    and came: "valid_date d \<Longrightarrow> valid_date e \<Longrightarrow> on_day e \<Longrightarrow> \<exists>k \<in> {1..<window}. on_day (sub_days k d)"
begin

lemma next_earliest:
  assumes now: "valid_time now" and t: "0 \<le> t" "t < DAY_US"
  shows "case search_next on_day window now t of
      None \<Rightarrow> \<forall>s. \<not> scheduled on_day t s
    | Some r \<Rightarrow> scheduled on_day t r \<and> instant now < instant r \<and>
        (\<forall>s. scheduled on_day t s \<longrightarrow> instant now < instant s \<longrightarrow> instant r \<le> instant s)"
proof -
  let ?at = "\<lambda>k. \<lparr>dt_date = add_days k (dt_date now), dt_us = t\<rparr>"
  let ?f = "\<lambda>k. if on_day (add_days k (dt_date now)) then (if instant now < instant (?at k) then Some (?at k) else None) else None"
  have search: "search_next on_day window now t = first_some ?f [0..<window]"
    unfolding search_next_def Let_def ..
  have date: "valid_date (dt_date now)" using now by (simp add: valid_time_def)
  have at: "valid_time (?at k)" "toordinal (dt_date (?at k)) = toordinal (dt_date now) + int k" for k
    using add_days_facts [OF date, of k] t by (simp_all add: valid_time_def)
  have sched: "valid_time s \<and> s = \<lparr>dt_date = dt_date s, dt_us = t\<rparr>" if "scheduled on_day t s" for s
    using that t by (auto simp: scheduled_def valid_time_def)
  note first = first_some_upt [where f = ?f and i = 0 and n = window, folded search]
  show ?thesis
  proof (cases "search_next on_day window now t")
    case None
    have "False" if s: "scheduled on_day t s" for s
    proof -
      obtain k where k: "k \<in> {1..<window}" "on_day (add_days k (dt_date now))"
        using comes [OF date, of "dt_date s"] s by (auto simp: scheduled_def)
      have "instant now < instant (?at k)" using instant_date_less [OF now at(1) [of k]] at(2) [of k] k(1) by simp
      with first None k show False by force
    qed
    with None show ?thesis by auto
  next
    case (Some r)
    then obtain k where k: "k < window" "?f k = Some r" "\<forall>j < k. ?f j = None" using first by auto
    then have r: "r = ?at k" "on_day (add_days k (dt_date now))" "instant now < instant r" by (auto split: if_splits)
    have "instant r \<le> instant s" if s: "scheduled on_day t s" "instant now < instant s" for s
    proof -
      have ord: "toordinal (dt_date now) \<le> toordinal (dt_date s)" using instant_le [OF now, of s] sched [OF s(1)] s(2) by simp
      define j where "j = nat (toordinal (dt_date s) - toordinal (dt_date now))"
      have dj: "dt_date s = add_days j (dt_date now)"
        using later_date [OF date _ ord] s(1) by (simp add: j_def scheduled_def)
      then have sj: "s = ?at j" using sched [OF s(1)] by simp
      have "on_day (add_days j (dt_date now))" using s(1) dj by (simp add: scheduled_def)
      then have "?f j = Some s" using s(2) sj by simp
      then have "k \<le> j" using k(3) by (metis not_le_imp_less option.distinct(1))
      then show ?thesis using at(2) [of k] at(2) [of j] r(1) sj by (simp add: instant_def DAY_US_def)
    qed
    with Some r at(1) [of k] show ?thesis by (simp add: scheduled_def valid_time_def)
  qed
qed

lemma last_latest:
  assumes now: "valid_time now" and t: "0 \<le> t" "t < DAY_US"
  shows "case search_last on_day window now t of
      None \<Rightarrow> \<forall>s. \<not> scheduled on_day t s
    | Some r \<Rightarrow> scheduled on_day t r \<and> instant r \<le> instant now \<and>
        (\<forall>s. scheduled on_day t s \<longrightarrow> instant s \<le> instant now \<longrightarrow> instant s \<le> instant r)"
proof -
  let ?at = "\<lambda>k. \<lparr>dt_date = sub_days k (dt_date now), dt_us = t\<rparr>"
  let ?f = "\<lambda>k. if on_day (sub_days k (dt_date now)) then (if instant (?at k) \<le> instant now then Some (?at k) else None) else None"
  have search: "search_last on_day window now t = first_some ?f [0..<window]"
    unfolding search_last_def Let_def ..
  have date: "valid_date (dt_date now)" using now by (simp add: valid_time_def)
  have at: "valid_time (?at k)" "toordinal (dt_date (?at k)) = toordinal (dt_date now) - int k" for k
    using sub_days_facts [OF date, of k] t by (simp_all add: valid_time_def)
  have sched: "valid_time s \<and> s = \<lparr>dt_date = dt_date s, dt_us = t\<rparr>" if "scheduled on_day t s" for s
    using that t by (auto simp: scheduled_def valid_time_def)
  note first = first_some_upt [where f = ?f and i = 0 and n = window, folded search]
  show ?thesis
  proof (cases "search_last on_day window now t")
    case None
    have "False" if s: "scheduled on_day t s" for s
    proof -
      obtain k where k: "k \<in> {1..<window}" "on_day (sub_days k (dt_date now))"
        using came [OF date, of "dt_date s"] s by (auto simp: scheduled_def)
      have "instant (?at k) < instant now" using instant_date_less [OF at(1) [of k] now] at(2) [of k] k(1) by simp
      with first None k show False by force
    qed
    with None show ?thesis by auto
  next
    case (Some r)
    then obtain k where k: "k < window" "?f k = Some r" "\<forall>j < k. ?f j = None" using first by auto
    then have r: "r = ?at k" "on_day (sub_days k (dt_date now))" "instant r \<le> instant now" by (auto split: if_splits)
    have "instant s \<le> instant r" if s: "scheduled on_day t s" "instant s \<le> instant now" for s
    proof -
      have ord: "toordinal (dt_date s) \<le> toordinal (dt_date now)" using instant_le [OF _ now, of s] sched [OF s(1)] s(2) by simp
      define j where "j = nat (toordinal (dt_date now) - toordinal (dt_date s))"
      have dj: "dt_date s = sub_days j (dt_date now)"
        using earlier_date [OF date _ ord] s(1) by (simp add: j_def scheduled_def)
      then have sj: "s = ?at j" using sched [OF s(1)] by simp
      have "on_day (sub_days j (dt_date now))" using s(1) dj by (simp add: scheduled_def)
      then have "?f j = Some s" using s(2) sj by simp
      then have "k \<le> j" using k(3) by (metis not_le_imp_less option.distinct(1))
      then show ?thesis using at(2) [of k] at(2) [of j] r(1) sj by (simp add: instant_def DAY_US_def)
    qed
    with Some r at(1) [of k] show ?thesis by (simp add: scheduled_def valid_time_def)
  qed
qed

end

section \<open>Weekdays and days of the month recur\<close>

interpretation weekly: recurrence "on_weekday cron_days" 8 for cron_days
proof
  fix d e
  assume d: "valid_date d" and e: "on_weekday cron_days e"
  note w = weekday_recurs [OF d weekday_less [of e]]
  from w(1) obtain k where "k \<in> {1..7}" "weekday (add_days k d) = weekday e" by blast
  with e show "\<exists>k \<in> {1..<8}. on_weekday cron_days (add_days k d)" by (intro bexI [of _ k]) (auto simp: on_weekday_def)
  from w(2) obtain k where "k \<in> {1..7}" "weekday (sub_days k d) = weekday e" by blast
  with e show "\<exists>k \<in> {1..<8}. on_weekday cron_days (sub_days k d)" by (intro bexI [of _ k]) (auto simp: on_weekday_def)
qed

interpretation monthly: recurrence "on_date allowed" 63 for allowed
proof
  fix d e
  assume d: "valid_date d" and e: "valid_date e" "on_date allowed e"
  have "1 \<le> dy e" "dy e \<le> 31" using e(1) month_bounds [of "mon e" "yr e"] by (auto simp: valid_date_def)
  note a = day_of_month_recurs [OF d this] day_of_month_recurred [OF d this]
  from a(1) obtain k where "k \<in> {1..62}" "dy (add_days k d) = dy e" by blast
  with e show "\<exists>k \<in> {1..<63}. on_date allowed (add_days k d)" by (intro bexI [of _ k]) (auto simp: on_date_def)
  from a(2) obtain k where "k \<in> {1..62}" "dy (sub_days k d) = dy e" by blast
  with e show "\<exists>k \<in> {1..<63}. on_date allowed (sub_days k d)" by (intro bexI [of _ k]) (auto simp: on_date_def)
qed

end
