(* ===== verification/Sched_Pipeline.thy ===== *)
theory Sched_Pipeline
  imports Sched_Cron
begin

text \<open>
  Run records and job chains: the \<open>scheduler_runs\<close> table (\<open>backend/db/models/scheduler_run.py\<close>)
  with the functions of \<open>backend/db/pg_stocks.py\<close> as \<open>stocks/repository.py\<close> wraps them, and the
  sequential chain executor (\<open>backend/jobs/pipeline_executor.py\<close>). The wrappers log a database
  error and go on: a row whose key exists is not inserted. Instants are
  microseconds of UTC. The world of a chain holds the table, the numbers of clock readings and of
  drawn UUIDs, the cancel event and the trace of snapshot expiries; the executors of the
  registry \<open>JOB_EXECUTORS\<close> are functions on it that return the text of the exception they raise.
\<close>

section \<open>Run records\<close>

record run_row =
  rn_id :: string
  rn_job_id :: string
  rn_job_name :: string
  rn_job_type :: string
  rn_scope :: string
  rn_status :: string
  rn_started_at :: int
  rn_completed_at :: "int option"
  rn_duration :: "int option"
  rn_total :: int
  rn_done :: int
  rn_error :: "string option"
  rn_trigger :: "string option"
  rn_pipeline_run :: "string option"

definition insert_scheduler_run :: "run_row list \<Rightarrow> run_row \<Rightarrow> run_row list option" where
  "insert_scheduler_run rows run = (if rn_id run \<in> rn_id ` set rows then None else Some (rows @ [run]))"

definition append_scheduler_run :: "run_row list \<Rightarrow> run_row \<Rightarrow> run_row list" where
  "append_scheduler_run rows run = (case insert_scheduler_run rows run of None \<Rightarrow> rows | Some rows' \<Rightarrow> rows')"

definition update_scheduler_run :: "run_row list \<Rightarrow> string \<Rightarrow> (run_row \<Rightarrow> run_row) \<Rightarrow> run_row list" where
  "update_scheduler_run rows run_id updates = map (\<lambda>r. if rn_id r = run_id then updates r else r) rows"

definition newest_first :: "run_row list \<Rightarrow> run_row list" where
  "newest_first rows = sort_key (\<lambda>r. - rn_started_at r) rows"

definition filter_matches :: "string option \<Rightarrow> string option \<Rightarrow> bool" where
  "filter_matches wanted actual \<longleftrightarrow> (if truthy_str wanted then actual = wanted else True)"

definition get_scheduler_runs ::
    "run_row list \<Rightarrow> int \<Rightarrow> int \<Rightarrow> string option \<Rightarrow> string option \<Rightarrow> string option \<Rightarrow> nat \<Rightarrow> nat option \<Rightarrow> run_row list \<times> nat" where
  "get_scheduler_runs rows now days job_type status pipeline_run_id offset limit =
     (let found = filter (\<lambda>r. rn_started_at r \<ge> now - days * DAY_US \<and>
            filter_matches job_type (Some (rn_job_type r)) \<and> filter_matches status (Some (rn_status r)) \<and>
            filter_matches pipeline_run_id (rn_pipeline_run r)) rows;
          page = drop offset (newest_first found)
      in (case limit of None \<Rightarrow> page | Some n \<Rightarrow> if n = 0 then page else take n page, length found))"

definition get_last_run_for_job :: "run_row list \<Rightarrow> string \<Rightarrow> run_row option" where
  "get_last_run_for_job rows job_id =
     (case newest_first (filter (\<lambda>r. rn_job_id r = job_id) rows) of [] \<Rightarrow> None | r # _ \<Rightarrow> Some r)"

definition get_pipeline_run_status :: "run_row list \<Rightarrow> string \<Rightarrow> run_row list" where
  "get_pipeline_run_status rows pipeline_run_id =
     sort_key rn_started_at (filter (\<lambda>r. rn_pipeline_run r = Some pipeline_run_id) rows)"

definition get_last_pipeline_run_id :: "run_row list \<Rightarrow> string \<Rightarrow> string option" where
  "get_last_pipeline_run_id rows pipeline_id =
     (case newest_first (filter (\<lambda>r. rn_job_id r = pipeline_id \<and> rn_pipeline_run r \<noteq> None) rows) of
        [] \<Rightarrow> None
      | r # _ \<Rightarrow> if truthy_str (rn_pipeline_run r) then rn_pipeline_run r else None)"

section \<open>Chains\<close>

record pipeline_step =
  ps_order :: int
  ps_job_type :: string
  ps_job_name :: string

record chain_world =
  cw_runs :: "run_row list"
  cw_ticks :: nat
  cw_uuids :: nat
  cw_cancelled :: bool
  cw_expired :: "string list"

type_synonym executor = "string \<Rightarrow> string \<Rightarrow> bool \<Rightarrow> chain_world \<Rightarrow> string option \<times> chain_world"

record chain_env =
  ce_clock :: "nat \<Rightarrow> int"
  ce_uuid :: "nat \<Rightarrow> string"
  ce_executors :: "string \<Rightarrow> executor option"
  ce_expires :: "string \<Rightarrow> bool"

definition read_clock :: "chain_env \<Rightarrow> chain_world \<Rightarrow> int \<times> chain_world" where
  "read_clock E w = (ce_clock E (cw_ticks w), w\<lparr>cw_ticks := Suc (cw_ticks w)\<rparr>)"

definition draw_uuid :: "chain_env \<Rightarrow> chain_world \<Rightarrow> string \<times> chain_world" where
  "draw_uuid E w = (ce_uuid E (cw_uuids w), w\<lparr>cw_uuids := Suc (cw_uuids w)\<rparr>)"

definition update_run :: "string \<Rightarrow> (run_row \<Rightarrow> run_row) \<Rightarrow> chain_world \<Rightarrow> chain_world" where
  "update_run run_id f w = w\<lparr>cw_runs := update_scheduler_run (cw_runs w) run_id f\<rparr>"

definition append_run :: "run_row \<Rightarrow> chain_world \<Rightarrow> chain_world" where
  "append_run run w = w\<lparr>cw_runs := append_scheduler_run (cw_runs w) run\<rparr>"

definition mark_skipped ::
    "chain_env \<Rightarrow> string \<Rightarrow> string \<Rightarrow> pipeline_step \<Rightarrow> string \<Rightarrow> string \<Rightarrow> chain_world \<Rightarrow> chain_world" where
  "mark_skipped E pipeline_id pipeline_run_id s scope reason w =
     (let (now, w1) = read_clock E w; (run_id, w2) = draw_uuid E w1 in
      append_run \<lparr>rn_id = run_id, rn_job_id = pipeline_id, rn_job_name = ps_job_name s, rn_job_type = ps_job_type s,
        rn_scope = scope, rn_status = ''skipped'', rn_started_at = now, rn_completed_at = Some now, rn_duration = Some 0,
        rn_total = 0, rn_done = 0, rn_error = Some reason, rn_trigger = Some ''pipeline'',
        rn_pipeline_run = Some pipeline_run_id\<rparr> w2)"

definition running_row :: "string \<Rightarrow> string \<Rightarrow> string \<Rightarrow> string \<Rightarrow> string \<Rightarrow> int \<Rightarrow> string \<Rightarrow> string option \<Rightarrow> run_row" where
  "running_row run_id job_id job_name job_type scope now trigger_type pipeline_run_id =
     \<lparr>rn_id = run_id, rn_job_id = job_id, rn_job_name = job_name, rn_job_type = job_type, rn_scope = scope,
      rn_status = ''running'', rn_started_at = now, rn_completed_at = None, rn_duration = None, rn_total = 0,
      rn_done = 0, rn_error = None, rn_trigger = Some trigger_type, rn_pipeline_run = pipeline_run_id\<rparr>"

text \<open>What the step is found to be after its executor returned: its row, if it heads the query.\<close>

definition step_status :: "chain_env \<Rightarrow> string \<Rightarrow> string \<Rightarrow> chain_world \<Rightarrow> string \<times> chain_world" where
  "step_status E pipeline_run_id run_id w =
     (let (now, w1) = read_clock E w;
          last_runs = fst (get_scheduler_runs (cw_runs w1) now 1 None None (Some pipeline_run_id) 0 (Some 1));
          status = (case find (\<lambda>r. rn_id r = run_id) last_runs of None \<Rightarrow> ''success'' | Some r \<Rightarrow> rn_status r)
      in (if status = ''running'' then ''success'' else status, w1))"

definition run_step ::
    "chain_env \<Rightarrow> string \<Rightarrow> string \<Rightarrow> pipeline_step \<Rightarrow> string \<Rightarrow> string \<Rightarrow> bool \<Rightarrow> chain_world \<Rightarrow> bool \<times> chain_world" where
  "run_step E pipeline_id pipeline_run_id s scope trigger_type force w =
     (case ce_executors E (ps_job_type s) of
        None \<Rightarrow> (False, w)
      | Some executor_fn \<Rightarrow>
          (let (run_id, w1) = draw_uuid E w;
               (now, w2) = read_clock E w1;
               w3 = append_run (running_row run_id pipeline_id (ps_job_name s) (ps_job_type s) scope now trigger_type
                      (Some pipeline_run_id)) w2;
               (start, w4) = read_clock E w3
           in case executor_fn scope run_id force w4 of
                (Some exc, w5) \<Rightarrow>
                  (let (t, w6) = read_clock E w5; (completed, w7) = read_clock E w6 in
                   (False, update_run run_id (\<lambda>r. r\<lparr>rn_status := ''failed'', rn_completed_at := Some completed,
                      rn_duration := Some (t - start), rn_error := Some (take 500 exc)\<rparr>) w7))
              | (None, w5) \<Rightarrow>
                  (let (t, w6) = read_clock E w5;
                       (status, w7) = step_status E pipeline_run_id run_id w6;
                       (completed, w8) = read_clock E w7
                   in (status = ''success'', update_run run_id (\<lambda>r. r\<lparr>rn_status := status,
                         rn_completed_at := Some completed, rn_duration := Some (t - start)\<rparr>) w8))))"

fun chain_loop ::
    "chain_env \<Rightarrow> string \<Rightarrow> string \<Rightarrow> string \<Rightarrow> string \<Rightarrow> int \<Rightarrow> bool \<Rightarrow> pipeline_step list \<Rightarrow> bool \<Rightarrow> chain_world \<Rightarrow>
     bool \<times> chain_world" where
  "chain_loop E pid prid scope trigger start_step force [] failed w = (failed, w)"
| "chain_loop E pid prid scope trigger start_step force (s # steps) failed w =
     (if ps_order s < start_step then chain_loop E pid prid scope trigger start_step force steps failed w
      else if cw_cancelled w then
        chain_loop E pid prid scope trigger start_step force steps True
          (mark_skipped E pid prid s scope ''Pipeline cancelled'' w)
      else if failed then
        chain_loop E pid prid scope trigger start_step force steps failed
          (mark_skipped E pid prid s scope ''Skipped: prior step failed'' w)
      else
        (case run_step E pid prid s scope trigger force w of
           (ok, w1) \<Rightarrow> chain_loop E pid prid scope trigger start_step force steps (\<not> ok) w1))"

definition EXPIRED_TABLES :: "string list" where
  "EXPIRED_TABLES = [''stocks.ohlcv'', ''stocks.analysis_summary'', ''stocks.piotroski_scores'', ''stocks.sentiment_scores'']"

text \<open>\<open>expire_snapshots\<close> on one table after the other until one raises.\<close>

definition expire_tables :: "chain_env \<Rightarrow> chain_world \<Rightarrow> chain_world" where
  "expire_tables E w = w\<lparr>cw_expired := cw_expired w @ takeWhile (ce_expires E) EXPIRED_TABLES\<rparr>"

record pipeline =
  pl_id :: string
  pl_name :: string
  pl_scope :: string
  pl_enabled :: bool
  pl_cron_days :: "string option"
  pl_cron_time :: "string option"
  pl_cron_dates :: "string option"
  pl_steps :: "pipeline_step list"

definition execute_chain ::
    "chain_env \<Rightarrow> pipeline \<Rightarrow> string \<Rightarrow> string \<Rightarrow> int \<Rightarrow> bool \<Rightarrow> chain_world \<Rightarrow> string \<times> chain_world" where
  "execute_chain E p pipeline_run_id trigger_type start_step force w =
     (case chain_loop E (pl_id p) pipeline_run_id (pl_scope p) trigger_type start_step force
             (sort_key ps_order (pl_steps p)) False w of
        (failed, w1) \<Rightarrow> (pipeline_run_id, if failed then w1 else expire_tables E w1))"

definition trigger_pipeline :: "chain_env \<Rightarrow> pipeline \<Rightarrow> string \<Rightarrow> bool \<Rightarrow> chain_world \<Rightarrow> string \<times> chain_world" where
  "trigger_pipeline E p trigger_type force w =
     (let (prid, w1) = draw_uuid E w in execute_chain E p prid trigger_type 1 force w1)"

definition resume_pipeline :: "chain_env \<Rightarrow> pipeline \<Rightarrow> int \<Rightarrow> chain_world \<Rightarrow> string \<times> chain_world" where
  "resume_pipeline E p from_step w =
     (let (prid, w1) = draw_uuid E w in execute_chain E p prid ''manual'' from_step False w1)"

end
