(* ===== verification/Sched_Service.thy ===== *)
theory Sched_Service
  imports Sched_Pipeline
begin

text \<open>
  The scheduler service (\<open>backend/jobs/scheduler_service.py\<close>) over the tables of
  \<open>backend/db/models/scheduler.py\<close> and \<open>pipeline.py\<close>. A reading of the clock is an IST date-time.
  The \<open>schedule\<close> library is the list of what is registered with it; whether \<open>at\<close> accepts a time is a
  parameter. A submission to the thread pool has a number; it is done when the number is in the list of
  the finished ones. The dictionaries of jobs, pipelines, futures and cancel events are association
  lists in insertion order.
\<close>

section \<open>State\<close>

record job =
  jb_id :: string
  jb_name :: string
  jb_type :: string
  jb_cron_days :: "string option"
  jb_cron_time :: "string option"
  jb_cron_dates :: "string option"
  jb_scope :: string
  jb_enabled :: bool
  jb_force :: bool

record registration =
  rs_tag :: string
  rs_day :: "string option"
  rs_time :: "string option"

record service =
  sv_jobs :: "(string \<times> job) list"
  sv_pipelines :: "(string \<times> pipeline) list"
  sv_regs :: "registration list"
  sv_futures :: "(string \<times> nat) list"
  sv_finished :: "nat list"
  sv_submitted :: "string list"
  sv_cancel :: "(string \<times> bool) list"
  sv_job_table :: "(string \<times> job) list"
  sv_pipeline_table :: "(string \<times> pipeline) list"
  sv_runs :: "run_row list"
  sv_ticks :: nat
  sv_uuids :: nat

record sched_env =
  se_clock :: "nat \<Rightarrow> datetime"
  se_uuid :: "nat \<Rightarrow> string"
  se_executors :: "string \<Rightarrow> bool"
  se_at :: "string option \<Rightarrow> py_exn option"

type_synonym 'a sched = "service \<Rightarrow> 'a result \<times> service"

definition now_ist :: "sched_env \<Rightarrow> service \<Rightarrow> datetime \<times> service" where
  "now_ist E st = (se_clock E (sv_ticks st), st\<lparr>sv_ticks := Suc (sv_ticks st)\<rparr>)"

definition now_utc :: "sched_env \<Rightarrow> service \<Rightarrow> int \<times> service" where
  "now_utc E st = (case now_ist E st of (t, st') \<Rightarrow> (utc_of_ist t, st'))"

definition new_uuid :: "sched_env \<Rightarrow> service \<Rightarrow> string \<times> service" where
  "new_uuid E st = (se_uuid E (sv_uuids st), st\<lparr>sv_uuids := Suc (sv_uuids st)\<rparr>)"

section \<open>Registration\<close>

definition pipeline_tag :: "string \<Rightarrow> string" where
  "pipeline_tag pid = ''pipeline:'' @ pid"

definition registrations :: "string \<Rightarrow> string option \<Rightarrow> string option \<Rightarrow> string option \<Rightarrow> registration list" where
  "registrations tag cron_days cron_time cron_dates =
     (if strip (str_or cron_dates []) \<noteq> [] then [\<lparr>rs_tag = tag, rs_day = None, rs_time = cron_time\<rparr>]
      else map (\<lambda>d. \<lparr>rs_tag = tag, rs_day = map_of DAY_MAP d, rs_time = cron_time\<rparr>) (parse_cron_days cron_days))"

text \<open>The first call of \<open>at\<close> with a bad time raises; nothing has been registered then.\<close>

definition register :: "sched_env \<Rightarrow> registration list \<Rightarrow> service \<Rightarrow> unit result \<times> service" where
  "register E regs st =
     (case regs of [] \<Rightarrow> (Inr (), st)
      | r # _ \<Rightarrow>
          (case se_at E (rs_time r) of
             Some e \<Rightarrow> (Inl e, st)
           | None \<Rightarrow> (Inr (), st\<lparr>sv_regs := sv_regs st @ regs\<rparr>)))"

definition job_registrations :: "job \<Rightarrow> registration list" where
  "job_registrations j = registrations (jb_id j) (jb_cron_days j) (jb_cron_time j) (jb_cron_dates j)"

definition register_schedule :: "sched_env \<Rightarrow> job \<Rightarrow> service \<Rightarrow> unit result \<times> service" where
  "register_schedule E j = register E (job_registrations j)"

definition pipeline_registrations :: "pipeline \<Rightarrow> registration list" where
  "pipeline_registrations p = registrations (pipeline_tag (pl_id p)) (pl_cron_days p) (pl_cron_time p) (pl_cron_dates p)"

definition register_pipeline_schedule :: "sched_env \<Rightarrow> pipeline \<Rightarrow> service \<Rightarrow> unit result \<times> service" where
  "register_pipeline_schedule E p = register E (pipeline_registrations p)"

definition clear_tag :: "string \<Rightarrow> service \<Rightarrow> service" where
  "clear_tag tag st = st\<lparr>sv_regs := filter (\<lambda>r. rs_tag r \<noteq> tag) (sv_regs st)\<rparr>"

fun load_jobs :: "sched_env \<Rightarrow> job list \<Rightarrow> service \<Rightarrow> unit result \<times> service" where
  "load_jobs E [] st = (Inr (), st)"
| "load_jobs E (j # js) st =
     (let st1 = st\<lparr>sv_jobs := AList.update (jb_id j) j (sv_jobs st)\<rparr> in
      case (if jb_enabled j then register_schedule E j st1 else (Inr (), st1)) of
        (Inl e, st2) \<Rightarrow> (Inl e, st2)
      | (Inr _, st2) \<Rightarrow> load_jobs E js st2)"

fun load_pipelines :: "sched_env \<Rightarrow> pipeline list \<Rightarrow> service \<Rightarrow> unit result \<times> service" where
  "load_pipelines E [] st = (Inr (), st)"
| "load_pipelines E (p # ps) st =
     (let st1 = st\<lparr>sv_pipelines := AList.update (pl_id p) p (sv_pipelines st)\<rparr> in
      case (if pl_enabled p then register_pipeline_schedule E p st1 else (Inr (), st1)) of
        (Inl e, st2) \<Rightarrow> (Inl e, st2)
      | (Inr _, st2) \<Rightarrow> load_pipelines E ps st2)"

definition reload_jobs :: "sched_env \<Rightarrow> service \<Rightarrow> unit result \<times> service" where
  "reload_jobs E st =
     (case load_jobs E (map snd (sv_job_table st)) (st\<lparr>sv_regs := [], sv_jobs := [], sv_pipelines := []\<rparr>) of
        (Inl e, st1) \<Rightarrow> (Inl e, st1)
      | (Inr _, st1) \<Rightarrow> load_pipelines E (map snd (sv_pipeline_table st1)) st1)"

section \<open>Managing jobs and pipelines\<close>

text \<open>Names are unique in both tables and step numbers within a pipeline; the wrapper logs the violation.\<close>

definition name_taken :: "('r \<Rightarrow> string) \<Rightarrow> string \<Rightarrow> string \<Rightarrow> (string \<times> 'r) list \<Rightarrow> bool" where
  "name_taken name_of i n table \<longleftrightarrow> list_ex (\<lambda>(k, r). k \<noteq> i \<and> name_of r = n) table"

definition upsert_scheduled_job :: "job \<Rightarrow> service \<Rightarrow> service" where
  "upsert_scheduled_job j st =
     (if name_taken jb_name (jb_id j) (jb_name j) (sv_job_table st) then st
      else st\<lparr>sv_job_table := AList.update (jb_id j) j (sv_job_table st)\<rparr>)"

definition delete_scheduled_job :: "string \<Rightarrow> service \<Rightarrow> service" where
  "delete_scheduled_job job_id st = st\<lparr>sv_job_table := AList.delete job_id (sv_job_table st)\<rparr>"

definition put_job :: "job \<Rightarrow> service \<Rightarrow> service" where
  "put_job j st = st\<lparr>sv_jobs := AList.update (jb_id j) j (sv_jobs st)\<rparr>"

definition add_job :: "sched_env \<Rightarrow> job \<Rightarrow> service \<Rightarrow> string result \<times> service" where
  "add_job E data st =
     (let (job_id, st1) = new_uuid E st; (now, st2) = now_utc E st1;
          j = data\<lparr>jb_id := job_id, jb_enabled := True\<rparr>
      in case register_schedule E j (put_job j (upsert_scheduled_job j st2)) of
           (Inl e, st3) \<Rightarrow> (Inl e, st3)
         | (Inr _, st3) \<Rightarrow> (Inr job_id, st3))"

definition remove_job :: "string \<Rightarrow> service \<Rightarrow> service" where
  "remove_job job_id st =
     delete_scheduled_job job_id ((clear_tag job_id st)\<lparr>sv_jobs := AList.delete job_id (sv_jobs st)\<rparr>)"

definition toggle_job :: "sched_env \<Rightarrow> string \<Rightarrow> bool \<Rightarrow> service \<Rightarrow> unit result \<times> service" where
  "toggle_job E job_id enabled st =
     (case map_of (sv_jobs st) job_id of
        None \<Rightarrow> (Inr (), st)
      | Some j \<Rightarrow>
          (let j' = j\<lparr>jb_enabled := enabled\<rparr>; (now, st1) = now_utc E st;
               st2 = clear_tag job_id (upsert_scheduled_job j' (put_job j' st1))
           in if enabled then register_schedule E j' st2 else (Inr (), st2)))"

text \<open>The updates of a PATCH request: name, days, dates, time and scope.\<close>

definition update_job :: "sched_env \<Rightarrow> string \<Rightarrow> (job \<Rightarrow> job) \<Rightarrow> service \<Rightarrow> unit result \<times> service" where
  "update_job E job_id updates st =
     (case map_of (sv_jobs st) job_id of
        None \<Rightarrow> (Inr (), st)
      | Some j \<Rightarrow>
          (let j' = updates j; (now, st1) = now_utc E st;
               st2 = clear_tag job_id (upsert_scheduled_job j' (put_job j' st1))
           in if jb_enabled j' then register_schedule E j' st2 else (Inr (), st2)))"

definition upsert_pipeline :: "pipeline \<Rightarrow> service \<Rightarrow> service" where
  "upsert_pipeline p st =
     (if name_taken pl_name (pl_id p) (pl_name p) (sv_pipeline_table st) \<or> \<not> distinct (map ps_order (pl_steps p)) then st
      else st\<lparr>sv_pipeline_table := AList.update (pl_id p) p (sv_pipeline_table st)\<rparr>)"

definition delete_pipeline :: "string \<Rightarrow> service \<Rightarrow> service" where
  "delete_pipeline pid st = st\<lparr>sv_pipeline_table := AList.delete pid (sv_pipeline_table st)\<rparr>"

definition put_pipeline :: "pipeline \<Rightarrow> service \<Rightarrow> service" where
  "put_pipeline p st = st\<lparr>sv_pipelines := AList.update (pl_id p) p (sv_pipelines st)\<rparr>"

definition add_pipeline :: "sched_env \<Rightarrow> pipeline \<Rightarrow> service \<Rightarrow> string result \<times> service" where
  "add_pipeline E data st =
     (let (pid, st1) = new_uuid E st; p = data\<lparr>pl_id := pid\<rparr>; st2 = put_pipeline p (upsert_pipeline p st1) in
      case (if pl_enabled p then register_pipeline_schedule E p st2 else (Inr (), st2)) of
        (Inl e, st3) \<Rightarrow> (Inl e, st3)
      | (Inr _, st3) \<Rightarrow> (Inr pid, st3))"

definition update_pipeline :: "sched_env \<Rightarrow> string \<Rightarrow> (pipeline \<Rightarrow> pipeline) \<Rightarrow> service \<Rightarrow> unit result \<times> service" where
  "update_pipeline E pid updates st =
     (case map_of (sv_pipelines st) pid of
        None \<Rightarrow> (Inr (), st)
      | Some p \<Rightarrow>
          (let p' = updates p; st1 = clear_tag (pipeline_tag pid) (upsert_pipeline p' (put_pipeline p' st)) in
           if pl_enabled p' then register_pipeline_schedule E p' st1 else (Inr (), st1)))"

definition remove_pipeline :: "string \<Rightarrow> service \<Rightarrow> service" where
  "remove_pipeline pid st =
     delete_pipeline pid ((clear_tag (pipeline_tag pid) st)\<lparr>sv_pipelines := AList.delete pid (sv_pipelines st)\<rparr>)"

section \<open>Execution\<close>

definition future_running :: "service \<Rightarrow> string \<Rightarrow> bool" where
  "future_running st tag = (case map_of (sv_futures st) tag of None \<Rightarrow> False | Some n \<Rightarrow> n \<notin> set (sv_finished st))"

text \<open>\<open>self._pool.submit\<close>, remembered under the tag; the list of submissions has the tags in order.\<close>

definition submit :: "string \<Rightarrow> service \<Rightarrow> service" where
  "submit tag st = st\<lparr>sv_futures := AList.update tag (length (sv_submitted st)) (sv_futures st),
     sv_submitted := sv_submitted st @ [tag]\<rparr>"

definition trigger_now :: "sched_env \<Rightarrow> string \<Rightarrow> string \<Rightarrow> bool \<Rightarrow> service \<Rightarrow> string option \<times> service" where
  "trigger_now E job_id trigger_type force st =
     (case map_of (sv_jobs st) job_id of
        None \<Rightarrow> (None, st)
      | Some j \<Rightarrow>
          if \<not> se_executors E (jb_type j) then (None, st)
          else
            (let (run_id, st1) = new_uuid E st; (now, st2) = now_utc E st1;
                 st3 = st2\<lparr>sv_runs := append_scheduler_run (sv_runs st2)
                   (running_row run_id job_id (jb_name j) (jb_type j) (jb_scope j) now trigger_type None),
                   sv_cancel := AList.update run_id False (sv_cancel st2)\<rparr>
             in (Some run_id, submit job_id st3)))"

text \<open>\<open>_run_and_cleanup\<close> after the executor, which took \<open>elapsed\<close> and raised \<open>exc\<close> or returned.\<close>

definition finish_job_run :: "sched_env \<Rightarrow> nat \<Rightarrow> string \<Rightarrow> int \<Rightarrow> string option \<Rightarrow> service \<Rightarrow> service" where
  "finish_job_run E n run_id elapsed exc st =
     (let (completed, st1) = now_utc E st in
      st1\<lparr>sv_runs := update_scheduler_run (sv_runs st1) run_id
            (case exc of
               Some e \<Rightarrow> (\<lambda>r. r\<lparr>rn_status := ''failed'', rn_completed_at := Some completed, rn_duration := Some elapsed,
                            rn_error := Some (take 500 e)\<rparr>)
             | None \<Rightarrow> (\<lambda>r. r\<lparr>rn_duration := Some elapsed\<rparr>)),
          sv_cancel := AList.delete run_id (sv_cancel st1), sv_finished := n # sv_finished st1\<rparr>)"

definition date_gate :: "datetime \<Rightarrow> string option \<Rightarrow> bool" where
  "date_gate now cron_dates =
     (let d = strip (str_or cron_dates []) in d = [] \<or> dy (dt_date now) \<in> set (parse_cron_dates d))"

definition trigger_job :: "sched_env \<Rightarrow> string \<Rightarrow> service \<Rightarrow> string option \<times> service" where
  "trigger_job E job_id st =
     (case map_of (sv_jobs st) job_id of
        None \<Rightarrow> (None, st)
      | Some j \<Rightarrow>
          if \<not> jb_enabled j then (None, st)
          else
            (let (now, st1) = now_ist E st in
             if \<not> date_gate now (jb_cron_dates j) then (None, st1)
             else if future_running st1 job_id then (None, st1)
             else trigger_now E job_id ''scheduled'' (jb_force j) st1))"

text \<open>A pipeline is submitted under its tag; the cancel event is stored after the submission.\<close>

definition trigger_pipeline_now :: "string \<Rightarrow> service \<Rightarrow> string option \<times> service" where
  "trigger_pipeline_now pid st =
     (case map_of (sv_pipelines st) pid of
        None \<Rightarrow> (None, st)
      | Some p \<Rightarrow>
          (let tag = pipeline_tag pid; st1 = submit tag st in
           (Some tag, st1\<lparr>sv_cancel := AList.update tag False (sv_cancel st1)\<rparr>)))"

definition finish_pipeline_run :: "nat \<Rightarrow> string \<Rightarrow> service \<Rightarrow> service" where
  "finish_pipeline_run n tag st =
     st\<lparr>sv_cancel := AList.delete tag (sv_cancel st), sv_finished := n # sv_finished st\<rparr>"

definition trigger_scheduled_pipeline :: "sched_env \<Rightarrow> string \<Rightarrow> service \<Rightarrow> string option \<times> service" where
  "trigger_scheduled_pipeline E pid st =
     (case map_of (sv_pipelines st) pid of
        None \<Rightarrow> (None, st)
      | Some p \<Rightarrow>
          if \<not> pl_enabled p then (None, st)
          else
            (let (now, st1) = now_ist E st in
             if \<not> date_gate now (pl_cron_dates p) then (None, st1)
             else if future_running st1 (pipeline_tag pid) then (None, st1)
             else trigger_pipeline_now pid st1))"

definition cancel_run :: "string \<Rightarrow> service \<Rightarrow> bool \<times> service" where
  "cancel_run run_id st =
     (if map_of (sv_cancel st) run_id = None then (False, st)
      else (True, st\<lparr>sv_cancel := AList.update run_id True (sv_cancel st)\<rparr>))"

section \<open>Start-up\<close>

definition stale_message :: string where
  "stale_message = ''Server restarted while job was running''"

definition cleanup_stale_runs :: "sched_env \<Rightarrow> service \<Rightarrow> service" where
  "cleanup_stale_runs E st =
     (let (now0, st1) = now_utc E st;
          runs = fst (get_scheduler_runs (sv_runs st1) now0 7 None None None 0 None);
          (now, st2) = now_utc E st1
      in st2\<lparr>sv_runs := fold (\<lambda>r rows. if rn_status r = ''running'' then
             update_scheduler_run rows (rn_id r) (\<lambda>q. q\<lparr>rn_status := ''failed'', rn_completed_at := Some now,
               rn_error := Some stale_message\<rparr>) else rows) runs (sv_runs st2)\<rparr>)"

definition last_window :: "datetime \<Rightarrow> job \<Rightarrow> datetime option result" where
  "last_window now j =
     (let cron_dates = strip (str_or (jb_cron_dates j) []) in
      if cron_dates \<noteq> [] then last_window_dates now cron_dates (jb_cron_time j)
      else last_scheduled_window now (parse_cron_days (jb_cron_days j)) (jb_cron_time j))"

text \<open>Whether a run covers the window: still running, or started at or after it.\<close>

definition covered :: "run_row option \<Rightarrow> datetime \<Rightarrow> bool" where
  "covered last_run window =
     (case last_run of None \<Rightarrow> False
      | Some r \<Rightarrow> rn_status r = ''running'' \<or> utc_of_ist window \<le> rn_started_at r)"

fun catchup_loop :: "sched_env \<Rightarrow> (string \<times> job) list \<Rightarrow> service \<Rightarrow> unit result \<times> service" where
  "catchup_loop E [] st = (Inr (), st)"
| "catchup_loop E ((job_id, j) # js) st =
     (if \<not> jb_enabled j then catchup_loop E js st
      else
        (let (now, st1) = now_ist E st in
         case last_window now j of
           Inl e \<Rightarrow> (Inl e, st1)
         | Inr None \<Rightarrow> catchup_loop E js st1
         | Inr (Some window) \<Rightarrow>
             if covered (get_last_run_for_job (sv_runs st1) job_id) window then catchup_loop E js st1
             else catchup_loop E js (snd (trigger_now E job_id ''catchup'' False st1))))"

definition catchup_missed_jobs :: "sched_env \<Rightarrow> service \<Rightarrow> unit result \<times> service" where
  "catchup_missed_jobs E st = catchup_loop E (sv_jobs st) st"

definition start :: "sched_env \<Rightarrow> bool \<Rightarrow> service \<Rightarrow> unit result \<times> service" where
  "start E catchup_enabled st =
     (case reload_jobs E (cleanup_stale_runs E st) of
        (Inl e, st1) \<Rightarrow> (Inl e, st1)
      | (Inr _, st1) \<Rightarrow> if catchup_enabled then catchup_missed_jobs E st1 else (Inr (), st1))"

end
