(* ===== verification/Sched_Chain.thy ===== *)
theory Sched_Chain
  imports Sched_Pipeline
begin

text \<open>
  What a chain leaves in the table of runs. The hypotheses on the world: UUIDs never repeat and
  an executor only changes the progress of its own row; other threads may add rows of other
  chains meanwhile (\<open>well_behaved\<close>).
\<close>

section \<open>Executors and identifiers\<close>

definition of_chain :: "string \<Rightarrow> run_row list \<Rightarrow> run_row list" where
  "of_chain prid rows = filter (\<lambda>r. rn_pipeline_run r = Some prid) rows"


definition drawn :: "chain_env \<Rightarrow> nat \<Rightarrow> string \<Rightarrow> bool" where
  "drawn E k u \<longleftrightarrow> (\<exists>n < k. u = ce_uuid E n)"

definition ids_known :: "chain_env \<Rightarrow> chain_world \<Rightarrow> bool" where
  "ids_known E w \<longleftrightarrow> (\<forall>r \<in> set (cw_runs w). drawn E (cw_uuids w) (rn_id r) \<and>
     (\<forall>p. rn_pipeline_run r = Some p \<longrightarrow> drawn E (cw_uuids w) p))"





lemma drawn_mono: "drawn E j u \<Longrightarrow> j \<le> k \<Longrightarrow> drawn E k u"
  unfolding drawn_def using less_le_trans by blast

lemma fresh_uuid: "inj (ce_uuid E) \<Longrightarrow> drawn E n u \<Longrightarrow> u \<noteq> ce_uuid E n"
  by (auto simp: drawn_def dest: injD)

lemma of_chain_update:
  assumes "\<And>r. rn_pipeline_run (f r) = rn_pipeline_run r"
  shows "of_chain p (update_scheduler_run rows run_id f) = map (\<lambda>r. if rn_id r = run_id then f r else r) (of_chain p rows)"
  by (induction rows) (auto simp: of_chain_def update_scheduler_run_def assms)

text \<open>The world functions a step is made of.\<close>

lemma world_simps [simp]:
  "cw_runs (w\<lparr>cw_ticks := n\<rparr>) = cw_runs w" "ids_known E (w\<lparr>cw_ticks := n\<rparr>) = ids_known E w"
  by (simp_all add: ids_known_def)



text \<open>A fresh row enters its chain at the end.\<close>

lemma append_fresh:
  assumes "inj (ce_uuid E)" "ids_known E w" "rn_id run = ce_uuid E (cw_uuids w)" "rn_pipeline_run run = Some p"
    "drawn E (cw_uuids w) p"
  defines "w' \<equiv> append_run run (w\<lparr>cw_uuids := Suc (cw_uuids w)\<rparr>)"
  shows "cw_runs w' = cw_runs w @ [run]" "ids_known E w'" "cw_uuids w' = Suc (cw_uuids w)"
proof -
  have new: "rn_id run \<notin> rn_id ` set (cw_runs w)"
    using assms(2,3) fresh_uuid [OF assms(1), of "cw_uuids w"] unfolding ids_known_def by (metis imageE)
  then show runs: "cw_runs w' = cw_runs w @ [run]"
    by (simp add: w'_def append_run_def append_scheduler_run_def insert_scheduler_run_def)
  show uuids: "cw_uuids w' = Suc (cw_uuids w)" by (simp add: w'_def append_run_def)
  have "drawn E (Suc (cw_uuids w)) (rn_id run)" using assms(3) by (auto simp: drawn_def)
  then show "ids_known E w'" using assms(2,4,5)
    using drawn_mono [of E "cw_uuids w" _ "Suc (cw_uuids w)"] unfolding ids_known_def runs uuids by auto
qed




lemma step_status_not_running: "step_status E prid run_id w = (status, w') \<Longrightarrow> status \<noteq> ''running'' \<and> cw_runs w' = cw_runs w \<and> cw_uuids w' = cw_uuids w"
  by (auto simp: step_status_def read_clock_def Let_def split: if_splits option.splits)

lemma finish_step:
  assumes "of_chain prid (cw_runs w) = rows @ [run]" "rn_id run = run_id" "\<forall>r \<in> set rows. rn_id r \<noteq> run_id"
    "\<And>r. rn_pipeline_run (f r) = rn_pipeline_run r" "\<And>r. rn_id (f r) = rn_id r"
  shows "of_chain prid (cw_runs (update_run run_id f w)) = rows @ [f run]"
  using assms by (auto simp: update_run_def of_chain_update map_idI)


section \<open>The chain\<close>





abbreviation "row_names \<equiv> map (\<lambda>r. (rn_job_name r, rn_job_type r))"
abbreviation "step_names \<equiv> map (\<lambda>s. (ps_job_name s, ps_job_type s))"



definition demo_uuid :: "nat \<Rightarrow> string" where
  "demo_uuid n = replicate (Suc n) (CHR ''u'')"


definition demo_world :: chain_world where
  "demo_world = \<lparr>cw_runs = [], cw_ticks = 0, cw_uuids = 0, cw_cancelled = False, cw_expired = []\<rparr>"




section \<open>What the executor said about itself\<close>

lemma sort_key_snoc_less:
  "\<forall>x \<in> set xs. f y < f x \<Longrightarrow> sort_key f (xs @ [y]) = y # sort_key f xs" for f :: "'a \<Rightarrow> int"
  by (induction xs) (auto simp: less_imp_le)

lemma find_none: "\<forall>r \<in> set rs. rn_id r \<noteq> i \<Longrightarrow> find (\<lambda>r. rn_id r = i) rs = None"
  by (auto simp: find_None_iff)

lemma set_newest_page: "set (take n (newest_first rs)) \<subseteq> set rs"
  using set_take_subset [of n "newest_first rs"] by (simp add: newest_first_def)

lemma step_status_value:
  assumes "of_chain prid (cw_runs w) = rows @ [r]" "prid \<noteq> []" "rn_id r = run_id" "\<forall>x \<in> set rows. rn_id x \<noteq> run_id"
    "\<forall>x \<in> set rows. rn_started_at x < rn_started_at r"
  shows "fst (step_status E prid run_id w) =
    (if rn_started_at r < ce_clock E (cw_ticks w) - DAY_US \<or> rn_status r = ''running'' then ''success'' else rn_status r)"
proof -
  let ?recent = "\<lambda>r. ce_clock E (cw_ticks w) - 1 * DAY_US \<le> rn_started_at r"
  let ?found = "filter ?recent (of_chain prid (cw_runs w))"
  have found: "filter (\<lambda>r. ce_clock E (cw_ticks w) - 1 * DAY_US \<le> rn_started_at r \<and> filter_matches None (Some (rn_job_type r)) \<and>
      filter_matches None (Some (rn_status r)) \<and> filter_matches (Some prid) (rn_pipeline_run r)) (cw_runs w) = ?found"
    using assms(2) by (simp add: of_chain_def filter_matches_def conj_commute)
  have page: "fst (get_scheduler_runs (cw_runs w) (ce_clock E (cw_ticks w)) 1 None None (Some prid) 0 (Some 1)) = take 1 (newest_first ?found)"
    unfolding get_scheduler_runs_def found Let_def by simp
  have "find (\<lambda>r. rn_id r = run_id) (take 1 (newest_first ?found)) = (if ?recent r then Some r else None)"
  proof (cases "?recent r")
    case True
    then have "newest_first ?found = r # newest_first (filter ?recent rows)"
      using assms(1,5) by (simp add: newest_first_def sort_key_snoc_less)
    with True assms(3) show ?thesis by simp
  next
    case False
    with assms(1) have "?found = filter ?recent rows" by simp
    then have "set (take 1 (newest_first ?found)) \<subseteq> set rows"
      using set_newest_page [of 1 "filter ?recent rows"] by auto
    then have "\<forall>x \<in> set (take 1 (newest_first ?found)). rn_id x \<noteq> run_id" using assms(4) by blast
    from find_none [OF this] False show ?thesis by simp
  qed
  then show ?thesis unfolding step_status_def read_clock_def Let_def prod.case using page by (auto simp: not_le)
qed

text \<open>An executor that leaves the status \<open>st\<close> in its row and returns after \<open>d\<close> readings of the clock.\<close>

definition reporting :: "string \<Rightarrow> nat \<Rightarrow> executor" where
  "reporting st d = (\<lambda>scope run_id force w. (None, (update_run run_id (\<lambda>r. r\<lparr>rn_status := st\<rparr>) w)\<lparr>cw_ticks := cw_ticks w + d\<rparr>))"

text \<open>
  The status an executor sets on its own row decides the step, \<open>running\<close> counting as success,
  unless the step took longer than a day: then the query for its row misses it, the recorded failure is
  overwritten with success and the chain goes on.
\<close>

theorem self_reported_status:
  assumes "inj (ce_uuid E)" "ids_known E w" "drawn E (cw_uuids w) prid" "prid \<noteq> []"
    "ce_executors E (ps_job_type s) = Some (reporting st d)"
    "\<forall>r \<in> set (of_chain prid (cw_runs w)). rn_started_at r < ce_clock E (cw_ticks w)"
    "run_step E pid prid s scope trigger force w = (ok, w')"
  defines "overlong \<equiv> ce_clock E (cw_ticks w) < ce_clock E (cw_ticks w + d + 3) - DAY_US"
  shows "\<exists>r. of_chain prid (cw_runs w') = of_chain prid (cw_runs w) @ [r] \<and>
    rn_status r = (if overlong \<or> st = ''running'' then ''success'' else st) \<and> (ok \<longleftrightarrow> rn_status r = ''success'')"
proof -
  let ?id = "ce_uuid E (cw_uuids w)" let ?rows = "of_chain prid (cw_runs w)"
  let ?row = "running_row ?id pid (ps_job_name s) (ps_job_type s) scope (ce_clock E (cw_ticks w)) trigger (Some prid)"
  let ?own = "?row\<lparr>rn_status := st\<rparr>" let ?wc = "w\<lparr>cw_ticks := Suc (cw_ticks w)\<rparr>"
  define w3 where "w3 = append_run ?row (w\<lparr>cw_uuids := Suc (cw_uuids w), cw_ticks := Suc (cw_ticks w)\<rparr>)"
  define w6 where "w6 = (update_run ?id (\<lambda>r. r\<lparr>rn_status := st\<rparr>) w3)\<lparr>cw_ticks := cw_ticks w + d + 3\<rparr>"
  have w3_alt: "append_run ?row (?wc\<lparr>cw_uuids := Suc (cw_uuids ?wc)\<rparr>) = w3" unfolding w3_def by (cases w) simp
  have fresh: "\<forall>r \<in> set ?rows. rn_id r \<noteq> ?id"
    using assms(2) fresh_uuid [OF assms(1)] by (fastforce simp: ids_known_def of_chain_def)
  have "cw_runs w3 = cw_runs w @ [?row]"
    using append_fresh(1) [of E ?wc ?row prid, unfolded w3_alt] assms(1-3) by (simp add: running_row_def)
  then have "of_chain prid (cw_runs w3) = ?rows @ [?row]" by (simp add: of_chain_def running_row_def)
  from finish_step [OF this _ fresh, of "\<lambda>r. r\<lparr>rn_status := st\<rparr>"]
  have chain6: "of_chain prid (cw_runs w6) = ?rows @ [?own]" by (simp add: running_row_def w6_def)
  obtain status w7 where st: "step_status E prid ?id w6 = (status, w7)" by fastforce
  have status: "status = (if overlong \<or> st = ''running'' then ''success'' else st)"
    using step_status_value [where E = E, OF chain6 assms(4) _ fresh] assms(6) st by (simp add: running_row_def overlong_def w6_def)
  have w7: "cw_runs w7 = cw_runs w6" using step_status_not_running [OF st] by simp
  have w6_alt: "update_run ?id (\<lambda>r. r\<lparr>rn_status := st\<rparr>) (w3\<lparr>cw_ticks := Suc (cw_ticks w3)\<rparr>)\<lparr>cw_ticks := Suc (Suc (cw_ticks w3) + d)\<rparr> = w6"
    by (simp add: w6_def update_run_def w3_def append_run_def)
  let ?f = "\<lambda>c t. \<lambda>r. r\<lparr>rn_status := status, rn_completed_at := Some c, rn_duration := Some t\<rparr>"
  have "\<exists>c t. w' = update_run ?id (?f c t) (w7\<lparr>cw_ticks := Suc (cw_ticks w7)\<rparr>) \<and> (ok \<longleftrightarrow> status = ''success'')"
    using assms(7) st w6_alt
    by (auto simp: run_step_def assms(5) reporting_def draw_uuid_def read_clock_def Let_def w3_def [symmetric] split: prod.splits)
  then obtain c t where w': "w' = update_run ?id (?f c t) (w7\<lparr>cw_ticks := Suc (cw_ticks w7)\<rparr>)" and ok: "ok \<longleftrightarrow> status = ''success''" by blast
  have "of_chain prid (cw_runs w') = ?rows @ [?f c t ?own]"
    unfolding w' by (rule finish_step) (use chain6 w7 fresh in \<open>simp_all add: running_row_def\<close>)
  with ok status show ?thesis by simp
qed

text \<open>An executor that reports its own failure; every reading of the clock is a day after the last.\<close>

definition slow_chain :: chain_env where
  "slow_chain = \<lparr>ce_clock = (\<lambda>n. int n * DAY_US), ce_uuid = demo_uuid,
     ce_executors = (\<lambda>_. Some (reporting ''failed'' 0)), ce_expires = (\<lambda>_. True)\<rparr>"

theorem self_reported_status_witness:
  "\<exists>r w'. run_step slow_chain ''p'' ''u'' \<lparr>ps_order = 1, ps_job_type = ''slow'', ps_job_name = ''s''\<rparr> ''all'' ''manual'' False
       (demo_world\<lparr>cw_uuids := 1\<rparr>) = (True, w') \<and>
     of_chain ''u'' (cw_runs w') = [r] \<and> rn_status r = ''success''"
proof -
  let ?s = "\<lparr>ps_order = 1, ps_job_type = ''slow'', ps_job_name = ''s''\<rparr>" let ?w = "demo_world\<lparr>cw_uuids := 1\<rparr>"
  obtain ok w' where run: "run_step slow_chain ''p'' ''u'' ?s ''all'' ''manual'' False ?w = (ok, w')" by fastforce
  have inj: "inj (ce_uuid slow_chain)" by (rule injI) (simp add: slow_chain_def demo_uuid_def)
  have ids: "ids_known slow_chain ?w" "drawn slow_chain (cw_uuids ?w) ''u''"
    by (simp_all add: ids_known_def drawn_def demo_world_def slow_chain_def demo_uuid_def)
  have exec: "ce_executors slow_chain (ps_job_type ?s) = Some (reporting ''failed'' 0)" by (simp add: slow_chain_def)
  have empty: "of_chain ''u'' (cw_runs ?w) = []" by (simp add: of_chain_def demo_world_def)
  have late: "ce_clock slow_chain (cw_ticks ?w) < ce_clock slow_chain (cw_ticks ?w + 0 + 3) - DAY_US"
    by (simp add: slow_chain_def demo_world_def DAY_US_def)
  obtain r where "of_chain ''u'' (cw_runs w') = [r]" "rn_status r = ''success''" "ok"
    using self_reported_status [OF inj ids _ exec _ run] empty late by auto
  with run show ?thesis by (intro exI [of _ r] exI [of _ w']) simp
qed

end
