(* ===== verification/Sched_Claims.thy ===== *)
theory Sched_Claims
  imports Sched_Service Sched_Chain
begin

text \<open>
  Properties of the scheduler: the searches give the nearest instants, what is registered with the
  \<open>schedule\<close> library follows the jobs, a bad time stops the service for good, and the
  catch-up after a restart fires once per missed window.
\<close>

section \<open>Parsing\<close>

lemma parse_time_range:
  assumes "parse_time cron_time = Inr t"
  shows "0 \<le> t" "t < DAY_US"
proof -
  obtain h m where "t = int (int_of h * 60 + int_of m) * 60 * 1000000" "int_of h < 24" "int_of m < 60"
    using assms by (auto simp: parse_time_def short_number_def split: option.splits list.splits if_splits)
  then show "0 \<le> t" "t < DAY_US" by (auto simp: DAY_US_def)
qed

section \<open>Next and last instants\<close>

text \<open>
  C27: the next run of a weekly schedule is an instant of the schedule after now with none between, and
  there is none only if the days name no weekday; likewise for days of the month, where 63 days are enough
  to meet every day from 1 to 31.
\<close>

theorem next_run_is_earliest:
  assumes "valid_time now" "parse_time cron_time = Inr t"
    "r = next_run_ist now cron_days cron_time \<and> on_day = on_weekday cron_days \<or>
     r = next_run_ist_dates now cron_dates cron_time \<and> on_day = on_date (parse_cron_dates (strip cron_dates)) \<and> strip cron_dates \<noteq> []"
  shows "case r of
      Inl e \<Rightarrow> False
    | Inr None \<Rightarrow> \<forall>s. \<not> scheduled on_day t s
    | Inr (Some n) \<Rightarrow> scheduled on_day t n \<and> instant now < instant n \<and>
        (\<forall>s. scheduled on_day t s \<longrightarrow> instant now < instant s \<longrightarrow> instant n \<le> instant s)"
  using assms(3)
proof
  assume "r = next_run_ist now cron_days cron_time \<and> on_day = on_weekday cron_days"
  with weekly.next_earliest [OF assms(1) parse_time_range [OF assms(2)], of cron_days] assms(2) show ?thesis
    by (simp add: next_run_ist_def split: option.splits)
next
  assume r: "r = next_run_ist_dates now cron_dates cron_time \<and> on_day = on_date (parse_cron_dates (strip cron_dates)) \<and> strip cron_dates \<noteq> []"
  show ?thesis
  proof (cases "parse_cron_dates (strip cron_dates) = []")
    case True
    with r show ?thesis by (simp add: next_run_ist_dates_def scheduled_def on_date_def)
  next
    case False
    with r monthly.next_earliest [OF assms(1) parse_time_range [OF assms(2)], of "parse_cron_dates (strip cron_dates)"] assms(2)
    show ?thesis by (simp add: next_run_ist_dates_def Let_def split: option.splits)
  qed
qed

text \<open>31 January 2026, a Saturday, 19:00.\<close>

definition demo_now :: datetime where
  "demo_now = \<lparr>dt_date = \<lparr>yr = 2026, mon = 1, dy = 31\<rparr>, dt_us = 19 * 3600 * 1000000\<rparr>"

lemma demo_now_valid: "valid_time demo_now"
  by (simp add: demo_now_def valid_time_def valid_date_def days_in_month_def DAYS_IN_MONTH_def DAY_US_def)

lemma demo_time: "parse_time (Some ''18:00'') = Inr (18 * 3600 * 1000000)"
  by (simp add: parse_time_def short_number_def isdigit_def is_digit_def int_of_def ord_def of_char_def)

theorem next_run_is_earliest_witness:
  "\<exists>n. next_run_ist_dates demo_now ''31'' (Some ''18:00'') = Inr (Some n) \<and>
     scheduled (on_date [31]) (18 * 3600 * 1000000) n \<and> instant demo_now < instant n"
proof -
  have dates: "strip ''31'' = ''31''" "parse_cron_dates ''31'' = [31]"
    by (simp_all add: strip_def lstrip_def is_space_def parse_cron_dates_def isdigit_def is_digit_def int_of_def ord_def of_char_def)
  note claim = next_run_is_earliest [OF demo_now_valid demo_time, of _ _ "on_date [31]" "''31''"]
  have "scheduled (on_date [31]) (18 * 3600 * 1000000) \<lparr>dt_date = \<lparr>yr = 2026, mon = 3, dy = 31\<rparr>, dt_us = 18 * 3600 * 1000000\<rparr>"
    by (simp add: scheduled_def on_date_def valid_date_def days_in_month_def DAYS_IN_MONTH_def)
  with claim [of "next_run_ist_dates demo_now ''31'' (Some ''18:00'')" "[]"] show ?thesis
    by (auto simp: dates split: sum.splits option.splits)
qed

text \<open>
  The last window of a schedule, against which missed runs are caught up, is an instant of the schedule
  that has come with none between it and now; there is none only if the schedule has no day.
\<close>

theorem last_window_is_latest:
  assumes "valid_time now" "parse_time (jb_cron_time j) = Inr t"
    "on_day = (if strip (str_or (jb_cron_dates j) []) \<noteq> [] then on_date (parse_cron_dates (strip (strip (str_or (jb_cron_dates j) []))))
       else on_weekday (parse_cron_days (jb_cron_days j)))"
  shows "case last_window now j of
      Inl e \<Rightarrow> False
    | Inr None \<Rightarrow> \<forall>s. \<not> scheduled on_day t s
    | Inr (Some n) \<Rightarrow> scheduled on_day t n \<and> instant n \<le> instant now \<and>
        (\<forall>s. scheduled on_day t s \<longrightarrow> instant s \<le> instant now \<longrightarrow> instant s \<le> instant n)"
proof (cases "strip (str_or (jb_cron_dates j) []) \<noteq> []")
  case True
  let ?d = "strip (strip (str_or (jb_cron_dates j) []))"
  show ?thesis
  proof (cases "?d = [] \<or> parse_cron_dates ?d = []")
    case empty: True
    have "parse_cron_dates [] = []" by (simp add: parse_cron_dates_def strip_def lstrip_def isdigit_def)
    with True empty assms(3) show ?thesis
      by (auto simp: last_window_def last_window_dates_def scheduled_def on_date_def Let_def)
  next
    case False
    with True monthly.last_latest [OF assms(1) parse_time_range [OF assms(2)], of "parse_cron_dates ?d"] assms(2,3)
    show ?thesis by (simp add: last_window_def last_window_dates_def Let_def split: option.splits)
  qed
next
  case False
  with weekly.last_latest [OF assms(1) parse_time_range [OF assms(2)], of "parse_cron_days (jb_cron_days j)"] assms(2,3)
  show ?thesis by (simp add: last_window_def last_scheduled_window_def split: option.splits)
qed

definition demo_job :: job where
  "demo_job = \<lparr>jb_id = ''j'', jb_name = ''refresh'', jb_type = ''data_refresh'', jb_cron_days = Some ''mon, Wed'',
     jb_cron_time = Some ''18:00'', jb_cron_dates = None, jb_scope = ''all'', jb_enabled = True, jb_force = False\<rparr>"

lemma demo_days: "parse_cron_days (Some ''mon, Wed'') = [''mon'', ''wed'']"
  by (simp add: parse_cron_days_def strip_def lstrip_def is_space_def str_lower_def to_lower_def is_upper_def ord_def
      of_char_def char_of_def DAY_MAP_def bit_0)

theorem last_window_is_latest_witness:
  "\<exists>n. last_window demo_now demo_job = Inr (Some n) \<and> scheduled (on_weekday [''mon'', ''wed'']) (18 * 3600 * 1000000) n \<and>
     instant n \<le> instant demo_now"
proof -
  have job: "jb_cron_time demo_job = Some ''18:00''" "strip (str_or (jb_cron_dates demo_job) []) = []"
    "parse_cron_days (jb_cron_days demo_job) = [''mon'', ''wed'']"
    using demo_days by (simp_all add: demo_job_def strip_def lstrip_def)
  let ?s = "\<lparr>dt_date = \<lparr>yr = 2026, mon = 1, dy = 28\<rparr>, dt_us = 18 * 3600 * 1000000\<rparr>"
  have "weekday (dt_date ?s) = 2"
    by (simp add: weekday_def toordinal_def days_before_year_def days_before_month_def DAYS_BEFORE_MONTH_def)
  then have "scheduled (on_weekday [''mon'', ''wed'']) (18 * 3600 * 1000000) ?s"
    by (simp add: scheduled_def on_weekday_def ALL_DAYS_def valid_date_def days_in_month_def DAYS_IN_MONTH_def)
  with last_window_is_latest [OF demo_now_valid demo_time [folded job(1)], of "on_weekday [''mon'', ''wed'']"] show ?thesis
    by (auto simp: job split: sum.splits option.splits)
qed

section \<open>What is registered follows the jobs\<close>

definition with_tag :: "string \<Rightarrow> service \<Rightarrow> registration list" where
  "with_tag tag st = filter (\<lambda>r. rs_tag r = tag) (sv_regs st)"

definition job_part :: "(string \<times> job) list \<Rightarrow> string \<Rightarrow> registration list" where
  "job_part jobs tag = (case map_of jobs tag of Some j \<Rightarrow> if jb_enabled j then job_registrations j else [] | None \<Rightarrow> [])"

definition pipeline_part :: "(string \<times> pipeline) list \<Rightarrow> string \<Rightarrow> registration list" where
  "pipeline_part pipelines pid = (case map_of pipelines pid of Some p \<Rightarrow> if pl_enabled p then pipeline_registrations p else [] | None \<Rightarrow> [])"

definition job_tag :: "string \<Rightarrow> bool" where
  "job_tag tag \<longleftrightarrow> (\<forall>pid. tag \<noteq> pipeline_tag pid)"

text \<open>Under every tag exactly what its job or pipeline, if enabled, asks for.\<close>

definition registered :: "service \<Rightarrow> bool" where
  "registered st \<longleftrightarrow>
     (\<forall>i j. map_of (sv_jobs st) i = Some j \<longrightarrow> jb_id j = i \<and> job_tag i) \<and>
     (\<forall>i p. map_of (sv_pipelines st) i = Some p \<longrightarrow> pl_id p = i) \<and>
     (\<forall>tag. job_tag tag \<longrightarrow> with_tag tag st = job_part (sv_jobs st) tag) \<and>
     (\<forall>pid. with_tag (pipeline_tag pid) st = pipeline_part (sv_pipelines st) pid)"

lemma pipeline_tag_eq [simp]: "pipeline_tag i = pipeline_tag j \<longleftrightarrow> i = j"
  by (simp add: pipeline_tag_def)

lemma job_tag_neq [simp]: "job_tag tag \<Longrightarrow> tag \<noteq> pipeline_tag pid" "job_tag tag \<Longrightarrow> pipeline_tag pid \<noteq> tag"
  by (auto simp: job_tag_def)

lemma with_tag_clear: "with_tag tag (clear_tag t st) = (if tag = t then [] else with_tag tag st)"
  by (auto simp: with_tag_def clear_tag_def intro!: filter_cong)

lemma filter_tag: "filter (\<lambda>r. rs_tag r = t) (registrations tag d t' ds) = (if t = tag then registrations tag d t' ds else [])"
  by (auto simp: registrations_def filter_empty_conv)

lemma register_result:
  assumes "register E regs st = (Inr u, st')"
  shows "with_tag t st' = with_tag t st @ filter (\<lambda>r. rs_tag r = t) regs" "sv_jobs st' = sv_jobs st"
    "sv_pipelines st' = sv_pipelines st" "sv_job_table st' = sv_job_table st" "sv_pipeline_table st' = sv_pipeline_table st"
  using assms by (auto simp: register_def with_tag_def split: list.splits option.splits)

text \<open>The jobs and pipelines of a state and its registrations, which is all the invariant sees.\<close>

lemma registered_cong:
  "sv_jobs st' = sv_jobs st \<Longrightarrow> sv_pipelines st' = sv_pipelines st \<Longrightarrow> sv_regs st' = sv_regs st \<Longrightarrow> registered st' = registered st"
  by (simp add: registered_def with_tag_def)

text \<open>Replacing one job: its tag is empty when the new version is registered.\<close>

lemma registered_job:
  assumes "registered st" "job_tag (jb_id j)" "with_tag (jb_id j) st1 = []" "sv_jobs st1 = AList.update (jb_id j) j (sv_jobs st)"
    "sv_pipelines st1 = sv_pipelines st" "\<And>t. t \<noteq> jb_id j \<Longrightarrow> with_tag t st1 = with_tag t st"
    "(if jb_enabled j then register_schedule E j st1 else (Inr (), st1)) = (Inr u, st2)"
  shows "registered st2"
proof -
  have "with_tag t st2 = with_tag t st1 @ (if jb_enabled j \<and> t = jb_id j then job_registrations j else [])
      \<and> sv_jobs st2 = sv_jobs st1 \<and> sv_pipelines st2 = sv_pipelines st1" for t
    using assms(7) register_result(1) [of E "job_registrations j" st1 _ st2 t] register_result(2,3) [of E "job_registrations j" st1 _ st2]
    by (auto simp: register_schedule_def job_registrations_def filter_tag split: if_splits)
  with assms(1-6) show ?thesis
    by (auto simp: registered_def job_part_def map_of_AList_update split: if_splits)
qed

lemma registered_pipeline:
  assumes "registered st" "with_tag (pipeline_tag (pl_id p)) st1 = []" "sv_pipelines st1 = AList.update (pl_id p) p (sv_pipelines st)"
    "sv_jobs st1 = sv_jobs st" "\<And>t. t \<noteq> pipeline_tag (pl_id p) \<Longrightarrow> with_tag t st1 = with_tag t st"
    "(if pl_enabled p then register_pipeline_schedule E p st1 else (Inr (), st1)) = (Inr u, st2)"
  shows "registered st2"
proof -
  have "with_tag t st2 = with_tag t st1 @ (if pl_enabled p \<and> t = pipeline_tag (pl_id p) then pipeline_registrations p else [])
      \<and> sv_jobs st2 = sv_jobs st1 \<and> sv_pipelines st2 = sv_pipelines st1" for t
    using assms(6) register_result(1) [of E "pipeline_registrations p" st1 _ st2 t]
      register_result(2,3) [of E "pipeline_registrations p" st1 _ st2]
    by (auto simp: register_pipeline_schedule_def pipeline_registrations_def filter_tag split: if_splits)
  with assms(1-5) show ?thesis
    by (auto simp: registered_def pipeline_part_def map_of_AList_update split: if_splits)
qed

lemma load_jobs_registered:
  "registered st \<Longrightarrow> load_jobs E js st = (Inr u, st') \<Longrightarrow> distinct (map jb_id js) \<Longrightarrow>
     \<forall>j \<in> set js. job_tag (jb_id j) \<and> map_of (sv_jobs st) (jb_id j) = None \<Longrightarrow>
     registered st' \<and> sv_pipelines st' = sv_pipelines st \<and> sv_pipeline_table st' = sv_pipeline_table st"
proof (induction js arbitrary: st)
  case (Cons j js)
  let ?st1 = "st\<lparr>sv_jobs := AList.update (jb_id j) j (sv_jobs st)\<rparr>"
  obtain v st2 where st2: "(if jb_enabled j then register_schedule E j ?st1 else (Inr (), ?st1)) = (Inr v, st2)"
    and rest: "load_jobs E js st2 = (Inr u, st')"
    using Cons.prems(2) by (auto simp: Let_def split: prod.splits sum.splits)
  have "with_tag (jb_id j) ?st1 = []"
    using Cons.prems(1,4) by (auto simp: registered_def with_tag_def job_part_def)
  then have "registered st2"
    by (intro registered_job [OF Cons.prems(1) _ _ _ _ _ st2]) (use Cons.prems(4) in \<open>auto simp: with_tag_def\<close>)
  moreover have "sv_jobs st2 = AList.update (jb_id j) j (sv_jobs st)" "sv_pipelines st2 = sv_pipelines st"
    "sv_pipeline_table st2 = sv_pipeline_table st"
    using st2 by (auto simp: register_schedule_def split: if_splits dest: register_result(2-5))
  moreover from this Cons.prems(3,4) have "\<forall>j \<in> set js. job_tag (jb_id j) \<and> map_of (sv_jobs st2) (jb_id j) = None"
    by (auto simp: map_of_AList_update image_iff)
  ultimately show ?case using Cons.IH [OF _ rest] Cons.prems(3) by simp
qed simp

lemma load_pipelines_registered:
  "registered st \<Longrightarrow> load_pipelines E ps st = (Inr u, st') \<Longrightarrow> distinct (map pl_id ps) \<Longrightarrow>
     \<forall>p \<in> set ps. map_of (sv_pipelines st) (pl_id p) = None \<Longrightarrow> registered st'"
proof (induction ps arbitrary: st)
  case (Cons p ps)
  let ?st1 = "st\<lparr>sv_pipelines := AList.update (pl_id p) p (sv_pipelines st)\<rparr>"
  obtain v st2 where st2: "(if pl_enabled p then register_pipeline_schedule E p ?st1 else (Inr (), ?st1)) = (Inr v, st2)"
    and rest: "load_pipelines E ps st2 = (Inr u, st')"
    using Cons.prems(2) by (auto simp: Let_def split: prod.splits sum.splits)
  have "with_tag (pipeline_tag (pl_id p)) ?st1 = []"
    using Cons.prems(1,4) by (auto simp: registered_def with_tag_def pipeline_part_def)
  then have "registered st2"
    by (intro registered_pipeline [OF Cons.prems(1) _ _ _ _ st2]) (auto simp: with_tag_def)
  moreover have "sv_pipelines st2 = AList.update (pl_id p) p (sv_pipelines st)"
    using st2 by (auto simp: register_pipeline_schedule_def split: if_splits dest: register_result(3))
  moreover from this Cons.prems(3,4) have "\<forall>p \<in> set ps. map_of (sv_pipelines st2) (pl_id p) = None"
    by (auto simp: map_of_AList_update image_iff)
  ultimately show ?case using Cons.IH [OF _ rest] Cons.prems(3) by simp
qed simp

definition sound_tables :: "service \<Rightarrow> bool" where
  "sound_tables st \<longleftrightarrow> distinct (map jb_id (map snd (sv_job_table st))) \<and> distinct (map pl_id (map snd (sv_pipeline_table st))) \<and>
     (\<forall>j \<in> set (map snd (sv_job_table st)). job_tag (jb_id j))"

lemma reload_registered:
  assumes "sound_tables st" "reload_jobs E st = (Inr u, st')"
  shows "registered st'"
proof -
  let ?empty = "st\<lparr>sv_regs := [], sv_jobs := [], sv_pipelines := []\<rparr>"
  obtain v st1 where jobs: "load_jobs E (map snd (sv_job_table st)) ?empty = (Inr v, st1)"
    and pipes: "load_pipelines E (map snd (sv_pipeline_table st1)) st1 = (Inr u, st')"
    using assms(2) by (auto simp: reload_jobs_def split: prod.splits sum.splits)
  have "registered ?empty" by (simp add: registered_def with_tag_def job_part_def pipeline_part_def)
  with jobs assms(1) have "registered st1 \<and> sv_pipelines st1 = [] \<and> sv_pipeline_table st1 = sv_pipeline_table st"
    using load_jobs_registered [OF _ jobs] by (auto simp: sound_tables_def)
  with load_pipelines_registered [OF _ pipes] assms(1) show ?thesis by (simp add: sound_tables_def)
qed

lemma put_upsert_sel [simp]:
  "sv_jobs (put_job j st) = AList.update (jb_id j) j (sv_jobs st)" "sv_pipelines (put_job j st) = sv_pipelines st"
  "sv_regs (put_job j st) = sv_regs st"
  "sv_jobs (upsert_scheduled_job j st) = sv_jobs st" "sv_pipelines (upsert_scheduled_job j st) = sv_pipelines st"
  "sv_regs (upsert_scheduled_job j st) = sv_regs st"
  "sv_pipelines (put_pipeline p st) = AList.update (pl_id p) p (sv_pipelines st)" "sv_jobs (put_pipeline p st) = sv_jobs st"
  "sv_regs (put_pipeline p st) = sv_regs st"
  "sv_jobs (upsert_pipeline p st) = sv_jobs st" "sv_pipelines (upsert_pipeline p st) = sv_pipelines st"
  "sv_regs (upsert_pipeline p st) = sv_regs st"
  "sv_jobs (clear_tag t st) = sv_jobs st" "sv_pipelines (clear_tag t st) = sv_pipelines st"
  by (simp_all add: put_job_def upsert_scheduled_job_def put_pipeline_def upsert_pipeline_def clear_tag_def)

lemma change_job_registered:
  assumes "registered st" "map_of (sv_jobs st) i = Some j" "jb_id j' = i"
    "sv_jobs st1 = sv_jobs st" "sv_pipelines st1 = sv_pipelines st" "sv_regs st1 = sv_regs st"
    "(if jb_enabled j' then register_schedule E j' (clear_tag i (upsert_scheduled_job j' (put_job j' st1)))
      else (Inr (), clear_tag i (upsert_scheduled_job j' (put_job j' st1)))) = (Inr u, st')"
  shows "registered st'"
proof -
  have tag: "job_tag i" using assms(1,2) by (auto simp: registered_def)
  show ?thesis
    by (rule registered_job [OF assms(1) _ _ _ _ _ assms(7)])
       (use assms(3-6) tag in \<open>auto simp: with_tag_clear with_tag_def [of _ st] with_tag_def [of _ "upsert_scheduled_job j' (put_job j' st1)"]\<close>)
qed

lemma change_pipeline_registered:
  assumes "registered st" "pl_id p' = i"
    "(if pl_enabled p' then register_pipeline_schedule E p' (clear_tag (pipeline_tag i) (upsert_pipeline p' (put_pipeline p' st)))
      else (Inr (), clear_tag (pipeline_tag i) (upsert_pipeline p' (put_pipeline p' st)))) = (Inr u, st')"
  shows "registered st'"
  by (rule registered_pipeline [OF assms(1) _ _ _ _ assms(3)])
     (use assms(2) in \<open>auto simp: with_tag_clear with_tag_def [of _ st] with_tag_def [of _ "upsert_pipeline p' (put_pipeline p' st)"]\<close>)

lemma with_tag_simps [simp]:
  "with_tag t (st\<lparr>sv_jobs := js\<rparr>) = with_tag t st" "with_tag t (st\<lparr>sv_pipelines := ps\<rparr>) = with_tag t st"
  "with_tag t (st\<lparr>sv_job_table := jt\<rparr>) = with_tag t st" "with_tag t (st\<lparr>sv_pipeline_table := pt\<rparr>) = with_tag t st"
  by (simp_all add: with_tag_def)

lemma remove_job_registered: "registered st \<Longrightarrow> job_tag i \<Longrightarrow> registered (remove_job i st)"
  by (auto simp: registered_def remove_job_def delete_scheduled_job_def with_tag_clear job_part_def map_of_AList_delete split: if_splits)

lemma remove_pipeline_registered: "registered st \<Longrightarrow> registered (remove_pipeline pid st)"
  by (auto simp: registered_def remove_pipeline_def delete_pipeline_def with_tag_clear pipeline_part_def map_of_AList_delete split: if_splits)

lemma add_job_registered:
  assumes "registered st" "map_of (sv_jobs st) (se_uuid E (sv_uuids st)) = None" "job_tag (se_uuid E (sv_uuids st))"
    "add_job E data st = (Inr i, st')"
  shows "registered st'"
proof -
  let ?j = "data\<lparr>jb_id := se_uuid E (sv_uuids st), jb_enabled := True\<rparr>"
  let ?st2 = "st\<lparr>sv_uuids := Suc (sv_uuids st), sv_ticks := Suc (sv_ticks st)\<rparr>"
  obtain u where "register_schedule E ?j (put_job ?j (upsert_scheduled_job ?j ?st2)) = (Inr u, st')"
    using assms(4) by (simp add: add_job_def new_uuid_def now_utc_def now_ist_def Let_def split: prod.splits sum.splits)
  then have eq: "(if jb_enabled ?j then register_schedule E ?j (put_job ?j (upsert_scheduled_job ?j ?st2))
      else (Inr (), put_job ?j (upsert_scheduled_job ?j ?st2))) = (Inr u, st')" by simp
  have regs: "with_tag t (put_job ?j (upsert_scheduled_job ?j ?st2)) = with_tag t st" for t by (simp add: with_tag_def)
  have "with_tag (se_uuid E (sv_uuids st)) st = []"
    using assms(1-3) by (simp add: registered_def job_part_def)
  then show ?thesis
    by (intro registered_job [OF assms(1) _ _ _ _ _ eq]) (simp_all add: regs assms(3))
qed

lemma add_pipeline_registered:
  assumes "registered st" "map_of (sv_pipelines st) (se_uuid E (sv_uuids st)) = None" "add_pipeline E data st = (Inr i, st')"
  shows "registered st'"
proof -
  let ?p = "data\<lparr>pl_id := se_uuid E (sv_uuids st)\<rparr>" let ?st1 = "st\<lparr>sv_uuids := Suc (sv_uuids st)\<rparr>"
  let ?st2 = "put_pipeline ?p (upsert_pipeline ?p ?st1)"
  obtain u where eq: "(if pl_enabled ?p then register_pipeline_schedule E ?p ?st2 else (Inr (), ?st2)) = (Inr u, st')"
    using assms(3) by (simp add: add_pipeline_def new_uuid_def Let_def split: prod.splits sum.splits)
  have regs: "with_tag t ?st2 = with_tag t st" for t by (simp add: with_tag_def)
  have "with_tag (pipeline_tag (se_uuid E (sv_uuids st))) st = []"
    using assms(1,2) by (simp add: registered_def pipeline_part_def)
  then show ?thesis
    by (intro registered_pipeline [OF assms(1) _ _ _ _ eq]) (simp_all add: regs)
qed

text \<open>
  C28: every management operation that returns leaves under each tag exactly the registrations its job or
  pipeline asks for if enabled and none otherwise, whatever sequence of operations came before; a
  reload establishes it from the tables.
\<close>

theorem registrations_follow_jobs:
  assumes "registered st" "job_tag (se_uuid E (sv_uuids st))" "map_of (sv_jobs st) (se_uuid E (sv_uuids st)) = None"
    "map_of (sv_pipelines st) (se_uuid E (sv_uuids st)) = None" "\<And>j. jb_id (updates j) = jb_id j" "\<And>p. pl_id (p_updates p) = pl_id p"
  shows "(\<forall>i. add_job E data st = (Inr i, st') \<longrightarrow> registered st') \<and>
    (toggle_job E i enabled st = (Inr (), st') \<longrightarrow> registered st') \<and>
    (update_job E i updates st = (Inr (), st') \<longrightarrow> registered st') \<and>
    (job_tag i \<longrightarrow> registered (remove_job i st)) \<and>
    (\<forall>pid. add_pipeline E p_data st = (Inr pid, st') \<longrightarrow> registered st') \<and>
    (update_pipeline E pid p_updates st = (Inr (), st') \<longrightarrow> registered st') \<and>
    registered (remove_pipeline pid st) \<and>
    (sound_tables st \<longrightarrow> reload_jobs E st = (Inr (), st') \<longrightarrow> registered st')"
proof (intro conjI allI impI)
  have id: "jb_id j = i" if "map_of (sv_jobs st) i = Some j" for i j using assms(1) that by (simp add: registered_def)
  have pid: "pl_id p = i" if "map_of (sv_pipelines st) i = Some p" for i p using assms(1) that by (simp add: registered_def)
  show "registered st'" if "toggle_job E i enabled st = (Inr (), st')"
  proof (cases "map_of (sv_jobs st) i")
    case (Some j)
    with that id [OF Some] show ?thesis
      by (intro change_job_registered [OF assms(1) Some, of "j\<lparr>jb_enabled := enabled\<rparr>" "st\<lparr>sv_ticks := Suc (sv_ticks st)\<rparr>" E "()"])
         (simp_all add: toggle_job_def now_utc_def now_ist_def Let_def)
  qed (use that assms(1) in \<open>simp add: toggle_job_def\<close>)
  show "registered st'" if "update_job E i updates st = (Inr (), st')"
  proof (cases "map_of (sv_jobs st) i")
    case (Some j)
    with that id [OF Some] assms(5) show ?thesis
      by (intro change_job_registered [OF assms(1) Some, of "updates j" "st\<lparr>sv_ticks := Suc (sv_ticks st)\<rparr>" E "()"])
         (simp_all add: update_job_def now_utc_def now_ist_def Let_def)
  qed (use that assms(1) in \<open>simp add: update_job_def\<close>)
  show "registered st'" if "update_pipeline E pid p_updates st = (Inr (), st')"
  proof (cases "map_of (sv_pipelines st) pid")
    case (Some p)
    with that pid [OF Some] assms(6) show ?thesis
      by (intro change_pipeline_registered [OF assms(1), of "p_updates p" pid E "()"]) (simp_all add: update_pipeline_def Let_def)
  qed (use that assms(1) in \<open>simp add: update_pipeline_def\<close>)
  show "registered st'" if "sound_tables st" "reload_jobs E st = (Inr (), st')" using reload_registered [OF that] .
qed (use assms add_job_registered add_pipeline_registered remove_job_registered remove_pipeline_registered in blast)+

definition demo_sched :: sched_env where
  "demo_sched = \<lparr>se_clock = (\<lambda>_. demo_now), se_uuid = demo_uuid, se_executors = (\<lambda>_. True),
     se_at = (\<lambda>t. case parse_time t of Inl e \<Rightarrow> Some e | Inr _ \<Rightarrow> None)\<rparr>"

definition demo_service :: service where
  "demo_service = \<lparr>sv_jobs = [], sv_pipelines = [], sv_regs = [], sv_futures = [], sv_finished = [], sv_submitted = [],
     sv_cancel = [], sv_job_table = [], sv_pipeline_table = [], sv_runs = [], sv_ticks = 0, sv_uuids = 0\<rparr>"

theorem registrations_follow_jobs_witness:
  "\<exists>i st'. add_job demo_sched demo_job demo_service = (Inr i, st') \<and> registered st' \<and>
     with_tag i st' = [\<lparr>rs_tag = ''u'', rs_day = Some ''monday'', rs_time = Some ''18:00''\<rparr>,
        \<lparr>rs_tag = ''u'', rs_day = Some ''wednesday'', rs_time = Some ''18:00''\<rparr>]"
proof -
  obtain r st' where add: "add_job demo_sched demo_job demo_service = (r, st')" by fastforce
  have regs: "registrations ''u'' (Some ''mon, Wed'') (Some ''18:00'') None =
    [\<lparr>rs_tag = ''u'', rs_day = Some ''monday'', rs_time = Some ''18:00''\<rparr>, \<lparr>rs_tag = ''u'', rs_day = Some ''wednesday'', rs_time = Some ''18:00''\<rparr>]"
    by (simp add: registrations_def demo_days DAY_MAP_def strip_def lstrip_def)
  have r: "r = Inr ''u''" and tag: "with_tag ''u'' st' = registrations ''u'' (Some ''mon, Wed'') (Some ''18:00'') None"
    using add demo_time by (auto simp: add_job_def new_uuid_def now_utc_def now_ist_def demo_sched_def demo_service_def demo_uuid_def
        demo_job_def register_schedule_def job_registrations_def register_def regs with_tag_def put_job_def upsert_scheduled_job_def name_taken_def Let_def)
  have "registered demo_service" "job_tag (se_uuid demo_sched (sv_uuids demo_service))"
    by (simp_all add: registered_def with_tag_def job_part_def pipeline_part_def demo_service_def job_tag_def demo_sched_def demo_uuid_def pipeline_tag_def)
  from registrations_follow_jobs [OF this, of id id demo_job st'] add r tag regs show ?thesis
    by (auto simp: demo_service_def)
qed

section \<open>A bad time stops the service for good\<close>

lemma load_jobs_raises:
  "\<exists>j \<in> set js. jb_enabled j \<and> job_registrations j \<noteq> [] \<and> se_at E (jb_cron_time j) \<noteq> None \<Longrightarrow>
     \<exists>e st'. load_jobs E js st = (Inl e, st')"
proof (induction js arbitrary: st)
  case (Cons j js)
  let ?st1 = "st\<lparr>sv_jobs := AList.update (jb_id j) j (sv_jobs st)\<rparr>"
  obtain r st2 where step: "(if jb_enabled j then register_schedule E j ?st1 else (Inr (), ?st1)) = (r, st2)" by fastforce
  show ?case
  proof (cases r)
    case Inl
    with step show ?thesis by (simp add: Let_def)
  next
    case (Inr u)
    have time: "rs_time x = jb_cron_time j" if "x \<in> set (job_registrations j)" for x
      using that by (auto simp: job_registrations_def registrations_def split: if_splits)
    have "\<not> (jb_enabled j \<and> job_registrations j \<noteq> [] \<and> se_at E (jb_cron_time j) \<noteq> None)"
    proof
      assume bad: "jb_enabled j \<and> job_registrations j \<noteq> [] \<and> se_at E (jb_cron_time j) \<noteq> None"
      then obtain x xs where "job_registrations j = x # xs" by (cases "job_registrations j") auto
      with time [of x] bad have "\<exists>e. register_schedule E j ?st1 = (Inl e, ?st1)" by (auto simp: register_schedule_def register_def)
      with step Inr bad show False by auto
    qed
    with Cons.prems have "\<exists>j \<in> set js. jb_enabled j \<and> job_registrations j \<noteq> [] \<and> se_at E (jb_cron_time j) \<noteq> None" by auto
    with Cons.IH [of st2] step Inr show ?thesis by (simp add: Let_def)
  qed
qed simp

lemma cleanup_tables [simp]: "sv_job_table (cleanup_stale_runs E st) = sv_job_table st"
  by (simp add: cleanup_stale_runs_def now_utc_def now_ist_def Let_def)

text \<open>
  Nothing checks the time of a new job: a job whose time the library rejects is stored before its
  registration raises, and from then on every start of the service raises while it loads the jobs.
\<close>

theorem bad_time_stops_every_start:
  assumes "se_at E (jb_cron_time data) = Some e"
    "strip (str_or (jb_cron_dates data) []) \<noteq> [] \<or> parse_cron_days (jb_cron_days data) \<noteq> []"
    "\<not> name_taken jb_name (se_uuid E (sv_uuids st)) (jb_name data) (sv_job_table st)"
  shows "\<exists>st'. add_job E data st = (Inl e, st') \<and>
    map_of (sv_job_table st') (se_uuid E (sv_uuids st)) = Some (data\<lparr>jb_id := se_uuid E (sv_uuids st), jb_enabled := True\<rparr>) \<and>
    (\<forall>later catchup. sv_job_table later = sv_job_table st' \<longrightarrow> (\<exists>e' s. start E catchup later = (Inl e', s)))"
proof -
  let ?j = "data\<lparr>jb_id := se_uuid E (sv_uuids st), jb_enabled := True\<rparr>"
  obtain r st' where add: "add_job E data st = (r, st')" by fastforce
  have regs: "job_registrations ?j \<noteq> []" using assms(2) by (auto simp: job_registrations_def registrations_def)
  then have "register E (job_registrations ?j) s = (Inl e, s)" for s
    using assms(1) by (auto simp: register_def job_registrations_def registrations_def split: list.splits if_splits)
  then have r: "r = Inl e" and table: "sv_job_table st' = AList.update (jb_id ?j) ?j (sv_job_table st)"
    using add assms(3) by (auto simp: add_job_def new_uuid_def now_utc_def now_ist_def register_schedule_def put_job_def upsert_scheduled_job_def Let_def)
  have stored: "map_of (sv_job_table st') (jb_id ?j) = Some ?j" by (simp add: table map_of_AList_update)
  then have "?j \<in> set (map snd (sv_job_table st'))" by (force dest: map_of_SomeD)
  then have "\<exists>j \<in> set (map snd (sv_job_table st')). jb_enabled j \<and> job_registrations j \<noteq> [] \<and> se_at E (jb_cron_time j) \<noteq> None"
    using regs assms(1) by (intro bexI [of _ ?j]) auto
  note raises = load_jobs_raises [OF this]
  have "\<exists>e' s. start E catchup later = (Inl e', s)" if later: "sv_job_table later = sv_job_table st'" for later catchup
  proof -
    obtain e' s where "load_jobs E (map snd (sv_job_table st'))
        ((cleanup_stale_runs E later)\<lparr>sv_regs := [], sv_jobs := [], sv_pipelines := []\<rparr>) = (Inl e', s)" using raises by blast
    then show ?thesis using later by (simp add: start_def reload_jobs_def)
  qed
  with add r stored show ?thesis by auto
qed

theorem bad_time_stops_every_start_witness:
  "\<exists>e st'. add_job demo_sched (demo_job\<lparr>jb_cron_time := Some ''25:00''\<rparr>) demo_service = (Inl e, st') \<and>
     (\<forall>later catchup. sv_job_table later = sv_job_table st' \<longrightarrow> (\<exists>e' s. start demo_sched catchup later = (Inl e', s)))"
proof -
  have bad: "parse_time (Some ''25:00'') = Inl (ValueError ''time data does not match format'')"
    by (simp add: parse_time_def short_number_def isdigit_def is_digit_def int_of_def ord_def of_char_def)
  have "se_at demo_sched (jb_cron_time (demo_job\<lparr>jb_cron_time := Some ''25:00''\<rparr>)) = Some (ValueError ''time data does not match format'')"
    using bad by (simp add: demo_sched_def demo_job_def)
  from bad_time_stops_every_start [where st = demo_service, OF this] show ?thesis
    using demo_days by (auto simp: demo_job_def demo_service_def name_taken_def)
qed

section \<open>Catch-up\<close>

lemma search_last_le: "search_last on_day n now t = Some r \<Longrightarrow> instant r \<le> instant now"
proof -
  have "first_some f ks = Some r \<Longrightarrow> \<exists>k \<in> set ks. f k = Some r" for f :: "nat \<Rightarrow> datetime option" and ks
    by (induction ks) (auto split: option.splits)
  then show "search_last on_day n now t = Some r \<Longrightarrow> instant r \<le> instant now"
    unfolding search_last_def by (fastforce simp: Let_def split: if_splits)
qed

lemma last_window_le: "last_window now j = Inr (Some w) \<Longrightarrow> instant w \<le> instant now"
  by (auto simp: last_window_def last_window_dates_def last_scheduled_window_def Let_def dest: search_last_le split: if_splits)

lemma newest_first_hd:
  assumes "r \<in> set rows"
  obtains h t where "newest_first rows = h # t" "rn_started_at r \<le> rn_started_at h"
proof -
  have rows: "set (newest_first rows) = set rows" and sorted: "sorted (map (\<lambda>r. - rn_started_at r) (newest_first rows))"
    by (simp_all add: newest_first_def)
  then obtain h t where ht: "newest_first rows = h # t" using assms by (cases "newest_first rows") auto
  then have "r = h \<or> r \<in> set t" using rows assms by auto
  with sorted have "rn_started_at r \<le> rn_started_at h" unfolding ht by auto
  with ht that show ?thesis by blast
qed

text \<open>Appending a row of a job covers every window up to its start.\<close>

lemma covered_by_new_row:
  assumes "rn_job_id row = i" "utc_of_ist w \<le> rn_started_at row"
  shows "covered (get_last_run_for_job (rows @ [row]) i) w"
proof -
  obtain h t where "newest_first (filter (\<lambda>r. rn_job_id r = i) (rows @ [row])) = h # t" "rn_started_at row \<le> rn_started_at h"
    by (rule newest_first_hd [of row "filter (\<lambda>r. rn_job_id r = i) (rows @ [row])"]) (use assms(1) in auto)
  with assms(2) show ?thesis by (simp add: get_last_run_for_job_def covered_def del: filter_append)
qed

lemma get_last_run_other: "\<forall>r \<in> set new. rn_job_id r \<noteq> i \<Longrightarrow> get_last_run_for_job (rows @ new) i = get_last_run_for_job rows i"
proof -
  assume "\<forall>r \<in> set new. rn_job_id r \<noteq> i"
  then have "filter (\<lambda>r. rn_job_id r = i) new = []" by (simp add: filter_empty_conv)
  then show ?thesis by (simp add: get_last_run_for_job_def)
qed

definition runs_known :: "sched_env \<Rightarrow> service \<Rightarrow> bool" where
  "runs_known E st \<longleftrightarrow> (\<forall>r \<in> set (sv_runs st). \<exists>n < sv_uuids st. rn_id r = se_uuid E n)"

lemma trigger_now_known:
  assumes "inj (se_uuid E)" "runs_known E st" "map_of (sv_jobs st) i = Some j" "se_executors E (jb_type j)"
  shows "\<exists>row. sv_runs (snd (trigger_now E i trig force st)) = sv_runs st @ [row] \<and> rn_job_id row = i \<and>
      rn_trigger row = Some trig \<and> rn_started_at row = utc_of_ist (se_clock E (sv_ticks st))"
    "runs_known E (snd (trigger_now E i trig force st))" "sv_jobs (snd (trigger_now E i trig force st)) = sv_jobs st"
    "sv_ticks (snd (trigger_now E i trig force st)) = Suc (sv_ticks st)"
proof -
  let ?row = "running_row (se_uuid E (sv_uuids st)) i (jb_name j) (jb_type j) (jb_scope j) (utc_of_ist (se_clock E (sv_ticks st))) trig None"
  let ?st' = "snd (trigger_now E i trig force st)"
  have "se_uuid E (sv_uuids st) \<notin> rn_id ` set (sv_runs st)"
    using assms(2) inj_eq [OF assms(1)] unfolding runs_known_def by (metis imageE less_irrefl)
  then have runs: "sv_runs ?st' = sv_runs st @ [?row]"
    using assms(3,4) by (simp add: trigger_now_def new_uuid_def now_utc_def now_ist_def Let_def submit_def append_scheduler_run_def
        insert_scheduler_run_def running_row_def)
  then show "\<exists>row. sv_runs ?st' = sv_runs st @ [row] \<and> rn_job_id row = i \<and> rn_trigger row = Some trig \<and>
      rn_started_at row = utc_of_ist (se_clock E (sv_ticks st))" by (simp add: running_row_def)
  have uuids: "sv_uuids ?st' = Suc (sv_uuids st)" and "sv_jobs ?st' = sv_jobs st" "sv_ticks ?st' = Suc (sv_ticks st)"
    using assms(3,4) by (simp_all add: trigger_now_def new_uuid_def now_utc_def now_ist_def Let_def submit_def)
  then show "sv_jobs ?st' = sv_jobs st" "sv_ticks ?st' = Suc (sv_ticks st)" by simp_all
  show "runs_known E ?st'" using assms(2) unfolding runs_known_def runs uuids
    by (auto simp: running_row_def less_Suc_eq)
qed

lemma trigger_now_unknown: "map_of (sv_jobs st) i = Some j \<Longrightarrow> \<not> se_executors E (jb_type j) \<Longrightarrow> trigger_now E i trig force st = (None, st)"
  by (simp add: trigger_now_def)

definition clock_ok :: "sched_env \<Rightarrow> bool" where
  "clock_ok E \<longleftrightarrow> (\<forall>m n. m \<le> n \<longrightarrow> instant (se_clock E m) \<le> instant (se_clock E n))"

text \<open>What the loop needs of a job: the service knows it, and its last window does not move meanwhile.\<close>

definition steady :: "sched_env \<Rightarrow> (string \<times> job) list \<Rightarrow> nat \<Rightarrow> (job \<Rightarrow> datetime option result) \<Rightarrow> bool" where
  "steady E jobs k W \<longleftrightarrow> (\<forall>(i, j) \<in> set jobs. \<forall>n \<ge> k. last_window (se_clock E n) j = W j)"

definition settled :: "sched_env \<Rightarrow> (job \<Rightarrow> datetime option result) \<Rightarrow> run_row list \<Rightarrow> string \<times> job \<Rightarrow> bool" where
  "settled E W rows = (\<lambda>(i, j). jb_enabled j \<longrightarrow>
     (\<exists>w. W j = Inr w \<and> (\<forall>t. w = Some t \<longrightarrow> covered (get_last_run_for_job rows i) t \<or> \<not> se_executors E (jb_type j))))"

lemma catchup_loop_settles:
  assumes inj: "inj (se_uuid E)" and clock: "clock_ok E"
  shows "runs_known E st \<Longrightarrow> steady E js k W \<Longrightarrow> k \<le> sv_ticks st \<Longrightarrow> distinct (keys js) \<Longrightarrow>
    \<forall>(i, j) \<in> set js. map_of (sv_jobs st) i = Some j \<Longrightarrow> catchup_loop E js st = (Inr u, st') \<Longrightarrow>
    (\<exists>new. sv_runs st' = sv_runs st @ new \<and> distinct (map rn_job_id new) \<and>
       (\<forall>r \<in> set new. rn_trigger r = Some ''catchup'' \<and> rn_job_id r \<in> set (keys js))) \<and>
    list_all (settled E W (sv_runs st')) js \<and> sv_jobs st' = sv_jobs st \<and> sv_ticks st \<le> sv_ticks st'"
proof (induction js arbitrary: st)
  case (Cons p js)
  obtain i j where p: "p = (i, j)" by fastforce
  let ?st1 = "st\<lparr>sv_ticks := Suc (sv_ticks st)\<rparr>"
  have steady: "steady E js k W" and others: "i \<notin> set (keys js)" and job: "map_of (sv_jobs st) i = Some j"
    and W: "last_window (se_clock E (sv_ticks st)) j = W j"
    using Cons.prems(2-5) by (auto simp: steady_def p)
  have known1: "runs_known E ?st1" using Cons.prems(1) by (simp add: runs_known_def)
  text \<open>The rest of the loop adds runs of other jobs, which keeps the verdict on this one.\<close>
  have rest: ?case if next_st: "catchup_loop E js st2 = (Inr u, st')" and known2: "runs_known E st2"
    and new: "sv_runs st2 = sv_runs st @ new1" "\<forall>r \<in> set new1. rn_trigger r = Some ''catchup'' \<and> rn_job_id r = i" "length new1 \<le> 1"
    and settled: "settled E W (sv_runs st2) (i, j)" and jobs2: "sv_jobs st2 = sv_jobs st" and ticks2: "sv_ticks st \<le> sv_ticks st2" for st2 new1
  proof -
    obtain new where n: "sv_runs st' = sv_runs st2 @ new" "distinct (map rn_job_id new)"
        "\<forall>r \<in> set new. rn_trigger r = Some ''catchup'' \<and> rn_job_id r \<in> set (keys js)"
      and t: "list_all (settled E W (sv_runs st')) js" "sv_jobs st' = sv_jobs st2" "sv_ticks st2 \<le> sv_ticks st'"
      using Cons.IH [OF known2 steady _ _ _ next_st] Cons.prems(3-5) ticks2 jobs2 by auto
    have "get_last_run_for_job (sv_runs st') i = get_last_run_for_job (sv_runs st2) i"
      unfolding n(1) by (rule get_last_run_other) (use n(3) others in auto)
    then have "settled E W (sv_runs st') (i, j)" using settled by (simp add: settled_def)
    moreover have "distinct (map rn_job_id (new1 @ new))"
      using n(2,3) new(2,3) others by (cases new1) auto
    ultimately show ?thesis using n t new jobs2 ticks2 unfolding p by (intro conjI exI [of _ "new1 @ new"]) auto
  qed
  show ?case
  proof (cases "jb_enabled j")
    case False
    then show ?thesis using Cons.prems by (intro rest [of st "[]"]) (simp_all add: p settled_def)
  next
    case enabled: True
    have loop: "(case W j of Inl e \<Rightarrow> (Inl e, ?st1) | Inr None \<Rightarrow> catchup_loop E js ?st1
        | Inr (Some window) \<Rightarrow> if covered (get_last_run_for_job (sv_runs ?st1) i) window then catchup_loop E js ?st1
            else catchup_loop E js (snd (trigger_now E i ''catchup'' False ?st1))) = (Inr u, st')"
      using Cons.prems(6) enabled W by (simp add: p now_ist_def)
    show ?thesis
    proof (cases "W j")
      case (Inr w)
      show ?thesis
      proof (cases "\<exists>t. w = Some t \<and> \<not> covered (get_last_run_for_job (sv_runs st) i) t")
        case False
        then show ?thesis using loop Inr known1
          by (intro rest [of ?st1 "[]"]) (auto simp: settled_def split: option.splits if_splits)
      next
        case True
        then obtain t where t: "w = Some t" "\<not> covered (get_last_run_for_job (sv_runs st) i) t" by blast
        let ?st2 = "snd (trigger_now E i ''catchup'' False ?st1)"
        have next_st: "catchup_loop E js ?st2 = (Inr u, st')" using loop Inr t by simp
        show ?thesis
        proof (cases "se_executors E (jb_type j)")
          case True
          note trig = trigger_now_known [OF inj known1 _ True, of i "''catchup''" False]
          obtain row where row: "sv_runs ?st2 = sv_runs st @ [row]" "rn_job_id row = i" "rn_trigger row = Some ''catchup''"
            "rn_started_at row = utc_of_ist (se_clock E (Suc (sv_ticks st)))" using trig(1) job by auto
          have "instant t \<le> instant (se_clock E (sv_ticks st))" using last_window_le W Inr t(1) by simp
          also have "\<dots> \<le> instant (se_clock E (Suc (sv_ticks st)))" using clock unfolding clock_ok_def by simp
          finally have "covered (get_last_run_for_job (sv_runs ?st2) i) t"
            unfolding row(1) by (intro covered_by_new_row) (simp_all add: row utc_of_ist_def)
          then show ?thesis using trig(2-4) job row(1-3) Inr t(1)
            by (intro rest [OF next_st _ row(1)]) (auto simp: settled_def)
        next
          case False
          then show ?thesis using next_st known1 job Inr
            by (intro rest [of ?st1 "[]"]) (simp_all add: settled_def trigger_now_unknown)
        qed
      qed
    qed (use loop in simp)
  qed
qed simp

lemma catchup_loop_quiet:
  "list_all (settled E W (sv_runs st)) js \<Longrightarrow> steady E js k W \<Longrightarrow> k \<le> sv_ticks st \<Longrightarrow>
   \<forall>(i, j) \<in> set js. map_of (sv_jobs st) i = Some j \<Longrightarrow>
   \<exists>st'. catchup_loop E js st = (Inr (), st') \<and> sv_runs st' = sv_runs st"
proof (induction js arbitrary: st)
  case (Cons p js)
  obtain i j where p: "p = (i, j)" by fastforce
  let ?st1 = "st\<lparr>sv_ticks := Suc (sv_ticks st)\<rparr>"
  have steady: "steady E js k W" and W: "last_window (se_clock E (sv_ticks st)) j = W j" and job: "map_of (sv_jobs st) i = Some j"
    using Cons.prems(2-4) by (auto simp: steady_def p)
  have IH: "\<exists>st'. catchup_loop E js s = (Inr (), st') \<and> sv_runs st' = sv_runs st"
    if "sv_runs s = sv_runs st" "sv_jobs s = sv_jobs st" "sv_ticks st \<le> sv_ticks s" for s
    using Cons.IH [of s] Cons.prems steady that by (auto simp: p)
  show ?case
  proof (cases "jb_enabled j")
    case True
    then obtain w where "W j = Inr w" "\<forall>t. w = Some t \<longrightarrow> covered (get_last_run_for_job (sv_runs st) i) t \<or> \<not> se_executors E (jb_type j)"
      using Cons.prems(1) by (auto simp: p settled_def)
    with True W IH [of ?st1] job show ?thesis
      by (auto simp: p now_ist_def trigger_now_unknown split: option.split)
  qed (use IH [of st] in \<open>simp add: p\<close>)
qed simp

text \<open>
  C29: the catch-up after a restart starts at most one run per job, and every enabled job whose type has an
  executor then has a run that covers its last window; repeating it before the next window starts none.
\<close>

theorem catchup_fires_once:
  assumes "inj (se_uuid E)" "clock_ok E" "runs_known E st" "distinct (keys (sv_jobs st))"
    "steady E (sv_jobs st) (sv_ticks st) W" "catchup_missed_jobs E st = (Inr (), st1)"
  shows "(\<exists>new. sv_runs st1 = sv_runs st @ new \<and> distinct (map rn_job_id new) \<and> (\<forall>r \<in> set new. rn_trigger r = Some ''catchup'')) \<and>
    (\<forall>(i, j) \<in> set (sv_jobs st). \<forall>t. jb_enabled j \<and> W j = Inr (Some t) \<and> se_executors E (jb_type j) \<longrightarrow>
       covered (get_last_run_for_job (sv_runs st1) i) t) \<and>
    (\<exists>st2. catchup_missed_jobs E st1 = (Inr (), st2) \<and> sv_runs st2 = sv_runs st1)"
proof -
  have jobs: "\<forall>(i, j) \<in> set (sv_jobs st). map_of (sv_jobs st) i = Some j" using assms(4) by (auto simp: map_of_is_SomeI)
  have loop: "catchup_loop E (sv_jobs st) st = (Inr (), st1)" using assms(6) by (simp add: catchup_missed_jobs_def)
  note once = catchup_loop_settles [OF assms(1-3,5) order_refl assms(4) jobs loop]
  then have settled: "list_all (settled E W (sv_runs st1)) (sv_jobs st)" and st1: "sv_jobs st1 = sv_jobs st" "sv_ticks st \<le> sv_ticks st1" by blast+
  then have quiet: "\<exists>st2. catchup_missed_jobs E st1 = (Inr (), st2) \<and> sv_runs st2 = sv_runs st1"
    using catchup_loop_quiet [of E W st1 "sv_jobs st" "sv_ticks st"] assms(5) jobs by (simp add: catchup_missed_jobs_def)
  have "\<forall>(i, j) \<in> set (sv_jobs st). \<forall>t. jb_enabled j \<and> W j = Inr (Some t) \<and> se_executors E (jb_type j) \<longrightarrow>
       covered (get_last_run_for_job (sv_runs st1) i) t"
    using settled by (fastforce simp: list_all_iff settled_def)
  with once quiet show ?thesis by blast
qed

theorem catchup_fires_once_witness:
  "\<exists>st1. catchup_missed_jobs demo_sched (demo_service\<lparr>sv_jobs := [(''j'', demo_job)]\<rparr>) = (Inr (), st1) \<and>
     (\<forall>t. last_window demo_now demo_job = Inr (Some t) \<longrightarrow> covered (get_last_run_for_job (sv_runs st1) ''j'') t) \<and>
     (\<exists>st2. catchup_missed_jobs demo_sched st1 = (Inr (), st2) \<and> sv_runs st2 = sv_runs st1)"
proof -
  let ?st = "demo_service\<lparr>sv_jobs := [(''j'', demo_job)]\<rparr>"
  have job: "jb_enabled demo_job" "se_executors demo_sched (jb_type demo_job)" "strip (str_or (jb_cron_dates demo_job) []) = []"
    "jb_cron_time demo_job = Some ''18:00''" by (simp_all add: demo_job_def demo_sched_def strip_def lstrip_def)
  obtain w where w: "last_window demo_now demo_job = Inr w"
    using job(3,4) demo_time by (simp add: last_window_def last_scheduled_window_def)
  obtain st1 where run: "catchup_missed_jobs demo_sched ?st = (Inr (), st1)"
  proof (cases w)
    case None
    with w job that show ?thesis by (simp add: catchup_missed_jobs_def now_ist_def demo_sched_def)
  next
    case (Some t)
    with w job that show ?thesis
      by (simp add: catchup_missed_jobs_def now_ist_def demo_sched_def demo_service_def get_last_run_for_job_def newest_first_def covered_def)
  qed
  have "inj (se_uuid demo_sched)" by (rule injI) (simp add: demo_sched_def demo_uuid_def)
  moreover have "clock_ok demo_sched" "runs_known demo_sched ?st" "distinct (keys (sv_jobs ?st))"
    "steady demo_sched (sv_jobs ?st) (sv_ticks ?st) (last_window demo_now)"
    by (simp_all add: clock_ok_def runs_known_def steady_def demo_sched_def demo_service_def)
  ultimately show ?thesis using catchup_fires_once [OF _ _ _ _ _ run] run job(1,2) by fastforce
qed

section \<open>Names and overlapping runs\<close>

text \<open>A job whose name is taken runs until the next restart: it is in memory and registered, not in the table.\<close>

theorem duplicate_name_is_lost:
  assumes "name_taken jb_name (se_uuid E (sv_uuids st)) (jb_name data) (sv_job_table st)" "se_at E (jb_cron_time data) = None"
  shows "\<exists>st'. add_job E data st = (Inr (se_uuid E (sv_uuids st)), st') \<and> sv_job_table st' = sv_job_table st \<and>
    map_of (sv_jobs st') (se_uuid E (sv_uuids st)) = Some (data\<lparr>jb_id := se_uuid E (sv_uuids st), jb_enabled := True\<rparr>)"
proof -
  have "\<exists>s'. register_schedule E (data\<lparr>jb_id := se_uuid E (sv_uuids st), jb_enabled := True\<rparr>) s = (Inr (), s') \<and>
      sv_jobs s' = sv_jobs s \<and> sv_job_table s' = sv_job_table s" for s
    using assms(2) by (auto simp: register_schedule_def job_registrations_def registrations_def register_def split: list.splits)
  from this [of "put_job (data\<lparr>jb_id := se_uuid E (sv_uuids st), jb_enabled := True\<rparr>)
      (st\<lparr>sv_uuids := Suc (sv_uuids st), sv_ticks := Suc (sv_ticks st)\<rparr>)"] assms(1)
  show ?thesis
    by (auto simp: add_job_def new_uuid_def now_utc_def now_ist_def upsert_scheduled_job_def put_job_def Let_def map_of_AList_update)
qed

text \<open>
  The guard of a scheduled trigger sees only the last submission of a job: after a manual run was started
  beside a running one and has finished, the schedule starts a third although the first still runs.
\<close>

theorem manual_run_hides_running_one:
  assumes "map_of (sv_jobs st) i = Some j" "jb_enabled j" "se_executors E (jb_type j)" "jb_cron_dates j = None"
    "map_of (sv_futures st) i = Some n" "n \<notin> set (sv_finished st)" "n < length (sv_submitted st)"
    "trigger_now E i ''manual'' force st = (Some run, st1)"
    "st2 = finish_job_run E (length (sv_submitted st)) run elapsed exc st1"
  shows "(\<exists>run' st3. trigger_job E i st2 = (Some run', st3)) \<and> n \<notin> set (sv_finished st2)"
proof -
  have "strip [] = []" by (simp add: strip_def lstrip_def)
  with assms show ?thesis
    by (auto simp: trigger_job_def trigger_now_def finish_job_run_def submit_def future_running_def map_of_AList_update
        new_uuid_def now_utc_def now_ist_def date_gate_def Let_def)
qed

end
