(* ===== verification/Py_Float.thy ===== *)
theory Py_Float
  imports Prelude
begin

text \<open>
  Python floats that can be missing: a finite value, kept as an exact rational, or NaN, which pandas
  puts where the database has \<open>NULL\<close>. Arithmetic with NaN gives NaN, comparison with NaN is false, and so
  \<open>max\<close> and \<open>min\<close> depend on the order of their arguments. Infinities do not occur: every division of
  the modelled code is guarded against zero. \<open>round\<close> rounds half to even.
  Lemmas: rounding is monotone, exact on what is already rounded, and stays within bounds that are.
\<close>

section \<open>Values\<close>

datatype pyfloat = Nan | Fin rat

primrec fin :: "pyfloat \<Rightarrow> rat" where
  "fin Nan = 0"
| "fin (Fin x) = x"

fun lift2 :: "(rat \<Rightarrow> rat \<Rightarrow> rat) \<Rightarrow> pyfloat \<Rightarrow> pyfloat \<Rightarrow> pyfloat" where
  "lift2 f (Fin x) (Fin y) = Fin (f x y)"
| "lift2 f _ _ = Nan"

fun holds2 :: "(rat \<Rightarrow> rat \<Rightarrow> bool) \<Rightarrow> pyfloat \<Rightarrow> pyfloat \<Rightarrow> bool" where
  "holds2 P (Fin x) (Fin y) = P x y"
| "holds2 P _ _ = False"

lemma lift2_NaN [simp]: "lift2 f x Nan = Nan" "lift2 f Nan y = Nan"
  by (cases x; simp) (cases y; simp)

lemma holds2_NaN [simp]: "\<not> holds2 P x Nan" "\<not> holds2 P Nan y"
  by (cases x; simp) (cases y; simp)

instantiation pyfloat :: "{zero, one, plus, minus, times, divide, ord}"
begin

definition zero_pyfloat :: pyfloat where "0 = Fin 0"
definition one_pyfloat :: pyfloat where "1 = Fin 1"
definition plus_pyfloat :: "pyfloat \<Rightarrow> pyfloat \<Rightarrow> pyfloat" where "x + y = lift2 (+) x y"
definition minus_pyfloat :: "pyfloat \<Rightarrow> pyfloat \<Rightarrow> pyfloat" where "x - y = lift2 (-) x y"
definition times_pyfloat :: "pyfloat \<Rightarrow> pyfloat \<Rightarrow> pyfloat" where "x * y = lift2 (*) x y"
definition divide_pyfloat :: "pyfloat \<Rightarrow> pyfloat \<Rightarrow> pyfloat" where "x div y = lift2 (/) x y"
definition less_eq_pyfloat :: "pyfloat \<Rightarrow> pyfloat \<Rightarrow> bool" where "x \<le> y \<longleftrightarrow> holds2 (\<le>) x y"
definition less_pyfloat :: "pyfloat \<Rightarrow> pyfloat \<Rightarrow> bool" where "x < y \<longleftrightarrow> holds2 (<) x y"

instance ..

end

lemma fin_arith [simp]:
  "Fin x + Fin y = Fin (x + y)" "Fin x - Fin y = Fin (x - y)" "Fin x * Fin y = Fin (x * y)"
  "Fin x div Fin y = Fin (x / y)" "Fin x < Fin y \<longleftrightarrow> x < y" "Fin x \<le> Fin y \<longleftrightarrow> x \<le> y"
  by (simp_all add: plus_pyfloat_def minus_pyfloat_def times_pyfloat_def divide_pyfloat_def
      less_pyfloat_def less_eq_pyfloat_def)

lemma nan_arith [simp]:
  fixes x :: pyfloat
  shows "Nan + x = Nan" "x + Nan = Nan" "Nan - x = Nan" "x - Nan = Nan" "Nan * x = Nan" "x * Nan = Nan"
    "Nan div x = Nan" "x div Nan = Nan" "\<not> Nan < x" "\<not> x < Nan" "\<not> Nan \<le> x" "\<not> x \<le> Nan"
  by (simp_all add: plus_pyfloat_def minus_pyfloat_def times_pyfloat_def divide_pyfloat_def
      less_pyfloat_def less_eq_pyfloat_def)

text \<open>\<open>max(x, y)\<close> keeps its first argument unless the second is greater, \<open>min(x, y)\<close> unless it is less.\<close>

definition py_max :: "pyfloat \<Rightarrow> pyfloat \<Rightarrow> pyfloat" where "py_max x y = (if x < y then y else x)"
definition py_min :: "pyfloat \<Rightarrow> pyfloat \<Rightarrow> pyfloat" where "py_min x y = (if y < x then y else x)"

lemma py_max_min_Fin [simp]: "py_max (Fin x) (Fin y) = Fin (max x y)" "py_min (Fin x) (Fin y) = Fin (min x y)"
  by (auto simp: py_max_def py_min_def max_def min_def)

lemma py_max_min_NaN [simp]: "py_max x Nan = x" "py_max Nan x = Nan" "py_min x Nan = x" "py_min Nan x = Nan"
  by (simp_all add: py_max_def py_min_def)

definition fabs :: "pyfloat \<Rightarrow> pyfloat" where "fabs x = (case x of Nan \<Rightarrow> Nan | Fin r \<Rightarrow> Fin \<bar>r\<bar>)"

lemma fabs_simps [simp]: "fabs Nan = Nan" "fabs (Fin r) = Fin \<bar>r\<bar>"
  by (simp_all add: fabs_def)

text \<open>\<open>x or d\<close> for an entry that may be \<open>None\<close>: zero is falsy, Nan is not.\<close>

definition num_or :: "pyfloat option \<Rightarrow> pyfloat \<Rightarrow> pyfloat" where
  "num_or v d = (case v of None \<Rightarrow> d | Some x \<Rightarrow> if x = Fin 0 then d else x)"

lemma num_or_simps [simp]:
  "num_or None d = d" "num_or (Some Nan) d = Nan" "num_or (Some (Fin x)) (Fin 0) = Fin x"
  by (auto simp: num_or_def)

section \<open>Rounding\<close>

definition round_half_even :: "rat \<Rightarrow> int" where
  "round_half_even x =
     (let f = \<lfloor>x\<rfloor>; d = x - of_int f in
      if d < 1 / 2 then f else if 1 / 2 < d then f + 1 else if even f then f else f + 1)"

lemma round_half_even_cases: "round_half_even x = \<lfloor>x\<rfloor> \<or> round_half_even x = \<lfloor>x\<rfloor> + 1"
  by (simp add: round_half_even_def Let_def)

lemma round_half_even_of_int [simp]: "round_half_even (of_int i) = i"
  by (simp add: round_half_even_def)

lemma round_half_even_mono: "x \<le> y \<Longrightarrow> round_half_even x \<le> round_half_even y"
proof -
  assume le: "x \<le> y"
  show ?thesis
  proof (cases "\<lfloor>x\<rfloor> = \<lfloor>y\<rfloor>")
    case True
    then show ?thesis using le by (auto simp: round_half_even_def Let_def)
  next
    case False
    then have "\<lfloor>x\<rfloor> + 1 \<le> \<lfloor>y\<rfloor>" using floor_mono [OF le] by linarith
    then show ?thesis using round_half_even_cases [of x] round_half_even_cases [of y] by linarith
  qed
qed

definition round_to :: "nat \<Rightarrow> rat \<Rightarrow> rat" where
  "round_to n x = of_int (round_half_even (x * 10 ^ n)) / 10 ^ n"

definition py_round :: "nat \<Rightarrow> pyfloat \<Rightarrow> pyfloat" where
  "py_round n x = (case x of Nan \<Rightarrow> Nan | Fin r \<Rightarrow> Fin (round_to n r))"

lemma py_round_simps [simp]: "py_round n Nan = Nan" "py_round n (Fin r) = Fin (round_to n r)"
  by (simp_all add: py_round_def)

lemma py_round_eq_NaN [simp]: "py_round n x = Nan \<longleftrightarrow> x = Nan"
  by (cases x) auto

lemma round_to_mono: "x \<le> y \<Longrightarrow> round_to n x \<le> round_to n y"
  by (simp add: round_to_def divide_right_mono round_half_even_mono)

lemma round_to_of_int [simp]: "round_to n (of_int i) = of_int i"
proof -
  have "(of_int i :: rat) * 10 ^ n = of_int (i * 10 ^ n)" by simp
  then show ?thesis unfolding round_to_def by (metis nonzero_mult_div_cancel_right of_int_mult of_int_numeral
      of_int_power power_not_zero round_half_even_of_int zero_neq_numeral)
qed

lemma round_to_numeral [simp]:
  "round_to n 0 = 0" "round_to n 1 = 1" "round_to n (numeral k) = numeral k" "round_to n (- numeral k) = - numeral k"
  using round_to_of_int [of n 0] round_to_of_int [of n 1] round_to_of_int [of n "numeral k"]
    round_to_of_int [of n "- numeral k"] by simp_all

lemma round_to_bounds: "of_int a \<le> x \<Longrightarrow> x \<le> of_int b \<Longrightarrow> of_int a \<le> round_to n x \<and> round_to n x \<le> of_int b"
  using round_to_mono [of "of_int a" x n] round_to_mono [of x "of_int b" n] by simp

lemma round_half_even_error: "\<bar>of_int (round_half_even x) - x\<bar> \<le> 1 / 2"
proof -
  define f where "f = (of_int \<lfloor>x\<rfloor> :: rat)"
  have "f \<le> x" "x < f + 1" unfolding f_def by linarith+
  then show ?thesis by (auto simp: round_half_even_def Let_def f_def [symmetric] abs_if)
qed

lemma round_to_error: "\<bar>round_to n x - x\<bar> \<le> 1 / (2 * 10 ^ n)"
proof -
  have "round_to n x - x = (of_int (round_half_even (x * 10 ^ n)) - x * 10 ^ n) / 10 ^ n"
    by (simp add: round_to_def diff_divide_distrib)
  then have "\<bar>round_to n x - x\<bar> = \<bar>of_int (round_half_even (x * 10 ^ n)) - x * 10 ^ n\<bar> / 10 ^ n"
    by (simp only: abs_divide power_abs abs_numeral)
  also have "\<dots> \<le> (1 / 2) / 10 ^ n"
    by (intro divide_right_mono round_half_even_error) simp
  finally show ?thesis by simp
qed

end
