(* ===== verification/Reco_Score.thy ===== *)
theory Reco_Score
  imports Py_Float Market_Utils
begin

text \<open>
  The scores of the recommendation engine (\<open>backend/jobs/recommendation_engine.py\<close>): the composite
  score of a stock, its cap class, sector gaps and gap bonus, the tier and category of a stock, the
  outcome label and the health score of a portfolio. A cell of a data frame that can hold \<open>None\<close> is
  an option; a missing number of a data frame is NaN. Lemmas: bounds of every score on all inputs,
  missing ones included.
\<close>

named_theorems reco_defs \<open>definitions of the recommendation engine\<close>

section \<open>Constants\<close>

definition W_PIOTROSKI :: rat where "W_PIOTROSKI = 25 / 100"
definition W_SHARPE :: rat where "W_SHARPE = 20 / 100"
definition W_MOMENTUM :: rat where "W_MOMENTUM = 15 / 100"
definition W_FORECAST :: rat where "W_FORECAST = 20 / 100"
definition W_SENTIMENT :: rat where "W_SENTIMENT = 10 / 100"
definition W_TECHNICAL :: rat where "W_TECHNICAL = 10 / 100"

definition SHARPE_MIN :: rat where "SHARPE_MIN = - 2"
definition SHARPE_MAX :: rat where "SHARPE_MAX = 4"
definition RETURN_MIN :: rat where "RETURN_MIN = - 50"
definition RETURN_MAX :: rat where "RETURN_MAX = 100"
definition FORECAST_MIN :: rat where "FORECAST_MIN = - 30"
definition FORECAST_MAX :: rat where "FORECAST_MAX = 50"

lemmas score_consts = W_PIOTROSKI_def W_SHARPE_def W_MOMENTUM_def W_FORECAST_def W_SENTIMENT_def
  W_TECHNICAL_def SHARPE_MIN_def SHARPE_MAX_def RETURN_MIN_def RETURN_MAX_def FORECAST_MIN_def FORECAST_MAX_def

section \<open>The composite score\<close>

definition clamp :: "pyfloat \<Rightarrow> rat \<Rightarrow> rat \<Rightarrow> pyfloat" where
  "clamp val lo hi = py_max (Fin lo) (py_min (Fin hi) val)"

definition norm_score :: "pyfloat \<Rightarrow> rat \<Rightarrow> rat \<Rightarrow> pyfloat" where
  "norm_score val lo hi =
     (let clamped = clamp val lo hi in
      if hi = lo then Fin 0 else (clamped - Fin lo) div Fin (hi - lo) * Fin 100)"

text \<open>A price counts when it is present, not zero and positive.\<close>

definition positive_price :: "pyfloat option \<Rightarrow> bool" where
  "positive_price current_price \<longleftrightarrow> (case current_price of None \<Rightarrow> False | Some p \<Rightarrow> Fin 0 < p)"

definition accuracy_factor :: "pyfloat option \<Rightarrow> pyfloat option \<Rightarrow> pyfloat option \<Rightarrow> pyfloat option \<Rightarrow> pyfloat" where
  "accuracy_factor mape mae rmse current_price =
     (let mape_f = py_max (Fin 0) (Fin 1 - num_or mape (Fin 0) div Fin 100);
          rel = (\<lambda>e. if positive_price current_price
                     then py_max (Fin 0) (Fin 1 - num_or e (Fin 0) div the current_price) else mape_f)
      in Fin (1 / 2) * mape_f + Fin (3 / 10) * rel mae + Fin (2 / 10) * rel rmse)"

record score_row =
  sr_ticker :: string
  sr_piotroski :: "pyfloat option"
  sr_sector :: cell
  sr_market_cap :: pyfloat
  sr_sharpe_ratio :: "pyfloat option"
  sr_annualized_return_pct :: "pyfloat option"
  sr_sma_50_signal :: "string option"
  sr_sma_200_signal :: "string option"
  sr_rsi_signal :: "string option"
  sr_macd_signal_text :: "string option"
  sr_target_3m_pct_change :: "pyfloat option"
  sr_mape :: "pyfloat option"
  sr_mae :: "pyfloat option"
  sr_rmse :: "pyfloat option"
  sr_sentiment :: "pyfloat option"
  sr_current_price :: "pyfloat option"

definition is_buy :: "string option \<Rightarrow> bool" where
  "is_buy signal \<longleftrightarrow> str_lower (str_or signal []) = ''buy''"

definition bullish_signals :: "score_row \<Rightarrow> nat" where
  "bullish_signals row =
     of_bool (is_buy (sr_sma_50_signal row)) + of_bool (is_buy (sr_sma_200_signal row)) +
     of_bool (is_buy (sr_rsi_signal row)) +
     of_bool (str_lower (str_or (sr_macd_signal_text row) []) \<in> {''bullish'', ''buy''})"

definition compute_composite_score :: "score_row \<Rightarrow> pyfloat" where
  "compute_composite_score row =
     (let fundamental = num_or (sr_piotroski row) (Fin 0) div Fin 9 * Fin 100;
          risk_adj = norm_score (num_or (sr_sharpe_ratio row) (Fin 0)) SHARPE_MIN SHARPE_MAX;
          momentum = norm_score (num_or (sr_annualized_return_pct row) (Fin 0)) RETURN_MIN RETURN_MAX;
          target_pct = num_or (sr_target_3m_pct_change row) (Fin 0);
          accuracy = accuracy_factor (sr_mape row) (sr_mae row) (sr_rmse row) (sr_current_price row);
          forecast = norm_score (target_pct * accuracy) FORECAST_MIN FORECAST_MAX;
          sent_score = (num_or (sr_sentiment row) (Fin 0) + Fin 1) div Fin 2 * Fin 100;
          tech_score = Fin (of_nat (bullish_signals row)) div Fin 4 * Fin 100
      in py_round 2 (Fin W_PIOTROSKI * fundamental + Fin W_SHARPE * risk_adj + Fin W_MOMENTUM * momentum +
           Fin W_FORECAST * forecast + Fin W_SENTIMENT * sent_score + Fin W_TECHNICAL * tech_score))"

text \<open>A clamped value is within the bounds; NaN is clamped to the upper one.\<close>

lemma clamp_Nan [simp]: "lo \<le> hi \<Longrightarrow> clamp Nan lo hi = Fin hi"
  by (simp add: clamp_def)

lemma norm_score_bounds:
  assumes "lo < hi"
  obtains r where "norm_score val lo hi = Fin r" "0 \<le> r" "r \<le> 100"
proof -
  obtain c where c: "clamp val lo hi = Fin c" "lo \<le> c" "c \<le> hi"
    using assms by (cases val) (auto simp: clamp_def min_def max_def)
  define q where "q = (c - lo) / (hi - lo)"
  have "norm_score val lo hi = Fin (q * 100)"
    using assms by (simp add: norm_score_def c q_def)
  moreover have "0 \<le> q" "q \<le> 1"
    using assms c by (simp_all add: q_def divide_simps)
  ultimately show thesis using that by simp
qed

lemma norm_score_Nan: "lo < hi \<Longrightarrow> norm_score Nan lo hi = Fin 100"
  by (simp add: norm_score_def)

lemma bullish_signals_bound: "bullish_signals row \<le> 4"
  by (simp add: bullish_signals_def)

text \<open>The weights add up to one, so a score whose six parts are percentages is one.\<close>

lemma weighted_bounds:
  fixes a b c d e f :: rat
  assumes "0 \<le> a" "a \<le> 100" "0 \<le> b" "b \<le> 100" "0 \<le> c" "c \<le> 100"
    "0 \<le> d" "d \<le> 100" "0 \<le> e" "e \<le> 100" "0 \<le> f" "f \<le> 100"
  shows "0 \<le> round_to 2 (W_PIOTROSKI * a + W_SHARPE * b + W_MOMENTUM * c + W_FORECAST * d + W_SENTIMENT * e + W_TECHNICAL * f)"
    and "round_to 2 (W_PIOTROSKI * a + W_SHARPE * b + W_MOMENTUM * c + W_FORECAST * d + W_SENTIMENT * e + W_TECHNICAL * f) \<le> 100"
  using assms round_to_bounds [of 0 "W_PIOTROSKI * a + W_SHARPE * b + W_MOMENTUM * c + W_FORECAST * d + W_SENTIMENT * e + W_TECHNICAL * f" 100 2]
  by (simp_all add: score_consts)

section \<open>Portfolio gaps\<close>

definition CAP_BENCHMARK :: "(string \<times> rat) list" where
  "CAP_BENCHMARK = [(''largecap'', 60), (''midcap'', 25), (''smallcap'', 15)]"

definition LARGE_CAP_FLOOR :: rat where "LARGE_CAP_FLOOR = 200000000000"
definition MID_CAP_FLOOR :: rat where "MID_CAP_FLOOR = 50000000000"
definition TOP_CANDIDATES :: nat where "TOP_CANDIDATES = 40"
definition CORRELATION_THRESHOLD :: rat where "CORRELATION_THRESHOLD = 85 / 100"

definition classify_cap :: "pyfloat \<Rightarrow> string" where
  "classify_cap market_cap =
     (if market_cap \<le> Fin 0 then ''smallcap''
      else if Fin LARGE_CAP_FLOOR \<le> market_cap then ''largecap''
      else if Fin MID_CAP_FLOOR \<le> market_cap then ''midcap''
      else ''smallcap'')"

definition get_weight :: "(string \<times> rat) list \<Rightarrow> string \<Rightarrow> rat" where
  "get_weight d k = (case map_of d k of None \<Rightarrow> 0 | Some w \<Rightarrow> w)"

definition compute_sector_gaps :: "(string \<times> rat) list \<Rightarrow> (string \<times> rat) list \<Rightarrow> (string \<times> rat) list" where
  "compute_sector_gaps user_sectors universe_sectors =
     map (\<lambda>sector. (sector, round_to 2 (get_weight user_sectors sector - get_weight universe_sectors sector)))
       (remdups (map fst user_sectors @ map fst universe_sectors))"

definition compute_gap_bonus :: "rat \<Rightarrow> bool \<Rightarrow> rat \<Rightarrow> rat" where
  "compute_gap_bonus sector_gap_pct index_gap cap_gap_pct =
     (let bonus = (if sector_gap_pct < - 5 then min 10 (\<bar>sector_gap_pct\<bar> * (1 / 2)) else 0)
                + (if index_gap then 5 else 0)
                + (if cap_gap_pct < - 5 then min 5 (\<bar>cap_gap_pct\<bar> * (3 / 10)) else 0)
      in min 20 (round_to 2 bonus))"

definition assign_tier :: "string \<Rightarrow> string set \<Rightarrow> string set \<Rightarrow> string" where
  "assign_tier ticker holdings_tickers watchlist_tickers =
     (if ticker \<in> holdings_tickers then ''portfolio''
      else if ticker \<in> watchlist_tickers then ''watchlist''
      else ''discovery'')"

definition categorize_holding :: "pyfloat \<Rightarrow> pyfloat \<Rightarrow> rat \<Rightarrow> pyfloat \<Rightarrow> string" where
  "categorize_holding composite_score forecast_3m_pct weight_pct sentiment =
     (if composite_score < Fin 30 \<and> forecast_3m_pct < Fin 0 then ''exit_reduce''
      else if composite_score < Fin 40 \<and> sentiment < Fin (- (3 / 10)) then ''risk_alert''
      else if 20 < weight_pct then ''rebalance''
      else ''hold_accumulate'')"

lemma gap_bonus_bounds: "0 \<le> compute_gap_bonus s i c" "compute_gap_bonus s i c \<le> 20"
proof -
  let ?b = "(if s < - 5 then min 10 (\<bar>s\<bar> * (1 / 2)) else 0) + (if i then 5 else 0) +
    (if c < - 5 then min 5 (\<bar>c\<bar> * (3 / 10)) else 0)"
  have "0 \<le> ?b" by (auto intro!: add_nonneg_nonneg)
  then show "0 \<le> compute_gap_bonus s i c"
    using round_to_mono [of 0 ?b 2] by (simp add: compute_gap_bonus_def Let_def)
  show "compute_gap_bonus s i c \<le> 20" by (simp add: compute_gap_bonus_def Let_def)
qed

section \<open>Outcome labels\<close>

definition compute_outcome_label :: "string \<Rightarrow> pyfloat \<Rightarrow> string" where
  "compute_outcome_label action return_pct =
     (let action_lower = str_lower action in
      if action_lower \<in> {''buy'', ''accumulate''} then
        (if Fin 2 < return_pct then ''correct'' else if return_pct < Fin (- 2) then ''incorrect'' else ''neutral'')
      else if action_lower \<in> {''sell'', ''reduce''} then
        (if return_pct < Fin (- 2) then ''correct'' else if Fin 2 < return_pct then ''incorrect'' else ''neutral'')
      else if action_lower = ''hold'' then
        (if fabs return_pct < Fin 10 then ''correct'' else ''incorrect'')
      else ''neutral'')"

section \<open>Portfolio health\<close>

record corr_alert =
  al_ticker_a :: string
  al_ticker_b :: string
  al_correlation :: pyfloat

record portfolio_summary =
  pf_total_holdings :: nat
  pf_total_value :: rat
  pf_sector_weights :: "(string \<times> rat) list"
  pf_cap_distribution :: "(string \<times> rat) list"
  pf_concentration_risks :: "string list"
  pf_correlation_alerts :: "corr_alert list"
  pf_nifty50_overlap :: "int option"

definition risk_penalty :: "string \<Rightarrow> rat" where
  "risk_penalty risk =
     (if sublist ''sector'' (str_lower risk) then 10
      else if sublist ''cap'' (str_lower risk) then 8
      else 10)"

definition health_label_of :: "rat \<Rightarrow> string" where
  "health_label_of score =
     (if score < 30 then ''critical'' else if score < 60 then ''needs_attention''
      else if score < 80 then ''healthy'' else ''excellent'')"

definition compute_health_score :: "portfolio_summary \<Rightarrow> rat \<times> string" where
  "compute_health_score summary =
     (let score = 70 - sum_list (map risk_penalty (pf_concentration_risks summary))
            - 5 * of_nat (length (pf_correlation_alerts summary))
            - (if pf_total_holdings summary < 5 then 15 else 0)
            + of_int (min ((case pf_nifty50_overlap summary of None \<Rightarrow> 0 | Some overlap \<Rightarrow> overlap) * 2) 10);
          clamped = max 0 (min 100 score)
      in (round_to 1 clamped, health_label_of clamped))"

lemma health_score_bounds: "0 \<le> fst (compute_health_score s)" "fst (compute_health_score s) \<le> 100"
proof -
  let ?m = "\<lambda>x :: rat. max 0 (min 100 x)"
  have "\<exists>x. fst (compute_health_score s) = round_to 1 (?m x)"
    by (auto simp: compute_health_score_def Let_def)
  then obtain x where "fst (compute_health_score s) = round_to 1 (?m x)" by blast
  then show "0 \<le> fst (compute_health_score s)" "fst (compute_health_score s) \<le> 100"
    using round_to_bounds [of 0 "?m x" 100 1] by simp_all
qed

lemma penalties_nonneg: "0 \<le> sum_list (map risk_penalty rs)"
  by (rule sum_list_nonneg) (auto simp: risk_penalty_def)

end
