(* ===== verification/Reco_Funnel.thy ===== *)
theory Reco_Funnel
  imports Reco_Score
begin

text \<open>
  The first two stages of the recommendation engine
  (\<open>backend/jobs/recommendation_engine.py\<close>): the query with its hard gates and the scored candidates, and
  the gap analysis of a portfolio. The warehouse tables are lists of rows; \<open>NULL\<close> is \<^const>\<open>None\<close>, which a
  data frame turns into NaN in a numeric column. The gap analysis leaves out the sample of missing index names.
  Dates are day numbers. \<open>sort_values\<close> puts NaN at the end; how
  a Python sort orders keys among which is a NaN is an argument. Equal keys keep their order.
\<close>

section \<open>Stage 1\<close>

record piotroski_row =
  pi_ticker :: string
  pi_score_date :: int
  pi_total_score :: "rat option"
  pi_sector :: "string option"
  pi_market_cap :: "rat option"
  pi_avg_volume :: "rat option"

record analysis_row =
  an_ticker :: string
  an_analysis_date :: int
  an_sharpe_ratio :: "rat option"
  an_annualized_return_pct :: "rat option"
  an_sma_50_signal :: "string option"
  an_sma_200_signal :: "string option"
  an_rsi_signal :: "string option"
  an_macd_signal_text :: "string option"

record sentiment_row =
  sn_ticker :: string
  sn_score_date :: int
  sn_avg_score :: "rat option"

record forecast_row =
  fo_ticker :: string
  fo_run_date :: int
  fo_target_3m_pct_change :: "rat option"
  fo_mape :: "rat option"
  fo_mae :: "rat option"
  fo_rmse :: "rat option"

record ohlcv_row =
  oh_ticker :: string
  oh_date :: int
  oh_close :: "rat option"

record warehouse =
  wh_piotroski :: "piotroski_row list"
  wh_analysis :: "analysis_row list"
  wh_sentiment :: "sentiment_row list"
  wh_forecasts :: "forecast_row list"
  wh_ohlcv :: "ohlcv_row list"

text \<open>\<open>ROW_NUMBER() OVER (PARTITION BY ticker ORDER BY day DESC) = 1\<close>: the latest row of a ticker.\<close>

definition latest_row :: "('r \<Rightarrow> string) \<Rightarrow> ('r \<Rightarrow> int) \<Rightarrow> 'r list \<Rightarrow> string \<Rightarrow> 'r option" where
  "latest_row ticker day rows t =
     (case sort_key (\<lambda>r. - day r) (filter (\<lambda>r. ticker r = t) rows) of [] \<Rightarrow> None | r # _ \<Rightarrow> Some r)"

definition coalesce :: "rat option \<Rightarrow> rat \<Rightarrow> rat" where
  "coalesce v d = (case v of None \<Rightarrow> d | Some x \<Rightarrow> x)"

text \<open>A cell of a numeric column.\<close>

definition num_cell :: "rat option \<Rightarrow> pyfloat" where
  "num_cell v = (case v of None \<Rightarrow> Nan | Some x \<Rightarrow> Fin x)"

definition text_cell :: "string option \<Rightarrow> cell" where
  "text_cell v = (case v of None \<Rightarrow> Missing | Some s \<Rightarrow> Str s)"

text \<open>The hard gates of the query. A comparison with \<open>NULL\<close> does not hold.\<close>

definition passes_gates :: "int \<Rightarrow> piotroski_row \<Rightarrow> forecast_row \<Rightarrow> sentiment_row \<Rightarrow> bool" where
  "passes_gates today p f s \<longleftrightarrow>
     (case pi_total_score p of None \<Rightarrow> False | Some t \<Rightarrow> 4 \<le> t) \<and>
     10000 \<le> coalesce (pi_avg_volume p) 0 \<and>
     today - 30 \<le> fo_run_date f \<and>
     today - 7 \<le> sn_score_date s \<and>
     coalesce (fo_mape f) 0 < 80"

definition stage1_row :: "warehouse \<Rightarrow> int \<Rightarrow> string \<Rightarrow> score_row option" where
  "stage1_row wh today t =
     (case (latest_row pi_ticker pi_score_date (wh_piotroski wh) t,
            latest_row an_ticker an_analysis_date (wh_analysis wh) t,
            latest_row sn_ticker sn_score_date (wh_sentiment wh) t,
            latest_row fo_ticker fo_run_date (wh_forecasts wh) t,
            latest_row oh_ticker oh_date (filter (\<lambda>r. oh_close r \<noteq> None) (wh_ohlcv wh)) t) of
        (Some p, Some a, Some s, Some f, Some r) \<Rightarrow>
          if passes_gates today p f s then
            Some \<lparr>sr_ticker = t, sr_piotroski = Some (num_cell (pi_total_score p)), sr_sector = text_cell (pi_sector p),
              sr_market_cap = num_cell (pi_market_cap p), sr_sharpe_ratio = Some (num_cell (an_sharpe_ratio a)),
              sr_annualized_return_pct = Some (num_cell (an_annualized_return_pct a)),
              sr_sma_50_signal = an_sma_50_signal a, sr_sma_200_signal = an_sma_200_signal a,
              sr_rsi_signal = an_rsi_signal a, sr_macd_signal_text = an_macd_signal_text a,
              sr_target_3m_pct_change = Some (num_cell (fo_target_3m_pct_change f)),
              sr_mape = Some (num_cell (fo_mape f)), sr_mae = Some (num_cell (fo_mae f)),
              sr_rmse = Some (num_cell (fo_rmse f)), sr_sentiment = Some (num_cell (sn_avg_score s)),
              sr_current_price = Some (num_cell (oh_close r))\<rparr>
          else None
      | _ \<Rightarrow> None)"

definition stage1_query :: "warehouse \<Rightarrow> int \<Rightarrow> score_row list" where
  "stage1_query wh today = List.map_filter (stage1_row wh today) (remdups (map pi_ticker (wh_piotroski wh)))"

type_synonym candidate = "score_row \<times> pyfloat"

definition composite_score :: "candidate \<Rightarrow> pyfloat" where "composite_score = snd"
definition cand_ticker :: "candidate \<Rightarrow> string" where "cand_ticker c = sr_ticker (fst c)"

text \<open>\<open>sort_values(ascending=False)\<close>: NaN comes last.\<close>

definition sort_values_desc :: "('a \<Rightarrow> pyfloat) \<Rightarrow> 'a list \<Rightarrow> 'a list" where
  "sort_values_desc key xs =
     sort_key (\<lambda>x. - fin (key x)) (filter (\<lambda>x. key x \<noteq> Nan) xs) @ filter (\<lambda>x. key x = Nan) xs"

definition in_scope :: "string \<Rightarrow> score_row \<Rightarrow> bool" where
  "in_scope scope r \<longleftrightarrow>
     (if scope = ''all'' then True
      else if scope = ''india'' then is_indian_market (sr_ticker r) None
      else \<not> is_indian_market (sr_ticker r) None)"

definition stage1_candidates :: "warehouse \<Rightarrow> int \<Rightarrow> string \<Rightarrow> candidate list" where
  "stage1_candidates wh today scope =
     sort_values_desc composite_score
       (map (\<lambda>r. (r, compute_composite_score r)) (filter (in_scope scope) (stage1_query wh today)))"

text \<open>The module cache: one entry per scope, an hour long. Clock readings are seconds.\<close>

definition PREFILTER_TTL :: time where "PREFILTER_TTL = 3600"

type_synonym prefilter_cache = "(string \<times> candidate list \<times> time) list"

definition stage1_prefilter ::
    "warehouse \<Rightarrow> int \<Rightarrow> time \<Rightarrow> string \<Rightarrow> prefilter_cache \<Rightarrow> candidate list \<times> prefilter_cache" where
  "stage1_prefilter wh today now scope cache =
     (let cache_key = ''stage1:'' @ scope; df = stage1_candidates wh today scope;
          miss = (df, AList.update cache_key (df, now) cache)
      in case map_of cache cache_key of
           Some (cached, ts) \<Rightarrow> if now - ts < PREFILTER_TTL then (cached, cache) else miss
         | None \<Rightarrow> miss)"

section \<open>Stage 2: holdings\<close>

record holding =
  ho_ticker :: string
  ho_quantity :: rat
  ho_market :: string
  ho_invested :: rat

record enriched_holding =
  eh_ticker :: string
  eh_sector :: cell
  eh_market_cap :: pyfloat
  eh_current_price :: pyfloat
  eh_quantity :: rat

text \<open>
  What the analysis reads besides the candidates. The lookup of company data for tickers outside
  the candidates gives sectors with caps, and prices, or raises.
\<close>

record gap_env =
  ge_holdings :: "string \<Rightarrow> holding list"
  ge_company :: "string list \<Rightarrow> ((string \<times> cell \<times> pyfloat) list \<times> (string \<times> pyfloat) list) option"
  ge_nifty50 :: "string list"
  ge_watchlist :: "string \<Rightarrow> string list"
  ge_correlations :: "string list \<Rightarrow> (string list \<times> (string \<Rightarrow> string \<Rightarrow> pyfloat)) option"
  ge_nan_order :: "pyfloat list \<Rightarrow> nat list"

definition user_holdings :: "gap_env \<Rightarrow> string \<Rightarrow> string \<Rightarrow> holding list" where
  "user_holdings G user_id scope =
     filter (\<lambda>h. scope = ''all'' \<or> ho_market h = scope) (ge_holdings G user_id)"

text \<open>The left join with the candidates, first row per ticker.\<close>

definition enrich_holding :: "candidate list \<Rightarrow> holding \<Rightarrow> enriched_holding" where
  "enrich_holding cands h =
     (case find (\<lambda>c. cand_ticker c = ho_ticker h) cands of
        None \<Rightarrow> \<lparr>eh_ticker = ho_ticker h, eh_sector = Missing, eh_market_cap = Nan, eh_current_price = Nan,
                  eh_quantity = ho_quantity h\<rparr>
      | Some c \<Rightarrow> \<lparr>eh_ticker = ho_ticker h, eh_sector = sr_sector (fst c), eh_market_cap = sr_market_cap (fst c),
                  eh_current_price = (case sr_current_price (fst c) of None \<Rightarrow> Nan | Some p \<Rightarrow> p), eh_quantity = ho_quantity h\<rparr>)"

definition is_na :: "cell \<Rightarrow> bool" where
  "is_na c \<longleftrightarrow> c = Missing \<or> c = Market_Utils.NaN"

definition apply_company_row :: "string \<times> cell \<times> pyfloat \<Rightarrow> enriched_holding list \<Rightarrow> enriched_holding list" where
  "apply_company_row ci hs =
     (case ci of (t, sector, mcap) \<Rightarrow>
        map (\<lambda>h. if eh_ticker h = t then h\<lparr>eh_sector := text_cell (safe_str sector), eh_market_cap := mcap\<rparr> else h) hs)"

definition apply_price_row :: "string \<times> pyfloat \<Rightarrow> enriched_holding list \<Rightarrow> enriched_holding list" where
  "apply_price_row pr hs =
     map (\<lambda>h. if eh_ticker h = fst pr \<and> eh_current_price h = Nan then h\<lparr>eh_current_price := snd pr\<rparr> else h) hs"

definition enrich_holdings :: "gap_env \<Rightarrow> candidate list \<Rightarrow> holding list \<Rightarrow> enriched_holding list" where
  "enrich_holdings G cands hs =
     (let merged = map (enrich_holding cands) hs;
          missing = map eh_ticker (filter (\<lambda>h. is_na (eh_sector h)) merged)
      in if missing = [] then merged
         else (case ge_company G missing of
                 None \<Rightarrow> merged
               | Some (ci, pr) \<Rightarrow> fold apply_price_row pr (fold apply_company_row ci merged)))"

definition current_value :: "enriched_holding \<Rightarrow> rat" where
  "current_value h = eh_quantity h * fin (eh_current_price h)"

definition total_value :: "enriched_holding list \<Rightarrow> rat" where
  "total_value hs = sum_list (map current_value hs)"

definition weight_of :: "rat \<Rightarrow> enriched_holding \<Rightarrow> rat" where
  "weight_of tv h = current_value h / tv * 100"

definition add_weight :: "string \<Rightarrow> rat \<Rightarrow> (string \<times> rat) list \<Rightarrow> (string \<times> rat) list" where
  "add_weight k w d = AList.update k (get_weight d k + w) d"

text \<open>\<open>user_sectors\<close> and \<open>cap_dist\<close>.\<close>

definition sector_of :: "enriched_holding \<Rightarrow> string" where
  "sector_of h = safe_sector (eh_sector h) ''ETF/Other''"

definition user_sectors :: "enriched_holding list \<Rightarrow> (string \<times> rat) list" where
  "user_sectors hs =
     (if 0 < total_value hs then fold (\<lambda>h. add_weight (sector_of h) (weight_of (total_value hs) h)) hs [] else [])"

definition cap_dist :: "enriched_holding list \<Rightarrow> (string \<times> rat) list" where
  "cap_dist hs =
     (let zero = [(''largecap'', 0), (''midcap'', 0), (''smallcap'', 0)] in
      if 0 < total_value hs
      then fold (\<lambda>h. add_weight (classify_cap (eh_market_cap h)) (weight_of (total_value hs) h)) hs zero
      else zero)"

text \<open>\<open>fillna("Other").value_counts(normalize=True) * 100\<close>.\<close>

definition fill_sector :: "score_row \<Rightarrow> string" where
  "fill_sector r = (case sr_sector r of Str s \<Rightarrow> s | _ \<Rightarrow> ''Other'')"

definition universe_sectors :: "candidate list \<Rightarrow> (string \<times> rat) list" where
  "universe_sectors cands =
     (let secs = map (\<lambda>c. fill_sector (fst c)) cands in
      map (\<lambda>s. (s, of_nat (count_list secs s) / of_nat (length secs) * 100)) (remdups secs))"

definition cap_gaps :: "(string \<times> rat) list \<Rightarrow> (string \<times> rat) list" where
  "cap_gaps caps = map (\<lambda>(cat, bench). (cat, round_to 2 (get_weight caps cat - bench))) CAP_BENCHMARK"

section \<open>Stage 2: correlation\<close>

fun pairs_from :: "(string \<Rightarrow> string \<Rightarrow> pyfloat) \<Rightarrow> string list \<Rightarrow> corr_alert list" where
  "pairs_from corr [] = []"
| "pairs_from corr (t1 # ts) =
     List.map_filter (\<lambda>t2. if Fin CORRELATION_THRESHOLD < fabs (corr t1 t2)
        then Some \<lparr>al_ticker_a = t1, al_ticker_b = t2, al_correlation = py_round 3 (corr t1 t2)\<rparr> else None) ts
     @ pairs_from corr ts"

definition compute_correlation_alerts :: "gap_env \<Rightarrow> string list \<Rightarrow> corr_alert list" where
  "compute_correlation_alerts G holdings_tickers =
     (if length holdings_tickers < 2 then []
      else case ge_correlations G holdings_tickers of None \<Rightarrow> [] | Some (columns, corr) \<Rightarrow> pairs_from corr columns)"

section \<open>Stage 2: actions and candidates\<close>

record portfolio_action =
  pa_ticker :: string
  pa_composite_score :: pyfloat
  pa_forecast_3m_pct :: pyfloat
  pa_weight_pct :: rat
  pa_sentiment :: pyfloat
  pa_category :: string

text \<open>
  The score of a ticker is that of its last row (\<open>dict\<close> of a \<open>zip\<close>), its forecast and sentiment those
  of its first.
\<close>

definition score_map :: "candidate list \<Rightarrow> string \<Rightarrow> pyfloat option" where
  "score_map cands = map_of (rev (map (\<lambda>c. (cand_ticker c, composite_score c)) cands))"

definition first_cell :: "(score_row \<Rightarrow> pyfloat option) \<Rightarrow> candidate list \<Rightarrow> string \<Rightarrow> pyfloat" where
  "first_cell col cands t =
     (case find (\<lambda>c. cand_ticker c = t) cands of
        None \<Rightarrow> Fin 0
      | Some c \<Rightarrow> (case col (fst c) of None \<Rightarrow> Nan | Some x \<Rightarrow> x))"

definition portfolio_action_of :: "candidate list \<Rightarrow> rat \<Rightarrow> enriched_holding \<Rightarrow> portfolio_action" where
  "portfolio_action_of cands tv h =
     (let tkr = eh_ticker h;
          comp = (case score_map cands tkr of None \<Rightarrow> Fin 50 | Some s \<Rightarrow> s);
          fcast = first_cell sr_target_3m_pct_change cands tkr;
          sent = first_cell sr_sentiment cands tkr;
          w_pct = (if 0 < tv then weight_of tv h else 0)
      in \<lparr>pa_ticker = tkr, pa_composite_score = py_round 2 comp, pa_forecast_3m_pct = py_round 2 fcast,
          pa_weight_pct = round_to 2 w_pct, pa_sentiment = py_round 2 sent,
          pa_category = categorize_holding comp fcast w_pct sent\<rparr>)"

record enriched_candidate =
  ec_ticker :: string
  ec_composite_score :: pyfloat
  ec_gap_bonus :: rat
  ec_gap_adjusted_score :: pyfloat
  ec_tier :: string
  ec_fills_gaps :: "string list"
  ec_sector :: string
  ec_cap_category :: string

definition enrich_candidate ::
    "(string \<times> rat) list \<Rightarrow> (string \<times> rat) list \<Rightarrow> string set \<Rightarrow> string set \<Rightarrow> string set \<Rightarrow> candidate \<Rightarrow> enriched_candidate" where
  "enrich_candidate gaps cgaps missing_nifty holdings_tickers watchlist c =
     (let tkr = cand_ticker c;
          comp = num_or (Some (composite_score c)) (Fin 0);
          sector = safe_sector (sr_sector (fst c)) ''ETF/Other'';
          cap_cat = classify_cap (sr_market_cap (fst c));
          s_gap = get_weight gaps sector;
          i_gap = tkr \<in> missing_nifty;
          c_gap = get_weight cgaps cap_cat;
          bonus = compute_gap_bonus s_gap i_gap c_gap
      in \<lparr>ec_ticker = tkr, ec_composite_score = comp, ec_gap_bonus = bonus,
          ec_gap_adjusted_score = py_round 2 (comp + Fin bonus),
          ec_tier = assign_tier tkr holdings_tickers watchlist,
          ec_fills_gaps = (if s_gap < - 5 then [''sector:'' @ sector] else []) @
            (if i_gap then [''nifty50''] else []) @ (if c_gap < - 5 then [''cap:'' @ cap_cat] else []),
          ec_sector = sector, ec_cap_category = cap_cat\<rparr>)"

text \<open>\<open>list.sort(key=..., reverse=True)\<close>.\<close>

definition py_sort_desc :: "(pyfloat list \<Rightarrow> nat list) \<Rightarrow> ('a \<Rightarrow> pyfloat) \<Rightarrow> 'a list \<Rightarrow> 'a list" where
  "py_sort_desc nan_order key xs =
     (if Nan \<in> set (map key xs) then map (\<lambda>i. xs ! i) (nan_order (map key xs))
      else sort_key (\<lambda>x. - fin (key x)) xs)"

text \<open>\<open>f"{w:.1f}"\<close>.\<close>

definition show_fixed1 :: "rat \<Rightarrow> string" where
  "show_fixed1 w =
     (let n = round_half_even (\<bar>w\<bar> * 10) in
      (if w < 0 then ''-'' else []) @ show_int (n div 10) @ ''.'' @ show_int (n mod 10))"

definition concentration_risks :: "(string \<times> rat) list \<Rightarrow> (string \<times> rat) list \<Rightarrow> string list" where
  "concentration_risks sectors caps =
     map (\<lambda>(sec, w). sec @ '': '' @ show_fixed1 w @ ''% (>30%)'') (filter (\<lambda>(sec, w). 30 < w) sectors) @
     (if 80 < get_weight caps ''largecap'' then [''Large-cap heavy: '' @ show_fixed1 (get_weight caps ''largecap'') @ ''%''] else [])"

record stage2_out =
  s2_portfolio_summary :: portfolio_summary
  s2_portfolio_actions :: "portfolio_action list"
  s2_candidates :: "enriched_candidate list"
  s2_sector_gaps :: "(string \<times> rat) list"
  s2_cap_gaps :: "(string \<times> rat) list"
  s2_missing_nifty50_count :: nat

definition stage2_gap_analysis :: "gap_env \<Rightarrow> string \<Rightarrow> candidate list \<Rightarrow> string \<Rightarrow> stage2_out" where
  "stage2_gap_analysis G user_id cands scope =
     (let hs = user_holdings G user_id scope;
          tickers = remdups (map ho_ticker hs);
          enriched = enrich_holdings G cands hs;
          valued = (if cands = [] then [] else enriched);
          sectors = user_sectors valued;
          caps = cap_dist valued;
          gaps = compute_sector_gaps sectors (universe_sectors cands);
          cgaps = cap_gaps caps;
          missing_nifty = set (ge_nifty50 G) - set tickers;
          alerts = compute_correlation_alerts G tickers;
          actions = map (portfolio_action_of cands (total_value valued)) enriched;
          ranked = py_sort_desc (ge_nan_order G) ec_gap_adjusted_score
            (map (enrich_candidate gaps cgaps missing_nifty (set tickers) (set (ge_watchlist G user_id))) cands)
      in \<lparr>s2_portfolio_summary =
            \<lparr>pf_total_holdings = length tickers, pf_total_value = round_to 2 (total_value valued),
             pf_sector_weights = sectors, pf_cap_distribution = map (\<lambda>(k, v). (k, round_to 2 v)) caps,
             pf_concentration_risks = concentration_risks sectors caps, pf_correlation_alerts = alerts,
             pf_nifty50_overlap = None\<rparr>,
          s2_portfolio_actions = actions,
          s2_candidates = take TOP_CANDIDATES ranked,
          s2_sector_gaps = gaps, s2_cap_gaps = cgaps, s2_missing_nifty50_count = card missing_nifty\<rparr>)"

section \<open>Lemmas\<close>

lemma sort_values_desc_set [simp]: "set (sort_values_desc key xs) = set xs"
  by (auto simp: sort_values_desc_def)

lemma stage1_row_facts:
  "stage1_row wh today t = Some r \<Longrightarrow>
     sr_ticker r = t \<and> (\<exists>p f s. latest_row pi_ticker pi_score_date (wh_piotroski wh) t = Some p \<and>
       latest_row fo_ticker fo_run_date (wh_forecasts wh) t = Some f \<and>
       latest_row sn_ticker sn_score_date (wh_sentiment wh) t = Some s \<and> passes_gates today p f s)"
  by (auto simp: stage1_row_def split: option.splits if_splits)

lemma distinct_map_filter_keys:
  "distinct xs \<Longrightarrow> (\<And>x y. f x = Some y \<Longrightarrow> g y = x) \<Longrightarrow> distinct (map g (List.map_filter f xs))"
  by (induction xs) (auto simp: List.map_filter_simps map_filter_def split: option.splits)

lemma distinct_sort_values: "distinct (map g xs) \<Longrightarrow> distinct (map g (sort_values_desc key xs))"
  by (auto simp: sort_values_desc_def distinct_map inj_on_def)

lemma stage1_distinct: "distinct (map cand_ticker (stage1_candidates wh today scope))"
proof -
  have "distinct (map sr_ticker (stage1_query wh today))"
    unfolding stage1_query_def by (rule distinct_map_filter_keys) (auto dest: stage1_row_facts)
  then show ?thesis
    unfolding stage1_candidates_def
    by (intro distinct_sort_values) (simp add: comp_def cand_ticker_def distinct_map_filter)
qed

lemma enrich_candidate_ticker [simp]: "ec_ticker (enrich_candidate g cg mn hs wl c) = cand_ticker c"
  by (simp add: enrich_candidate_def Let_def)

lemma portfolio_action_ticker [simp]: "pa_ticker (portfolio_action_of cands tv h) = eh_ticker h"
  by (simp add: portfolio_action_of_def Let_def)

lemma fold_preserves_tickers:
  "map eh_ticker (fold apply_price_row pr hs) = map eh_ticker hs"
  "map eh_ticker (fold apply_company_row ci hs) = map eh_ticker hs"
proof -
  have "map eh_ticker (apply_price_row p hs) = map eh_ticker hs" for p hs
    by (simp add: apply_price_row_def)
  then show "map eh_ticker (fold apply_price_row pr hs) = map eh_ticker hs"
    by (induction pr arbitrary: hs) auto
  have "map eh_ticker (apply_company_row c hs) = map eh_ticker hs" for c hs
    by (auto simp: apply_company_row_def split: prod.splits)
  then show "map eh_ticker (fold apply_company_row ci hs) = map eh_ticker hs"
    by (induction ci arbitrary: hs) auto
qed

lemma enrich_holding_ticker [simp]: "eh_ticker (enrich_holding cands h) = ho_ticker h"
  by (simp add: enrich_holding_def split: option.splits)

lemma enrich_holdings_tickers: "map eh_ticker (enrich_holdings G cands hs) = map ho_ticker hs"
  by (simp add: enrich_holdings_def Let_def fold_preserves_tickers comp_def split: option.splits)

end
