(* ===== verification/Reco_Llm.thy ===== *)
theory Reco_Llm
  imports Reco_Funnel Json
begin

text \<open>
  The third stage of the recommendation engine (\<open>backend/jobs/recommendation_engine.py\<close>): the reply of
  the model is cleaned, parsed, validated and repaired, and anything that goes wrong ends in the
  deterministic fallback. Python values from JSON are those of \<^theory_text>\<open>Json\<close>.
  The serialiser, the parser and the model are parameters. Any exception of the stage is caught, so that a
  step that raises is \<^const>\<open>None\<close>.
  Lemmas: what validation and cleaning let through, and where the fallback takes its tickers from.
\<close>

section \<open>JSON values\<close>

definition json_of_float :: "pyfloat \<Rightarrow> json" where
  "json_of_float x = (case x of Nan \<Rightarrow> JNan | Fin r \<Rightarrow> JNum r)"

section \<open>Cleaning the reply\<close>

definition fence :: string where "fence = ''```''"

definition rstrip :: "string \<Rightarrow> string" where
  "rstrip s = rev (dropWhile is_space (rev s))"

text \<open>The text after the opening fence line; \<open>index\<close> raises when there is no line end.\<close>

definition strip_fences :: "string \<Rightarrow> string option" where
  "strip_fences raw =
     (let txt = strip raw in
      case (if startswith txt fence
            then (if CHR 0x0A \<in> set txt then Some (tl (dropWhile (\<lambda>c. c \<noteq> CHR 0x0A) txt)) else None)
            else Some txt) of
        None \<Rightarrow> None
      | Some t \<Rightarrow> Some (if endswith t fence then rstrip (take (length t - 3) t) else t))"

text \<open>\<open>re.sub(r",\s*([}\]])", r"\1", text)\<close>.\<close>

function repair_commas :: "string \<Rightarrow> string" where
  "repair_commas [] = []"
| "repair_commas (c # cs) =
     (if c = CHR '','' then
        (case dropWhile is_space cs of
           [] \<Rightarrow> c # repair_commas cs
         | d # ds \<Rightarrow> if d = CHR ''}'' \<or> d = CHR '']'' then d # repair_commas ds else c # repair_commas cs)
      else c # repair_commas cs)"
  by pat_completeness auto
termination
proof (relation "measure length")
  fix c :: char and cs d ds
  assume "dropWhile is_space cs = d # ds"
  then show "(ds, c # cs) \<in> measure length"
    using length_dropWhile_le [of is_space cs] by simp
qed auto

section \<open>Validation\<close>

definition REQUIRED_REC_FIELDS :: "string list" where
  "REQUIRED_REC_FIELDS = [''action'', ''category'', ''rationale'', ''severity'', ''tier'']"

datatype llm_error =
    Missing_Fields nat "string list"
  | Hallucinated nat json
  | Accumulate_Not_Held nat json
  | Missing_Health_Score
  | Missing_Health_Label

text \<open>Whether the message of an error contains \<open>hallucinated\<close>; one of them quotes the ticker.\<close>

fun mentions_hallucinated :: "llm_error \<Rightarrow> bool" where
  "mentions_hallucinated (Hallucinated _ _) = True"
| "mentions_hallucinated (Accumulate_Not_Held _ (JStr t)) = sublist ''hallucinated'' t"
| "mentions_hallucinated _ = False"

definition not_in :: "json \<Rightarrow> string set \<Rightarrow> bool" where
  "not_in ticker ts \<longleftrightarrow> (case ticker of JStr t \<Rightarrow> t \<notin> ts | _ \<Rightarrow> True)"

text \<open>The lower-cased action; \<open>lower\<close> raises on what is not a string.\<close>

definition action_of :: "json_dict \<Rightarrow> string option" where
  "action_of rc = (case jget rc ''action'' (JStr []) of JStr s \<Rightarrow> Some (str_lower s) | _ \<Rightarrow> None)"

definition validate_rec :: "string set \<Rightarrow> string set \<Rightarrow> nat \<Rightarrow> json \<Rightarrow> llm_error list option" where
  "validate_rec valid_tickers held_tickers i rc =
     (case rc of
        JObj d \<Rightarrow>
          (let missing = filter (\<lambda>k. k \<notin> set (map fst d)) REQUIRED_REC_FIELDS;
               ticker = jget d ''ticker'' JNull
           in if truthy ticker \<and> \<not> hashable ticker then None
              else (case action_of d of
                 None \<Rightarrow> None
               | Some action \<Rightarrow> Some (
                   (if missing \<noteq> [] then [Missing_Fields i missing] else []) @
                   (if truthy ticker \<and> not_in ticker valid_tickers then [Hallucinated i ticker] else []) @
                   (if action = ''accumulate'' \<and> truthy ticker \<and> not_in ticker held_tickers
                    then [Accumulate_Not_Held i ticker] else []))))
      | _ \<Rightarrow> None)"

fun validate_recs :: "string set \<Rightarrow> string set \<Rightarrow> nat \<Rightarrow> json list \<Rightarrow> llm_error list option" where
  "validate_recs valid held i [] = Some []"
| "validate_recs valid held i (r # rs) =
     (case validate_rec valid held i r of
        None \<Rightarrow> None
      | Some es \<Rightarrow> (case validate_recs valid held (i + 1) rs of None \<Rightarrow> None | Some es' \<Rightarrow> Some (es @ es')))"

text \<open>
  \<open>_validate_llm_output\<close> on a reply whose \<open>recommendations\<close> are a list; without such a list every later
  step ends in the fallback.
\<close>

definition validate_llm_output :: "json_dict \<Rightarrow> json list \<Rightarrow> string set \<Rightarrow> string set \<Rightarrow> llm_error list option" where
  "validate_llm_output output recs valid_tickers held_tickers =
     (case validate_recs valid_tickers held_tickers 0 recs of
        None \<Rightarrow> None
      | Some es \<Rightarrow> Some (es @
          (if ''health_score'' \<notin> set (map fst output) then [Missing_Health_Score] else []) @
          (if ''health_label'' \<notin> set (map fst output) then [Missing_Health_Label] else [])))"

text \<open>The soft fix: a recommendation is dropped, changed to \<open>buy\<close> or kept.\<close>

definition clean_rec :: "string set \<Rightarrow> string set \<Rightarrow> json \<Rightarrow> json_dict option" where
  "clean_rec valid_tickers held_tickers rc =
     (case rc of
        JObj d \<Rightarrow>
          (let tkr = jget d ''ticker'' JNull in
           if truthy tkr \<and> not_in tkr valid_tickers then None
           else if action_of d = Some ''accumulate'' \<and> truthy tkr \<and> not_in tkr held_tickers
             then Some (AList.update ''action'' (JStr ''buy'') d)
           else Some d)
      | _ \<Rightarrow> None)"

section \<open>The fallback\<close>

record stage3_out =
  s3_recommendations :: "json_dict list"
  s3_assessment :: json
  s3_health_score :: rat
  s3_health_label :: string
  s3_llm_model :: string
  s3_llm_tokens_used :: nat

definition ACTION_MAP :: "(string \<times> string) list" where
  "ACTION_MAP = [(''exit_reduce'', ''sell''), (''risk_alert'', ''alert''), (''rebalance'', ''reduce''),
     (''hold_accumulate'', ''accumulate'')]"

definition priority :: "string \<Rightarrow> nat" where
  "priority cat = length (takeWhile (\<lambda>c. c \<noteq> cat) (map fst ACTION_MAP))"

definition show_float1 :: "pyfloat \<Rightarrow> string" where
  "show_float1 x = (case x of Nan \<Rightarrow> ''nan'' | Fin r \<Rightarrow> show_fixed1 r)"

definition action_rec :: "portfolio_action \<Rightarrow> json_dict" where
  "action_rec pa =
     (let cat = pa_category pa in
      [(''ticker'', JStr (pa_ticker pa)), (''tier'', JStr ''portfolio''), (''category'', JStr cat),
       (''action'', JStr (case map_of ACTION_MAP cat of None \<Rightarrow> ''hold'' | Some a \<Rightarrow> a)),
       (''severity'', JStr (if cat = ''exit_reduce'' then ''high'' else ''medium'')),
       (''rationale'', JStr (''Deterministic fallback: '' @ cat @ '' signal based on composite score '' @
          show_float1 (pa_composite_score pa) @ '' and 3m forecast '' @ show_float1 (pa_forecast_3m_pct pa) @ ''%.''))])"

definition candidate_rec :: "enriched_candidate \<Rightarrow> json_dict" where
  "candidate_rec c =
     [(''ticker'', JStr (ec_ticker c)), (''tier'', JStr (ec_tier c)), (''category'', JStr ''value''),
      (''action'', JStr ''buy''), (''severity'', JStr ''medium''),
      (''rationale'', JStr (''Deterministic fallback: gap-adjusted score '' @
         show_float1 (ec_gap_adjusted_score c) @ '', sector '' @ ec_sector c @ ''.''))]"

fun fill_recs :: "enriched_candidate list \<Rightarrow> string set \<Rightarrow> json_dict list \<Rightarrow> json_dict list" where
  "fill_recs [] seen recs = recs"
| "fill_recs (c # cs) seen recs =
     (if ec_ticker c \<in> seen then fill_recs cs seen recs
      else (let recs' = recs @ [candidate_rec c] in
            if 5 \<le> length recs' then recs' else fill_recs cs (insert (ec_ticker c) seen) recs'))"

definition deterministic_fallback ::
    "enriched_candidate list \<Rightarrow> portfolio_action list \<Rightarrow> rat \<Rightarrow> string \<Rightarrow> stage3_out" where
  "deterministic_fallback candidates portfolio_actions health_score health_label =
     (let firsts = take 2 (sort_key (\<lambda>a. priority (pa_category a)) portfolio_actions);
          recs = map action_rec firsts;
          remaining = 5 - length recs
      in \<lparr>s3_recommendations = fill_recs (take (remaining + 5) candidates) (set (map pa_ticker firsts)) recs,
          s3_assessment = JStr (''Score '' @ show_int (round_half_even health_score) @ ''/100 ('' @ health_label @
            ''). Generated via deterministic fallback.''),
          s3_health_score = health_score, s3_health_label = health_label,
          s3_llm_model = ''deterministic_fallback'', s3_llm_tokens_used = 0\<rparr>)"

section \<open>The stage\<close>

record llm_context =
  lc_portfolio_summary :: portfolio_summary
  lc_portfolio_actions :: "portfolio_action list"
  lc_candidates :: "enriched_candidate list"
  lc_sector_gaps :: "(string \<times> rat) list"
  lc_cap_gaps :: "(string \<times> rat) list"
  lc_valid_tickers :: "string set"

record llm_env =
  le_dumps :: "llm_context \<Rightarrow> string"
  le_invoke :: "string \<Rightarrow> string option"
  le_last_provider :: string
  le_loads :: "string \<Rightarrow> json option"

definition repair_reply ::
    "json \<Rightarrow> string set \<Rightarrow> string set \<Rightarrow> (json_dict \<times> json_dict list) option" where
  "repair_reply parsed valid_tickers held_tickers =
     (case parsed of
        JObj d \<Rightarrow>
          (case map_of d ''recommendations'' of
             Some (JList recs) \<Rightarrow>
               (case validate_llm_output d recs valid_tickers held_tickers of
                  None \<Rightarrow> None
                | Some errors \<Rightarrow>
                    (let cleaned = List.map_filter (clean_rec valid_tickers held_tickers) recs;
                         structural = filter (\<lambda>e. \<not> mentions_hallucinated e) errors
                     in if cleaned = [] then None
                        else if structural \<noteq> [] then None
                        else Some (d, cleaned)))
           | _ \<Rightarrow> None)
      | _ \<Rightarrow> None)"

definition valid_ticker_set :: "stage2_out \<Rightarrow> string set" where
  "valid_ticker_set s2 = set (map ec_ticker (s2_candidates s2)) \<union> set (map pa_ticker (s2_portfolio_actions s2))"

definition llm_context_of :: "stage2_out \<Rightarrow> llm_context" where
  "llm_context_of s2 =
     \<lparr>lc_portfolio_summary = s2_portfolio_summary s2, lc_portfolio_actions = take 10 (s2_portfolio_actions s2),
      lc_candidates = take 20 (s2_candidates s2), lc_sector_gaps = s2_sector_gaps s2,
      lc_cap_gaps = s2_cap_gaps s2, lc_valid_tickers = valid_ticker_set s2\<rparr>"

definition stage3_llm_reasoning :: "llm_env \<Rightarrow> stage2_out \<Rightarrow> stage3_out" where
  "stage3_llm_reasoning L s2 =
     (let (health_score, health_label) = compute_health_score (s2_portfolio_summary s2);
          fallback = deterministic_fallback (s2_candidates s2) (s2_portfolio_actions s2) health_score health_label;
          held_tickers = set (map pa_ticker (s2_portfolio_actions s2));
          user_message = le_dumps L (llm_context_of s2)
      in if s2_candidates s2 = [] \<and> s2_portfolio_actions s2 = [] then
           \<lparr>s3_recommendations = [], s3_assessment = JStr ''Empty portfolio - no recommendations.'',
            s3_health_score = health_score, s3_health_label = health_label, s3_llm_model = ''none'',
            s3_llm_tokens_used = 0\<rparr>
         else
           (case le_invoke L user_message of
              None \<Rightarrow> fallback
            | Some raw \<Rightarrow>
                (case Option.bind (strip_fences raw) (\<lambda>t. le_loads L (repair_commas t)) of
                   None \<Rightarrow> fallback
                 | Some parsed \<Rightarrow>
                     (case repair_reply parsed (valid_ticker_set s2) held_tickers of
                        None \<Rightarrow> fallback
                      | Some (d, cleaned) \<Rightarrow>
                          \<lparr>s3_recommendations = cleaned, s3_assessment = jget d ''portfolio_health_assessment'' JNull,
                           s3_health_score = health_score, s3_health_label = health_label,
                           s3_llm_model = le_last_provider L,
                           s3_llm_tokens_used = length user_message + length raw\<rparr>))))"

end
