(* ===== verification/Reco_Store.thy ===== *)
theory Reco_Store
  imports Reco_Llm Sched_Cron "HOL-Library.List_Lexorder" "HOL-Library.Char_ord" "HOL-Library.Product_Lexorder"
begin

text \<open>
  The recommendation tables (\<open>backend/db/models/recommendation.py\<close>) and the functions of
  \<open>backend/db/pg_stocks.py\<close> on them. A table is the list of its rows; deleting a run deletes its
  recommendations and their outcomes (\<open>ON DELETE CASCADE\<close>). A time stamp is kept as its reading in Indian
  time; the database compares and truncates in UTC. Days are ordinals of UTC dates. A transaction that
  raises leaves the database as it was.
\<close>

section \<open>Tables\<close>

record rec_run =
  rr_run_id :: string
  rr_user_id :: string
  rr_run_date :: int
  rr_run_type :: string
  rr_scope :: string
  rr_portfolio_snapshot :: portfolio_summary
  rr_health_score :: rat
  rr_health_label :: string
  rr_health_assessment :: "string option"
  rr_candidates_scanned :: nat
  rr_candidates_passed :: nat
  rr_llm_model :: string
  rr_llm_tokens_used :: nat
  rr_created_at :: datetime

record rec_row =
  rc_id :: string
  rc_run_id :: string
  rc_tier :: string
  rc_category :: string
  rc_ticker :: "string option"
  rc_action :: string
  rc_severity :: string
  rc_rationale :: string
  rc_expected_impact :: "string option"
  rc_data_signals :: json
  rc_price_at_rec :: "pyfloat option"
  rc_target_price :: "pyfloat option"
  rc_expected_return_pct :: "pyfloat option"
  rc_index_tags :: "string list option"
  rc_status :: string
  rc_acted_on_date :: "int option"
  rc_created_at :: datetime

record outcome_row =
  oc_recommendation_id :: string
  oc_check_date :: int
  oc_days_elapsed :: int
  oc_actual_price :: pyfloat
  oc_return_pct :: pyfloat
  oc_benchmark_return_pct :: pyfloat
  oc_excess_return_pct :: pyfloat
  oc_outcome_label :: string

record reco_db =
  rd_runs :: "rec_run list"
  rd_recs :: "rec_row list"
  rd_outcomes :: "outcome_row list"

definition ADMIN_TEST :: string where "ADMIN_TEST = ''admin_test''"

definition utc_day :: "datetime \<Rightarrow> int" where
  "utc_day t = utc_of_ist t div DAY_US"

section \<open>Runs\<close>

text \<open>The primary key refuses a second run of an id.\<close>

definition insert_recommendation_run :: "rec_run \<Rightarrow> reco_db \<Rightarrow> unit result \<times> reco_db" where
  "insert_recommendation_run r db =
     (if rr_run_id r \<in> set (map rr_run_id (rd_runs db)) then (Inl (OtherError ''IntegrityError''), db)
      else (Inr (), db\<lparr>rd_runs := rd_runs db @ [r]\<rparr>))"

text \<open>\<open>ORDER BY created_at DESC, run_date DESC\<close>.\<close>

definition newest_runs :: "rec_run list \<Rightarrow> rec_run list" where
  "newest_runs = sort_key (\<lambda>r. (- instant (rr_created_at r), - rr_run_date r))"

definition user_runs :: "string \<Rightarrow> string \<Rightarrow> bool \<Rightarrow> reco_db \<Rightarrow> rec_run list" where
  "user_runs user_id scope exclude_test db =
     filter (\<lambda>r. rr_user_id r = user_id \<and> (scope = ''all'' \<or> rr_scope r = scope) \<and>
                 (exclude_test \<longrightarrow> rr_run_type r \<noteq> ADMIN_TEST)) (rd_runs db)"

definition get_latest_recommendation_run :: "string \<Rightarrow> string \<Rightarrow> bool \<Rightarrow> reco_db \<Rightarrow> rec_run option" where
  "get_latest_recommendation_run user_id scope exclude_test db =
     (case newest_runs (user_runs user_id scope exclude_test db) of [] \<Rightarrow> None | r # _ \<Rightarrow> Some r)"

definition get_recommendations_for_run :: "string \<Rightarrow> reco_db \<Rightarrow> rec_row list" where
  "get_recommendations_for_run run_id db =
     sort_key (\<lambda>r. (rc_tier r, rc_action r)) (filter (\<lambda>r. rc_run_id r = run_id) (rd_recs db))"

text \<open>History rows: the run, the number of its recommendations and of those acted on.\<close>

definition get_recommendation_history ::
    "int \<Rightarrow> string \<Rightarrow> int \<Rightarrow> bool \<Rightarrow> string option \<Rightarrow> reco_db \<Rightarrow> (rec_run \<times> nat \<times> nat) list" where
  "get_recommendation_history today user_id months_back exclude_test scope db =
     (let runs = filter (\<lambda>r. rr_user_id r = user_id \<and> today - months_back * 30 \<le> rr_run_date r \<and>
            (exclude_test \<longrightarrow> rr_run_type r \<noteq> ADMIN_TEST) \<and>
            (scope \<in> {Some ''india'', Some ''us''} \<longrightarrow> Some (rr_scope r) = scope)) (rd_runs db);
          recs = (\<lambda>r. filter (\<lambda>c. rc_run_id c = rr_run_id r) (rd_recs db))
      in map (\<lambda>r. (r, length (recs r), length (filter (\<lambda>c. rc_acted_on_date c \<noteq> None) (recs r)))) (newest_runs runs))"

definition delete_recommendation_run :: "string \<Rightarrow> reco_db \<Rightarrow> nat \<times> reco_db" where
  "delete_recommendation_run run_id db =
     (if run_id \<notin> set (map rr_run_id (rd_runs db)) then (0, db)
      else
        (let gone = set (map rc_id (filter (\<lambda>r. rc_run_id r = run_id) (rd_recs db))) in
         (1, \<lparr>rd_runs = filter (\<lambda>r. rr_run_id r \<noteq> run_id) (rd_runs db),
              rd_recs = filter (\<lambda>r. rc_run_id r \<noteq> run_id) (rd_recs db),
              rd_outcomes = filter (\<lambda>oc. oc_recommendation_id oc \<notin> gone) (rd_outcomes db)\<rparr>)))"

section \<open>Recommendations\<close>

text \<open>One transaction: all rows or, when an id is taken or the run is not there, none.\<close>

definition insert_recommendations :: "string \<Rightarrow> rec_row list \<Rightarrow> reco_db \<Rightarrow> nat result \<times> reco_db" where
  "insert_recommendations run_id recs db =
     (let rows = map (\<lambda>r. r\<lparr>rc_run_id := run_id\<rparr>) recs in
      if distinct (map rc_id (rd_recs db @ rows)) \<and> (rows = [] \<or> run_id \<in> set (map rr_run_id (rd_runs db)))
      then (Inr (length rows), db\<lparr>rd_recs := rd_recs db @ rows\<rparr>)
      else (Inl (OtherError ''IntegrityError''), db))"

definition map_recs :: "(rec_row \<Rightarrow> bool) \<Rightarrow> (rec_row \<Rightarrow> rec_row) \<Rightarrow> reco_db \<Rightarrow> nat \<times> reco_db" where
  "map_recs P f db =
     (length (filter P (rd_recs db)), db\<lparr>rd_recs := map (\<lambda>r. if P r then f r else r) (rd_recs db)\<rparr>)"

definition update_recommendation_status ::
    "int \<Rightarrow> string \<Rightarrow> string \<Rightarrow> string list \<Rightarrow> string \<Rightarrow> reco_db \<Rightarrow> nat \<times> reco_db" where
  "update_recommendation_status today user_id ticker actions new_status db =
     (let run_ids = set (map rr_run_id (filter (\<lambda>r. rr_user_id r = user_id) (rd_runs db))) in
      map_recs (\<lambda>r. rc_run_id r \<in> run_ids \<and> rc_ticker r = Some ticker \<and> rc_action r \<in> set actions \<and> rc_status r = ''active'')
        (\<lambda>r. r\<lparr>rc_status := new_status, rc_acted_on_date := Some today\<rparr>) db)"

definition expire_old_recommendations :: "string \<Rightarrow> string \<Rightarrow> reco_db \<Rightarrow> nat \<times> reco_db" where
  "expire_old_recommendations user_id current_run_id db =
     (let cur_scope = map_option rr_scope (find (\<lambda>r. rr_run_id r = current_run_id) (rd_runs db));
          run_ids = set (map rr_run_id (filter (\<lambda>r. rr_user_id r = user_id \<and> rr_run_id r \<noteq> current_run_id \<and>
            (truthy_str cur_scope \<longrightarrow> Some (rr_scope r) = cur_scope)) (rd_runs db)))
      in map_recs (\<lambda>r. rc_run_id r \<in> run_ids \<and> rc_status r = ''active'') (\<lambda>r. r\<lparr>rc_status := ''expired''\<rparr>) db)"

definition expire_stale_recommendations :: "int \<Rightarrow> reco_db \<Rightarrow> nat \<times> reco_db" where
  "expire_stale_recommendations today =
     map_recs (\<lambda>r. rc_status r = ''active'' \<and> utc_day (rc_created_at r) \<le> today - 90) (\<lambda>r. r\<lparr>rc_status := ''expired''\<rparr>)"

definition delete_recommendation :: "string \<Rightarrow> reco_db \<Rightarrow> nat \<times> reco_db" where
  "delete_recommendation rec_id db =
     (if rec_id \<notin> set (map rc_id (rd_recs db)) then (0, db)
      else (1, db\<lparr>rd_recs := filter (\<lambda>r. rc_id r \<noteq> rec_id) (rd_recs db),
                  rd_outcomes := filter (\<lambda>oc. oc_recommendation_id oc \<noteq> rec_id) (rd_outcomes db)\<rparr>))"

section \<open>Outcomes\<close>

text \<open>
  The subquery of \<open>get_recommendations_due_for_outcome\<close> asks whether any outcome of the horizon exists,
  not whether one of this recommendation does.
\<close>

definition get_recommendations_due_for_outcome :: "int \<Rightarrow> reco_db \<Rightarrow> (rec_row \<times> int) list" where
  "get_recommendations_due_for_outcome today db =
     concat (map (\<lambda>days. map (\<lambda>r. (r, days)) (filter (\<lambda>r. rc_status r = ''active'' \<and>
         utc_day (rc_created_at r) \<le> today - days \<and>
         \<not> (\<exists>oc \<in> set (rd_outcomes db). oc_days_elapsed oc = days)) (rd_recs db))) [30, 60, 90])"

definition outcome_key :: "outcome_row \<Rightarrow> string \<times> int" where
  "outcome_key oc = (oc_recommendation_id oc, oc_days_elapsed oc)"

text \<open>The rows of one commit; \<open>uq_rec_outcome_rec_days\<close> refuses a second outcome of a horizon.\<close>

definition insert_outcomes :: "outcome_row list \<Rightarrow> reco_db \<Rightarrow> unit result \<times> reco_db" where
  "insert_outcomes ocs db =
     (if distinct (map outcome_key (rd_outcomes db @ ocs)) \<and> oc_recommendation_id ` set ocs \<subseteq> set (map rc_id (rd_recs db))
      then (Inr (), db\<lparr>rd_outcomes := rd_outcomes db @ ocs\<rparr>)
      else (Inl (OtherError ''IntegrityError''), db))"

definition insert_recommendation_outcome ::
    "string \<Rightarrow> int \<Rightarrow> int \<Rightarrow> pyfloat \<Rightarrow> pyfloat \<Rightarrow> pyfloat \<Rightarrow> pyfloat \<Rightarrow> string \<Rightarrow> reco_db \<Rightarrow> unit result \<times> reco_db" where
  "insert_recommendation_outcome rec_id check_date days price ret bench excess label =
     insert_outcomes [\<lparr>oc_recommendation_id = rec_id, oc_check_date = check_date, oc_days_elapsed = days,
       oc_actual_price = price, oc_return_pct = ret, oc_benchmark_return_pct = bench, oc_excess_return_pct = excess,
       oc_outcome_label = label\<rparr>]"

section \<open>Statistics\<close>

record reco_stats =
  st_total_runs :: nat
  st_total_recs :: nat
  st_total_outcomes :: nat
  st_total_acted_on :: nat
  st_avg_return_pct :: pyfloat
  st_avg_excess_return_pct :: pyfloat
  st_hit_rate_pct :: rat

definition avg :: "pyfloat list \<Rightarrow> pyfloat" where
  "avg xs = (if xs = [] then Fin 0 else foldr (+) xs (Fin 0) div Fin (of_nat (length xs)))"

text \<open>\<open>x > 0\<close> in the database, where NaN is greater than every number.\<close>

definition pg_positive :: "pyfloat \<Rightarrow> bool" where
  "pg_positive x \<longleftrightarrow> x = Nan \<or> Fin 0 < x"

definition get_recommendation_stats :: "string \<Rightarrow> string option \<Rightarrow> reco_db \<Rightarrow> reco_stats" where
  "get_recommendation_stats user_id scope db =
     (let runs = filter (\<lambda>r. rr_user_id r = user_id \<and> rr_run_type r \<noteq> ADMIN_TEST \<and>
            (scope \<in> {Some ''india'', Some ''us''} \<longrightarrow> Some (rr_scope r) = scope)) (rd_runs db);
          recs = filter (\<lambda>c. rc_run_id c \<in> set (map rr_run_id runs)) (rd_recs db);
          ocs = filter (\<lambda>oc. oc_recommendation_id oc \<in> set (map rc_id recs)) (rd_outcomes db);
          hits = length (filter (\<lambda>oc. pg_positive (oc_excess_return_pct oc)) ocs)
      in \<lparr>st_total_runs = length runs, st_total_recs = length recs, st_total_outcomes = length ocs,
          st_total_acted_on = length (filter (\<lambda>c. rc_acted_on_date c \<noteq> None) recs),
          st_avg_return_pct = py_round 2 (avg (map oc_return_pct ocs)),
          st_avg_excess_return_pct = py_round 2 (avg (map oc_excess_return_pct ocs)),
          st_hit_rate_pct = (if ocs = [] then 0 else round_to 1 (of_nat hits / of_nat (length ocs) * 100))\<rparr>)"

section \<open>Well-formed tables\<close>

text \<open>What the keys of the tables guarantee.\<close>

definition reco_wf :: "reco_db \<Rightarrow> bool" where
  "reco_wf db \<longleftrightarrow> distinct (map rr_run_id (rd_runs db)) \<and> distinct (map rc_id (rd_recs db)) \<and>
     distinct (map outcome_key (rd_outcomes db)) \<and>
     rc_run_id ` set (rd_recs db) \<subseteq> rr_run_id ` set (rd_runs db) \<and>
     oc_recommendation_id ` set (rd_outcomes db) \<subseteq> rc_id ` set (rd_recs db)"

lemma map_recs_simps [simp]:
  "rd_runs (snd (map_recs P f db)) = rd_runs db" "rd_outcomes (snd (map_recs P f db)) = rd_outcomes db"
  "rd_recs (snd (map_recs P f db)) = map (\<lambda>r. if P r then f r else r) (rd_recs db)"
  by (simp_all add: map_recs_def)

lemma map_recs_keys:
  assumes "\<And>r. key (f r) = key r"
  shows "map key (rd_recs (snd (map_recs P f db))) = map key (rd_recs db)"
  using assms by simp

lemma map_recs_wf:
  assumes "reco_wf db" "\<And>r. rc_id (f r) = rc_id r" "\<And>r. rc_run_id (f r) = rc_run_id r"
  shows "reco_wf (snd (map_recs P f db))"
  using assms(1) unfolding reco_wf_def set_map [symmetric] map_recs_keys [of rc_id, OF assms(2)] map_recs_keys [of rc_run_id, OF assms(3)]
  by (simp only: map_recs_simps(1,2))

lemma status_updates_wf:
  "reco_wf db \<Longrightarrow> reco_wf (snd (update_recommendation_status today u t as st db))"
  "reco_wf db \<Longrightarrow> reco_wf (snd (expire_old_recommendations u rid db))"
  "reco_wf db \<Longrightarrow> reco_wf (snd (expire_stale_recommendations today db))"
  by (simp_all add: update_recommendation_status_def expire_old_recommendations_def
      expire_stale_recommendations_def Let_def map_recs_wf)

lemma insert_run_wf: "reco_wf db \<Longrightarrow> reco_wf (snd (insert_recommendation_run r db))"
  by (auto simp: reco_wf_def insert_recommendation_run_def)

lemma insert_recs_wf: "reco_wf db \<Longrightarrow> reco_wf (snd (insert_recommendations rid recs db))"
  by (auto simp: reco_wf_def insert_recommendations_def Let_def image_image comp_def)

lemma insert_outcomes_wf: "reco_wf db \<Longrightarrow> reco_wf (snd (insert_outcomes ocs db))"
  by (auto simp: reco_wf_def insert_outcomes_def)

lemma delete_run_wf:
  assumes "reco_wf db"
  shows "reco_wf (snd (delete_recommendation_run rid db))"
proof -
  have "oc_recommendation_id oc \<in> rc_id ` {r \<in> set (rd_recs db). rc_run_id r \<noteq> rid}"
    if "oc \<in> set (rd_outcomes db)" "oc_recommendation_id oc \<notin> rc_id ` {r \<in> set (rd_recs db). rc_run_id r = rid}" for oc
  proof -
    have "oc_recommendation_id oc \<in> rc_id ` set (rd_recs db)"
      using assms that(1) unfolding reco_wf_def by blast
    then obtain r where "r \<in> set (rd_recs db)" "rc_id r = oc_recommendation_id oc" by auto
    then show ?thesis using that(2) by (metis (mono_tags, lifting) image_eqI mem_Collect_eq)
  qed
  then show ?thesis
    using assms by (auto simp: reco_wf_def delete_recommendation_run_def Let_def distinct_map_filter)
qed

lemma delete_rec_wf: "reco_wf db \<Longrightarrow> reco_wf (snd (delete_recommendation rid db))"
  by (auto simp: reco_wf_def delete_recommendation_def distinct_map_filter)

lemma newest_runs_set [simp]: "set (newest_runs rs) = set rs"
  by (simp add: newest_runs_def)

text \<open>The latest run exists as soon as a run qualifies, and no qualifying run is newer.\<close>

lemma latest_run:
  assumes "get_latest_recommendation_run u sc ex db = Some r"
  shows "r \<in> set (user_runs u sc ex db)" "\<forall>r' \<in> set (user_runs u sc ex db). instant (rr_created_at r') \<le> instant (rr_created_at r)"
proof -
  let ?k = "\<lambda>r. (- instant (rr_created_at r), - rr_run_date r)"
  obtain rs where rs: "newest_runs (user_runs u sc ex db) = r # rs"
    using assms by (auto simp: get_latest_recommendation_run_def split: list.splits)
  then show "r \<in> set (user_runs u sc ex db)" by (metis list.set_intros(1) newest_runs_set)
  have "sorted (map ?k (newest_runs (user_runs u sc ex db)))"
    unfolding newest_runs_def by (rule sorted_sort_key)
  then have *: "\<forall>r' \<in> set rs. ?k r \<le> ?k r'" by (simp add: rs)
  have set: "set (user_runs u sc ex db) = insert r (set rs)"
    using rs by (metis list.simps(15) newest_runs_set)
  show "\<forall>r' \<in> set (user_runs u sc ex db). instant (rr_created_at r') \<le> instant (rr_created_at r)"
    using * by (auto simp: set less_eq_prod_def)
qed

lemma latest_run_None: "get_latest_recommendation_run u sc ex db = None \<longleftrightarrow> user_runs u sc ex db = []"
  by (metis (no_types, lifting) get_latest_recommendation_run_def list.exhaust list.simps(4,5) newest_runs_set
      option.distinct(1) set_empty)

end
