(* ===== verification/Reco_Runs.thy ===== *)
theory Reco_Runs
  imports Reco_Store
begin

text \<open>
  Monthly recommendation runs: the quota gate and the single get-or-create path of
  \<open>backend/jobs/recommendation_engine.py\<close>, and its callers: the refresh route
  (\<open>backend/recommendation_routes.py\<close>), the administration routes (\<open>backend/routes.py\<close>), the scheduled job
  (\<open>backend/jobs/executor.py\<close>) and the command line (\<open>backend/pipeline/runner.py\<close>). The database checks what is
  bound to its columns: a text must be there and fit. One call has an environment of its own:
  the data it reads, its clock readings (one for all of the lookup) and the identifiers it draws. The queries of the first stage do not raise. The state is the database and the module
  cache of candidates.
\<close>

section \<open>The quota gate\<close>

definition current_month_start_ist :: "datetime \<Rightarrow> datetime" where
  "current_month_start_ist now = \<lparr>dt_date = (dt_date now)\<lparr>dy := 1\<rparr>, dt_us = 0\<rparr>"

definition next_month_start_ist :: "datetime \<Rightarrow> datetime" where
  "next_month_start_ist now =
     (let start = dt_date (current_month_start_ist now);
          year = yr start + (if mon start = 12 then 1 else 0);
          month = (if mon start = 12 then 1 else mon start + 1)
      in \<lparr>dt_date = start\<lparr>yr := year, mon := month\<rparr>, dt_us = 0\<rparr>)"

record quota_reply =
  qr_allowed :: bool
  qr_runs_used :: nat
  qr_latest_run_id :: "string option"
  qr_reset_at :: datetime

definition MAX_RUNS_PER_SCOPE_PER_MONTH :: nat where "MAX_RUNS_PER_SCOPE_PER_MONTH = 1"

definition monthly_runs :: "datetime \<Rightarrow> string \<Rightarrow> string \<Rightarrow> reco_db \<Rightarrow> rec_run list" where
  "monthly_runs now user_id scope db =
     filter (\<lambda>r. rr_user_id r = user_id \<and> rr_scope r = scope \<and>
        utc_of_ist (current_month_start_ist now) \<le> utc_of_ist (rr_created_at r) \<and>
        rr_run_type r \<noteq> ADMIN_TEST) (rd_runs db)"

text \<open>\<open>query_ok\<close> is false when the query raises; then the run is allowed.\<close>

definition check_recommendation_quota :: "bool \<Rightarrow> datetime \<Rightarrow> string \<Rightarrow> string \<Rightarrow> reco_db \<Rightarrow> quota_reply" where
  "check_recommendation_quota query_ok now user_id scope db =
     (let reset_at = next_month_start_ist now; runs = monthly_runs now user_id scope db in
      if \<not> query_ok then \<lparr>qr_allowed = True, qr_runs_used = 0, qr_latest_run_id = None, qr_reset_at = reset_at\<rparr>
      else \<lparr>qr_allowed = (length runs < MAX_RUNS_PER_SCOPE_PER_MONTH), qr_runs_used = length runs,
            qr_latest_run_id = (case sort_key (\<lambda>r. - instant (rr_created_at r)) runs of [] \<Rightarrow> None | r # _ \<Rightarrow> Some (rr_run_id r)),
            qr_reset_at = reset_at\<rparr>)"

section \<open>Rows for the database\<close>

definition varchar :: "nat \<Rightarrow> json \<Rightarrow> string option" where
  "varchar n j = (case j of JStr s \<Rightarrow> if length s \<le> n then Some s else None | _ \<Rightarrow> None)"

definition nullable_text :: "json \<Rightarrow> string option option" where
  "nullable_text j = (case j of JNull \<Rightarrow> Some None | JStr s \<Rightarrow> Some (Some s) | _ \<Rightarrow> None)"

definition nullable_varchar :: "nat \<Rightarrow> json \<Rightarrow> string option option" where
  "nullable_varchar n j = (case j of JNull \<Rightarrow> Some None | _ \<Rightarrow> map_option Some (varchar n j))"

definition nullable_float :: "json \<Rightarrow> pyfloat option option" where
  "nullable_float j = (case j of JNull \<Rightarrow> Some None | JNum x \<Rightarrow> Some (Some (Fin x)) | JNan \<Rightarrow> Some (Some Nan)
     | JBool b \<Rightarrow> Some (Some (Fin (of_bool b))) | _ \<Rightarrow> None)"

fun text_items :: "json list \<Rightarrow> string list option" where
  "text_items [] = Some []"
| "text_items (JStr s # js) = map_option ((#) s) (text_items js)"
| "text_items (_ # js) = None"

definition nullable_text_array :: "json \<Rightarrow> string list option option" where
  "nullable_text_array j =
     (case j of JNull \<Rightarrow> Some None | JList js \<Rightarrow> map_option Some (text_items js) | _ \<Rightarrow> None)"

text \<open>\<open>c.get(key)\<close> on an entry of the second stage: the keys it has are these.\<close>

definition candidate_dict :: "enriched_candidate \<Rightarrow> json_dict" where
  "candidate_dict c =
     [(''ticker'', JStr (ec_ticker c)), (''composite_score'', json_of_float (ec_composite_score c)),
      (''gap_bonus'', JNum (ec_gap_bonus c)), (''gap_adjusted_score'', json_of_float (ec_gap_adjusted_score c)),
      (''tier'', JStr (ec_tier c)), (''fills_gaps'', JList (map JStr (ec_fills_gaps c))),
      (''sector'', JStr (ec_sector c)), (''cap_category'', JStr (ec_cap_category c))]"

text \<open>\<open>cand_map.get(ticker, {})\<close>; \<open>unhashable_ticker\<close> is where it raises.\<close>

definition candidate_of :: "enriched_candidate list \<Rightarrow> json \<Rightarrow> json_dict" where
  "candidate_of cands ticker =
     (case ticker of
        JStr t \<Rightarrow> (case find (\<lambda>c. ec_ticker c = t) (rev cands) of None \<Rightarrow> [] | Some c \<Rightarrow> candidate_dict c)
      | _ \<Rightarrow> [])"

definition unhashable_ticker :: "json_dict \<Rightarrow> bool" where
  "unhashable_ticker r \<longleftrightarrow> \<not> hashable (jget r ''ticker'' JNull)"

definition json_or :: "json \<Rightarrow> json \<Rightarrow> json" where
  "json_or a b = (if truthy a then a else b)"

definition rec_row_of ::
    "enriched_candidate list \<Rightarrow> string \<Rightarrow> string \<Rightarrow> datetime \<Rightarrow> json_dict \<Rightarrow> rec_row option" where
  "rec_row_of cands run_id rec_id created r =
     (let ticker = jget r ''ticker'' JNull;
          c = candidate_of cands ticker;
          price = json_or (jget r ''price_at_rec'' JNull) (jget c ''current_price'' JNull);
          target = json_or (jget r ''target_price'' JNull) (jget c ''target_price'' JNull);
          ret = json_or (jget r ''expected_return_pct'' JNull) (jget c ''forecast_3m_pct'' JNull)
      in Option.bind (varchar 20 (jget r ''tier'' (JStr ''explore''))) (\<lambda>tier.
         Option.bind (varchar 25 (jget r ''category'' (JStr ''general''))) (\<lambda>category.
         Option.bind (nullable_varchar 20 ticker) (\<lambda>tkr.
         Option.bind (varchar 15 (jget r ''action'' (JStr ''hold''))) (\<lambda>action.
         Option.bind (varchar 10 (jget r ''severity'' (JStr ''low''))) (\<lambda>severity.
         Option.bind (nullable_text (jget r ''rationale'' (JStr []))) (\<lambda>rationale.
         Option.bind rationale (\<lambda>rationale.
         Option.bind (nullable_text (jget r ''expected_impact'' JNull)) (\<lambda>impact.
         Option.bind (nullable_float price) (\<lambda>price.
         Option.bind (nullable_float target) (\<lambda>target.
         Option.bind (nullable_float ret) (\<lambda>ret.
         Option.bind (nullable_text_array (jget r ''index_tags'' JNull)) (\<lambda>tags.
         Some \<lparr>rc_id = rec_id, rc_run_id = run_id, rc_tier = tier, rc_category = category, rc_ticker = tkr,
           rc_action = action, rc_severity = severity, rc_rationale = rationale, rc_expected_impact = impact,
           rc_data_signals = jget r ''data_signals'' (JObj []), rc_price_at_rec = price, rc_target_price = target,
           rc_expected_return_pct = ret, rc_index_tags = tags, rc_status = ''active'', rc_acted_on_date = None,
           rc_created_at = created\<rparr>)))))))))))))"

fun rec_rows_of ::
    "enriched_candidate list \<Rightarrow> string \<Rightarrow> (nat \<Rightarrow> string) \<Rightarrow> datetime \<Rightarrow> nat \<Rightarrow> json_dict list \<Rightarrow> rec_row list option" where
  "rec_rows_of cands run_id ids created i [] = Some []"
| "rec_rows_of cands run_id ids created i (r # rs) =
     Option.bind (rec_row_of cands run_id (ids i) created r) (\<lambda>row.
     map_option ((#) row) (rec_rows_of cands run_id ids created (i + 1) rs))"

section \<open>Get or create\<close>

record reco_env =
  xe_warehouse :: warehouse
  xe_gap :: gap_env
  xe_llm :: llm_env
  xe_today :: int
  xe_time :: time
  xe_lookup_ok :: bool
  xe_lookup_now :: datetime
  xe_insert_now :: datetime
  xe_run_id :: string
  xe_rec_ids :: "nat \<Rightarrow> string"

record reco_world =
  rw_db :: reco_db
  rw_cache :: prefilter_cache

record run_response =
  rp_run_id :: "string option"
  rp_scope :: string
  rp_recommendations :: "rec_row list"
  rp_was_cached :: bool
  rp_reset_at :: datetime
  rp_status_note :: "string option"

definition fetch_cached :: "reco_env \<Rightarrow> string \<Rightarrow> string \<Rightarrow> reco_db \<Rightarrow> run_response option" where
  "fetch_cached X user_id scope db =
     (case get_latest_recommendation_run user_id scope True db of
        None \<Rightarrow> None
      | Some r \<Rightarrow>
          if utc_of_ist (rr_created_at r) < utc_of_ist (current_month_start_ist (xe_lookup_now X)) then None
          else Some \<lparr>rp_run_id = Some (rr_run_id r), rp_scope = rr_scope r,
                 rp_recommendations = get_recommendations_for_run (rr_run_id r) db, rp_was_cached = True,
                 rp_reset_at = next_month_start_ist (xe_lookup_now X), rp_status_note = None\<rparr>)"

definition no_run :: "reco_env \<Rightarrow> string \<Rightarrow> string \<Rightarrow> run_response" where
  "no_run X scope note =
     \<lparr>rp_run_id = None, rp_scope = scope, rp_recommendations = [], rp_was_cached = False,
      rp_reset_at = next_month_start_ist (xe_lookup_now X), rp_status_note = Some note\<rparr>"

definition run_row_of ::
    "reco_env \<Rightarrow> string \<Rightarrow> string \<Rightarrow> string \<Rightarrow> nat \<Rightarrow> stage2_out \<Rightarrow> stage3_out \<Rightarrow> rec_run option" where
  "run_row_of X user_id scope run_type scanned s2 s3 =
     Option.bind (nullable_text (s3_assessment s3)) (\<lambda>assessment.
     if 20 < length run_type \<or> 50 < length (s3_llm_model s3) then None
     else Some \<lparr>rr_run_id = xe_run_id X, rr_user_id = user_id, rr_run_date = xe_today X, rr_run_type = run_type,
       rr_scope = scope, rr_portfolio_snapshot = s2_portfolio_summary s2, rr_health_score = s3_health_score s3,
       rr_health_label = s3_health_label s3, rr_health_assessment = assessment, rr_candidates_scanned = scanned,
       rr_candidates_passed = length (s2_candidates s2), rr_llm_model = s3_llm_model s3,
       rr_llm_tokens_used = s3_llm_tokens_used s3, rr_created_at = xe_insert_now X\<rparr>)"

definition DataError :: py_exn where "DataError = OtherError ''DataError''"

text \<open>Three commits: the run, its recommendations, the expiry of earlier ones.\<close>

definition persist_run ::
    "string \<Rightarrow> string \<Rightarrow> rec_run option \<Rightarrow> rec_row list option \<Rightarrow> reco_db \<Rightarrow> unit result \<times> reco_db" where
  "persist_run user_id run_type run rows db =
     (case run of
        None \<Rightarrow> (Inl DataError, db)
      | Some run_data \<Rightarrow>
          (case insert_recommendation_run run_data db of
             (Inl e, db1) \<Rightarrow> (Inl e, db1)
           | (Inr _, db1) \<Rightarrow>
               (case (case rows of None \<Rightarrow> (Inl DataError, db1)
                      | Some rs \<Rightarrow> if rs = [] then (Inr 0, db1)
                          else insert_recommendations (rr_run_id run_data) rs db1) of
                  (Inl e, db2) \<Rightarrow> (Inl e, db2)
                | (Inr _, db2) \<Rightarrow>
                    (Inr (), if run_type \<noteq> ADMIN_TEST
                             then snd (expire_old_recommendations user_id (rr_run_id run_data) db2) else db2))))"

definition generate_run ::
    "reco_env \<Rightarrow> string \<Rightarrow> string \<Rightarrow> string \<Rightarrow> reco_world \<Rightarrow> run_response result \<times> reco_world" where
  "generate_run X user_id scope run_type w =
     (let (s1, cache) = stage1_prefilter (xe_warehouse X) (xe_today X) (xe_time X) scope (rw_cache w);
          w1 = w\<lparr>rw_cache := cache\<rparr>
      in if s1 = [] then (Inr (no_run X scope ''no_candidates''), w1)
         else
           (let s2 = stage2_gap_analysis (xe_gap X) user_id s1 scope in
            if pf_total_holdings (s2_portfolio_summary s2) = 0 then (Inr (no_run X scope ''empty_portfolio''), w1)
            else
              (let s3 = stage3_llm_reasoning (xe_llm X) s2;
                   run = run_row_of X user_id scope run_type (length s1) s2 s3;
                   rows = rec_rows_of (s2_candidates s2) (xe_run_id X) (xe_rec_ids X) (xe_insert_now X) 0 (s3_recommendations s3)
               in if \<exists>r \<in> set (s3_recommendations s3). unhashable_ticker r then (Inl (OtherError ''TypeError''), w1)
                  else case persist_run user_id run_type run rows (rw_db w1) of
                    (Inl e, db) \<Rightarrow> (Inl e, w1\<lparr>rw_db := db\<rparr>)
                  | (Inr _, db) \<Rightarrow>
                      (Inr \<lparr>rp_run_id = Some (xe_run_id X), rp_scope = scope,
                            rp_recommendations = get_recommendations_for_run (xe_run_id X) db, rp_was_cached = False,
                            rp_reset_at = next_month_start_ist (xe_lookup_now X), rp_status_note = None\<rparr>,
                       w1\<lparr>rw_db := db\<rparr>))))"

definition get_or_create_monthly_run ::
    "reco_env \<Rightarrow> string \<Rightarrow> string \<Rightarrow> string \<Rightarrow> bool \<Rightarrow> reco_world \<Rightarrow> run_response result \<times> reco_world" where
  "get_or_create_monthly_run X user_id scope run_type bypass_quota w =
     (if scope \<notin> {''india'', ''us''} then (Inl (ValueError ''Invalid scope for monthly run''), w)
      else
        (case (if \<not> bypass_quota \<and> xe_lookup_ok X then fetch_cached X user_id scope (rw_db w) else None) of
           Some cached \<Rightarrow> (Inr cached, w)
         | None \<Rightarrow> generate_run X user_id scope run_type w))"

end
