(* ===== verification/Reco_Jobs.thy ===== *)
theory Reco_Jobs
  imports Reco_Runs
begin

text \<open>
  The callers of the recommendation engine: routes (\<open>backend/recommendation_routes.py\<close>,
  \<open>backend/routes.py\<close>), the transactions that mark recommendations as acted on
  (\<open>auth/endpoints/ticker_routes.py\<close>), the command line (\<open>backend/pipeline/runner.py\<close>) and the jobs
  \<open>recommendations\<close>, \<open>recommendation_outcomes\<close> and \<open>recommendation_cleanup\<close> of \<open>backend/jobs/executor.py\<close>.
  A handler that makes several engine calls gets one environment per call. Response caching in Redis and the
  progress fields of run records are left out, and the query of due rows does not raise; a job returns the status it writes to its run record.
\<close>

section \<open>Routes\<close>

definition is_scope :: "string \<Rightarrow> bool" where "is_scope s \<longleftrightarrow> s \<in> {''india'', ''us''}"

definition expand_scope :: "string \<Rightarrow> string list" where
  "expand_scope scope = (if scope = ''all'' then [''india'', ''us''] else [scope])"

fun run_scopes ::
    "(nat \<Rightarrow> reco_env) \<Rightarrow> nat \<Rightarrow> string \<Rightarrow> string \<Rightarrow> string list \<Rightarrow> reco_world \<Rightarrow> run_response list result \<times> reco_world" where
  "run_scopes Xs i uid run_type [] w = (Inr [], w)"
| "run_scopes Xs i uid run_type (s # ss) w =
     (case get_or_create_monthly_run (Xs i) uid s run_type False w of
        (Inl e, w1) \<Rightarrow> (Inl e, w1)
      | (Inr r, w1) \<Rightarrow>
          (case run_scopes Xs (i + 1) uid run_type ss w1 of
             (Inl e, w2) \<Rightarrow> (Inl e, w2)
           | (Inr rs, w2) \<Rightarrow> (Inr (r # rs), w2)))"

text \<open>The first result with a run, else the first.\<close>

definition primary_result :: "run_response list \<Rightarrow> run_response option" where
  "primary_result results =
     (case find (\<lambda>r. truthy_str (rp_run_id r)) results of
        Some r \<Rightarrow> Some r
      | None \<Rightarrow> (case results of [] \<Rightarrow> None | r # _ \<Rightarrow> Some r))"

definition refresh_route ::
    "(nat \<Rightarrow> reco_env) \<Rightarrow> string \<Rightarrow> string \<Rightarrow> reco_world \<Rightarrow> run_response result \<times> reco_world" where
  "refresh_route Xs uid market w =
     (if \<not> list_all is_scope (expand_scope market) then (Inl (HTTPException 400 ''Invalid scope''), w)
      else
        (case run_scopes Xs 0 uid ''manual'' (expand_scope market) w of
           (Inl e, w1) \<Rightarrow> (Inl e, w1)
         | (Inr results, w1) \<Rightarrow>
             (case primary_result results of
                Some r \<Rightarrow> if truthy_str (rp_run_id r) then (Inr r, w1)
                          else (Inl (HTTPException 422 ''Could not generate recommendations''), w1)
              | None \<Rightarrow> (Inl (HTTPException 422 ''Could not generate recommendations''), w1))))"

text \<open>\<open>GET /\<close>: \<open>None\<close> is the empty response with the label \<open>no_data\<close>.\<close>

definition get_latest_route :: "reco_db \<Rightarrow> string \<Rightarrow> string \<Rightarrow> (rec_run \<times> rec_row list) option" where
  "get_latest_route db uid market =
     (case get_latest_recommendation_run uid market True db of
        None \<Rightarrow> None
      | Some r \<Rightarrow>
          Some (r, filter (\<lambda>c. market = ''all'' \<or> \<not> truthy_str (rc_ticker c) \<or>
                      detect_market (the (rc_ticker c)) None = market)
                   (get_recommendations_for_run (rr_run_id r) db)))"

definition get_run_route :: "reco_db \<Rightarrow> string \<Rightarrow> string \<Rightarrow> (rec_run \<times> rec_row list) result" where
  "get_run_route db uid run_id =
     (case find (\<lambda>r. rr_run_id r = run_id \<and> rr_user_id r = uid) (rd_runs db) of
        None \<Rightarrow> Inl (HTTPException 404 ''Run not found.'')
      | Some r \<Rightarrow> Inr (r, get_recommendations_for_run run_id db))"

section \<open>Administration\<close>

definition admin_recommendation_delete :: "string \<Rightarrow> reco_world \<Rightarrow> unit result \<times> reco_world" where
  "admin_recommendation_delete rec_id w =
     (case delete_recommendation rec_id (rw_db w) of
        (deleted, db) \<Rightarrow> (if deleted = 0 then Inl (HTTPException 404 ''Recommendation not found'') else Inr (), w\<lparr>rw_db := db\<rparr>))"

definition admin_recommendation_run_delete :: "string \<Rightarrow> reco_world \<Rightarrow> unit result \<times> reco_world" where
  "admin_recommendation_run_delete run_id w =
     (case delete_recommendation_run run_id (rw_db w) of
        (deleted, db) \<Rightarrow> (if deleted = 0 then Inl (HTTPException 404 ''Recommendation run not found'') else Inr (), w\<lparr>rw_db := db\<rparr>))"

text \<open>\<open>by_email\<close> is the lookup of a user by e-mail address.\<close>

definition admin_force_refresh ::
    "reco_env \<Rightarrow> (string \<Rightarrow> string option) \<Rightarrow> string \<Rightarrow> string \<Rightarrow> reco_world \<Rightarrow> run_response result \<times> reco_world" where
  "admin_force_refresh X by_email user_id scope w =
     (let raw = strip user_id in
      if raw = [] \<or> \<not> is_scope scope then (Inl (HTTPException 400 ''user_id and scope (india|us) required''), w)
      else
        (case (if CHR ''@'' \<in> set raw then by_email (str_lower raw) else Some raw) of
           None \<Rightarrow> (Inl (HTTPException 404 ''No user found with email''), w)
         | Some target_uid \<Rightarrow>
             (case get_or_create_monthly_run X target_uid scope ADMIN_TEST True w of
                (Inl e, w1) \<Rightarrow> (Inl e, w1)
              | (Inr r, w1) \<Rightarrow>
                  if truthy_str (rp_run_id r) then (Inr r, w1)
                  else (Inl (HTTPException 422 ''Could not generate test run''), w1))))"

definition set_run_type :: "string \<Rightarrow> string \<Rightarrow> reco_db \<Rightarrow> reco_db" where
  "set_run_type run_id typ db =
     db\<lparr>rd_runs := map (\<lambda>r. if rr_run_id r = run_id then r\<lparr>rr_run_type := typ\<rparr> else r) (rd_runs db)\<rparr>"

definition delete_runs :: "string list \<Rightarrow> reco_db \<Rightarrow> reco_db" where
  "delete_runs ids db = fold (\<lambda>i d. snd (delete_recommendation_run i d)) ids db"

definition admin_promote :: "datetime \<Rightarrow> string \<Rightarrow> reco_world \<Rightarrow> string list result \<times> reco_world" where
  "admin_promote now run_id w =
     (case find (\<lambda>r. rr_run_id r = run_id) (rd_runs (rw_db w)) of
        None \<Rightarrow> (Inl (HTTPException 404 ''Run not found''), w)
      | Some row \<Rightarrow>
          if rr_run_type row \<noteq> ADMIN_TEST then (Inl (HTTPException 400 ''Only admin_test runs may be promoted.''), w)
          else
            (let replaced = map rr_run_id (filter (\<lambda>r. rr_run_id r \<noteq> run_id)
                   (monthly_runs now (rr_user_id row) (rr_scope row) (rw_db w)))
             in (Inr replaced, w\<lparr>rw_db := set_run_type run_id ''admin'' (delete_runs replaced (rw_db w))\<rparr>)))"

text \<open>A portfolio transaction marks the active recommendations it follows; it never fails because of that.\<close>

definition BUY_ACTIONS :: "string list" where "BUY_ACTIONS = [''buy'', ''accumulate'']"
definition SELL_ACTIONS :: "string list" where "SELL_ACTIONS = [''sell'', ''reduce'', ''trim'']"

definition mark_recs_acted_on :: "int \<Rightarrow> string \<Rightarrow> string \<Rightarrow> string list \<Rightarrow> reco_world \<Rightarrow> reco_world" where
  "mark_recs_acted_on today user_id ticker actions w =
     w\<lparr>rw_db := snd (update_recommendation_status today user_id ticker actions ''acted_on'' (rw_db w))\<rparr>"

section \<open>Command line\<close>

text \<open>
  \<open>_cmd_recommend\<close> for one user, after the first stage: the quota gate unless forced, then one transaction for the
  run and its recommendations; index tags are not stored and earlier recommendations not expired.
\<close>

definition cli_user ::
    "reco_env \<Rightarrow> bool \<Rightarrow> candidate list \<Rightarrow> string \<Rightarrow> string \<Rightarrow> reco_world \<Rightarrow> bool result \<times> reco_world" where
  "cli_user X force s1 scope uid w =
     (if \<not> force \<and> \<not> qr_allowed (check_recommendation_quota (xe_lookup_ok X) (xe_lookup_now X) uid scope (rw_db w))
      then (Inr False, w)
      else
        (let s2 = stage2_gap_analysis (xe_gap X) uid s1 scope in
         if pf_total_holdings (s2_portfolio_summary s2) = 0 then (Inr False, w)
         else
           (let s3 = stage3_llm_reasoning (xe_llm X) s2;
                recs = map (\<lambda>r. AList.delete ''index_tags'' (AList.update ''tier'' (jget r ''tier'' (JStr ''discovery'')) r))
                  (s3_recommendations s3)
            in if \<exists>r \<in> set recs. unhashable_ticker r then (Inl (OtherError ''TypeError''), w)
               else
                 (case (run_row_of X uid scope ''cli'' (length s1) s2 s3,
                        rec_rows_of (s2_candidates s2) (xe_run_id X) (xe_rec_ids X) (xe_insert_now X) 0 recs) of
                    (Some run, Some rows) \<Rightarrow>
                      (case insert_recommendation_run run (rw_db w) of
                         (Inl e, _) \<Rightarrow> (Inl e, w)
                       | (Inr _, db1) \<Rightarrow>
                           (case insert_recommendations (xe_run_id X) rows db1 of
                              (Inl e, _) \<Rightarrow> (Inl e, w)
                            | (Inr _, db2) \<Rightarrow> (Inr True, w\<lparr>rw_db := db2\<rparr>)))
                  | _ \<Rightarrow> (Inl DataError, w)))))"

fun cli_users ::
    "(nat \<Rightarrow> reco_env) \<Rightarrow> nat \<Rightarrow> bool \<Rightarrow> candidate list \<Rightarrow> string \<Rightarrow> string list \<Rightarrow> reco_world \<Rightarrow> unit result \<times> reco_world" where
  "cli_users Xs i force s1 scope [] w = (Inr (), w)"
| "cli_users Xs i force s1 scope (uid # uids) w =
     (case cli_user (Xs i) force s1 scope uid w of
        (Inl e, w1) \<Rightarrow> (Inl e, w1)
      | (Inr _, w1) \<Rightarrow> cli_users Xs (i + 1) force s1 scope uids w1)"

definition cmd_recommend ::
    "(nat \<Rightarrow> reco_env) \<Rightarrow> string \<Rightarrow> bool \<Rightarrow> string list \<Rightarrow> string option \<Rightarrow> reco_world \<Rightarrow> unit result \<times> reco_world" where
  "cmd_recommend Xs scope force user_ids only w =
     (let (s1, cache) = stage1_prefilter (xe_warehouse (Xs 0)) (xe_today (Xs 0)) (xe_time (Xs 0)) scope (rw_cache w);
          w1 = w\<lparr>rw_cache := cache\<rparr>
      in if s1 = [] \<or> user_ids = [] then (Inr (), w1)
         else cli_users Xs 0 force s1 scope (if truthy_str only then [the only] else user_ids) w1)"

section \<open>Jobs\<close>

text \<open>\<open>_finalize_run\<close>: the status; fewer than one error in twenty is a success with warnings.\<close>

definition final_status :: "nat \<Rightarrow> nat \<Rightarrow> bool \<Rightarrow> string" where
  "final_status done_count errors cancelled =
     (if cancelled then ''cancelled''
      else if 0 < errors \<and> 0 < done_count then
        (if (5 / 100 :: rat) \<le> of_nat errors / of_nat (max done_count 1) then ''failed'' else ''success'')
      else if 0 < errors then ''failed''
      else ''success'')"

text \<open>The monthly job: the cancel event is polled before every user and before every pass.\<close>

record job_state =
  js_done :: nat
  js_polls :: nat
  js_errors :: nat
  js_cancelled :: bool

fun job_scopes ::
    "(nat \<Rightarrow> bool) \<Rightarrow> (nat \<Rightarrow> reco_env) \<Rightarrow> string \<Rightarrow> string list \<Rightarrow> job_state \<times> reco_world \<Rightarrow> job_state \<times> reco_world" where
  "job_scopes cancel Xs uid [] (j, w) = (j, w)"
| "job_scopes cancel Xs uid (s # ss) (j, w) =
     (if cancel (js_polls j) then (j\<lparr>js_polls := js_polls j + 1, js_cancelled := True\<rparr>, w)
      else
        (case get_or_create_monthly_run (Xs (js_done j)) uid s ''scheduled'' False w of
           (r, w1) \<Rightarrow> job_scopes cancel Xs uid ss
             (j\<lparr>js_polls := js_polls j + 1, js_done := js_done j + 1,
                js_errors := js_errors j + (case r of Inl _ \<Rightarrow> 1 | Inr _ \<Rightarrow> 0)\<rparr>, w1)))"

fun job_users ::
    "(nat \<Rightarrow> bool) \<Rightarrow> (nat \<Rightarrow> reco_env) \<Rightarrow> string list \<Rightarrow> string list \<Rightarrow> job_state \<times> reco_world \<Rightarrow> job_state \<times> reco_world" where
  "job_users cancel Xs scopes [] (j, w) = (j, w)"
| "job_users cancel Xs scopes (uid # uids) (j, w) =
     (if cancel (js_polls j) then (j\<lparr>js_polls := js_polls j + 1, js_cancelled := True\<rparr>, w)
      else job_users cancel Xs scopes uids (job_scopes cancel Xs uid scopes (j\<lparr>js_polls := js_polls j + 1\<rparr>, w)))"

definition execute_run_recommendations ::
    "(nat \<Rightarrow> bool) \<Rightarrow> (nat \<Rightarrow> reco_env) \<Rightarrow> string list option \<Rightarrow> string \<Rightarrow> reco_world \<Rightarrow> string \<times> reco_world" where
  "execute_run_recommendations cancel Xs user_ids scope w =
     (if \<not> list_all is_scope (expand_scope scope) then (final_status 0 1 False, w)
      else
        (case user_ids of
           None \<Rightarrow> (final_status 0 1 False, w)
         | Some uids \<Rightarrow>
             (case job_users cancel Xs (expand_scope scope) uids
                     (\<lparr>js_done = 0, js_polls = 0, js_errors = 0, js_cancelled = False\<rparr>, w) of
                (j, w1) \<Rightarrow> (final_status (js_done j) (js_errors j) (js_cancelled j), w1))))"

text \<open>Outcomes. A close is a row of ticker, day and price; a price that is missing is NaN.\<close>

definition HORIZONS :: "int list" where "HORIZONS = [7, 30, 60, 90]"

definition due_recs :: "int \<Rightarrow> reco_db \<Rightarrow> (rec_row \<times> int) list" where
  "due_recs today db =
     concat (map (\<lambda>days. map (\<lambda>r. (r, days)) (filter (\<lambda>r. rc_status r \<in> {''active'', ''acted_on''} \<and>
         rc_ticker r \<noteq> None \<and> utc_day (rc_created_at r) \<le> today - days \<and>
         rc_id r \<notin> oc_recommendation_id ` set (filter (\<lambda>oc. oc_days_elapsed oc = days) (rd_outcomes db)))
       (rd_recs db))) HORIZONS)"

definition target_day :: "int \<Rightarrow> rec_row \<times> int \<Rightarrow> int" where
  "target_day today rd = min (utc_day (rc_created_at (fst rd)) + snd rd) today"

definition close_map ::
    "(string \<times> int \<times> pyfloat) list option \<Rightarrow> int \<Rightarrow> (rec_row \<times> int) list \<Rightarrow> string \<times> int \<Rightarrow> pyfloat option" where
  "close_map closes today due =
     (let dated = filter (\<lambda>rd. truthy_str (rc_ticker (fst rd))) due;
          tickers = map (\<lambda>rd. the (rc_ticker (fst rd))) dated;
          targets = map (target_day today) dated
      in if tickers = [] then Map.empty
         else (let d_min = Min (set targets); d_max = min (Max (set targets) + 6) today in
               case closes of None \<Rightarrow> Map.empty
               | Some rows \<Rightarrow> map_of (rev (map (\<lambda>(t, d, c). ((t, d), c))
                   (filter (\<lambda>(t, d, c). t \<in> set tickers \<and> d_min \<le> d \<and> d \<le> d_max) rows)))))"

fun resolve_close ::
    "(string \<times> int \<Rightarrow> pyfloat option) \<Rightarrow> int \<Rightarrow> string \<Rightarrow> int \<Rightarrow> nat \<Rightarrow> (pyfloat \<times> int) option" where
  "resolve_close closes today ticker d 0 = None"
| "resolve_close closes today ticker d (Suc n) =
     (if today < d then None
      else (case closes (ticker, d) of Some v \<Rightarrow> Some (v, d)
            | None \<Rightarrow> resolve_close closes today ticker (d + 1) n))"

definition outcome_of ::
    "(string \<times> int \<Rightarrow> pyfloat option) \<Rightarrow> int \<Rightarrow> rec_row \<times> int \<Rightarrow> outcome_row option" where
  "outcome_of closes today rd =
     (case rd of (r, days) \<Rightarrow>
        (case (rc_price_at_rec r, rc_ticker r) of
           (Some price_at_rec, Some ticker) \<Rightarrow>
             if price_at_rec = Fin 0 \<or> ticker = [] then None
             else
               (case resolve_close closes today ticker (target_day today rd) 7 of
                  None \<Rightarrow> None
                | Some (actual_price, check_d) \<Rightarrow>
                    (let return_pct = (actual_price - price_at_rec) div price_at_rec * Fin 100;
                         excess = return_pct - Fin 0
                     in Some \<lparr>oc_recommendation_id = rc_id r, oc_check_date = check_d, oc_days_elapsed = days,
                          oc_actual_price = actual_price, oc_return_pct = py_round 2 return_pct,
                          oc_benchmark_return_pct = py_round 2 (Fin 0), oc_excess_return_pct = py_round 2 excess,
                          oc_outcome_label = compute_outcome_label (rc_action r) return_pct\<rparr>))
         | _ \<Rightarrow> None))"

text \<open>The rows processed before the cancel event is seen.\<close>

fun until_cancelled :: "(nat \<Rightarrow> bool) \<Rightarrow> nat \<Rightarrow> 'a list \<Rightarrow> 'a list \<times> bool" where
  "until_cancelled cancel i [] = ([], False)"
| "until_cancelled cancel i (x # xs) =
     (if cancel i then ([], True) else (case until_cancelled cancel (i + 1) xs of (ys, c) \<Rightarrow> (x # ys, c)))"

text \<open>Active recommendations of more than 90 days.\<close>

definition expire_stale :: "int \<Rightarrow> reco_db \<Rightarrow> nat \<times> reco_db" where
  "expire_stale today =
     map_recs (\<lambda>r. rc_status r = ''active'' \<and> utc_day (rc_created_at r) < today - 90) (\<lambda>r. r\<lparr>rc_status := ''expired''\<rparr>)"

definition execute_run_recommendation_outcomes ::
    "(nat \<Rightarrow> bool) \<Rightarrow> (string \<times> int \<times> pyfloat) list option \<Rightarrow> int \<Rightarrow> reco_db \<Rightarrow> string \<times> reco_db" where
  "execute_run_recommendation_outcomes cancel closes today db =
     (let due = due_recs today db in
      if due = [] then (final_status 0 0 False, snd (expire_stale today db))
      else
        (let (seen, cancelled) = until_cancelled cancel 0 due;
             outcomes = List.map_filter (outcome_of (close_map closes today due) today) seen
         in if outcomes = [] then (final_status (length seen) 0 cancelled, db)
            else
              (case insert_outcomes outcomes db of
                 (Inl _, db1) \<Rightarrow> (final_status (length seen) 1 cancelled, db1)
               | (Inr _, db1) \<Rightarrow> (final_status (length seen) 0 cancelled, snd (expire_stale today db1)))))"

text \<open>\<open>CURRENT_DATE - INTERVAL '14 months'\<close>: the day is cut to the length of the month.\<close>

definition months_before :: "nat \<Rightarrow> date \<Rightarrow> date" where
  "months_before k d =
     (let n = yr d * 12 + int (mon d) - 1 - int k; y = n div 12; m = nat (n mod 12) + 1
      in \<lparr>yr = y, mon = m, dy = min (dy d) (days_in_month y m)\<rparr>)"

definition execute_recommendation_cleanup :: "date \<Rightarrow> reco_db \<Rightarrow> string \<times> reco_db" where
  "execute_recommendation_cleanup today db =
     (let old = filter (\<lambda>r. rr_run_date r < toordinal (months_before 14 today)) (rd_runs db) in
      (final_status (length old) 0 False, delete_runs (map rr_run_id old) db))"

end
