(* ===== verification/Reco_Monthly.thy ===== *)
theory Reco_Monthly
  imports Reco_Jobs
begin

text \<open>
  One run per user, scope and calendar month: what the engine and its callers do to the table of runs, the
  steps of the system as a relation with a clock that does not go back, and the invariant of its
  reachable states.
\<close>

section \<open>Months\<close>

definition month_of :: "datetime \<Rightarrow> int \<times> nat" where
  "month_of t = (yr (dt_date t), mon (dt_date t))"

lemma month_start_date:
  assumes "valid_time now"
  shows "valid_date (dt_date (current_month_start_ist now))"
    "toordinal (dt_date (current_month_start_ist now)) = toordinal (dt_date now) - int (dy (dt_date now)) + 1"
  using assms month_bounds' [of "mon (dt_date now)" "yr (dt_date now)"]
  by (auto simp: current_month_start_ist_def valid_time_def valid_date_def toordinal_def)

lemma ordinal_le_of_instant:
  assumes "valid_time t" "valid_time t'" "instant t \<le> instant t'"
  shows "toordinal (dt_date t) \<le> toordinal (dt_date t')"
proof (rule ccontr)
  assume "\<not> ?thesis"
  then have "toordinal (dt_date t') + 1 \<le> toordinal (dt_date t)" by simp
  then have "(toordinal (dt_date t') + 1) * DAY_US \<le> toordinal (dt_date t) * DAY_US"
    by (rule mult_right_mono) (simp add: DAY_US_def)
  then show False using assms by (simp add: instant_def valid_time_def DAY_US_def)
qed

lemma month_start_valid: "valid_time now \<Longrightarrow> valid_time (current_month_start_ist now)"
  using month_start_date(1) by (simp add: valid_time_def current_month_start_ist_def DAY_US_def)

text \<open>An instant of the past is in the current month iff it is not before its start.\<close>

lemma since_month_start:
  assumes t: "valid_time t" and n: "valid_time now" and le: "instant t \<le> instant now"
  shows "utc_of_ist (current_month_start_ist now) \<le> utc_of_ist t \<longleftrightarrow> month_of t = month_of now"
proof
  assume "utc_of_ist (current_month_start_ist now) \<le> utc_of_ist t"
  then have "instant (current_month_start_ist now) \<le> instant t" by (simp add: utc_of_ist_def)
  then have lo: "toordinal (dt_date (current_month_start_ist now)) \<le> toordinal (dt_date t)"
    by (rule ordinal_le_of_instant [OF month_start_valid [OF n] t])
  have hi: "toordinal (dt_date t) \<le> toordinal (dt_date now)"
    by (rule ordinal_le_of_instant [OF t n le])
  have vt: "valid_date (dt_date t)" and vn: "valid_date (dt_date now)"
    using t n by (simp_all add: valid_time_def)
  let ?m = "dt_date (current_month_start_ist now)"
  have m: "yr ?m = yr (dt_date now)" "mon ?m = mon (dt_date now)"
    by (simp_all add: current_month_start_ist_def)
  show "month_of t = month_of now"
  proof (rule ccontr)
    assume "month_of t \<noteq> month_of now"
    then consider "yr (dt_date t) < yr (dt_date now) \<or> yr (dt_date t) = yr (dt_date now) \<and> mon (dt_date t) < mon (dt_date now)"
      | "yr (dt_date now) < yr (dt_date t) \<or> yr (dt_date now) = yr (dt_date t) \<and> mon (dt_date now) < mon (dt_date t)"
      by (auto simp: month_of_def) linarith+
    then show False
    proof cases
      case 1
      then have "toordinal (dt_date t) < toordinal ?m"
        by (intro ordinal_less vt month_start_date(1) n) (auto simp: m)
      then show False using lo by simp
    next
      case 2
      then have "toordinal (dt_date now) < toordinal (dt_date t)"
        by (intro ordinal_less vt vn) auto
      then show False using hi by simp
    qed
  qed
next
  assume same: "month_of t = month_of now"
  define a b where "a = toordinal (dt_date (current_month_start_ist now))" and "b = toordinal (dt_date t)"
  have "a \<le> b" unfolding a_def b_def
    using same t month_start_date(2) [OF n] by (auto simp: month_of_def toordinal_def valid_time_def valid_date_def)
  then have "a * DAY_US \<le> b * DAY_US"
    by (rule mult_right_mono) (simp add: DAY_US_def)
  moreover have "instant (current_month_start_ist now) = a * DAY_US" "instant t = b * DAY_US + dt_us t"
    by (simp_all add: a_def b_def instant_def current_month_start_ist_def)
  moreover have "0 \<le> dt_us t" using t by (simp add: valid_time_def)
  ultimately show "utc_of_ist (current_month_start_ist now) \<le> utc_of_ist t"
    unfolding utc_of_ist_def by linarith
qed

text \<open>The reset is the first instant of the next month.\<close>

lemma next_month_start: "next_month_start_ist now = \<lparr>dt_date = first_of_next (dt_date now), dt_us = 0\<rparr>"
  if "valid_time now"
  using that by (auto simp: next_month_start_ist_def current_month_start_ist_def first_of_next_def Let_def valid_time_def
      valid_date_def)

section \<open>What happens to the table of runs\<close>

lemma insert_recs_runs [simp]: "rd_runs (snd (insert_recommendations rid rs db)) = rd_runs db"
  by (simp add: insert_recommendations_def Let_def)

lemma expire_runs [simp]:
  "rd_runs (snd (expire_old_recommendations u rid db)) = rd_runs db"
  "rd_runs (snd (expire_stale today db)) = rd_runs db"
  "rd_runs (snd (update_recommendation_status today u t as st db)) = rd_runs db"
  by (simp_all add: expire_old_recommendations_def expire_stale_def update_recommendation_status_def Let_def)

lemma delete_run_runs: "rd_runs (snd (delete_recommendation_run rid db)) = filter (\<lambda>r. rr_run_id r \<noteq> rid) (rd_runs db)"
  by (auto simp: delete_recommendation_run_def Let_def intro!: filter_True [symmetric])

lemma delete_runs_runs: "rd_runs (delete_runs ids db) = filter (\<lambda>r. rr_run_id r \<notin> set ids) (rd_runs db)"
  unfolding delete_runs_def
  by (induction ids arbitrary: db) (auto simp: delete_run_runs intro: filter_cong)

lemma delete_runs_wf: "reco_wf db \<Longrightarrow> reco_wf (delete_runs ids db)"
  unfolding delete_runs_def by (induction ids arbitrary: db) (auto simp: delete_run_wf)

definition new_run :: "reco_env \<Rightarrow> string \<Rightarrow> string \<Rightarrow> string \<Rightarrow> rec_run \<Rightarrow> bool" where
  "new_run X u s ty r \<longleftrightarrow> rr_run_id r = xe_run_id X \<and> rr_user_id r = u \<and> rr_scope r = s \<and> rr_run_type r = ty \<and>
     rr_created_at r = xe_insert_now X"

lemma run_row_of_new: "run_row_of X u s ty n s2 s3 = Some r \<Longrightarrow> new_run X u s ty r"
  by (auto simp: run_row_of_def new_run_def bind_eq_Some_conv split: if_splits)

text \<open>Persisting either leaves the runs alone, and then raises, or appends the new one under a fresh id.\<close>

lemma persist_run_runs:
  assumes "persist_run u ty run rows db = (res, db')"
  shows "rd_runs db' = rd_runs db \<and> (\<exists>e. res = Inl e) \<or>
    (\<exists>r. run = Some r \<and> rd_runs db' = rd_runs db @ [r] \<and> rr_run_id r \<notin> set (map rr_run_id (rd_runs db)))"
proof (cases run)
  case None
  then show ?thesis using assms by (auto simp: persist_run_def)
next
  case run: (Some r)
  show ?thesis
  proof (cases "rr_run_id r \<in> set (map rr_run_id (rd_runs db))")
    case True
    then show ?thesis using assms run by (auto simp: persist_run_def insert_recommendation_run_def)
  next
    case False
    obtain x db2 where db2: "(case rows of None \<Rightarrow> (Inl DataError, db\<lparr>rd_runs := rd_runs db @ [r]\<rparr>)
        | Some rs \<Rightarrow> if rs = [] then (Inr 0, db\<lparr>rd_runs := rd_runs db @ [r]\<rparr>)
            else insert_recommendations (rr_run_id r) rs (db\<lparr>rd_runs := rd_runs db @ [r]\<rparr>)) = (x, db2)"
      by fastforce
    have "rd_runs db2 = rd_runs db @ [r]"
      using db2 insert_recs_runs [of "rr_run_id r" _ "db\<lparr>rd_runs := rd_runs db @ [r]\<rparr>"]
      by (auto split: option.splits if_splits dest: arg_cong [of _ _ "\<lambda>p. rd_runs (snd p)"])
    then have "rd_runs db' = rd_runs db @ [r]"
      using assms run False db2
      by (auto simp: persist_run_def insert_recommendation_run_def split: sum.splits if_splits)
    then show ?thesis using run False by blast
  qed
qed

lemma generate_run_runs:
  assumes "generate_run X u s ty w = (res, w')"
  shows "rd_runs (rw_db w') = rd_runs (rw_db w) \<or>
    (\<exists>r. new_run X u s ty r \<and> rd_runs (rw_db w') = rd_runs (rw_db w) @ [r] \<and>
         xe_run_id X \<notin> set (map rr_run_id (rd_runs (rw_db w))))"
proof (cases "rd_runs (rw_db w') = rd_runs (rw_db w)")
  case False
  then obtain n s2 s3 rows out db' where run: "persist_run u ty (run_row_of X u s ty n s2 s3) rows (rw_db w) = (out, db')"
      and w': "rw_db w' = db'"
    using assms
    by (auto simp: generate_run_def Let_def split: prod.splits sum.splits if_splits)
  show ?thesis
    using persist_run_runs [OF run] False run_row_of_new [of X u s ty n s2 s3] unfolding w'
    by (metis new_run_def)
qed simp

lemma get_or_create_runs:
  assumes "get_or_create_monthly_run X u s ty bypass w = (res, w')"
  shows "rd_runs (rw_db w') = rd_runs (rw_db w) \<or>
    (\<exists>r. new_run X u s ty r \<and> rd_runs (rw_db w') = rd_runs (rw_db w) @ [r] \<and>
         xe_run_id X \<notin> set (map rr_run_id (rd_runs (rw_db w))) \<and>
         s \<in> {''india'', ''us''} \<and> (bypass \<or> \<not> xe_lookup_ok X \<or> fetch_cached X u s (rw_db w) = None))"
  using assms generate_run_runs [of X u s ty w res w']
  by (auto simp: get_or_create_monthly_run_def split: if_splits option.splits)

lemma cli_user_runs:
  assumes "cli_user X force s1 s u w = (res, w')"
  shows "rd_runs (rw_db w') = rd_runs (rw_db w) \<or>
    (\<exists>r. new_run X u s ''cli'' r \<and> rd_runs (rw_db w') = rd_runs (rw_db w) @ [r] \<and>
         xe_run_id X \<notin> set (map rr_run_id (rd_runs (rw_db w))) \<and>
         (force \<or> qr_allowed (check_recommendation_quota (xe_lookup_ok X) (xe_lookup_now X) u s (rw_db w))))"
proof (cases "rd_runs (rw_db w') = rd_runs (rw_db w)")
  case False
  then obtain n s2 s3 rows r db1 db2 out where r: "run_row_of X u s ''cli'' n s2 s3 = Some r"
      and i: "insert_recommendation_run r (rw_db w) = (Inr (), db1)"
      and j: "insert_recommendations (xe_run_id X) rows db1 = (Inr out, db2)" and w': "rw_db w' = db2"
      and ok: "force \<or> qr_allowed (check_recommendation_quota (xe_lookup_ok X) (xe_lookup_now X) u s (rw_db w))"
    using assms by (auto simp: cli_user_def Let_def split: if_splits option.splits sum.splits prod.splits)
  have "rd_runs db1 = rd_runs (rw_db w) @ [r]" "rr_run_id r \<notin> set (map rr_run_id (rd_runs (rw_db w)))"
    using i by (auto simp: insert_recommendation_run_def split: if_splits)
  moreover have "rd_runs db2 = rd_runs db1"
    using insert_recs_runs [of "xe_run_id X" rows db1] j by simp
  ultimately show ?thesis
    using run_row_of_new [OF r] ok unfolding w' by (metis new_run_def)
qed simp

section \<open>Months and the two gates\<close>

lemma month_between:
  assumes "valid_time a" "valid_time b" "valid_time c" "instant a \<le> instant b" "instant b \<le> instant c"
    and "month_of a = month_of c"
  shows "month_of b = month_of c"
proof -
  have "utc_of_ist (current_month_start_ist c) \<le> utc_of_ist a"
    using since_month_start [of a c] assms by simp
  then show ?thesis
    using since_month_start [of b c] assms by (simp add: utc_of_ist_def)
qed

text \<open>Runs of the past with a valid time stamp.\<close>

definition dated :: "datetime \<Rightarrow> reco_db \<Rightarrow> bool" where
  "dated t db \<longleftrightarrow> valid_time t \<and>
     (\<forall>r \<in> set (rd_runs db). valid_time (rr_created_at r) \<and> instant (rr_created_at r) \<le> instant t)"

definition run_of_month :: "string \<Rightarrow> string \<Rightarrow> int \<times> nat \<Rightarrow> rec_run \<Rightarrow> bool" where
  "run_of_month u s m r \<longleftrightarrow> rr_user_id r = u \<and> rr_scope r = s \<and> rr_run_type r \<noteq> ADMIN_TEST \<and> month_of (rr_created_at r) = m"

lemma monthly_runs_eq:
  "dated now db \<Longrightarrow> monthly_runs now u s db = filter (run_of_month u s (month_of now)) (rd_runs db)"
  unfolding monthly_runs_def dated_def
  by (rule filter_cong) (auto simp: run_of_month_def since_month_start)

lemma quota_allowed:
  assumes "dated now db"
  shows "qr_allowed (check_recommendation_quota True now u s db) \<longleftrightarrow>
    (\<forall>r \<in> set (rd_runs db). \<not> run_of_month u s (month_of now) r)"
  by (simp add: check_recommendation_quota_def Let_def MAX_RUNS_PER_SCOPE_PER_MONTH_def monthly_runs_eq [OF assms]
      filter_empty_conv)

lemma lookup_finds_nothing:
  assumes "dated (xe_lookup_now X) db" "s \<noteq> ''all''"
  shows "fetch_cached X u s db = None \<longleftrightarrow> (\<forall>r \<in> set (rd_runs db). \<not> run_of_month u s (month_of (xe_lookup_now X)) r)"
proof (cases "get_latest_recommendation_run u s True db")
  case None
  then have "user_runs u s True db = []" by (simp add: latest_run_None)
  moreover have "fetch_cached X u s db = None" by (simp add: fetch_cached_def None)
  ultimately show ?thesis
    using assms(2) by (auto simp: user_runs_def filter_empty_conv run_of_month_def)
next
  case (Some l)
  let ?start = "utc_of_ist (current_month_start_ist (xe_lookup_now X))"
  have l: "l \<in> set (user_runs u s True db)"
    and newest: "\<forall>r \<in> set (user_runs u s True db). instant (rr_created_at r) \<le> instant (rr_created_at l)"
    using latest_run [OF Some] by auto
  have month: "r \<in> set (rd_runs db) \<Longrightarrow> ?start \<le> utc_of_ist (rr_created_at r) \<longleftrightarrow>
      month_of (rr_created_at r) = month_of (xe_lookup_now X)" for r
    using assms(1) by (intro since_month_start) (auto simp: dated_def)
  have mem: "r \<in> set (user_runs u s True db) \<longleftrightarrow>
      r \<in> set (rd_runs db) \<and> rr_user_id r = u \<and> rr_scope r = s \<and> rr_run_type r \<noteq> ADMIN_TEST" for r
    using assms(2) by (auto simp: user_runs_def)
  have "fetch_cached X u s db = None \<longleftrightarrow> utc_of_ist (rr_created_at l) < ?start"
    by (simp add: fetch_cached_def Some)
  also have "\<dots> \<longleftrightarrow> (\<forall>r \<in> set (user_runs u s True db). utc_of_ist (rr_created_at r) < ?start)"
    using l newest by (force simp: utc_of_ist_def)
  also have "\<dots> \<longleftrightarrow> (\<forall>r \<in> set (rd_runs db). \<not> run_of_month u s (month_of (xe_lookup_now X)) r)"
    using month unfolding Ball_def mem run_of_month_def not_le [symmetric] by blast
  finally show ?thesis .
qed

section \<open>Steps\<close>

text \<open>The clock readings of a call follow the time of the state and each other.\<close>

definition call_after :: "datetime \<Rightarrow> reco_env \<Rightarrow> bool" where
  "call_after t X \<longleftrightarrow> valid_time (xe_lookup_now X) \<and> valid_time (xe_insert_now X) \<and>
     instant t \<le> instant (xe_lookup_now X) \<and> instant (xe_lookup_now X) \<le> instant (xe_insert_now X)"

inductive reco_step :: "datetime \<times> reco_world \<Rightarrow> datetime \<times> reco_world \<Rightarrow> bool" where
  monthly: "call_after t X \<Longrightarrow> xe_lookup_ok X \<Longrightarrow>
     reco_step (t, w) (xe_insert_now X, snd (get_or_create_monthly_run X u s ty False w))"
| test_run: "call_after t X \<Longrightarrow>
     reco_step (t, w) (xe_insert_now X, snd (get_or_create_monthly_run X u s ADMIN_TEST True w))"
| cli: "call_after t X \<Longrightarrow> xe_lookup_ok X \<Longrightarrow> reco_step (t, w) (xe_insert_now X, snd (cli_user X False s1 s u w))"
| promote: "valid_time now \<Longrightarrow> instant t \<le> instant now \<Longrightarrow>
     (\<And>r. find (\<lambda>r. rr_run_id r = run_id) (rd_runs (rw_db w)) = Some r \<Longrightarrow> month_of (rr_created_at r) = month_of now) \<Longrightarrow>
     reco_step (t, w) (now, snd (admin_promote now run_id w))"
| run_delete: "reco_step (t, w) (t, snd (admin_recommendation_run_delete run_id w))"
| rec_delete: "reco_step (t, w) (t, snd (admin_recommendation_delete rec_id w))"
| acted_on: "reco_step (t, w) (t, mark_recs_acted_on day u ticker actions w)"
| outcomes: "reco_step (t, w) (t, w\<lparr>rw_db := snd (execute_run_recommendation_outcomes cancel closes day (rw_db w))\<rparr>)"
| cleanup: "reco_step (t, w) (t, w\<lparr>rw_db := snd (execute_recommendation_cleanup today (rw_db w))\<rparr>)"

definition empty_reco_db :: reco_db where
  "empty_reco_db = \<lparr>rd_runs = [], rd_recs = [], rd_outcomes = []\<rparr>"

definition monthly_unique :: "reco_db \<Rightarrow> bool" where
  "monthly_unique db \<longleftrightarrow> distinct (map rr_run_id (rd_runs db)) \<and>
     (\<forall>u s m. length (filter (run_of_month u s m) (rd_runs db)) \<le> 1)"

lemma monthly_uniqueD: "monthly_unique db \<Longrightarrow> length (filter (run_of_month u s m) (rd_runs db)) \<le> 1"
  by (simp only: monthly_unique_def)

definition monthly_inv :: "datetime \<times> reco_world \<Rightarrow> bool" where
  "monthly_inv st \<longleftrightarrow> dated (fst st) (rw_db (snd st)) \<and> monthly_unique (rw_db (snd st))"

lemma dated_later: "dated t db \<Longrightarrow> valid_time t' \<Longrightarrow> instant t \<le> instant t' \<Longrightarrow> dated t' db"
  by (auto simp: dated_def)

lemma inv_append:
  assumes inv: "dated t db" "monthly_unique db" and X: "call_after t X" and r: "new_run X u s ty r"
    and fresh: "xe_run_id X \<notin> set (map rr_run_id (rd_runs db))"
    and none: "ty = ADMIN_TEST \<or> (\<forall>q \<in> set (rd_runs db). \<not> run_of_month u s (month_of (xe_lookup_now X)) q)"
    and db': "rd_runs db' = rd_runs db @ [r]"
  shows "dated (xe_insert_now X) db' \<and> monthly_unique db'"
proof
  show "dated (xe_insert_now X) db'"
    using inv(1) X r by (auto simp: dated_def db' call_after_def new_run_def)
  have old: "filter (run_of_month u' s' m) (rd_runs db) = []" if "run_of_month u' s' m r" for u' s' m
  proof -
    have eqs: "u' = u" "s' = s" using that r by (auto simp: run_of_month_def new_run_def)
    have "\<not> run_of_month u s m q" if q: "q \<in> set (rd_runs db)" for q
    proof
      assume h: "run_of_month u s m q"
      have "month_of (rr_created_at q) = month_of (xe_insert_now X)"
        using h \<open>run_of_month u' s' m r\<close> r by (simp add: run_of_month_def new_run_def)
      then have "month_of (xe_lookup_now X) = month_of (xe_insert_now X)"
        using q inv(1) X by - (rule month_between [of "rr_created_at q"], auto simp: dated_def call_after_def)
      then have "run_of_month u s (month_of (xe_lookup_now X)) q"
        using h \<open>run_of_month u' s' m r\<close> r by (simp add: run_of_month_def new_run_def)
      then show False
        using none q \<open>run_of_month u' s' m r\<close> r by (auto simp: run_of_month_def new_run_def)
    qed
    then show ?thesis by (simp add: filter_empty_conv eqs)
  qed
  have "length (filter (run_of_month u' s' m) (rd_runs db')) \<le> 1" for u' s' m
  proof (cases "run_of_month u' s' m r")
    case True
    then show ?thesis by (simp add: db' old)
  next
    case False
    then show ?thesis using monthly_uniqueD [OF inv(2)] by (simp add: db')
  qed
  moreover have "distinct (map rr_run_id (rd_runs db'))"
    using inv(2) fresh r by (simp add: db' monthly_unique_def new_run_def)
  ultimately show "monthly_unique db'" by (simp add: monthly_unique_def)
qed

lemma length_filter_filter: "length (filter Q (filter P xs)) \<le> length (filter Q xs)"
proof -
  have "filter Q (filter P xs) = filter P (filter Q xs)" by (simp add: conj_commute)
  then show ?thesis by (metis length_filter_le)
qed

lemma inv_filter:
  assumes "monthly_unique db" "dated t db" "rd_runs db' = filter P (rd_runs db)"
  shows "monthly_unique db' \<and> dated t db'"
proof -
  have "length (filter (run_of_month u s m) (rd_runs db')) \<le> 1" for u s m
    using assms(1) length_filter_filter [of "run_of_month u s m" P "rd_runs db"] order_trans
    unfolding assms(3) monthly_unique_def by blast
  then show ?thesis
    using assms by (simp add: monthly_unique_def dated_def distinct_map_filter)
qed

text \<open>
  A promotion deletes the other runs of the month and relabels the test run, which was made in
  that month.
\<close>

lemma set_run_type_runs: "rd_runs (set_run_type i ty db) = map (\<lambda>r. if rr_run_id r = i then r\<lparr>rr_run_type := ty\<rparr> else r) (rd_runs db)"
  by (simp add: set_run_type_def)

lemma length_filter_le_1: "distinct xs \<Longrightarrow> (\<And>x y. x \<in> set xs \<Longrightarrow> y \<in> set xs \<Longrightarrow> P x \<Longrightarrow> P y \<Longrightarrow> x = y) \<Longrightarrow>
    length (filter P xs) \<le> 1"
proof -
  assume d: "distinct xs" and eq: "\<And>x y. x \<in> set xs \<Longrightarrow> y \<in> set xs \<Longrightarrow> P x \<Longrightarrow> P y \<Longrightarrow> x = y"
  have "card (set (filter P xs)) \<le> 1"
    by (rule card_le_Suc0_iff_eq [THEN iffD2, simplified One_nat_def [symmetric]]) (auto intro: eq)
  then show ?thesis using d distinct_card [of "filter P xs"] by simp
qed

lemma one_run: "monthly_unique db \<Longrightarrow> r \<in> set (rd_runs db) \<Longrightarrow> r' \<in> set (rd_runs db) \<Longrightarrow>
    run_of_month u s m r \<Longrightarrow> run_of_month u s m r' \<Longrightarrow> r = r'"
proof -
  assume *: "monthly_unique db" "r \<in> set (rd_runs db)" "r' \<in> set (rd_runs db)" "run_of_month u s m r" "run_of_month u s m r'"
  then have "{r, r'} \<subseteq> set (filter (run_of_month u s m) (rd_runs db))" by simp
  then have "card {r, r'} \<le> length (filter (run_of_month u s m) (rd_runs db))"
    by (meson card_length card_mono finite_set order_trans)
  then show "r = r'" using monthly_uniqueD [OF *(1), of u s m] by (cases "r = r'") auto
qed

lemma promote_runs:
  assumes "admin_promote now i w = (Inr ids, w')"
  obtains row where "row \<in> set (rd_runs (rw_db w))" "rr_run_id row = i" "rr_run_type row = ADMIN_TEST"
    "find (\<lambda>r. rr_run_id r = i) (rd_runs (rw_db w)) = Some row"
    "ids = map rr_run_id (filter (\<lambda>r. rr_run_id r \<noteq> i) (monthly_runs now (rr_user_id row) (rr_scope row) (rw_db w)))"
    "rd_runs (rw_db w') = map (\<lambda>r. if rr_run_id r = i then r\<lparr>rr_run_type := ''admin''\<rparr> else r)
        (filter (\<lambda>r. rr_run_id r \<notin> set ids) (rd_runs (rw_db w)))"
proof -
  obtain row where row: "find (\<lambda>r. rr_run_id r = i) (rd_runs (rw_db w)) = Some row"
    using assms by (cases "find (\<lambda>r. rr_run_id r = i) (rd_runs (rw_db w))") (auto simp: admin_promote_def)
  then have "row \<in> set (rd_runs (rw_db w))" "rr_run_id row = i"
    by (metis (mono_tags, lifting) find_Some_iff nth_mem)+
  moreover have "rr_run_type row = ADMIN_TEST"
    using assms row by (auto simp: admin_promote_def split: if_splits)
  moreover have "ids = map rr_run_id (filter (\<lambda>r. rr_run_id r \<noteq> i) (monthly_runs now (rr_user_id row) (rr_scope row) (rw_db w)))"
    "rw_db w' = set_run_type i ''admin'' (delete_runs ids (rw_db w))"
    using assms row by (auto simp: admin_promote_def Let_def split: if_splits)
  ultimately show thesis
    using that row by (simp only: set_run_type_runs delete_runs_runs)
qed

lemma promote_failed: "admin_promote now i w = (Inl e, w') \<Longrightarrow> w' = w"
  by (auto simp: admin_promote_def Let_def split: option.splits if_splits)

lemma inv_promote:
  assumes inv: "dated now (rw_db w)" "monthly_unique (rw_db w)" and ok: "admin_promote now i w = (Inr ids, w')"
    and month: "\<And>r. find (\<lambda>r. rr_run_id r = i) (rd_runs (rw_db w)) = Some r \<Longrightarrow> month_of (rr_created_at r) = month_of now"
  shows "dated now (rw_db w') \<and> monthly_unique (rw_db w')"
proof -
  obtain row where row: "row \<in> set (rd_runs (rw_db w))" "rr_run_id row = i" "rr_run_type row = ADMIN_TEST"
      and f: "find (\<lambda>r. rr_run_id r = i) (rd_runs (rw_db w)) = Some row"
      and ids: "ids = map rr_run_id (filter (\<lambda>r. rr_run_id r \<noteq> i) (monthly_runs now (rr_user_id row) (rr_scope row) (rw_db w)))"
      and runs: "rd_runs (rw_db w') = map (\<lambda>r. if rr_run_id r = i then r\<lparr>rr_run_type := ''admin''\<rparr> else r)
        (filter (\<lambda>r. rr_run_id r \<notin> set ids) (rd_runs (rw_db w)))"
    by (rule promote_runs [OF ok])
  have d: "distinct (map rr_run_id (rd_runs (rw_db w)))" using inv(2) by (simp add: monthly_unique_def)
  have inj: "r = row" if "r \<in> set (rd_runs (rw_db w))" "rr_run_id r = i" for r
    using d that row(1,2) by (metis distinct_map inj_onD)
  let ?up = "\<lambda>r. if rr_run_id r = i then r\<lparr>rr_run_type := ''admin''\<rparr> else r"
  have same: "map rr_run_id (map ?up xs) = map rr_run_id xs" for xs by (induction xs) auto
  have d': "distinct (map rr_run_id (rd_runs (rw_db w')))"
    unfolding runs same by (rule distinct_map_filter [OF d])
  have clear: "\<not> run_of_month (rr_user_id row) (rr_scope row) (month_of now) r"
    if "r \<in> set (rd_runs (rw_db w))" "rr_run_id r \<notin> set ids" "rr_run_id r \<noteq> i" for r
    using that by (auto simp: ids monthly_runs_eq [OF inv(1)])
  have "length (filter (run_of_month u s m) (rd_runs (rw_db w'))) \<le> 1" for u s m
  proof (rule length_filter_le_1)
    show "distinct (rd_runs (rw_db w'))" using d' by (simp add: distinct_map)
    fix x y
    assume xy: "x \<in> set (rd_runs (rw_db w'))" "y \<in> set (rd_runs (rw_db w'))" "run_of_month u s m x" "run_of_month u s m y"
    obtain r where r: "x = ?up r" "r \<in> set (rd_runs (rw_db w))" "rr_run_id r \<notin> set ids" using xy(1) unfolding runs set_map set_filter by blast
    obtain q where q: "y = ?up q" "q \<in> set (rd_runs (rw_db w))" "rr_run_id q \<notin> set ids" using xy(2) unfolding runs set_map set_filter by blast
    have key: "run_of_month (rr_user_id row) (rr_scope row) (month_of now) b"
      if "run_of_month u s m (?up a)" "run_of_month u s m b" "rr_run_id a = i" "a \<in> set (rd_runs (rw_db w))" for a b
      using that inj [of a] month [OF f] by (auto simp: run_of_month_def)
    consider "rr_run_id r = i" "rr_run_id q = i" | "rr_run_id r = i" "rr_run_id q \<noteq> i"
      | "rr_run_id r \<noteq> i" "rr_run_id q = i" | "rr_run_id r \<noteq> i" "rr_run_id q \<noteq> i" by blast
    then show "x = y"
    proof cases
      case 1
      then show ?thesis using inj [of r] inj [of q] r q by simp
    next
      case 2
      then show ?thesis using key [of r q] clear [of q] r q xy by auto
    next
      case 3
      then show ?thesis using key [of q r] clear [of r] r q xy by auto
    next
      case 4
      then show ?thesis using one_run [OF inv(2), of r q u s m] r q xy by auto
    qed
  qed
  moreover have "dated now (rw_db w')" using inv(1) by (auto simp: dated_def runs)
  ultimately show ?thesis using d' by (simp add: monthly_unique_def)
qed

text \<open>The other steps leave the runs alone or delete some.\<close>

lemma other_runs:
  "rd_runs (rw_db (snd (admin_recommendation_run_delete i w))) = filter (\<lambda>r. rr_run_id r \<noteq> i) (rd_runs (rw_db w))"
  "rd_runs (rw_db (snd (admin_recommendation_delete c w))) = rd_runs (rw_db w)"
  "rd_runs (rw_db (mark_recs_acted_on day u ticker actions w)) = rd_runs (rw_db w)"
  "\<exists>P. rd_runs (snd (execute_recommendation_cleanup today db)) = filter P (rd_runs db)"
  using delete_run_runs [of i "rw_db w"]
  by (auto simp: admin_recommendation_run_delete_def admin_recommendation_delete_def delete_recommendation_def
      mark_recs_acted_on_def execute_recommendation_cleanup_def Let_def delete_runs_runs split: prod.splits)

lemma insert_outcomes_tables: "rd_runs (snd (insert_outcomes ocs db)) = rd_runs db" "rd_recs (snd (insert_outcomes ocs db)) = rd_recs db"
  by (simp_all add: insert_outcomes_def)

lemma outcomes_runs: "rd_runs (snd (execute_run_recommendation_outcomes cancel closes day db)) = rd_runs db"
  using insert_outcomes_tables(1)
  by (auto simp: execute_run_recommendation_outcomes_def Let_def split: prod.splits sum.splits)
    (metis snd_conv)+

lemma step_keeps_inv: "reco_step st st' \<Longrightarrow> monthly_inv st \<Longrightarrow> monthly_inv st'"
proof (induction rule: reco_step.induct)
  case (monthly t X w u s ty)
  obtain res w' where run: "get_or_create_monthly_run X u s ty False w = (res, w')" by fastforce
  have X: "dated (xe_lookup_now X) (rw_db w)" "valid_time (xe_insert_now X)" "instant t \<le> instant (xe_insert_now X)"
    using monthly by (auto simp: monthly_inv_def call_after_def dated_def)
  from get_or_create_runs [OF run] show ?case
  proof (elim disjE exE conjE)
    assume "rd_runs (rw_db w') = rd_runs (rw_db w)"
    then show ?thesis using monthly X by (auto simp: monthly_inv_def run dated_def monthly_unique_def)
  next
    fix r
    assume r: "new_run X u s ty r" "rd_runs (rw_db w') = rd_runs (rw_db w) @ [r]"
        "xe_run_id X \<notin> set (map rr_run_id (rd_runs (rw_db w)))" "s \<in> {''india'', ''us''}"
        "fetch_cached X u s (rw_db w) = None"
    have "\<forall>q \<in> set (rd_runs (rw_db w)). \<not> run_of_month u s (month_of (xe_lookup_now X)) q"
      using lookup_finds_nothing [OF X(1), of s u] r by auto
    then show ?thesis
      using inv_append [OF _ _ monthly(1) r(1,3) _ r(2)] monthly by (auto simp: monthly_inv_def run)
  qed (use monthly in auto)
next
  case (test_run t X w u s)
  obtain res w' where run: "get_or_create_monthly_run X u s ADMIN_TEST True w = (res, w')" by fastforce
  have X: "valid_time (xe_insert_now X)" "instant t \<le> instant (xe_insert_now X)"
    using test_run by (auto simp: call_after_def)
  from get_or_create_runs [OF run] show ?case
  proof (elim disjE exE conjE)
    assume "rd_runs (rw_db w') = rd_runs (rw_db w)"
    then show ?thesis using test_run X by (auto simp: monthly_inv_def run dated_def monthly_unique_def)
  qed (use inv_append [OF _ _ test_run(1)] test_run in \<open>auto simp: monthly_inv_def run\<close>)
next
  case (cli t X w s1 s u)
  obtain res w' where run: "cli_user X False s1 s u w = (res, w')" by fastforce
  have X: "dated (xe_lookup_now X) (rw_db w)" "valid_time (xe_insert_now X)" "instant t \<le> instant (xe_insert_now X)"
    using cli by (auto simp: monthly_inv_def call_after_def dated_def)
  from cli_user_runs [OF run] show ?case
  proof (elim disjE exE conjE)
    assume "rd_runs (rw_db w') = rd_runs (rw_db w)"
    then show ?thesis using cli X by (auto simp: monthly_inv_def run dated_def monthly_unique_def)
  next
    fix r
    assume r: "new_run X u s ''cli'' r" "rd_runs (rw_db w') = rd_runs (rw_db w) @ [r]"
        "xe_run_id X \<notin> set (map rr_run_id (rd_runs (rw_db w)))"
        "qr_allowed (check_recommendation_quota (xe_lookup_ok X) (xe_lookup_now X) u s (rw_db w))"
    then show ?thesis
      using inv_append [OF _ _ cli(1) r(1,3) _ r(2)] cli quota_allowed [OF X(1), of u s]
      by (auto simp: monthly_inv_def run)
  qed simp
next
  case (promote now t i w)
  have dated: "dated now (rw_db w)" using promote by (auto simp: monthly_inv_def dated_def)
  show ?case
  proof (cases "admin_promote now i w")
    case (Pair res w')
    then show ?thesis
      using promote inv_promote [OF dated, of i] dated promote_failed [of now i w]
      by (cases res) (auto simp: monthly_inv_def)
  qed
next
  case (run_delete t i w)
  then show ?case using inv_filter [OF _ _ other_runs(1)] by (auto simp: monthly_inv_def)
next
  case (cleanup t w today)
  show ?case
  proof -
    obtain P where "rd_runs (snd (execute_recommendation_cleanup today (rw_db w))) = filter P (rd_runs (rw_db w))"
      using other_runs(4) by blast
    then show ?thesis using cleanup inv_filter by (auto simp: monthly_inv_def)
  qed
qed (simp_all add: monthly_inv_def dated_def monthly_unique_def other_runs(2,3) outcomes_runs)

lemma reachable_inv:
  assumes "reco_step\<^sup>*\<^sup>* (t0, w0) st" "rd_runs (rw_db w0) = []" "valid_time t0"
  shows "monthly_inv st"
  using assms(1)
proof induction
  case base
  then show ?case using assms(2,3) by (simp add: monthly_inv_def dated_def monthly_unique_def)
next
  case (step y z)
  show ?case by (rule step_keeps_inv [OF step(2,3)])
qed

end
