(* ===== verification/Reco_Claims.thy ===== *)
theory Reco_Claims
  imports Reco_Monthly
begin

text \<open>
  What the recommendation engine guarantees and where it falls short: one run per month, the two
  gates agree, a failed insertion uses up the month, bounds of the scores, which tickers reach the
  database, how outcomes are recorded and which recommendations are never tracked.
\<close>

section \<open>A small world for the examples\<close>

definition demo_warehouse :: warehouse where
  "demo_warehouse = \<lparr>wh_piotroski = [\<lparr>pi_ticker = ''INFY.NS'', pi_score_date = 100, pi_total_score = Some 7,
       pi_sector = Some ''Technology'', pi_market_cap = Some 300000000000, pi_avg_volume = Some 50000\<rparr>],
     wh_analysis = [\<lparr>an_ticker = ''INFY.NS'', an_analysis_date = 100, an_sharpe_ratio = Some 1, an_annualized_return_pct = Some 10,
       an_sma_50_signal = Some ''Buy'', an_sma_200_signal = None, an_rsi_signal = None, an_macd_signal_text = None\<rparr>],
     wh_sentiment = [\<lparr>sn_ticker = ''INFY.NS'', sn_score_date = 100, sn_avg_score = Some (1 / 2)\<rparr>],
     wh_forecasts = [\<lparr>fo_ticker = ''INFY.NS'', fo_run_date = 100, fo_target_3m_pct_change = Some 5, fo_mape = Some 10,
       fo_mae = Some 20, fo_rmse = Some 30\<rparr>],
     wh_ohlcv = [\<lparr>oh_ticker = ''INFY.NS'', oh_date = 100, oh_close = Some 1500\<rparr>]\<rparr>"

definition demo_gap :: gap_env where
  "demo_gap = \<lparr>ge_holdings = (\<lambda>u. [\<lparr>ho_ticker = ''INFY.NS'', ho_quantity = 10, ho_market = ''india'', ho_invested = 14000\<rparr>]),
     ge_company = (\<lambda>ts. None), ge_nifty50 = [''INFY.NS''], ge_watchlist = (\<lambda>u. []),
     ge_correlations = (\<lambda>ts. None), ge_nan_order = (\<lambda>ks. [0..<length ks])\<rparr>"

text \<open>The model answers with a given JSON value, or not at all.\<close>

definition demo_llm :: "json option \<Rightarrow> llm_env" where
  "demo_llm reply = \<lparr>le_dumps = (\<lambda>c. ''{}''), le_invoke = (\<lambda>m. map_option (\<lambda>_. ''{}'') reply), le_last_provider = ''groq'',
     le_loads = (\<lambda>s. reply)\<rparr>"

definition demo_env :: "json option \<Rightarrow> datetime \<Rightarrow> string \<Rightarrow> reco_env" where
  "demo_env reply now rid = \<lparr>xe_warehouse = demo_warehouse, xe_gap = demo_gap, xe_llm = demo_llm reply, xe_today = 101,
     xe_time = 0, xe_lookup_ok = True, xe_lookup_now = now, xe_insert_now = now, xe_run_id = rid,
     xe_rec_ids = (\<lambda>i. rid @ ''/'' @ replicate i CHR ''r'')\<rparr>"

definition demo_instant :: "nat \<Rightarrow> nat \<Rightarrow> datetime" where
  "demo_instant m d = \<lparr>dt_date = \<lparr>yr = 2026, mon = m, dy = d\<rparr>, dt_us = 36000000000\<rparr>"

definition demo_rec :: "string \<Rightarrow> json_dict" where
  "demo_rec category = [(''ticker'', JStr ''INFY.NS''), (''tier'', JStr ''portfolio''), (''category'', JStr category),
     (''action'', JStr ''hold''), (''severity'', JStr ''low''), (''rationale'', JStr ''steady'')]"

definition demo_reply :: "string \<Rightarrow> json" where
  "demo_reply category = JObj [(''recommendations'', JList [JObj (demo_rec category)]),
     (''health_score'', JNum 60), (''health_label'', JStr ''healthy'')]"

definition empty_reco_world :: reco_world where
  "empty_reco_world = \<lparr>rw_db = empty_reco_db, rw_cache = []\<rparr>"

section \<open>One run per month\<close>

text \<open>
  C30: in every state reachable from a database without runs, by any sequence of calls of the routes, the scheduled
  job, the chat tool and the command line without its force flag, of administration, outcome tracking and
  clean-up, with a clock that does not go back, lookups that do not fail and promotions in the month of the
  test run, a user has at most one run that is not a test per scope and calendar month.
\<close>

theorem one_run_per_month:
  assumes "reco_step\<^sup>*\<^sup>* (t0, w0) (t, w)" "rd_runs (rw_db w0) = []" "valid_time t0"
  shows "length (filter (\<lambda>r. rr_user_id r = u \<and> rr_scope r = s \<and> rr_run_type r \<noteq> ADMIN_TEST \<and>
      month_of (rr_created_at r) = m) (rd_runs (rw_db w))) \<le> 1"
  using reachable_inv [OF assms] monthly_uniqueD [of "rw_db w" u s m]
  by (simp add: monthly_inv_def run_of_month_def [abs_def])

definition demo_reco :: reco_world where
  "demo_reco = snd (get_or_create_monthly_run (demo_env (Some (demo_reply ''value'')) (demo_instant 4 10) ''r1'')
     ''u1'' ''india'' ''manual'' False empty_reco_world)"

lemma demo_step: "reco_step (demo_instant 4 1, empty_reco_world) (demo_instant 4 10, demo_reco)"
proof -
  let ?X = "demo_env (Some (demo_reply ''value'')) (demo_instant 4 10) ''r1''"
  have "call_after (demo_instant 4 1) ?X" "xe_lookup_ok ?X" by code_simp+
  from reco_step.monthly [OF this, of empty_reco_world "''u1''" "''india''" "''manual''"]
  show ?thesis unfolding demo_reco_def by (simp add: demo_env_def)
qed

lemma demo_month: "month_of (demo_instant 4 d) = (2026, 4)"
  by (simp add: month_of_def demo_instant_def)

lemma demo_reco_runs: "map (\<lambda>r. (rr_run_id r, rr_user_id r, rr_scope r, rr_run_type r)) (rd_runs (rw_db demo_reco)) =
    [(''r1'', ''u1'', ''india'', ''manual'')]"
  by code_simp

theorem one_run_per_month_witness:
  "length (filter (\<lambda>r. rr_user_id r = ''u1'' \<and> rr_scope r = ''india'' \<and> rr_run_type r \<noteq> ADMIN_TEST \<and>
      month_of (rr_created_at r) = (2026, 4)) (rd_runs (rw_db demo_reco))) \<le> 1 \<and> rd_runs (rw_db demo_reco) \<noteq> []"
proof
  have "valid_time (demo_instant 4 1)" by code_simp
  moreover have "rd_runs (rw_db empty_reco_world) = []" by (simp add: empty_reco_world_def empty_reco_db_def)
  ultimately show "length (filter (\<lambda>r. rr_user_id r = ''u1'' \<and> rr_scope r = ''india'' \<and> rr_run_type r \<noteq> ADMIN_TEST \<and>
      month_of (rr_created_at r) = (2026, 4)) (rd_runs (rw_db demo_reco))) \<le> 1"
    using one_run_per_month [OF r_into_rtranclp [of reco_step, OF demo_step]] by blast
  show "rd_runs (rw_db demo_reco) \<noteq> []" using demo_reco_runs by auto
qed

section \<open>The gates agree\<close>

text \<open>
  The quota check of the command line and the lookup of the consolidator agree: the quota admits a run
  exactly when the lookup finds none to return, names the run the lookup returns, and both give the same
  reset.
\<close>

theorem quota_agrees_with_lookup:
  assumes "dated (xe_lookup_now X) db" "monthly_unique db" "s \<in> {''india'', ''us''}"
  shows "(qr_allowed (check_recommendation_quota True (xe_lookup_now X) u s db) \<longleftrightarrow> fetch_cached X u s db = None) \<and>
    (qr_latest_run_id (check_recommendation_quota True (xe_lookup_now X) u s db) = Option.bind (fetch_cached X u s db) rp_run_id) \<and>
    (\<forall>r. fetch_cached X u s db = Some r \<longrightarrow>
      rp_reset_at r = qr_reset_at (check_recommendation_quota True (xe_lookup_now X) u s db))"
proof (intro conjI)
  have s: "s \<noteq> ''all''" using assms(3) by auto
  show "qr_allowed (check_recommendation_quota True (xe_lookup_now X) u s db) \<longleftrightarrow> fetch_cached X u s db = None"
    using quota_allowed [OF assms(1)] lookup_finds_nothing [OF assms(1) s] by simp
  show "\<forall>r. fetch_cached X u s db = Some r \<longrightarrow>
      rp_reset_at r = qr_reset_at (check_recommendation_quota True (xe_lookup_now X) u s db)"
    by (auto simp: fetch_cached_def check_recommendation_quota_def Let_def split: option.splits if_splits)
  let ?runs = "monthly_runs (xe_lookup_now X) u s db"
  have runs: "?runs = filter (run_of_month u s (month_of (xe_lookup_now X))) (rd_runs db)"
    by (rule monthly_runs_eq [OF assms(1)])
  show "qr_latest_run_id (check_recommendation_quota True (xe_lookup_now X) u s db) = Option.bind (fetch_cached X u s db) rp_run_id"
  proof (cases "fetch_cached X u s db")
    case None
    then have "?runs = []" using lookup_finds_nothing [OF assms(1) s] by (simp add: runs filter_empty_conv)
    then show ?thesis using None by (simp add: check_recommendation_quota_def Let_def)
  next
    case (Some r)
    then obtain l where l: "get_latest_recommendation_run u s True db = Some l" "rp_run_id r = Some (rr_run_id l)"
        "\<not> utc_of_ist (rr_created_at l) < utc_of_ist (current_month_start_ist (xe_lookup_now X))"
      by (auto simp: fetch_cached_def split: option.splits if_splits)
    have "l \<in> set ?runs"
      using latest_run(1) [OF l(1)] l(3) s by (auto simp: monthly_runs_def user_runs_def)
    moreover have "length ?runs \<le> 1" using monthly_uniqueD [OF assms(2)] by (simp add: runs)
    ultimately have "?runs = [l]" by (cases ?runs) auto
    then show ?thesis using Some l(2) by (simp add: check_recommendation_quota_def Let_def)
  qed
qed

theorem quota_agrees_with_lookup_witness:
  "\<not> qr_allowed (check_recommendation_quota True (demo_instant 4 20) ''u1'' ''india'' (rw_db demo_reco)) \<and>
   qr_latest_run_id (check_recommendation_quota True (demo_instant 4 20) ''u1'' ''india'' (rw_db demo_reco)) = Some ''r1''"
proof -
  let ?X = "demo_env None (demo_instant 4 20) ''r2''"
  have inv: "monthly_inv (demo_instant 4 10, demo_reco)"
    by (rule reachable_inv [OF r_into_rtranclp [of reco_step, OF demo_step]])
      (simp add: empty_reco_world_def empty_reco_db_def, code_simp)
  have later: "valid_time (demo_instant 4 20)" "instant (demo_instant 4 10) \<le> instant (demo_instant 4 20)" by code_simp+
  have "dated (xe_lookup_now ?X) (rw_db demo_reco)" "monthly_unique (rw_db demo_reco)"
    using inv dated_later later by (auto simp: monthly_inv_def demo_env_def)
  note * = quota_agrees_with_lookup [OF this, of "''india''" "''u1''"]
  have "map_option rp_run_id (fetch_cached ?X ''u1'' ''india'' (rw_db demo_reco)) = Some (Some ''r1'')" by code_simp
  then show ?thesis using * by (auto simp: demo_env_def)
qed

section \<open>Promotion in another month\<close>

lemma two_in_filter: "x \<in> set xs \<Longrightarrow> y \<in> set xs \<Longrightarrow> x \<noteq> y \<Longrightarrow> P x \<Longrightarrow> P y \<Longrightarrow> 2 \<le> length (filter P xs)"
proof -
  assume *: "x \<in> set xs" "y \<in> set xs" "x \<noteq> y" "P x" "P y"
  then have "card {x, y} \<le> card (set (filter P xs))" by (intro card_mono) auto
  then show ?thesis using * card_length [of "filter P xs"] by simp
qed

text \<open>
  Promoting a test run in a later month than its own deletes the runs of the current month, which it does not
  replace, and leaves the run of its own month in place: that month then has two runs that are not tests and the
  current month none.
\<close>

theorem promotion_misses_month:
  assumes "find (\<lambda>r. rr_run_id r = i) (rd_runs (rw_db w)) = Some row" "rr_run_type row = ADMIN_TEST"
    and "old \<in> set (rd_runs (rw_db w))" "run_of_month (rr_user_id row) (rr_scope row) (month_of (rr_created_at row)) old"
    and "month_of (rr_created_at row) \<noteq> month_of now" "dated now (rw_db w)" "distinct (map rr_run_id (rd_runs (rw_db w)))"
  shows "2 \<le> length (filter (run_of_month (rr_user_id row) (rr_scope row) (month_of (rr_created_at row)))
      (rd_runs (rw_db (snd (admin_promote now i w)))))"
    and "filter (run_of_month (rr_user_id row) (rr_scope row) (month_of now)) (rd_runs (rw_db (snd (admin_promote now i w)))) = []"
proof -
  obtain ids w' where ok: "admin_promote now i w = (Inr ids, w')"
    using assms(1,2) by (auto simp: admin_promote_def Let_def)
  obtain row' where row': "find (\<lambda>r. rr_run_id r = i) (rd_runs (rw_db w)) = Some row'" "row' \<in> set (rd_runs (rw_db w))" "rr_run_id row' = i"
    and ids: "ids = map rr_run_id (filter (\<lambda>r. rr_run_id r \<noteq> i) (monthly_runs now (rr_user_id row') (rr_scope row') (rw_db w)))"
    and runs: "rd_runs (rw_db w') = map (\<lambda>r. if rr_run_id r = i then r\<lparr>rr_run_type := ''admin''\<rparr> else r)
        (filter (\<lambda>r. rr_run_id r \<notin> set ids) (rd_runs (rw_db w)))"
    by (rule promote_runs [OF ok])
  have eq: "row' = row" using row'(1) assms(1) by simp
  note row = row' [unfolded eq] and ids = ids [unfolded eq]
  have inj: "r \<in> set (rd_runs (rw_db w)) \<Longrightarrow> q \<in> set (rd_runs (rw_db w)) \<Longrightarrow> rr_run_id r = rr_run_id q \<Longrightarrow> r = q" for r q
    using assms(7) by (auto simp: distinct_map dest: inj_onD)
  have in_ids: "r \<in> set (rd_runs (rw_db w)) \<Longrightarrow> rr_run_id r \<in> set ids \<longleftrightarrow>
      rr_run_id r \<noteq> i \<and> run_of_month (rr_user_id row) (rr_scope row) (month_of now) r" for r
    using inj by (auto simp: ids monthly_runs_eq [OF assms(6)])
  have old: "rr_run_id old \<noteq> i" "rr_run_id old \<notin> set ids"
    using inj [OF assms(3) row(2)] row(3) assms(2-5) in_ids [OF assms(3)] by (auto simp: run_of_month_def)
  have "old \<in> set (rd_runs (rw_db w'))" "row\<lparr>rr_run_type := ''admin''\<rparr> \<in> set (rd_runs (rw_db w'))"
    using old assms(3) row in_ids [OF row(2)] unfolding runs set_map set_filter by force+
  moreover have "run_of_month (rr_user_id row) (rr_scope row) (month_of (rr_created_at row)) (row\<lparr>rr_run_type := ''admin''\<rparr>)"
    by (simp add: run_of_month_def ADMIN_TEST_def)
  moreover have "old \<noteq> row\<lparr>rr_run_type := ''admin''\<rparr>" using old(1) row(3) by auto
  ultimately show "2 \<le> length (filter (run_of_month (rr_user_id row) (rr_scope row) (month_of (rr_created_at row)))
      (rd_runs (rw_db (snd (admin_promote now i w)))))"
    using assms(4) two_in_filter ok by fastforce
  show "filter (run_of_month (rr_user_id row) (rr_scope row) (month_of now)) (rd_runs (rw_db (snd (admin_promote now i w)))) = []"
  proof -
    have "\<not> run_of_month (rr_user_id row) (rr_scope row) (month_of now) (if rr_run_id r = i then r\<lparr>rr_run_type := ''admin''\<rparr> else r)"
      if "r \<in> set (rd_runs (rw_db w))" "rr_run_id r \<notin> set ids" for r
    proof (cases "rr_run_id r = i")
      case True
      then have "r = row" using inj [OF that(1) row(2)] row(3) by simp
      then show ?thesis using assms(5) by (auto simp: run_of_month_def)
    next
      case False
      then show ?thesis using in_ids that by simp
    qed
    then show ?thesis unfolding ok snd_conv runs filter_empty_conv set_map set_filter by blast
  qed
qed

definition demo_run :: "string \<Rightarrow> string \<Rightarrow> datetime \<Rightarrow> rec_run" where
  "demo_run i typ created =
     \<lparr>rr_run_id = i, rr_user_id = ''u1'', rr_run_date = 101, rr_run_type = typ, rr_scope = ''india'',
      rr_portfolio_snapshot = \<lparr>pf_total_holdings = 1, pf_total_value = 1, pf_sector_weights = [], pf_cap_distribution = [],
        pf_concentration_risks = [], pf_correlation_alerts = [], pf_nifty50_overlap = None\<rparr>,
      rr_health_score = 50, rr_health_label = ''needs_attention'', rr_health_assessment = None, rr_candidates_scanned = 1,
      rr_candidates_passed = 1, rr_llm_model = ''groq'', rr_llm_tokens_used = 0, rr_created_at = created\<rparr>"

theorem promotion_misses_month_witness:
  fixes w defines "w \<equiv> \<lparr>rw_db = \<lparr>rd_runs = [demo_run ''march'' ''manual'' (demo_instant 3 5), demo_run ''test'' ADMIN_TEST (demo_instant 3 20),
      demo_run ''april'' ''manual'' (demo_instant 4 2)], rd_recs = [], rd_outcomes = []\<rparr>, rw_cache = []\<rparr>"
  shows "2 \<le> length (filter (run_of_month ''u1'' ''india'' (2026, 3)) (rd_runs (rw_db (snd (admin_promote (demo_instant 4 10) ''test'' w))))) \<and>
    filter (run_of_month ''u1'' ''india'' (2026, 4)) (rd_runs (rw_db w)) \<noteq> [] \<and>
    filter (run_of_month ''u1'' ''india'' (2026, 4)) (rd_runs (rw_db (snd (admin_promote (demo_instant 4 10) ''test'' w)))) = []"
proof -
  have "find (\<lambda>r. rr_run_id r = ''test'') (rd_runs (rw_db w)) = Some (demo_run ''test'' ADMIN_TEST (demo_instant 3 20))"
    "demo_run ''march'' ''manual'' (demo_instant 3 5) \<in> set (rd_runs (rw_db w))"
    "distinct (map rr_run_id (rd_runs (rw_db w)))"
    by (simp_all add: w_def demo_run_def)
  moreover have "run_of_month ''u1'' ''india'' (2026, 3) (demo_run ''march'' ''manual'' (demo_instant 3 5))"
    "filter (run_of_month ''u1'' ''india'' (2026, 4)) (rd_runs (rw_db w)) \<noteq> []"
    by (simp_all add: w_def demo_run_def run_of_month_def month_of_def demo_instant_def ADMIN_TEST_def)
  moreover have "dated (demo_instant 4 10) (rw_db w)"
    unfolding w_def by code_simp
  moreover have "month_of (demo_instant 3 20) = (2026, 3)" "month_of (demo_instant 4 10) = (2026, 4)"
    by (simp_all add: month_of_def demo_instant_def)
  ultimately show ?thesis
    using promotion_misses_month [of "''test''" w "demo_run ''test'' ADMIN_TEST (demo_instant 3 20)"
        "demo_run ''march'' ''manual'' (demo_instant 3 5)" "demo_instant 4 10"]
    by (simp add: demo_run_def)
qed

section \<open>A failed insertion uses up the month\<close>

lemma persist_failed_recs: "persist_run u ty run rows db = (Inl e, db') \<Longrightarrow> rd_recs db' = rd_recs db"
  by (auto simp: persist_run_def insert_recommendation_run_def insert_recommendations_def Let_def
      split: option.splits sum.splits if_splits)

lemma generate_failed_recs: "generate_run X u s ty w = (Inl e, w') \<Longrightarrow> rd_recs (rw_db w') = rd_recs (rw_db w)"
  by (auto simp: generate_run_def Let_def split: prod.splits sum.splits if_splits dest: persist_failed_recs)

text \<open>
  When the insertion of the recommendations fails after the run was committed, the call raises, but the
  run stays: for the rest of the month every later call for this user and scope answers with that run and an empty
  list of recommendations, and generates nothing.
\<close>

theorem failed_insert_fills_month:
  assumes failed: "get_or_create_monthly_run X u s ty False w = (Inl e, w1)" "rd_runs (rw_db w1) \<noteq> rd_runs (rw_db w)"
    and world: "reco_wf (rw_db w)" "dated t (rw_db w)" "call_after t X" "xe_lookup_ok X" "ty \<noteq> ADMIN_TEST"
    and later: "xe_lookup_ok Y" "valid_time (xe_lookup_now Y)" "instant (xe_insert_now X) \<le> instant (xe_lookup_now Y)"
      "month_of (xe_insert_now X) = month_of (xe_lookup_now Y)"
  shows "\<exists>r. get_or_create_monthly_run Y u s ty' False w1 = (Inr r, w1) \<and> rp_run_id r = Some (xe_run_id X) \<and>
    rp_was_cached r \<and> rp_recommendations r = []"
proof -
  obtain r where r: "new_run X u s ty r" "rd_runs (rw_db w1) = rd_runs (rw_db w) @ [r]"
      "xe_run_id X \<notin> set (map rr_run_id (rd_runs (rw_db w)))" "s \<in> {''india'', ''us''}" "fetch_cached X u s (rw_db w) = None"
    using get_or_create_runs [OF failed(1)] failed(2) world(4) by auto
  have s: "s \<noteq> ''all''" using r(4) by auto
  have gen: "generate_run X u s ty w = (Inl e, w1)"
    using failed r(4,5) by (auto simp: get_or_create_monthly_run_def split: if_splits)
  have dX: "dated (xe_lookup_now X) (rw_db w)" and iX: "valid_time (xe_insert_now X)" "instant (xe_lookup_now X) \<le> instant (xe_insert_now X)"
    using world(2,3) by (auto simp: dated_def call_after_def)
  have dY: "dated (xe_lookup_now Y) (rw_db w1)"
    using dX iX later r(1,2) by (auto simp: dated_def new_run_def)
  let ?m = "month_of (xe_lookup_now Y)"
  have only: "q = r" if "q \<in> set (rd_runs (rw_db w1))" "run_of_month u s ?m q" for q
  proof (rule ccontr)
    assume "q \<noteq> r"
    then have q: "q \<in> set (rd_runs (rw_db w))" using that r(2) by simp
    have "month_of (xe_lookup_now X) = month_of (xe_insert_now X)"
      using dX iX q that(2) later(4)
      by - (rule month_between [of "rr_created_at q"], auto simp: dated_def run_of_month_def)
    then show False
      using lookup_finds_nothing [OF dX s, of u] r(5) q that(2) later(4) by simp
  qed
  have new: "run_of_month u s ?m r"
    using r(1) world(5) later(4) by (simp add: run_of_month_def new_run_def)
  then have "fetch_cached Y u s (rw_db w1) \<noteq> None"
    using lookup_finds_nothing [OF dY s, of u] r(2) by auto
  then obtain l where l: "get_latest_recommendation_run u s True (rw_db w1) = Some l"
      "\<not> utc_of_ist (rr_created_at l) < utc_of_ist (current_month_start_ist (xe_lookup_now Y))"
    by (auto simp: fetch_cached_def split: option.splits if_splits)
  have mem: "l \<in> set (rd_runs (rw_db w1))" "rr_user_id l = u" "rr_scope l = s" "rr_run_type l \<noteq> ADMIN_TEST"
    using latest_run(1) [OF l(1)] s by (auto simp: user_runs_def)
  have "month_of (rr_created_at l) = ?m"
    using since_month_start [of "rr_created_at l" "xe_lookup_now Y"] dY mem(1) l(2) by (auto simp: dated_def)
  then have lr: "l = r" using only mem by (simp add: run_of_month_def)
  have "rc_run_id c \<noteq> xe_run_id X" if "c \<in> set (rd_recs (rw_db w))" for c
  proof -
    have "rc_run_id c \<in> rr_run_id ` set (rd_runs (rw_db w))"
      using world(1) that unfolding reco_wf_def by blast
    then show ?thesis using r(3) by auto
  qed
  then have "filter (\<lambda>c. rc_run_id c = xe_run_id X) (rd_recs (rw_db w1)) = []"
    unfolding generate_failed_recs [OF gen] filter_empty_conv by blast
  then have none: "get_recommendations_for_run (xe_run_id X) (rw_db w1) = []"
    by (simp add: get_recommendations_for_run_def)
  obtain c where c: "fetch_cached Y u s (rw_db w1) = Some c" "rp_run_id c = Some (xe_run_id X)" "rp_was_cached c" "rp_recommendations c = []"
    using l r(1) none by (simp add: fetch_cached_def lr new_run_def)
  then show ?thesis using r(4) later(1) by (simp add: get_or_create_monthly_run_def)
qed

text \<open>A category of 27 characters, which the prompt allows, does not fit its column of 25.\<close>

theorem failed_insert_fills_month_witness:
  fixes X Y w1 defines "X \<equiv> demo_env (Some (demo_reply ''diversification_opportunity'')) (demo_instant 4 10) ''r1''"
    and "w1 \<equiv> snd (get_or_create_monthly_run X ''u1'' ''india'' ''manual'' False empty_reco_world)"
    and "Y \<equiv> demo_env (Some (demo_reply ''value'')) (demo_instant 4 20) ''r2''"
  shows "\<exists>r. get_or_create_monthly_run Y ''u1'' ''india'' ''manual'' False w1 = (Inr r, w1) \<and> rp_run_id r = Some ''r1'' \<and>
    rp_was_cached r \<and> rp_recommendations r = []"
proof -
  have "get_or_create_monthly_run X ''u1'' ''india'' ''manual'' False empty_reco_world = (Inl DataError, w1)"
  proof -
    have "fst (get_or_create_monthly_run X ''u1'' ''india'' ''manual'' False empty_reco_world) = Inl DataError"
      unfolding X_def by code_simp
    then show ?thesis unfolding w1_def by (metis prod.collapse)
  qed
  moreover have "rd_runs (rw_db w1) \<noteq> rd_runs (rw_db empty_reco_world)" unfolding w1_def X_def by code_simp
  moreover have "reco_wf (rw_db empty_reco_world)" "dated (demo_instant 4 1) (rw_db empty_reco_world)"
    "call_after (demo_instant 4 1) X" "xe_lookup_ok X" "''manual'' \<noteq> ADMIN_TEST" "xe_lookup_ok Y" "valid_time (xe_lookup_now Y)"
    "instant (xe_insert_now X) \<le> instant (xe_lookup_now Y)" "month_of (xe_insert_now X) = month_of (xe_lookup_now Y)"
    unfolding X_def Y_def by code_simp+
  moreover have "xe_run_id X = ''r1''" by (simp add: X_def demo_env_def)
  ultimately show ?thesis using failed_insert_fills_month [of X "''u1''" "''india''" "''manual''" empty_reco_world] by metis
qed

end
