(* ===== verification/Reco_Quality.thy ===== *)
theory Reco_Quality
  imports Reco_Claims
begin

text \<open>
  Scores, candidates and tickers: the range of the composite score and of the health score, the
  effect of missing data, the weights and the ranking of the gap analysis, and what the validation of the
  model's reply lets through.
\<close>

section \<open>The composite score\<close>

text \<open>A cell that is \<open>None\<close> or a number of a range.\<close>

definition in_range :: "rat \<Rightarrow> rat \<Rightarrow> pyfloat option \<Rightarrow> bool" where
  "in_range lo hi v \<longleftrightarrow> (case v of None \<Rightarrow> True | Some Nan \<Rightarrow> False | Some (Fin x) \<Rightarrow> lo \<le> x \<and> x \<le> hi)"

lemma in_range_num_or:
  assumes "in_range lo hi v" "lo \<le> 0" "0 \<le> hi"
  obtains x where "num_or v (Fin 0) = Fin x" "lo \<le> x" "x \<le> hi"
  using assms by (cases v) (auto simp: in_range_def split: pyfloat.splits)

text \<open>The parts of the score that do not depend on the Sharpe ratio.\<close>

lemma composite_parts:
  assumes "in_range 0 9 (sr_piotroski row)" "in_range (- 1) 1 (sr_sentiment row)"
  obtains a c d e f where
    "0 \<le> a" "a \<le> 100" "0 \<le> c" "c \<le> 100" "0 \<le> d" "d \<le> 100" "0 \<le> e" "e \<le> 100" "0 \<le> f" "f \<le> 100"
    "\<And>sharpe. \<exists>b. norm_score (num_or sharpe (Fin 0)) SHARPE_MIN SHARPE_MAX = Fin b \<and> 0 \<le> b \<and> b \<le> 100 \<and>
       compute_composite_score (row\<lparr>sr_sharpe_ratio := sharpe\<rparr>) = Fin (round_to 2
         (W_PIOTROSKI * a + W_SHARPE * b + W_MOMENTUM * c + W_FORECAST * d + W_SENTIMENT * e + W_TECHNICAL * f))"
proof -
  obtain p where p: "num_or (sr_piotroski row) (Fin 0) = Fin p" "0 \<le> p" "p \<le> 9"
    using assms(1) by (rule in_range_num_or) simp_all
  obtain s where s: "num_or (sr_sentiment row) (Fin 0) = Fin s" "- 1 \<le> s" "s \<le> 1"
    using assms(2) by (rule in_range_num_or) simp_all
  obtain c where c: "norm_score (num_or (sr_annualized_return_pct row) (Fin 0)) RETURN_MIN RETURN_MAX = Fin c" "0 \<le> c" "c \<le> 100"
    by (rule norm_score_bounds [of RETURN_MIN RETURN_MAX]) (simp add: score_consts)
  obtain d where d: "norm_score (num_or (sr_target_3m_pct_change row) (Fin 0) *
      accuracy_factor (sr_mape row) (sr_mae row) (sr_rmse row) (sr_current_price row)) FORECAST_MIN FORECAST_MAX = Fin d"
      "0 \<le> d" "d \<le> 100"
    by (rule norm_score_bounds [of FORECAST_MIN FORECAST_MAX]) (simp add: score_consts)
  let ?f = "of_nat (bullish_signals row) / 4 * 100 :: rat"
  show thesis
  proof (rule that [of "p / 9 * 100" c d "(s + 1) / 2 * 100" ?f])
    have "(of_nat (bullish_signals row) :: rat) \<le> 4"
      using bullish_signals_bound [of row] by (metis of_nat_le_iff of_nat_numeral)
    then show "?f \<le> 100" by simp
    fix sharpe
    obtain b where b: "norm_score (num_or sharpe (Fin 0)) SHARPE_MIN SHARPE_MAX = Fin b" "0 \<le> b" "b \<le> 100"
      by (rule norm_score_bounds [of SHARPE_MIN SHARPE_MAX]) (simp add: score_consts)
    have "bullish_signals (row\<lparr>sr_sharpe_ratio := sharpe\<rparr>) = bullish_signals row"
      by (simp add: bullish_signals_def)
    then show "\<exists>b. norm_score (num_or sharpe (Fin 0)) SHARPE_MIN SHARPE_MAX = Fin b \<and> 0 \<le> b \<and> b \<le> 100 \<and>
       compute_composite_score (row\<lparr>sr_sharpe_ratio := sharpe\<rparr>) = Fin (round_to 2
         (W_PIOTROSKI * (p / 9 * 100) + W_SHARPE * b + W_MOMENTUM * c + W_FORECAST * d +
          W_SENTIMENT * ((s + 1) / 2 * 100) + W_TECHNICAL * ?f))"
      using b by (intro exI [of _ b]) (simp add: compute_composite_score_def Let_def p s c d)
  qed (use p s c d in simp_all)
qed

text \<open>
  The composite score of a stock is a number from 0 to 100, whatever of the Sharpe ratio, the return, the
  forecast, its errors, the price and the signals is missing or out of range, as long as the F-score is from 0
  to 9 and the sentiment from -1 to 1.
\<close>

theorem composite_in_range:
  assumes "in_range 0 9 (sr_piotroski row)" "in_range (- 1) 1 (sr_sentiment row)"
  shows "\<exists>r. compute_composite_score row = Fin r \<and> 0 \<le> r \<and> r \<le> 100"
proof -
  obtain a c d e f where *: "0 \<le> a" "a \<le> 100" "0 \<le> c" "c \<le> 100" "0 \<le> d" "d \<le> 100" "0 \<le> e" "e \<le> 100" "0 \<le> f" "f \<le> 100"
    and comp: "\<And>sharpe. \<exists>b. norm_score (num_or sharpe (Fin 0)) SHARPE_MIN SHARPE_MAX = Fin b \<and> 0 \<le> b \<and> b \<le> 100 \<and>
       compute_composite_score (row\<lparr>sr_sharpe_ratio := sharpe\<rparr>) = Fin (round_to 2
         (W_PIOTROSKI * a + W_SHARPE * b + W_MOMENTUM * c + W_FORECAST * d + W_SENTIMENT * e + W_TECHNICAL * f))"
    using composite_parts [OF assms] by blast
  obtain b where b: "0 \<le> b" "b \<le> 100" "compute_composite_score row = Fin (round_to 2
      (W_PIOTROSKI * a + W_SHARPE * b + W_MOMENTUM * c + W_FORECAST * d + W_SENTIMENT * e + W_TECHNICAL * f))"
    using comp [of "sr_sharpe_ratio row"] by auto
  then show ?thesis using weighted_bounds [OF *(1,2) b(1,2) *(3-10)] by auto
qed

definition demo_row :: "pyfloat option \<Rightarrow> score_row" where
  "demo_row sharpe = \<lparr>sr_ticker = ''INFY.NS'', sr_piotroski = Some (Fin 7), sr_sector = Missing, sr_market_cap = Nan,
     sr_sharpe_ratio = sharpe, sr_annualized_return_pct = Some Nan, sr_sma_50_signal = None, sr_sma_200_signal = None,
     sr_rsi_signal = None, sr_macd_signal_text = None, sr_target_3m_pct_change = Some Nan, sr_mape = Some Nan,
     sr_mae = None, sr_rmse = None, sr_sentiment = Some (Fin (1 / 2)), sr_current_price = Some Nan\<rparr>"

theorem composite_in_range_witness:
  "\<exists>r. compute_composite_score (demo_row (Some Nan)) = Fin r \<and> 0 \<le> r \<and> r \<le> 100"
  by (rule composite_in_range) (simp_all add: demo_row_def in_range_def)

text \<open>
  A stock whose Sharpe ratio is missing from the database is scored as well as the best ratio there is: no
  value of the ratio gives a better score. (The code means to count a missing ratio as zero.)
\<close>

theorem missing_sharpe_scores_best:
  assumes "in_range 0 9 (sr_piotroski row)" "in_range (- 1) 1 (sr_sentiment row)"
  shows "compute_composite_score (row\<lparr>sr_sharpe_ratio := sharpe\<rparr>) \<le> compute_composite_score (row\<lparr>sr_sharpe_ratio := Some Nan\<rparr>)"
proof -
  obtain a c d e f where "0 \<le> a" "a \<le> 100" "0 \<le> c" "c \<le> 100" "0 \<le> d" "d \<le> 100" "0 \<le> e" "e \<le> 100" "0 \<le> f" "f \<le> 100"
    and comp: "\<And>sharpe. \<exists>b. norm_score (num_or sharpe (Fin 0)) SHARPE_MIN SHARPE_MAX = Fin b \<and> 0 \<le> b \<and> b \<le> 100 \<and>
       compute_composite_score (row\<lparr>sr_sharpe_ratio := sharpe\<rparr>) = Fin (round_to 2
         (W_PIOTROSKI * a + W_SHARPE * b + W_MOMENTUM * c + W_FORECAST * d + W_SENTIMENT * e + W_TECHNICAL * f))"
    using composite_parts [OF assms] by blast
  obtain b where b: "b \<le> 100" "compute_composite_score (row\<lparr>sr_sharpe_ratio := sharpe\<rparr>) = Fin (round_to 2
      (W_PIOTROSKI * a + W_SHARPE * b + W_MOMENTUM * c + W_FORECAST * d + W_SENTIMENT * e + W_TECHNICAL * f))"
    using comp by blast
  have "norm_score (num_or (Some Nan) (Fin 0)) SHARPE_MIN SHARPE_MAX = Fin 100"
    by (simp add: norm_score_Nan score_consts)
  then have best: "compute_composite_score (row\<lparr>sr_sharpe_ratio := Some Nan\<rparr>) = Fin (round_to 2
      (W_PIOTROSKI * a + W_SHARPE * 100 + W_MOMENTUM * c + W_FORECAST * d + W_SENTIMENT * e + W_TECHNICAL * f))"
    using comp [of "Some Nan"] by (metis pyfloat.inject)
  have "W_SHARPE * b \<le> W_SHARPE * 100" using b(1) by (simp add: W_SHARPE_def)
  then show ?thesis unfolding b(2) best fin_arith by (intro round_to_mono) linarith
qed

theorem missing_sharpe_scores_best_witness:
  "compute_composite_score (demo_row (Some (Fin (7 / 2)))) \<le> compute_composite_score (demo_row (Some Nan))"
  using missing_sharpe_scores_best [of "demo_row None" "Some (Fin (7 / 2))"] by (simp add: demo_row_def in_range_def)

section \<open>Health\<close>

text \<open>
  The health score of every portfolio analysed is from 0 to 70 and its label is never \<open>excellent\<close>: the analysis
  does not provide the index overlap that the bonus of the score is for.
\<close>

theorem health_never_excellent:
  "0 \<le> fst (compute_health_score (s2_portfolio_summary (stage2_gap_analysis G u cands scope))) \<and>
   fst (compute_health_score (s2_portfolio_summary (stage2_gap_analysis G u cands scope))) \<le> 70 \<and>
   snd (compute_health_score (s2_portfolio_summary (stage2_gap_analysis G u cands scope))) \<in>
     {''critical'', ''needs_attention'', ''healthy''}"
proof -
  define s where "s = s2_portfolio_summary (stage2_gap_analysis G u cands scope)"
  have none: "pf_nifty50_overlap s = None" by (simp add: s_def stage2_gap_analysis_def Let_def)
  obtain x where x: "fst (compute_health_score s) = round_to 1 (max 0 (min 100 x))"
      "snd (compute_health_score s) = health_label_of (max 0 (min 100 x))" "x \<le> 70"
    using penalties_nonneg [of "pf_concentration_risks s"]
    by (simp add: compute_health_score_def Let_def none)
  have "0 \<le> fst (compute_health_score s)" by (rule health_score_bounds)
  moreover have "fst (compute_health_score s) \<le> 70"
    using round_to_bounds [of 0 "max 0 (min 100 x)" 70 1] x by simp
  moreover have "snd (compute_health_score s) \<in> {''critical'', ''needs_attention'', ''healthy''}"
    using x by (auto simp: health_label_of_def)
  ultimately show ?thesis unfolding s_def by blast
qed

section \<open>Weights and ranking\<close>

lemma sum_add_weight:
  assumes "distinct (map fst d)"
  shows "sum_list (map snd (add_weight k w d)) = sum_list (map snd d) + w" "distinct (map fst (add_weight k w d))"
proof -
  show "distinct (map fst (add_weight k w d))" using assms by (simp add: add_weight_def)
  show "sum_list (map snd (add_weight k w d)) = sum_list (map snd d) + w"
    using assms
  proof (induction d)
    case Nil
    then show ?case by (simp add: add_weight_def get_weight_def)
  next
    case (Cons x d)
    show ?case
    proof (cases "fst x = k")
      case True
      then show ?thesis by (cases x) (simp add: add_weight_def get_weight_def)
    next
      case False
      then have "add_weight k w (x # d) = x # add_weight k w d"
        by (cases x) (simp add: add_weight_def get_weight_def)
      then show ?thesis using Cons by simp
    qed
  qed
qed

lemma sum_fold_weights:
  "distinct (map fst d) \<Longrightarrow> sum_list (map snd (fold (\<lambda>h. add_weight (key h) (wt h)) hs d)) = sum_list (map snd d) + sum_list (map wt hs)"
proof (induction hs arbitrary: d)
  case (Cons h hs)
  then show ?case using sum_add_weight [OF Cons.prems, of "key h" "wt h"] by simp
qed simp

lemma weights_sum: "0 < total_value hs \<Longrightarrow> sum_list (map (weight_of (total_value hs)) hs) = 100"
proof -
  assume pos: "0 < total_value hs"
  have "sum_list (map (weight_of tv) hs) = total_value hs / tv * 100" for tv
    by (induction hs) (simp_all add: total_value_def weight_of_def add_divide_distrib distrib_right)
  then show ?thesis using pos by simp
qed

text \<open>
  For a portfolio with a value the sector weights add up to 100 per cent, and so do the weights of the
  three cap classes.
\<close>

theorem portfolio_weights_sum:
  assumes "0 < total_value hs"
  shows "sum_list (map snd (user_sectors hs)) = 100" "sum_list (map snd (cap_dist hs)) = 100"
proof -
  show "sum_list (map snd (user_sectors hs)) = 100"
    using assms sum_fold_weights [of "[]" sector_of "weight_of (total_value hs)" hs]
    by (simp add: user_sectors_def weights_sum)
  show "sum_list (map snd (cap_dist hs)) = 100"
    using assms sum_fold_weights [of "[(''largecap'', 0), (''midcap'', 0), (''smallcap'', 0)]"
        "\<lambda>h. classify_cap (eh_market_cap h)" "weight_of (total_value hs)" hs]
    by (simp add: cap_dist_def Let_def weights_sum)
qed

theorem portfolio_weights_sum_witness:
  fixes hs defines "hs \<equiv> [\<lparr>eh_ticker = ''A'', eh_sector = Str ''Tech'', eh_market_cap = Fin 1, eh_current_price = Fin 3, eh_quantity = 5\<rparr>,
     \<lparr>eh_ticker = ''B'', eh_sector = Missing, eh_market_cap = Nan, eh_current_price = Fin 7, eh_quantity = 2\<rparr>]"
  shows "length (user_sectors hs) = 2 \<and> sum_list (map snd (user_sectors hs)) = 100 \<and> sum_list (map snd (cap_dist hs)) = 100"
proof -
  have "0 < total_value hs" by (simp add: hs_def total_value_def current_value_def)
  moreover have "length (user_sectors hs) = 2" unfolding hs_def by code_simp
  ultimately show ?thesis using portfolio_weights_sum by blast
qed

definition better :: "enriched_candidate \<Rightarrow> enriched_candidate \<Rightarrow> bool" where
  "better a b \<longleftrightarrow> ec_gap_adjusted_score b \<le> ec_gap_adjusted_score a"

lemma enriched_finite: "composite_score c \<noteq> Nan \<Longrightarrow> ec_gap_adjusted_score (enrich_candidate g cg mn hs wl c) \<noteq> Nan"
  by (cases "composite_score c") (auto simp: enrich_candidate_def Let_def num_or_def)

lemma py_sort_desc_facts:
  assumes "\<forall>x \<in> set xs. key x \<noteq> Nan"
  shows "mset (py_sort_desc nan_order key xs) = mset xs" "sorted_wrt (\<lambda>a b. key b \<le> key a) (py_sort_desc nan_order key xs)"
proof -
  have eq: "py_sort_desc nan_order key xs = sort_key (\<lambda>x. - fin (key x)) xs"
    using assms by (auto simp: py_sort_desc_def)
  then show "mset (py_sort_desc nan_order key xs) = mset xs" by simp
  have "sorted (map (\<lambda>x. - fin (key x)) (py_sort_desc nan_order key xs))" by (simp add: eq)
  then have "sorted_wrt (\<lambda>a b. fin (key b) \<le> fin (key a)) (py_sort_desc nan_order key xs)"
    by (simp add: sorted_map)
  then show "sorted_wrt (\<lambda>a b. key b \<le> key a) (py_sort_desc nan_order key xs)"
  proof (rule sorted_wrt_mono_rel [rotated])
    fix a b assume "a \<in> set (py_sort_desc nan_order key xs)" "b \<in> set (py_sort_desc nan_order key xs)" "fin (key b) \<le> fin (key a)"
    then show "key b \<le> key a" using assms by (cases "key a"; cases "key b") (auto simp: eq)
  qed
qed

text \<open>
  The gap analysis returns at most 40 candidates in descending order of their gap-adjusted score. They are
  candidates of the first stage with a bonus from 0 to 20, and none that is left out has a better score than
  one that is returned.
\<close>

theorem candidates_ranked:
  fixes G :: gap_env and u scope :: string and cands :: "candidate list"
  assumes "\<forall>c \<in> set cands. composite_score c \<noteq> Nan"
  defines "out \<equiv> stage2_gap_analysis G u cands scope"
    and "tickers \<equiv> set (map ho_ticker (user_holdings G u scope))"
  shows "(length (s2_candidates out) \<le> 40) \<and>
    (\<forall>e \<in> set (s2_candidates out). 0 \<le> ec_gap_bonus e \<and> ec_gap_bonus e \<le> 20) \<and>
    (\<exists>rest. mset (s2_candidates out @ rest) = mset (map (enrich_candidate (s2_sector_gaps out) (s2_cap_gaps out)
        (set (ge_nifty50 G) - tickers) tickers (set (ge_watchlist G u))) cands) \<and> sorted_wrt better (s2_candidates out @ rest))"
proof (intro conjI)
  let ?f = "enrich_candidate (s2_sector_gaps out) (s2_cap_gaps out) (set (ge_nifty50 G) - tickers) tickers (set (ge_watchlist G u))"
  let ?ranked = "py_sort_desc (ge_nan_order G) ec_gap_adjusted_score (map ?f cands)"
  have kept: "s2_candidates out = take 40 ?ranked"
    by (simp add: out_def tickers_def stage2_gap_analysis_def Let_def TOP_CANDIDATES_def)
  have "\<forall>x \<in> set (map ?f cands). ec_gap_adjusted_score x \<noteq> Nan"
    using assms(1) by (auto simp: enriched_finite)
  note sorted = py_sort_desc_facts [OF this, of "ge_nan_order G"]
  show "length (s2_candidates out) \<le> 40" by (simp add: kept)
  have "set (s2_candidates out) \<subseteq> set (map ?f cands)"
    using sorted(1) by (metis kept set_mset_mset set_take_subset)
  then show "\<forall>e \<in> set (s2_candidates out). 0 \<le> ec_gap_bonus e \<and> ec_gap_bonus e \<le> 20"
    by (auto simp: enrich_candidate_def Let_def gap_bonus_bounds)
  have "s2_candidates out @ drop 40 ?ranked = ?ranked" by (simp add: kept)
  moreover have "sorted_wrt better ?ranked" using sorted(2) by (simp add: better_def [abs_def])
  ultimately show "\<exists>rest. mset (s2_candidates out @ rest) = mset (map ?f cands) \<and> sorted_wrt better (s2_candidates out @ rest)"
    using sorted(1) by metis
qed

theorem candidates_ranked_witness:
  "length (s2_candidates (stage2_gap_analysis demo_gap ''u1'' (stage1_candidates demo_warehouse 101 ''india'') ''india'')) \<le> 40 \<and>
   stage1_candidates demo_warehouse 101 ''india'' \<noteq> []"
proof -
  have "\<forall>c \<in> set (stage1_candidates demo_warehouse 101 ''india''). composite_score c \<noteq> Nan"
    "stage1_candidates demo_warehouse 101 ''india'' \<noteq> []" by code_simp+
  then show ?thesis using candidates_ranked(1) by blast
qed

section \<open>What the third stage lets through\<close>

lemma clean_rec_facts:
  assumes "clean_rec valid held j = Some d" "truthy (jget d ''ticker'' JNull)"
  shows "\<exists>t \<in> valid. jget d ''ticker'' JNull = JStr t \<and> (action_of d = Some ''accumulate'' \<longrightarrow> t \<in> held)"
proof -
  obtain d0 where j: "j = JObj d0" using assms(1) by (auto simp: clean_rec_def split: json.splits)
  have upd: "jget (AList.update ''action'' v d0) ''ticker'' JNull = jget d0 ''ticker'' JNull"
      "action_of (AList.update ''action'' (JStr ''buy'') d0) = Some ''buy''" for v
    by (simp_all add: jget_def action_of_def AList.update_conv' str_lower_def to_lower_def is_upper_def ord_def)
  from assms(1) show ?thesis
    using assms(2) upd
    by (auto simp: j clean_rec_def Let_def not_in_def split: if_splits json.splits)
qed

lemma fallback_recs:
  "d \<in> set (s3_recommendations (deterministic_fallback cs pas hs hl)) \<Longrightarrow>
     (\<exists>pa \<in> set pas. d = action_rec pa) \<or> (\<exists>c \<in> set cs. d = candidate_rec c)"
proof -
  have fill: "d \<in> set (fill_recs cs seen recs) \<Longrightarrow> d \<in> set recs \<or> (\<exists>c \<in> set cs. d = candidate_rec c)" for cs seen recs
    by (induction cs seen recs rule: fill_recs.induct) (auto simp: Let_def split: if_splits)
  assume "d \<in> set (s3_recommendations (deterministic_fallback cs pas hs hl))"
  then have "d \<in> action_rec ` set pas \<or> d \<in> candidate_rec ` set cs"
    by (auto simp: deterministic_fallback_def Let_def dest!: fill in_set_takeD)
  then show ?thesis by blast
qed

lemma fallback_rec_tickers:
  "jget (action_rec pa) ''ticker'' JNull = JStr (pa_ticker pa)" "jget (candidate_rec c) ''ticker'' JNull = JStr (ec_ticker c)"
  "action_of (candidate_rec c) = Some ''buy''"
  by (simp_all add: action_rec_def candidate_rec_def Let_def jget_def action_of_def str_lower_def to_lower_def is_upper_def ord_def)

text \<open>
  C31: whatever the model answers, every ticker among the recommendations of the third stage is a candidate or a
  holding of the analysis, and only holdings are to be accumulated.
\<close>

theorem only_known_tickers:
  assumes "d \<in> set (s3_recommendations (stage3_llm_reasoning L s2))" "truthy (jget d ''ticker'' JNull)"
  shows "\<exists>t \<in> valid_ticker_set s2. jget d ''ticker'' JNull = JStr t \<and>
    (action_of d = Some ''accumulate'' \<longrightarrow> t \<in> set (map pa_ticker (s2_portfolio_actions s2)))"
proof -
  obtain hs hl where h: "compute_health_score (s2_portfolio_summary s2) = (hs, hl)" by fastforce
  let ?fb = "deterministic_fallback (s2_candidates s2) (s2_portfolio_actions s2) hs hl"
  have "d \<in> set (s3_recommendations ?fb) \<or>
      (\<exists>j. clean_rec (valid_ticker_set s2) (set (map pa_ticker (s2_portfolio_actions s2))) j = Some d)"
    using assms(1)
    by (auto simp: stage3_llm_reasoning_def h Let_def repair_reply_def map_filter_def
        split: if_splits option.splits json.splits)
  then show ?thesis
  proof
    assume "d \<in> set (s3_recommendations ?fb)"
    from fallback_recs [OF this] show ?thesis
      by (auto simp: fallback_rec_tickers valid_ticker_set_def)
  next
    assume "\<exists>j. clean_rec (valid_ticker_set s2) (set (map pa_ticker (s2_portfolio_actions s2))) j = Some d"
    then show ?thesis using clean_rec_facts assms(2) by blast
  qed
qed

text \<open>
  The soft repair of a recommendation to accumulate what is not held never takes effect: the validation has
  already counted it as an error, and the whole reply is replaced by the fallback.
\<close>

theorem repair_has_no_effect:
  assumes "map_of d ''recommendations'' = Some (JList recs)" "JObj r \<in> set recs"
    and "action_of r = Some ''accumulate''" "jget r ''ticker'' JNull = JStr t" "t \<noteq> []" "t \<notin> held"
    and "\<not> sublist ''hallucinated'' t"
  shows "repair_reply (JObj d) valid held = None"
proof -
  have "\<exists>e \<in> set es. \<not> mentions_hallucinated e" if "validate_recs valid held i recs = Some es" for i es
    using that assms(2)
  proof (induction recs arbitrary: i es)
    case (Cons a recs)
    obtain es1 es2 where es: "validate_rec valid held i a = Some es1" "validate_recs valid held (i + 1) recs = Some es2" "es = es1 @ es2"
      using Cons.prems(1) by (auto split: option.splits)
    show ?case
    proof (cases "a = JObj r")
      case True
      then have "Accumulate_Not_Held i (JStr t) \<in> set es1"
        using es(1) assms(3-6) by (auto simp: validate_rec_def Let_def not_in_def split: if_splits)
      then show ?thesis
        using assms(7) es(3) by (intro bexI [of _ "Accumulate_Not_Held i (JStr t)"]) simp_all
    next
      case False
      then show ?thesis using Cons.IH [OF es(2)] Cons.prems(2) es(3) by auto
    qed
  qed simp
  note recs = this
  have "\<exists>e \<in> set es. \<not> mentions_hallucinated e" if out: "validate_llm_output d recs valid held = Some es" for es
  proof -
    obtain es1 where "validate_recs valid held 0 recs = Some es1" "set es1 \<subseteq> set es"
      using out by (auto simp: validate_llm_output_def split: option.splits)
    then show ?thesis using recs by blast
  qed
  then show ?thesis
    by (auto simp: repair_reply_def assms(1) Let_def filter_empty_conv split: option.splits)
qed

theorem only_known_tickers_witness:
  fixes s2 defines "s2 \<equiv> stage2_gap_analysis demo_gap ''u1'' (stage1_candidates demo_warehouse 101 ''india'') ''india''"
  shows "demo_rec ''value'' \<in> set (s3_recommendations (stage3_llm_reasoning (demo_llm (Some (demo_reply ''value''))) s2)) \<and>
    (\<exists>t \<in> valid_ticker_set s2. jget (demo_rec ''value'') ''ticker'' JNull = JStr t)"
proof
  show *: "demo_rec ''value'' \<in> set (s3_recommendations (stage3_llm_reasoning (demo_llm (Some (demo_reply ''value''))) s2))"
    unfolding s2_def by code_simp
  have "truthy (jget (demo_rec ''value'') ''ticker'' JNull)" by code_simp
  from only_known_tickers [OF * this]
  show "\<exists>t \<in> valid_ticker_set s2. jget (demo_rec ''value'') ''ticker'' JNull = JStr t" by blast
qed

theorem repair_has_no_effect_witness:
  fixes r d defines "r \<equiv> [(''ticker'', JStr ''TCS.NS''), (''tier'', JStr ''discovery''), (''category'', JStr ''growth''),
     (''action'', JStr ''Accumulate''), (''severity'', JStr ''low''), (''rationale'', JStr ''cheap'')]"
    and "d \<equiv> [(''recommendations'', JList [JObj (demo_rec ''value''), JObj r]), (''health_score'', JNum 60), (''health_label'', JStr ''healthy'')]"
  shows "repair_reply (JObj d) {''INFY.NS'', ''TCS.NS''} {''INFY.NS''} = None \<and>
    clean_rec {''INFY.NS'', ''TCS.NS''} {''INFY.NS''} (JObj r) \<noteq> None"
proof
  have "action_of r = Some ''accumulate''" unfolding r_def by code_simp
  moreover have "map_of d ''recommendations'' = Some (JList [JObj (demo_rec ''value''), JObj r])" by (simp add: d_def)
  moreover have "jget r ''ticker'' JNull = JStr ''TCS.NS''" by (simp add: r_def jget_def)
  moreover have "\<not> sublist ''hallucinated'' ''TCS.NS''" by code_simp
  ultimately show "repair_reply (JObj d) {''INFY.NS'', ''TCS.NS''} {''INFY.NS''} = None"
    using repair_has_no_effect [of d "[JObj (demo_rec ''value''), JObj r]" r "''TCS.NS''" "{''INFY.NS''}"] by simp
  show "clean_rec {''INFY.NS'', ''TCS.NS''} {''INFY.NS''} (JObj r) \<noteq> None" unfolding r_def by code_simp
qed

end
