(* ===== verification/Reco_Tracking.thy ===== *)
theory Reco_Tracking
  imports Reco_Claims
begin

text \<open>
  Outcome tracking: what a run of the outcome job records, which recommendations a new run ends, and
  which are never tracked at all.
\<close>

section \<open>The outcome job\<close>

lemma until_cancelled_never: "(\<And>i. \<not> cancel i) \<Longrightarrow> until_cancelled cancel i xs = (xs, False)"
  by (induction xs arbitrary: i) auto

lemma until_cancelled_subset: "until_cancelled cancel i xs = (ys, c) \<Longrightarrow> set ys \<subseteq> set xs"
  by (induction xs arbitrary: i ys c) (fastforce split: if_splits prod.splits)+

lemma outcome_of_key: "outcome_of closes today (r, days) = Some oc \<Longrightarrow> outcome_key oc = (rc_id r, days)"
  by (auto simp: outcome_of_def outcome_key_def Let_def split: option.splits if_splits)

lemma due_recs_iff:
  "(r, days) \<in> set (due_recs today db) \<longleftrightarrow> days \<in> set HORIZONS \<and> r \<in> set (rd_recs db) \<and>
     rc_status r \<in> {''active'', ''acted_on''} \<and> rc_ticker r \<noteq> None \<and> utc_day (rc_created_at r) \<le> today - days \<and>
     (rc_id r, days) \<notin> outcome_key ` set (rd_outcomes db)"
  by (auto simp: due_recs_def outcome_key_def)

lemma distinct_due:
  assumes "distinct (map rc_id (rd_recs db))"
  shows "distinct (map (\<lambda>(r, days). (rc_id r, days)) (due_recs today db))"
proof -
  have d: "distinct (map (\<lambda>r. (rc_id r, h :: int)) (filter P (rd_recs db)))" for P h
    using assms by (auto simp: distinct_map inj_on_def)
  show ?thesis
    by (simp add: due_recs_def HORIZONS_def comp_def d) auto
qed

lemma distinct_map_filter_subkeys:
  assumes "distinct (map g xs)" "\<And>x y. f x = Some y \<Longrightarrow> k y = g x"
  shows "distinct (map k (List.map_filter f xs))" "k ` set (List.map_filter f xs) \<subseteq> g ` set xs"
proof -
  show sub: "k ` set (List.map_filter f xs) \<subseteq> g ` set xs" for xs
    using assms(2) by (force simp: map_filter_def)
  show "distinct (map k (List.map_filter f xs))"
    using assms(1)
  proof (induction xs)
    case (Cons x xs)
    then show ?case using assms(2) [of x] sub [of xs] by (cases "f x") (auto simp: map_filter_simps)
  qed (simp add: map_filter_simps)
qed

lemma insert_due_outcomes:
  assumes "reco_wf db"
  shows "insert_outcomes (List.map_filter (outcome_of closes today) (due_recs today db)) db =
    (Inr (), db\<lparr>rd_outcomes := rd_outcomes db @ List.map_filter (outcome_of closes today) (due_recs today db)\<rparr>)"
proof -
  let ?new = "List.map_filter (outcome_of closes today) (due_recs today db)"
  let ?g = "\<lambda>(r, days). (rc_id r, days)"
  have ids: "distinct (map rc_id (rd_recs db))" using assms by (simp add: reco_wf_def)
  have key: "outcome_of closes today x = Some y \<Longrightarrow> outcome_key y = ?g x" for x y
    by (cases x) (simp add: outcome_of_key)
  note keys = distinct_map_filter_subkeys [OF distinct_due [OF ids, of today], of "outcome_of closes today" outcome_key, OF key]
  have "?g ` set (due_recs today db) \<inter> outcome_key ` set (rd_outcomes db) = {}"
    by (auto simp: due_recs_iff)
  then have "outcome_key ` set (rd_outcomes db) \<inter> outcome_key ` set ?new = {}" using keys(2) by blast
  then have "distinct (map outcome_key (rd_outcomes db @ ?new))"
    using assms keys(1) unfolding reco_wf_def map_append distinct_append set_map by blast
  moreover have "oc_recommendation_id ` set ?new \<subseteq> set (map rc_id (rd_recs db))"
  proof
    fix i assume "i \<in> oc_recommendation_id ` set ?new"
    then have "i \<in> fst ` outcome_key ` set ?new" by (force simp: outcome_key_def)
    then have "i \<in> fst ` ?g ` set (due_recs today db)" using keys(2) by blast
    then show "i \<in> set (map rc_id (rd_recs db))" by (auto simp: due_recs_iff)
  qed
  ultimately show ?thesis by (simp add: insert_outcomes_def)
qed

text \<open>
  C32: a run of the outcome job that is not cancelled records for every due recommendation and horizon exactly
  the outcome its prices give, once: the insertion never meets an outcome that is there, the tables stay
  well-formed, and on the same day with the same prices nothing recordable is left due.
\<close>

theorem outcomes_recorded_once:
  fixes db :: reco_db and prices :: "(string \<times> int \<times> pyfloat) list option" and today :: int and cancel :: "nat \<Rightarrow> bool"
  assumes "reco_wf db" "\<And>i. \<not> cancel i"
  defines "closes \<equiv> close_map prices today (due_recs today db)"
    and "db' \<equiv> snd (execute_run_recommendation_outcomes cancel prices today db)"
  shows "(rd_outcomes db' = rd_outcomes db @ List.map_filter (outcome_of closes today) (due_recs today db)) \<and>
    (reco_wf db') \<and>
    (fst (execute_run_recommendation_outcomes cancel prices today db) = ''success'') \<and>
    (\<forall>rd \<in> set (due_recs today db'). outcome_of closes today rd = None)"
proof (intro conjI)
  let ?new = "List.map_filter (outcome_of closes today) (due_recs today db)"
  let ?db1 = "db\<lparr>rd_outcomes := rd_outcomes db @ ?new\<rparr>"
  have run: "execute_run_recommendation_outcomes cancel prices today db = (''success'',
      if due_recs today db = [] then snd (expire_stale today db) else if ?new = [] then db else snd (expire_stale today ?db1))"
    using insert_due_outcomes [OF assms(1)]
    by (simp add: execute_run_recommendation_outcomes_def Let_def until_cancelled_never [of cancel, OF assms(2)]
        closes_def final_status_def)
  have empty: "due_recs today db = [] \<Longrightarrow> ?new = []" by (simp add: map_filter_simps)
  have stale: "rd_outcomes (snd (expire_stale today x)) = rd_outcomes x" for x
    by (simp add: expire_stale_def)
  show out: "rd_outcomes db' = rd_outcomes db @ ?new"
    using empty by (auto simp: db'_def run stale)
  have wf1: "reco_wf ?db1"
    using insert_outcomes_wf [OF assms(1), of ?new] insert_due_outcomes [OF assms(1), of closes today] by simp
  have wfs: "reco_wf x \<Longrightarrow> reco_wf (snd (expire_stale today x))" for x
    by (simp add: expire_stale_def map_recs_wf)
  show "reco_wf db'" using assms(1) wf1 wfs by (auto simp: db'_def run)
  show "fst (execute_run_recommendation_outcomes cancel prices today db) = ''success''" by (simp add: run)
  have recs: "r \<in> set (rd_recs db') \<Longrightarrow> rc_status r \<noteq> ''expired'' \<Longrightarrow> r \<in> set (rd_recs db)" for r
    by (auto simp: db'_def run expire_stale_def split: if_splits)
  show "\<forall>rd \<in> set (due_recs today db'). outcome_of closes today rd = None"
  proof (clarify, rule ccontr)
    fix r days
    assume due: "(r, days) \<in> set (due_recs today db')" and "outcome_of closes today (r, days) \<noteq> None"
    then obtain oc where oc: "outcome_of closes today (r, days) = Some oc" by auto
    have "(r, days) \<in> set (due_recs today db)"
      using due recs [of r] by (auto simp: due_recs_iff out)
    then have "oc \<in> set ?new" using oc by (force simp: map_filter_def)
    then show False using due outcome_of_key [OF oc] by (force simp: due_recs_iff out)
  qed
qed

definition demo_rec_row :: "pyfloat option \<Rightarrow> rec_row" where
  "demo_rec_row price = \<lparr>rc_id = ''c1'', rc_run_id = ''march'', rc_tier = ''portfolio'', rc_category = ''value'',
     rc_ticker = Some ''INFY.NS'', rc_action = ''buy'', rc_severity = ''low'', rc_rationale = ''steady'', rc_expected_impact = None,
     rc_data_signals = JObj [], rc_price_at_rec = price, rc_target_price = None, rc_expected_return_pct = None,
     rc_index_tags = None, rc_status = ''active'', rc_acted_on_date = None, rc_created_at = demo_instant 3 5\<rparr>"

definition demo_db :: "pyfloat option \<Rightarrow> reco_db" where
  "demo_db price = \<lparr>rd_runs = [demo_run ''march'' ''manual'' (demo_instant 3 5)], rd_recs = [demo_rec_row price], rd_outcomes = []\<rparr>"

definition demo_day :: int where "demo_day = utc_day (demo_instant 3 20)"

theorem outcomes_recorded_once_witness:
  fixes prices db defines "prices \<equiv> Some [(''INFY.NS'', utc_day (demo_instant 3 13), Fin 110)]"
    and "db \<equiv> demo_db (Some (Fin 100))"
  shows "map (\<lambda>oc. (oc_days_elapsed oc, oc_return_pct oc, oc_outcome_label oc))
     (rd_outcomes (snd (execute_run_recommendation_outcomes (\<lambda>i. False) prices demo_day db))) = [(7, Fin 10, ''correct'')]"
proof -
  have "reco_wf db" unfolding db_def by code_simp
  then have "rd_outcomes (snd (execute_run_recommendation_outcomes (\<lambda>i. False) prices demo_day db)) =
      rd_outcomes db @ List.map_filter (outcome_of (close_map prices demo_day (due_recs demo_day db)) demo_day) (due_recs demo_day db)"
    by (rule outcomes_recorded_once [THEN conjunct1]) simp
  moreover have "map (\<lambda>oc. (oc_days_elapsed oc, oc_return_pct oc, oc_outcome_label oc)) (rd_outcomes db @
      List.map_filter (outcome_of (close_map prices demo_day (due_recs demo_day db)) demo_day) (due_recs demo_day db)) = [(7, Fin 10, ''correct'')]"
    unfolding prices_def db_def by code_simp
  ultimately show ?thesis by simp
qed

section \<open>Recommendations without a price\<close>

text \<open>The price of a row comes from the reply alone: the candidates of the second stage have none.\<close>

lemma candidate_has_no_price: "jget (candidate_of cands t) ''current_price'' JNull = JNull"
  by (auto simp: candidate_of_def candidate_dict_def jget_def split: json.splits option.splits)

lemma row_price:
  assumes "rec_row_of cands rid i created d = Some row" "\<not> truthy (jget d ''price_at_rec'' JNull)"
  shows "rc_price_at_rec row = None"
  using assms
  by (auto simp: rec_row_of_def Let_def json_or_def candidate_has_no_price nullable_float_def bind_eq_Some_conv)

lemma rows_priceless:
  "rec_rows_of cands rid ids created i ds = Some rows \<Longrightarrow> \<forall>d \<in> set ds. \<not> truthy (jget d ''price_at_rec'' JNull) \<Longrightarrow>
     \<forall>row \<in> set rows. rc_price_at_rec row = None"
  by (induction ds arbitrary: i rows) (auto simp: bind_eq_Some_conv dest: row_price)

lemma fallback_priceless:
  "d \<in> set (s3_recommendations (deterministic_fallback cs pas hs hl)) \<Longrightarrow> jget d ''price_at_rec'' JNull = JNull"
proof -
  have fill: "d \<in> set (fill_recs cs seen recs) \<Longrightarrow> d \<in> set recs \<or> (\<exists>c. d = candidate_rec c)" for cs seen recs
    by (induction cs seen recs rule: fill_recs.induct) (auto simp: Let_def split: if_splits)
  assume "d \<in> set (s3_recommendations (deterministic_fallback cs pas hs hl))"
  then have "(\<exists>pa. d = action_rec pa) \<or> (\<exists>c. d = candidate_rec c)"
    by (auto simp: deterministic_fallback_def Let_def dest!: fill)
  then show ?thesis by (auto simp: action_rec_def candidate_rec_def Let_def jget_def)
qed

lemma priceless_no_outcome: "rc_price_at_rec r = None \<Longrightarrow> outcome_of closes today (r, days) = None"
  by (simp add: outcome_of_def)

lemma expired_row:
  assumes "c \<in> set (rd_recs (snd (expire_old_recommendations u rid db)))"
  shows "\<exists>c2 \<in> set (rd_recs db). rc_run_id c2 = rc_run_id c \<and> rc_price_at_rec c2 = rc_price_at_rec c"
  using assms by (auto simp: expire_old_recommendations_def Let_def split: if_splits)

text \<open>The recommendations of a new run are its rows, before and after the expiry of others.\<close>

lemma persisted_rows:
  assumes "persist_run u ty (Some run) rows db = (Inr (), db')" "reco_wf db"
  obtains rs where "rows = Some rs"
    "\<And>c. c \<in> set (rd_recs db') \<Longrightarrow> rc_run_id c = rr_run_id run \<Longrightarrow> \<exists>r \<in> set rs. rc_price_at_rec c = rc_price_at_rec r"
proof -
  let ?db1 = "db\<lparr>rd_runs := rd_runs db @ [run]\<rparr>" and ?rid = "rr_run_id run"
  have ins: "insert_recommendation_run run db = (Inr (), ?db1)" and fresh: "?rid \<notin> rr_run_id ` set (rd_runs db)"
    using assms(1) by (auto simp: persist_run_def insert_recommendation_run_def split: if_splits)
  obtain rs where rs: "rows = Some rs" using assms(1) ins by (cases rows) (auto simp: persist_run_def)
  have old: "?rid \<notin> rc_run_id ` set (rd_recs db)"
    using assms(2) fresh unfolding reco_wf_def by blast
  obtain db2 where db2: "(rs = [] \<and> db2 = ?db1) \<or> (\<exists>n. insert_recommendations ?rid rs ?db1 = (Inr n, db2))"
      "db' = (if ty \<noteq> ADMIN_TEST then snd (expire_old_recommendations u ?rid db2) else db2)"
    using assms(1) by (auto simp: persist_run_def ins rs split: if_splits sum.splits prod.splits)
  have recs: "rd_recs db2 = rd_recs db @ map (\<lambda>r. r\<lparr>rc_run_id := ?rid\<rparr>) rs"
    using db2(1) by (auto simp: insert_recommendations_def Let_def split: if_splits)
  have "\<exists>r \<in> set rs. rc_price_at_rec c = rc_price_at_rec r" if c: "c \<in> set (rd_recs db')" "rc_run_id c = ?rid" for c
  proof -
    obtain c2 where c2: "c2 \<in> set (rd_recs db2)" "rc_run_id c2 = ?rid" "rc_price_at_rec c2 = rc_price_at_rec c"
      using c expired_row [of c u ?rid db2] by (cases "ty = ADMIN_TEST") (auto simp: db2(2))
    have "c2 \<notin> set (rd_recs db)" using old c2(2) by (metis image_eqI)
    then obtain q where "q \<in> set rs" "c2 = q\<lparr>rc_run_id := ?rid\<rparr>" using c2(1) by (auto simp: recs)
    then show ?thesis using c2(3) by (intro bexI [of _ q]) simp_all
  qed
  then show thesis using that rs by blast
qed

text \<open>
  When the model does not answer, the recommendations of the fallback are stored without a price, and
  no run of the outcome job, whatever the day and the closing prices, records an outcome for one of them.
\<close>

theorem fallback_never_tracked:
  assumes run: "generate_run X u s ty w = (Inr resp, w')" "rp_run_id resp = Some rid" "reco_wf (rw_db w)"
    and no_reply: "\<And>m. le_invoke (xe_llm X) m = None"
    and c: "c \<in> set (rd_recs (rw_db w'))" "rc_run_id c = rid"
  shows "rc_price_at_rec c = None \<and> outcome_of closes today (c, days) = None"
proof -
  obtain s1 cache where s1: "stage1_prefilter (xe_warehouse X) (xe_today X) (xe_time X) s (rw_cache w) = (s1, cache)" by fastforce
  define s2 where "s2 = stage2_gap_analysis (xe_gap X) u s1 s"
  define s3 where "s3 = stage3_llm_reasoning (xe_llm X) s2"
  let ?rows = "rec_rows_of (s2_candidates s2) (xe_run_id X) (xe_rec_ids X) (xe_insert_now X) 0 (s3_recommendations s3)"
  obtain db' where p: "persist_run u ty (run_row_of X u s ty (length s1) s2 s3) ?rows (rw_db w) = (Inr (), db')"
    and w': "rw_db w' = db'" and rid: "rid = xe_run_id X"
    using run(1,2)
    by (auto simp: generate_run_def s1 Let_def s2_def [symmetric] s3_def [symmetric] no_run_def
        split: if_splits sum.splits prod.splits)
  obtain r where r: "run_row_of X u s ty (length s1) s2 s3 = Some r"
    using p by (cases "run_row_of X u s ty (length s1) s2 s3") (auto simp: persist_run_def)
  obtain rs where rs: "?rows = Some rs"
    and prices: "\<And>c. c \<in> set (rd_recs db') \<Longrightarrow> rc_run_id c = rr_run_id r \<Longrightarrow> \<exists>r \<in> set rs. rc_price_at_rec c = rc_price_at_rec r"
    using persisted_rows [OF p [unfolded r] run(3)] by blast
  have "\<not> truthy (jget d ''price_at_rec'' JNull)" if d: "d \<in> set (s3_recommendations s3)" for d
  proof -
    obtain hs hl where h: "compute_health_score (s2_portfolio_summary s2) = (hs, hl)" by fastforce
    have "d \<in> set (s3_recommendations (deterministic_fallback (s2_candidates s2) (s2_portfolio_actions s2) hs hl))"
      using d by (auto simp: s3_def stage3_llm_reasoning_def h Let_def no_reply split: if_splits)
    then show ?thesis by (simp add: fallback_priceless)
  qed
  then have "\<forall>row \<in> set rs. rc_price_at_rec row = None" using rows_priceless [OF rs] by blast
  moreover have "rr_run_id r = rid" using run_row_of_new [OF r] rid by (simp add: new_run_def)
  ultimately have "rc_price_at_rec c = None" using prices c by (auto simp: w')
  then show ?thesis using priceless_no_outcome by blast
qed

theorem fallback_never_tracked_witness:
  fixes X w' defines "X \<equiv> demo_env None (demo_instant 4 10) ''r1''"
    and "w' \<equiv> snd (generate_run X ''u1'' ''india'' ''manual'' empty_reco_world)"
  shows "\<exists>c \<in> set (rd_recs (rw_db w')). rc_run_id c = ''r1'' \<and> (\<forall>closes today days. outcome_of closes today (c, days) = None)"
proof -
  have "\<exists>resp. generate_run X ''u1'' ''india'' ''manual'' empty_reco_world = (Inr resp, w') \<and> rp_run_id resp = Some ''r1''"
  proof -
    have "(case fst (generate_run X ''u1'' ''india'' ''manual'' empty_reco_world) of Inl e \<Rightarrow> False | Inr r \<Rightarrow> rp_run_id r = Some ''r1'')"
      unfolding X_def by code_simp
    then show ?thesis unfolding w'_def by (cases "generate_run X ''u1'' ''india'' ''manual'' empty_reco_world") (auto split: sum.splits)
  qed
  then obtain resp where resp: "generate_run X ''u1'' ''india'' ''manual'' empty_reco_world = (Inr resp, w')" "rp_run_id resp = Some ''r1''"
    by blast
  have wf: "reco_wf (rw_db empty_reco_world)" by code_simp
  have silent: "le_invoke (xe_llm X) m = None" for m by (simp add: X_def demo_env_def demo_llm_def)
  have "\<exists>c \<in> set (rd_recs (rw_db w')). rc_run_id c = ''r1''"
    unfolding w'_def X_def by code_simp
  then show ?thesis using fallback_never_tracked [OF resp wf silent] by blast
qed

text \<open>While only such recommendations are due, a run of the job does nothing: stale ones do not expire.\<close>

theorem priceless_block_expiry:
  assumes "due_recs today db \<noteq> []" "\<forall>(r, days) \<in> set (due_recs today db). rc_price_at_rec r = None"
  shows "snd (execute_run_recommendation_outcomes cancel prices today db) = db"
proof -
  obtain seen cancelled where seen: "until_cancelled cancel 0 (due_recs today db) = (seen, cancelled)" by fastforce
  have "List.map_filter (outcome_of closes today) seen = []" for closes
    using until_cancelled_subset [OF seen] assms(2)
    by (auto simp: map_filter_def filter_empty_conv intro!: priceless_no_outcome)
  then show ?thesis using assms(1) by (simp add: execute_run_recommendation_outcomes_def Let_def seen)
qed

section \<open>A new run ends the earlier ones\<close>

text \<open>
  After a run that is not a test was generated, the active recommendations of this user and scope are those of the
  new run; recommendations of other users and scopes are untouched. Of the earlier recommendations of the scope only
  those acted on can ever become due again for an outcome.
\<close>

theorem new_run_ends_earlier:
  assumes run: "generate_run X u s ty w = (Inr resp, w')" "rp_run_id resp = Some rid" "reco_wf (rw_db w)"
    and "ty \<noteq> ADMIN_TEST" "s \<noteq> []"
  shows "(\<forall>c \<in> set (rd_recs (rw_db w')). \<forall>r \<in> set (rd_runs (rw_db w')).
      rr_run_id r = rc_run_id c \<and> rr_user_id r = u \<and> rr_scope r = s \<and> rc_run_id c \<noteq> rid \<longrightarrow>
      rc_status c \<noteq> ''active'' \<and> (\<forall>today days. (c, days) \<in> set (due_recs today (rw_db w')) \<longrightarrow> rc_status c = ''acted_on'')) \<and>
    (\<forall>c \<in> set (rd_recs (rw_db w)). \<forall>r \<in> set (rd_runs (rw_db w)).
      rr_run_id r = rc_run_id c \<and> (rr_user_id r \<noteq> u \<or> rr_scope r \<noteq> s) \<longrightarrow> c \<in> set (rd_recs (rw_db w')))"
proof (intro conjI)
  obtain n s2 s3 rows db' where p: "persist_run u ty (run_row_of X u s ty n s2 s3) rows (rw_db w) = (Inr (), db')"
    and w': "rw_db w' = db'" and rid: "rid = xe_run_id X"
    using run(1,2) by (auto simp: generate_run_def Let_def no_run_def split: if_splits sum.splits prod.splits)
  obtain r where r: "run_row_of X u s ty n s2 s3 = Some r"
    using p by (cases "run_row_of X u s ty n s2 s3") (auto simp: persist_run_def)
  have new: "rr_run_id r = rid" "rr_user_id r = u" "rr_scope r = s"
    using run_row_of_new [OF r] rid by (simp_all add: new_run_def)
  let ?db1 = "(rw_db w)\<lparr>rd_runs := rd_runs (rw_db w) @ [r]\<rparr>"
  have ins: "insert_recommendation_run r (rw_db w) = (Inr (), ?db1)" and fresh: "rid \<notin> rr_run_id ` set (rd_runs (rw_db w))"
    using p new by (auto simp: r persist_run_def insert_recommendation_run_def split: if_splits)
  obtain rs db2 where db2: "(rs = [] \<and> db2 = ?db1) \<or> (\<exists>n. insert_recommendations rid rs ?db1 = (Inr n, db2))"
      "db' = snd (expire_old_recommendations u rid db2)"
    using p assms(4) new by (auto simp: persist_run_def r ins split: if_splits sum.splits prod.splits option.splits)
  have tabs: "rd_runs db2 = rd_runs (rw_db w) @ [r]" "\<exists>xs. rd_recs db2 = rd_recs (rw_db w) @ xs"
    using db2(1) by (auto simp: insert_recommendations_def Let_def split: if_splits)
  have find: "find (\<lambda>q. rr_run_id q = rid) (rd_runs db2) = Some r"
  proof -
    have "find (\<lambda>q. rr_run_id q = rid) (xs @ [r]) = Some r" if "rid \<notin> rr_run_id ` set xs" for xs
      using that new(1) by (induction xs) auto
    then show ?thesis using fresh by (simp add: tabs(1))
  qed
  let ?ids = "set (map rr_run_id (filter (\<lambda>q. rr_user_id q = u \<and> rr_run_id q \<noteq> rid \<and> rr_scope q = s) (rd_runs db2)))"
  have recs: "rd_recs db' = map (\<lambda>c. if rc_run_id c \<in> ?ids \<and> rc_status c = ''active'' then c\<lparr>rc_status := ''expired''\<rparr> else c) (rd_recs db2)"
    using assms(5) by (simp add: db2(2) expire_old_recommendations_def Let_def find new(3))
  have runs: "rd_runs db' = rd_runs db2" by (simp add: db2(2))
  show "\<forall>c \<in> set (rd_recs (rw_db w')). \<forall>r \<in> set (rd_runs (rw_db w')).
      rr_run_id r = rc_run_id c \<and> rr_user_id r = u \<and> rr_scope r = s \<and> rc_run_id c \<noteq> rid \<longrightarrow>
      rc_status c \<noteq> ''active'' \<and> (\<forall>today days. (c, days) \<in> set (due_recs today (rw_db w')) \<longrightarrow> rc_status c = ''acted_on'')"
  proof (intro ballI impI)
    fix c q
    assume c: "c \<in> set (rd_recs (rw_db w'))" and q: "q \<in> set (rd_runs (rw_db w'))"
      and eq: "rr_run_id q = rc_run_id c \<and> rr_user_id q = u \<and> rr_scope q = s \<and> rc_run_id c \<noteq> rid"
    have "rc_run_id c \<in> ?ids" using q eq unfolding w' runs set_map set_filter by (metis (mono_tags, lifting) image_eqI mem_Collect_eq)
    then have "rc_status c \<noteq> ''active''" using c unfolding w' recs by auto
    then show "rc_status c \<noteq> ''active'' \<and> (\<forall>today days. (c, days) \<in> set (due_recs today (rw_db w')) \<longrightarrow> rc_status c = ''acted_on'')"
      by (auto simp: due_recs_iff)
  qed
  show "\<forall>c \<in> set (rd_recs (rw_db w)). \<forall>r \<in> set (rd_runs (rw_db w)).
      rr_run_id r = rc_run_id c \<and> (rr_user_id r \<noteq> u \<or> rr_scope r \<noteq> s) \<longrightarrow> c \<in> set (rd_recs (rw_db w'))"
  proof (intro ballI impI)
    fix c q
    assume c: "c \<in> set (rd_recs (rw_db w))" and q: "q \<in> set (rd_runs (rw_db w))"
      and eq: "rr_run_id q = rc_run_id c \<and> (rr_user_id q \<noteq> u \<or> rr_scope q \<noteq> s)"
    have "distinct (map rr_run_id (rd_runs db2))"
      using run(3) fresh new(1) by (auto simp: tabs(1) reco_wf_def)
    then have "q' = q" if "q' \<in> set (rd_runs db2)" "rr_run_id q' = rr_run_id q" for q'
      using that q by (auto simp: tabs(1) distinct_map dest: inj_onD)
    then have "rc_run_id c \<notin> ?ids" using eq by auto
    moreover have "c \<in> set (rd_recs db2)" using c tabs(2) by auto
    ultimately show "c \<in> set (rd_recs (rw_db w'))" unfolding w' recs by force
  qed
qed

theorem new_run_ends_earlier_witness:
  fixes X w w' defines "X \<equiv> demo_env (Some (demo_reply ''value'')) (demo_instant 4 10) ''r1''"
    and "w \<equiv> \<lparr>rw_db = demo_db None, rw_cache = []\<rparr>"
    and "w' \<equiv> snd (generate_run X ''u1'' ''india'' ''manual'' w)"
  shows "\<exists>c \<in> set (rd_recs (rw_db w')). rc_id c = ''c1'' \<and> rc_status c \<noteq> ''active'' \<and>
    (\<forall>today days. (c, days) \<in> set (due_recs today (rw_db w')) \<longrightarrow> rc_status c = ''acted_on'')"
proof -
  have "(case fst (generate_run X ''u1'' ''india'' ''manual'' w) of Inl e \<Rightarrow> False | Inr r \<Rightarrow> rp_run_id r = Some ''r1'')"
    unfolding X_def w_def by code_simp
  then obtain resp where resp: "generate_run X ''u1'' ''india'' ''manual'' w = (Inr resp, w')" "rp_run_id resp = Some ''r1''"
    unfolding w'_def by (cases "generate_run X ''u1'' ''india'' ''manual'' w") (auto split: sum.splits)
  have "reco_wf (rw_db w)" "''manual'' \<noteq> ADMIN_TEST" "''india'' \<noteq> []" unfolding w_def by code_simp+
  note ends = new_run_ends_earlier [OF resp this, THEN conjunct1]
  have "\<exists>c \<in> set (rd_recs (rw_db w')). \<exists>r \<in> set (rd_runs (rw_db w')). rc_id c = ''c1'' \<and>
      rr_run_id r = rc_run_id c \<and> rr_user_id r = ''u1'' \<and> rr_scope r = ''india'' \<and> rc_run_id c \<noteq> ''r1''"
    unfolding w'_def X_def w_def by code_simp
  then show ?thesis using ends by blast
qed

section \<open>Races and an older query\<close>

text \<open>
  The lookup and the insertion are separate: two calls that both looked before either inserted give the
  month two runs.
\<close>

theorem concurrent_calls_make_two_runs:
  fixes X Y w1 w2 defines "X \<equiv> demo_env None (demo_instant 4 10) ''r1''" and "Y \<equiv> demo_env None (demo_instant 4 10) ''r2''"
    and "w1 \<equiv> snd (generate_run X ''u1'' ''india'' ''manual'' empty_reco_world)"
    and "w2 \<equiv> snd (generate_run Y ''u1'' ''india'' ''scheduled'' w1)"
  shows "fetch_cached X ''u1'' ''india'' (rw_db empty_reco_world) = None"
    "fetch_cached Y ''u1'' ''india'' (rw_db empty_reco_world) = None"
    "length (filter (run_of_month ''u1'' ''india'' (2026, 4)) (rd_runs (rw_db w2))) = 2"
  unfolding w2_def w1_def X_def Y_def by code_simp+

text \<open>
  In the query of the repository module one outcome of a horizon, of whatever recommendation, stops all others
  of that horizon.
\<close>

theorem one_outcome_ends_horizon:
  assumes "oc \<in> set (rd_outcomes db)"
  shows "(r, oc_days_elapsed oc) \<notin> set (get_recommendations_due_for_outcome today db)"
  using assms by (auto simp: get_recommendations_due_for_outcome_def)

end
