(* ===== verification/Billing_Store.thy ===== *)
theory Billing_Store
  imports Auth_Guards Json
begin

text \<open>
  What the subscription endpoints (\<open>auth/endpoints/subscription_routes.py\<close>) work on: the users table, the
  ledger of \<open>auth/repo/payment_repo.py\<close>, the prices of \<open>backend/subscription_config.py\<close> and the two payment
  gateways, which are code outside the repository and parameters here. With it the helpers of the
  endpoints: the retried update, the ledger entry that never fails, and the two searches for a user.
  Lemmas: what the update and the ledger entry do to the state, and which user a search finds.
\<close>

section \<open>The ledger\<close>

record payment_transaction =
  pt_transaction_id :: string
  pt_user_id :: string
  pt_gateway :: string
  pt_event_type :: string
  pt_gateway_event_id :: "string option"
  pt_subscription_id :: "string option"
  pt_customer_id :: "string option"
  pt_amount :: "rat option"
  pt_currency :: "string option"
  pt_tier_before :: "string option"
  pt_tier_after :: "string option"
  pt_status :: string
  pt_raw_payload :: "json option"
  pt_created_at :: time

text \<open>
  The state of a request: the tables, the gateways and the number of database calls made so far, which
  names the calls for \<open>be_db_error\<close>.
\<close>

record 'g billing_state =
  bs_db :: auth_db
  bs_ledger :: "payment_transaction list"
  bs_gw :: 'g
  bs_tick :: nat

section \<open>The gateways and the settings\<close>

text \<open>
  The Razorpay and Stripe clients: each call takes the arguments the endpoints pass and the gateways'
  state, and returns its answer, or the text of the exception it raises, with the state it leaves.
  \<open>rz_customer_page\<close> returns the identifiers and e-mails of a page; \<open>rz_all\<close> the identifier, the customer
  and the status of the subscriptions; \<open>st_retrieve\<close> the status and the identifiers of the items.
  \<open>st_construct_event\<close> checks the signature and parses.
\<close>

record 'g gateways =
  rz_customer_create :: "string \<Rightarrow> string \<Rightarrow> 'g \<Rightarrow> (string + string) \<times> 'g"
  rz_customer_page :: "nat \<Rightarrow> nat \<Rightarrow> 'g \<Rightarrow> (string + (string \<times> string option) list) \<times> 'g"
  rz_fetch :: "string \<Rightarrow> 'g \<Rightarrow> (string + string option) \<times> 'g"
  rz_edit :: "string \<Rightarrow> string \<Rightarrow> 'g \<Rightarrow> (string + unit) \<times> 'g"
  rz_cancel :: "string \<Rightarrow> 'g \<Rightarrow> (string + unit) \<times> 'g"
  rz_create :: "string \<Rightarrow> string \<Rightarrow> nat \<Rightarrow> 'g \<Rightarrow> (string + string) \<times> 'g"
  rz_all :: "nat \<Rightarrow> 'g \<Rightarrow> (string + (string \<times> string \<times> string) list) \<times> 'g"
  st_customer_create :: "string \<Rightarrow> string \<Rightarrow> 'g \<Rightarrow> (string + string) \<times> 'g"
  st_retrieve :: "string \<Rightarrow> 'g \<Rightarrow> (string + string \<times> string list) \<times> 'g"
  st_modify :: "string \<Rightarrow> string \<Rightarrow> string \<Rightarrow> 'g \<Rightarrow> (string + unit) \<times> 'g"
  st_cancel :: "string \<Rightarrow> 'g \<Rightarrow> (string + unit) \<times> 'g"
  st_session_create :: "string \<Rightarrow> string \<Rightarrow> string \<Rightarrow> string \<Rightarrow> string \<Rightarrow> string \<Rightarrow> 'g \<Rightarrow> (string + string \<times> string option) \<times> 'g"
  st_construct_event :: "string \<Rightarrow> string \<Rightarrow> string \<Rightarrow> json option"

text \<open>
  \<open>be_db_error n\<close> is the exception the \<open>n\<close>-th write to the database raises, if any. \<open>be_hmac secret body\<close>
  is \<open>hmac.new(...).hexdigest()\<close>, \<open>be_loads\<close> is \<open>json.loads\<close>, \<open>be_float\<close> reads a text as \<open>float\<close> does.
\<close>

record 'g billing_env =
  be_now :: time
  be_audit_up :: bool
  be_db_error :: "nat \<Rightarrow> py_exn option"
  be_uuid :: "nat \<Rightarrow> string"
  be_gateways :: "'g gateways"
  be_environ :: "string \<Rightarrow> string option"
  razorpay_key_id :: string
  razorpay_webhook_secret :: string
  stripe_secret_key :: string
  stripe_webhook_secret :: string
  oauth_redirect_uri :: string
  be_hmac :: "string \<Rightarrow> string \<Rightarrow> string"
  be_loads :: "string \<Rightarrow> json option"
  be_float :: "string \<Rightarrow> rat option"

definition TIER_PRICE_INR :: "(string \<times> int) list" where
  "TIER_PRICE_INR = [(''free'', 0), (''pro'', 499), (''premium'', 1499)]"

definition TIER_PRICE_USD :: "(string \<times> int) list" where
  "TIER_PRICE_USD = [(''free'', 0), (''pro'', 6), (''premium'', 18)]"

definition ACTIVE_STATUSES :: "string list" where
  "ACTIVE_STATUSES = [''active'', ''authenticated'']"

definition get_razorpay_client :: "'g billing_env \<Rightarrow> 'g gateways result" where
  "get_razorpay_client E =
     (if razorpay_key_id E = [] then Inl (HTTPException 503 ''Razorpay not configured'') else Inr (be_gateways E))"

definition get_razorpay_plan_id :: "'g billing_env \<Rightarrow> string \<Rightarrow> string result" where
  "get_razorpay_plan_id E tier =
     (case be_environ E (''RAZORPAY_PLAN_'' @ str_upper tier) of
        Some (c # cs) \<Rightarrow> Inr (c # cs)
      | _ \<Rightarrow> Inl (HTTPException 400 (''Plan not configured for tier: '' @ tier)))"

definition fetch_rz_sub_status :: "'g gateways \<Rightarrow> string \<Rightarrow> 'g \<Rightarrow> string option \<times> 'g" where
  "fetch_rz_sub_status G sub_id g =
     (case rz_fetch G sub_id g of (Inl e, g') \<Rightarrow> (None, g') | (Inr status, g') \<Rightarrow> (status, g'))"

definition get_stripe_client :: "'g billing_env \<Rightarrow> 'g gateways result" where
  "get_stripe_client E =
     (if stripe_secret_key E = [] then Inl (HTTPException 503 ''Stripe not configured'') else Inr (be_gateways E))"

definition get_stripe_price_id :: "'g billing_env \<Rightarrow> string \<Rightarrow> string result" where
  "get_stripe_price_id E tier =
     (case be_environ E (''STRIPE_PRICE_'' @ str_upper tier) of
        Some (c # cs) \<Rightarrow> Inr (c # cs)
      | _ \<Rightarrow> Inl (HTTPException 400 (''Stripe price not configured for tier: '' @ tier)))"

text \<open>\<open>hmac.compare_digest\<close> compares texts of ASCII characters and raises \<open>TypeError\<close> on others.\<close>

definition is_ascii :: "string \<Rightarrow> bool" where
  "is_ascii s \<longleftrightarrow> List.list_all (\<lambda>c. ord c < 128) s"

definition verify_razorpay_signature :: "'g billing_env \<Rightarrow> string \<Rightarrow> string \<Rightarrow> string \<Rightarrow> bool result" where
  "verify_razorpay_signature E body signature secret =
     (let expected = be_hmac E secret body in
      if is_ascii expected \<and> is_ascii signature then Inr (expected = signature) else Inl (OtherError ''TypeError''))"

section \<open>Writes\<close>

definition repo_update ::
    "'g billing_env \<Rightarrow> string \<Rightarrow> user_update list \<Rightarrow> 'g billing_state \<Rightarrow> unit result \<times> 'g billing_state" where
  "repo_update E uid updates st =
     (let st1 = st\<lparr>bs_tick := Suc (bs_tick st)\<rparr> in
      case be_db_error E (bs_tick st) of
        Some e \<Rightarrow> (Inl e, st1)
      | None \<Rightarrow>
          (case update_user (bs_db st) (be_now E) (be_audit_up E) uid updates of
             Inl e \<Rightarrow> (Inl e, st1)
           | Inr (u, db) \<Rightarrow> (Inr (), st1\<lparr>bs_db := db\<rparr>)))"

text \<open>The name of the exception's class contains \<open>CommitFailed\<close>; such classes are from a library.\<close>

fun commit_failed :: "py_exn \<Rightarrow> bool" where
  "commit_failed (OtherError name) = sublist ''CommitFailed'' name"
| "commit_failed _ = False"

fun safe_update_attempts ::
    "nat list \<Rightarrow> 'g billing_env \<Rightarrow> string \<Rightarrow> user_update list \<Rightarrow> 'g billing_state \<Rightarrow> unit result \<times> 'g billing_state" where
  "safe_update_attempts [] E uid updates st = (Inr (), st)"
| "safe_update_attempts (attempt # later) E uid updates st =
     (case repo_update E uid updates st of
        (Inr _, st1) \<Rightarrow> (Inr (), st1)
      | (Inl e, st1) \<Rightarrow>
          if commit_failed e \<and> attempt < 2 then safe_update_attempts later E uid updates st1 else (Inl e, st1))"

definition safe_update ::
    "'g billing_env \<Rightarrow> string \<Rightarrow> user_update list \<Rightarrow> 'g billing_state \<Rightarrow> unit result \<times> 'g billing_state" where
  "safe_update = safe_update_attempts [0, 1, 2]"

text \<open>A value for a column of texts: the driver rejects what is neither a text nor null.\<close>

fun column_text :: "json \<Rightarrow> string option option" where
  "column_text JNull = Some None"
| "column_text (JStr s) = Some (Some s)"
| "column_text _ = None"

definition col_json :: "string option \<Rightarrow> json" where
  "col_json c = (case c of None \<Rightarrow> JNull | Some s \<Rightarrow> JStr s)"

text \<open>Identifiers of transactions are fresh; a user that does not exist breaks the foreign key.\<close>

definition record_transaction ::
    "'g billing_env \<Rightarrow> payment_transaction \<Rightarrow> 'g billing_state \<Rightarrow> unit result \<times> 'g billing_state" where
  "record_transaction E txn st =
     (let st1 = st\<lparr>bs_tick := Suc (bs_tick st)\<rparr> in
      case be_db_error E (bs_tick st) of
        Some e \<Rightarrow> (Inl e, st1)
      | None \<Rightarrow>
          if get_by_id (bs_db st) (pt_user_id txn) = None then (Inl (OtherError ''IntegrityError''), st1)
          else (Inr (), st1\<lparr>bs_ledger := bs_ledger st @ [txn]\<rparr>))"

text \<open>\<open>_log_transaction\<close> swallows every exception, that of a rejected identifier too.\<close>

definition log_transaction ::
    "'g billing_env \<Rightarrow> string \<Rightarrow> string \<Rightarrow> string \<Rightarrow> json \<Rightarrow> json \<Rightarrow> rat option \<Rightarrow> string option \<Rightarrow>
     string option \<Rightarrow> string option \<Rightarrow> string \<Rightarrow> json option \<Rightarrow> 'g billing_state \<Rightarrow> 'g billing_state" where
  "log_transaction E uid gateway event sub cust amount currency before after status raw st =
     (case (column_text sub, column_text cust) of
        (Some s, Some c) \<Rightarrow>
          snd (record_transaction E
            \<lparr>pt_transaction_id = be_uuid E (bs_tick st), pt_user_id = uid, pt_gateway = gateway, pt_event_type = event,
             pt_gateway_event_id = None, pt_subscription_id = s, pt_customer_id = c, pt_amount = amount,
             pt_currency = currency, pt_tier_before = before, pt_tier_after = after, pt_status = status,
             pt_raw_payload = raw, pt_created_at = be_now E\<rparr> st)
      | _ \<Rightarrow> st\<lparr>bs_tick := Suc (bs_tick st)\<rparr>)"

definition update_payment_status ::
    "string \<Rightarrow> string \<Rightarrow> payment_transaction list \<Rightarrow> payment_transaction list result" where
  "update_payment_status txn_id status ledger =
     (case find (\<lambda>t. pt_transaction_id t = txn_id) ledger of
        None \<Rightarrow> Inl (ValueError (''Transaction '' @ txn_id @ '' not found''))
      | Some t \<Rightarrow> Inr (map (\<lambda>t. if pt_transaction_id t = txn_id then t\<lparr>pt_status := status\<rparr> else t) ledger))"

definition get_user_payments :: "string \<Rightarrow> payment_transaction list \<Rightarrow> payment_transaction list" where
  "get_user_payments uid = filter (\<lambda>t. pt_user_id t = uid)"

section \<open>Searches\<close>

definition find_user_by ::
    "(user \<Rightarrow> string option) \<Rightarrow> (user \<Rightarrow> string option) \<Rightarrow> auth_db \<Rightarrow> json \<Rightarrow> json \<Rightarrow> user option" where
  "find_user_by sub_col cust_col db sub_id cust_id =
     (let users = list_all db;
          by_sub = (if truthy sub_id then find (\<lambda>u. col_json (sub_col u) = sub_id) users else None)
      in case by_sub of
           Some u \<Rightarrow> Some u
         | None \<Rightarrow> if truthy cust_id then find (\<lambda>u. col_json (cust_col u) = cust_id) users else None)"

definition find_user_by_razorpay :: "auth_db \<Rightarrow> json \<Rightarrow> json \<Rightarrow> user option" where
  "find_user_by_razorpay = find_user_by razorpay_subscription_id razorpay_customer_id"

definition find_user_by_stripe :: "auth_db \<Rightarrow> json \<Rightarrow> json \<Rightarrow> user option" where
  "find_user_by_stripe = find_user_by stripe_subscription_id stripe_customer_id"

definition plan_id_to_tier :: "'g billing_env \<Rightarrow> json \<Rightarrow> string option" where
  "plan_id_to_tier E plan_id =
     (if plan_id = col_json (be_environ E ''RAZORPAY_PLAN_PREMIUM'') then Some ''premium''
      else if plan_id = col_json (be_environ E ''RAZORPAY_PLAN_PRO'') then Some ''pro''
      else None)"

section \<open>Lemmas\<close>

text \<open>What an update leaves: nothing, or the row of \<^const>\<open>update_user\<close>.\<close>

lemma repo_update_cases:
  assumes "repo_update E uid fs st = (r, st')"
  obtains (failed) e where "r = Inl e" "bs_db st' = bs_db st" "bs_ledger st' = bs_ledger st" "bs_gw st' = bs_gw st"
  | (ok) u' where "r = Inr ()" "update_user (bs_db st) (be_now E) (be_audit_up E) uid fs = Inr (u', bs_db st')"
      "bs_ledger st' = bs_ledger st" "bs_gw st' = bs_gw st"
  using assms by (auto simp: repo_update_def Let_def split: option.splits sum.splits prod.splits)

lemma safe_update_attempts_cases:
  assumes "safe_update_attempts ts E uid fs st = (r, st')" "ts \<noteq> []" "List.last ts \<ge> 2"
  shows "(\<exists>e. r = Inl e \<and> bs_db st' = bs_db st \<and> bs_ledger st' = bs_ledger st \<and> bs_gw st' = bs_gw st) \<or>
    (\<exists>u'. r = Inr () \<and> update_user (bs_db st) (be_now E) (be_audit_up E) uid fs = Inr (u', bs_db st') \<and>
       bs_ledger st' = bs_ledger st \<and> bs_gw st' = bs_gw st)"
  using assms
proof (induction ts arbitrary: st)
  case (Cons t ts)
  obtain r1 st1 where s1: "repo_update E uid fs st = (r1, st1)" by fastforce
  from s1 show ?case
  proof (cases rule: repo_update_cases)
    case (failed e)
    show ?thesis
    proof (cases "commit_failed e \<and> t < 2")
      case True
      then have "ts \<noteq> []" "List.last ts \<ge> 2" using Cons.prems(3) by (cases ts; force)+
      then show ?thesis using Cons.IH [of st1] Cons.prems(1) failed True s1 by simp
    next
      case False
      then show ?thesis using Cons.prems(1) failed s1 by (auto split: if_splits)
    qed
  next
    case (ok u')
    then show ?thesis using Cons.prems(1) s1 by simp
  qed
qed simp

lemma safe_update_cases:
  assumes "safe_update E uid fs st = (r, st')"
  obtains (failed) e where "r = Inl e" "bs_db st' = bs_db st" "bs_ledger st' = bs_ledger st" "bs_gw st' = bs_gw st"
  | (ok) u' where "r = Inr ()" "update_user (bs_db st) (be_now E) (be_audit_up E) uid fs = Inr (u', bs_db st')"
      "bs_ledger st' = bs_ledger st" "bs_gw st' = bs_gw st"
  using safe_update_attempts_cases [OF assms [unfolded safe_update_def]] that by auto

text \<open>Without failures the update succeeds at once.\<close>

lemma repo_update_up:
  assumes "be_db_error E = (\<lambda>n. None)" "get_by_id (bs_db st) uid = Some u"
  shows "\<exists>u' db'. repo_update E uid fs st = (Inr (), st\<lparr>bs_tick := Suc (bs_tick st), bs_db := db'\<rparr>) \<and>
    update_user (bs_db st) (be_now E) (be_audit_up E) uid fs = Inr (u', db')"
  using update_user_exists [OF assms(2), of "be_now E" "be_audit_up E" fs] assms(1)
  by (auto simp: repo_update_def Let_def)

lemma safe_update_up:
  assumes "be_db_error E = (\<lambda>n. None)" "get_by_id (bs_db st) uid = Some u"
  shows "\<exists>u' db'. safe_update E uid fs st = (Inr (), st\<lparr>bs_tick := Suc (bs_tick st), bs_db := db'\<rparr>) \<and>
    update_user (bs_db st) (be_now E) (be_audit_up E) uid fs = Inr (u', db')"
  using repo_update_up [OF assms, of fs] by (auto simp: safe_update_def)

text \<open>A ledger entry adds at most one transaction and changes nothing else.\<close>

lemma log_transaction_db [simp]:
  "bs_db (log_transaction E uid gw ev sub cust am cu be af sta raw st) = bs_db st"
  "bs_gw (log_transaction E uid gw ev sub cust am cu be af sta raw st) = bs_gw st"
  by (auto simp: log_transaction_def record_transaction_def Let_def split: option.splits)

lemma log_transaction_ledger:
  "bs_ledger (log_transaction E uid gw ev sub cust am cu be af sta raw st) = bs_ledger st \<or>
   (\<exists>x. bs_ledger (log_transaction E uid gw ev sub cust am cu be af sta raw st) = bs_ledger st @ [x] \<and>
      pt_user_id x = uid \<and> pt_tier_before x = be \<and> pt_tier_after x = af)"
  by (auto simp: log_transaction_def record_transaction_def Let_def split: option.splits)

lemma log_transaction_up:
  assumes "be_db_error E = (\<lambda>n. None)" "get_by_id (bs_db st) uid \<noteq> None" "column_text sub \<noteq> None" "column_text cust \<noteq> None"
  shows "\<exists>x. bs_ledger (log_transaction E uid gw ev sub cust am cu be af sta raw st) = bs_ledger st @ [x] \<and>
      pt_user_id x = uid \<and> pt_tier_before x = be \<and> pt_tier_after x = af"
  using assms by (auto simp: log_transaction_def record_transaction_def Let_def)

lemma column_text_col_json [simp]: "column_text (col_json c) = Some c"
  by (cases c) (simp_all add: col_json_def)

lemma find_user_by_in:
  "find_user_by sc cc db s c = Some u \<Longrightarrow> u \<in> set (db_users db)"
  by (auto simp: find_user_by_def Let_def list_all_def find_Some_iff split: option.splits if_splits)

end
