(* ===== verification/Billing.thy ===== *)
theory Billing
  imports Billing_Store
begin

text \<open>
  The subscription endpoints of \<open>auth/endpoints/subscription_routes.py\<close>: checkout with both gateways, the
  status, the cancellation, the clean-up of orphans and the two webhooks with their handlers. Every call
  to a gateway and every write is in the order of the code, and an exception leaves the state it was raised
  in.
\<close>

section \<open>Checkout\<close>

record checkout_response =
  co_gateway :: string
  co_upgraded :: bool
  co_subscription_id :: "string option"
  co_key_id :: "string option"
  co_plan_id :: "string option"
  co_checkout_url :: "string option"

text \<open>
  \<open>db_user.get(c) if db_user else None\<close>, and \<open>(...) or d\<close> of it.
\<close>

definition user_col :: "(user \<Rightarrow> string option) \<Rightarrow> user option \<Rightarrow> string option" where
  "user_col c db_user = (case db_user of None \<Rightarrow> None | Some u \<Rightarrow> c u)"

definition name_of :: "user option \<Rightarrow> string" where
  "name_of db_user = (case db_user of None \<Rightarrow> [] | Some u \<Rightarrow> full_name u)"

text \<open>
  The search for the customer by e-mail: at most four pages of 50, up to the first one that is empty. A customer
  whose identifier is empty does not end the search.
\<close>

fun find_customer :: "'g gateways \<Rightarrow> string \<Rightarrow> nat list \<Rightarrow> 'g \<Rightarrow> (string + string option) \<times> 'g" where
  "find_customer G mail [] g = (Inr None, g)"
| "find_customer G mail (skip # later) g =
     (case rz_customer_page G 50 skip g of
        (Inl e, g1) \<Rightarrow> (Inl e, g1)
      | (Inr items, g1) \<Rightarrow>
          if items = [] then (Inr None, g1)
          else (case find (\<lambda>(i, m). m = Some mail) items of
                  Some (i, _) \<Rightarrow> if i \<noteq> [] then (Inr (Some i), g1) else find_customer G mail later g1
                | None \<Rightarrow> find_customer G mail later g1))"

definition razorpay_customer ::
    "'g gateways \<Rightarrow> string \<Rightarrow> string \<Rightarrow> 'g \<Rightarrow> string result \<times> 'g" where
  "razorpay_customer G name mail g =
     (case rz_customer_create G name mail g of
        (Inr i, g1) \<Rightarrow> (Inr i, g1)
      | (Inl msg, g1) \<Rightarrow>
          if \<not> sublist ''already exists'' (str_lower msg) then (Inl (OtherError msg), g1)
          else (case find_customer G mail [0, 50, 100, 150] g1 of
                  (Inl e, g2) \<Rightarrow> (Inl (OtherError e), g2)
                | (Inr None, g2) \<Rightarrow>
                    (Inl (RuntimeError (''Razorpay customer exists but could not be found by email: '' @ mail)), g2)
                | (Inr (Some i), g2) \<Rightarrow> (Inr i, g2)))"

text \<open>The part of the checkout that makes sure the user has a customer.\<close>

definition ensure_razorpay_customer ::
    "'g billing_env \<Rightarrow> 'g gateways \<Rightarrow> user option \<Rightarrow> user_context \<Rightarrow> 'g billing_state \<Rightarrow> string result \<times> 'g billing_state" where
  "ensure_razorpay_customer E G db_user ctx st =
     (let c = user_col razorpay_customer_id db_user in
      if truthy_str c then (Inr (the c), st)
      else (case razorpay_customer G (name_of db_user) (ctx_email ctx) (bs_gw st) of
              (Inl e, g) \<Rightarrow> (Inl e, st\<lparr>bs_gw := g\<rparr>)
            | (Inr i, g) \<Rightarrow>
                (case repo_update E (ctx_user_id ctx) [SetRazorpayCustomerId (Some i)] (st\<lparr>bs_gw := g\<rparr>) of
                   (Inl e, st1) \<Rightarrow> (Inl e, st1)
                 | (Inr _, st1) \<Rightarrow> (Inr i, st1))))"

text \<open>
  The attempt to change the plan of a live subscription: whether it counts as upgraded, and the identifier
  the code goes on with. The flag is set before the update that may still raise.
\<close>

definition razorpay_upgrade ::
    "'g billing_env \<Rightarrow> 'g gateways \<Rightarrow> user option \<Rightarrow> user_context \<Rightarrow> string \<Rightarrow> string \<Rightarrow> string option \<Rightarrow>
     'g billing_state \<Rightarrow> (bool \<times> string option) \<times> 'g billing_state" where
  "razorpay_upgrade E G db_user ctx tier plan_id rz_sub st =
     (if \<not> truthy_str rz_sub then ((False, rz_sub), st)
      else
        (let (rz_status, g1) = fetch_rz_sub_status G (the rz_sub) (bs_gw st); st1 = st\<lparr>bs_gw := g1\<rparr> in
         if rz_status \<notin> Some ` set ACTIVE_STATUSES then ((False, rz_sub), st1)
         else
           (case rz_edit G (the rz_sub) plan_id g1 of
              (Inl e, g2) \<Rightarrow> ((False, None), st1\<lparr>bs_gw := g2\<rparr>)
            | (Inr _, g2) \<Rightarrow>
                (let old_tier = str_or (user_col subscription_tier db_user) ''free'' in
                 case safe_update E (ctx_user_id ctx) [SetSubscriptionTier (Some tier), SetSubscriptionStatus (Some ''active'')]
                        (st1\<lparr>bs_gw := g2\<rparr>) of
                   (Inl e, st2) \<Rightarrow> ((True, None), st2)
                 | (Inr _, st2) \<Rightarrow>
                     ((True, rz_sub),
                      log_transaction E (ctx_user_id ctx) ''razorpay'' ''upgrade'' (col_json rz_sub) JNull
                        (Some (of_int (dict_get TIER_PRICE_INR tier 0))) (Some ''INR'') (Some old_tier) (Some tier)
                        ''success'' None st2)))))"

definition checkout_razorpay ::
    "'g billing_env \<Rightarrow> user option \<Rightarrow> user_context \<Rightarrow> string \<Rightarrow> 'g billing_state \<Rightarrow>
     checkout_response result \<times> 'g billing_state" where
  "checkout_razorpay E db_user ctx tier st =
     (case get_razorpay_client E of
        Inl e \<Rightarrow> (Inl e, st)
      | Inr G \<Rightarrow>
          (case ensure_razorpay_customer E G db_user ctx st of
             (Inl e, st1) \<Rightarrow> (Inl e, st1)
           | (Inr cust, st1) \<Rightarrow>
               (case get_razorpay_plan_id E tier of
                  Inl e \<Rightarrow> (Inl e, st1)
                | Inr plan_id \<Rightarrow>
                    (let response = (\<lambda>up sub. \<lparr>co_gateway = ''razorpay'', co_upgraded = up, co_subscription_id = sub,
                                       co_key_id = Some (razorpay_key_id E), co_plan_id = Some plan_id,
                                       co_checkout_url = None\<rparr>);
                         ((upgraded, rz_sub), st2) =
                           razorpay_upgrade E G db_user ctx tier plan_id (user_col razorpay_subscription_id db_user) st1
                     in if upgraded then (Inr (response True rz_sub), st2)
                        else
                          (let st3 = (if truthy_str rz_sub
                                      then st2\<lparr>bs_gw := snd (rz_cancel G (the rz_sub) (bs_gw st2))\<rparr> else st2)
                           in case rz_create G plan_id cust 12 (bs_gw st3) of
                                (Inl e, g) \<Rightarrow> (Inl (OtherError e), st3\<lparr>bs_gw := g\<rparr>)
                              | (Inr new_sub, g) \<Rightarrow>
                                  (case repo_update E (ctx_user_id ctx) [SetRazorpaySubscriptionId (Some new_sub)]
                                          (st3\<lparr>bs_gw := g\<rparr>) of
                                     (Inl e, st4) \<Rightarrow> (Inl e, st4)
                                   | (Inr _, st4) \<Rightarrow> (Inr (response False (Some new_sub)), st4)))))))"

text \<open>\<open>s.replace(old, new)\<close> for a text \<open>old\<close> that is not empty.\<close>

function str_replace :: "string \<Rightarrow> string \<Rightarrow> string \<Rightarrow> string" where
  "str_replace old new [] = []"
| "str_replace old new (c # cs) =
     (if old \<noteq> [] \<and> prefix old (c # cs) then new @ str_replace old new (drop (length old) (c # cs))
      else c # str_replace old new cs)"
  by pat_completeness auto
termination by (relation "measure (\<lambda>(old, new, s). length s)") auto

definition billing_url :: "'g billing_env \<Rightarrow> string \<Rightarrow> string" where
  "billing_url E outcome =
     str_replace ''/auth/oauth/callback/../'' ''/'' (oauth_redirect_uri E @ ''/../dashboard?billing='' @ outcome)"

text \<open>The upgrade of a live Stripe subscription; \<^const>\<open>None\<close> when the code goes on to a new session.\<close>

definition stripe_upgrade ::
    "'g billing_env \<Rightarrow> 'g gateways \<Rightarrow> user option \<Rightarrow> user_context \<Rightarrow> string \<Rightarrow> string \<Rightarrow> string \<Rightarrow>
     'g billing_state \<Rightarrow> bool \<times> 'g billing_state" where
  "stripe_upgrade E G db_user ctx tier price_id cust st =
     (let st_sub = user_col stripe_subscription_id db_user in
      if \<not> truthy_str st_sub then (False, st)
      else
        (case st_retrieve G (the st_sub) (bs_gw st) of
           (Inl e, g1) \<Rightarrow> (False, st\<lparr>bs_gw := g1\<rparr>)
         | (Inr (status, items), g1) \<Rightarrow>
             if status \<notin> {''active'', ''trialing''} \<or> items = [] then (False, st\<lparr>bs_gw := g1\<rparr>)
             else
               (case st_modify G (the st_sub) (hd items) price_id g1 of
                  (Inl e, g2) \<Rightarrow> (False, st\<lparr>bs_gw := g2\<rparr>)
                | (Inr _, g2) \<Rightarrow>
                    (case safe_update E (ctx_user_id ctx)
                            [SetSubscriptionTier (Some tier), SetSubscriptionStatus (Some ''active'')] (st\<lparr>bs_gw := g2\<rparr>) of
                       (Inl e, st2) \<Rightarrow> (False, st2)
                     | (Inr _, st2) \<Rightarrow>
                         (True, log_transaction E (ctx_user_id ctx) ''stripe'' ''upgrade'' (col_json st_sub) (JStr cust)
                            (Some (of_int (dict_get TIER_PRICE_USD tier 0))) (Some ''USD'')
                            (Some (str_or (user_col subscription_tier db_user) ''free'')) (Some tier) ''success'' None st2)))))"

definition ensure_stripe_customer ::
    "'g billing_env \<Rightarrow> 'g gateways \<Rightarrow> user option \<Rightarrow> user_context \<Rightarrow> 'g billing_state \<Rightarrow> string result \<times> 'g billing_state" where
  "ensure_stripe_customer E G db_user ctx st =
     (let c = user_col stripe_customer_id db_user in
      if truthy_str c then (Inr (the c), st)
      else (case st_customer_create G (ctx_email ctx) (name_of db_user) (bs_gw st) of
              (Inl e, g) \<Rightarrow> (Inl (OtherError e), st\<lparr>bs_gw := g\<rparr>)
            | (Inr i, g) \<Rightarrow>
                (case repo_update E (ctx_user_id ctx) [SetStripeCustomerId (Some i)] (st\<lparr>bs_gw := g\<rparr>) of
                   (Inl e, st1) \<Rightarrow> (Inl e, st1)
                 | (Inr _, st1) \<Rightarrow> (Inr i, st1))))"

definition checkout_stripe ::
    "'g billing_env \<Rightarrow> user option \<Rightarrow> user_context \<Rightarrow> string \<Rightarrow> 'g billing_state \<Rightarrow>
     checkout_response result \<times> 'g billing_state" where
  "checkout_stripe E db_user ctx tier st =
     (case get_stripe_client E of
        Inl e \<Rightarrow> (Inl e, st)
      | Inr G \<Rightarrow>
          (case ensure_stripe_customer E G db_user ctx st of
             (Inl e, st1) \<Rightarrow> (Inl e, st1)
           | (Inr cust, st1) \<Rightarrow>
               (case get_stripe_price_id E tier of
                  Inl e \<Rightarrow> (Inl e, st1)
                | Inr price_id \<Rightarrow>
                    (let response = (\<lambda>up url. \<lparr>co_gateway = ''stripe'', co_upgraded = up, co_subscription_id = None,
                                       co_key_id = None, co_plan_id = None, co_checkout_url = url\<rparr>);
                         (upgraded, st2) = stripe_upgrade E G db_user ctx tier price_id cust st1
                     in if upgraded then (Inr (response True None), st2)
                        else (case st_session_create G cust price_id (billing_url E ''success'') (billing_url E ''cancelled'')
                                     (ctx_user_id ctx) tier (bs_gw st2) of
                                (Inl e, g) \<Rightarrow> (Inl (OtherError e), st2\<lparr>bs_gw := g\<rparr>)
                              | (Inr (i, url), g) \<Rightarrow> (Inr (response False url), st2\<lparr>bs_gw := g\<rparr>))))))"

text \<open>The request body: pydantic answers 422 unless tier and gateway are among the literals.\<close>

definition checkout ::
    "'g billing_env \<Rightarrow> string \<Rightarrow> string \<Rightarrow> user_context \<Rightarrow> 'g billing_state \<Rightarrow> checkout_response result \<times> 'g billing_state" where
  "checkout E tier gateway ctx st =
     (if tier \<notin> {''pro'', ''premium''} \<or> gateway \<notin> {''razorpay'', ''stripe''} then
        (Inl (HTTPException 422 ''Unprocessable Entity''), st)
      else
        (let db_user = get_by_id (bs_db st) (ctx_user_id ctx);
             db_tier = str_or (user_col subscription_tier db_user) ''free'';
             db_status = str_or (user_col subscription_status db_user) ''active''
         in if dict_get TIER_ORDER db_tier 0 \<ge> dict_get TIER_ORDER tier 0 \<and> db_status \<in> set ACTIVE_STATUSES then
              (Inl (HTTPException 400 ''Already on this tier or higher''), st)
            else if gateway = ''stripe'' then checkout_stripe E db_user ctx tier st
            else checkout_razorpay E db_user ctx tier st))"

section \<open>Status and cancellation\<close>

record subscription_view =
  sv_tier :: string
  sv_status :: string
  sv_usage_count :: int
  sv_usage_limit :: int
  sv_usage_remaining :: "int option"
  sv_gateway :: "string option"

definition get_subscription :: "user_context \<Rightarrow> 'g billing_state \<Rightarrow> subscription_view" where
  "get_subscription ctx st =
     (let db_user = get_by_id (bs_db st) (ctx_user_id ctx);
          tier = str_or (user_col subscription_tier db_user) DEFAULT_TIER;
          status = str_or (user_col subscription_status db_user) DEFAULT_STATUS;
          cnt = (case db_user of None \<Rightarrow> 0 | Some u \<Rightarrow> int_or (monthly_usage_count u) 0);
          effective_tier = (if status = ''cancelled'' then ''free'' else tier);
          quota = dict_get USAGE_QUOTAS effective_tier 3
      in \<lparr>sv_tier = effective_tier, sv_status = status, sv_usage_count = cnt, sv_usage_limit = quota,
          sv_usage_remaining = (if quota = 0 then None else Some (max 0 (quota - cnt))),
          sv_gateway = (if truthy_str (user_col stripe_subscription_id db_user) then Some ''stripe''
                        else if truthy_str (user_col razorpay_subscription_id db_user) then Some ''razorpay'' else None)\<rparr>)"

text \<open>A gateway that is not configured or that raises does not stop the cancellation.\<close>

definition cancel_subscription :: "'g billing_env \<Rightarrow> user_context \<Rightarrow> 'g billing_state \<Rightarrow> string result \<times> 'g billing_state" where
  "cancel_subscription E ctx st =
     (let db_user = get_by_id (bs_db st) (ctx_user_id ctx);
          db_tier = str_or (user_col subscription_tier db_user) ''free'';
          db_status = str_or (user_col subscription_status db_user) ''active''
      in if db_tier = ''free'' \<or> db_status = ''cancelled'' then
           (Inl (HTTPException 400 ''No active subscription''), st)
         else
           (let rz_sub = user_col razorpay_subscription_id db_user;
                st_sub = user_col stripe_subscription_id db_user;
                st1 = (if truthy_str rz_sub
                       then (case get_razorpay_client E of Inl e \<Rightarrow> st
                             | Inr G \<Rightarrow> st\<lparr>bs_gw := snd (rz_cancel G (the rz_sub) (bs_gw st))\<rparr>) else st);
                st2 = (if truthy_str st_sub
                       then (case get_stripe_client E of Inl e \<Rightarrow> st1
                             | Inr G \<Rightarrow> st1\<lparr>bs_gw := snd (st_cancel G (the st_sub) (bs_gw st1))\<rparr>) else st1)
            in case safe_update E (ctx_user_id ctx) [SetSubscriptionTier (Some ''free''),
                      SetSubscriptionStatus (Some ''cancelled''), SetRazorpaySubscriptionId None,
                      SetStripeSubscriptionId None] st2 of
                 (Inl e, st3) \<Rightarrow> (Inl e, st3)
               | (Inr _, st3) \<Rightarrow>
                   (let gw = (if truthy_str st_sub then ''stripe'' else if truthy_str rz_sub then ''razorpay'' else ''unknown'') in
                    (Inr ''Subscription cancelled'',
                     log_transaction E (ctx_user_id ctx) gw ''user_cancelled''
                       (col_json (if truthy_str st_sub then st_sub else rz_sub)) JNull None None (Some db_tier)
                       (Some ''free'') ''success'' None st3))))"

section \<open>Clean-up\<close>

record triage_entry =
  tr_sub_id :: string
  tr_customer_id :: string
  tr_status :: string
  tr_classification :: string
  tr_action :: string

record cleanup_report =
  cr_triage :: "triage_entry list"
  cr_cleaned :: nat
  cr_dry_run :: bool
  cr_error :: "string option"

text \<open>One subscription of the list; \<open>subs\<close> and \<open>custs\<close> are the keys of the two maps.\<close>

definition triage_one ::
    "'g gateways \<Rightarrow> bool \<Rightarrow> string set \<Rightarrow> string set \<Rightarrow> string \<times> string \<times> string \<Rightarrow>
     triage_entry list \<times> nat \<times> 'g \<Rightarrow> triage_entry list \<times> nat \<times> 'g" where
  "triage_one G dry_run subs custs s acc =
     (case (s, acc) of ((sid, cid, status), (triage, cleaned, g)) \<Rightarrow>
        (let entry = (\<lambda>c a. \<lparr>tr_sub_id = sid, tr_customer_id = cid, tr_status = status, tr_classification = c, tr_action = a\<rparr>)
         in if status \<notin> set ACTIVE_STATUSES then acc
            else if sid \<in> subs then (triage @ [entry ''matched'' ''keep''], cleaned, g)
            else if cid \<in> custs then
              (if dry_run then (triage @ [entry ''orphaned'' ''will_cancel''], cleaned, g)
               else (case rz_cancel G sid g of
                       (Inr _, g1) \<Rightarrow> (triage @ [entry ''orphaned'' ''cancelled''], Suc cleaned, g1)
                     | (Inl e, g1) \<Rightarrow> (triage @ [entry ''orphaned'' ''cancel_failed''], cleaned, g1)))
            else (triage @ [entry ''unlinked'' ''manual_review''], cleaned, g)))"

definition present :: "(user \<Rightarrow> string option) \<Rightarrow> user list \<Rightarrow> string set" where
  "present col users = {s \<in> set (List.map_filter col users). s \<noteq> []}"

definition cleanup_subscriptions ::
    "'g billing_env \<Rightarrow> bool \<Rightarrow> user_context \<Rightarrow> 'g billing_state \<Rightarrow> cleanup_report result \<times> 'g billing_state" where
  "cleanup_subscriptions E dry_run ctx st =
     (case superuser_only ctx of
        Inl e \<Rightarrow> (Inl e, st)
      | Inr _ \<Rightarrow>
          (case get_razorpay_client E of
             Inl e \<Rightarrow> (Inl e, st)
           | Inr G \<Rightarrow>
               (let users = list_all (bs_db st) in
                case rz_all G 100 (bs_gw st) of
                  (Inl e, g) \<Rightarrow> (Inr \<lparr>cr_triage = [], cr_cleaned = 0, cr_dry_run = dry_run,
                                    cr_error = Some ''Failed to fetch subs''\<rparr>, st\<lparr>bs_gw := g\<rparr>)
                | (Inr items, g) \<Rightarrow>
                    (let (triage, cleaned, g1) =
                           fold (triage_one G dry_run (present razorpay_subscription_id users)
                                   (present razorpay_customer_id users)) items ([], 0, g)
                     in (Inr \<lparr>cr_triage = triage, cr_cleaned = cleaned, cr_dry_run = dry_run, cr_error = None\<rparr>,
                         st\<lparr>bs_gw := g1\<rparr>)))))"

end
