(* ===== verification/Billing_Webhooks.thy ===== *)
theory Billing_Webhooks
  imports Billing
begin

text \<open>
  The two webhooks of \<open>auth/endpoints/subscription_routes.py\<close> and their handlers. The body is a text that
  \<open>json.loads\<close> or the Stripe library turns into a JSON value; what is read from it with a method the value does
  not have raises. Lemmas: what each handler does to the rows of the users table.
\<close>

section \<open>Reading an event\<close>

text \<open>A value on which \<open>.get\<close> is called must be a dictionary.\<close>

fun as_dict :: "json \<Rightarrow> json_dict result" where
  "as_dict (JObj d) = Inr d"
| "as_dict _ = Inl (OtherError ''AttributeError'')"

text \<open>\<open>payload.get("payload", {}).get(k, {}).get("entity", {})\<close>.\<close>

definition event_entity :: "json_dict \<Rightarrow> string \<Rightarrow> json result" where
  "event_entity payload k =
     bindE (as_dict (jget payload ''payload'' (JObj []))) (\<lambda>p.
     bindE (as_dict (jget p k (JObj []))) (\<lambda>s. Inr (jget s ''entity'' (JObj []))))"

section \<open>Razorpay handlers\<close>

text \<open>\<open>stored_sub and stored_sub != sub_id\<close>.\<close>

definition other_sub_stored :: "user \<Rightarrow> json \<Rightarrow> bool" where
  "other_sub_stored u sub_id \<longleftrightarrow>
     truthy_str (razorpay_subscription_id u) \<and> col_json (razorpay_subscription_id u) \<noteq> sub_id"

definition tier_or_free :: "user \<Rightarrow> string" where
  "tier_or_free u = str_or (subscription_tier u) ''free''"

definition handle_charged :: "'g billing_env \<Rightarrow> json_dict \<Rightarrow> 'g billing_state \<Rightarrow> unit result \<times> 'g billing_state" where
  "handle_charged E entity st =
     (let sub_id = jget entity ''id'' (JStr []); plan_id = jget entity ''plan_id'' (JStr []);
          cust_id = jget entity ''customer_id'' (JStr [])
      in if \<not> truthy sub_id then (Inr (), st)
         else
           (case find_user_by_razorpay (bs_db st) sub_id cust_id of
              None \<Rightarrow> (Inr (), st)
            | Some u \<Rightarrow>
                if other_sub_stored u sub_id then (Inr (), st)
                else
                  (case plan_id_to_tier E plan_id of
                     None \<Rightarrow> (Inr (), st)
                   | Some tier \<Rightarrow>
                       (case column_text sub_id of
                          None \<Rightarrow> (Inl (OtherError ''DataError''), st)
                        | Some sub \<Rightarrow>
                            (case safe_update E (user_id u) [SetSubscriptionTier (Some tier),
                                    SetSubscriptionStatus (Some ''active''), SetRazorpaySubscriptionId sub] st of
                               (Inl e, st1) \<Rightarrow> (Inl e, st1)
                             | (Inr _, st1) \<Rightarrow>
                                 (Inr (), log_transaction E (user_id u) ''razorpay'' ''charged'' sub_id cust_id
                                    (Some (of_int (dict_get TIER_PRICE_INR tier 0))) (Some ''INR'')
                                    (Some (tier_or_free u)) (Some tier) ''success'' (Some (JObj entity)) st1))))))"

definition handle_cancelled :: "'g billing_env \<Rightarrow> json_dict \<Rightarrow> 'g billing_state \<Rightarrow> unit result \<times> 'g billing_state" where
  "handle_cancelled E entity st =
     (let sub_id = jget entity ''id'' (JStr []); cust_id = jget entity ''customer_id'' (JStr [])
      in if \<not> truthy sub_id then (Inr (), st)
         else
           (case find_user_by_razorpay (bs_db st) sub_id cust_id of
              None \<Rightarrow> (Inr (), st)
            | Some u \<Rightarrow>
                if other_sub_stored u sub_id then (Inr (), st)
                else
                  (case safe_update E (user_id u) [SetSubscriptionTier (Some ''free''),
                          SetSubscriptionStatus (Some ''cancelled''), SetRazorpaySubscriptionId None] st of
                     (Inl e, st1) \<Rightarrow> (Inl e, st1)
                   | (Inr _, st1) \<Rightarrow>
                       (Inr (), log_transaction E (user_id u) ''razorpay'' ''cancelled'' sub_id cust_id None None
                          (Some (tier_or_free u)) (Some ''free'') ''success'' (Some (JObj entity)) st1))))"

definition handle_payment_failed ::
    "'g billing_env \<Rightarrow> json_dict \<Rightarrow> json_dict \<Rightarrow> 'g billing_state \<Rightarrow> unit result \<times> 'g billing_state" where
  "handle_payment_failed E payment sub_entity st =
     (let sub_id = jget sub_entity ''id'' (JStr []); cust_id = jget payment ''customer_id'' (JStr [])
      in case find_user_by_razorpay (bs_db st) sub_id cust_id of
           None \<Rightarrow> (Inr (), st)
         | Some u \<Rightarrow>
             (case safe_update E (user_id u) [SetSubscriptionStatus (Some ''past_due'')] st of
                (Inl e, st1) \<Rightarrow> (Inl e, st1)
              | (Inr _, st1) \<Rightarrow>
                  (Inr (), log_transaction E (user_id u) ''razorpay'' ''payment_failed'' sub_id cust_id None None
                     None None ''failed'' None st1)))"

definition razorpay_webhook ::
    "'g billing_env \<Rightarrow> string \<Rightarrow> string \<Rightarrow> 'g billing_state \<Rightarrow> unit result \<times> 'g billing_state" where
  "razorpay_webhook E body signature st =
     (if razorpay_webhook_secret E = [] then (Inl (HTTPException 503 ''Webhook not configured''), st)
      else
        (case verify_razorpay_signature E body signature (razorpay_webhook_secret E) of
           Inl e \<Rightarrow> (Inl e, st)
         | Inr ok \<Rightarrow>
             if \<not> ok then (Inl (HTTPException 400 ''Invalid webhook signature''), st)
             else
               (case be_loads E body of
                  None \<Rightarrow> (Inl JSONDecodeError, st)
                | Some j \<Rightarrow>
                    (case bindE (as_dict j) (\<lambda>payload.
                            bindE (event_entity payload ''subscription'') (\<lambda>entity.
                            bindE (event_entity payload ''payment'') (\<lambda>payment.
                              Inr (jget payload ''event'' (JStr []), entity, payment)))) of
                       Inl e \<Rightarrow> (Inl e, st)
                     | Inr (event, entity, payment) \<Rightarrow>
                         if event = JStr ''subscription.charged'' then
                           (case as_dict entity of Inl e \<Rightarrow> (Inl e, st) | Inr d \<Rightarrow> handle_charged E d st)
                         else if event = JStr ''subscription.cancelled'' then
                           (case as_dict entity of Inl e \<Rightarrow> (Inl e, st) | Inr d \<Rightarrow> handle_cancelled E d st)
                         else if event = JStr ''payment.failed'' then
                           (case bindE (as_dict entity) (\<lambda>d. bindE (as_dict payment) (\<lambda>p. Inr (p, d))) of
                              Inl e \<Rightarrow> (Inl e, st) | Inr (p, d) \<Rightarrow> handle_payment_failed E p d st)
                         else (Inr (), st)))))"

section \<open>Stripe handlers\<close>

text \<open>\<open>float(amt_cents) / 100 if amt_cents else None\<close>.\<close>

definition stripe_amount :: "'g billing_env \<Rightarrow> json \<Rightarrow> rat option result" where
  "stripe_amount E amt_cents =
     (if \<not> truthy amt_cents then Inr None
      else case amt_cents of
             JNum x \<Rightarrow> Inr (Some (x / 100))
           | JBool b \<Rightarrow> Inr (Some (1 / 100))
           | JStr s \<Rightarrow> (case be_float E s of None \<Rightarrow> Inl (ValueError ''could not convert string to float'') | Some x \<Rightarrow> Inr (Some (x / 100)))
           | _ \<Rightarrow> Inl (OtherError ''TypeError''))"

fun json_upper :: "json \<Rightarrow> string result" where
  "json_upper (JStr s) = Inr (str_upper s)"
| "json_upper _ = Inl (OtherError ''AttributeError'')"

text \<open>
  \<open>checkout.session.completed\<close>: amount and currency are read after the update, outside the guard of the
  ledger entry.
\<close>

definition handle_stripe_checkout ::
    "'g billing_env \<Rightarrow> json_dict \<Rightarrow> 'g billing_state \<Rightarrow> unit result \<times> 'g billing_state" where
  "handle_stripe_checkout E session st =
     (let cust_id = jget session ''customer'' (JStr []); sub_id = jget session ''subscription'' (JStr [])
      in case as_dict (jget session ''metadata'' (JObj [])) of
           Inl e \<Rightarrow> (Inl e, st)
         | Inr meta \<Rightarrow>
             (let uid = jget meta ''user_id'' (JStr []); tier = jget meta ''tier'' (JStr [])
              in if \<not> truthy uid then (Inr (), st)
                 else if tier \<notin> {JStr ''pro'', JStr ''premium''} then (Inr (), st)
                 else
                   (case (uid, tier, column_text cust_id, column_text sub_id) of
                      (JStr u, JStr t, Some cust, Some sub) \<Rightarrow>
                        (let old_tier = str_or (user_col subscription_tier (get_by_id (bs_db st) u)) ''free''
                         in case safe_update E u [SetSubscriptionTier (Some t), SetSubscriptionStatus (Some ''active''),
                                   SetStripeCustomerId cust, SetStripeSubscriptionId sub] st of
                              (Inl e, st1) \<Rightarrow> (Inl e, st1)
                            | (Inr _, st1) \<Rightarrow>
                                (case bindE (stripe_amount E (jget session ''amount_total'' JNull)) (\<lambda>amt.
                                       bindE (json_upper (jget session ''currency'' (JStr ''usd''))) (\<lambda>cur. Inr (amt, cur))) of
                                   Inl e \<Rightarrow> (Inl e, st1)
                                 | Inr (amt, cur) \<Rightarrow>
                                     (Inr (), log_transaction E u ''stripe'' ''checkout_completed'' sub_id cust_id amt (Some cur)
                                        (Some old_tier) (Some t) ''success'' (Some (JObj session)) st1)))
                    | _ \<Rightarrow> (Inl (OtherError ''DataError''), st))))"

definition handle_stripe_sub_change ::
    "'g billing_env \<Rightarrow> json_dict \<Rightarrow> 'g billing_state \<Rightarrow> unit result \<times> 'g billing_state" where
  "handle_stripe_sub_change E sub st =
     (let status = jget sub ''status'' (JStr []); cust_id = jget sub ''customer'' (JStr []);
          sub_id = jget sub ''id'' (JStr [])
      in case find_user_by_stripe (bs_db st) sub_id cust_id of
           None \<Rightarrow> (Inr (), st)
         | Some u \<Rightarrow>
             if status \<in> {JStr ''canceled'', JStr ''unpaid''} then
               (case safe_update E (user_id u) [SetSubscriptionTier (Some ''free''),
                       SetSubscriptionStatus (Some ''cancelled''), SetStripeSubscriptionId None] st of
                  (Inl e, st1) \<Rightarrow> (Inl e, st1)
                | (Inr _, st1) \<Rightarrow>
                    (Inr (), log_transaction E (user_id u) ''stripe'' ''cancelled'' (jget sub ''id'' JNull) cust_id None None
                       (Some (tier_or_free u)) (Some ''free'') ''success'' (Some (JObj sub)) st1))
             else (Inr (), st))"

definition handle_stripe_payment_failed ::
    "'g billing_env \<Rightarrow> json_dict \<Rightarrow> 'g billing_state \<Rightarrow> unit result \<times> 'g billing_state" where
  "handle_stripe_payment_failed E invoice st =
     (let cust_id = jget invoice ''customer'' (JStr []); sub_id = jget invoice ''subscription'' (JStr [])
      in case find_user_by_stripe (bs_db st) sub_id cust_id of
           None \<Rightarrow> (Inr (), st)
         | Some u \<Rightarrow>
             (case safe_update E (user_id u) [SetSubscriptionStatus (Some ''past_due'')] st of
                (Inl e, st1) \<Rightarrow> (Inl e, st1)
              | (Inr _, st1) \<Rightarrow>
                  (Inr (), log_transaction E (user_id u) ''stripe'' ''payment_failed'' sub_id cust_id None None
                     None None ''failed'' None st1)))"

definition stripe_webhook ::
    "'g billing_env \<Rightarrow> string \<Rightarrow> string \<Rightarrow> 'g billing_state \<Rightarrow> unit result \<times> 'g billing_state" where
  "stripe_webhook E body sig st =
     (case get_stripe_client E of
        Inl e \<Rightarrow> (Inl e, st)
      | Inr G \<Rightarrow>
          if stripe_webhook_secret E = [] then (Inl (HTTPException 503 ''Webhook not configured''), st)
          else
            (case st_construct_event G body sig (stripe_webhook_secret E) of
               None \<Rightarrow> (Inl (HTTPException 400 ''Invalid Stripe signature''), st)
             | Some event \<Rightarrow>
                 (case bindE (as_dict event) (\<lambda>ev. bindE (as_dict (jget ev ''data'' (JObj []))) (\<lambda>d.
                         Inr (jget ev ''type'' (jget ev ''event'' (JStr [])), jget d ''object'' (JObj [])))) of
                    Inl e \<Rightarrow> (Inl e, st)
                  | Inr (ev_type, obj) \<Rightarrow>
                      if ev_type = JStr ''checkout.session.completed'' then
                        (case as_dict obj of Inl e \<Rightarrow> (Inl e, st) | Inr d \<Rightarrow> handle_stripe_checkout E d st)
                      else if ev_type \<in> {JStr ''customer.subscription.deleted'', JStr ''customer.subscription.updated''} then
                        (case as_dict obj of Inl e \<Rightarrow> (Inl e, st) | Inr d \<Rightarrow> handle_stripe_sub_change E d st)
                      else if ev_type = JStr ''invoice.payment_failed'' then
                        (case as_dict obj of Inl e \<Rightarrow> (Inl e, st) | Inr d \<Rightarrow> handle_stripe_payment_failed E d st)
                      else (Inr (), st))))"

end
