(* ===== verification/Billing_Trail.thy ===== *)
theory Billing_Trail
  imports Billing_Webhooks
begin

text \<open>
  What every billing operation does to tiers, roles and the ledger: it is a sequence of small steps, each of
  which leaves all tiers and roles alone or sets one user's tier, and then, when nothing failed
  (\<open>full\<close>), with an entry in the ledger that names the tier before and after. One lemma per operation.
\<close>

section \<open>Small steps\<close>

definition set_access :: "string \<Rightarrow> string \<Rightarrow> auth_db \<Rightarrow> auth_db \<Rightarrow> bool" where
  "set_access uid t db db' \<longleftrightarrow> map user_id (db_users db') = map user_id (db_users db) \<and> (\<exists>u u'. get_by_id db uid = Some u \<and> get_by_id db' = (get_by_id db)(uid \<mapsto> u') \<and>
     subscription_tier u' = Some t \<and>
     role u' = (if role u = ''superuser'' then ''superuser'' else role_for_tier (Some t)))"

definition same_access :: "auth_db \<Rightarrow> auth_db \<Rightarrow> bool" where
  "same_access db db' \<longleftrightarrow> map user_id (db_users db') = map user_id (db_users db) \<and> (\<forall>uid. map_option (\<lambda>u. (subscription_tier u, role u)) (get_by_id db' uid) =
     map_option (\<lambda>u. (subscription_tier u, role u)) (get_by_id db uid))"

definition tier_of :: "auth_db \<Rightarrow> string \<Rightarrow> string" where
  "tier_of db uid = str_or (user_col subscription_tier (get_by_id db uid)) ''free''"

inductive tier_step :: "bool \<Rightarrow> 'g billing_state \<Rightarrow> 'g billing_state \<Rightarrow> bool" for full where
  keep: "same_access (bs_db st) (bs_db st') \<Longrightarrow> bs_ledger st' = bs_ledger st \<Longrightarrow> tier_step full st st'"
| log_other: "bs_db st' = bs_db st \<Longrightarrow> bs_ledger st' = bs_ledger st @ [x] \<Longrightarrow> pt_tier_after x = None \<Longrightarrow> tier_step full st st'"
| set_logged: "set_access uid t (bs_db st) (bs_db st') \<Longrightarrow> t \<in> set (map fst TIER_ORDER) \<Longrightarrow>
    bs_ledger st' = bs_ledger st @ [x] \<Longrightarrow> pt_user_id x = uid \<Longrightarrow> pt_tier_before x = Some (tier_of (bs_db st) uid) \<Longrightarrow>
    pt_tier_after x = Some t \<Longrightarrow> tier_step full st st'"
| set_only: "\<not> full \<Longrightarrow> set_access uid t (bs_db st) (bs_db st') \<Longrightarrow> t \<in> set (map fst TIER_ORDER) \<Longrightarrow>
    bs_ledger st' = bs_ledger st \<Longrightarrow> tier_step full st st'"

abbreviation tier_steps :: "bool \<Rightarrow> 'g billing_state \<Rightarrow> 'g billing_state \<Rightarrow> bool" where
  "tier_steps full \<equiv> (tier_step full)\<^sup>*\<^sup>*"

lemma same_access_refl [simp]: "same_access db db"
  by (simp add: same_access_def)

lemma frame_step: "bs_db st' = bs_db st \<Longrightarrow> bs_ledger st' = bs_ledger st \<Longrightarrow> tier_steps full st st'"
  by (rule r_into_rtranclp, rule tier_step.keep) simp_all

text \<open>An update that does not name the tier keeps all access; one that does sets it.\<close>

lemma update_user_ids:
  "update_user db now up uid fs = Inr (u', db') \<Longrightarrow> map user_id (db_users db') = map user_id (db_users db)"
  by (auto simp: update_user_def Let_def replace_user_def append_audit_event_def split: option.splits prod.splits if_splits)

lemma update_keeps_access:
  assumes "update_user db now up uid fs = Inr (u', db')" "new_tier_of fs = None" "\<not> list_ex is_SetRole fs"
  shows "same_access db db'"
proof -
  obtain u where u: "get_by_id db uid = Some u"
      "u' = (fold set_field (fst (sync_role u fs)) u)\<lparr>u_updated_at := now\<rparr>"
      "\<And>k. get_by_id db' k = (if k = uid then Some u' else get_by_id db k)"
    using assms(1) by (rule update_user_result) blast
  have "fst (sync_role u fs) = fs" by (simp add: sync_role_def assms(2))
  then have "subscription_tier u' = subscription_tier u" "role u' = role u"
    using u(2) assms(2,3) by (simp_all add: fold_set_field_tier fold_set_field_role)
  then show ?thesis using update_user_ids [OF assms(1)] by (auto simp: same_access_def u(1) u(3))
qed

lemma update_sets_access:
  assumes "update_user db now up uid fs = Inr (u', db')" "new_tier_of fs = Some (Some t)" "\<not> list_ex is_SetRole fs"
  shows "set_access uid t db db'"
proof -
  obtain u where u: "get_by_id db uid = Some u"
      "u' = (fold set_field (fst (sync_role u fs)) u)\<lparr>u_updated_at := now\<rparr>"
      "\<And>k. get_by_id db' k = (if k = uid then Some u' else get_by_id db k)"
    using assms(1) by (rule update_user_result) blast
  have "subscription_tier u' = Some t"
      "role u' = (if role u = ''superuser'' then ''superuser'' else role_for_tier (Some t))"
    using u(2) assms(2,3) sync_role_effect [of u fs "Some t"] sync_role_superuser [of u fs]
    by (cases "role u = ''superuser''"; simp add: fold_set_field_tier fold_set_field_role)+
  moreover have "get_by_id db' = (get_by_id db)(uid \<mapsto> u')" using u(3) by auto
  ultimately show ?thesis using u(1) update_user_ids [OF assms(1)] unfolding set_access_def by metis
qed

section \<open>The building blocks of the operations\<close>

lemma repo_update_keep:
  assumes "repo_update E uid fs st = (r, st')" "new_tier_of fs = None" "\<not> list_ex is_SetRole fs"
  shows "same_access (bs_db st) (bs_db st') \<and> bs_ledger st' = bs_ledger st"
  using assms(1) by (cases rule: repo_update_cases) (use update_keeps_access [OF _ assms(2,3)] in auto)

lemma safe_update_keep:
  assumes "safe_update E uid fs st = (r, st')" "new_tier_of fs = None" "\<not> list_ex is_SetRole fs"
  shows "same_access (bs_db st) (bs_db st') \<and> bs_ledger st' = bs_ledger st"
  using assms(1) by (cases rule: safe_update_cases) (use update_keeps_access [OF _ assms(2,3)] in auto)

lemma keep_steps: "same_access (bs_db st) (bs_db st') \<and> bs_ledger st' = bs_ledger st \<Longrightarrow> tier_steps full st st'"
  by (rule r_into_rtranclp, rule tier_step.keep) simp_all

lemma log_step:
  "tier_steps full st (log_transaction E uid gw ev sub cust am cu be None sta raw st)"
  using log_transaction_ledger [of E uid gw ev sub cust am cu be None sta raw st]
proof (elim disjE exE conjE)
  fix x
  assume "bs_ledger (log_transaction E uid gw ev sub cust am cu be None sta raw st) = bs_ledger st @ [x]" "pt_tier_after x = None"
  then show ?thesis by (intro r_into_rtranclp [of "tier_step full"] tier_step.log_other) simp_all
qed (simp add: frame_step)

definition quiet :: "bool \<Rightarrow> 'g billing_env \<Rightarrow> bool" where
  "quiet full E \<longleftrightarrow> (full \<longrightarrow> be_db_error E = (\<lambda>n. None))"

lemma set_and_log:
  assumes "safe_update E uid fs st = (Inr r, st')" "new_tier_of fs = Some (Some t)" "\<not> list_ex is_SetRole fs"
    and "t \<in> set (map fst TIER_ORDER)" "quiet full E" "full \<longrightarrow> column_text sub \<noteq> None \<and> column_text cust \<noteq> None"
    and "be = Some (tier_of (bs_db st) uid)"
  shows "tier_steps full st (log_transaction E uid gw ev sub cust am cu be (Some t) sta raw st')"
proof -
  obtain u' where up: "update_user (bs_db st) (be_now E) (be_audit_up E) uid fs = Inr (u', bs_db st')"
      and led: "bs_ledger st' = bs_ledger st"
    using assms(1) by (cases rule: safe_update_cases) auto
  have acc: "set_access uid t (bs_db st) (bs_db st')" by (rule update_sets_access [OF up assms(2,3)])
  then have ex: "get_by_id (bs_db st') uid \<noteq> None" by (auto simp: set_access_def)
  let ?st = "log_transaction E uid gw ev sub cust am cu be (Some t) sta raw st'"
  have "bs_ledger ?st = bs_ledger st' \<or> (\<exists>x. bs_ledger ?st = bs_ledger st' @ [x] \<and> pt_user_id x = uid \<and>
      pt_tier_before x = be \<and> pt_tier_after x = Some t)"
    by (rule log_transaction_ledger)
  moreover have "full \<Longrightarrow> \<exists>x. bs_ledger ?st = bs_ledger st' @ [x] \<and> pt_user_id x = uid \<and>
      pt_tier_before x = be \<and> pt_tier_after x = Some t"
    using assms(5,6) ex by (intro log_transaction_up) (auto simp: quiet_def)
  ultimately consider x where "bs_ledger ?st = bs_ledger st' @ [x]" "pt_user_id x = uid" "pt_tier_before x = be"
      "pt_tier_after x = Some t" | "\<not> full" "bs_ledger ?st = bs_ledger st'"
    by blast
  then have "tier_step full st ?st"
  proof cases
    case (1 x)
    then show ?thesis using acc assms(4,7) led by (intro tier_step.set_logged [of uid t _ _ x]) simp_all
  next
    case 2
    then show ?thesis using acc assms(4) led by (intro tier_step.set_only [of _ uid t]) simp_all
  qed
  then show ?thesis by (rule r_into_rtranclp)
qed

text \<open>Without an entry after it, a tier is only set when something failed.\<close>

lemma set_unlogged:
  assumes "safe_update E uid fs st = (Inr r, st')" "new_tier_of fs = Some (Some t)" "\<not> list_ex is_SetRole fs"
    and "t \<in> set (map fst TIER_ORDER)"
  shows "tier_steps False st st'"
proof -
  obtain u' where up: "update_user (bs_db st) (be_now E) (be_audit_up E) uid fs = Inr (u', bs_db st')"
      and led: "bs_ledger st' = bs_ledger st"
    using assms(1) by (cases rule: safe_update_cases) auto
  have "tier_step False st st'"
    using update_sets_access [OF up assms(2,3)] assms(4) led by (intro tier_step.set_only) simp_all
  then show ?thesis by (rule r_into_rtranclp)
qed

lemma safe_update_failed:
  assumes "safe_update E uid fs st = (Inl e, st')"
  shows "tier_steps full st st'"
  using assms by (cases rule: safe_update_cases) (auto intro: frame_step)

section \<open>Checkout, cancellation, clean-up\<close>

lemma ensure_razorpay_customer_keep:
  assumes "ensure_razorpay_customer E G db_user ctx st = (r, st')"
  shows "same_access (bs_db st) (bs_db st') \<and> bs_ledger st' = bs_ledger st"
proof (cases "truthy_str (user_col razorpay_customer_id db_user)")
  case True
  then show ?thesis using assms by (simp add: ensure_razorpay_customer_def Let_def)
next
  case False
  obtain c g where c: "razorpay_customer G (name_of db_user) (ctx_email ctx) (bs_gw st) = (c, g)" by fastforce
  show ?thesis
  proof (cases c)
    case (Inl e)
    then show ?thesis using assms False c by (auto simp: ensure_razorpay_customer_def Let_def)
  next
    case (Inr i)
    obtain r1 st1 where s: "repo_update E (ctx_user_id ctx) [SetRazorpayCustomerId (Some i)] (st\<lparr>bs_gw := g\<rparr>) = (r1, st1)"
      by fastforce
    have "st' = st1" using assms False c Inr s by (auto simp: ensure_razorpay_customer_def Let_def split: sum.splits)
    then show ?thesis using repo_update_keep [OF s] by simp
  qed
qed

lemma ensure_stripe_customer_keep:
  assumes "ensure_stripe_customer E G db_user ctx st = (r, st')"
  shows "same_access (bs_db st) (bs_db st') \<and> bs_ledger st' = bs_ledger st"
proof (cases "truthy_str (user_col stripe_customer_id db_user)")
  case True
  then show ?thesis using assms by (simp add: ensure_stripe_customer_def Let_def)
next
  case False
  obtain c g where c: "st_customer_create G (ctx_email ctx) (name_of db_user) (bs_gw st) = (c, g)" by fastforce
  show ?thesis
  proof (cases c)
    case (Inl e)
    then show ?thesis using assms False c by (auto simp: ensure_stripe_customer_def Let_def)
  next
    case (Inr i)
    obtain r1 st1 where s: "repo_update E (ctx_user_id ctx) [SetStripeCustomerId (Some i)] (st\<lparr>bs_gw := g\<rparr>) = (r1, st1)"
      by fastforce
    have "st' = st1" using assms False c Inr s by (auto simp: ensure_stripe_customer_def Let_def split: sum.splits)
    then show ?thesis using repo_update_keep [OF s] by simp
  qed
qed

lemma tier_of_user_col: "get_by_id db uid = u \<Longrightarrow> str_or (user_col subscription_tier u) ''free'' = tier_of db uid"
  by (simp add: tier_of_def)

lemma tier_of_same: "same_access db db' \<Longrightarrow> tier_of db' uid = tier_of db uid"
proof -
  assume "same_access db db'"
  then have "map_option (\<lambda>u. (subscription_tier u, role u)) (get_by_id db' uid) =
    map_option (\<lambda>u. (subscription_tier u, role u)) (get_by_id db uid)" by (simp add: same_access_def)
  then show ?thesis by (cases "get_by_id db' uid"; cases "get_by_id db uid") (auto simp: tier_of_def user_col_def)
qed

lemma gw_step: "tier_steps full st (st\<lparr>bs_gw := g\<rparr>)"
  by (rule frame_step) simp_all

lemma gw_then: "tier_steps full (st\<lparr>bs_gw := g\<rparr>) st' \<Longrightarrow> tier_steps full st st'"
  by (rule rtranclp_trans [OF gw_step])

lemma paid_tier_known: "tier \<in> {''pro'', ''premium''} \<Longrightarrow> tier \<in> set (map fst TIER_ORDER)"
  by (auto simp: TIER_ORDER_def)

lemma free_known: "''free'' \<in> set (map fst TIER_ORDER)"
  by (simp add: TIER_ORDER_def)

text \<open>
  The upgrades: a sequence of steps, with the entry in the ledger unless the database failed after the
  gateway had changed the plan.
\<close>

lemma razorpay_upgrade_steps:
  assumes "razorpay_upgrade E G db_user ctx tier plan rz st = (r, st')" "tier \<in> {''pro'', ''premium''}" "quiet full E"
    and "str_or (user_col subscription_tier db_user) ''free'' = tier_of (bs_db st) (ctx_user_id ctx)"
  shows "tier_steps full st st'"
proof -
  obtain s g1 where f: "fetch_rz_sub_status G (the rz) (bs_gw st) = (s, g1)" by fastforce
  obtain e g2 where ed: "rz_edit G (the rz) plan g1 = (e, g2)" by fastforce
  obtain u st2 where up: "safe_update E (ctx_user_id ctx) [SetSubscriptionTier (Some tier), SetSubscriptionStatus (Some ''active'')]
      (st\<lparr>bs_gw := g2\<rparr>) = (u, st2)" by fastforce
  let ?log = "log_transaction E (ctx_user_id ctx) ''razorpay'' ''upgrade'' (col_json rz) JNull
      (Some (of_int (dict_get TIER_PRICE_INR tier 0))) (Some ''INR'') (Some (tier_of (bs_db st) (ctx_user_id ctx))) (Some tier)
      ''success'' None"
  consider "st' = st" | "st' = st\<lparr>bs_gw := g1\<rparr>" | "st' = st\<lparr>bs_gw := g2\<rparr>"
    | x where "u = Inl x" "st' = st2" | "u = Inr ()" "st' = ?log st2"
    using assms(1) f ed up
    by (cases e; cases u) (auto simp: razorpay_upgrade_def Let_def assms(4) split: if_splits)
  then show ?thesis
  proof cases
    case 4
    then show ?thesis using safe_update_failed [OF up [unfolded 4(1)], of full] by (auto intro: gw_then)
  next
    case 5
    have "tier_steps full (st\<lparr>bs_gw := g2\<rparr>) (?log st2)"
      using up 5 assms(3) paid_tier_known [OF assms(2)] by (intro set_and_log) auto
    then show ?thesis using 5 by (auto intro: gw_then)
  qed (auto intro: gw_step)
qed

lemma stripe_upgrade_steps:
  assumes "stripe_upgrade E G db_user ctx tier price cust st = (r, st')" "tier \<in> {''pro'', ''premium''}" "quiet full E"
    and "str_or (user_col subscription_tier db_user) ''free'' = tier_of (bs_db st) (ctx_user_id ctx)"
  shows "tier_steps full st st'"
proof -
  let ?sub = "user_col stripe_subscription_id db_user"
  obtain s g1 where f: "st_retrieve G (the ?sub) (bs_gw st) = (s, g1)" by fastforce
  obtain e g2 where ed: "st_modify G (the ?sub) (hd (snd (projr s))) price g1 = (e, g2)" by fastforce
  obtain u st2 where up: "safe_update E (ctx_user_id ctx) [SetSubscriptionTier (Some tier), SetSubscriptionStatus (Some ''active'')]
      (st\<lparr>bs_gw := g2\<rparr>) = (u, st2)" by fastforce
  let ?log = "log_transaction E (ctx_user_id ctx) ''stripe'' ''upgrade'' (col_json ?sub) (JStr cust)
      (Some (of_int (dict_get TIER_PRICE_USD tier 0))) (Some ''USD'') (Some (tier_of (bs_db st) (ctx_user_id ctx))) (Some tier)
      ''success'' None"
  consider "st' = st" | "st' = st\<lparr>bs_gw := g1\<rparr>" | "st' = st\<lparr>bs_gw := g2\<rparr>"
    | x where "u = Inl x" "st' = st2" | "u = Inr ()" "st' = ?log st2"
    using assms(1) f ed up
    by (cases s; cases e; cases u) (auto simp: stripe_upgrade_def Let_def assms(4) split: if_splits)
  then show ?thesis
  proof cases
    case 4
    then show ?thesis using safe_update_failed [OF up [unfolded 4(1)], of full] by (auto intro: gw_then)
  next
    case 5
    have "tier_steps full (st\<lparr>bs_gw := g2\<rparr>) (?log st2)"
      using up 5 assms(3) paid_tier_known [OF assms(2)] by (intro set_and_log) auto
    then show ?thesis using 5 by (auto intro: gw_then)
  qed (auto intro: gw_step)
qed

lemma checkout_razorpay_steps:
  assumes "checkout_razorpay E (get_by_id (bs_db st) (ctx_user_id ctx)) ctx tier st = (r, st')"
    and "tier \<in> {''pro'', ''premium''}" "quiet full E"
  shows "tier_steps full st st'"
proof (cases "get_razorpay_client E")
  case (Inl e)
  then show ?thesis using assms(1) by (simp add: checkout_razorpay_def)
next
  case G: (Inr G)
  let ?u = "get_by_id (bs_db st) (ctx_user_id ctx)"
  obtain c st1 where c: "ensure_razorpay_customer E G ?u ctx st = (c, st1)" by fastforce
  note k1 = ensure_razorpay_customer_keep [OF c]
  obtain i plan where ok: "c = Inr i \<and> get_razorpay_plan_id E tier = Inr plan \<or> st' = st1"
    using assms(1) G c by (auto simp: checkout_razorpay_def split: sum.splits)
  show ?thesis
  proof (cases "st' = st1")
    case True
    then show ?thesis using keep_steps [OF k1] by simp
  next
    case False
    with ok have ok: "c = Inr i" "get_razorpay_plan_id E tier = Inr plan" by auto
    obtain up sub st2 where u: "razorpay_upgrade E G ?u ctx tier plan (user_col razorpay_subscription_id ?u) st1 = ((up, sub), st2)"
      by (metis prod.collapse)
    have "tier_steps full st1 st2"
      by (rule razorpay_upgrade_steps [OF u assms(2,3)]) (simp add: tier_of_same [OF conjunct1 [OF k1]] tier_of_user_col)
    then have to2: "tier_steps full st st2" using keep_steps [OF k1] by (rule rtranclp_trans [rotated])
    define st3 where "st3 = (if truthy_str sub then st2\<lparr>bs_gw := snd (rz_cancel G (the sub) (bs_gw st2))\<rparr> else st2)"
    obtain n g where n: "rz_create G plan i 12 (bs_gw st3) = (n, g)" by fastforce
    have to3: "tier_steps full st (st3\<lparr>bs_gw := h\<rparr>)" for h
      using to2 by (rule rtranclp_trans) (auto simp: st3_def intro: frame_step)
    obtain s st4 where up4: "repo_update E (ctx_user_id ctx) [SetRazorpaySubscriptionId (Some (projr n))] (st3\<lparr>bs_gw := g\<rparr>) = (s, st4)"
      by fastforce
    consider "st' = st2" | "st' = st3\<lparr>bs_gw := g\<rparr>" | "st' = st4"
      using assms(1) G c ok u n up4
      by (cases n; cases s) (auto simp: checkout_razorpay_def Let_def st3_def [symmetric] split: if_splits)
    then show ?thesis
    proof cases
      case 3
      then show ?thesis using keep_steps [OF repo_update_keep [OF up4]] to3 by (auto intro: rtranclp_trans)
    qed (use to2 to3 in auto)
  qed
qed

lemma checkout_stripe_steps:
  assumes "checkout_stripe E (get_by_id (bs_db st) (ctx_user_id ctx)) ctx tier st = (r, st')"
    and "tier \<in> {''pro'', ''premium''}" "quiet full E"
  shows "tier_steps full st st'"
proof (cases "get_stripe_client E")
  case (Inl e)
  then show ?thesis using assms(1) by (simp add: checkout_stripe_def)
next
  case G: (Inr G)
  let ?u = "get_by_id (bs_db st) (ctx_user_id ctx)"
  obtain c st1 where c: "ensure_stripe_customer E G ?u ctx st = (c, st1)" by fastforce
  note k1 = ensure_stripe_customer_keep [OF c]
  show ?thesis
  proof (cases "st' = st1")
    case True
    then show ?thesis using keep_steps [OF k1] by simp
  next
    case False
    then obtain i price where ok: "c = Inr i" "get_stripe_price_id E tier = Inr price"
      using assms(1) G c by (auto simp: checkout_stripe_def split: sum.splits)
    obtain up st2 where u: "stripe_upgrade E G ?u ctx tier price i st1 = (up, st2)" by fastforce
    have "tier_steps full st1 st2"
      by (rule stripe_upgrade_steps [OF u assms(2,3)]) (simp add: tier_of_same [OF conjunct1 [OF k1]] tier_of_user_col)
    then have to2: "tier_steps full st st2" using keep_steps [OF k1] by (rule rtranclp_trans [rotated])
    moreover have "st' = st2 \<or> (\<exists>g. st' = st2\<lparr>bs_gw := g\<rparr>)"
      using assms(1) G c ok u by (auto simp: checkout_stripe_def Let_def split: if_splits sum.splits prod.splits)
    ultimately show ?thesis by (auto intro: rtranclp_trans [OF to2 gw_step])
  qed
qed

lemma checkout_steps:
  assumes "checkout E tier gateway ctx st = (r, st')" "quiet full E"
  shows "tier_steps full st st'"
proof (cases "tier \<in> {''pro'', ''premium''}")
  case True
  then show ?thesis
    using assms checkout_razorpay_steps [of E st ctx tier r st' full] checkout_stripe_steps [of E st ctx tier r st' full]
    by (auto simp: checkout_def Let_def split: if_splits)
qed (use assms in \<open>auto simp: checkout_def\<close>)

lemma cancel_steps:
  assumes "cancel_subscription E ctx st = (r, st')" "quiet full E"
  shows "tier_steps full st st'"
proof -
  let ?u = "get_by_id (bs_db st) (ctx_user_id ctx)"
  let ?rz = "user_col razorpay_subscription_id ?u" and ?s = "user_col stripe_subscription_id ?u"
  let ?fs = "[SetSubscriptionTier (Some ''free''), SetSubscriptionStatus (Some ''cancelled''),
      SetRazorpaySubscriptionId None, SetStripeSubscriptionId None]"
  let ?log = "\<lambda>gw. log_transaction E (ctx_user_id ctx) gw ''user_cancelled'' (col_json (if truthy_str ?s then ?s else ?rz))
      JNull None None (Some (tier_of (bs_db st) (ctx_user_id ctx))) (Some ''free'') ''success'' None"
  consider "st' = st" | g x where "safe_update E (ctx_user_id ctx) ?fs (st\<lparr>bs_gw := g\<rparr>) = (Inl x, st')"
    | g st3 gw where "safe_update E (ctx_user_id ctx) ?fs (st\<lparr>bs_gw := g\<rparr>) = (Inr (), st3)" "st' = ?log gw st3"
  proof -
    define st1 where "st1 = (if truthy_str ?rz then (case get_razorpay_client E of Inl e \<Rightarrow> st
        | Inr G \<Rightarrow> st\<lparr>bs_gw := snd (rz_cancel G (the ?rz) (bs_gw st))\<rparr>) else st)"
    define st2 where "st2 = (if truthy_str ?s then (case get_stripe_client E of Inl e \<Rightarrow> st1
        | Inr G \<Rightarrow> st1\<lparr>bs_gw := snd (st_cancel G (the ?s) (bs_gw st1))\<rparr>) else st1)"
    have "\<exists>g. st2 = st\<lparr>bs_gw := g\<rparr>"
      by (auto simp: st2_def st1_def split: sum.splits) (metis billing_state.surjective billing_state.update_convs(3))+
    then obtain g where g: "st2 = st\<lparr>bs_gw := g\<rparr>" by blast
    obtain v st3 where v: "safe_update E (ctx_user_id ctx) ?fs st2 = (v, st3)" by fastforce
    have "st' = st \<or> (\<exists>x. v = Inl x \<and> st' = st3) \<or> (v = Inr () \<and> (\<exists>gw. st' = ?log gw st3))"
      using assms(1) v unfolding cancel_subscription_def Let_def st1_def [symmetric] st2_def [symmetric] tier_of_def
      by (cases v) (auto split: if_splits)
    then show thesis using that v g by auto
  qed
  then show ?thesis
  proof cases
    case (2 g x)
    then show ?thesis using safe_update_failed [OF 2, of full] by (rule_tac gw_then)
  next
    case (3 g st3 gw)
    have "tier_steps full (st\<lparr>bs_gw := g\<rparr>) (?log gw st3)"
      using 3 assms(2) free_known by (intro set_and_log) (auto simp del: set_map)
    then show ?thesis unfolding 3(2) by (rule gw_then)
  qed simp
qed

lemma cleanup_steps:
  "cleanup_subscriptions E dry ctx st = (r, st') \<Longrightarrow> bs_db st' = bs_db st \<and> bs_ledger st' = bs_ledger st"
  by (auto simp: cleanup_subscriptions_def Let_def split: sum.splits prod.splits)

section \<open>Webhooks\<close>

text \<open>
  The types of the fields the gateways document: identifiers are texts or null, amounts numbers or null, the currency a
  text; for the entity of a Razorpay event and the object of a Stripe event.
\<close>

definition typed_obj :: "json_dict \<Rightarrow> bool" where
  "typed_obj d \<longleftrightarrow> (\<forall>k \<in> {''id'', ''customer_id'', ''customer'', ''subscription''}. column_text (jget d k JNull) \<noteq> None) \<and>
     (\<exists>x. jget d ''amount_total'' JNull \<in> {JNull, JNum x}) \<and> (\<exists>s. jget d ''currency'' (JStr ''usd'') = JStr s)"

definition razorpay_typed :: "json \<Rightarrow> bool" where
  "razorpay_typed j \<longleftrightarrow> (case bindE (as_dict j) (\<lambda>p. bindE (event_entity p ''subscription'') as_dict) of
     Inl e \<Rightarrow> True | Inr d \<Rightarrow> typed_obj d)"

definition stripe_typed :: "json \<Rightarrow> bool" where
  "stripe_typed j \<longleftrightarrow> (case bindE (as_dict j) (\<lambda>p. bindE (as_dict (jget p ''data'' (JObj []))) (\<lambda>e.
       as_dict (jget e ''object'' (JObj [])))) of Inl e \<Rightarrow> True | Inr d \<Rightarrow> typed_obj d)"

lemma typed_col: "typed_obj d \<Longrightarrow> k \<in> {''id'', ''customer_id'', ''customer'', ''subscription''} \<Longrightarrow>
    column_text (jget d k (JStr [])) \<noteq> None \<and> column_text (jget d k JNull) \<noteq> None"
  by (auto simp: typed_obj_def jget_def split: option.splits)

lemma typed_amount: "typed_obj d \<Longrightarrow> \<exists>a. stripe_amount E (jget d ''amount_total'' JNull) = Inr a"
  by (auto simp: typed_obj_def stripe_amount_def)

lemma typed_currency: "typed_obj d \<Longrightarrow> \<exists>c. json_upper (jget d ''currency'' (JStr ''usd'')) = Inr c"
  by (auto simp: typed_obj_def)

lemma plan_tier_known: "plan_id_to_tier E p = Some t \<Longrightarrow> t \<in> {''pro'', ''premium''}"
  by (auto simp: plan_id_to_tier_def split: if_splits)

lemma tier_or_free_tier_of: "get_by_id db (user_id u) = Some u \<Longrightarrow> tier_or_free u = tier_of db (user_id u)"
  by (simp add: tier_or_free_def tier_of_def user_col_def)

definition ids_distinct :: "auth_db \<Rightarrow> bool" where
  "ids_distinct db \<longleftrightarrow> distinct (map user_id (db_users db))"

lemma found_user:
  assumes "find_user_by sc cc db s c = Some u" "ids_distinct db"
  shows "get_by_id db (user_id u) = Some u"
  using find_user_by_in [OF assms(1)] assms(2) by (simp add: get_by_id_unique ids_distinct_def)

text \<open>A handler that updates the row it found and then writes to the ledger.\<close>

lemma update_then_log:
  assumes "(case safe_update E uid fs st of (Inl e, st1) \<Rightarrow> (Inl e, st1) | (Inr _, st1) \<Rightarrow> (Inr (), entry st1)) = (r, st')"
    and "\<And>st1. safe_update E uid fs st = (Inr (), st1) \<Longrightarrow> tier_steps full st (entry st1)"
  shows "tier_steps full st st'"
proof -
  obtain v st1 where v: "safe_update E uid fs st = (v, st1)" by fastforce
  show ?thesis
  proof (cases v)
    case (Inl e)
    then show ?thesis using assms(1) v safe_update_failed [of E uid fs st e st1 full] by simp
  next
    case (Inr x)
    then show ?thesis using assms v by simp
  qed
qed

lemma handle_charged_steps:
  assumes "handle_charged E d st = (r, st')" "quiet full E" "full \<longrightarrow> typed_obj d" "ids_distinct (bs_db st)"
  shows "tier_steps full st st'"
proof (cases "st' = st")
  case False
  then obtain u tier sub where u: "find_user_by_razorpay (bs_db st) (jget d ''id'' (JStr [])) (jget d ''customer_id'' (JStr [])) = Some u"
      "plan_id_to_tier E (jget d ''plan_id'' (JStr [])) = Some tier" "column_text (jget d ''id'' (JStr [])) = Some sub"
    and upd: "(case safe_update E (user_id u) [SetSubscriptionTier (Some tier), SetSubscriptionStatus (Some ''active''),
        SetRazorpaySubscriptionId sub] st of (Inl e, st1) \<Rightarrow> (Inl e, st1) | (Inr _, st1) \<Rightarrow>
        (Inr (), log_transaction E (user_id u) ''razorpay'' ''charged'' (jget d ''id'' (JStr [])) (jget d ''customer_id'' (JStr []))
           (Some (of_int (dict_get TIER_PRICE_INR tier 0))) (Some ''INR'') (Some (tier_or_free u)) (Some tier) ''success''
           (Some (JObj d)) st1)) = (r, st')"
    using assms(1) by (auto simp: handle_charged_def Let_def split: if_splits option.splits)
  have t: "tier_or_free u = tier_of (bs_db st) (user_id u)"
    using found_user [OF u(1) [unfolded find_user_by_razorpay_def] assms(4)] by (rule tier_or_free_tier_of)
  show ?thesis
    by (rule update_then_log [OF upd], rule set_and_log, assumption)
      (use assms(2,3) t typed_col [of d] paid_tier_known [OF plan_tier_known [OF u(2)]] in auto)
qed simp

lemma handle_cancelled_steps:
  assumes "handle_cancelled E d st = (r, st')" "quiet full E" "full \<longrightarrow> typed_obj d" "ids_distinct (bs_db st)"
  shows "tier_steps full st st'"
proof (cases "st' = st")
  case False
  then obtain u where u: "find_user_by_razorpay (bs_db st) (jget d ''id'' (JStr [])) (jget d ''customer_id'' (JStr [])) = Some u"
    and upd: "(case safe_update E (user_id u) [SetSubscriptionTier (Some ''free''), SetSubscriptionStatus (Some ''cancelled''),
        SetRazorpaySubscriptionId None] st of (Inl e, st1) \<Rightarrow> (Inl e, st1) | (Inr _, st1) \<Rightarrow>
        (Inr (), log_transaction E (user_id u) ''razorpay'' ''cancelled'' (jget d ''id'' (JStr [])) (jget d ''customer_id'' (JStr []))
           None None (Some (tier_or_free u)) (Some ''free'') ''success'' (Some (JObj d)) st1)) = (r, st')"
    using assms(1) by (auto simp: handle_cancelled_def Let_def split: if_splits option.splits)
  have t: "tier_or_free u = tier_of (bs_db st) (user_id u)"
    using found_user [OF u(1) [unfolded find_user_by_razorpay_def] assms(4)] by (rule tier_or_free_tier_of)
  show ?thesis
    by (rule update_then_log [OF upd], rule set_and_log, assumption)
      (use assms(2,3) t typed_col [of d] free_known in auto)
qed simp

text \<open>A failed payment changes the status only.\<close>

lemma past_due_steps:
  assumes "(case safe_update E uid [SetSubscriptionStatus (Some s)] st of (Inl e, st1) \<Rightarrow> (Inl e, st1) | (Inr _, st1) \<Rightarrow>
      (Inr (), log_transaction E uid gw ev sub cust am cu be None sta raw st1)) = (r, st')"
  shows "tier_steps full st st'"
proof (rule update_then_log [OF assms])
  fix st1
  assume "safe_update E uid [SetSubscriptionStatus (Some s)] st = (Inr (), st1)"
  then show "tier_steps full st (log_transaction E uid gw ev sub cust am cu be None sta raw st1)"
    by (rule rtranclp_trans [OF keep_steps [OF safe_update_keep] log_step]) simp_all
qed

lemma handle_payment_failed_steps:
  "handle_payment_failed E p d st = (r, st') \<Longrightarrow> tier_steps full st st'"
  unfolding handle_payment_failed_def Let_def
  by (cases "find_user_by_razorpay (bs_db st) (jget d ''id'' (JStr [])) (jget p ''customer_id'' (JStr []))")
    (simp, simp only: option.case, rule past_due_steps)

lemma handle_stripe_payment_failed_steps:
  "handle_stripe_payment_failed E d st = (r, st') \<Longrightarrow> tier_steps full st st'"
  unfolding handle_stripe_payment_failed_def Let_def
  by (cases "find_user_by_stripe (bs_db st) (jget d ''subscription'' (JStr [])) (jget d ''customer'' (JStr []))")
    (simp, simp only: option.case, rule past_due_steps)

lemma handle_stripe_sub_change_steps:
  assumes "handle_stripe_sub_change E d st = (r, st')" "quiet full E" "full \<longrightarrow> typed_obj d" "ids_distinct (bs_db st)"
  shows "tier_steps full st st'"
proof (cases "st' = st")
  case False
  then obtain u where u: "find_user_by_stripe (bs_db st) (jget d ''id'' (JStr [])) (jget d ''customer'' (JStr [])) = Some u"
    and upd: "(case safe_update E (user_id u) [SetSubscriptionTier (Some ''free''), SetSubscriptionStatus (Some ''cancelled''),
        SetStripeSubscriptionId None] st of (Inl e, st1) \<Rightarrow> (Inl e, st1) | (Inr _, st1) \<Rightarrow>
        (Inr (), log_transaction E (user_id u) ''stripe'' ''cancelled'' (jget d ''id'' JNull) (jget d ''customer'' (JStr []))
           None None (Some (tier_or_free u)) (Some ''free'') ''success'' (Some (JObj d)) st1)) = (r, st')"
    using assms(1) by (auto simp: handle_stripe_sub_change_def Let_def split: if_splits option.splits)
  have t: "tier_or_free u = tier_of (bs_db st) (user_id u)"
    using found_user [OF u(1) [unfolded find_user_by_stripe_def] assms(4)] by (rule tier_or_free_tier_of)
  show ?thesis
    by (rule update_then_log [OF upd], rule set_and_log, assumption)
      (use assms(2,3) t typed_col [of d] free_known in auto)
qed simp

lemma handle_stripe_checkout_steps:
  assumes "handle_stripe_checkout E d st = (r, st')" "quiet full E" "full \<longrightarrow> typed_obj d"
  shows "tier_steps full st st'"
proof (cases "st' = st")
  case False
  let ?cust = "jget d ''customer'' (JStr [])" and ?sub = "jget d ''subscription'' (JStr [])"
  let ?amt = "stripe_amount E (jget d ''amount_total'' JNull)" and ?cur = "json_upper (jget d ''currency'' (JStr ''usd''))"
  obtain u t cust sub meta where m: "as_dict (jget d ''metadata'' (JObj [])) = Inr meta" "jget meta ''user_id'' (JStr []) = JStr u"
      "jget meta ''tier'' (JStr []) = JStr t" "column_text ?cust = Some cust" "column_text ?sub = Some sub" "t \<in> {''pro'', ''premium''}" "u \<noteq> []"
    using assms(1) False
    by (auto simp: handle_stripe_checkout_def Let_def split: sum.splits if_splits json.splits option.splits)
  let ?fs = "[SetSubscriptionTier (Some t), SetSubscriptionStatus (Some ''active''), SetStripeCustomerId cust, SetStripeSubscriptionId sub]"
  let ?log = "\<lambda>amt cur. log_transaction E u ''stripe'' ''checkout_completed'' ?sub ?cust amt (Some cur)
      (Some (tier_of (bs_db st) u)) (Some t) ''success'' (Some (JObj d))"
  obtain v st1 where v: "safe_update E u ?fs st = (v, st1)" by fastforce
  have known: "t \<in> set (map fst TIER_ORDER)" by (rule paid_tier_known [OF m(6)])
  show ?thesis
  proof (cases v)
    case (Inl e)
    then have "st' = st1" using assms(1) m v by (auto simp: handle_stripe_checkout_def Let_def)
    then show ?thesis using safe_update_failed [OF v [unfolded Inl]] by simp
  next
    case (Inr x)
    show ?thesis
    proof (cases "\<exists>amt cur. ?amt = Inr amt \<and> ?cur = Inr cur")
      case True
      then obtain amt cur where a: "?amt = Inr amt" "?cur = Inr cur" by blast
      then have "st' = ?log amt cur st1"
        using assms(1) m v Inr by (auto simp: handle_stripe_checkout_def Let_def tier_of_def)
      moreover have "tier_steps full st (?log amt cur st1)"
        using m(4,5) by (intro set_and_log [OF v [unfolded Inr] _ _ known assms(2)]) simp_all
      ultimately show ?thesis by simp
    next
      case False
      then have "\<not> full" using assms(3) typed_amount [of d E] typed_currency [of d] by blast
      moreover have "st' = st1"
        using assms(1) v Inr False unfolding handle_stripe_checkout_def m Let_def
        by (cases ?amt; cases ?cur) (use m in auto)
      ultimately show ?thesis using set_unlogged [OF v [unfolded Inr] _ _ known] by simp
    qed
  qed
qed simp

lemma razorpay_webhook_steps:
  assumes "razorpay_webhook E body sig st = (r, st')" "quiet full E" "ids_distinct (bs_db st)"
    and "full \<longrightarrow> (\<forall>j. be_loads E body = Some j \<longrightarrow> razorpay_typed j)"
  shows "tier_steps full st st'"
proof (cases "st' = st")
  case False
  then obtain j p e d where j: "be_loads E body = Some j" "as_dict j = Inr p" "event_entity p ''subscription'' = Inr e" "as_dict e = Inr d"
    and h: "handle_charged E d st = (r, st') \<or> handle_cancelled E d st = (r, st') \<or>
      (\<exists>pay. handle_payment_failed E pay d st = (r, st'))"
    using assms(1)
    by (auto simp: razorpay_webhook_def Let_def split: if_splits sum.splits option.splits) blast
  have "full \<longrightarrow> typed_obj d" using assms(4) j by (auto simp: razorpay_typed_def)
  then show ?thesis
    using h handle_charged_steps [OF _ assms(2) _ assms(3)] handle_cancelled_steps [OF _ assms(2) _ assms(3)]
      handle_payment_failed_steps by blast
qed simp

lemma stripe_webhook_steps:
  assumes "stripe_webhook E body sig st = (r, st')" "quiet full E" "ids_distinct (bs_db st)"
    and "full \<longrightarrow> (\<forall>j. st_construct_event (be_gateways E) body sig (stripe_webhook_secret E) = Some j \<longrightarrow> stripe_typed j)"
  shows "tier_steps full st st'"
proof (cases "st' = st")
  case False
  then obtain j p e d where j: "st_construct_event (be_gateways E) body sig (stripe_webhook_secret E) = Some j" "as_dict j = Inr p"
      "as_dict (jget p ''data'' (JObj [])) = Inr e" "as_dict (jget e ''object'' (JObj [])) = Inr d"
    and h: "handle_stripe_checkout E d st = (r, st') \<or> handle_stripe_sub_change E d st = (r, st') \<or>
      handle_stripe_payment_failed E d st = (r, st')"
    using assms(1)
    by (auto simp: stripe_webhook_def get_stripe_client_def Let_def split: if_splits sum.splits option.splits)
  have "full \<longrightarrow> typed_obj d" using assms(4) j by (auto simp: stripe_typed_def)
  then show ?thesis
    using h handle_stripe_checkout_steps [OF _ assms(2)] handle_stripe_sub_change_steps [OF _ assms(2) _ assms(3)]
      handle_stripe_payment_failed_steps by blast
qed simp

end
