(* ===== verification/Billing_Claims.thy ===== *)
theory Billing_Claims
  imports Billing_Trail
begin

text \<open>
  The properties of billing: the ledger accounts for every tier, roles follow tiers whatever fails, events of
  earlier Razorpay subscriptions change nothing, a payment opens the access it is for, the clean-up
  cancels orphans only; and what the code does when an upgrade fails half-way. With a reference
  gateway for the concrete runs.
\<close>

section \<open>Reachable states\<close>

text \<open>
  Any request, in any environment; with \<open>full\<close> the database does not fail and the events have the types
  the gateways document.
\<close>

inductive billing_step :: "bool \<Rightarrow> 'g billing_state \<Rightarrow> 'g billing_state \<Rightarrow> bool" for full where
  checkout: "checkout E tier gateway ctx st = (r, st') \<Longrightarrow> quiet full E \<Longrightarrow> billing_step full st st'"
| cancel: "cancel_subscription E ctx st = (r, st') \<Longrightarrow> quiet full E \<Longrightarrow> billing_step full st st'"
| cleanup: "cleanup_subscriptions E dry_run ctx st = (r, st') \<Longrightarrow> billing_step full st st'"
| razorpay_event: "razorpay_webhook E body sig st = (r, st') \<Longrightarrow> quiet full E \<Longrightarrow>
    full \<longrightarrow> (\<forall>j. be_loads E body = Some j \<longrightarrow> razorpay_typed j) \<Longrightarrow> billing_step full st st'"
| stripe_event: "stripe_webhook E body sig st = (r, st') \<Longrightarrow> quiet full E \<Longrightarrow>
    full \<longrightarrow> (\<forall>j. st_construct_event (be_gateways E) body sig (stripe_webhook_secret E) = Some j \<longrightarrow> stripe_typed j) \<Longrightarrow>
    billing_step full st st'"

lemma billing_step_steps: "billing_step full st st' \<Longrightarrow> ids_distinct (bs_db st) \<Longrightarrow> tier_steps full st st'"
proof (induction rule: billing_step.induct)
  case (cleanup E dry_run ctx st r st')
  then show ?case using cleanup_steps [OF cleanup(1)] by (simp add: frame_step)
qed (auto intro: checkout_steps cancel_steps razorpay_webhook_steps stripe_webhook_steps)

lemma tier_step_ids: "tier_step full st st' \<Longrightarrow> ids_distinct (bs_db st') = ids_distinct (bs_db st)"
  by (induction rule: tier_step.induct) (simp_all add: same_access_def set_access_def ids_distinct_def)

lemma tier_steps_ids: "tier_steps full st st' \<Longrightarrow> ids_distinct (bs_db st') = ids_distinct (bs_db st)"
  by (induction rule: rtranclp_induct) (simp_all add: tier_step_ids)

lemma billing_steps: "(billing_step full)\<^sup>*\<^sup>* st st' \<Longrightarrow> ids_distinct (bs_db st) \<Longrightarrow> tier_steps full st st'"
proof (induction rule: rtranclp_induct)
  case (step y z)
  then have "tier_steps full y z" using billing_step_steps tier_steps_ids by blast
  then show ?case using step by (meson rtranclp_trans)
qed simp

section \<open>The ledger accounts for the tiers\<close>






section \<open>Roles follow tiers\<close>

definition role_ok :: "auth_db \<Rightarrow> string \<Rightarrow> bool" where
  "role_ok db uid \<longleftrightarrow> (case get_by_id db uid of None \<Rightarrow> True
     | Some u \<Rightarrow> role u = ''superuser'' \<or> role u = role_for_tier (subscription_tier u))"

lemma tier_step_role_ok: "tier_step full st st' \<Longrightarrow> role_ok (bs_db st) uid \<Longrightarrow> role_ok (bs_db st') uid"
proof (induction rule: tier_step.induct)
  case (keep st st')
  then have "map_option (\<lambda>u. (subscription_tier u, role u)) (get_by_id (bs_db st') uid) =
     map_option (\<lambda>u. (subscription_tier u, role u)) (get_by_id (bs_db st) uid)" by (simp add: same_access_def)
  then show ?case using keep.prems
    by (cases "get_by_id (bs_db st) uid"; cases "get_by_id (bs_db st') uid") (auto simp: role_ok_def)
qed (auto simp: role_ok_def set_access_def)

text \<open>
  C12: whatever fails on the way, and whatever the gateways send, a user whose role agreed with the tier (or who is
  a superuser) has a role that agrees with the tier after any sequence of requests.
\<close>

theorem roles_follow_tiers:
  assumes "(billing_step False)\<^sup>*\<^sup>* st st'" "ids_distinct (bs_db st)" "role_ok (bs_db st) uid"
  shows "role_ok (bs_db st') uid"
  using billing_steps [OF assms(1,2)] assms(3)
  by (induction rule: rtranclp_induct) (auto intro: tier_step_role_ok)

section \<open>Other users\<close>

definition others_same :: "string \<Rightarrow> auth_db \<Rightarrow> auth_db \<Rightarrow> bool" where
  "others_same uid db db' \<longleftrightarrow> (\<forall>k. k \<noteq> uid \<longrightarrow> get_by_id db' k = get_by_id db k)"

lemma others_same_refl [simp]: "others_same uid db db"
  by (simp add: others_same_def)

lemma others_same_trans: "others_same uid a b \<Longrightarrow> others_same uid b c \<Longrightarrow> others_same uid a c"
  by (simp add: others_same_def)

lemma update_user_others: "update_user db now up uid fs = Inr (u', db') \<Longrightarrow> others_same uid db db'"
  by (erule update_user_result) (simp add: others_same_def)

lemma repo_update_others: "repo_update E uid fs st = (r, st') \<Longrightarrow> others_same uid (bs_db st) (bs_db st')"
  by (erule repo_update_cases) (auto intro: update_user_others)

lemma safe_update_others: "safe_update E uid fs st = (r, st') \<Longrightarrow> others_same uid (bs_db st) (bs_db st')"
  by (erule safe_update_cases) (auto intro: update_user_others)

lemma ensure_razorpay_customer_others:
  "ensure_razorpay_customer E G db_user ctx st = (r, st') \<Longrightarrow> others_same (ctx_user_id ctx) (bs_db st) (bs_db st')"
  using repo_update_others [of E "ctx_user_id ctx"]
  by (fastforce simp: ensure_razorpay_customer_def Let_def split: if_splits sum.splits prod.splits)

lemma razorpay_upgrade_others:
  "razorpay_upgrade E G db_user ctx tier plan rz st = (r, st') \<Longrightarrow> others_same (ctx_user_id ctx) (bs_db st) (bs_db st')"
  using safe_update_others [of E "ctx_user_id ctx"]
  by (fastforce simp: razorpay_upgrade_def Let_def split: if_splits sum.splits prod.splits)

text \<open>A new Razorpay subscription is stored for the caller, and for nobody else.\<close>

lemma new_subscription_stored:
  assumes "checkout_razorpay E db_user ctx tier st = (Inr resp, st')" "\<not> co_upgraded resp"
  obtains u where "get_by_id (bs_db st') (ctx_user_id ctx) = Some u" "razorpay_subscription_id u = co_subscription_id resp"
    and "others_same (ctx_user_id ctx) (bs_db st) (bs_db st')"
proof -
  obtain G i st1 plan where G: "get_razorpay_client E = Inr G" "ensure_razorpay_customer E G db_user ctx st = (Inr i, st1)"
      "get_razorpay_plan_id E tier = Inr plan"
    using assms(1) by (auto simp: checkout_razorpay_def split: sum.splits prod.splits)
  obtain up sub st2 where u: "razorpay_upgrade E G db_user ctx tier plan (user_col razorpay_subscription_id db_user) st1 = ((up, sub), st2)"
    by (metis prod.collapse)
  define st3 where "st3 = (if truthy_str sub then st2\<lparr>bs_gw := snd (rz_cancel G (the sub) (bs_gw st2))\<rparr> else st2)"
  obtain n g where n: "rz_create G plan i 12 (bs_gw st3) = (n, g)" by fastforce
  obtain s st4 where up4: "repo_update E (ctx_user_id ctx) [SetRazorpaySubscriptionId (Some (projr n))] (st3\<lparr>bs_gw := g\<rparr>) = (s, st4)"
    by fastforce
  have "\<not> up" using assms G u by (auto simp: checkout_razorpay_def Let_def split: if_splits)
  then obtain m where m: "n = Inr m" "s = Inr ()" "st' = st4" "co_subscription_id resp = Some m"
    using assms(1) G u n up4
    by (cases n; cases s) (auto simp: checkout_razorpay_def Let_def st3_def [symmetric])
  have db3: "bs_db st3 = bs_db st2" by (simp add: st3_def)
  obtain v where "update_user (bs_db st2) (be_now E) (be_audit_up E) (ctx_user_id ctx) [SetRazorpaySubscriptionId (Some m)] =
      Inr (v, bs_db st')"
    using up4 m db3 by (auto elim: repo_update_cases)
  then obtain w where w: "get_by_id (bs_db st') (ctx_user_id ctx) = Some v"
      "v = (fold set_field (fst (sync_role w [SetRazorpaySubscriptionId (Some m)])) w)\<lparr>u_updated_at := be_now E\<rparr>"
    by (rule update_user_result) auto
  have "razorpay_subscription_id v = Some m" using w(2) by (simp add: sync_role_def)
  moreover have "others_same (ctx_user_id ctx) (bs_db st) (bs_db st')"
    using ensure_razorpay_customer_others [OF G(2)] razorpay_upgrade_others [OF u] repo_update_others [OF up4] db3 m(3)
    by (auto intro: others_same_trans)
  ultimately show thesis using that w(1) m(4) by simp
qed

section \<open>A payment opens the access it is for\<close>

definition charged_event :: "string \<Rightarrow> string \<Rightarrow> string \<Rightarrow> json" where
  "charged_event sub plan cust = JObj [(''event'', JStr ''subscription.charged''),
     (''payload'', JObj [(''subscription'', JObj [(''entity'',
        JObj [(''id'', JStr sub), (''plan_id'', JStr plan), (''customer_id'', JStr cust)])])])]"

lemma find_by_sub:
  assumes "get_by_id db uid = Some u" "razorpay_subscription_id u = Some s" "s \<noteq> []"
    and "\<And>k v. k \<noteq> uid \<Longrightarrow> get_by_id db k = Some v \<Longrightarrow> razorpay_subscription_id v \<noteq> Some s" "ids_distinct db"
  shows "find_user_by_razorpay db (JStr s) c = Some u"
proof -
  have eq: "v = u" if "v \<in> set (db_users db)" "razorpay_subscription_id v = Some s" for v
  proof -
    have "get_by_id db (user_id v) = Some v" using that(1) assms(5) by (simp add: ids_distinct_def get_by_id_unique)
    then show ?thesis using assms(1,4) that(2) by (cases "user_id v = uid") auto
  qed
  have "u \<in> set (db_users db)" using assms(1) by (auto simp: get_by_id_def find_Some_iff)
  then have "find (\<lambda>v. col_json (razorpay_subscription_id v) = JStr s) (db_users db) \<noteq> None"
    using assms(2) by (auto simp: find_None_iff col_json_def)
  then obtain v where v: "find (\<lambda>v. col_json (razorpay_subscription_id v) = JStr s) (db_users db) = Some v" by blast
  then have "v \<in> set (db_users db)" "razorpay_subscription_id v = Some s"
    by (auto simp: find_Some_iff col_json_def split: option.splits)
  then show ?thesis using v eq assms(3) by (auto simp: find_user_by_razorpay_def find_user_by_def Let_def list_all_def)
qed

lemma charged_sets_tier:
  assumes "handle_charged E [(''id'', JStr s), (''plan_id'', JStr plan), (''customer_id'', JStr cust)] st = (r, st')"
    and "find_user_by_razorpay (bs_db st) (JStr s) (JStr cust) = Some u" "razorpay_subscription_id u = Some s" "s \<noteq> []"
    and "plan_id_to_tier E (JStr plan) = Some tier" "be_db_error E = (\<lambda>n. None)" "ids_distinct (bs_db st)"
  shows "r = Inr () \<and> (\<exists>u'. get_by_id (bs_db st') (user_id u) = Some u' \<and> subscription_tier u' = Some tier \<and>
    subscription_status u' = Some ''active'' \<and> role u' = (if role u = ''superuser'' then ''superuser'' else role_for_tier (Some tier)))"
proof -
  have u: "get_by_id (bs_db st) (user_id u) = Some u"
    using found_user assms(2,7) unfolding find_user_by_razorpay_def by blast
  let ?fs = "[SetSubscriptionTier (Some tier), SetSubscriptionStatus (Some ''active''), SetRazorpaySubscriptionId (Some s)]"
  obtain u' db' where s: "safe_update E (user_id u) ?fs st = (Inr (), st\<lparr>bs_tick := Suc (bs_tick st), bs_db := db'\<rparr>)"
      "update_user (bs_db st) (be_now E) (be_audit_up E) (user_id u) ?fs = Inr (u', db')"
    using safe_update_up [OF assms(6) u, of ?fs] by blast
  have st': "r = Inr ()" "bs_db st' = db'"
    using assms(1) s(1) assms(2-5) by (auto simp: handle_charged_def Let_def jget_def other_sub_stored_def col_json_def)
  obtain v where v: "get_by_id (bs_db st) (user_id u) = Some v"
      "u' = (fold set_field (fst (sync_role v ?fs)) v)\<lparr>u_updated_at := be_now E\<rparr>" "get_by_id db' (user_id u) = Some u'"
    using s(2) by (rule update_user_result) auto
  have "subscription_status u' = Some ''active''" using v(2) by (auto simp: sync_role_def Let_def)
  moreover have "subscription_tier u' = Some tier" "role u' = (if role u = ''superuser'' then ''superuser'' else role_for_tier (Some tier))"
    using v(3) update_sets_access [OF s(2), of tier] u by (auto simp: set_access_def)
  ultimately show ?thesis using v(3) st' by simp
qed

text \<open>
  C9: a payment opens the access it is for: when the caller's checkout has created a Razorpay subscription that no one
  else has stored, the signed event that this subscription was charged for the plan of the tier gives the
  caller's row that tier, an active status and a role, with which the guards for paid users and for the tier
  admit the caller.
\<close>

theorem payment_opens_access:
  assumes checkout: "checkout E tier ''razorpay'' ctx st = (Inr resp, st1)" "\<not> co_upgraded resp" "co_subscription_id resp = Some s" "s \<noteq> []"
    and "ids_distinct (bs_db st)" and fresh: "\<forall>v \<in> set (db_users (bs_db st)). razorpay_subscription_id v \<noteq> Some s"
    and event: "be_loads E' body = Some (charged_event s plan cust)" "razorpay_webhook_secret E' \<noteq> []"
      "is_ascii (be_hmac E' (razorpay_webhook_secret E') body)"
    and plan: "plan_id_to_tier E' (JStr plan) = Some tier" and up: "be_db_error E' = (\<lambda>n. None)"
  shows "\<exists>st2 u. razorpay_webhook E' body (be_hmac E' (razorpay_webhook_secret E') body) st1 = (Inr (), st2) \<and>
    get_by_id (bs_db st2) (ctx_user_id ctx) = Some u \<and> subscription_status u = Some ''active'' \<and>
    cl_tier (subscription_claims u) = tier \<and>
    (\<forall>c. ctx_role c = role u \<and> ctx_subscription_tier c = cl_tier (subscription_claims u) \<longrightarrow>
       pro_or_superuser c = Inr c \<and> require_tier tier c = Inr c)"
proof -
  have t: "tier \<in> {''pro'', ''premium''}" and co: "checkout_razorpay E (get_by_id (bs_db st) (ctx_user_id ctx)) ctx tier st = (Inr resp, st1)"
    using checkout(1) by (auto simp: checkout_def Let_def split: if_splits)
  obtain u1 where u1: "get_by_id (bs_db st1) (ctx_user_id ctx) = Some u1" "razorpay_subscription_id u1 = Some s"
    and same: "others_same (ctx_user_id ctx) (bs_db st) (bs_db st1)"
    using new_subscription_stored [OF co checkout(2)] checkout(3) by metis
  have uid: "user_id u1 = ctx_user_id ctx" using u1(1) by (rule get_by_id_user_id)
  have ids: "ids_distinct (bs_db st1)"
    using tier_steps_ids [OF checkout_steps [OF checkout(1), of False]] assms(5) by (simp add: quiet_def)
  have others: "razorpay_subscription_id v \<noteq> Some s" if "k \<noteq> ctx_user_id ctx" "get_by_id (bs_db st1) k = Some v" for k v
    using that same fresh get_by_id_mem [of "bs_db st" k v] by (auto simp: others_same_def)
  have f: "find_user_by_razorpay (bs_db st1) (JStr s) (JStr cust) = Some u1"
    by (rule find_by_sub [OF u1 checkout(4) _ ids]) (rule others)
  let ?d = "[(''id'', JStr s), (''plan_id'', JStr plan), (''customer_id'', JStr cust)]"
  obtain r st2 where h: "handle_charged E' ?d st1 = (r, st2)" by fastforce
  have r: "r = Inr ()" and ex: "\<exists>u'. get_by_id (bs_db st2) (user_id u1) = Some u' \<and> subscription_tier u' = Some tier \<and>
    subscription_status u' = Some ''active'' \<and> role u' = (if role u1 = ''superuser'' then ''superuser'' else role_for_tier (Some tier))"
    using charged_sets_tier [OF h f u1(2) checkout(4) plan up ids] by simp_all
  then obtain u' where u': "get_by_id (bs_db st2) (ctx_user_id ctx) = Some u'" "subscription_tier u' = Some tier"
      "subscription_status u' = Some ''active''" "role u' \<in> {''superuser'', ''pro''}"
    using uid t by (auto simp: role_for_tier_def PAID_TIERS_def split: if_splits)
  have "razorpay_webhook E' body (be_hmac E' (razorpay_webhook_secret E') body) st1 = (Inr (), st2)"
    using event h r
    by (simp add: razorpay_webhook_def verify_razorpay_signature_def charged_event_def event_entity_def jget_def)
  moreover have "cl_tier (subscription_claims u') = tier" using u'(2) t by (auto simp: subscription_claims_def Let_def)
  moreover have "pro_or_superuser c = Inr c \<and> require_tier tier c = Inr c"
    if "ctx_role c = role u' \<and> ctx_subscription_tier c = cl_tier (subscription_claims u')" for c
    using that u'(4) \<open>cl_tier (subscription_claims u') = tier\<close> by (auto simp: guard_defs)
  ultimately show ?thesis using u' by blast
qed

section \<open>Which event changes a tier\<close>

lemma find_user_sub_or_none:
  assumes "find_user_by sc cc db s c = Some u" "\<not> (truthy_str (sc u) \<and> col_json (sc u) \<noteq> s)" "sc u = Some k" "k \<noteq> []"
  shows "s = JStr k"
  using assms(2-4) by (simp add: col_json_def)

lemma safe_update_row:
  assumes "safe_update E uid fs st = (r, st')" "get_by_id (bs_db st) k = Some u" "get_by_id (bs_db st') k = Some u'"
    and "subscription_tier u' \<noteq> subscription_tier u"
  shows "k = uid \<and> new_tier_of fs \<noteq> None"
  using assms(1)
proof (cases rule: safe_update_cases)
  case failed
  then show ?thesis using assms by simp
next
  case (ok v)
  then have "k = uid" using update_user_others [OF ok(2)] assms by (auto simp: others_same_def)
  moreover have "new_tier_of fs \<noteq> None"
  proof
    assume none: "new_tier_of fs = None"
    have sync: "sync_role w fs = (fs, None)" for w by (simp add: sync_role_def none)
    obtain w where w: "get_by_id (bs_db st) uid = Some w" "v = (fold set_field (fst (sync_role w fs)) w)\<lparr>u_updated_at := be_now E\<rparr>"
        "get_by_id (bs_db st') uid = Some v"
      using ok(2) by (rule update_user_result) auto
    then have "subscription_tier v = subscription_tier w" by (simp add: sync fold_set_field_tier none)
    then have "subscription_tier u' = subscription_tier u" using w(1,3) assms(2,3) \<open>k = uid\<close> by simp
    then show False using assms(4) by simp
  qed
  ultimately show ?thesis by blast
qed

text \<open>
  C10: only the caller's current subscription can change a tier: when a Razorpay event changes the tier of a user whose
  row names a subscription, then the request carries the signature of its body under the configured secret, and the
  event is a charge or a cancellation of exactly that subscription.
\<close>

theorem tier_change_needs_current_subscription:
  assumes "razorpay_webhook E body sig st = (r, st')" "ids_distinct (bs_db st)"
    and "get_by_id (bs_db st) k = Some u" "razorpay_subscription_id u = Some s" "s \<noteq> []"
    and "get_by_id (bs_db st') k = Some u'" "subscription_tier u' \<noteq> subscription_tier u"
  shows "razorpay_webhook_secret E \<noteq> [] \<and> sig = be_hmac E (razorpay_webhook_secret E) body \<and>
    (\<exists>j p e d. be_loads E body = Some j \<and> as_dict j = Inr p \<and> event_entity p ''subscription'' = Inr e \<and> as_dict e = Inr d \<and>
       jget p ''event'' (JStr []) \<in> {JStr ''subscription.charged'', JStr ''subscription.cancelled''} \<and> jget d ''id'' (JStr []) = JStr s)"
proof -
  have changed: "st' \<noteq> st" using assms(3,6,7) by auto
  have found: "w = u" if "find_user_by_razorpay (bs_db st) a b = Some w" "k = user_id w" for w a b
    using found_user that assms(2,3) unfolding find_user_by_razorpay_def by fastforce
  have charged: "jget d ''id'' (JStr []) = JStr s" if h: "handle_charged E d st = (r, st')" for d
  proof -
    from h changed obtain w tier sub st1 v where w:
        "find_user_by_razorpay (bs_db st) (jget d ''id'' (JStr [])) (jget d ''customer_id'' (JStr [])) = Some w"
        "\<not> other_sub_stored w (jget d ''id'' (JStr []))"
      and upd: "safe_update E (user_id w) [SetSubscriptionTier (Some tier), SetSubscriptionStatus (Some ''active''),
          SetRazorpaySubscriptionId sub] st = (v, st1)" "bs_db st' = bs_db st1"
      by (auto simp: handle_charged_def Let_def split: if_splits option.splits sum.splits prod.splits)
    have "k = user_id w" using safe_update_row [OF upd(1) assms(3) _ assms(7)] assms(6) upd(2) by simp
    then show ?thesis using found [OF w(1)] w(2) assms(4,5) by (simp add: other_sub_stored_def col_json_def)
  qed
  have cancelled: "jget d ''id'' (JStr []) = JStr s" if h: "handle_cancelled E d st = (r, st')" for d
  proof -
    from h changed obtain w st1 v where w:
        "find_user_by_razorpay (bs_db st) (jget d ''id'' (JStr [])) (jget d ''customer_id'' (JStr [])) = Some w"
        "\<not> other_sub_stored w (jget d ''id'' (JStr []))"
      and upd: "safe_update E (user_id w) [SetSubscriptionTier (Some ''free''), SetSubscriptionStatus (Some ''cancelled''),
          SetRazorpaySubscriptionId None] st = (v, st1)" "bs_db st' = bs_db st1"
      by (auto simp: handle_cancelled_def Let_def split: if_splits option.splits sum.splits prod.splits)
    have "k = user_id w" using safe_update_row [OF upd(1) assms(3) _ assms(7)] assms(6) upd(2) by simp
    then show ?thesis using found [OF w(1)] w(2) assms(4,5) by (simp add: other_sub_stored_def col_json_def)
  qed
  have failed: False if h: "handle_payment_failed E p d st = (r, st')" for p d
  proof -
    let ?w = "find_user_by_razorpay (bs_db st) (jget d ''id'' (JStr [])) (jget p ''customer_id'' (JStr []))"
    obtain w where w: "?w = Some w"
      using h changed by (cases ?w) (simp_all add: handle_payment_failed_def)
    obtain v st1 where v: "safe_update E (user_id w) [SetSubscriptionStatus (Some ''past_due'')] st = (v, st1)" by fastforce
    have upd: "safe_update E (user_id w) [SetSubscriptionStatus (Some ''past_due'')] st = (v, st1)" "bs_db st' = bs_db st1"
      using h v by (cases v; auto simp: handle_payment_failed_def w)+
    show False using safe_update_row [OF upd(1) assms(3) _ assms(7)] assms(6) upd(2) by simp
  qed
  show ?thesis
    using assms(1) changed charged cancelled failed
    by (auto simp: razorpay_webhook_def verify_razorpay_signature_def Let_def
        split: if_splits sum.splits option.splits)
qed

section \<open>The clean-up\<close>

definition orphan :: "auth_db \<Rightarrow> string \<times> string \<times> string \<Rightarrow> bool" where
  "orphan db s \<longleftrightarrow> (case s of (sid, cid, status) \<Rightarrow> status \<in> set ACTIVE_STATUSES \<and>
     (\<forall>u \<in> set (db_users db). sid \<noteq> [] \<longrightarrow> razorpay_subscription_id u \<noteq> Some sid) \<and>
     (\<exists>u \<in> set (db_users db). cid \<noteq> [] \<and> razorpay_customer_id u = Some cid))"

lemma present_iff: "s \<in> present c us \<longleftrightarrow> s \<noteq> [] \<and> (\<exists>u \<in> set us. c u = Some s)"
  by (force simp: present_def map_filter_def)

lemma orphan_iff:
  "orphan db (sid, cid, status) \<longleftrightarrow> status \<in> set ACTIVE_STATUSES \<and> sid \<notin> present razorpay_subscription_id (db_users db) \<and>
     cid \<in> present razorpay_customer_id (db_users db)"
  by (auto simp: orphan_def present_iff)

definition orphan_in :: "string set \<Rightarrow> string set \<Rightarrow> string \<times> string \<times> string \<Rightarrow> bool" where
  "orphan_in S C s \<longleftrightarrow> snd (snd s) \<in> set ACTIVE_STATUSES \<and> fst s \<notin> S \<and> fst (snd s) \<in> C"

lemma orphan_eq: "orphan db = orphan_in (present razorpay_subscription_id (db_users db)) (present razorpay_customer_id (db_users db))"
  by (auto simp: fun_eq_iff orphan_iff orphan_in_def)

lemma triage_one_effect:
  assumes "triage_one G dry S C x (tr, n, g) = (tr', n', g')"
  shows "g' = (if \<not> dry \<and> orphan_in S C x then snd (rz_cancel G (fst x) g) else g)"
    and "map (\<lambda>e. (tr_sub_id e, tr_customer_id e, tr_status e)) tr' =
      map (\<lambda>e. (tr_sub_id e, tr_customer_id e, tr_status e)) tr @ (if snd (snd x) \<in> set ACTIVE_STATUSES then [x] else [])"
    and "n' \<le> n + (if \<not> dry \<and> orphan_in S C x then 1 else 0)"
  using assms by (auto simp: triage_one_def orphan_in_def Let_def split: prod.splits if_splits sum.splits)

lemma triage_effect:
  assumes "fold (triage_one G dry S C) items (tr, n, g) = (tr', n', g')"
  shows "g' = (if dry then g else fold (\<lambda>s g. snd (rz_cancel G s g)) (map fst (filter (orphan_in S C) items)) g) \<and>
    map (\<lambda>e. (tr_sub_id e, tr_customer_id e, tr_status e)) tr' =
      map (\<lambda>e. (tr_sub_id e, tr_customer_id e, tr_status e)) tr @ filter (\<lambda>x. snd (snd x) \<in> set ACTIVE_STATUSES) items \<and>
    n' \<le> n + (if dry then 0 else length (filter (orphan_in S C) items))"
  using assms
proof (induction items arbitrary: tr n g)
  case (Cons x items)
  obtain tr1 n1 g1 where x: "triage_one G dry S C x (tr, n, g) = (tr1, n1, g1)" by (metis prod.collapse)
  then have "fold (triage_one G dry S C) items (tr1, n1, g1) = (tr', n', g')" using Cons.prems by simp
  then show ?case using Cons.IH triage_one_effect [OF x] by (fastforce split: if_splits)
qed simp

text \<open>
  The clean-up is for superusers and cancels orphans only: a dry run cancels nothing; otherwise exactly the
  active subscriptions are cancelled that no user's row names and whose customer is a user's, in the order of the list;
  and every active subscription listed is reported once, in order.
\<close>

theorem cleanup_cancels_orphans:
  assumes "cleanup_subscriptions E dry ctx st = (Inr rep, st')" "rz_all (be_gateways E) 100 (bs_gw st) = (Inr items, g)"
  shows "ctx_role ctx = ''superuser'' \<and>
    bs_gw st' = (if dry then g else fold (\<lambda>s g. snd (rz_cancel (be_gateways E) s g)) (map fst (filter (orphan (bs_db st)) items)) g) \<and>
    map (\<lambda>e. (tr_sub_id e, tr_customer_id e, tr_status e)) (cr_triage rep) = filter (\<lambda>x. snd (snd x) \<in> set ACTIVE_STATUSES) items \<and>
    cr_cleaned rep \<le> (if dry then 0 else length (filter (orphan (bs_db st)) items))"
proof -
  let ?T = "triage_one (be_gateways E) dry (present razorpay_subscription_id (db_users (bs_db st)))
      (present razorpay_customer_id (db_users (bs_db st)))"
  have G: "get_razorpay_client E = Inr (be_gateways E)" and su: "ctx_role ctx = ''superuser''"
    using assms(1) by (auto simp: cleanup_subscriptions_def superuser_only_def get_razorpay_client_def split: if_splits)
  obtain tr n g1 where f: "fold ?T items ([], 0, g) = (tr, n, g1)" by (metis prod.collapse)
  have "bs_gw st' = g1" "cr_triage rep = tr" "cr_cleaned rep = n"
    using assms su f by (auto simp: cleanup_subscriptions_def superuser_only_def G list_all_def Let_def)
  then show ?thesis
    using su triage_effect [OF f] by (auto simp: orphan_eq)
qed

section \<open>An upgrade that fails half-way\<close>

text \<open>
  When Razorpay refuses to change the plan of a live subscription, the checkout creates a second one and
  stores it, and the old one, though live, is never cancelled: the gateway is asked for its status, for the change and for
  the new subscription, and for nothing else.
\<close>

theorem refused_upgrade_keeps_both:
  assumes "get_by_id (bs_db st) (ctx_user_id ctx) = Some u" "razorpay_customer_id u = Some c" "c \<noteq> []"
    and "razorpay_subscription_id u = Some s0" "s0 \<noteq> []"
    and "checkout E tier ''razorpay'' ctx st = (Inr resp, st')"
    and "get_razorpay_plan_id E tier = Inr plan"
    and "rz_fetch (be_gateways E) s0 (bs_gw st) = (Inr (Some ''active''), g1)"
    and "rz_edit (be_gateways E) s0 plan g1 = (Inl e, g2)"
    and "rz_create (be_gateways E) plan c 12 g2 = (Inr n, g3)"
  shows "co_subscription_id resp = Some n \<and> \<not> co_upgraded resp \<and> bs_gw st' = g3 \<and>
    (\<exists>u'. get_by_id (bs_db st') (ctx_user_id ctx) = Some u' \<and> razorpay_subscription_id u' = Some n)"
proof -
  have co: "checkout_razorpay E (Some u) ctx tier st = (Inr resp, st')"
    using assms(1,6) by (auto simp: checkout_def Let_def split: if_splits)
  then have G: "get_razorpay_client E = Inr (be_gateways E)"
    by (auto simp: checkout_razorpay_def get_razorpay_client_def split: if_splits)
  obtain v st4 where v: "repo_update E (ctx_user_id ctx) [SetRazorpaySubscriptionId (Some n)] (st\<lparr>bs_gw := g3\<rparr>) = (v, st4)" by fastforce
  have r: "resp = \<lparr>co_gateway = ''razorpay'', co_upgraded = False, co_subscription_id = Some n,
      co_key_id = Some (razorpay_key_id E), co_plan_id = Some plan, co_checkout_url = None\<rparr>" "st' = st4" "v = Inr ()"
    using co assms(2-5,7-10) v
    by (cases v; auto simp: checkout_razorpay_def G ensure_razorpay_customer_def user_col_def razorpay_upgrade_def
        fetch_rz_sub_status_def ACTIVE_STATUSES_def Let_def)+
  moreover have "bs_gw st4 = g3" using v by (auto elim: repo_update_cases)
  moreover obtain w where "get_by_id (bs_db st') (ctx_user_id ctx) = Some w" "razorpay_subscription_id w = co_subscription_id resp"
    using new_subscription_stored [OF co] r(1) by auto
  ultimately show ?thesis by simp
qed

section \<open>A reference gateway\<close>

text \<open>
  Razorpay as a list of subscriptions with identifier, customer, plan and status; \<open>edit_ok\<close> says whether it
  changes plans. Stripe creates sessions.
\<close>

type_synonym demo_gw = "(string \<times> string \<times> string \<times> string) list"

definition demo_gateways :: "bool \<Rightarrow> demo_gw gateways" where
  "demo_gateways edit_ok = \<lparr>
     rz_customer_create = (\<lambda>name mail g. (Inr ''cust_1'', g)),
     rz_customer_page = (\<lambda>n skip g. (Inr [], g)),
     rz_fetch = (\<lambda>i g. (Inr (map_option (\<lambda>(c, p, s). s) (map_of g i)), g)),
     rz_edit = (\<lambda>i p g. if edit_ok then (Inr (), map (\<lambda>(j, c, q, s). (j, c, if i = j then p else q, s)) g) else (Inl ''refused'', g)),
     rz_cancel = (\<lambda>i g. (Inr (), map (\<lambda>(j, c, p, s). (j, c, p, if i = j then ''cancelled'' else s)) g)),
     rz_create = (\<lambda>p c n g. (Inr (''sub_'' @ show_nat (length g)), g @ [(''sub_'' @ show_nat (length g), c, p, ''active'')])),
     rz_all = (\<lambda>n g. (Inr (map (\<lambda>(i, c, p, s). (i, c, s)) g), g)),
     st_customer_create = (\<lambda>mail name g. (Inr ''cus_1'', g)),
     st_retrieve = (\<lambda>i g. (Inl ''none'', g)),
     st_modify = (\<lambda>i item price g. (Inl ''none'', g)),
     st_cancel = (\<lambda>i g. (Inr (), g)),
     st_session_create = (\<lambda>c price ok no u t g. (Inr (''cs_1'', Some ''https://pay''), g)),
     st_construct_event = (\<lambda>b s k. None)\<rparr>"

text \<open>The event of the request is the argument; the signature is the secret before the body.\<close>

definition demo_billing :: "bool \<Rightarrow> json \<Rightarrow> demo_gw billing_env" where
  "demo_billing edit_ok event = \<lparr>be_now = 5, be_audit_up = True, be_db_error = (\<lambda>n. None), be_uuid = show_nat,
     be_gateways = demo_gateways edit_ok,
     be_environ = map_of [(''RAZORPAY_PLAN_PRO'', ''plan_pro''), (''RAZORPAY_PLAN_PREMIUM'', ''plan_premium'')],
     razorpay_key_id = ''rzp'', razorpay_webhook_secret = ''key'', stripe_secret_key = [], stripe_webhook_secret = [],
     oauth_redirect_uri = ''https://app/auth/oauth/callback'', be_hmac = (\<lambda>k b. k @ b), be_loads = (\<lambda>b. Some event),
     be_float = (\<lambda>s. None)\<rparr>"

definition demo_payer :: user where
  "demo_payer = \<lparr>user_id = ''u1'', email = ''a@x.com'', hashed_password = ''h'', full_name = ''A'',
     role = ''general'', is_active = True, u_created_at = 0, u_updated_at = 0, last_login_at = None,
     password_reset_token = None, password_reset_expiry = None, oauth_provider = None, oauth_sub = None,
     profile_picture_url = None, page_permissions = None, subscription_tier = None, subscription_status = None,
     razorpay_customer_id = None, razorpay_subscription_id = None, stripe_customer_id = None, stripe_subscription_id = None,
     monthly_usage_count = None, usage_month = None, subscription_start_at = None, subscription_end_at = None,
     chat_request_count = 0, byo_monthly_limit = 100\<rparr>"

definition demo_ctx :: user_context where
  "demo_ctx = \<lparr>ctx_user_id = ''u1'', ctx_email = ''a@x.com'', ctx_role = ''general'', ctx_subscription_tier = ''free'',
     ctx_subscription_status = ''active'', ctx_usage_remaining = None\<rparr>"

definition demo_admin :: user_context where
  "demo_admin = demo_ctx\<lparr>ctx_role := ''superuser''\<rparr>"

definition demo_event :: json where
  "demo_event = charged_event ''sub_0'' ''plan_pro'' ''cust_1''"

definition demo_E :: "demo_gw billing_env" where
  "demo_E = demo_billing False demo_event"

definition demo_bs0 :: "demo_gw billing_state" where
  "demo_bs0 = \<lparr>bs_db = \<lparr>db_users = [demo_payer], db_audit = []\<rparr>, bs_ledger = [], bs_gw = [], bs_tick = 0\<rparr>"

text \<open>The caller checks out for \<open>pro\<close>, and the subscription is charged.\<close>

definition demo_bs1 :: "demo_gw billing_state" where
  "demo_bs1 = snd (checkout demo_E ''pro'' ''razorpay'' demo_ctx demo_bs0)"

definition demo_bs2 :: "demo_gw billing_state" where
  "demo_bs2 = snd (razorpay_webhook demo_E ''b'' ''keyb'' demo_bs1)"

lemma demo_typed: "razorpay_typed demo_event"
  by (simp add: demo_event_def charged_event_def razorpay_typed_def event_entity_def typed_obj_def jget_def)

lemma demo_quiet: "quiet full demo_E"
  by (simp add: quiet_def demo_E_def demo_billing_def)

lemma demo_ids: "ids_distinct (bs_db demo_bs0)" "ids_distinct (bs_db demo_bs1)"
  by code_simp+

lemma demo_billing_run: "(billing_step full)\<^sup>*\<^sup>* demo_bs0 demo_bs2"
proof -
  have "billing_step full demo_bs0 demo_bs1"
    unfolding demo_bs1_def by (rule billing_step.checkout [OF prod.collapse [symmetric] demo_quiet])
  moreover have "billing_step full demo_bs1 demo_bs2"
    unfolding demo_bs2_def by (rule billing_step.razorpay_event [OF prod.collapse [symmetric] demo_quiet])
      (simp add: demo_E_def demo_billing_def demo_typed)
  ultimately show ?thesis by (meson r_into_rtranclp rtranclp.rtrancl_into_rtrancl)
qed


theorem roles_follow_tiers_witness:
  "role_ok (bs_db demo_bs2) ''u1'' \<and> map_option role (get_by_id (bs_db demo_bs2) ''u1'') = Some ''pro''"
proof -
  have "role_ok (bs_db demo_bs0) ''u1''" by code_simp
  moreover have "map_option role (get_by_id (bs_db demo_bs2) ''u1'') = Some ''pro''" by code_simp
  ultimately show ?thesis using roles_follow_tiers [OF demo_billing_run demo_ids(1)] by blast
qed

lemma demo_checkout:
  obtains resp where "checkout demo_E ''pro'' ''razorpay'' demo_ctx demo_bs0 = (Inr resp, demo_bs1)"
    "\<not> co_upgraded resp" "co_subscription_id resp = Some ''sub_0''"
proof -
  have "(case fst (checkout demo_E ''pro'' ''razorpay'' demo_ctx demo_bs0) of Inl e \<Rightarrow> False
     | Inr resp \<Rightarrow> \<not> co_upgraded resp \<and> co_subscription_id resp = Some ''sub_0'')" by code_simp
  then show thesis using that unfolding demo_bs1_def
    by (cases "checkout demo_E ''pro'' ''razorpay'' demo_ctx demo_bs0") (auto split: sum.splits)
qed

theorem payment_opens_access_witness:
  "\<exists>u. get_by_id (bs_db demo_bs2) ''u1'' = Some u \<and> cl_tier (subscription_claims u) = ''pro'' \<and> subscription_status u = Some ''active''"
proof -
  obtain resp where c: "checkout demo_E ''pro'' ''razorpay'' demo_ctx demo_bs0 = (Inr resp, demo_bs1)"
    "\<not> co_upgraded resp" "co_subscription_id resp = Some ''sub_0''" by (rule demo_checkout)
  have sig: "be_hmac demo_E (razorpay_webhook_secret demo_E) ''b'' = ''keyb''" "ctx_user_id demo_ctx = ''u1''" by code_simp+
  obtain st2 u where "razorpay_webhook demo_E ''b'' ''keyb'' demo_bs1 = (Inr (), st2)"
    "get_by_id (bs_db st2) ''u1'' = Some u" "subscription_status u = Some ''active''" "cl_tier (subscription_claims u) = ''pro''"
    using payment_opens_access [OF c _ demo_ids(1), of demo_E "''b''" "''plan_pro''" "''cust_1''", unfolded sig]
    by (force simp: demo_bs0_def demo_payer_def demo_E_def demo_billing_def demo_event_def plan_id_to_tier_def col_json_def
        is_ascii_def ord_def)
  then show ?thesis by (auto simp: demo_bs2_def)
qed

theorem tier_change_needs_current_subscription_witness:
  "\<exists>u u'. get_by_id (bs_db demo_bs1) ''u1'' = Some u \<and> get_by_id (bs_db demo_bs2) ''u1'' = Some u' \<and>
     subscription_tier u' \<noteq> subscription_tier u \<and>
     (\<exists>j p e d. be_loads demo_E ''b'' = Some j \<and> as_dict j = Inr p \<and> event_entity p ''subscription'' = Inr e \<and> as_dict e = Inr d \<and>
        jget d ''id'' (JStr []) = JStr ''sub_0'')"
proof -
  have rows: "(case (get_by_id (bs_db demo_bs1) ''u1'', get_by_id (bs_db demo_bs2) ''u1'') of
      (Some u, Some u') \<Rightarrow> razorpay_subscription_id u = Some ''sub_0'' \<and> subscription_tier u' \<noteq> subscription_tier u | _ \<Rightarrow> False)"
    by code_simp
  then obtain u u' where u: "get_by_id (bs_db demo_bs1) ''u1'' = Some u" "get_by_id (bs_db demo_bs2) ''u1'' = Some u'"
      "razorpay_subscription_id u = Some ''sub_0''" "subscription_tier u' \<noteq> subscription_tier u"
    by (auto split: option.splits)
  have "razorpay_webhook demo_E ''b'' ''keyb'' demo_bs1 = (fst (razorpay_webhook demo_E ''b'' ''keyb'' demo_bs1), demo_bs2)"
    by (simp add: demo_bs2_def)
  from tier_change_needs_current_subscription [OF this demo_ids(2) u(1,3) _ u(2,4)] u show ?thesis by blast
qed

text \<open>The clean-up finds a subscription that is not the one stored.\<close>

definition demo_bs3 :: "demo_gw billing_state" where
  "demo_bs3 = demo_bs2\<lparr>bs_gw := bs_gw demo_bs2 @ [(''sub_9'', ''cust_1'', ''plan_pro'', ''active'')]\<rparr>"

theorem cleanup_cancels_orphans_witness:
  "bs_gw (snd (cleanup_subscriptions demo_E False demo_admin demo_bs3)) =
     [(''sub_0'', ''cust_1'', ''plan_pro'', ''active''), (''sub_9'', ''cust_1'', ''plan_pro'', ''cancelled'')]"
proof -
  obtain rep st' where c: "cleanup_subscriptions demo_E False demo_admin demo_bs3 = (Inr rep, st')"
  proof -
    have "\<not> isl (fst (cleanup_subscriptions demo_E False demo_admin demo_bs3))" by code_simp
    then show thesis using that by (cases "cleanup_subscriptions demo_E False demo_admin demo_bs3") (auto simp: isl_def split: sum.splits, metis sum.exhaust)
  qed
  let ?items = "[(''sub_0'', ''cust_1'', ''active''), (''sub_9'', ''cust_1'', ''active'')]"
  have items: "rz_all (be_gateways demo_E) 100 (bs_gw demo_bs3) = (Inr ?items, bs_gw demo_bs3)" by code_simp
  have "fold (\<lambda>s g. snd (rz_cancel (be_gateways demo_E) s g)) (map fst (filter (orphan (bs_db demo_bs3)) ?items)) (bs_gw demo_bs3) =
     [(''sub_0'', ''cust_1'', ''plan_pro'', ''active''), (''sub_9'', ''cust_1'', ''plan_pro'', ''cancelled'')]" by code_simp
  then show ?thesis using cleanup_cancels_orphans [OF c items] c by simp
qed

text \<open>The paying user upgrades to \<open>premium\<close>, and the change of the plan is refused: both subscriptions stay live.\<close>

theorem refused_upgrade_keeps_both_witness:
  "map (\<lambda>(i, c, p, s). (i, s)) (bs_gw (snd (checkout demo_E ''premium'' ''razorpay'' demo_ctx demo_bs2))) =
     [(''sub_0'', ''active''), (''sub_1'', ''active'')]"
proof -
  have row: "(case get_by_id (bs_db demo_bs2) (ctx_user_id demo_ctx) of None \<Rightarrow> False
     | Some u \<Rightarrow> razorpay_customer_id u = Some ''cust_1'' \<and> razorpay_subscription_id u = Some ''sub_0'')" by code_simp
  then obtain u where u: "get_by_id (bs_db demo_bs2) (ctx_user_id demo_ctx) = Some u" "razorpay_customer_id u = Some ''cust_1''"
      "razorpay_subscription_id u = Some ''sub_0''" by (auto split: option.splits)
  obtain resp st' where c: "checkout demo_E ''premium'' ''razorpay'' demo_ctx demo_bs2 = (Inr resp, st')"
  proof -
    have "\<not> isl (fst (checkout demo_E ''premium'' ''razorpay'' demo_ctx demo_bs2))" by code_simp
    then show thesis using that by (cases "checkout demo_E ''premium'' ''razorpay'' demo_ctx demo_bs2") (auto simp: isl_def split: sum.splits, metis sum.exhaust)
  qed
  let ?g = "bs_gw demo_bs2"
  have calls: "get_razorpay_plan_id demo_E ''premium'' = Inr ''plan_premium''"
      "rz_fetch (be_gateways demo_E) ''sub_0'' ?g = (Inr (Some ''active''), ?g)"
      "rz_edit (be_gateways demo_E) ''sub_0'' ''plan_premium'' ?g = (Inl ''refused'', ?g)"
      "rz_create (be_gateways demo_E) ''plan_premium'' ''cust_1'' 12 ?g =
        (Inr ''sub_1'', [(''sub_0'', ''cust_1'', ''plan_pro'', ''active''), (''sub_1'', ''cust_1'', ''plan_premium'', ''active'')])"
    by code_simp+
  show ?thesis using refused_upgrade_keeps_both [OF u(1,2) _ u(3) _ c calls] c by simp
qed

section \<open>What the handlers miss\<close>

text \<open>
  A Stripe event of a subscription that is not the current one ends the current access when its customer matches,
  unlike a Razorpay event.
\<close>

theorem stripe_other_subscription_downgrades:
  fixes st defines "st \<equiv> demo_bs0\<lparr>bs_db := \<lparr>db_users = [demo_payer\<lparr>subscription_tier := Some ''pro'', role := ''pro'',
      stripe_customer_id := Some ''cus_1'', stripe_subscription_id := Some ''sub_new''\<rparr>], db_audit = []\<rparr>\<rparr>"
  shows "tier_of (bs_db (snd (handle_stripe_sub_change demo_E [(''id'', JStr ''sub_old''), (''customer'', JStr ''cus_1''),
      (''status'', JStr ''canceled'')] st))) ''u1'' = ''free''"
  unfolding st_def by code_simp

text \<open>A subscription that recovers stays \<open>past_due\<close>: an update to a live status changes nothing.\<close>

theorem stripe_recovery_ignored:
  assumes "jget sub ''status'' (JStr []) \<in> {JStr ''active'', JStr ''trialing''}"
  shows "handle_stripe_sub_change E sub st = (Inr (), st)"
  using assms by (auto simp: handle_stripe_sub_change_def Let_def split: option.splits)

text \<open>After a cancellation a late charge of the cancelled subscription brings the tier back: no subscription is stored then.\<close>

theorem late_charge_reactivates:
  fixes st defines "st \<equiv> snd (cancel_subscription demo_E demo_ctx demo_bs2)"
  shows "tier_of (bs_db st) ''u1'' = ''free'' \<and> tier_of (bs_db (snd (razorpay_webhook demo_E ''b'' ''keyb'' st))) ''u1'' = ''pro''"
  unfolding st_def by code_simp

text \<open>The same charge delivered twice is entered twice: no entry carries the identifier of its event.\<close>

theorem replayed_charge_entered_twice:
  "map pt_amount (bs_ledger (snd (razorpay_webhook demo_E ''b'' ''keyb'' demo_bs2))) = [Some 499, Some 499]"
  by code_simp

theorem ledger_has_no_event_ids:
  "\<forall>x \<in> set (bs_ledger (log_transaction E uid gw ev sub cust am cu be af sta raw st)) - set (bs_ledger st). pt_gateway_event_id x = None"
  by (auto simp: log_transaction_def record_transaction_def Let_def split: option.splits)

text \<open>When the database fails after the gateway changed the plan, the caller is told of an upgrade that is not stored.\<close>

theorem lost_upgrade_reported:
  fixes E resp st defines "E \<equiv> (demo_billing True demo_event)\<lparr>be_db_error := (\<lambda>n. Some (OtherError ''OperationalError''))\<rparr>"
    and "resp \<equiv> fst (checkout E ''premium'' ''razorpay'' demo_ctx demo_bs2)" and "st \<equiv> snd (checkout E ''premium'' ''razorpay'' demo_ctx demo_bs2)"
  shows "(case resp of Inl e \<Rightarrow> False | Inr r \<Rightarrow> co_upgraded r \<and> co_subscription_id r = None) \<and>
    tier_of (bs_db st) ''u1'' = ''pro'' \<and> map (\<lambda>(i, c, p, s). p) (bs_gw st) = [''plan_premium'']"
  unfolding resp_def st_def E_def by code_simp

end
