(* ===== verification/Auth_OAuth.thy ===== *)
theory Auth_OAuth
  imports Auth_Routes Json
begin

text \<open>
  Sign-in with Google and Facebook: \<open>auth/oauth_service.py\<close> (the state tokens, the authorization URLs, the
  exchange of codes and the cache of signing keys), \<open>auth/repo/oauth.py\<close> (finding, linking and creating the
  account) and the routes of \<open>auth/endpoints/oauth_routes.py\<close>. The providers, the JWKS client and the JWT
  library are parameters. Lemmas: a state token admits at most as many callbacks as it was issued.
\<close>

section \<open>The cache of signing keys\<close>

text \<open>
  \<open>PyJWKClient\<close>: making one, and asking one at a time for the key of a token, which may raise.
\<close>

record ('c, 'k) jwk_lib =
  jl_new :: "time \<Rightarrow> 'c"
  jl_get :: "'c \<Rightarrow> time \<Rightarrow> string \<Rightarrow> (py_exn + 'k) \<times> 'c"

record 'c jwks_client =
  jc_ttl :: int
  jc_client :: 'c
  jc_cached_at :: time

definition is_cache_stale :: "'c jwks_client \<Rightarrow> time \<Rightarrow> bool" where
  "is_cache_stale jc now \<longleftrightarrow> now - jc_cached_at jc > of_int (jc_ttl jc)"

definition jwks_refresh :: "('c, 'k) jwk_lib \<Rightarrow> 'c jwks_client \<Rightarrow> time \<Rightarrow> 'c jwks_client" where
  "jwks_refresh L jc now = jc\<lparr>jc_client := jl_new L now, jc_cached_at := now\<rparr>"

definition get_signing_key_from_jwt ::
    "('c, 'k) jwk_lib \<Rightarrow> 'c jwks_client \<Rightarrow> time \<Rightarrow> string \<Rightarrow> 'k result \<times> 'c jwks_client" where
  "get_signing_key_from_jwt L jc now token =
     (let jc1 = (if is_cache_stale jc now then jwks_refresh L jc now
                 else jc\<lparr>jc_cached_at := (if jc_cached_at jc = 0 then now else jc_cached_at jc)\<rparr>);
          (r, c) = jl_get L (jc_client jc1) now token
      in (r, jc1\<lparr>jc_client := c\<rparr>))"

definition get_signing_key_with_retry ::
    "('c, 'k) jwk_lib \<Rightarrow> 'c jwks_client \<Rightarrow> time \<Rightarrow> string \<Rightarrow> 'k result \<times> 'c jwks_client" where
  "get_signing_key_with_retry L jc now token =
     (case get_signing_key_from_jwt L jc now token of
        (Inr k, jc1) \<Rightarrow> (Inr k, jc1)
      | (Inl e, jc1) \<Rightarrow>
          (let jc2 = jwks_refresh L jc1 now; (r, c) = jl_get L (jc_client jc2) now token
           in (r, jc2\<lparr>jc_client := c\<rparr>)))"

section \<open>State tokens and authorization URLs\<close>

definition STATE_TTL_SECONDS :: int where "STATE_TTL_SECONDS = 600"

definition state_key :: "string \<Rightarrow> string \<Rightarrow> string" where
  "state_key state provider = ''oauth_state:'' @ state @ '':'' @ provider"

definition validate_state :: "'s token_store_ops \<Rightarrow> 's \<Rightarrow> time \<Rightarrow> string \<Rightarrow> string \<Rightarrow> bool \<times> 's" where
  "validate_state store s now state provider =
     (case ts_contains store s now (state_key state provider) of
        (False, s1) \<Rightarrow> (False, s1)
      | (True, s1) \<Rightarrow> (True, ts_remove store s1 now (state_key state provider)))"

text \<open>\<open>urllib.parse.urlencode\<close> on texts of ASCII characters.\<close>

definition hex_digit :: "nat \<Rightarrow> char" where
  "hex_digit n = (''0123456789ABCDEF'' ! n)"

definition quote_plus :: "string \<Rightarrow> string" where
  "quote_plus s = concat (map (\<lambda>c. if is_alnum c \<or> c \<in> set ''_.-~'' then [c] else if c = CHR '' '' then ''+''
     else [CHR ''%'', hex_digit (ord c div 16), hex_digit (ord c mod 16)]) s)"

definition urlencode :: "(string \<times> string) list \<Rightarrow> string" where
  "urlencode params = join ''&'' (map (\<lambda>(k, v). quote_plus k @ ''='' @ quote_plus v) params)"

record oauth_settings =
  google_client_id :: string
  facebook_app_id :: string
  os_redirect_uri :: string

definition google_url :: "oauth_settings \<Rightarrow> string \<Rightarrow> string \<Rightarrow> string" where
  "google_url cfg state code_challenge = ''https://accounts.google.com/o/oauth2/v2/auth?'' @ urlencode
     [(''client_id'', google_client_id cfg), (''redirect_uri'', os_redirect_uri cfg), (''response_type'', ''code''),
      (''scope'', ''openid email profile''), (''state'', state), (''code_challenge'', code_challenge),
      (''code_challenge_method'', ''S256''), (''access_type'', ''offline''), (''prompt'', ''select_account'')]"

definition facebook_url :: "oauth_settings \<Rightarrow> string \<Rightarrow> string" where
  "facebook_url cfg state = ''https://www.facebook.com/v18.0/dialog/oauth?'' @ urlencode
     [(''client_id'', facebook_app_id cfg), (''redirect_uri'', os_redirect_uri cfg), (''state'', state),
      (''scope'', ''email,public_profile'')]"

text \<open>The state is stored before the provider is looked at.\<close>

definition generate_authorize_url ::
    "'s token_store_ops \<Rightarrow> oauth_settings \<Rightarrow> string \<Rightarrow> 's \<Rightarrow> time \<Rightarrow> string \<Rightarrow> string \<Rightarrow> (string \<times> string) result \<times> 's" where
  "generate_authorize_url store cfg state s now provider code_challenge =
     (let s1 = ts_add store s now (state_key state provider) STATE_TTL_SECONDS
      in (if provider = ''google'' then Inr (state, google_url cfg state code_challenge)
          else if provider = ''facebook'' then Inr (state, facebook_url cfg state)
          else Inl (ValueError (''Unknown OAuth provider: '' @ [CHR 0x27] @ provider @ [CHR 0x27])), s1))"

section \<open>Exchange of codes\<close>

text \<open>
  \<open>oe_google_token\<close> and \<open>oe_fb_token\<close> post the code and return the JSON of an answer that is not an error; \<open>oe_fb_me\<close>
  fetches the profile; \<open>oe_decode\<close> verifies an identity token with a key and an audience; \<open>oe_str\<close> prints a
  value that is not a text.
\<close>

record ('c, 'k) oauth_env =
  oe_cfg :: oauth_settings
  oe_google_token :: "string \<Rightarrow> string \<Rightarrow> json result"
  oe_fb_token :: "string \<Rightarrow> json result"
  oe_fb_me :: "json \<Rightarrow> json result"
  oe_jwk :: "('c, 'k) jwk_lib"
  oe_decode :: "'k \<Rightarrow> string \<Rightarrow> string \<Rightarrow> time \<Rightarrow> json_dict result"
  oe_str :: "json \<Rightarrow> string"

record user_info =
  ui_provider :: string
  ui_sub :: json
  ui_email :: json
  ui_full_name :: json
  ui_picture :: json

text \<open>\<open>v.get(k, d)\<close>, which only a dictionary has.\<close>

definition json_get :: "json \<Rightarrow> string \<Rightarrow> json \<Rightarrow> json result" where
  "json_get v k d = (case v of JObj x \<Rightarrow> Inr (jget x k d) | _ \<Rightarrow> Inl (OtherError ''AttributeError''))"

text \<open>
  The errors of \<open>jwt.decode\<close> that are caught: an expired token, and the other \<open>InvalidTokenError\<close>s, which
  \<open>oe_decode\<close> reports with their text as \<open>RuntimeError\<close>.
\<close>

fun id_token_error :: "py_exn \<Rightarrow> py_exn" where
  "id_token_error (OtherError name) =
     (if name = ''ExpiredSignatureError'' then ValueError ''Google ID token has expired.'' else OtherError name)"
| "id_token_error (RuntimeError detail) = ValueError (''Invalid Google ID token: '' @ detail)"
| "id_token_error e = e"

definition exchange_google_code ::
    "('c, 'k) oauth_env \<Rightarrow> 'c jwks_client \<Rightarrow> time \<Rightarrow> string \<Rightarrow> string \<Rightarrow> user_info result \<times> 'c jwks_client" where
  "exchange_google_code E jc now code code_verifier =
     (case bindE (oe_google_token E code code_verifier) (\<lambda>tokens. json_get tokens ''id_token'' JNull) of
        Inl e \<Rightarrow> (Inl e, jc)
      | Inr (JStr (c # cs)) \<Rightarrow>
          (case get_signing_key_with_retry (oe_jwk E) jc now (c # cs) of
             (Inl e, jc1) \<Rightarrow> (Inl e, jc1)
           | (Inr key, jc1) \<Rightarrow>
               (case oe_decode E key (c # cs) (google_client_id (oe_cfg E)) now of
                  Inl e \<Rightarrow> (Inl (id_token_error e), jc1)
                | Inr payload \<Rightarrow>
                    (case map_of payload ''sub'' of
                       None \<Rightarrow> (Inl (KeyError ''sub''), jc1)
                     | Some sub \<Rightarrow>
                         (Inr \<lparr>ui_provider = ''google'', ui_sub = sub, ui_email = jget payload ''email'' (JStr []),
                               ui_full_name = jget payload ''name'' (JStr []), ui_picture = jget payload ''picture'' JNull\<rparr>, jc1))))
      | Inr j \<Rightarrow> (Inl (if truthy j then OtherError ''TypeError''
                      else ValueError ''Google token response did not include an id_token.''), jc))"

definition facebook_picture :: "json \<Rightarrow> json result" where
  "facebook_picture picture_data =
     (case picture_data of
        JObj d \<Rightarrow> json_get (jget d ''data'' (JObj [])) ''url'' JNull
      | _ \<Rightarrow> Inr JNull)"

definition id_text :: "('c, 'k) oauth_env \<Rightarrow> json \<Rightarrow> string" where
  "id_text E fb_id = (case fb_id of JStr i \<Rightarrow> i | _ \<Rightarrow> oe_str E fb_id)"

definition exchange_facebook_code :: "('c, 'k) oauth_env \<Rightarrow> string \<Rightarrow> user_info result" where
  "exchange_facebook_code E code =
     bindE (oe_fb_token E code) (\<lambda>token_resp.
     bindE (json_get token_resp ''access_token'' JNull) (\<lambda>access.
     bindE (oe_fb_me E access) (\<lambda>data.
     (case data of
        JObj d \<Rightarrow>
          (case map_of d ''id'' of
             None \<Rightarrow> Inl (KeyError ''id'')
           | Some fb_id \<Rightarrow>
               bindE (facebook_picture (jget d ''picture'' (JObj []))) (\<lambda>picture.
                 Inr \<lparr>ui_provider = ''facebook'', ui_sub = fb_id,
                      ui_email = (if truthy (jget d ''email'' JNull) then jget d ''email'' JNull
                                  else JStr (''fb_'' @ id_text E fb_id @ ''@facebook.local'')),
                      ui_full_name = jget d ''name'' (JStr []), ui_picture = picture\<rparr>))
      | _ \<Rightarrow> Inl (OtherError ''TypeError'')))))"

section \<open>The account\<close>

text \<open>
  \<open>scalar_one_or_none\<close>: none, the row, or \<open>MultipleResultsFound\<close>.
\<close>

fun scalar_one_or_none :: "'a list \<Rightarrow> 'a option result" where
  "scalar_one_or_none [] = Inr None"
| "scalar_one_or_none [x] = Inr (Some x)"
| "scalar_one_or_none (x # y # zs) = Inl (OtherError ''MultipleResultsFound'')"

definition by_oauth_sub :: "auth_db \<Rightarrow> string \<Rightarrow> string \<Rightarrow> user option result" where
  "by_oauth_sub db provider sub =
     scalar_one_or_none (filter (\<lambda>u. oauth_provider u = Some provider \<and> oauth_sub u = Some sub) (db_users db))"

definition get_by_oauth_sub :: "auth_db \<Rightarrow> string \<Rightarrow> string \<Rightarrow> user option result" where
  "get_by_oauth_sub = by_oauth_sub"

definition sso_user :: "time \<Rightarrow> string \<Rightarrow> string \<Rightarrow> string \<Rightarrow> string \<Rightarrow> string \<Rightarrow> string \<Rightarrow> string option \<Rightarrow> user" where
  "sso_user now uuid4 token_hex provider sub mail name picture =
     \<lparr>user_id = uuid4, email = mail, hashed_password = ''!sso_only_'' @ token_hex, full_name = name, role = ''user'',
      is_active = True, u_created_at = now, u_updated_at = now, last_login_at = None, password_reset_token = None,
      password_reset_expiry = None, oauth_provider = Some provider, oauth_sub = Some sub, profile_picture_url = picture,
      page_permissions = None, subscription_tier = None, subscription_status = None, razorpay_customer_id = None,
      razorpay_subscription_id = None, stripe_customer_id = None, stripe_subscription_id = None, monthly_usage_count = None,
      usage_month = None, subscription_start_at = None, subscription_end_at = None, chat_request_count = 0,
      byo_monthly_limit = 100\<rparr>"

definition get_or_create_by_oauth ::
    "auth_db \<Rightarrow> time \<Rightarrow> string \<Rightarrow> string \<Rightarrow> string \<Rightarrow> string \<Rightarrow> string \<Rightarrow> string \<Rightarrow> string option \<Rightarrow> (user \<times> auth_db) result" where
  "get_or_create_by_oauth db now uuid4 token_hex provider sub mail name picture =
     (case by_oauth_sub db provider sub of
        Inl e \<Rightarrow> Inl e
      | Inr (Some u) \<Rightarrow> Inr (u, db)
      | Inr None \<Rightarrow>
          (case get_by_email db mail of
             Some u \<Rightarrow>
               (let u' = u\<lparr>oauth_provider := Some provider, oauth_sub := Some sub,
                            profile_picture_url := (if truthy_str picture then picture else profile_picture_url u),
                            u_updated_at := now\<rparr>
                in Inr (u', replace_user u' db))
           | None \<Rightarrow>
               if get_by_id db uuid4 \<noteq> None then Inl (OtherError ''IntegrityError'')
               else (let u = sso_user now uuid4 token_hex provider sub mail name picture
                     in Inr (u, db\<lparr>db_users := db_users db @ [u]\<rparr>))))"

text \<open>
  The values of the identity as columns; the driver rejects what is not a text, and a null identifier,
  e-mail or name.
\<close>

definition text_column :: "json \<Rightarrow> string result" where
  "text_column j = (case j of JStr s \<Rightarrow> Inr s | _ \<Rightarrow> Inl (OtherError ''DBAPIError''))"

definition picture_column :: "json \<Rightarrow> string option result" where
  "picture_column j = (case j of JNull \<Rightarrow> Inr None | JStr s \<Rightarrow> Inr (Some s) | _ \<Rightarrow> Inl (OtherError ''DBAPIError''))"

section \<open>Routes\<close>

record ('s, 'c) oauth_state =
  oa_auth :: "'s auth_state"
  oa_states :: 's
  oa_jwks :: "'c jwks_client"

definition list_oauth_providers :: "oauth_settings \<Rightarrow> string list" where
  "list_oauth_providers cfg =
     (if google_client_id cfg \<noteq> [] then [''google''] else []) @ (if facebook_app_id cfg \<noteq> [] then [''facebook''] else [])"

definition oauth_authorize ::
    "'s token_store_ops \<Rightarrow> oauth_settings \<Rightarrow> time \<Rightarrow> string \<Rightarrow> string \<Rightarrow> string \<Rightarrow> ('s, 'c) oauth_state \<Rightarrow>
     (string \<times> string) result \<times> ('s, 'c) oauth_state" where
  "oauth_authorize store cfg now state provider code_challenge st =
     (if provider \<notin> {''google'', ''facebook''} then
        (Inl (HTTPException 400 (''Unsupported OAuth provider: '' @ [CHR 0x27] @ provider @ [CHR 0x27])), st)
      else if provider = ''google'' \<and> google_client_id cfg = [] then
        (Inl (HTTPException 503 ''Google SSO is not configured.''), st)
      else if provider = ''facebook'' \<and> facebook_app_id cfg = [] then
        (Inl (HTTPException 503 ''Facebook SSO is not configured.''), st)
      else (case generate_authorize_url store cfg state (oa_states st) now provider code_challenge of
              (Inl e, s) \<Rightarrow> (Inl (case e of ValueError detail \<Rightarrow> HTTPException 400 detail | _ \<Rightarrow> e), st\<lparr>oa_states := s\<rparr>)
            | (Inr r, s) \<Rightarrow> (Inr r, st\<lparr>oa_states := s\<rparr>)))"

text \<open>The part of the callback after the identity is known.\<close>

definition oauth_sign_in ::
    "'s auth_env \<Rightarrow> time \<Rightarrow> string \<Rightarrow> string \<Rightarrow> string \<Rightarrow> string \<Rightarrow> string \<Rightarrow> string \<Rightarrow> string \<Rightarrow> user_info \<Rightarrow>
     's auth_state \<Rightarrow> token_response result \<times> 's auth_state" where
  "oauth_sign_in A now uuid1 uuid2 uuid4 token_hex provider client_host agent info st =
     (case bindE (text_column (ui_sub info)) (\<lambda>sub. bindE (text_column (ui_email info)) (\<lambda>mail.
             bindE (text_column (ui_full_name info)) (\<lambda>name. bindE (picture_column (ui_picture info)) (\<lambda>picture.
               get_or_create_by_oauth (as_db st) now uuid4 token_hex (ui_provider info) sub mail name picture)))) of
        Inl e \<Rightarrow> (Inl e, st)
      | Inr (user, db1) \<Rightarrow>
          if \<not> is_active user then (Inl (HTTPException 403 ''Account is deactivated.''), st\<lparr>as_db := db1\<rparr>)
          else
            (case update_user db1 now True (user_id user) [SetLastLoginAt (Some now)] of
               Inl e \<Rightarrow> (Inl e, st\<lparr>as_db := db1\<rparr>)
             | Inr (_, db2) \<Rightarrow>
                 (let access = issue_access A now uuid1 user; refresh = issue_refresh A now uuid2 user;
                      db3 = append_audit_event db2 now ''OAUTH_LOGIN'' (user_id user) (user_id user)
                              [(''provider'', provider), (''email'', email user)];
                      store' = register_session (env_jwt A) (env_store A) (env_svc A) (as_store st) now (user_id user)
                                 refresh client_host agent
                  in (Inr \<lparr>access_token = access, refresh_token = refresh,
                           resp_cookies = [set_refresh_cookie (env_secure A) refresh]\<rparr>,
                      \<lparr>as_db = db3, as_store = store'\<rparr>))))"

definition oauth_callback ::
    "'s auth_env \<Rightarrow> ('c, 'k) oauth_env \<Rightarrow> time \<Rightarrow> string \<Rightarrow> string \<Rightarrow> string \<Rightarrow> string \<Rightarrow> string \<Rightarrow> string \<Rightarrow> string \<Rightarrow>
     string option \<Rightarrow> string \<Rightarrow> string \<Rightarrow> ('s, 'c) oauth_state \<Rightarrow> token_response result \<times> ('s, 'c) oauth_state" where
  "oauth_callback A E now uuid1 uuid2 uuid4 token_hex provider code state code_verifier client_host agent st =
     (case validate_state (env_store A) (oa_states st) now state provider of
        (False, s) \<Rightarrow> (Inl (HTTPException 400 ''Invalid or expired OAuth state token.''), st\<lparr>oa_states := s\<rparr>)
      | (True, s) \<Rightarrow>
          (let (info, jc) = (if provider = ''google'' then exchange_google_code E (oa_jwks st) now code (str_or code_verifier [])
                             else (exchange_facebook_code E code, oa_jwks st));
               st1 = st\<lparr>oa_states := s, oa_jwks := jc\<rparr>
           in case info of
                Inl e \<Rightarrow> (Inl (HTTPException 400 ''OAuth token exchange failed. Please try again.''), st1)
              | Inr i \<Rightarrow>
                  (let (r, a) = oauth_sign_in A now uuid1 uuid2 uuid4 token_hex provider client_host agent i (oa_auth st1)
                   in (r, st1\<lparr>oa_auth := a\<rparr>))))"

section \<open>State tokens are used up\<close>

text \<open>
  The requests to the state store, with their times: an authorization, and a callback. \<open>oauth_run\<close> lists
  the callbacks that were let through.
\<close>

datatype oauth_op = Issue string string | Validate string string

fun oauth_run :: "'s token_store_ops \<Rightarrow> 's \<Rightarrow> (time \<times> oauth_op) list \<Rightarrow> (time \<times> string \<times> string) list" where
  "oauth_run store s [] = []"
| "oauth_run store s ((now, Issue state provider) # later) =
     oauth_run store (ts_add store s now (state_key state provider) STATE_TTL_SECONDS) later"
| "oauth_run store s ((now, Validate state provider) # later) =
     (case validate_state store s now state provider of
        (ok, s1) \<Rightarrow> (if ok then [(now, state, provider)] else []) @ oauth_run store s1 later)"

fun op_provider :: "oauth_op \<Rightarrow> string" where
  "op_provider (Issue s p) = p"
| "op_provider (Validate s p) = p"

definition known_providers :: "(time \<times> oauth_op) list \<Rightarrow> bool" where
  "known_providers ops \<longleftrightarrow> (\<forall>(t, x) \<in> set ops. op_provider x \<in> {''google'', ''facebook''})"

lemma state_key_inj:
  assumes "state_key s p = state_key s' p'" "p \<in> {''google'', ''facebook''}" "p' \<in> {''google'', ''facebook''}"
  shows "s = s' \<and> p = p'"
proof -
  have "s @ '':'' @ p = s' @ '':'' @ p'" using assms(1) by (simp add: state_key_def)
  then have "rev p @ '':'' @ rev s = rev p' @ '':'' @ rev s'" by (metis append.assoc rev_append rev_singleton_conv)
  then show ?thesis using assms(2,3) by auto
qed

context token_store begin

lemma oauth_issue_live:
  "invar s \<Longrightarrow> now \<le> t \<Longrightarrow> live (ts_add ops s now k STATE_TTL_SECONDS) t k' \<Longrightarrow>
   (k' = k \<and> t \<le> now + 600) \<or> (k' \<noteq> k \<and> live s t k')"
  using add_expired [of s STATE_TTL_SECONDS now t k] add_live_other [of s now t k' k STATE_TTL_SECONDS]
  by (cases "k' = k") (force simp: STATE_TTL_SECONDS_def)+

lemma oauth_validate:
  assumes "invar s" "validate_state ops s now state provider = (ok, s')"
  shows "ok = live s now (state_key state provider)" "invar s'"
    and "now \<le> t \<Longrightarrow> live s' t k \<longleftrightarrow> live s t k \<and> (ok \<longrightarrow> k \<noteq> state_key state provider)"
  using assms contains_ans [OF assms(1)] contains_live [OF assms(1)] invar_contains [OF assms(1), of now "state_key state provider"]
    invar_remove remove_live
  by (auto simp: validate_state_def split: prod.splits bool.splits) (metis fst_conv snd_conv)+

lemma oauth_at_most_once:
  assumes "invar s" "sorted (now # map fst xs)" "known_providers xs" "p \<in> {''google'', ''facebook''}"
  shows "length (filter (\<lambda>(t, x). x = (st, p)) (oauth_run ops s xs)) \<le>
    length (filter (\<lambda>(t, x). x = Issue st p) xs) + (if \<exists>t \<ge> now. live s t (state_key st p) then 1 else 0)"
  using assms
proof (induction xs arbitrary: s now)
  case (Cons x xs)
  obtain t y where x: "x = (t, y)" by (cases x)
  have srt: "sorted (t # map fst xs)" "now \<le> t" and kn: "known_providers xs" "op_provider y \<in> {''google'', ''facebook''}"
    using Cons.prems x by (auto simp: known_providers_def)
  show ?case
  proof (cases y)
    case (Issue a b)
    let ?s = "ts_add ops s t (state_key a b) STATE_TTL_SECONDS"
    have "length (filter (\<lambda>(t, x). x = (st, p)) (oauth_run ops ?s xs)) \<le>
        length (filter (\<lambda>(t, x). x = Issue st p) xs) + (if \<exists>u \<ge> t. live ?s u (state_key st p) then 1 else 0)"
      by (rule Cons.IH [OF invar_add [OF Cons.prems(1)] srt(1) kn(1) Cons.prems(4)])
    moreover have "live s u (state_key st p)" if "u \<ge> t" "live ?s u (state_key st p)" "(a, b) \<noteq> (st, p)" for u
      using oauth_issue_live [OF Cons.prems(1) that(1,2)] that(3) state_key_inj [of st p a b] kn(2) Cons.prems(4) Issue by auto
    moreover have "\<exists>u \<ge> now. live s u (state_key st p)" if "\<exists>u \<ge> t. live ?s u (state_key st p)" "(a, b) \<noteq> (st, p)"
      using that calculation(2) srt(2) by (meson order_trans)
    ultimately show ?thesis by (cases "(a, b) = (st, p)") (auto simp: x Issue split: if_splits)
  next
    case (Validate a b)
    obtain ok s1 where v: "validate_state ops s t a b = (ok, s1)" by fastforce
    note v' = oauth_validate [OF Cons.prems(1) v]
    have ih: "length (filter (\<lambda>(t, x). x = (st, p)) (oauth_run ops s1 xs)) \<le>
        length (filter (\<lambda>(t, x). x = Issue st p) xs) + (if \<exists>u \<ge> t. live s1 u (state_key st p) then 1 else 0)"
      by (rule Cons.IH [OF v'(2) srt(1) kn(1) Cons.prems(4)])
    have keep: "\<exists>u \<ge> now. live s u (state_key st p)" if "\<exists>u \<ge> t. live s1 u (state_key st p)"
      using that v'(3) srt(2) by (meson order_trans)
    show ?thesis
    proof (cases "ok \<and> (a, b) = (st, p)")
      case True
      then have "live s t (state_key st p)" "\<not> (\<exists>u \<ge> t. live s1 u (state_key st p))" using v' by auto
      then have "\<exists>u \<ge> now. live s u (state_key st p)" using srt(2) by blast
      then show ?thesis using ih True \<open>\<not> (\<exists>u \<ge> t. live s1 u (state_key st p))\<close> using v by (simp add: x Validate)
    next
      case False
      then show ?thesis using ih keep by (auto simp: x Validate v split: if_splits)
    qed
  qed
qed simp

lemma oauth_recent:
  assumes "invar s" "sorted (map fst xs)" "known_providers xs" "(t, st, p) \<in> set (oauth_run ops s xs)"
  shows "live s t (state_key st p) \<or> (\<exists>t0. (t0, Issue st p) \<in> set xs \<and> t0 \<le> t \<and> t \<le> t0 + 600)"
  using assms
proof (induction xs arbitrary: s)
  case (Cons x xs)
  obtain u y where x: "x = (u, y)" by (cases x)
  have srt: "sorted (map fst xs)" and kn: "known_providers xs" "op_provider y \<in> {''google'', ''facebook''}"
    using Cons.prems(2,3) x by (auto simp: known_providers_def)
  have known: "p \<in> {''google'', ''facebook''}" and after: "u \<le> t"
  proof -
    have "(t, st, p) \<in> set (oauth_run ops s ys) \<Longrightarrow> (t, Validate st p) \<in> set ys" for ys
      by (induction ops s ys rule: oauth_run.induct) (auto split: prod.splits if_splits)
    then have "(t, Validate st p) \<in> set (x # xs)" using Cons.prems(4) by blast
    then show "p \<in> {''google'', ''facebook''}" "u \<le> t" using Cons.prems(2,3) by (auto simp: known_providers_def x)
  qed
  show ?case
  proof (cases y)
    case (Issue a b)
    have run: "(t, st, p) \<in> set (oauth_run ops (ts_add ops s u (state_key a b) STATE_TTL_SECONDS) xs)"
      using Cons.prems(4) by (simp add: x Issue)
    from Cons.IH [OF invar_add [OF Cons.prems(1)] srt kn(1) run] show ?thesis
    proof
      assume "live (ts_add ops s u (state_key a b) STATE_TTL_SECONDS) t (state_key st p)"
      then show ?thesis
        using oauth_issue_live [OF Cons.prems(1) after] state_key_inj [of st p a b] known kn(2) after Issue x by auto
    qed (auto simp: x)
  next
    case (Validate a b)
    obtain ok s1 where v: "validate_state ops s u a b = (ok, s1)" by fastforce
    note v' = oauth_validate [OF Cons.prems(1) v]
    show ?thesis
    proof (cases "ok \<and> (t, st, p) = (u, a, b)")
      case True
      then show ?thesis using v'(1) by simp
    next
      case False
      then have "(t, st, p) \<in> set (oauth_run ops s1 xs)" using Cons.prems(4) by (auto simp: x Validate v split: if_splits)
      then show ?thesis using Cons.IH [OF v'(2) srt kn(1)] v'(3) [OF after] by (auto simp: x)
    qed
  qed
qed simp

end

end
