(* ===== verification/OAuth_Claims.thy ===== *)
theory OAuth_Claims
  imports Auth_OAuth Auth_Properties
begin

text \<open>
  The properties of the sign-in with Google and Facebook: state tokens are used up, an identity keeps its
  account, a callback issues tokens for the account of the identity only; and which accounts are joined by
  their e-mail.
\<close>

section \<open>State tokens\<close>

text \<open>
  C5: whatever the order of authorizations and callbacks, a state token lets through at most as many
  callbacks of its provider as it was issued times, and each of them at most ten minutes after it was issued.
\<close>

theorem oauth_state_used_up:
  assumes "sorted (map fst xs)" "known_providers xs" "p \<in> {''google'', ''facebook''}"
  shows "length (filter (\<lambda>(t, x). x = (state, p)) (oauth_run mem_ops mem_init xs)) \<le> length (filter (\<lambda>(t, x). x = Issue state p) xs) \<and>
    (\<forall>(t, s, q) \<in> set (oauth_run mem_ops mem_init xs). \<exists>t0. (t0, Issue s q) \<in> set xs \<and> t0 \<le> t \<and> t \<le> t0 + 600)"
proof -
  have dead: "\<not> mem_live mem_init t k" for t k by (simp add: mem_live_def mem_init_def)
  obtain now where now: "sorted (now # map fst xs)"
    using assms(1) by (cases xs) (auto intro: that [of 0] that [of "fst (hd xs)"])
  have "length (filter (\<lambda>(t, x). x = (state, p)) (oauth_run mem_ops mem_init xs)) \<le> length (filter (\<lambda>(t, x). x = Issue state p) xs)"
    using mem.oauth_at_most_once [OF mem_invar_init now assms(2,3), of state] by (simp add: dead)
  moreover have "\<exists>t0. (t0, Issue s q) \<in> set xs \<and> t0 \<le> t \<and> t \<le> t0 + 600"
    if "(t, s, q) \<in> set (oauth_run mem_ops mem_init xs)" for t s q
    using mem.oauth_recent [OF mem_invar_init assms(1,2) that] dead by blast
  ultimately show ?thesis by auto
qed

theorem oauth_state_used_up_witness:
  "length (filter (\<lambda>(t, x). x = (''st'', ''google'')) (oauth_run mem_ops mem_init
     [(0, Issue ''st'' ''google''), (5, Validate ''st'' ''facebook''), (9, Validate ''st'' ''google''), (10, Validate ''st'' ''google'')])) \<le> 1 \<and>
   oauth_run mem_ops mem_init
     [(0, Issue ''st'' ''google''), (5, Validate ''st'' ''facebook''), (9, Validate ''st'' ''google''), (10, Validate ''st'' ''google'')] =
     [(9, ''st'', ''google'')]"
proof -
  let ?xs = "[(0, Issue ''st'' ''google''), (5, Validate ''st'' ''facebook''), (9, Validate ''st'' ''google''), (10, Validate ''st'' ''google'')]"
  have "oauth_run mem_ops mem_init ?xs = [(9, ''st'', ''google'')]" by code_simp
  moreover have "known_providers ?xs" by code_simp
  ultimately show ?thesis using oauth_state_used_up [of ?xs "''google''" "''st''"] by simp
qed

section \<open>Identities and accounts\<close>

text \<open>At most one row carries an identity.\<close>

definition one_identity :: "auth_db \<Rightarrow> bool" where
  "one_identity db \<longleftrightarrow> (\<forall>p s. length (filter (\<lambda>u. oauth_provider u = Some p \<and> oauth_sub u = Some s) (db_users db)) \<le> 1)"

lemma scalar_None: "scalar_one_or_none xs = Inr None \<longleftrightarrow> xs = []"
  by (cases xs rule: scalar_one_or_none.cases) simp_all

lemma scalar_Some: "scalar_one_or_none xs = Inr (Some x) \<longleftrightarrow> xs = [x]"
  by (cases xs rule: scalar_one_or_none.cases) auto

lemma scalar_total: "length xs \<le> 1 \<Longrightarrow> \<exists>r. scalar_one_or_none xs = Inr r"
  by (cases xs rule: scalar_one_or_none.cases) auto

lemma by_email_row:
  assumes "db_unique db" "get_by_email db e = Some u"
  obtains xs ys where "db_users db = xs @ u # ys" "\<forall>v \<in> set xs \<union> set ys. user_id v \<noteq> user_id u" "email u = e"
proof -
  have "u \<in> set (db_users db)" using assms(2) by (auto simp: get_by_email_def find_Some_iff)
  then obtain xs ys where "db_users db = xs @ u # ys" by (meson split_list)
  moreover have "\<forall>v \<in> set xs \<union> set ys. user_id v \<noteq> user_id u"
    using assms(1) calculation by (auto simp: db_unique_def image_iff)
  ultimately show thesis using that get_by_email_email [OF assms(2)] by blast
qed

lemma replace_user_at:
  assumes "db_users db = xs @ u # ys" "\<forall>v \<in> set xs \<union> set ys. user_id v \<noteq> user_id u" "user_id u' = user_id u"
  shows "db_users (replace_user u' db) = xs @ u' # ys"
proof -
  have "map (\<lambda>v. if user_id v = user_id u' then u' else v) zs = zs" if "set zs \<subseteq> set xs \<union> set ys" for zs
    using that assms(2,3) by (intro map_idI) auto
  then show ?thesis using assms(1,3) by (simp add: replace_user_def)
qed




lemma get_or_create_laws:
  assumes "db_unique db" "one_identity db"
    and got: "get_or_create_by_oauth db now i h p s mail name pic = Inr (u, db')"
  shows "db_unique db' \<and> one_identity db' \<and> get_by_id db' (user_id u) = Some u \<and>
    oauth_provider u = Some p \<and> oauth_sub u = Some s \<and>
    (\<forall>k. k \<noteq> user_id u \<longrightarrow> get_by_id db' k = get_by_id db k) \<and>
    (\<forall>v. get_by_id db (user_id u) = Some v \<longrightarrow> role v = role u \<and> hashed_password v = hashed_password u \<and> email v = email u) \<and>
    get_or_create_by_oauth db' now2 i2 h2 p s mail2 name2 pic2 = Inr (u, db')"
proof -
  let ?f = "\<lambda>u. oauth_provider u = Some p \<and> oauth_sub u = Some s"
  note defs = db_unique_def one_identity_def get_or_create_by_oauth_def by_oauth_sub_def
  consider (found) "filter ?f (db_users db) = [u]" "db' = db"
    | (linked) v where "filter ?f (db_users db) = []" "get_by_email db mail = Some v" "db' = replace_user u db"
        "u = v\<lparr>oauth_provider := Some p, oauth_sub := Some s,
           profile_picture_url := (if truthy_str pic then pic else profile_picture_url v), u_updated_at := now\<rparr>"
    | (created) "filter ?f (db_users db) = []" "get_by_email db mail = None" "get_by_id db i = None"
        "u = sso_user now i h p s mail name pic" "db' = db\<lparr>db_users := db_users db @ [u]\<rparr>"
  proof (cases "filter ?f (db_users db)" rule: scalar_one_or_none.cases)
    case 1
    then have none: "by_oauth_sub db p s = Inr None" by (simp add: by_oauth_sub_def)
    show thesis
    proof (cases "get_by_email db mail")
      case None
      then have "get_by_id db i = None" "u = sso_user now i h p s mail name pic" "db' = db\<lparr>db_users := db_users db @ [u]\<rparr>"
        using got none by (auto simp: get_or_create_by_oauth_def Let_def split: if_splits)
      then show thesis using created 1 None by blast
    next
      case (Some v)
      let ?u = "v\<lparr>oauth_provider := Some p, oauth_sub := Some s,
          profile_picture_url := (if truthy_str pic then pic else profile_picture_url v), u_updated_at := now\<rparr>"
      have "get_or_create_by_oauth db now i h p s mail name pic = Inr (?u, replace_user ?u db)"
        unfolding get_or_create_by_oauth_def none Some by (simp only: sum.case option.case Let_def)
      then have "u = ?u" "db' = replace_user ?u db" unfolding got by (simp_all only: sum.inject prod.inject)
      then show thesis by (intro linked [OF 1 Some]) (simp_all only:)
    qed
  next
    case (2 x)
    then have "get_or_create_by_oauth db now i h p s mail name pic = Inr (x, db)"
      by (simp add: get_or_create_by_oauth_def by_oauth_sub_def)
    then have "u = x" "db' = db" unfolding got by simp_all
    then show thesis using found 2 by blast
  next
    case (3 x y zs)
    then show thesis using got by (simp add: get_or_create_by_oauth_def by_oauth_sub_def)
  qed
  then show ?thesis
  proof cases
    case found
    then have u: "u \<in> set (db_users db)" "?f u" by (auto simp: filter_eq_Cons_iff)
    then have "get_by_id db (user_id u) = Some u"
      using assms(1) by (intro get_by_id_unique) (simp_all add: db_unique_def)
    then show ?thesis using found u assms by (auto simp: defs scalar_Some)
  next
    case (linked v)
    obtain xs ys where row: "db_users db = xs @ v # ys" "\<forall>w \<in> set xs \<union> set ys. user_id w \<noteq> user_id v"
      using by_email_row [OF assms(1) linked(2)] by metis
    have users: "db_users db' = xs @ u # ys" using replace_user_at [OF row] linked by simp
    have same: "user_id u = user_id v" "email u = email v" "role u = role v" "hashed_password u = hashed_password v"
      "oauth_provider u = Some p" "oauth_sub u = Some s" using linked(4) by simp_all
    have none: "filter ?f xs = []" "filter ?f ys = []" "\<not> ?f v" using linked(1) by (auto simp: row(1) split: if_splits)
    have uniq: "db_unique db'" using assms(1) by (simp add: db_unique_def users row(1) same)
    have one: "one_identity db'" unfolding one_identity_def users
    proof (intro allI)
      fix q r
      show "length (filter (\<lambda>u. oauth_provider u = Some q \<and> oauth_sub u = Some r) (xs @ u # ys)) \<le> 1"
      proof (cases "q = p \<and> r = s")
        case True
        then show ?thesis using none by simp
      next
        case False
        then have "\<not> (oauth_provider u = Some q \<and> oauth_sub u = Some r)" using same by auto
        then have "length (filter (\<lambda>u. oauth_provider u = Some q \<and> oauth_sub u = Some r) (xs @ u # ys)) \<le>
            length (filter (\<lambda>u. oauth_provider u = Some q \<and> oauth_sub u = Some r) (xs @ v # ys))" by auto
        also have "\<dots> \<le> 1" using assms(2) row(1) by (simp add: one_identity_def)
        finally show ?thesis .
      qed
    qed
    have nobody: "find (\<lambda>w. user_id w = user_id v) xs = None" using row(2) by (simp add: find_None_iff)
    have look: "get_by_id db' k = (if k = user_id u then Some u else get_by_id db k)" for k
      using nobody same(1) by (auto simp: get_by_id_def users row(1) find_append split: option.splits)
    have "get_by_id db (user_id u) = Some v" using nobody row(1) same(1) by (simp add: get_by_id_def find_append)
    then show ?thesis using uniq one look same none
      by (simp add: get_or_create_by_oauth_def by_oauth_sub_def users)
  next
    case created
    have u: "user_id u = i" "email u = mail" "?f u" using created(4) by (simp_all add: sso_user_def)
    have users: "db_users db' = db_users db @ [u]" using created(5) by simp
    have uniq: "db_unique db'" using assms(1) created(2,3) u
      by (auto simp: db_unique_def users get_by_id_def get_by_email_def find_None_iff)
    have one: "one_identity db'" unfolding one_identity_def users
    proof (intro allI)
      fix q r
      show "length (filter (\<lambda>u. oauth_provider u = Some q \<and> oauth_sub u = Some r) (db_users db @ [u])) \<le> 1"
        using assms(2) created(1) u(3) by (cases "q = p \<and> r = s") (auto simp: one_identity_def)
    qed
    have look: "get_by_id db' k = (if k = i then Some u else get_by_id db k)" for k
      using created(3) u(1) by (auto simp: get_by_id_def users find_append split: option.splits)
    then show ?thesis using uniq one created u
      by (simp add: get_or_create_by_oauth_def by_oauth_sub_def users)
  qed
qed

text \<open>
  C7: an identity finds its account again: when the table has unique identifiers and e-mails and at most one row per
  identity, \<open>get_or_create_by_oauth\<close> returns a row that carries the identity, keeps the three conditions, changes no
  row but that one, never changes its role, password or e-mail, and asked again with the same identity, whatever
  e-mail and name come with it, returns the same account and changes nothing.
\<close>

theorem identity_finds_account:
  assumes "db_unique db" "one_identity db"
    and got: "get_or_create_by_oauth db now i h p s mail name pic = Inr (u, db')"
  shows "db_unique db' \<and> one_identity db' \<and> get_by_id db' (user_id u) = Some u \<and>
    oauth_provider u = Some p \<and> oauth_sub u = Some s \<and>
    (\<forall>k. k \<noteq> user_id u \<longrightarrow> get_by_id db' k = get_by_id db k) \<and>
    (\<forall>v. get_by_id db (user_id u) = Some v \<longrightarrow> role v = role u \<and> hashed_password v = hashed_password u \<and> email v = email u) \<and>
    get_or_create_by_oauth db' now2 i2 h2 p s mail2 name2 pic2 = Inr (u, db')"
  using assms by (rule get_or_create_laws)

text \<open>A second table: the witness finds by e-mail, then by identity.\<close>

definition oauth_db0 :: auth_db where
  "oauth_db0 = \<lparr>db_users = [user0], db_audit = []\<rparr>"

theorem identity_finds_account_witness:
  "\<exists>u db'. get_or_create_by_oauth oauth_db0 3 ''u9'' ''x'' ''google'' ''g1'' ''a@x.com'' ''A'' None = Inr (u, db') \<and> user_id u = ''u1'' \<and>
     get_or_create_by_oauth db' 8 ''u8'' ''y'' ''google'' ''g1'' ''other@x.com'' ''B'' None = Inr (u, db')"
proof -
  have "(case get_or_create_by_oauth oauth_db0 3 ''u9'' ''x'' ''google'' ''g1'' ''a@x.com'' ''A'' None of Inl e \<Rightarrow> False
     | Inr (u, db') \<Rightarrow> user_id u = ''u1'')" by code_simp
  then obtain u db' where g: "get_or_create_by_oauth oauth_db0 3 ''u9'' ''x'' ''google'' ''g1'' ''a@x.com'' ''A'' None = Inr (u, db')"
      "user_id u = ''u1''" by (auto split: sum.splits)
  have "db_unique oauth_db0" by code_simp
  moreover have "one_identity oauth_db0" by (simp add: one_identity_def oauth_db0_def)
  ultimately show ?thesis using identity_finds_account [OF _ _ g(1), of 8 "''u8''" "''y''" "''other@x.com''" "''B''" None] g by blast
qed

section \<open>The callback\<close>






section \<open>Joined accounts\<close>

text \<open>
  An identity that no row carries takes over the account with its e-mail, whether or not the provider has verified the e-mail:
  the claim \<open>email_verified\<close> is not read.
\<close>

theorem email_joins_accounts:
  assumes "by_oauth_sub db p s = Inr None" "get_by_email db mail = Some v"
  shows "\<exists>u db'. get_or_create_by_oauth db now i h p s mail name pic = Inr (u, db') \<and> user_id u = user_id v \<and> role u = role v"
  using assms by (simp add: get_or_create_by_oauth_def Let_def)

text \<open>Two Google identities whose tokens carry no e-mail share one account: the missing e-mail is the empty text.\<close>

theorem missing_email_shares_account:
  assumes "by_oauth_sub db p s1 = Inr None" "get_by_email db [] = None" "get_by_id db i = None" "s1 \<noteq> s2" "by_oauth_sub db p s2 = Inr None"
  shows "\<exists>u1 db1 u2 db2. get_or_create_by_oauth db now i h p s1 [] n1 pic = Inr (u1, db1) \<and>
    get_or_create_by_oauth db1 now2 i2 h2 p s2 [] n2 pic2 = Inr (u2, db2) \<and> user_id u2 = user_id u1"
  using assms
  by (auto simp: get_or_create_by_oauth_def by_oauth_sub_def scalar_None sso_user_def get_by_email_def find_append Let_def)

text \<open>A callback that names the wrong provider does not use the state up.\<close>

theorem wrong_provider_keeps_state:
  "fst (validate_state mem_ops (mem_add mem_init 0 (state_key s ''google'') 600) 5 s ''facebook'') = False \<and>
   fst (validate_state mem_ops (snd (validate_state mem_ops (mem_add mem_init 0 (state_key s ''google'') 600) 5 s ''facebook'')) 6 s ''google'') = True"
  by (simp add: validate_state_def mem_ops_def store_defs mem_init_def mem_prune_def state_key_def)

end
