(* ===== verification/Obs_Collector.thy ===== *)
theory Obs_Collector
  imports Prelude "HOL-Library.List_Lexorder" "HOL-Library.Char_ord"
begin

text \<open>
  \<open>backend/observability.py\<close>: the collector of LLM metrics behind the administration pages, with its counters,
  sliding windows, the health of the tiers, the prices and the buffer of events that a timer writes to
  \<open>stocks.llm_usage\<close>; and the two tier routes of \<open>backend/routes.py\<close>. Every method runs under the lock, except that a
  flush takes a batch, writes it without the lock and puts it back when the write fails: two steps here. Lemmas: bounded
  windows, and how the buffer is emptied.
\<close>

section \<open>State\<close>

definition MAX_EVENTS :: nat where "MAX_EVENTS = 1000"
definition OBS_MINUTE :: time where "OBS_MINUTE = 60"
definition HEALTH_WINDOW :: time where "HEALTH_WINDOW = 300"
definition DEGRADED_FAILURES :: nat where "DEGRADED_FAILURES = 1"
definition DOWN_FAILURES :: nat where "DOWN_FAILURES = 4"
definition LATENCY_WINDOW :: nat where "LATENCY_WINDOW = 100"
definition FLUSH_BATCH :: nat where "FLUSH_BATCH = 50"

record usage_event =
  ev_type :: string
  ev_model :: string
  ev_provider :: string
  ev_agent_id :: string
  ev_tier_index :: int
  ev_user_id :: "string option"
  ev_prompt_tokens :: "int option"
  ev_completion_tokens :: "int option"
  ev_total_tokens :: "int option"
  ev_rates :: "(rat \<times> rat) option"
  ev_cost :: "rat option"
  ev_latency_ms :: "int option"
  ev_cascade_reason :: "string option"
  ev_success :: bool
  ev_key_source :: "string option"
  ev_usage_id :: string
  ev_timestamp :: time

record cascade_entry =
  ce_timestamp :: time
  ce_from_model :: string
  ce_to_model :: string
  ce_reason :: string

record collector =
  ob_repo :: bool
  ob_requests :: "(string \<times> int) list"
  ob_cascade_count :: int
  ob_compression_count :: int
  ob_cascade_log :: "cascade_entry list"
  ob_minute :: "(string \<times> time list) list"
  ob_pricing :: "((string \<times> string) \<times> (rat \<times> rat)) list"
  ob_pending :: "usage_event list"
  ob_prompt :: "(string \<times> int) list"
  ob_completion :: "(string \<times> int) list"
  ob_failures :: "(string \<times> time list) list"
  ob_successes :: "(string \<times> time list) list"
  ob_cascades :: "(string \<times> int) list"
  ob_latency :: "(string \<times> (time \<times> int) list) list"
  ob_disabled :: "string set"

definition empty_collector :: collector where
  "empty_collector = \<lparr>ob_repo = False, ob_requests = [], ob_cascade_count = 0, ob_compression_count = 0, ob_cascade_log = [],
     ob_minute = [], ob_pricing = [], ob_pending = [], ob_prompt = [], ob_completion = [], ob_failures = [], ob_successes = [],
     ob_cascades = [], ob_latency = [], ob_disabled = {}\<rparr>"

text \<open>\<open>d.get(k, 0)\<close> and \<open>d.get(k)\<close> of a deque; a deque with \<open>maxlen\<close> drops from the front.\<close>

definition count_of :: "(string \<times> int) list \<Rightarrow> string \<Rightarrow> int" where
  "count_of d k = (case map_of d k of None \<Rightarrow> 0 | Some n \<Rightarrow> n)"

definition deque_of :: "(string \<times> 'a list) list \<Rightarrow> string \<Rightarrow> 'a list" where
  "deque_of d k = (case map_of d k of None \<Rightarrow> [] | Some xs \<Rightarrow> xs)"

definition push :: "nat \<Rightarrow> 'a \<Rightarrow> 'a list \<Rightarrow> 'a list" where
  "push maxlen x xs = (let ys = xs @ [x] in drop (length ys - maxlen) ys)"

section \<open>Prices and seeding\<close>

text \<open>The rows of the pricing table; \<^const>\<open>None\<close> when the query raises.\<close>

definition load_pricing :: "(string \<times> string \<times> rat \<times> rat) list option \<Rightarrow> collector \<Rightarrow> collector" where
  "load_pricing rows c =
     (case rows of None \<Rightarrow> c
      | Some rs \<Rightarrow> c\<lparr>ob_pricing := fold (\<lambda>(p, m, i, out). AList.update (p, m) (i, out)) rs (ob_pricing c)\<rparr>)"

definition reload_pricing :: "(string \<times> string \<times> rat \<times> rat) list option \<Rightarrow> collector \<Rightarrow> collector" where
  "reload_pricing rows c = load_pricing rows (c\<lparr>ob_pricing := []\<rparr>)"

definition get_pricing :: "string \<Rightarrow> string \<Rightarrow> collector \<Rightarrow> (rat \<times> rat) option" where
  "get_pricing provider model c = map_of (ob_pricing c) (provider, model)"

definition estimate_cost :: "string \<Rightarrow> string \<Rightarrow> int option \<Rightarrow> int option \<Rightarrow> collector \<Rightarrow> ((rat \<times> rat) \<times> rat) option" where
  "estimate_cost provider model pt ct c =
     (case get_pricing provider model c of None \<Rightarrow> None
      | Some (in_rate, out_rate) \<Rightarrow>
          Some ((in_rate, out_rate), (of_int (int_or pt 0) * in_rate + of_int (int_or ct 0) * out_rate) / 1000000))"

record usage_totals =
  ut_requests :: int
  ut_cascades :: int
  ut_compressions :: int

definition seed_totals :: "usage_totals option \<Rightarrow> collector \<Rightarrow> collector" where
  "seed_totals totals c =
     (case totals of None \<Rightarrow> c
      | Some t \<Rightarrow>
          (let c1 = c\<lparr>ob_cascade_count := ut_cascades t, ob_compression_count := ut_compressions t\<rparr>
           in if 0 < ut_requests t then c1\<lparr>ob_requests := AList.update ''_lifetime'' (ut_requests t) (ob_requests c1)\<rparr> else c1))"

text \<open>
  The rows of today, by model: \<open>groupby\<close> sorts the models and leaves out rows without one; missing counts are
  skipped by \<open>sum\<close>. A value already tracked is kept.
\<close>

definition setdefault :: "string \<Rightarrow> int \<Rightarrow> (string \<times> int) list \<Rightarrow> (string \<times> int) list" where
  "setdefault k n d = (if map_of d k = None then AList.update k n d else d)"

definition seed_model :: "(string option \<times> int option \<times> int option) list \<Rightarrow> string \<Rightarrow> collector \<Rightarrow> collector" where
  "seed_model rows model c =
     (let grp = filter (\<lambda>(m, _). m = Some model) rows
      in c\<lparr>ob_requests := setdefault model (int (length grp)) (ob_requests c),
           ob_prompt := setdefault model (sum_list (map (\<lambda>(m, p, q). int_or p 0) grp)) (ob_prompt c),
           ob_completion := setdefault model (sum_list (map (\<lambda>(m, p, q). int_or q 0) grp)) (ob_completion c)\<rparr>)"

definition seed_today :: "(string option \<times> int option \<times> int option) list option \<Rightarrow> collector \<Rightarrow> collector" where
  "seed_today rows c =
     (case rows of None \<Rightarrow> c
      | Some rs \<Rightarrow> fold (seed_model rs) (filter (\<lambda>m. m \<noteq> ''test-model'') (sort (remdups (List.map_filter fst rs)))) c)"

definition new_collector ::
    "bool \<Rightarrow> (string \<times> string \<times> rat \<times> rat) list option \<Rightarrow> usage_totals option \<Rightarrow>
     (string option \<times> int option \<times> int option) list option \<Rightarrow> collector" where
  "new_collector repo pricing totals today =
     (let c = empty_collector\<lparr>ob_repo := repo\<rparr>
      in if repo then seed_today today (seed_totals totals (load_pricing pricing c)) else c)"

section \<open>Recording\<close>

definition or_unknown :: "string \<Rightarrow> string" where
  "or_unknown s = (if s = [] then ''unknown'' else s)"

definition enqueue_event :: "usage_event \<Rightarrow> collector \<Rightarrow> collector" where
  "enqueue_event e c = (if ob_repo c then c\<lparr>ob_pending := ob_pending c @ [e]\<rparr> else c)"

definition add_tokens :: "string \<Rightarrow> int option \<Rightarrow> (string \<times> int) list \<Rightarrow> (string \<times> int) list" where
  "add_tokens model n d = (if int_or n 0 \<noteq> 0 then AList.update model (count_of d model + int_or n 0) d else d)"

definition record_request ::
    "time \<Rightarrow> time \<Rightarrow> string \<Rightarrow> string \<Rightarrow> string \<Rightarrow> string \<Rightarrow> int \<Rightarrow> string option \<Rightarrow> int option \<Rightarrow> int option \<Rightarrow> int option \<Rightarrow>
     string \<Rightarrow> collector \<Rightarrow> collector" where
  "record_request now clock uuid model provider agent_id tier_index uid pt ct latency_ms key_source c =
     (let c1 = c\<lparr>ob_requests := AList.update model (count_of (ob_requests c) model + 1) (ob_requests c),
                  ob_minute := AList.update model (deque_of (ob_minute c) model @ [now]) (ob_minute c),
                  ob_prompt := add_tokens model pt (ob_prompt c),
                  ob_completion := add_tokens model ct (ob_completion c),
                  ob_successes := AList.update model (push LATENCY_WINDOW now (deque_of (ob_successes c) model)) (ob_successes c),
                  ob_latency := (case latency_ms of None \<Rightarrow> ob_latency c
                     | Some ms \<Rightarrow> AList.update model (push LATENCY_WINDOW (now, ms) (deque_of (ob_latency c) model)) (ob_latency c))\<rparr>;
          est = estimate_cost provider model pt ct c1;
          total = int_or pt 0 + int_or ct 0
      in enqueue_event \<lparr>ev_type = ''request'', ev_model = model, ev_provider = or_unknown provider, ev_agent_id = or_unknown agent_id,
           ev_tier_index = tier_index, ev_user_id = uid, ev_prompt_tokens = pt, ev_completion_tokens = ct,
           ev_total_tokens = (if total = 0 then None else Some total), ev_rates = map_option fst est, ev_cost = map_option snd est,
           ev_latency_ms = latency_ms, ev_cascade_reason = None, ev_success = True, ev_key_source = Some key_source,
           ev_usage_id = uuid, ev_timestamp = clock\<rparr> c1)"

definition record_cascade ::
    "time \<Rightarrow> time \<Rightarrow> string \<Rightarrow> string \<Rightarrow> string \<Rightarrow> string \<Rightarrow> string \<Rightarrow> string \<Rightarrow> int \<Rightarrow> string option \<Rightarrow> collector \<Rightarrow> collector" where
  "record_cascade now clock uuid from_model reason to_model provider agent_id tier_index uid c =
     (let c1 = c\<lparr>ob_cascade_count := ob_cascade_count c + 1,
                  ob_cascade_log := push MAX_EVENTS \<lparr>ce_timestamp = clock, ce_from_model = from_model, ce_to_model = to_model,
                     ce_reason = reason\<rparr> (ob_cascade_log c),
                  ob_cascades := AList.update from_model (count_of (ob_cascades c) from_model + 1) (ob_cascades c),
                  ob_failures := AList.update from_model (push LATENCY_WINDOW now (deque_of (ob_failures c) from_model)) (ob_failures c)\<rparr>
      in enqueue_event \<lparr>ev_type = ''cascade'', ev_model = from_model, ev_provider = or_unknown provider,
           ev_agent_id = or_unknown agent_id, ev_tier_index = tier_index, ev_user_id = uid, ev_prompt_tokens = None,
           ev_completion_tokens = None, ev_total_tokens = None, ev_rates = None, ev_cost = None, ev_latency_ms = None,
           ev_cascade_reason = Some reason, ev_success = False, ev_key_source = None, ev_usage_id = uuid, ev_timestamp = clock\<rparr> c1)"

definition record_compression :: "time \<Rightarrow> string \<Rightarrow> string \<Rightarrow> string option \<Rightarrow> collector \<Rightarrow> collector" where
  "record_compression clock uuid agent_id uid c =
     enqueue_event \<lparr>ev_type = ''compression'', ev_model = ''n/a'', ev_provider = ''n/a'', ev_agent_id = or_unknown agent_id,
       ev_tier_index = 0, ev_user_id = uid, ev_prompt_tokens = None, ev_completion_tokens = None, ev_total_tokens = None,
       ev_rates = None, ev_cost = None, ev_latency_ms = None, ev_cascade_reason = None, ev_success = True, ev_key_source = None,
       ev_usage_id = uuid, ev_timestamp = clock\<rparr> (c\<lparr>ob_compression_count := ob_compression_count c + 1\<rparr>)"

section \<open>Flushing\<close>

text \<open>
  The timer takes a batch; \<open>flush_end\<close> is what follows the write, and \<open>flush_sync\<close> the flush of the shutdown, whose write
  happens with the buffer already empty. The table is the list of events written.
\<close>

definition flush_begin :: "collector \<Rightarrow> usage_event list \<times> collector" where
  "flush_begin c = (take FLUSH_BATCH (ob_pending c), c\<lparr>ob_pending := drop FLUSH_BATCH (ob_pending c)\<rparr>)"

definition flush_end :: "bool \<Rightarrow> usage_event list \<Rightarrow> usage_event list \<times> collector \<Rightarrow> usage_event list \<times> collector" where
  "flush_end ok batch tc =
     (case tc of (table, c) \<Rightarrow>
        if batch = [] then (table, c)
        else if ok then (table @ batch, c)
        else (table, c\<lparr>ob_pending := batch @ ob_pending c\<rparr>))"

definition flush_sync :: "bool \<Rightarrow> usage_event list \<times> collector \<Rightarrow> usage_event list \<times> collector" where
  "flush_sync ok tc =
     (case tc of (table, c) \<Rightarrow>
        (if ob_pending c \<noteq> [] \<and> ob_repo c \<and> ok then table @ ob_pending c else table, c\<lparr>ob_pending := []\<rparr>))"

section \<open>Tier health\<close>

definition disable_tier :: "string \<Rightarrow> collector \<Rightarrow> collector" where
  "disable_tier model c = c\<lparr>ob_disabled := insert model (ob_disabled c)\<rparr>"

definition enable_tier :: "string \<Rightarrow> collector \<Rightarrow> collector" where
  "enable_tier model c = c\<lparr>ob_disabled := ob_disabled c - {model}\<rparr>"

definition is_tier_disabled :: "string \<Rightarrow> collector \<Rightarrow> bool" where
  "is_tier_disabled model c \<longleftrightarrow> model \<in> ob_disabled c"

definition recent :: "time \<Rightarrow> time list \<Rightarrow> nat" where
  "recent now ts = length (filter (\<lambda>t. now - HEALTH_WINDOW \<le> t) ts)"

definition health_of :: "bool \<Rightarrow> nat \<Rightarrow> string" where
  "health_of disabled failures =
     (if disabled then ''disabled'' else if DOWN_FAILURES \<le> failures then ''down''
      else if DEGRADED_FAILURES \<le> failures then ''degraded'' else ''healthy'')"

definition classify_health :: "string \<Rightarrow> time \<Rightarrow> collector \<Rightarrow> string" where
  "classify_health model now c = health_of (model \<in> ob_disabled c) (recent now (deque_of (ob_failures c) model))"

text \<open>Average and 95th percentile; \<open>int(len * 0.95)\<close> is the floor for lengths up to 100.\<close>

definition latency_stats :: "string \<Rightarrow> time \<Rightarrow> collector \<Rightarrow> (int \<times> int) option" where
  "latency_stats model now c =
     (let dq = deque_of (ob_latency c) model;
          windowed = map snd (filter (\<lambda>(t, ms). now - HEALTH_WINDOW \<le> t) dq);
          used = sort (if windowed = [] then map snd dq else windowed)
      in if used = [] then None
         else Some (sum_list used div int (length used), used ! min (length used * 95 div 100) (length used - 1)))"

record tier_report =
  th_model :: string
  th_status :: string
  th_failures :: nat
  th_successes :: nat
  th_cascades :: int
  th_latency :: "(int \<times> int) option"

record health_report =
  hr_tiers :: "tier_report list"
  hr_total :: nat
  hr_healthy :: nat
  hr_degraded :: nat
  hr_down :: nat
  hr_disabled :: nat

text \<open>Without a list of tiers, all models with activity, in the order \<open>arrange\<close> in which Python lists a set.\<close>

definition get_tier_health :: "(string list \<Rightarrow> string list) \<Rightarrow> string list \<Rightarrow> time \<Rightarrow> collector \<Rightarrow> health_report" where
  "get_tier_health arrange tier_models now c =
     (let models = (if tier_models \<noteq> [] then tier_models
                    else arrange (filter (\<lambda>m. m \<noteq> ''_lifetime'') (remdups (map fst (ob_requests c) @ map fst (ob_cascades c)))));
          tiers = map (\<lambda>m. \<lparr>th_model = m, th_status = classify_health m now c,
                     th_failures = recent now (deque_of (ob_failures c) m), th_successes = recent now (deque_of (ob_successes c) m),
                     th_cascades = count_of (ob_cascades c) m, th_latency = latency_stats m now c\<rparr>) models;
          cnt = (\<lambda>s. length (filter (\<lambda>t. th_status t = s) tiers))
      in \<lparr>hr_tiers = tiers, hr_total = length tiers, hr_healthy = cnt ''healthy'', hr_degraded = cnt ''degraded'',
          hr_down = cnt ''down'', hr_disabled = cnt ''disabled''\<rparr>)"

record obs_stats =
  os_requests_total :: int
  os_requests_by_model :: "(string \<times> int) list"
  os_cascade_count :: int
  os_compression_count :: int
  os_cascade_log :: "cascade_entry list"
  os_rpm :: "(string \<times> nat) list"
  os_prompt_by :: "(string \<times> int) list"
  os_completion_by :: "(string \<times> int) list"
  os_total_prompt :: int
  os_total_completion :: int
  os_total_tokens :: int

definition get_stats :: "time \<Rightarrow> collector \<Rightarrow> obs_stats \<times> collector" where
  "get_stats now c =
     (let minute = map (\<lambda>(m, dq). (m, dropWhile (\<lambda>t. t < now - OBS_MINUTE) dq)) (ob_minute c);
          tp = sum_list (map snd (ob_prompt c)); tc = sum_list (map snd (ob_completion c))
      in (\<lparr>os_requests_total = sum_list (map snd (ob_requests c)),
           os_requests_by_model = filter (\<lambda>(m, n). m \<noteq> ''_lifetime'') (ob_requests c),
           os_cascade_count = ob_cascade_count c, os_compression_count = ob_compression_count c,
           os_cascade_log = drop (length (ob_cascade_log c) - 50) (ob_cascade_log c),
           os_rpm = map (\<lambda>(m, dq). (m, length dq)) minute, os_prompt_by = ob_prompt c, os_completion_by = ob_completion c,
           os_total_prompt = tp, os_total_completion = tc, os_total_tokens = tp + tc\<rparr>, c\<lparr>ob_minute := minute\<rparr>))"

section \<open>The tier routes\<close>

fun split_comma :: "string \<Rightarrow> string list" where
  "split_comma [] = [[]]"
| "split_comma (c # cs) =
     (if c = CHR '','' then [] # split_comma cs
      else case split_comma cs of [] \<Rightarrow> [[c]] | w # ws \<Rightarrow> (c # w) # ws)"

text \<open>\<open>groq_model_tiers\<close> is a text with commas.\<close>

definition admin_tier_health :: "(string list \<Rightarrow> string list) \<Rightarrow> string \<Rightarrow> time \<Rightarrow> collector option \<Rightarrow> health_report" where
  "admin_tier_health arrange raw_tiers now obs =
     (case obs of
        None \<Rightarrow> \<lparr>hr_tiers = [], hr_total = 0, hr_healthy = 0, hr_degraded = 0, hr_down = 0, hr_disabled = 0\<rparr>
      | Some c \<Rightarrow> get_tier_health arrange (filter (\<lambda>t. t \<noteq> []) (map strip (split_comma raw_tiers))) now c)"

definition admin_tier_toggle :: "string \<Rightarrow> bool \<Rightarrow> collector option \<Rightarrow> (string \<times> bool) result \<times> collector option" where
  "admin_tier_toggle model enabled obs =
     (case obs of
        None \<Rightarrow> (Inl (HTTPException 503 ''Observability not available''), None)
      | Some c \<Rightarrow> (Inr (model, enabled), Some (if enabled then enable_tier model c else disable_tier model c)))"

section \<open>Lemmas\<close>

lemma push_suffix: "push n x xs = drop (length xs + 1 - n) (xs @ [x])"
  by (simp add: push_def)

text \<open>The last \<open>n\<close> entries of a longer list: what a bounded deque holds.\<close>

definition last_n :: "nat \<Rightarrow> 'a list \<Rightarrow> 'a list" where
  "last_n n xs = drop (length xs - n) xs"

lemma push_last_n: "0 < n \<Longrightarrow> push n x (last_n n xs) = last_n n (xs @ [x])"
proof (cases "length xs < n")
  case False
  then have "length xs + 1 - n = 1 + (length xs - n)" by simp
  then show ?thesis using False by (simp add: push_suffix last_n_def Suc_diff_le)
qed (simp add: push_suffix last_n_def)

lemma filter_last_n:
  assumes "sorted ts"
  shows "min n (length (filter (\<lambda>t. a \<le> t) (last_n n ts))) = min n (length (filter (\<lambda>t. a \<le> t) (ts :: time list)))"
proof (cases "length ts \<le> n")
  case True
  then show ?thesis by (simp add: last_n_def)
next
  case False
  define us where "us = take (length ts - n) ts"
  define vs where "vs = last_n n ts"
  have ts: "ts = us @ vs" "length vs = n" using False by (simp_all add: us_def vs_def last_n_def)
  show ?thesis
  proof (cases "filter (\<lambda>t. a \<le> t) us = []")
    case True
    then show ?thesis unfolding vs_def [symmetric] by (simp add: ts(1))
  next
    case False
    then obtain u where "u \<in> set us" "a \<le> u" by (auto simp: filter_empty_conv)
    then have "filter (\<lambda>t. a \<le> t) vs = vs"
      using assms ts(1) by (auto simp: sorted_append intro!: filter_True intro: order_trans)
    then show ?thesis unfolding vs_def [symmetric] by (simp add: ts)
  qed
qed

end
