(* ===== verification/Chat_Text.thy ===== *)
theory Chat_Text
  imports Prelude "HOL-Library.List_Lexorder" "HOL-Library.Char_ord"
begin

text \<open>
  How the chat reads a question: \<open>backend/agents/router.py\<close> (blocked topics, financial keywords, ticker symbols, the
  legacy route), \<open>nodes/router_node.py\<close> (scores of intents), the text functions of \<open>nodes/guardrail.py\<close>, and
  \<open>nodes/query_cache.py\<close> (the normal form of a query and the cache behind it). Texts are ASCII: the keycap symbols
  of one regular expression are left out. Lemmas: what the lexers return.
\<close>

section \<open>Lexing\<close>

text \<open>\<open>re.findall\<close> of a class of characters repeated: the maximal runs.\<close>

function find_runs :: "(char \<Rightarrow> bool) \<Rightarrow> string \<Rightarrow> string list" where
  "find_runs P [] = []"
| "find_runs P (c # cs) =
     (if P c then (c # takeWhile P cs) # find_runs P (dropWhile P cs) else find_runs P cs)"
  by pat_completeness auto
termination by (relation "measure (length \<circ> snd)") (auto simp: le_imp_less_Suc length_dropWhile_le)

definition is_word :: "char \<Rightarrow> bool" where
  "is_word c \<longleftrightarrow> is_alnum c \<or> c = CHR ''_''"

text \<open>
  \<open>_TICKER_PATTERN\<close> at a place where a word begins: a run of one to five capitals, then, if it is there, a dot and one or
  two capitals, then the end of a word. A longer run cannot match a part, for the place after the part is inside a
  word.
\<close>

definition at_word_end :: "string \<Rightarrow> bool" where
  "at_word_end s \<longleftrightarrow> (case s of [] \<Rightarrow> True | c # cs \<Rightarrow> \<not> is_word c)"

definition ticker_at :: "string \<Rightarrow> (string \<times> string) option" where
  "ticker_at s =
     (let base = takeWhile is_upper s; rest = dropWhile is_upper s;
          suffix = takeWhile is_upper (tl rest); rest2 = dropWhile is_upper (tl rest)
      in if base = [] \<or> 5 < length base then None
         else if rest \<noteq> [] \<and> hd rest = CHR ''.'' \<and> suffix \<noteq> [] \<and> length suffix \<le> 2 \<and> at_word_end rest2
         then Some (base @ CHR ''.'' # suffix, rest2)
         else if at_word_end rest then Some (base, rest) else None)"

lemma ticker_at_shorter: "ticker_at s = Some (t, r) \<Longrightarrow> length r < length s"
proof -
  assume a: "ticker_at s = Some (t, r)"
  then have b: "takeWhile is_upper s \<noteq> []" by (auto simp: ticker_at_def Let_def split: if_splits)
  have l: "length (dropWhile is_upper s) < length s"
    using b by (metis length_append length_greater_0_conv less_add_same_cancel2 takeWhile_dropWhile_id)
  have "length (dropWhile is_upper (tl (dropWhile is_upper s))) \<le> length (dropWhile is_upper s)"
    by (metis length_dropWhile_le length_tl diff_le_self le_trans)
  then show ?thesis using a l by (auto simp: ticker_at_def Let_def split: if_splits)
qed

text \<open>\<open>_TICKER_PATTERN.findall\<close>; the flag says whether the character before is part of a word.\<close>

function find_tickers :: "bool \<Rightarrow> string \<Rightarrow> string list" where
  "find_tickers w [] = []"
| "find_tickers w (c # cs) =
     (if w then find_tickers (is_word c) cs
      else case ticker_at (c # cs) of
             Some (t, rest) \<Rightarrow> t # find_tickers True rest
           | None \<Rightarrow> find_tickers (is_word c) cs)"
  by pat_completeness auto
termination by (relation "measure (length \<circ> snd)") (auto dest: ticker_at_shorter)

definition ticker_findall :: "string \<Rightarrow> string list" where
  "ticker_findall = find_tickers False"

section \<open>Keywords\<close>

definition BLOCKED_KEYWORDS :: "string list" where
  "BLOCKED_KEYWORDS = [
    ''porn'', ''pornography'', ''xxx'', ''nude'', ''nudes'', ''naked'', ''sex'', ''sexual'', ''hentai'',
    ''erotic'', ''kill'', ''murder'', ''bomb'', ''weapon'', ''weapons'', ''gun'', ''guns'', ''torture'',
    ''terroris'', ''suicide'', ''hack'', ''hacking'', ''exploit'', ''malware'', ''ransomware'', ''phishing'',
    ''drugs'', ''cocaine'', ''heroin'', ''meth'']"

definition lower_words :: "string \<Rightarrow> string list" where
  "lower_words s = find_runs is_lower (str_lower s)"

definition is_blocked :: "string \<Rightarrow> bool" where
  "is_blocked user_input \<longleftrightarrow> list_ex (\<lambda>t. t \<in> set BLOCKED_KEYWORDS) (lower_words user_input)"

definition STOCK_KEYWORDS :: "string list" where
  "STOCK_KEYWORDS = [
    ''stock'', ''stocks'', ''share'', ''shares'', ''sector'', ''sectors'', ''ticker'', ''tickers'',
    ''analyze'', ''analyse'', ''analysis'', ''forecast'', ''price'', ''prices'', ''dividend'', ''dividends'',
    ''portfolio'', ''market'', ''markets'', ''bull'', ''bear'', ''bearish'', ''bullish'', ''nifty'',
    ''sensex'', ''nasdaq'', ''s&p'', ''dow'', ''bse'', ''nse'', ''rsi'', ''macd'', ''sma'', ''ema'',
    ''candlestick'', ''ohlc'', ''volume'', ''earnings'', ''revenue'', ''eps'', ''pe'', ''roe'', ''debt'',
    ''quarterly'', ''annual'', ''returns'', ''volatility'', ''sharpe'', ''drawdown'', ''hedge'', ''etf'',
    ''mutual'', ''fund'', ''invest'', ''investing'', ''investment'', ''trader'', ''trading'', ''buy'',
    ''sell'', ''hold'', ''watchlist'', ''industry'', ''ipo'', ''rally'', ''crash'', ''correction'',
    ''breakout'', ''support'', ''resistance'']"

definition amp_words :: "string \<Rightarrow> string list" where
  "amp_words s = find_runs (\<lambda>c. is_lower c \<or> c = CHR ''&'') (str_lower s)"

text \<open>The legacy route, with its own list of words that are not tickers.\<close>

definition ROUTE_COMMON :: "string list" where
  "ROUTE_COMMON = [''I'', ''A'', ''IT'', ''IS'', ''AM'', ''AN'', ''AT'', ''AS'', ''BE'', ''BY'', ''DO'', ''GO'', ''HE'', ''IF'', ''IN'',
    ''ME'', ''MY'', ''NO'', ''OF'', ''OK'', ''ON'', ''OR'', ''SO'', ''TO'', ''UP'', ''US'', ''WE'']"

definition route :: "string \<Rightarrow> string" where
  "route user_input =
     (if list_ex (\<lambda>t. t \<in> set STOCK_KEYWORDS) (amp_words user_input) then ''stock''
      else if filter (\<lambda>t. t \<notin> set ROUTE_COMMON) (ticker_findall user_input) \<noteq> [] then ''stock''
      else ''general'')"

section \<open>Intents\<close>

definition INTENT_MAP :: "(string \<times> string list) list" where
  "INTENT_MAP = [
    (''portfolio'',
     [
      ''portfolio'', ''holdings'', ''holding'', ''allocation'', ''weightage'', ''weight'', ''rebalance'',
      ''rebalancing'', ''diversify'', ''diversification'', ''sector breakdown'', ''my stocks'', ''my stock'',
      ''invested'', ''p&l'', ''pnl'', ''profit and loss'', ''returns'', ''return'', ''unrealized'',
      ''unrealised'']),
    (''stock_analysis'',
     [
      ''analyse'', ''analyze'', ''analysis'', ''technical'', ''indicator'', ''indicators'', ''rsi'', ''macd'',
      ''sma'', ''ema'', ''bollinger'', ''support'', ''resistance'', ''ohlcv'', ''ohlc'', ''candlestick'',
      ''compare'', ''comparison'', ''fetch'', ''load'', ''screener'']),
    (''forecast'',
     [
      ''forecast'', ''predict'', ''prediction'', ''prophet'', ''target'', ''price target'', ''outlook'',
      ''6 month'', ''3 month'', ''9 month'', ''projection'', ''future price'', ''will go up'', ''will go down'']),
    (''research'',
     [
      ''news'', ''headline'', ''headlines'', ''sentiment'', ''analyst'', ''upgrade'', ''downgrade'',
      ''market trend'', ''sector trend'', ''latest on'', ''what happened'', ''why did'']),
    (''recommendation'',
     [
      ''recommend'', ''recommendation'', ''recommendations'', ''suggestion'', ''suggestions'',
      ''what should i buy'', ''what should i sell'', ''portfolio advice'', ''improve my portfolio'',
      ''improve portfolio'', ''recommendation history'', ''how did your picks'', ''hit rate'',
      ''track record'', ''pick stocks'', ''why recommended'', ''why was it recommended'',
      ''recommendation detail'', ''piotroski''])]"

text \<open>\<open>kw in lower\<close> is the substring test; the scores keep the order of the map.\<close>

definition score_intents :: "string \<Rightarrow> (string \<times> nat) list" where
  "score_intents query =
     filter (\<lambda>(i, n). 0 < n) (map (\<lambda>(intent, kws). (intent, length (filter (\<lambda>kw. sublist kw (str_lower query)) kws))) INTENT_MAP)"

text \<open>\<open>max(scores, key=scores.get)\<close> is the first of the best.\<close>

fun best_of :: "(string \<times> nat) list \<Rightarrow> (string \<times> nat) option" where
  "best_of [] = None"
| "best_of ((i, n) # xs) =
     (case best_of xs of
        None \<Rightarrow> Some (i, n)
      | Some (j, m) \<Rightarrow> if n < m then Some (j, m) else Some (i, n))"

definition best_intent :: "string \<Rightarrow> string option" where
  "best_intent query = map_option fst (best_of (score_intents query))"

definition score_of :: "(string \<times> nat) list \<Rightarrow> string \<Rightarrow> nat" where
  "score_of scores i = (case map_of scores i of None \<Rightarrow> 0 | Some n \<Rightarrow> n)"

section \<open>The texts of the guardrail\<close>

definition EXTRA_FINANCIAL :: "string list" where
  "EXTRA_FINANCIAL = [
    ''portfolio'', ''holdings'', ''allocation'', ''weightage'', ''rebalance'', ''diversify'', ''profit'',
    ''loss'', ''pnl'', ''p&l'', ''capital gain'', ''capital loss'', ''gain'', ''yield'', ''beta'', ''alpha'',
    ''risk'', ''hedge'', ''margin'', ''leverage'', ''valuation'', ''outlook'', ''predict'', ''prophet'',
    ''technical'', ''fundamental'', ''indicator'', ''indicators'', ''screener'', ''correlation'', ''headline'',
    ''sentiment'', ''recommendation'', ''analyst'', ''upgrade'', ''downgrade'', ''overweight'', ''underweight'']"

definition COMMON_WORDS :: "string list" where
  "COMMON_WORDS = [
    ''I'', ''A'', ''IT'', ''IS'', ''AM'', ''AN'', ''AT'', ''AS'', ''BE'', ''BY'', ''DO'', ''GO'', ''HE'',
    ''IF'', ''IN'', ''ME'', ''MY'', ''NO'', ''OF'', ''OK'', ''ON'', ''OR'', ''SO'', ''TO'', ''UP'', ''US'',
    ''WE'', ''THE'', ''AND'', ''FOR'', ''NOT'', ''BUT'', ''ALL'', ''CAN'', ''HER'', ''WAS'', ''ONE'', ''OUR'',
    ''OUT'', ''ARE'', ''HAS'', ''HIS'', ''HOW'', ''ITS'', ''MAY'', ''NEW'', ''NOW'', ''OLD'', ''SEE'', ''WAY'',
    ''WHO'', ''DID'', ''GET'', ''HIM'', ''LET'', ''SAY'', ''SHE'', ''TOO'', ''USE'']"

text \<open>
  \<open>_CLARIFICATION_RE\<close>: one of four phrases in any case, where \<open>.*\<close> stays on its line, or a line that begins with a
  number, a dot or a bracket and white space.
\<close>

definition line_option :: "string \<Rightarrow> bool" where
  "line_option s \<longleftrightarrow>
     (case s of
        c # cs \<Rightarrow> c = CHR 0x0A \<and>
          (let ds = takeWhile is_digit cs; r = dropWhile is_digit cs
           in ds \<noteq> [] \<and> 2 \<le> length r \<and> (r ! 0 = CHR ''.'' \<or> r ! 0 = CHR '')'') \<and> is_space (r ! 1))
      | [] \<Rightarrow> False)"

definition select_option :: "string \<Rightarrow> bool" where
  "select_option s \<longleftrightarrow> prefix ''select'' s \<and> sublist ''option'' (takeWhile (\<lambda>c. c \<noteq> CHR 0x0A) (drop 6 s))"

definition clarification_re :: "string \<Rightarrow> bool" where
  "clarification_re response \<longleftrightarrow>
     (let s = str_lower response
      in sublist ''which of the following'' s \<or> sublist ''would you like'' s \<or> sublist ''please choose'' s \<or>
         list_ex select_option (suffixes s) \<or> list_ex line_option (suffixes s))"

definition is_clarification :: "string \<Rightarrow> bool" where
  "is_clarification response \<longleftrightarrow>
     response \<noteq> [] \<and> (suffix ''?'' (rev (lstrip (rev response))) \<or> clarification_re response)"

definition INTENT_LABELS :: "(string \<times> string) list" where
  "INTENT_LABELS = [
     (''portfolio'', ''Portfolio analysis (holdings, P&L, rebalancing)''),
     (''stock_analysis'', ''Stock analysis (technicals, OHLCV, indicators)''),
     (''forecast'', ''Price forecast (Prophet model, price targets)''),
     (''research'', ''News & research (headlines, analyst ratings)'')]"

definition label_of :: "string \<Rightarrow> string" where
  "label_of i = (case map_of INTENT_LABELS i of None \<Rightarrow> i | Some l \<Rightarrow> l)"

definition build_clarification :: "string \<Rightarrow> string \<Rightarrow> string" where
  "build_clarification old_intent new_intent =
     ''I noticed your request could go in two directions. Which would you prefer?'' @ [CHR 0x0A, CHR 0x0A] @
     ''1. **'' @ label_of new_intent @ ''**'' @ [CHR 0x0A] @
     ''2. **'' @ label_of old_intent @ ''** (continuing current conversation)'' @ [CHR 0x0A, CHR 0x0A] @
     ''Reply with **1** or **2**, or rephrase your question to be more specific.''"

definition extract_tickers :: "string \<Rightarrow> string list" where
  "extract_tickers user_input = filter (\<lambda>t. t \<notin> set COMMON_WORDS) (ticker_findall user_input)"

fun merge_into :: "string list \<Rightarrow> string list \<Rightarrow> string list" where
  "merge_into merged [] = merged"
| "merge_into merged (t # ts) = merge_into (if t \<in> set merged then merged else merged @ [t]) ts"

definition merge_tickers :: "string list \<Rightarrow> string \<Rightarrow> string list" where
  "merge_tickers ctx_tickers user_input = merge_into ctx_tickers (extract_tickers user_input)"

text \<open>Strong and weak keywords are sets: a word repeated counts once.\<close>

definition is_financial :: "string \<Rightarrow> bool" where
  "is_financial user_input \<longleftrightarrow>
     (let tokens = remdups (amp_words user_input)
      in list_ex (\<lambda>t. t \<in> set STOCK_KEYWORDS) tokens \<or> extract_tickers user_input \<noteq> [] \<or>
         2 \<le> length (filter (\<lambda>t. t \<in> set EXTRA_FINANCIAL) tokens))"

section \<open>The query cache\<close>

definition STOP_WORDS :: "string list" where
  "STOP_WORDS = [
    ''a'', ''an'', ''the'', ''is'', ''are'', ''was'', ''were'', ''be'', ''been'', ''being'', ''have'', ''has'',
    ''had'', ''do'', ''does'', ''did'', ''will'', ''would'', ''shall'', ''should'', ''may'', ''might'',
    ''must'', ''can'', ''could'', ''i'', ''me'', ''my'', ''we'', ''our'', ''you'', ''your'', ''he'', ''she'',
    ''it'', ''they'', ''them'', ''this'', ''that'', ''these'', ''those'', ''what'', ''which'', ''who'',
    ''whom'', ''how'', ''when'', ''where'', ''why'', ''and'', ''but'', ''or'', ''nor'', ''not'', ''so'',
    ''yet'', ''for'', ''of'', ''in'', ''on'', ''at'', ''to'', ''from'', ''by'', ''with'', ''about'', ''into'',
    ''through'', ''up'', ''down'', ''out'', ''off'', ''over'', ''under'', ''please'', ''tell'', ''show'',
    ''give'', ''get'', ''let'', ''make'', ''help'', ''want'', ''need'', ''like'', ''also'', ''just'', ''very'',
    ''really'', ''much'', ''more'', ''most'', ''some'', ''any'', ''all'', ''each'', ''every'', ''both'',
    ''few'', ''many'']"

definition normalize_cache_query :: "string \<Rightarrow> string" where
  "normalize_cache_query query =
     (let clean = filter (\<lambda>c. is_lower c \<or> is_digit c \<or> c = CHR ''&'' \<or> c = CHR ''.'' \<or> is_space c) (str_lower query);
          meaningful = filter (\<lambda>t. t \<notin> set STOP_WORDS \<and> 1 < length t) (find_runs (\<lambda>c. \<not> is_space c) clean)
      in join '' '' (sort meaningful))"

definition INTENT_TTL :: "(string \<times> int) list" where
  "INTENT_TTL = [(''stock_analysis'', 3600), (''forecast'', 86400), (''portfolio'', 300), (''research'', 1800), (''decline'', 86400)]"

text \<open>
  The cache service, a parameter: get and set with a time to live, on its state. The key of a query is the
  beginning of the hash of its normal form, for all users alike; the entry is kept as response, intent and query.
\<close>

record 'r cache_svc =
  cs_get :: "'r \<Rightarrow> string \<Rightarrow> (string \<times> string \<times> string) option"
  cs_set :: "'r \<Rightarrow> string \<Rightarrow> string \<times> string \<times> string \<Rightarrow> int \<Rightarrow> 'r"

definition query_key :: "(string \<Rightarrow> string) \<Rightarrow> string \<Rightarrow> string" where
  "query_key sha256 normalized = ''cache:query:'' @ take 16 (sha256 normalized)"

definition check_cache :: "(string \<Rightarrow> string) \<Rightarrow> 'r cache_svc option \<Rightarrow> 'r \<Rightarrow> string \<Rightarrow> string option" where
  "check_cache sha256 svc r query =
     (case svc of
        None \<Rightarrow> None
      | Some c \<Rightarrow>
          (let normalized = normalize_cache_query query
           in if normalized = [] then None else map_option fst (cs_get c r (query_key sha256 normalized))))"

definition store_cache :: "(string \<Rightarrow> string) \<Rightarrow> 'r cache_svc option \<Rightarrow> 'r \<Rightarrow> string \<Rightarrow> string \<Rightarrow> string \<Rightarrow> 'r" where
  "store_cache sha256 svc r query response intent =
     (case svc of
        None \<Rightarrow> r
      | Some c \<Rightarrow>
          (let normalized = normalize_cache_query query;
               ttl = (case map_of INTENT_TTL intent of None \<Rightarrow> 3600 | Some t \<Rightarrow> t)
           in if normalized = [] then r
              else cs_set c r (query_key sha256 normalized) (response, intent, take 200 query) ttl))"

text \<open>
  \<open>from cache import cache_service\<close>: \<open>backend/cache.py\<close> has no such name, so the import raises and \<open>_get_redis\<close>
  returns \<^const>\<open>None\<close>.
\<close>

definition query_cache_service :: "'r cache_svc option" where
  "query_cache_service = None"

section \<open>Lemmas\<close>

lemma find_runs_in: "t \<in> set (find_runs P s) \<Longrightarrow> t \<noteq> [] \<and> list_all P t \<and> sublist t s"
proof (induction P s rule: find_runs.induct)
  case (2 P c cs)
  show ?case
  proof (cases "P c")
    case True
    have *: "sublist (c # takeWhile P cs) (c # cs)"
      by (metis Cons_prefix_Cons prefix_imp_sublist takeWhile_is_prefix)
    have **: "sublist u (c # cs)" if "sublist u (dropWhile P cs)" for u
      using that by (metis sublist_Cons_right sublist_order.order_trans suffix_dropWhile suffix_imp_sublist)
    show ?thesis using 2 True * ** by (auto simp: list_all_iff dest: set_takeWhileD)
  next
    case False
    then show ?thesis using 2 by (auto simp: sublist_Cons_right)
  qed
qed simp

lemma best_of_None: "best_of xs = None \<longleftrightarrow> xs = []"
  by (cases xs) (auto split: option.splits)

lemma best_of_in: "best_of xs = Some x \<Longrightarrow> x \<in> set xs \<and> (\<forall>y \<in> set xs. snd y \<le> snd x)"
proof (induction xs arbitrary: x rule: best_of.induct)
  case (2 i n xs)
  show ?case
  proof (cases "best_of xs")
    case None
    then show ?thesis using 2 by (simp add: best_of_None)
  next
    case (Some y)
    then show ?thesis using 2 by (cases y) (fastforce split: if_splits)
  qed
qed simp

lemma best_intent_known: "best_intent q = Some i \<Longrightarrow> i \<in> fst ` set INTENT_MAP"
  by (force simp: best_intent_def score_intents_def dest!: best_of_in)

lemma merge_into_set: "set (merge_into ms ts) = set ms \<union> set ts"
  by (induction ms ts rule: merge_into.induct) auto

lemma merge_into_distinct: "distinct ms \<Longrightarrow> distinct (merge_into ms ts)"
  by (induction ms ts rule: merge_into.induct) auto

text \<open>A clarification offers numbered options, also when it is cut to what a context keeps.\<close>

lemma take_beyond: "length xs \<le> n \<Longrightarrow> take n (xs @ ys) = xs @ take (n - length xs) ys"
  by simp

lemma line_option_cut:
  assumes "500 \<le> n"
  shows "\<exists>rest. take n (build_clarification i j) =
   ''I noticed your request could go in two directions. Which would you prefer?'' @ CHR 0x0A # CHR 0x0A # CHR ''1'' # CHR ''.'' # CHR '' '' # rest"
proof -
  let ?p = "''I noticed your request could go in two directions. Which would you prefer?'' @ [CHR 0x0A, CHR 0x0A, CHR ''1'', CHR ''.'', CHR '' '']"
  obtain rest where build: "build_clarification i j = ?p @ rest" by (simp add: build_clarification_def)
  have "length ?p \<le> n" using assms by simp
  then have "take n (build_clarification i j) = ?p @ take (n - length ?p) rest"
    unfolding build by (rule take_beyond)
  then show ?thesis by simp
qed

lemma option_chars:
  "to_lower (CHR 0x0A) = CHR 0x0A" "to_lower (CHR ''1'') = CHR ''1''" "to_lower (CHR ''.'') = CHR ''.''"
  "to_lower (CHR '' '') = CHR '' ''" "is_digit (CHR ''1'')" "\<not> is_digit (CHR ''.'')" "is_space (CHR '' '')"
  by code_simp+

lemma clarification_offers_options: "is_clarification (take 500 (build_clarification i j))"
proof -
  obtain rest where cut: "take 500 (build_clarification i j) =
     ''I noticed your request could go in two directions. Which would you prefer?'' @ CHR 0x0A # CHR 0x0A # CHR ''1'' # CHR ''.'' # CHR '' '' # rest"
    using line_option_cut [of 500 i j] by auto
  let ?option = "str_lower (CHR 0x0A # CHR ''1'' # CHR ''.'' # CHR '' '' # rest)"
  have "?option = CHR 0x0A # CHR ''1'' # CHR ''.'' # CHR '' '' # str_lower rest"
    by (simp add: str_lower_def option_chars)
  then have "line_option ?option" by (simp add: line_option_def option_chars)
  moreover have "?option \<in> set (suffixes (str_lower (take 500 (build_clarification i j))))"
    unfolding cut by (simp add: str_lower_def suffix_def in_set_suffixes)
  ultimately have "list_ex line_option (suffixes (str_lower (take 500 (build_clarification i j))))"
    by (auto simp: list_ex_iff)
  then show ?thesis unfolding is_clarification_def clarification_re_def Let_def using cut by auto
qed

end
