(* ===== verification/Chat_Context.thy ===== *)
theory Chat_Context
  imports Prelude
begin

text \<open>
  What a chat remembers: \<open>backend/agents/conversation_context.py\<close> (the context of a session, the store with its
  time to live and the table behind it, the rolling summary), the update after a turn as the WebSocket
  (\<open>backend/ws.py\<close>) and the HTTP stream (\<open>backend/routes.py\<close>) make it, and \<open>backend/user_context.py\<close>. The store keeps
  references, and an update changes the object in place, so contexts live at addresses. Lemmas: what a turn leaves in
  the store and in the table.
\<close>

section \<open>Contexts, the store, the table\<close>

record conversation_context =
  cc_session_id :: string
  cc_user_id :: string
  cc_current_topic :: string
  cc_last_agent :: string
  cc_last_intent :: string
  cc_summary :: string
  cc_last_response :: string
  cc_tickers_mentioned :: "string list"
  cc_user_tickers :: "string list"
  cc_market_preference :: string
  cc_subscription_tier :: string
  cc_turn_count :: int
  cc_last_updated :: time

definition empty_context :: "string \<Rightarrow> conversation_context" where
  "empty_context sid = \<lparr>cc_session_id = sid, cc_user_id = [], cc_current_topic = [], cc_last_agent = [], cc_last_intent = [],
     cc_summary = [], cc_last_response = [], cc_tickers_mentioned = [], cc_user_tickers = [], cc_market_preference = [],
     cc_subscription_tier = [], cc_turn_count = 0, cc_last_updated = 0\<rparr>"

text \<open>
  The objects by address, the dictionary of the store, and the rows of \<open>conversation_contexts\<close>, each with its
  \<open>updated_at\<close>.
\<close>

record context_state =
  cx_heap :: "conversation_context list"
  cx_store :: "(string \<times> nat) list"
  cx_pg :: "(conversation_context \<times> time) list"

definition empty_contexts :: context_state where
  "empty_contexts = \<lparr>cx_heap = [], cx_store = [], cx_pg = []\<rparr>"

definition context_at :: "context_state \<Rightarrow> nat \<Rightarrow> conversation_context" where
  "context_at st a = cx_heap st ! a"

definition new_context :: "conversation_context \<Rightarrow> context_state \<Rightarrow> nat \<times> context_state" where
  "new_context c st = (length (cx_heap st), st\<lparr>cx_heap := cx_heap st @ [c]\<rparr>)"

definition set_context :: "nat \<Rightarrow> (conversation_context \<Rightarrow> conversation_context) \<Rightarrow> context_state \<Rightarrow> context_state" where
  "set_context a f st = st\<lparr>cx_heap := (cx_heap st)[a := f (cx_heap st ! a)]\<rparr>"

text \<open>
  The settings of the process and what its environment answers: the time to live, the clock, whether the table can
  be read and written, and the answer of the model that writes summaries, \<^const>\<open>None\<close> when there is no
  model or it raises.
\<close>

record context_env =
  xc_ttl :: int
  xc_now :: time
  xc_load_ok :: bool
  xc_save_ok :: bool
  xc_summarize :: "string \<Rightarrow> string option"

section \<open>The table\<close>

definition pg_load :: "context_env \<Rightarrow> string \<Rightarrow> context_state \<Rightarrow> conversation_context option" where
  "pg_load X sid st =
     (if xc_load_ok X then map_option fst (find (\<lambda>(c, t). cc_session_id c = sid) (cx_pg st)) else None)"

text \<open>
  The upsert by session: a row that exists keeps its session and user.
\<close>

fun pg_upsert :: "conversation_context \<Rightarrow> time \<Rightarrow> (conversation_context \<times> time) list \<Rightarrow> (conversation_context \<times> time) list" where
  "pg_upsert c now [] = [(c, now)]"
| "pg_upsert c now ((d, t) # rows) =
     (if cc_session_id d = cc_session_id c then (c\<lparr>cc_user_id := cc_user_id d\<rparr>, now) # rows
      else (d, t) # pg_upsert c now rows)"

definition pg_save :: "context_env \<Rightarrow> conversation_context \<Rightarrow> context_state \<Rightarrow> context_state" where
  "pg_save X c st =
     (if xc_save_ok X
      then st\<lparr>cx_pg := pg_upsert (c\<lparr>cc_last_response := take 500 (cc_last_response c)\<rparr>) (xc_now X) (cx_pg st)\<rparr> else st)"

text \<open>\<open>max\<close> by a key, the first of the best: a later one must be greater.\<close>

fun newest :: "('a \<Rightarrow> time) \<Rightarrow> 'a list \<Rightarrow> 'a option" where
  "newest key [] = None"
| "newest key (x # xs) =
     (case newest key xs of
        None \<Rightarrow> Some x
      | Some y \<Rightarrow> if key x < key y then Some y else Some x)"

definition pg_load_latest_for_user :: "context_env \<Rightarrow> string \<Rightarrow> context_state \<Rightarrow> conversation_context option" where
  "pg_load_latest_for_user X uid st =
     (if xc_load_ok X then map_option fst (newest snd (filter (\<lambda>(c, t). cc_user_id c = uid) (cx_pg st))) else None)"

section \<open>The store\<close>

definition context_load :: "context_env \<Rightarrow> string \<Rightarrow> context_state \<Rightarrow> nat option \<times> context_state" where
  "context_load X sid st =
     (case pg_load X sid st of
        None \<Rightarrow> (None, st)
      | Some c \<Rightarrow> (case new_context c st of (a, st1) \<Rightarrow> (Some a, st1\<lparr>cx_store := AList.update sid a (cx_store st1)\<rparr>)))"

definition context_expired :: "context_env \<Rightarrow> conversation_context \<Rightarrow> bool" where
  "context_expired X c \<longleftrightarrow> xc_now X - cc_last_updated c > of_int (xc_ttl X)"

definition context_get :: "context_env \<Rightarrow> string \<Rightarrow> context_state \<Rightarrow> nat option \<times> context_state" where
  "context_get X sid st =
     (case map_of (cx_store st) sid of
        Some a \<Rightarrow>
          (if context_expired X (context_at st a) then context_load X sid (st\<lparr>cx_store := AList.delete sid (cx_store st)\<rparr>)
           else (Some a, st))
      | None \<Rightarrow> context_load X sid st)"

definition get_latest_for_user :: "context_env \<Rightarrow> string \<Rightarrow> context_state \<Rightarrow> nat option \<times> context_state" where
  "get_latest_for_user X uid st =
     (case newest (\<lambda>a. cc_last_updated (context_at st a))
             (filter (\<lambda>a. cc_user_id (context_at st a) = uid) (map snd (cx_store st))) of
        Some a \<Rightarrow> (Some a, st)
      | None \<Rightarrow>
          (case pg_load_latest_for_user X uid st of
             None \<Rightarrow> (None, st)
           | Some c \<Rightarrow> (case new_context c st of (a, st1) \<Rightarrow> (Some a, st1))))"

definition context_upsert :: "context_env \<Rightarrow> string \<Rightarrow> nat \<Rightarrow> context_state \<Rightarrow> context_state" where
  "context_upsert X sid a st =
     (let st1 = set_context a (\<lambda>c. if cc_last_updated c = 0 then c\<lparr>cc_last_updated := xc_now X\<rparr> else c) st;
          st2 = st1\<lparr>cx_store := AList.update sid a (cx_store st1)\<rparr>
      in pg_save X (context_at st2 a) st2)"

definition context_delete :: "string \<Rightarrow> context_state \<Rightarrow> context_state" where
  "context_delete sid st = st\<lparr>cx_store := AList.delete sid (cx_store st)\<rparr>"

definition context_cleanup :: "context_env \<Rightarrow> context_state \<Rightarrow> context_state" where
  "context_cleanup X st = st\<lparr>cx_store := filter (\<lambda>(k, a). \<not> context_expired X (context_at st a)) (cx_store st)\<rparr>"

section \<open>The turn\<close>

definition summary_prompt :: "string \<Rightarrow> string \<Rightarrow> string \<Rightarrow> string" where
  "summary_prompt prev user_input response =
     ''Update this conversation summary given the latest exchange. Keep it under 3 sentences. '' @
     ''Include: topic discussed, key tickers/numbers mentioned, and any conclusions.'' @ [CHR 0x0A, CHR 0x0A] @
     ''Previous summary: '' @ prev @ [CHR 0x0A] @ ''User asked: '' @ user_input @ [CHR 0x0A] @
     ''Assistant answered: '' @ response @ [CHR 0x0A, CHR 0x0A] @ ''Updated summary:''"

definition update_summary :: "context_env \<Rightarrow> string \<Rightarrow> string \<Rightarrow> conversation_context \<Rightarrow> conversation_context" where
  "update_summary X user_input response c =
     (let c1 = c\<lparr>cc_turn_count := cc_turn_count c + 1\<rparr>;
          prev = (if cc_summary c1 = [] then ''No previous context.'' else cc_summary c1)
      in case xc_summarize X (summary_prompt prev (take 300 user_input) (take 500 response)) of
           None \<Rightarrow> c1
         | Some t \<Rightarrow> if strip t = [] then c1 else c1\<lparr>cc_summary := strip t\<rparr>)"

text \<open>What the graph answered.\<close>

record turn_result =
  tn_agent :: string
  tn_intent :: string
  tn_response :: string
  tn_tickers :: "string list"

fun append_new :: "string list \<Rightarrow> string list \<Rightarrow> string list" where
  "append_new xs [] = xs"
| "append_new xs (t # ts) = append_new (if t \<in> set xs then xs else xs @ [t]) ts"

definition note_turn :: "turn_result \<Rightarrow> conversation_context \<Rightarrow> conversation_context" where
  "note_turn r c = c\<lparr>cc_last_agent := tn_agent r, cc_last_intent := tn_intent r, cc_last_response := take 500 (tn_response r),
     cc_current_topic := (if tn_tickers r \<noteq> [] then join '', '' (tn_tickers r) @ '' '' @ tn_intent r else tn_intent r),
     cc_tickers_mentioned := append_new (cc_tickers_mentioned c) (tn_tickers r)\<rparr>"

definition fill_user :: "string \<Rightarrow> conversation_context \<Rightarrow> conversation_context" where
  "fill_user uid c = (if cc_user_id c = [] then c\<lparr>cc_user_id := uid\<rparr> else c)"

text \<open>
  The context a session goes on with: its own, or the object of the user's latest session, renamed, or a new one.
  The flag tells whether it was its own.
\<close>

definition resume_context :: "context_env \<Rightarrow> string \<Rightarrow> string \<Rightarrow> context_state \<Rightarrow> (nat \<times> bool) \<times> context_state" where
  "resume_context X sid uid st =
     (case context_get X sid st of
        (Some a, st1) \<Rightarrow> ((a, True), st1)
      | (None, st1) \<Rightarrow>
          (case get_latest_for_user X uid st1 of
             (Some a, st2) \<Rightarrow> ((a, False), set_context a (\<lambda>c. c\<lparr>cc_session_id := sid\<rparr>) st2)
           | (None, st2) \<Rightarrow> (case new_context (empty_context sid) st2 of (a, st3) \<Rightarrow> ((a, False), st3))))"

text \<open>\<open>_update_summary_in_byo_scope\<close> of the WebSocket.\<close>

definition update_context_ws ::
    "context_env \<Rightarrow> string \<Rightarrow> string \<Rightarrow> string \<Rightarrow> turn_result \<Rightarrow> context_state \<Rightarrow> context_state" where
  "update_context_ws X sid uid message r st =
     (if sid = [] then st
      else
        (case resume_context X sid uid st of
           ((a, own), st1) \<Rightarrow>
             context_upsert X sid a
               (set_context a (\<lambda>c. update_summary X message (tn_response r) (note_turn r (fill_user uid c))) st1)))"

text \<open>
  \<open>build_user_context\<close> counts the currencies and the markets of the holdings: three keys, or none.
\<close>

record user_ctx =
  uc_currencies :: "(string \<times> int) list"
  uc_markets :: "(string \<times> int) list"
  uc_total_holdings :: int

definition count_key :: "string \<Rightarrow> (string \<times> int) list \<Rightarrow> (string \<times> int) list" where
  "count_key k d = AList.update k ((case map_of d k of None \<Rightarrow> 0 | Some n \<Rightarrow> n) + 1) d"

definition build_user_context :: "string \<Rightarrow> (string \<times> string) list option \<Rightarrow> user_ctx option" where
  "build_user_context uid holdings =
     (if uid = [] then None
      else case holdings of
             None \<Rightarrow> None
           | Some hs \<Rightarrow>
               if hs = [] then None
               else Some \<lparr>uc_currencies = fold (\<lambda>(ccy, mkt). count_key ccy) hs [],
                          uc_markets = fold (\<lambda>(ccy, mkt). count_key mkt) hs [], uc_total_holdings = int (length hs)\<rparr>)"

text \<open>
  \<open>_update_conversation_context\<close> of the HTTP stream: a context that is not the session's own is given to the user, and
  its profile is read from the keys \<open>tickers\<close>, \<open>market\<close> and \<open>tier\<close> of the user's context, which has none of the three.
\<close>

definition fill_profile :: "user_ctx option \<Rightarrow> conversation_context \<Rightarrow> conversation_context" where
  "fill_profile u c = c\<lparr>cc_user_tickers := [], cc_market_preference := [], cc_subscription_tier := []\<rparr>"

definition update_context_http ::
    "context_env \<Rightarrow> user_ctx option \<Rightarrow> string \<Rightarrow> string \<Rightarrow> string \<Rightarrow> turn_result \<Rightarrow> context_state \<Rightarrow> context_state" where
  "update_context_http X u sid uid message r st =
     (if sid = [] then st
      else
        (case resume_context X sid uid st of
           ((a, own), st1) \<Rightarrow>
             context_upsert X sid a
               (set_context a (\<lambda>c. update_summary X message (tn_response r) (note_turn r (fill_user uid
                  (if own then c else fill_profile u (c\<lparr>cc_user_id := uid\<rparr>))))) st1)))"

section \<open>Lemmas\<close>

text \<open>The dictionary points to objects that exist.\<close>

definition store_valid :: "context_state \<Rightarrow> bool" where
  "store_valid st \<longleftrightarrow> (\<forall>(k, a) \<in> set (cx_store st). a < length (cx_heap st))"

lemma store_valid_at: "store_valid st \<Longrightarrow> map_of (cx_store st) k = Some a \<Longrightarrow> a < length (cx_heap st)"
  by (auto simp: store_valid_def dest!: map_of_SomeD)

lemma newest_in: "newest key xs = Some x \<Longrightarrow> x \<in> set xs"
  by (induction xs arbitrary: x) (auto split: option.splits if_splits)

lemma newest_None: "newest key xs = None \<longleftrightarrow> xs = []"
  by (cases xs) (auto split: option.splits)

lemma set_context_sel [simp]:
  "cx_store (set_context a f st) = cx_store st" "cx_pg (set_context a f st) = cx_pg st"
  "length (cx_heap (set_context a f st)) = length (cx_heap st)"
  by (simp_all add: set_context_def)

lemma context_at_set: "a < length (cx_heap st) \<Longrightarrow> context_at (set_context a f st) a = f (context_at st a)"
  by (simp add: set_context_def context_at_def)

lemma pg_upsert_find:
  "find (\<lambda>(c, t). cc_session_id c = cc_session_id d) (pg_upsert d now rows) =
     Some (d\<lparr>cc_user_id := (case find (\<lambda>(c, t). cc_session_id c = cc_session_id d) rows of
        None \<Rightarrow> cc_user_id d | Some (c, t) \<Rightarrow> cc_user_id c)\<rparr>, now)"
  by (induction d now rows rule: pg_upsert.induct) auto

lemma pg_upsert_other:
  "sid \<noteq> cc_session_id d \<Longrightarrow>
   find (\<lambda>(c, t). cc_session_id c = sid) (pg_upsert d now rows) = find (\<lambda>(c, t). cc_session_id c = sid) rows"
  by (induction d now rows rule: pg_upsert.induct) auto

lemma update_summary_sel [simp]:
  "cc_session_id (update_summary X m r c) = cc_session_id c" "cc_user_id (update_summary X m r c) = cc_user_id c"
  "cc_last_agent (update_summary X m r c) = cc_last_agent c" "cc_last_intent (update_summary X m r c) = cc_last_intent c"
  "cc_last_response (update_summary X m r c) = cc_last_response c"
  "cc_tickers_mentioned (update_summary X m r c) = cc_tickers_mentioned c"
  "cc_turn_count (update_summary X m r c) = cc_turn_count c + 1"
  by (simp_all add: update_summary_def Let_def split: option.splits)

lemma append_new_set: "set (append_new xs ts) = set xs \<union> set ts"
  by (induction xs ts rule: append_new.induct) auto

lemma set_AList_update: "set (AList.update k v d) \<subseteq> insert (k, v) (set d)"
  by (induction d) auto

lemma context_load_result:
  assumes "context_load X sid st = (found, st')" "store_valid st"
  shows "store_valid st' \<and> (\<forall>a. found = Some a \<longrightarrow> a < length (cx_heap st') \<and> cc_session_id (context_at st' a) = sid)"
proof (cases "pg_load X sid st")
  case (Some c)
  then have "cc_session_id c = sid" by (auto simp: pg_load_def find_Some_iff split: if_splits)
  moreover have "store_valid (st\<lparr>cx_heap := cx_heap st @ [c], cx_store := AList.update sid (length (cx_heap st)) (cx_store st)\<rparr>)"
    using assms(2) set_AList_update [of sid "length (cx_heap st)" "cx_store st"] by (fastforce simp: store_valid_def)
  ultimately show ?thesis using assms Some by (auto simp: context_load_def new_context_def context_at_def)
qed (use assms in \<open>auto simp: context_load_def\<close>)

section \<open>Agents in contexts\<close>

text \<open>The store points to objects that exist, and all objects and rows name a last agent of a given set.\<close>

definition contexts_name :: "string set \<Rightarrow> context_state \<Rightarrow> bool" where
  "contexts_name K st \<longleftrightarrow> store_valid st \<and> (\<forall>c \<in> set (cx_heap st). cc_last_agent c \<in> K) \<and>
     (\<forall>(c, t) \<in> set (cx_pg st). cc_last_agent c \<in> K)"

lemma contexts_name_at: "contexts_name K st \<Longrightarrow> a < length (cx_heap st) \<Longrightarrow> cc_last_agent (context_at st a) \<in> K"
  by (simp add: contexts_name_def context_at_def)

lemma new_context_name:
  "contexts_name K st \<Longrightarrow> cc_last_agent c \<in> K \<Longrightarrow> new_context c st = (a, st') \<Longrightarrow>
   contexts_name K st' \<and> a < length (cx_heap st')"
  by (fastforce simp: new_context_def contexts_name_def store_valid_def)

lemma set_context_name:
  assumes "contexts_name K st" "a < length (cx_heap st)" "cc_last_agent (f (context_at st a)) \<in> K"
  shows "contexts_name K (set_context a f st)"
proof -
  have "set (cx_heap (set_context a f st)) \<subseteq> insert (f (context_at st a)) (set (cx_heap st))"
    by (simp add: set_context_def context_at_def set_update_subset_insert)
  then show ?thesis using assms by (fastforce simp: contexts_name_def store_valid_def)
qed

lemma store_update_name:
  assumes "contexts_name K st" "a < length (cx_heap st)"
  shows "contexts_name K (st\<lparr>cx_store := AList.update k a (cx_store st)\<rparr>)"
  using assms set_AList_update [of k a "cx_store st"] by (fastforce simp: contexts_name_def store_valid_def)

lemma store_delete_name: "contexts_name K st \<Longrightarrow> contexts_name K (st\<lparr>cx_store := AList.delete k (cx_store st)\<rparr>)"
  using delete_conv [of k "cx_store st"] by (auto simp: contexts_name_def store_valid_def AList.delete_eq)

lemma pg_upsert_agents:
  "(c, t) \<in> set (pg_upsert d now rows) \<Longrightarrow> cc_last_agent c = cc_last_agent d \<or> (c, t) \<in> set rows"
  by (induction d now rows rule: pg_upsert.induct) (auto split: if_splits)

lemma pg_save_name: "contexts_name K st \<Longrightarrow> cc_last_agent c \<in> K \<Longrightarrow> contexts_name K (pg_save X c st)"
  by (fastforce simp: contexts_name_def store_valid_def pg_save_def dest!: pg_upsert_agents)

lemma pg_load_agent: "contexts_name K st \<Longrightarrow> pg_load X sid st = Some c \<Longrightarrow> cc_last_agent c \<in> K"
  by (fastforce simp: contexts_name_def pg_load_def find_Some_iff split: if_splits dest: nth_mem)

lemma context_load_name:
  assumes "contexts_name K st" "context_load X sid st = (found, st')"
  shows "contexts_name K st' \<and> (\<forall>a. found = Some a \<longrightarrow> a < length (cx_heap st'))"
proof (cases "pg_load X sid st")
  case (Some c)
  obtain a st1 where new: "new_context c st = (a, st1)" by fastforce
  with assms(1) Some have "contexts_name K st1 \<and> a < length (cx_heap st1)" by (metis new_context_name pg_load_agent)
  moreover from this have "contexts_name K (st1\<lparr>cx_store := AList.update sid a (cx_store st1)\<rparr>)" by (simp add: store_update_name)
  ultimately show ?thesis using assms(2) Some new by (auto simp: context_load_def)
qed (use assms in \<open>auto simp: context_load_def\<close>)

lemma context_get_name:
  assumes "contexts_name K st" "context_get X sid st = (found, st')"
  shows "contexts_name K st' \<and> (\<forall>a. found = Some a \<longrightarrow> a < length (cx_heap st'))"
proof (cases "map_of (cx_store st) sid")
  case None
  then show ?thesis using assms context_load_name by (simp add: context_get_def)
next
  case (Some a)
  then have "a < length (cx_heap st)" using assms(1) store_valid_at by (auto simp: contexts_name_def)
  then show ?thesis using assms Some context_load_name [OF store_delete_name [OF assms(1)]]
    by (auto simp: context_get_def split: if_splits)
qed

lemma get_latest_name:
  assumes "contexts_name K st" "get_latest_for_user X uid st = (found, st')"
  shows "contexts_name K st' \<and> (\<forall>a. found = Some a \<longrightarrow> a < length (cx_heap st'))"
proof (cases "newest (\<lambda>a. cc_last_updated (context_at st a)) (filter (\<lambda>a. cc_user_id (context_at st a) = uid) (map snd (cx_store st)))")
  case (Some a)
  then have "a \<in> snd ` set (cx_store st)" by (auto dest: newest_in)
  then have "a < length (cx_heap st)" using assms(1) by (auto simp: contexts_name_def store_valid_def)
  then show ?thesis using assms Some by (auto simp: get_latest_for_user_def)
next
  case None
  show ?thesis
  proof (cases "pg_load_latest_for_user X uid st")
    case (Some c)
    then have "cc_last_agent c \<in> K" using assms(1)
      by (auto simp: pg_load_latest_for_user_def contexts_name_def split: if_splits dest!: newest_in)
    then show ?thesis using assms None Some new_context_name [OF assms(1), of c]
      by (auto simp: get_latest_for_user_def split: prod.splits)
  qed (use assms None in \<open>auto simp: get_latest_for_user_def\<close>)
qed

lemma resume_context_name:
  assumes "contexts_name K st" "[] \<in> K" "resume_context X sid uid st = ((a, own), st')"
  shows "contexts_name K st' \<and> a < length (cx_heap st')"
proof -
  obtain found st1 where get: "context_get X sid st = (found, st1)" by fastforce
  note 1 = context_get_name [OF assms(1) get]
  obtain found2 st2 where latest: "get_latest_for_user X uid st1 = (found2, st2)" by fastforce
  note 2 = get_latest_name [OF conjunct1 [OF 1] latest]
  have renamed: "contexts_name K (set_context b (\<lambda>c. c\<lparr>cc_session_id := sid\<rparr>) st2)" if "b < length (cx_heap st2)" for b
    using 2 that by (intro set_context_name) (simp_all add: contexts_name_at)
  have "contexts_name K (snd (new_context (empty_context sid) st2))" "fst (new_context (empty_context sid) st2) < length (cx_heap (snd (new_context (empty_context sid) st2)))"
    using 2 assms(2) new_context_name [of K st2 "empty_context sid"] by (simp_all add: empty_context_def prod_eq_iff)
  then show ?thesis using assms(3) get latest 1 2 renamed
    by (auto simp: resume_context_def split: option.splits prod.splits)
qed

lemma context_upsert_name:
  assumes "contexts_name K st" "a < length (cx_heap st)"
  shows "contexts_name K (context_upsert X sid a st)"
proof -
  define st1 where "st1 = set_context a (\<lambda>c. if cc_last_updated c = 0 then c\<lparr>cc_last_updated := xc_now X\<rparr> else c) st"
  define st2 where "st2 = st1\<lparr>cx_store := AList.update sid a (cx_store st1)\<rparr>"
  have 1: "contexts_name K st1" unfolding st1_def using assms by (intro set_context_name) (auto simp: contexts_name_at)
  have 2: "contexts_name K st2" "a < length (cx_heap st2)"
    using store_update_name [OF 1, of a sid] assms(2) by (simp_all add: st2_def, simp_all add: st1_def)
  then show ?thesis using pg_save_name contexts_name_at by (simp add: context_upsert_def Let_def st1_def [symmetric] st2_def [symmetric])
qed

lemma update_context_ws_name:
  assumes "contexts_name K st" "[] \<in> K" "tn_agent r \<in> K"
  shows "contexts_name K (update_context_ws X sid uid message r st)"
proof -
  obtain a own st1 where resume: "resume_context X sid uid st = ((a, own), st1)" by (metis surj_pair)
  note 1 = resume_context_name [OF assms(1,2) resume]
  let ?turn = "\<lambda>c. update_summary X message (tn_response r) (note_turn r (fill_user uid c))"
  have "contexts_name K (set_context a ?turn st1)"
    using 1 assms(3) by (intro set_context_name) (simp_all add: note_turn_def)
  then show ?thesis using 1 assms(1) resume by (simp add: update_context_ws_def context_upsert_name)
qed

section \<open>What a turn leaves\<close>

text \<open>A context with what a turn notes, over the one it started from.\<close>

definition remembers :: "turn_result \<Rightarrow> conversation_context \<Rightarrow> conversation_context \<Rightarrow> bool" where
  "remembers r old c \<longleftrightarrow>
     cc_last_agent c = tn_agent r \<and> cc_last_intent c = tn_intent r \<and> cc_last_response c = take 500 (tn_response r) \<and>
     set (cc_tickers_mentioned c) = set (cc_tickers_mentioned old) \<union> set (tn_tickers r) \<and>
     cc_turn_count c = cc_turn_count old + 1"

text \<open>A process that starts again has its table.\<close>

definition restarted :: "context_state \<Rightarrow> context_state" where
  "restarted st = st\<lparr>cx_heap := [], cx_store := []\<rparr>"

lemma context_load_session:
  assumes "context_load X sid st = (Some a, st')"
  shows "a < length (cx_heap st') \<and> cc_session_id (context_at st' a) = sid"
  using assms by (auto simp: context_load_def new_context_def pg_load_def context_at_def find_Some_iff
      split: option.splits if_splits)

text \<open>The store has the session's context under its name, if it has one for it.\<close>

definition session_keyed :: "string \<Rightarrow> context_state \<Rightarrow> bool" where
  "session_keyed sid st \<longleftrightarrow> store_valid st \<and>
     (case map_of (cx_store st) sid of None \<Rightarrow> True | Some a \<Rightarrow> cc_session_id (context_at st a) = sid)"

lemma context_get_keyed:
  assumes "session_keyed sid st" "context_get X sid st = (found, st')"
  shows "session_keyed sid st'"
proof -
  have valid: "store_valid st'"
    using context_get_name [of UNIV st X sid found st'] assms by (simp add: contexts_name_def session_keyed_def)
  moreover have "cc_session_id (context_at st' a) = sid" if "map_of (cx_store st') sid = Some a" for a
  proof (cases found)
    case None
    then show ?thesis using assms that
      by (auto simp: context_get_def context_load_def new_context_def session_keyed_def AList.delete_conv
          split: option.splits if_splits)
  next
    case (Some b)
    then show ?thesis using assms that
      by (auto simp: context_get_def context_load_def new_context_def session_keyed_def update_conv pg_load_def
          context_at_def find_Some_iff split: option.splits if_splits)
  qed
  ultimately show ?thesis by (simp add: session_keyed_def split: option.split)
qed

lemma resume_session:
  assumes "session_keyed sid st"
    "resume_context X sid uid st = ((a, own), st')"
  shows "a < length (cx_heap st') \<and> cc_session_id (context_at st' a) = sid"
proof -
  obtain found st1 where get: "context_get X sid st = (found, st1)" by fastforce
  show ?thesis
  proof (cases found)
    case (Some b)
    then have "b < length (cx_heap st1) \<and> cc_session_id (context_at st1 b) = sid"
      using get assms(1) store_valid_at context_load_session
      by (auto simp: context_get_def session_keyed_def split: option.splits if_splits)
    then show ?thesis using assms(2) get Some by (auto simp: resume_context_def)
  next
    case None
    have valid: "store_valid st1"
      using context_get_name [of UNIV st X sid found st1] get assms(1) by (simp add: contexts_name_def session_keyed_def)
    obtain found2 st2 where latest: "get_latest_for_user X uid st1 = (found2, st2)" by fastforce
    have "\<forall>b. found2 = Some b \<longrightarrow> b < length (cx_heap st2)"
      using get_latest_name [of UNIV st1 X uid found2 st2] latest valid by (simp add: contexts_name_def)
    then show ?thesis using assms(2) get None latest
      by (auto simp: resume_context_def new_context_def context_at_set context_at_def [of "_\<lparr>cx_heap := _\<rparr>"] empty_context_def
          split: option.splits)
  qed
qed

lemma context_upsert_effect:
  assumes "a < length (cx_heap st)" "xc_save_ok X" "cc_session_id (context_at st a) = sid"
  obtains c where
    "c = (if cc_last_updated (context_at st a) = 0 then (context_at st a)\<lparr>cc_last_updated := xc_now X\<rparr> else context_at st a)"
    "map_of (cx_store (context_upsert X sid a st)) sid = Some a" "context_at (context_upsert X sid a st) a = c"
    "cx_pg (context_upsert X sid a st) = pg_upsert (c\<lparr>cc_last_response := take 500 (cc_last_response c)\<rparr>) (xc_now X) (cx_pg st)"
    "cc_session_id c = sid"
proof -
  let ?f = "\<lambda>c. if cc_last_updated c = 0 then c\<lparr>cc_last_updated := xc_now X\<rparr> else c"
  have at: "context_at (set_context a ?f st) a = ?f (context_at st a)" using assms(1) by (rule context_at_set)
  have same: "context_at (s\<lparr>cx_store := d\<rparr>) b = context_at s b" "context_at (s\<lparr>cx_pg := p\<rparr>) b = context_at s b" for s d b p
    by (simp_all add: context_at_def)
  show ?thesis
    by (rule that [of "?f (context_at st a)"])
       (simp_all add: context_upsert_def Let_def pg_save_def assms at same update_conv)
qed

lemma found_again:
  assumes "xc_load_ok Y" "find (\<lambda>(c, t). cc_session_id c = sid) (cx_pg st) = Some (c, t)"
    "map_of (cx_store st) sid = None \<or> (\<exists>a. map_of (cx_store st) sid = Some a \<and> P (context_at st a))" "P c"
  shows "\<exists>a st'. context_get Y sid st = (Some a, st') \<and> P (context_at st' a)"
  using assms by (auto simp: context_get_def context_load_def pg_load_def new_context_def context_at_def split: option.splits)

lemma turn_remembered:
  assumes "session_keyed sid st" "sid \<noteq> []" "xc_save_ok X" "xc_load_ok Y" "resume_context X sid uid st = ((a0, own), st0)"
    "st' = update_context_ws X sid uid message r st" "s = st' \<or> s = restarted st'"
  shows "\<exists>a s'. context_get Y sid s = (Some a, s') \<and> remembers r (context_at st0 a0) (context_at s' a)"
proof -
  let ?turn = "\<lambda>c. update_summary X message (tn_response r) (note_turn r (fill_user uid c))"
  define st1 where "st1 = set_context a0 ?turn st0"
  have a0: "a0 < length (cx_heap st0)" "cc_session_id (context_at st0 a0) = sid"
    using resume_session [OF assms(1,5)] by auto
  then have at: "context_at st1 a0 = ?turn (context_at st0 a0)" by (simp add: st1_def context_at_set)
  have st': "st' = context_upsert X sid a0 st1" using assms(2,5,6) by (simp add: update_context_ws_def st1_def)
  have "a0 < length (cx_heap st1)" "cc_session_id (context_at st1 a0) = sid"
    using a0 at by (simp_all add: st1_def note_turn_def fill_user_def)
  then obtain c where c: "c = (if cc_last_updated (context_at st1 a0) = 0 then (context_at st1 a0)\<lparr>cc_last_updated := xc_now X\<rparr>
      else context_at st1 a0)" "map_of (cx_store st') sid = Some a0" "context_at st' a0 = c"
    "cx_pg st' = pg_upsert (c\<lparr>cc_last_response := take 500 (cc_last_response c)\<rparr>) (xc_now X) (cx_pg st1)"
    "cc_session_id c = sid"
    unfolding st' using assms(3) context_upsert_effect by metis
  let ?P = "remembers r (context_at st0 a0)"
  have P: "?P c" using c(1) at by (simp add: remembers_def note_turn_def fill_user_def append_new_set)
  obtain u t where row: "find (\<lambda>(c, t). cc_session_id c = sid) (cx_pg st') =
      Some (c\<lparr>cc_last_response := take 500 (cc_last_response c), cc_user_id := u\<rparr>, t)"
    using pg_upsert_find [of "c\<lparr>cc_last_response := take 500 (cc_last_response c)\<rparr>" "xc_now X" "cx_pg st1"] c(4,5) by auto
  have kept: "?P (c\<lparr>cc_last_response := take 500 (cc_last_response c), cc_user_id := u\<rparr>)"
    using P by (simp add: remembers_def)
  show ?thesis using assms(7)
  proof
    assume "s = st'"
    then show ?thesis using found_again [where P = ?P, OF assms(4) row _ kept] c(2,3) P by auto
  next
    assume s: "s = restarted st'"
    then have "find (\<lambda>(c, t). cc_session_id c = sid) (cx_pg s) =
        Some (c\<lparr>cc_last_response := take 500 (cc_last_response c), cc_user_id := u\<rparr>, t)"
      using row by (simp add: restarted_def)
    then show ?thesis using found_again [where P = ?P, OF assms(4) _ _ kept] s by (simp add: restarted_def)
  qed
qed

end
