(* ===== verification/Chat_Agent.thy ===== *)
theory Chat_Agent
  imports Messages Chat_Context
begin

text \<open>
  The tool-calling loops: the registry of tools (\<open>backend/tools/registry.py\<close>), the sub-agents of the graph
  (\<open>backend/agents/sub_agents.py\<close>, \<open>agents/configs/\<close>), the memories in their prompt (\<open>backend/memory_retriever.py\<close>), and the
  legacy loops \<open>agents/loop.py\<close> and \<open>agents/stream.py\<close> with the messages of \<open>agents/base.py\<close>. The models and the tools are
  what the factories of the code pass in: parameters on a state \<open>'w\<close>. Models answer with texts; the arguments of a
  call are kept as their rendering. Lemmas: which transcripts a model is asked about.
\<close>

definition MAX_ITERATIONS :: nat where "MAX_ITERATIONS = 25"

section \<open>Tools and models\<close>

text \<open>
  A tool takes the arguments and returns its text, or the text of the exception it raises; an answer of a model is an
  exception, or a text with tool calls.
\<close>

type_synonym 'w tool = "string \<Rightarrow> 'w \<Rightarrow> (string + string) \<times> 'w"
type_synonym 'w model = "message list \<Rightarrow> nat \<Rightarrow> 'w \<Rightarrow> (py_exn + string \<times> tool_call list) \<times> 'w"

definition register_tool :: "string \<Rightarrow> 'w tool \<Rightarrow> (string \<times> 'w tool) list \<Rightarrow> (string \<times> 'w tool) list" where
  "register_tool nm tool reg = AList.update nm tool reg"

definition get_tools :: "string list \<Rightarrow> (string \<times> 'w tool) list \<Rightarrow> 'w tool list" where
  "get_tools nms reg = List.map_filter (map_of reg) nms"

definition tool_invoke :: "(string \<times> 'w tool) list \<Rightarrow> string \<Rightarrow> string \<Rightarrow> 'w \<Rightarrow> (string + string) \<times> 'w" where
  "tool_invoke reg nm args w =
     (case map_of reg nm of
        None \<Rightarrow> (Inr (''Unknown tool: '' @ nm), w)
      | Some tool \<Rightarrow> tool args w)"

section \<open>Sub-agents\<close>

record sub_agent_config =
  sa_agent_id :: string
  sa_tool_names :: "string list"
  sa_format_response :: "(string \<Rightarrow> message list \<Rightarrow> string option) option"
  sa_max_tool_rounds :: nat
  sa_skip_synthesis :: bool

text \<open>The tools that reach a service outside, and the words by which a result is recognised as stored.\<close>

definition EXTERNAL_TOOLS :: "(string \<times> string) list" where
  "EXTERNAL_TOOLS = [(''fetch_stock_data'', ''yfinance''), (''get_stock_info'', ''yfinance''), (''get_dividend_history'', ''yfinance''),
     (''fetch_multiple_stocks'', ''yfinance''), (''fetch_quarterly_results'', ''yfinance''), (''search_market_news'', ''serpapi''),
     (''search_financial_news'', ''serpapi''), (''get_ticker_news'', ''yfinance''), (''get_analyst_recommendations'', ''yfinance'')]"

definition infer_data_source :: "string \<Rightarrow> string \<Rightarrow> string" where
  "infer_data_source tool_name result =
     (let lower = str_lower (take 500 result)
      in if list_ex (\<lambda>w. sublist w lower) [''already up to date'', ''skipped'', ''cached'', ''fresh'', ''from local'']
         then ''iceberg''
         else (case map_of EXTERNAL_TOOLS tool_name of None \<Rightarrow> ''iceberg'' | Some s \<Rightarrow> s))"

text \<open>The text of a content; a message of the loop has no blocks.\<close>

fun content_text :: "msg_content \<Rightarrow> string" where
  "content_text (Text s) = s"
| "content_text (Blocks bs) = concat bs"

definition tool_as_text :: "msg_content \<Rightarrow> string option \<Rightarrow> message" where
  "tool_as_text c nm =
     HumanMessage (Text (''Data from '' @ (case nm of None \<Rightarrow> ''None'' | Some n \<Rightarrow> n) @ '':'' @ [CHR 0x0A] @ content_text c))"

fun strip_tool_metadata :: "message list \<Rightarrow> message list" where
  "strip_tool_metadata [] = []"
| "strip_tool_metadata (ToolMessage c i nm # ms) = tool_as_text c nm # strip_tool_metadata ms"
| "strip_tool_metadata (AIMessage c tcs # ms) =
     (if tcs = [] then [AIMessage c tcs] else if content_text c \<noteq> [] then [AIMessage c []] else []) @ strip_tool_metadata ms"
| "strip_tool_metadata (m # ms) = m # strip_tool_metadata ms"

section \<open>The report of the stock analyst\<close>

text \<open>
  \<open>_format_stock_response\<close>: the results of the report tools by name, the ticker named in one of them, the report
  (\<open>report\<close>, the text of \<open>build_report\<close>), the answer, and the news when no news tool was called.
\<close>

definition REPORT_TOOLS :: "string list" where
  "REPORT_TOOLS = [''get_stock_info'', ''analyse_stock_price'', ''forecast_stock'']"

definition NEWS_TOOLS :: "string list" where
  "NEWS_TOOLS = [''get_ticker_news'', ''get_analyst_recommendations'']"

fun scan_results ::
    "message list \<Rightarrow> (string \<times> string) list \<Rightarrow> (string \<times> string) list \<Rightarrow> (string \<times> string) list \<times> (string \<times> string) list" where
  "scan_results [] names results = (names, results)"
| "scan_results (AIMessage c tcs # ms) names results =
     scan_results ms (fold (\<lambda>tc. AList.update (str_or (tc_id tc) []) (tc_name tc)) tcs names) results"
| "scan_results (ToolMessage c i nm # ms) names results =
     (let n = (case map_of names i of None \<Rightarrow> [] | Some n \<Rightarrow> n)
      in scan_results ms names (if n \<in> set REPORT_TOOLS then AList.update n (content_text c) results else results))"
| "scan_results (m # ms) names results = scan_results ms names results"

text \<open>\<open>re.search(r"(?:ANALYSIS|FORECAST):\s*(\S+)", txt)\<close>, group 1.\<close>

definition ticker_label :: "string \<Rightarrow> string option" where
  "ticker_label s =
     (let r = (if prefix ''ANALYSIS:'' s \<or> prefix ''FORECAST:'' s then lstrip (drop 9 s) else [])
      in if r = [] then None else Some (takeWhile (\<lambda>c. \<not> is_space c) r))"

definition search_ticker :: "string \<Rightarrow> string option" where
  "search_ticker txt = (case List.map_filter ticker_label (map (\<lambda>n. drop n txt) [0..<length txt]) of [] \<Rightarrow> None | t # _ \<Rightarrow> Some t)"

definition report_ticker :: "(string \<times> string) list \<Rightarrow> string" where
  "report_ticker results = (case List.map_filter (\<lambda>(n, txt). search_ticker txt) results of [] \<Rightarrow> [] | t # _ \<Rightarrow> t)"

text \<open>The fallback asks a registry it has just made, in which there is no tool.\<close>

definition fresh_registry_text :: "string \<Rightarrow> string" where
  "fresh_registry_text nm = (case tool_invoke [] nm [] () of (Inl e, _) \<Rightarrow> [] | (Inr t, _) \<Rightarrow> t)"

definition fetch_news_fallback :: "string \<Rightarrow> string" where
  "fetch_news_fallback ticker =
     (let news = fresh_registry_text ''get_ticker_news''; recs = fresh_registry_text ''get_analyst_recommendations'';
          blank = [CHR 0x0A, CHR 0x0A]
      in join blank
           ((if news \<noteq> [] \<and> \<not> sublist ''no '' (take 30 (str_lower news)) then [''### Recent News'' @ blank @ news] else []) @
            (if recs \<noteq> [] \<and> \<not> sublist ''error'' (take 30 (str_lower recs)) then [''### Analyst Recommendations'' @ blank @ recs] else [])))"

definition format_stock_response ::
    "((string \<times> string) list \<Rightarrow> string \<Rightarrow> string) \<Rightarrow> string \<Rightarrow> message list \<Rightarrow> string" where
  "format_stock_response report llm_text messages =
     (case scan_results messages [] [] of
        (names, results) \<Rightarrow>
          (let ticker = report_ticker results; template = report results ticker;
               news = (if ticker \<noteq> [] \<and> \<not> list_ex (\<lambda>n. n \<in> set NEWS_TOOLS) (map snd names) then fetch_news_fallback ticker else [])
           in if results = [] \<or> strip template = [] then llm_text
              else template @ [CHR 0x0A] @ ''### Verdict'' @ [CHR 0x0A, CHR 0x0A] @ llm_text @
                (if news \<noteq> [] then [CHR 0x0A, CHR 0x0A] @ news else [])))"

definition PORTFOLIO_CONFIG :: sub_agent_config where
  "PORTFOLIO_CONFIG = \<lparr>sa_agent_id = ''portfolio'', sa_tool_names = [''get_portfolio_holdings'', ''get_portfolio_performance'',
     ''get_portfolio_history'', ''get_portfolio_comparison'', ''get_sector_allocation'', ''get_dividend_projection'',
     ''suggest_rebalancing'', ''get_portfolio_summary'', ''get_risk_metrics'', ''suggest_sector_stocks''],
     sa_format_response = None, sa_max_tool_rounds = 0, sa_skip_synthesis = True\<rparr>"

definition RECOMMENDATION_CONFIG :: sub_agent_config where
  "RECOMMENDATION_CONFIG = \<lparr>sa_agent_id = ''recommendation'', sa_tool_names = [''generate_recommendations'',
     ''get_recommendation_history'', ''get_recommendation_performance'', ''get_portfolio_holdings'', ''get_sector_allocation'',
     ''get_risk_metrics'', ''get_stock_info'', ''analyse_stock_price'', ''get_recommendation_detail''],
     sa_format_response = None, sa_max_tool_rounds = 1, sa_skip_synthesis = True\<rparr>"

definition STOCK_ANALYST_CONFIG :: "((string \<times> string) list \<Rightarrow> string \<Rightarrow> string) \<Rightarrow> sub_agent_config" where
  "STOCK_ANALYST_CONFIG report = \<lparr>sa_agent_id = ''stock_analyst'', sa_tool_names = [''fetch_stock_data'', ''get_stock_info'', ''load_stock_data'', ''analyse_stock_price'',
     ''forecast_stock'', ''get_ticker_news'', ''get_analyst_recommendations'', ''fetch_multiple_stocks'',
     ''list_available_stocks'', ''suggest_sector_stocks''],
     sa_format_response = Some (\<lambda>t ms. Some (format_stock_response report t ms)), sa_max_tool_rounds = 0, sa_skip_synthesis = False\<rparr>"

definition FORECASTER_CONFIG :: "sub_agent_config" where
  "FORECASTER_CONFIG = \<lparr>sa_agent_id = ''forecaster'', sa_tool_names = [''forecast_stock'', ''get_forecast_summary'', ''get_portfolio_forecast''],
     sa_format_response = None, sa_max_tool_rounds = 0, sa_skip_synthesis = False\<rparr>"

definition RESEARCH_CONFIG :: "sub_agent_config" where
  "RESEARCH_CONFIG = \<lparr>sa_agent_id = ''research'', sa_tool_names = [''get_ticker_news'', ''get_analyst_recommendations'', ''search_financial_news''],
     sa_format_response = None, sa_max_tool_rounds = 0, sa_skip_synthesis = False\<rparr>"

definition SENTIMENT_CONFIG :: "sub_agent_config" where
  "SENTIMENT_CONFIG = \<lparr>sa_agent_id = ''sentiment'', sa_tool_names = [''score_ticker_sentiment'', ''get_cached_sentiment'', ''get_market_sentiment''],
     sa_format_response = None, sa_max_tool_rounds = 0, sa_skip_synthesis = False\<rparr>"

section \<open>The loop of a sub-agent\<close>

datatype agent_event =
    Thinking nat string
  | ToolStart string string string
  | ToolDone string string string

text \<open>
  What a run of a sub-agent has to hand: the model with and without tools, the registry, the model of the synthesis
  pass if one could be built, and the system prompt for a user's context (the texts of the prompts are not modelled).
\<close>

record 'w agent_env =
  ae_with_tools :: "'w model"
  ae_without_tools :: "'w model"
  ae_registry :: "(string \<times> 'w tool) list"
  ae_synthesis :: "'w model option"
  ae_prompt :: "user_ctx option \<Rightarrow> string"
  ae_memory_chars :: nat

text \<open>\<open>format_memories_for_prompt\<close>: lines until the budget is full.\<close>

fun memory_lines :: "nat \<Rightarrow> nat \<Rightarrow> string list \<Rightarrow> string list" where
  "memory_lines max_chars chars [] = []"
| "memory_lines max_chars chars (m # ms) =
     (let line = ''- '' @ m
      in if max_chars < chars + length line then [] else line # memory_lines max_chars (chars + length line) ms)"

definition format_memories :: "nat \<Rightarrow> string list \<Rightarrow> string" where
  "format_memories max_chars memories =
     (let ls = memory_lines max_chars 0 memories
      in if ls = [] then [] else ''[Memory context]'' @ [CHR 0x0A] @ join [CHR 0x0A] ls)"

record loop_state =
  lp_messages :: "message list"
  lp_events :: "agent_event list"
  lp_sources :: "string list"
  lp_response :: "(string \<times> tool_call list) option"
  lp_rounds :: nat
  lp_iteration :: nat

text \<open>
  The calls of one answer, in order; a tool that raises gives its error as the result. A call without identifier makes the
  tool message invalid.
\<close>

fun run_calls ::
    "(string \<times> 'w tool) list \<Rightarrow> string \<Rightarrow> tool_call list \<Rightarrow> loop_state \<Rightarrow> 'w \<Rightarrow> py_exn option \<times> loop_state \<times> 'w" where
  "run_calls reg agent_id [] lp w = (None, lp, w)"
| "run_calls reg agent_id (tc # tcs) lp w =
     (case tool_invoke reg (tc_name tc) (tc_args tc) w of
        (r, w1) \<Rightarrow>
          (let result = (case r of Inl e \<Rightarrow> ''Tool error: '' @ e | Inr t \<Rightarrow> t);
               lp1 = lp\<lparr>lp_events := lp_events lp @ [ToolStart (tc_name tc) (tc_args tc) agent_id,
                                                     ToolDone (tc_name tc) (take 200 result) agent_id],
                        lp_sources := lp_sources lp @ [infer_data_source (tc_name tc) result]\<rparr>
           in case tc_id tc of
                None \<Rightarrow> (Some (OtherError ''ValidationError''), lp1, w1)
              | Some i \<Rightarrow>
                  run_calls reg agent_id tcs
                    (lp1\<lparr>lp_messages := lp_messages lp1 @ [ToolMessage (Text result) i (Some (tc_name tc))]\<rparr>) w1))"

datatype loop_end = Raised_in_loop py_exn | Tool_is_answer string | Loop_over

definition max_rounds :: "sub_agent_config \<Rightarrow> nat" where
  "max_rounds cfg = (if 0 < sa_max_tool_rounds cfg then sa_max_tool_rounds cfg else MAX_ITERATIONS)"

definition last_tool_text :: "message list \<Rightarrow> string option" where
  "last_tool_text ms = (case rev ms of ToolMessage c i nm # _ \<Rightarrow> Some (content_text c) | _ \<Rightarrow> None)"

text \<open>One iteration: the model is asked, its calls are run; the end of the loop, or \<^const>\<open>None\<close> to go on.\<close>

definition asked_model :: "'w agent_env \<Rightarrow> sub_agent_config \<Rightarrow> loop_state \<Rightarrow> 'w model" where
  "asked_model E cfg lp = (if max_rounds cfg \<le> lp_rounds lp then ae_without_tools E else ae_with_tools E)"

definition tool_is_answer :: "sub_agent_config \<Rightarrow> loop_state \<Rightarrow> loop_end option" where
  "tool_is_answer cfg lp =
     (if sa_skip_synthesis cfg \<and> max_rounds cfg \<le> lp_rounds lp
      then map_option Tool_is_answer (last_tool_text (lp_messages lp)) else None)"

definition agent_round ::
    "'w agent_env \<Rightarrow> sub_agent_config \<Rightarrow> nat \<Rightarrow> loop_state \<Rightarrow> 'w \<Rightarrow> loop_end option \<times> loop_state \<times> 'w" where
  "agent_round E cfg it lp w =
     (let lp1 = lp\<lparr>lp_events := lp_events lp @ [Thinking (it + 1) (sa_agent_id cfg)], lp_iteration := it\<rparr>
      in case asked_model E cfg lp1 (lp_messages lp1) (it + 1) w of
           (Inl e, w1) \<Rightarrow> (Some (Raised_in_loop e), lp1, w1)
         | (Inr (txt, calls), w1) \<Rightarrow>
             (let lp2 = lp1\<lparr>lp_response := Some (txt, calls), lp_messages := lp_messages lp1 @ [AIMessage (Text txt) calls]\<rparr>
              in if calls = [] then (Some Loop_over, lp2, w1)
                 else
                   (case run_calls (ae_registry E) (sa_agent_id cfg) calls lp2 w1 of
                      (Some e, lp3, w2) \<Rightarrow> (Some (Raised_in_loop e), lp3, w2)
                    | (None, lp3, w2) \<Rightarrow>
                        (let lp4 = lp3\<lparr>lp_rounds := Suc (lp_rounds lp3)\<rparr> in (tool_is_answer cfg lp4, lp4, w2)))))"

fun agent_loop ::
    "'w agent_env \<Rightarrow> sub_agent_config \<Rightarrow> nat list \<Rightarrow> loop_state \<Rightarrow> 'w \<Rightarrow> loop_end \<times> loop_state \<times> 'w" where
  "agent_loop E cfg [] lp w = (Loop_over, lp, w)"
| "agent_loop E cfg (it # its) lp w =
     (case agent_round E cfg it lp w of
        (Some r, lp1, w1) \<Rightarrow> (r, lp1, w1)
      | (None, lp1, w1) \<Rightarrow> agent_loop E cfg its lp1 w1)"

definition is_tool_done :: "agent_event \<Rightarrow> bool" where
  "is_tool_done e = (case e of ToolDone t p a \<Rightarrow> True | _ \<Rightarrow> False)"

definition synthesis_pass :: "'w agent_env \<Rightarrow> sub_agent_config \<Rightarrow> loop_state \<Rightarrow> 'w \<Rightarrow> loop_state \<times> 'w" where
  "synthesis_pass E cfg lp w =
     (if list_ex is_tool_done (lp_events lp) \<and> lp_response lp \<noteq> None \<and> \<not> sa_skip_synthesis cfg then
        (case ae_synthesis E of
           None \<Rightarrow> (lp, w)
         | Some llm \<Rightarrow>
             (case llm (strip_tool_metadata (lp_messages lp)) (lp_iteration lp + 2) w of
                (Inl e, w1) \<Rightarrow> (lp, w1)
              | (Inr (txt, calls), w1) \<Rightarrow>
                  (lp\<lparr>lp_response := Some (txt, calls), lp_messages := lp_messages lp @ [AIMessage (Text txt) calls]\<rparr>, w1)))
      else (lp, w))"

record agent_answer =
  an_content :: string
  an_events :: "agent_event list"
  an_sources :: "string list"

text \<open>
  The messages a sub-agent begins with: the prompt, the memories, the summary of the conversation when the last agent was
  this one, and the question.
\<close>

definition last_human :: "message list \<Rightarrow> string \<Rightarrow> message" where
  "last_human ms user_input = (case find is_human (rev ms) of None \<Rightarrow> HumanMessage (Text user_input) | Some m \<Rightarrow> m)"

definition context_summary :: "sub_agent_config \<Rightarrow> conversation_context option \<Rightarrow> string" where
  "context_summary cfg ctx =
     (case ctx of
        None \<Rightarrow> []
      | Some c \<Rightarrow> if cc_last_agent c \<noteq> [] \<and> cc_last_agent c \<noteq> sa_agent_id cfg then [] else cc_summary c)"

definition first_messages ::
    "'w agent_env \<Rightarrow> sub_agent_config \<Rightarrow> user_ctx option \<Rightarrow> string list \<Rightarrow> conversation_context option \<Rightarrow> message list \<Rightarrow>
     string \<Rightarrow> message list" where
  "first_messages E cfg u memories ctx ms user_input =
     [SystemMessage (ae_prompt E u)] @
     (if format_memories (ae_memory_chars E) memories \<noteq> [] then [SystemMessage (format_memories (ae_memory_chars E) memories)] else []) @
     (if context_summary cfg ctx \<noteq> [] then [SystemMessage (''[Prior conversation]'' @ [CHR 0x0A] @ context_summary cfg ctx)] else []) @
     [last_human ms user_input]"

definition start_loop :: "message list \<Rightarrow> loop_state" where
  "start_loop ms = \<lparr>lp_messages = ms, lp_events = [], lp_sources = [], lp_response = None, lp_rounds = 0, lp_iteration = 0\<rparr>"

definition agent_node ::
    "'w agent_env \<Rightarrow> sub_agent_config \<Rightarrow> message list \<Rightarrow> 'w \<Rightarrow> (py_exn + agent_answer) \<times> agent_event list \<times> 'w" where
  "agent_node E cfg ms w =
     (case agent_loop E cfg [0..<MAX_ITERATIONS] (start_loop ms) w of
        (Raised_in_loop e, lp, w1) \<Rightarrow> (Inl e, lp_events lp, w1)
      | (Tool_is_answer t, lp, w1) \<Rightarrow>
          (Inr \<lparr>an_content = t, an_events = lp_events lp, an_sources = lp_sources lp\<rparr>, lp_events lp, w1)
      | (Loop_over, lp, w1) \<Rightarrow>
          (case synthesis_pass E cfg lp w1 of
             (lp1, w2) \<Rightarrow>
               (let final = (case lp_response lp1 of None \<Rightarrow> [] | Some (txt, calls) \<Rightarrow> txt);
                    final1 = (case sa_format_response cfg of None \<Rightarrow> final
                              | Some f \<Rightarrow> (case f final (lp_messages lp1) of None \<Rightarrow> final | Some t \<Rightarrow> t))
                in (Inr \<lparr>an_content = final1, an_events = lp_events lp1, an_sources = lp_sources lp1\<rparr>, lp_events lp1, w2))))"

section \<open>The legacy loops\<close>

text \<open>\<open>_build_messages\<close> without a session: history entries of other roles are left out.\<close>

fun history_message :: "string option \<times> string \<Rightarrow> message list" where
  "history_message (r, c) =
     (if r = Some ''user'' then [HumanMessage (Text c)]
      else if r = Some ''assistant'' then [AIMessage (Text c) []] else [])"

definition build_messages :: "string \<Rightarrow> string \<Rightarrow> (string option \<times> string) list \<Rightarrow> message list" where
  "build_messages system user_input history =
     (if system \<noteq> [] then [SystemMessage system] else []) @ concat (map history_message history) @ [HumanMessage (Text user_input)]"

record 'w legacy_agent =
  la_system_prompt :: string
  la_with_tools :: "'w model"
  la_synthesis :: "'w model"
  la_synthesis_differs :: bool
  la_registry :: "(string \<times> 'w tool) list"
  la_format :: "(string \<Rightarrow> message list \<Rightarrow> string) option"

text \<open>The calls of one answer; here an exception of a tool ends the loop.\<close>

fun legacy_calls ::
    "(string \<times> 'w tool) list \<Rightarrow> tool_call list \<Rightarrow> message list \<Rightarrow> 'w \<Rightarrow> py_exn option \<times> message list \<times> 'w" where
  "legacy_calls reg [] ms w = (None, ms, w)"
| "legacy_calls reg (tc # tcs) ms w =
     (case tool_invoke reg (tc_name tc) (tc_args tc) w of
        (Inl e, w1) \<Rightarrow> (Some (OtherError e), ms, w1)
      | (Inr result, w1) \<Rightarrow>
          (case tc_id tc of
             None \<Rightarrow> (Some (OtherError ''ValidationError''), ms, w1)
           | Some i \<Rightarrow> legacy_calls reg tcs (ms @ [ToolMessage (Text result) i None]) w1))"

definition legacy_llm :: "'w legacy_agent \<Rightarrow> bool \<Rightarrow> 'w model" where
  "legacy_llm A had_tool_calls = (if had_tool_calls \<and> la_synthesis_differs A then la_synthesis A else la_with_tools A)"

definition legacy_final :: "'w legacy_agent \<Rightarrow> string option \<Rightarrow> message list \<Rightarrow> string" where
  "legacy_final A response ms =
     (let final = (case response of None \<Rightarrow> ''No response'' | Some t \<Rightarrow> if t = [] then ''No response'' else t)
      in case la_format A of None \<Rightarrow> final | Some f \<Rightarrow> f final ms)"

fun run_loop ::
    "'w legacy_agent \<Rightarrow> nat list \<Rightarrow> bool \<Rightarrow> string option \<Rightarrow> message list \<Rightarrow> 'w \<Rightarrow>
     (py_exn + string option \<times> message list) \<times> 'w" where
  "run_loop A [] had response ms w = (Inr (response, ms), w)"
| "run_loop A (it # its) had response ms w =
     (case legacy_llm A had ms it w of
        (Inl e, w1) \<Rightarrow> (Inl e, w1)
      | (Inr (txt, calls), w1) \<Rightarrow>
          (let ms1 = ms @ [AIMessage (Text txt) calls]
           in if calls = [] then (Inr (Some txt, ms1), w1)
              else (case legacy_calls (la_registry A) calls ms1 w1 of
                      (Some e, ms2, w2) \<Rightarrow> (Inl e, w2)
                    | (None, ms2, w2) \<Rightarrow> run_loop A its True (Some txt) ms2 w2)))"

definition agent_run ::
    "'w legacy_agent \<Rightarrow> string \<Rightarrow> (string option \<times> string) list \<Rightarrow> nat option \<Rightarrow> 'w \<Rightarrow> (py_exn + string) \<times> 'w" where
  "agent_run A user_input history max_iterations w =
     (let cap = (case max_iterations of None \<Rightarrow> MAX_ITERATIONS | Some n \<Rightarrow> if n = 0 then MAX_ITERATIONS else n)
      in case run_loop A [1..<Suc cap] False None (build_messages (la_system_prompt A) user_input history) w of
           (Inl e, w1) \<Rightarrow> (Inl e, w1)
         | (Inr (response, ms), w1) \<Rightarrow> (Inr (legacy_final A response ms), w1))"

datatype stream_event =
    SThinking nat
  | SToolStart string string
  | SToolDone string string
  | SWarning string
  | SFinal string nat
  | SError py_exn

fun stream_calls ::
    "(string \<times> 'w tool) list \<Rightarrow> tool_call list \<Rightarrow> message list \<Rightarrow> 'w \<Rightarrow> stream_event list \<times> py_exn option \<times> message list \<times> 'w" where
  "stream_calls reg [] ms w = ([], None, ms, w)"
| "stream_calls reg (tc # tcs) ms w =
     (case tool_invoke reg (tc_name tc) (tc_args tc) w of
        (Inl e, w1) \<Rightarrow> ([SToolStart (tc_name tc) (tc_args tc)], Some (OtherError e), ms, w1)
      | (Inr result, w1) \<Rightarrow>
          (let evs = [SToolStart (tc_name tc) (tc_args tc), SToolDone (tc_name tc) (take 300 result)]
           in case tc_id tc of
                None \<Rightarrow> (evs, Some (OtherError ''ValidationError''), ms, w1)
              | Some i \<Rightarrow>
                  (case stream_calls reg tcs (ms @ [ToolMessage (Text result) i None]) w1 of
                     (evs2, r) \<Rightarrow> (evs @ evs2, r))))"

text \<open>The events yielded; the last number is that of the iteration, one more than the limit when it was hit.\<close>

fun stream_loop ::
    "'w legacy_agent \<Rightarrow> nat list \<Rightarrow> bool \<Rightarrow> string option \<Rightarrow> message list \<Rightarrow> 'w \<Rightarrow>
     stream_event list \<times> (py_exn + string option \<times> message list \<times> nat) \<times> 'w" where
  "stream_loop A [] had response ms w =
     ([SWarning ''Agent hit MAX_ITERATIONS (25); returning last response.''], Inr (response, ms, Suc MAX_ITERATIONS), w)"
| "stream_loop A (it # its) had response ms w =
     (case legacy_llm A had ms it w of
        (Inl e, w1) \<Rightarrow> ([SThinking it], Inl e, w1)
      | (Inr (txt, calls), w1) \<Rightarrow>
          (let ms1 = ms @ [AIMessage (Text txt) calls]
           in if calls = [] then ([SThinking it], Inr (Some txt, ms1, it), w1)
              else (case stream_calls (la_registry A) calls ms1 w1 of
                      (evs, Some e, ms2, w2) \<Rightarrow> (SThinking it # evs, Inl e, w2)
                    | (evs, None, ms2, w2) \<Rightarrow>
                        (case stream_loop A its True (Some txt) ms2 w2 of
                           (evs2, r) \<Rightarrow> (SThinking it # evs @ evs2, r)))))"

definition agent_stream ::
    "'w legacy_agent \<Rightarrow> string \<Rightarrow> (string option \<times> string) list \<Rightarrow> 'w \<Rightarrow> stream_event list \<times> py_exn option \<times> 'w" where
  "agent_stream A user_input history w =
     (case stream_loop A [1..<Suc MAX_ITERATIONS] False None (build_messages (la_system_prompt A) user_input history) w of
        (evs, Inl e, w1) \<Rightarrow> (evs @ [SError e], Some e, w1)
      | (evs, Inr (response, ms, n), w1) \<Rightarrow> (evs @ [SFinal (legacy_final A response ms) n], None, w1))"

end
