(* ===== verification/Chat_Graph.thy ===== *)
theory Chat_Graph
  imports Chat_Text Chat_Agent Json
begin

text \<open>
  The supervisor graph of the chat: the nodes \<open>guardrail\<close>, \<open>router_node\<close>, \<open>llm_classifier\<close>, \<open>supervisor\<close>, the sub-agents,
  \<open>synthesis\<close>, \<open>decline\<close> and \<open>log_query\<close> of \<open>backend/agents/nodes/\<close>, the follow-up classifier, and the edges of
  \<open>backend/agents/graph.py\<close> with the state of \<open>graph_state.py\<close>. A node is a function on the state; a conditional edge looks
  \<open>next_agent\<close> up in the mapping it was built with, and a name outside of it ends the run with an error. Models, JSON and
  the warehouse are parameters.
\<close>

section \<open>The state\<close>

record agent_state =
  gs_messages :: "message list"
  gs_user_input :: string
  gs_user_id :: string
  gs_session_id :: string
  gs_user_context :: "user_ctx option"
  gs_intent :: string
  gs_next_agent :: string
  gs_current_agent :: string
  gs_tickers :: "string list"
  gs_data_sources :: "string list"
  gs_tool_events :: "agent_event list"
  gs_final_response :: string
  gs_response_actions :: "json list"
  gs_error :: "string option"
  gs_memories :: "string list"
  gs_start_time :: time

record query_row =
  qr_user_id :: string
  qr_query_text :: string
  qr_intent :: string
  qr_agent :: string
  qr_tools_used :: "string list"
  qr_data_sources :: "string list"
  qr_was_local :: bool
  qr_gap_tickers :: "string list"

text \<open>
  What a run works on besides: the contexts, the query log, the data gaps, the tool events sent to the client as they
  happen, and the models and tools.
\<close>

record 'w chat_world =
  cw_contexts :: context_state
  cw_query_log :: "query_row list"
  cw_data_gaps :: "(string \<times> string) list"
  cw_sent :: "agent_event list"
  cw_ext :: 'w

text \<open>
  The environment: contexts, the two classifiers (the follow-up classifier is given summary, topic and message) and the synthesis model (an exception, or a text), the sub-agents by
  name, the freshness of a ticker's prices (\<^const>\<open>None\<close> when there is no warehouse), and the JSON reader.
\<close>

record 'w graph_env =
  ge_contexts :: context_env
  ge_now :: time
  ge_followup :: "string \<Rightarrow> string \<Rightarrow> string \<Rightarrow> 'w \<Rightarrow> string option \<times> 'w"
  ge_classify :: "string \<Rightarrow> 'w \<Rightarrow> string option \<times> 'w"
  ge_synthesis_prompt :: string
  ge_synthesize :: "message list \<Rightarrow> 'w \<Rightarrow> string option \<times> 'w"
  ge_agents :: "(string \<times> 'w agent_env \<times> sub_agent_config) list"
  ge_fresh :: "(string \<Rightarrow> bool) option"
  ge_loads :: "string \<Rightarrow> json option"

section \<open>The guardrail\<close>

text \<open>\<open>classify_followup\<close>: a first turn, or a model that fails or is missing, makes a new topic.\<close>

definition classify_followup ::
    "'w graph_env \<Rightarrow> string \<Rightarrow> conversation_context \<Rightarrow> 'w \<Rightarrow> string \<times> 'w" where
  "classify_followup E user_input c w =
     (if cc_turn_count c = 0 then (''new_topic'', w)
      else (case ge_followup E (if cc_summary c = [] then ''No previous context.'' else cc_summary c)
                   (if cc_current_topic c = [] then ''None'' else cc_current_topic c) user_input w of
              (None, w1) \<Rightarrow> (''new_topic'', w1)
            | (Some t, w1) \<Rightarrow> (if sublist ''follow'' (str_lower (strip t)) then ''follow_up'' else ''new_topic'', w1)))"

definition or_follow_up :: "string \<Rightarrow> string" where
  "or_follow_up i = (if i = [] then ''follow_up'' else i)"

text \<open>The last part of the guardrail: whether the question is about finance.\<close>

definition financial_relevance :: "agent_state \<Rightarrow> agent_state" where
  "financial_relevance st =
     (if is_financial (gs_user_input st)
      then st\<lparr>gs_tickers := extract_tickers (gs_user_input st), gs_next_agent := ''router''\<rparr>
      else st\<lparr>gs_next_agent := ''decline''\<rparr>)"

definition follow_to :: "conversation_context \<Rightarrow> string \<Rightarrow> agent_state \<Rightarrow> agent_state" where
  "follow_to c intent st = st\<lparr>gs_tickers := merge_tickers (cc_tickers_mentioned c) (gs_user_input st),
     gs_next_agent := cc_last_agent c, gs_intent := intent\<rparr>"

text \<open>The guardrail with the context of the session, if there is one.\<close>

definition guardrail_context ::
    "'w graph_env \<Rightarrow> conversation_context option \<Rightarrow> agent_state \<Rightarrow> 'w \<Rightarrow> agent_state \<times> 'w" where
  "guardrail_context E ctx st w =
     (let user_input = gs_user_input st; detected = best_intent user_input in
      case ctx of
        None \<Rightarrow> (financial_relevance st, w)
      | Some c \<Rightarrow>
          if cc_last_agent c = [] then (financial_relevance st, w)
          else if cc_last_agent c \<noteq> ''decline'' \<and> detected = None \<and> is_clarification (cc_last_response c)
          then (follow_to c (or_follow_up (cc_last_intent c)) st, w)
          else
            (case detected of
               Some i \<Rightarrow>
                 if i = cc_last_intent c then (follow_to c (cc_last_intent c) st, w)
                 else
                   (let scores = score_intents user_input;
                        old_score = score_of scores (cc_last_intent c); new_score = score_of scores i
                    in if 0 < old_score \<and> old_score = new_score
                       then (st\<lparr>gs_final_response := build_clarification (cc_last_intent c) i, gs_next_agent := ''cache_hit'',
                                gs_current_agent := ''clarification''\<rparr>, w)
                       else (financial_relevance st, w))
             | None \<Rightarrow>
                 if ticker_findall user_input \<noteq> [] then (follow_to c (or_follow_up (cc_last_intent c)) st, w)
                 else
                   (case classify_followup E user_input c w of
                      (verdict, w1) \<Rightarrow>
                        if verdict = ''follow_up''
                        then (st\<lparr>gs_tickers := cc_tickers_mentioned c, gs_next_agent := cc_last_agent c,
                                 gs_intent := cc_last_intent c\<rparr>, w1)
                        else (financial_relevance st, w1))))"

definition guardrail :: "'w graph_env \<Rightarrow> agent_state \<Rightarrow> 'w chat_world \<Rightarrow> agent_state \<times> 'w chat_world" where
  "guardrail E st cw =
     (let st0 = st\<lparr>gs_start_time := ge_now E\<rparr> in
      case check_cache id (query_cache_service :: unit cache_svc option) () (gs_user_input st) of
        Some cached \<Rightarrow>
          (st0\<lparr>gs_final_response := cached, gs_next_agent := ''cache_hit'', gs_current_agent := ''cache''\<rparr>, cw)
      | None \<Rightarrow>
          if is_blocked (gs_user_input st) then (st0\<lparr>gs_next_agent := ''decline'', gs_error := Some ''blocked''\<rparr>, cw)
          else
            (case (if gs_session_id st = [] then (None, cw_contexts cw)
                   else context_get (ge_contexts E) (gs_session_id st) (cw_contexts cw)) of
               (found, cs) \<Rightarrow>
                 (case guardrail_context E (map_option (context_at cs) found) st0 (cw_ext cw) of
                    (st1, w) \<Rightarrow> (st1, cw\<lparr>cw_contexts := cs, cw_ext := w\<rparr>))))"

section \<open>Routing\<close>

definition router_node :: "agent_state \<Rightarrow> agent_state" where
  "router_node st =
     (case best_intent (gs_user_input st) of
        None \<Rightarrow> st\<lparr>gs_next_agent := ''llm_classifier''\<rparr>
      | Some i \<Rightarrow> st\<lparr>gs_intent := i, gs_next_agent := ''supervisor''\<rparr>)"

definition VALID_INTENTS :: "string list" where
  "VALID_INTENTS = [''portfolio'', ''stock_analysis'', ''forecast'', ''research'']"

text \<open>\<open>text.rstrip(".")\<close>.\<close>

definition rstrip_dots :: "string \<Rightarrow> string" where
  "rstrip_dots s = rev (dropWhile (\<lambda>c. c = CHR ''.'') (rev s))"

definition llm_classifier :: "'w graph_env \<Rightarrow> agent_state \<Rightarrow> 'w \<Rightarrow> agent_state \<times> 'w" where
  "llm_classifier E st w =
     (case ge_classify E (gs_user_input st) w of
        (answer, w1) \<Rightarrow>
          (let intent = (case answer of None \<Rightarrow> ''stock_analysis'' | Some t \<Rightarrow> rstrip_dots (str_lower (strip t)))
           in (if intent \<in> set VALID_INTENTS then st\<lparr>gs_intent := intent, gs_next_agent := ''supervisor''\<rparr>
               else st\<lparr>gs_next_agent := ''decline''\<rparr>, w1)))"

definition AGENT_MAP :: "(string \<times> string) list" where
  "AGENT_MAP = [(''portfolio'', ''portfolio''), (''stock_analysis'', ''stock_analyst''), (''forecast'', ''forecaster''),
     (''research'', ''research''), (''sentiment'', ''sentiment''), (''recommendation'', ''recommendation'')]"

definition supervisor :: "agent_state \<Rightarrow> agent_state" where
  "supervisor st = st\<lparr>gs_next_agent := (case map_of AGENT_MAP (gs_intent st) of None \<Rightarrow> ''stock_analyst'' | Some a \<Rightarrow> a)\<rparr>"

definition DECLINE_MSG :: string where
  "DECLINE_MSG = ''I'' @ [CHR 0x27] @ ''m specialized in stock analysis and portfolio management. I can help with market data, '' @
     ''stock analysis, forecasts, and portfolio questions. What would you like to know about your investments?''"

text \<open>The state always has an intent, so the default of \<open>state.get\<close> is never taken.\<close>

definition decline_node :: "agent_state \<Rightarrow> agent_state" where
  "decline_node st = st\<lparr>gs_final_response := DECLINE_MSG, gs_current_agent := ''decline''\<rparr>"

section \<open>Sub-agents in the graph\<close>

text \<open>\<open>list(dict.fromkeys(a + b))\<close>.\<close>

definition dedup_merge :: "string list \<Rightarrow> string list \<Rightarrow> string list" where
  "dedup_merge a b = rev (remdups (rev (a @ b)))"

definition sub_agent_node ::
    "'w graph_env \<Rightarrow> string \<Rightarrow> agent_state \<Rightarrow> 'w chat_world \<Rightarrow> (py_exn + agent_state) \<times> 'w chat_world" where
  "sub_agent_node E nm st cw =
     (case map_of (ge_agents E) nm of
        None \<Rightarrow> (Inl (KeyError nm), cw)
      | Some (A, cfg) \<Rightarrow>
          (case (if gs_session_id st = [] then (None, cw_contexts cw)
                 else context_get (ge_contexts E) (gs_session_id st) (cw_contexts cw)) of
             (found, cs) \<Rightarrow>
               (case agent_node A cfg (first_messages A cfg (gs_user_context st) (gs_memories st)
                       (map_option (context_at cs) found) (gs_messages st) (gs_user_input st)) (cw_ext cw) of
                  (r, evs, w) \<Rightarrow>
                    (let cw1 = cw\<lparr>cw_contexts := cs, cw_sent := cw_sent cw @ filter (\<lambda>e. case e of Thinking n a \<Rightarrow> False | _ \<Rightarrow> True) evs,
                                  cw_ext := w\<rparr>
                     in case r of
                          Inl e \<Rightarrow> (Inl e, cw1)
                        | Inr ans \<Rightarrow>
                            (Inr (st\<lparr>gs_messages := gs_messages st @ [AIMessage (Text (an_content ans)) []],
                                     gs_tool_events := gs_tool_events st @ an_events ans, gs_final_response := an_content ans,
                                     gs_data_sources := dedup_merge (gs_data_sources st) (an_sources ans),
                                     gs_current_agent := sa_agent_id cfg\<rparr>), cw1)))))"

section \<open>Synthesis\<close>

text \<open>
  The patterns of \<open>_DATA_INDICATORS\<close>: characters in any case, white space, classes and runs of two or three digits. What
  follows a run of white space or digits is never part of it, so matching without going back is exact.
\<close>

datatype rx = RLit char | RAny | RClass string | RSpaces1 | RSpaces0 | RDigit | RDigits23

fun rx_match :: "rx list \<Rightarrow> string \<Rightarrow> string option" where
  "rx_match [] s = Some s"
| "rx_match (RLit c # ps) s =
     (case s of [] \<Rightarrow> None | x # xs \<Rightarrow> if to_lower x = to_lower c then rx_match ps xs else None)"
| "rx_match (RAny # ps) s =
     (case s of [] \<Rightarrow> None | x # xs \<Rightarrow> if x \<noteq> CHR 0x0A then rx_match ps xs else None)"
| "rx_match (RClass cs # ps) s =
     (case s of [] \<Rightarrow> None | x # xs \<Rightarrow> if x \<in> set cs then rx_match ps xs else None)"
| "rx_match (RSpaces1 # ps) s =
     (case s of [] \<Rightarrow> None | x # xs \<Rightarrow> if is_space x then rx_match ps (dropWhile is_space xs) else None)"
| "rx_match (RSpaces0 # ps) s = rx_match ps (dropWhile is_space s)"
| "rx_match (RDigit # ps) s =
     (case s of [] \<Rightarrow> None | x # xs \<Rightarrow> if is_digit x then rx_match ps xs else None)"
| "rx_match (RDigits23 # ps) s =
     (let ds = takeWhile is_digit (take 3 s) in if length ds < 2 then None else rx_match ps (drop (length ds) s))"

definition lits :: "string \<Rightarrow> rx list" where
  "lits = map RLit"

definition DATA_INDICATORS :: "rx list list" where
  "DATA_INDICATORS = [
     lits ''CMP'',
     lits ''Current'' @ [RSpaces1] @ lits ''Price'' @ [RSpaces0, RClass '':|''],
     lits ''Market'' @ [RSpaces1] @ lits ''Cap'' @ [RSpaces0, RClass '':|''],
     lits ''P/E'' @ [RSpaces1] @ lits ''Ratio'',
     lits ''P/E'' @ [RSpaces1] @ lits ''TTM'',
     lits ''P/E'' @ [RSpaces1] @ lits ''('',
     lits ''EPS'' @ [RSpaces0, RClass '':|$''],
     lits ''ROE'' @ [RSpaces0, RClass '':|''],
     lits ''RSI'' @ [RSpaces0] @ lits ''('' @ [RDigit],
     lits ''MACD'' @ [RSpaces1] @ lits ''line'',
     lits ''MACD'' @ [RSpaces1] @ lits ''signal'',
     lits ''MACD'' @ [RSpaces1] @ lits ''crossover'',
     lits ''SMA'' @ [RSpaces1, RDigits23],
     lits ''Bollinger'',
     lits ''MAE'' @ [RSpaces0, RClass '':|''],
     lits ''RMSE'' @ [RSpaces0, RClass '':|''],
     lits ''MAPE'' @ [RSpaces0, RClass '':|''],
     lits ''52'' @ [RAny] @ lits ''wk'' @ [RSpaces1] @ lits ''high'',
     lits ''52'' @ [RAny] @ lits ''wk'' @ [RSpaces1] @ lits ''low'',
     lits ''52'' @ [RAny] @ lits ''wk'' @ [RSpaces1] @ lits ''range'',
     lits ''Price'' @ [RSpaces1] @ lits ''Target'' @ [RSpaces0, RClass '':|'']]"

text \<open>\<open>len(findall(text))\<close>: matches that do not overlap, from the left.\<close>

definition first_match :: "string \<Rightarrow> string option" where
  "first_match s = (case List.map_filter (\<lambda>p. rx_match p s) DATA_INDICATORS of [] \<Rightarrow> None | r # _ \<Rightarrow> Some r)"

fun count_matches :: "nat \<Rightarrow> string \<Rightarrow> nat" where
  "count_matches 0 s = 0"
| "count_matches (Suc n) s =
     (case s of
        [] \<Rightarrow> 0
      | c # cs \<Rightarrow> (case first_match s of Some r \<Rightarrow> Suc (count_matches n r) | None \<Rightarrow> count_matches n cs))"

definition is_hallucinated :: "agent_state \<Rightarrow> string \<Rightarrow> bool" where
  "is_hallucinated st txt \<longleftrightarrow>
     \<not> list_ex is_tool_done (gs_tool_events st) \<and> 3 \<le> count_matches (length txt) txt"

text \<open>The dash of the message is written with ASCII characters.\<close>

definition HALLUCINATION_FALLBACK :: string where
  "HALLUCINATION_FALLBACK = ''I wasn'' @ [CHR 0x27] @ ''t able to complete the analysis right now -- the data tools didn'' @ [CHR 0x27] @
     ''t respond in time. This can happen when the LLM service is temporarily overloaded.'' @ [CHR 0x0A, CHR 0x0A] @
     ''**Please try again** in a moment, or rephrase your request. For example:'' @ [CHR 0x0A] @
     ''- *'' @ [CHR 0x22] @ ''analyse SBIN.NS'' @ [CHR 0x22] @ ''*'' @ [CHR 0x0A] @
     ''- *'' @ [CHR 0x22] @ ''fetch and analyse ICICIBANK.NS'' @ [CHR 0x22] @ ''*''"

text \<open>
  The text before and after the first block of actions, which ends at the first \<open>-->\<close>; the block must be a list.
\<close>

fun split_at_sub :: "string \<Rightarrow> string \<Rightarrow> (string \<times> string) option" where
  "split_at_sub pat [] = (if pat = [] then Some ([], []) else None)"
| "split_at_sub pat (c # cs) =
     (if prefix pat (c # cs) then Some ([], drop (length pat) (c # cs))
      else map_option (\<lambda>(a, b). (c # a, b)) (split_at_sub pat cs))"

definition extract_actions :: "(string \<Rightarrow> json option) \<Rightarrow> string \<Rightarrow> string \<times> json list" where
  "extract_actions loads txt =
     (case split_at_sub ''<!--actions:'' txt of
        None \<Rightarrow> (txt, [])
      | Some (before, rest) \<Rightarrow>
          (case split_at_sub ''-->'' rest of
             None \<Rightarrow> (txt, [])
           | Some (block, later) \<Rightarrow>
               (case loads block of
                  Some (JList actions) \<Rightarrow> (strip (before @ later), actions)
                | _ \<Rightarrow> (txt, []))))"

definition PASSTHROUGH_MIN_CHARS :: nat where "PASSTHROUGH_MIN_CHARS = 100"

definition synthesis :: "'w graph_env \<Rightarrow> agent_state \<Rightarrow> 'w \<Rightarrow> agent_state \<times> 'w" where
  "synthesis E st w =
     (let final = gs_final_response st in
      if final \<noteq> [] \<and> is_hallucinated st final then (st\<lparr>gs_final_response := HALLUCINATION_FALLBACK\<rparr>, w)
      else if final \<noteq> [] \<and> PASSTHROUGH_MIN_CHARS \<le> length final then
        (case extract_actions (ge_loads E) final of
           (clean, actions) \<Rightarrow>
             (let st1 = st\<lparr>gs_final_response := clean\<rparr> in
              (if actions \<noteq> [] then st1\<lparr>gs_response_actions := actions\<rparr> else st1, w)))
      else
        (case ge_synthesize E (SystemMessage (ge_synthesis_prompt E) # gs_messages st @
                (if final \<noteq> [] then [HumanMessage (Text final)] else [])) w of
           (Some t, w1) \<Rightarrow> (st\<lparr>gs_final_response := t\<rparr>, w1)
         | (None, w1) \<Rightarrow>
             (st\<lparr>gs_final_response := (if final \<noteq> [] then final else
                ''I couldn'' @ [CHR 0x27] @ ''t generate a response. Please try rephrasing your question.'')\<rparr>, w1)))"

section \<open>The log\<close>

definition tool_start_name :: "agent_event \<Rightarrow> string option" where
  "tool_start_name e = (case e of ToolStart t a g \<Rightarrow> Some t | _ \<Rightarrow> None)"

definition gap_tickers :: "(string \<Rightarrow> bool) \<Rightarrow> agent_state \<Rightarrow> string list" where
  "gap_tickers fresh st = filter (\<lambda>t. \<not> fresh t) (gs_tickers st)"

definition query_row_of :: "(string \<Rightarrow> bool) \<Rightarrow> agent_state \<Rightarrow> query_row" where
  "query_row_of fresh st =
     \<lparr>qr_user_id = gs_user_id st, qr_query_text = gs_user_input st, qr_intent = gs_intent st,
      qr_agent = gs_current_agent st, qr_tools_used = List.map_filter tool_start_name (gs_tool_events st),
      qr_data_sources = gs_data_sources st,
      qr_was_local = (''yfinance'' \<notin> set (gs_data_sources st) \<and> ''serpapi'' \<notin> set (gs_data_sources st)),
      qr_gap_tickers = gap_tickers fresh st\<rparr>"

definition log_query :: "'w graph_env \<Rightarrow> agent_state \<Rightarrow> 'w chat_world \<Rightarrow> 'w chat_world" where
  "log_query E st cw =
     (case ge_fresh E of
        None \<Rightarrow> cw
      | Some fresh \<Rightarrow>
          cw\<lparr>cw_query_log := cw_query_log cw @ [query_row_of fresh st],
             cw_data_gaps := cw_data_gaps cw @ map (\<lambda>t. (t, ''ohlcv'')) (gap_tickers fresh st)\<rparr>)"

section \<open>The graph\<close>

definition SUB_AGENTS :: "string list" where
  "SUB_AGENTS = [''portfolio'', ''stock_analyst'', ''forecaster'', ''research'', ''sentiment'', ''recommendation'']"

text \<open>The mapping of a conditional edge: the names \<open>next_agent\<close> may have, and the nodes they lead to.\<close>

definition edge_map :: "string \<Rightarrow> (string \<times> string) list" where
  "edge_map node =
     (if node = ''guardrail'' then [(''router'', ''router''), (''decline'', ''decline''), (''cache_hit'', ''log_query'')] @ map (\<lambda>a. (a, a)) SUB_AGENTS
      else if node = ''router'' then [(''supervisor'', ''supervisor''), (''llm_classifier'', ''llm_classifier'')]
      else if node = ''llm_classifier'' then [(''supervisor'', ''supervisor''), (''decline'', ''decline'')]
      else if node = ''supervisor'' then map (\<lambda>a. (a, a)) SUB_AGENTS
      else [])"

definition next_node :: "string \<Rightarrow> agent_state \<Rightarrow> py_exn + string option" where
  "next_node node st =
     (if node \<in> set SUB_AGENTS then Inr (Some ''synthesis'')
      else if node \<in> {''synthesis'', ''decline''} then Inr (Some ''log_query'')
      else if node = ''log_query'' then Inr None
      else (case map_of (edge_map node) (gs_next_agent st) of
              None \<Rightarrow> Inl (KeyError (gs_next_agent st))
            | Some n \<Rightarrow> Inr (Some n)))"

definition run_node ::
    "'w graph_env \<Rightarrow> string \<Rightarrow> agent_state \<Rightarrow> 'w chat_world \<Rightarrow> (py_exn + agent_state) \<times> 'w chat_world" where
  "run_node E node st cw =
     (if node = ''guardrail'' then (case guardrail E st cw of (st1, cw1) \<Rightarrow> (Inr st1, cw1))
      else if node = ''router'' then (Inr (router_node st), cw)
      else if node = ''llm_classifier'' then
        (case llm_classifier E st (cw_ext cw) of (st1, w) \<Rightarrow> (Inr st1, cw\<lparr>cw_ext := w\<rparr>))
      else if node = ''supervisor'' then (Inr (supervisor st), cw)
      else if node = ''synthesis'' then
        (case synthesis E st (cw_ext cw) of (st1, w) \<Rightarrow> (Inr st1, cw\<lparr>cw_ext := w\<rparr>))
      else if node = ''decline'' then (Inr (decline_node st), cw)
      else if node = ''log_query'' then (Inr st, log_query E st cw)
      else sub_agent_node E node st cw)"

text \<open>
  A run from a node, with the limit on steps LangGraph has (25 by default); the nodes run are listed.
\<close>

definition RECURSION_LIMIT :: nat where "RECURSION_LIMIT = 25"

fun graph_run ::
    "nat \<Rightarrow> 'w graph_env \<Rightarrow> string \<Rightarrow> agent_state \<Rightarrow> 'w chat_world \<Rightarrow> (py_exn + agent_state) \<times> string list \<times> 'w chat_world" where
  "graph_run 0 E node st cw = (Inl (OtherError ''GraphRecursionError''), [], cw)"
| "graph_run (Suc n) E node st cw =
     (case run_node E node st cw of
        (Inl e, cw1) \<Rightarrow> (Inl e, [node], cw1)
      | (Inr st1, cw1) \<Rightarrow>
          (case next_node node st1 of
             Inl e \<Rightarrow> (Inl e, [node], cw1)
           | Inr None \<Rightarrow> (Inr st1, [node], cw1)
           | Inr (Some m) \<Rightarrow> (case graph_run n E m st1 cw1 of (r, nodes, cw2) \<Rightarrow> (r, node # nodes, cw2))))"

definition graph_invoke ::
    "'w graph_env \<Rightarrow> agent_state \<Rightarrow> 'w chat_world \<Rightarrow> (py_exn + agent_state) \<times> string list \<times> 'w chat_world" where
  "graph_invoke E = graph_run RECURSION_LIMIT E ''guardrail''"

end
