(* ===== verification/Chat_Session.thy ===== *)
theory Chat_Session
  imports Chat_Graph
begin

text \<open>
  A chat turn over the WebSocket as the worker thread makes it: \<open>_run_graph\<close> of \<open>backend/ws.py\<close> (the state the graph starts
  from, the run, the update of the context, what is handed to the event loop, the final event) and \<open>run\<close> of
  \<open>_handle_chat\<close>, which turns an exception into an error event. A conversation is a sequence of turns of any users and
  sessions, each in its own environment. Lemmas: the path of a run through the graph, what a run may touch.
\<close>

section \<open>A turn\<close>

text \<open>
  The message of a client with what is read for it: the holdings, the memories found, the role of the user and whether
  the turn runs on the user's own key.
\<close>

record chat_request =
  rq_message :: string
  rq_history :: "(string option \<times> string) list"
  rq_user_id :: string
  rq_session_id :: string
  rq_holdings :: "(string \<times> string) list option"
  rq_memories :: "string list"
  rq_role :: string
  rq_byo :: bool

definition ws_history_message :: "string option \<times> string \<Rightarrow> message" where
  "ws_history_message h = (case h of (r, c) \<Rightarrow> if r = Some ''assistant'' then AIMessage (Text c) [] else HumanMessage (Text c))"

definition input_state :: "chat_request \<Rightarrow> agent_state" where
  "input_state q =
     \<lparr>gs_messages = map ws_history_message (rq_history q) @ [HumanMessage (Text (rq_message q))],
      gs_user_input = rq_message q, gs_user_id = rq_user_id q, gs_session_id = rq_session_id q,
      gs_user_context = build_user_context (rq_user_id q) (rq_holdings q), gs_intent = [], gs_next_agent = [],
      gs_current_agent = [], gs_tickers = [], gs_data_sources = [], gs_tool_events = [], gs_final_response = [],
      gs_response_actions = [], gs_error = None, gs_memories = rq_memories q, gs_start_time = 0\<rparr>"

definition turn_of :: "agent_state \<Rightarrow> turn_result" where
  "turn_of st = \<lparr>tn_agent = gs_current_agent st, tn_intent = gs_intent st, tn_response = gs_final_response st,
     tn_tickers = gs_tickers st\<rparr>"

datatype chat_event =
    Final_event string string bool "json list"
  | Error_event py_exn

text \<open>
  What the worker hands to the event loop. The extraction of memories is never among it: the name \<open>context_store\<close> it
  reads first is not imported in that function.
\<close>

datatype submitted =
    Persist_turn string string string string string
  | Increment_usage string
  | Increment_chat_counter string

definition submitted_after :: "chat_request \<Rightarrow> agent_state \<Rightarrow> submitted list" where
  "submitted_after q st =
     (if rq_session_id q \<noteq> []
      then [Persist_turn (rq_user_id q) (rq_session_id q) (rq_message q) (gs_final_response st) (gs_current_agent st)] else []) @
     (if rq_user_id q \<noteq> []
      then Increment_usage (rq_user_id q) #
           (if rq_role q \<noteq> ''superuser'' \<and> \<not> rq_byo q then [Increment_chat_counter (rq_user_id q)] else [])
      else [])"

definition run_graph_ws ::
    "'w graph_env \<Rightarrow> chat_request \<Rightarrow> 'w chat_world \<Rightarrow> chat_event \<times> submitted list \<times> 'w chat_world" where
  "run_graph_ws E q cw =
     (case graph_invoke E (input_state q) cw of
        (Inl e, nodes, cw1) \<Rightarrow> (Error_event e, [], cw1)
      | (Inr st, nodes, cw1) \<Rightarrow>
          (Final_event (gs_final_response st) (gs_current_agent st) (rq_memories q \<noteq> []) (gs_response_actions st),
           submitted_after q st,
           cw1\<lparr>cw_contexts := update_context_ws (ge_contexts E) (rq_session_id q) (rq_user_id q) (rq_message q) (turn_of st)
                                (cw_contexts cw1)\<rparr>))"

fun conversation ::
    "('w graph_env \<times> chat_request) list \<Rightarrow> 'w chat_world \<Rightarrow> chat_event list \<times> submitted list \<times> 'w chat_world" where
  "conversation [] cw = ([], [], cw)"
| "conversation ((E, q) # ts) cw =
     (case run_graph_ws E q cw of
        (ev, subs, cw1) \<Rightarrow> (case conversation ts cw1 of (evs, subs2, cw2) \<Rightarrow> (ev # evs, subs @ subs2, cw2)))"

section \<open>The path of a run\<close>

text \<open>
  The conditional edges as a relation between nodes, and a rank that falls along every edge.
\<close>

definition node_rank :: "string \<Rightarrow> nat" where
  "node_rank node =
     (if node = ''guardrail'' then 6 else if node = ''router'' then 5 else if node = ''llm_classifier'' then 4
      else if node = ''supervisor'' then 3 else if node \<in> set SUB_AGENTS then 2
      else if node \<in> {''synthesis'', ''decline''} then 1 else 0)"

lemma map_of_in_set: "map_of d k = Some v \<Longrightarrow> v \<in> snd ` set d"
  by (force dest: map_of_SomeD)

lemma edge_map_falls:
  "list_all (\<lambda>m. list_all (\<lambda>n. node_rank n < node_rank m) (map snd (edge_map m)))
     [''guardrail'', ''router'', ''llm_classifier'', ''supervisor'']"
  by code_simp

lemma sub_agents_rank: "list_all (\<lambda>a. node_rank a = 2) SUB_AGENTS" by code_simp

lemma fixed_ranks: "node_rank ''synthesis'' = 1" "node_rank ''decline'' = 1" "node_rank ''log_query'' = 0"
  "node_rank ''guardrail'' = 6" "node_rank ''router'' = 5" "node_rank ''supervisor'' = 3" "node_rank ''llm_classifier'' = 4"
  by code_simp+

lemma edge_map_nodes: "edge_map m \<noteq> [] \<Longrightarrow> m \<in> set [''guardrail'', ''router'', ''llm_classifier'', ''supervisor'']"
  unfolding edge_map_def by (simp only: list.set insert_iff) (presburger | metis)

lemma edge_falls:
  assumes "next_node m st = Inr (Some n)"
  shows "node_rank n < node_rank m"
proof -
  consider "m \<in> set SUB_AGENTS" "n = ''synthesis''" | "m \<in> {''synthesis'', ''decline''}" "n = ''log_query''"
    | "map_of (edge_map m) (gs_next_agent st) = Some n"
    using assms unfolding next_node_def by (auto split: if_splits option.splits)
  then show ?thesis
  proof cases
    case 1
    then show ?thesis using sub_agents_rank by (auto simp: list_all_iff fixed_ranks)
  next
    case 2
    then show ?thesis by (auto simp only: fixed_ranks insert_iff empty_iff)
  next
    case 3
    then have "edge_map m \<noteq> []" by auto
    then have "m \<in> set [''guardrail'', ''router'', ''llm_classifier'', ''supervisor'']" by (rule edge_map_nodes)
    moreover have "n \<in> set (map snd (edge_map m))" using 3 map_of_in_set by fastforce
    ultimately show ?thesis using edge_map_falls unfolding list_all_iff by blast
  qed
qed

text \<open>The nodes that may follow a node.\<close>

definition successors :: "string \<Rightarrow> string list" where
  "successors m =
     (if m \<in> set SUB_AGENTS then [''synthesis''] else if m \<in> {''synthesis'', ''decline''} then [''log_query'']
      else map snd (edge_map m))"

lemma next_node_successor: "next_node m st = Inr (Some n) \<Longrightarrow> n \<in> set (successors m)"
  using map_of_in_set [of "edge_map m" "gs_next_agent st" n]
  by (auto simp: next_node_def successors_def split: if_splits option.splits)

lemma next_node_end: "next_node m st = Inr None \<longleftrightarrow> m = ''log_query''"
proof -
  have "''log_query'' \<notin> set SUB_AGENTS" by code_simp
  then show ?thesis by (auto simp: next_node_def split: option.splits)
qed

lemma next_node_log: "next_node ''log_query'' st = Inr None" by (simp add: next_node_end)

text \<open>The rank of a node is fuel enough.\<close>

lemma graph_run_fuel: "node_rank m < n \<Longrightarrow> graph_run (n + k) E m st cw = graph_run n E m st cw"
proof (induction n arbitrary: m st cw)
  case (Suc n)
  show ?case
  proof (cases "run_node E m st cw")
    case (Pair r cw1)
    show ?thesis
    proof (cases r)
      case (Inr st1)
      have "graph_run (n + k) E m' st1 cw1 = graph_run n E m' st1 cw1" if "next_node m st1 = Inr (Some m')" for m'
        using edge_falls [OF that] Suc.prems by (intro Suc.IH) simp
      then show ?thesis using Pair Inr by (simp split: sum.split option.split)
    qed (use Pair in simp)
  qed
qed simp

text \<open>What holds of a run that was given enough fuel, by induction along the run.\<close>

lemma graph_run_induct [consumes 2, case_names Fails Stuck End Step]:
  assumes "graph_run n E m st cw = (r, nodes, cw')" "node_rank m < n"
    and fails: "\<And>m st cw e cw'. run_node E m st cw = (Inl e, cw') \<Longrightarrow> P m st cw (Inl e) [m] cw'"
    and stuck: "\<And>m st cw e st1 cw'. run_node E m st cw = (Inr st1, cw') \<Longrightarrow> next_node m st1 = Inl e \<Longrightarrow> P m st cw (Inl e) [m] cw'"
    and ends: "\<And>st cw st1 cw'. run_node E ''log_query'' st cw = (Inr st1, cw') \<Longrightarrow> P ''log_query'' st cw (Inr st1) [''log_query''] cw'"
    and step: "\<And>m st cw st1 cw1 n r nodes cw'. run_node E m st cw = (Inr st1, cw1) \<Longrightarrow> next_node m st1 = Inr (Some n) \<Longrightarrow>
        P n st1 cw1 r nodes cw' \<Longrightarrow> P m st cw r (m # nodes) cw'"
  shows "P m st cw r nodes cw'"
  using assms(1,2)
proof (induction n arbitrary: m st cw r nodes cw')
  case (Suc n)
  obtain r1 cw1 where node: "run_node E m st cw = (r1, cw1)" by fastforce
  show ?case
  proof (cases r1)
    case (Inl e)
    then show ?thesis using Suc.prems node fails by auto
  next
    case (Inr st1)
    show ?thesis
    proof (cases "next_node m st1")
      case (Inl e)
      then show ?thesis using Suc.prems node \<open>r1 = Inr st1\<close> stuck by auto
    next
      case next_ok: (Inr o1)
      show ?thesis
      proof (cases o1)
        case None
        then have "m = ''log_query''" using next_ok next_node_end by simp
        then show ?thesis using Suc.prems node \<open>r1 = Inr st1\<close> next_ok None ends by auto
      next
        case (Some m')
        then have "next_node m st1 = Inr (Some m')" using next_ok by simp
        moreover obtain nodes' where "graph_run n E m' st1 cw1 = (r, nodes', cw')" "nodes = m # nodes'"
          using Suc.prems(1) node \<open>r1 = Inr st1\<close> next_ok Some by (auto split: prod.splits)
        moreover have "node_rank m' < n" using edge_falls calculation(1) Suc.prems(2) by fastforce
        ultimately show ?thesis using node \<open>r1 = Inr st1\<close> step Suc.IH by metis
      qed
    qed
  qed
qed simp

lemma graph_invoke_fuel: "node_rank ''guardrail'' < RECURSION_LIMIT"
  by (simp add: fixed_ranks RECURSION_LIMIT_def)

text \<open>A run is a walk along the edges, of at most one node per rank, that ends at the log when nothing is raised.\<close>

lemma graph_run_walk:
  assumes "graph_run n E m st cw = (r, nodes, cw')" "node_rank m < n"
  shows "hd nodes = m \<and> nodes \<noteq> [] \<and> successively (\<lambda>a b. b \<in> set (successors a)) nodes \<and> length nodes \<le> Suc (node_rank m) \<and>
    (\<forall>st'. r = Inr st' \<longrightarrow> last nodes = ''log_query'')"
  using assms
proof (induction rule: graph_run_induct)
  case (Step m st cw st1 cw1 n r nodes cw')
  then show ?case using edge_falls [of m st1 n] next_node_successor by (fastforce simp: successively_Cons)
qed auto

section \<open>The log of a run\<close>

definition log_rows :: "'w graph_env \<Rightarrow> agent_state \<Rightarrow> query_row list" where
  "log_rows E st = (case ge_fresh E of None \<Rightarrow> [] | Some fresh \<Rightarrow> [query_row_of fresh st])"

lemma node_keeps_log:
  assumes "run_node E m st cw = (r, cw')" "m \<noteq> ''log_query''"
  shows "cw_query_log cw' = cw_query_log cw"
  using assms
  by (auto simp: run_node_def guardrail_def sub_agent_node_def Let_def split: if_splits option.splits prod.splits sum.splits)

lemma graph_run_logs:
  assumes "graph_run n E m st cw = (r, nodes, cw')" "node_rank m < n"
  shows "cw_query_log cw' = cw_query_log cw @ (case r of Inl e \<Rightarrow> [] | Inr st' \<Rightarrow> log_rows E st')"
  using assms
proof (induction rule: graph_run_induct)
  case (Fails m st cw e cw')
  have "m \<noteq> ''log_query''" using Fails by (auto simp: run_node_def)
  then show ?case using Fails node_keeps_log by simp
next
  case (Stuck m st cw e st1 cw')
  then have "m \<noteq> ''log_query''" by (auto simp: next_node_log)
  then show ?case using Stuck node_keeps_log by simp
next
  case (End st cw st1 cw')
  then show ?case by (auto simp: run_node_def log_query_def log_rows_def split: option.splits)
next
  case (Step m st cw st1 cw1 n r nodes cw')
  then have "m \<noteq> ''log_query''" by (auto simp: next_node_log)
  then show ?case using Step node_keeps_log by metis
qed

section \<open>Agents named by contexts\<close>

text \<open>
  The graph as \<open>build_supervisor_graph\<close> makes it: one node per sub-agent, under the name its configuration has.
\<close>

definition well_built :: "'w graph_env \<Rightarrow> bool" where
  "well_built E \<longleftrightarrow> map fst (ge_agents E) = SUB_AGENTS \<and> List.list_all (\<lambda>(nm, A, cfg). sa_agent_id cfg = nm) (ge_agents E)"

definition REMEMBERED :: "string list" where
  "REMEMBERED = [[], ''decline'', ''clarification''] @ SUB_AGENTS"

lemma remembered_basic: "[] \<in> set REMEMBERED" "''decline'' \<in> set REMEMBERED" "''clarification'' \<in> set REMEMBERED"
  "set SUB_AGENTS \<subseteq> set REMEMBERED"
  by (auto simp: REMEMBERED_def)

lemma well_built_agent:
  assumes "well_built E" "map_of (ge_agents E) nm = Some (A, cfg)"
  shows "sa_agent_id cfg = nm \<and> nm \<in> set SUB_AGENTS"
proof -
  have "(nm, A, cfg) \<in> set (ge_agents E)" using assms(2) by (rule map_of_SomeD)
  moreover from this have "nm \<in> set (map fst (ge_agents E))" by (metis fst_conv list.set_map image_eqI)
  ultimately show ?thesis using assms(1) unfolding well_built_def List.list_all_iff by auto
qed

lemma well_built_has: "well_built E \<Longrightarrow> nm \<in> set SUB_AGENTS \<Longrightarrow> map_of (ge_agents E) nm \<noteq> None"
  by (metis well_built_def map_of_eq_None_iff list.set_map)

lemma no_cache: "check_cache id (query_cache_service :: unit cache_svc option) () q = None"
  by (simp add: check_cache_def query_cache_service_def)

lemma guardrail_context_next:
  assumes "guardrail_context E ctx st w = (st1, w1)"
  shows "(gs_next_agent st1 \<in> {''router'', ''decline'', ''cache_hit''} \<or>
       (\<exists>c. ctx = Some c \<and> cc_last_agent c \<noteq> [] \<and> gs_next_agent st1 = cc_last_agent c)) \<and>
     (gs_current_agent st1 = gs_current_agent st \<or> gs_current_agent st1 = ''clarification'')"
  using assms
  by (auto simp: guardrail_context_def financial_relevance_def follow_to_def Let_def
      split: option.splits if_splits prod.splits)

lemma guardrail_names:
  assumes "guardrail E st cw = (st1, cw1)" "contexts_name K (cw_contexts cw)"
  shows "contexts_name K (cw_contexts cw1) \<and>
    (gs_next_agent st1 \<in> {''router'', ''decline'', ''cache_hit''} \<or> gs_next_agent st1 \<in> K - {[]}) \<and>
    (gs_current_agent st1 = gs_current_agent st \<or> gs_current_agent st1 = ''clarification'')"
proof (cases "is_blocked (gs_user_input st)")
  case True
  then show ?thesis using assms by (auto simp: guardrail_def no_cache)
next
  case False
  obtain found cs where get: "(if gs_session_id st = [] then (None, cw_contexts cw)
      else context_get (ge_contexts E) (gs_session_id st) (cw_contexts cw)) = (found, cs)" by fastforce
  have names: "contexts_name K cs \<and> (\<forall>a. found = Some a \<longrightarrow> a < length (cx_heap cs))"
    using get assms(2) context_get_name by (auto split: if_splits)
  obtain st2 w where ctx: "guardrail_context E (map_option (context_at cs) found) (st\<lparr>gs_start_time := ge_now E\<rparr>) (cw_ext cw) = (st2, w)"
    by fastforce
  have "st1 = st2" "cw_contexts cw1 = cs"
    using assms(1) False get ctx by (auto simp: guardrail_def no_cache)
  then show ?thesis using guardrail_context_next [OF ctx] names contexts_name_at by auto
qed

lemma sub_agent_names:
  assumes "sub_agent_node E nm st cw = (r, cw1)" "contexts_name K (cw_contexts cw)" "well_built E"
  shows "contexts_name K (cw_contexts cw1) \<and> (\<forall>st1. r = Inr st1 \<longrightarrow> gs_current_agent st1 \<in> set SUB_AGENTS)"
proof (cases "map_of (ge_agents E) nm")
  case (Some ac)
  obtain A cfg where ac: "ac = (A, cfg)" by fastforce
  obtain found cs where get: "(if gs_session_id st = [] then (None, cw_contexts cw)
      else context_get (ge_contexts E) (gs_session_id st) (cw_contexts cw)) = (found, cs)" by fastforce
  have "contexts_name K cs" using get assms(2) context_get_name by (auto split: if_splits)
  moreover have "sa_agent_id cfg \<in> set SUB_AGENTS" using well_built_agent [OF assms(3), of nm A cfg] Some ac by simp
  ultimately show ?thesis using assms(1) Some ac get
    by (auto simp: sub_agent_node_def Let_def split: prod.splits sum.splits)
qed (use assms in \<open>auto simp: sub_agent_node_def\<close>)

lemma node_names:
  assumes "run_node E m st cw = (r, cw1)" "contexts_name K (cw_contexts cw)" "well_built E"
    "set REMEMBERED \<subseteq> K" "gs_current_agent st \<in> K"
  shows "contexts_name K (cw_contexts cw1) \<and> (\<forall>st1. r = Inr st1 \<longrightarrow> gs_current_agent st1 \<in> K)"
proof (cases "m = ''guardrail''")
  case True
  then show ?thesis using assms guardrail_names [of E st cw _ _ K] remembered_basic by (fastforce simp: run_node_def split: prod.splits)
next
  case False
  note rest = assms(1) [unfolded run_node_def if_not_P [OF False]]
  show ?thesis
  proof (cases "m \<in> {''router'', ''llm_classifier'', ''supervisor'', ''synthesis'', ''decline'', ''log_query''}")
    case True
    then show ?thesis using rest assms(2,4,5) remembered_basic
      by (auto simp: router_node_def llm_classifier_def supervisor_def synthesis_def decline_node_def log_query_def Let_def
          split: if_splits option.splits prod.splits)
  next
    case False
    then have "sub_agent_node E m st cw = (r, cw1)" using rest by simp
    then show ?thesis using sub_agent_names assms(2,3,4) remembered_basic(4) by blast
  qed
qed

lemma graph_run_names:
  assumes "graph_run n E m st cw = (r, nodes, cw')" "node_rank m < n" "well_built E" "set REMEMBERED \<subseteq> K"
  shows "contexts_name K (cw_contexts cw) \<longrightarrow> gs_current_agent st \<in> K \<longrightarrow>
    contexts_name K (cw_contexts cw') \<and> (\<forall>st'. r = Inr st' \<longrightarrow> gs_current_agent st' \<in> K)"
  using assms(1,2)
proof (induction rule: graph_run_induct)
  case (Step m st cw st1 cw1 n r nodes cw')
  then show ?case using node_names [OF Step(1) _ assms(3,4)] by blast
qed (use node_names assms(3,4) in blast)+

section \<open>Where a run may fail\<close>

lemma routed_nodes_go_on:
  assumes "run_node E m st cw = (Inr st1, cw1)" "m \<in> {''router'', ''llm_classifier'', ''supervisor''}"
  shows "next_node m st1 \<noteq> Inl e"
proof -
  have agents: "snd ` set AGENT_MAP \<union> {''stock_analyst''} \<subseteq> set SUB_AGENTS"
    by (simp add: AGENT_MAP_def SUB_AGENTS_def)
  have "map_of (edge_map m) (gs_next_agent st1) \<noteq> None"
  proof -
    consider "m = ''router''" | "m = ''llm_classifier''" | "m = ''supervisor''" using assms(2) by auto
    then show ?thesis
    proof cases
      case 1
      then show ?thesis using assms(1)
        by (auto simp: run_node_def router_node_def edge_map_def split: option.splits)
    next
      case 2
      then show ?thesis using assms(1)
        by (auto simp: run_node_def llm_classifier_def edge_map_def Let_def split: option.splits prod.splits if_splits)
    next
      case 3
      then have "gs_next_agent st1 \<in> set SUB_AGENTS" using assms(1) agents
        by (auto simp: run_node_def supervisor_def split: option.splits dest!: map_of_in_set)
      then show ?thesis using 3 by (simp add: edge_map_def map_of_eq_None_iff image_image)
    qed
  qed
  then show ?thesis by (auto simp: next_node_def)
qed

text \<open>The nodes behind the guardrail, and that edges stay among them.\<close>

definition INNER_NODES :: "string list" where
  "INNER_NODES = [''router'', ''llm_classifier'', ''supervisor''] @ SUB_AGENTS @ [''synthesis'', ''decline'', ''log_query'']"

lemma successors_inner:
  "List.list_all (\<lambda>m. List.list_all (\<lambda>n. n \<in> set INNER_NODES) (successors m)) (''guardrail'' # INNER_NODES)"
  by code_simp

lemma next_node_inner:
  "next_node m st = Inr (Some n) \<Longrightarrow> m \<in> set (''guardrail'' # INNER_NODES) \<Longrightarrow> n \<in> set INNER_NODES"
  using successors_inner next_node_successor unfolding List.list_all_iff by blast

lemma sub_agents_apart:
  "List.list_all (\<lambda>a. a \<notin> {''guardrail'', ''router'', ''llm_classifier'', ''supervisor'', ''synthesis'', ''decline'', ''log_query''}) SUB_AGENTS"
  by code_simp

lemma only_sub_agents_raise:
  assumes "run_node E m st cw = (Inl e, cw1)" "m \<in> set (''guardrail'' # INNER_NODES)"
  shows "m \<in> set SUB_AGENTS"
  using assms by (auto simp: run_node_def INNER_NODES_def split: if_splits prod.splits)

lemma next_node_stuck:
  assumes "next_node m st = Inl e"
  shows "e = KeyError (gs_next_agent st) \<and> map_of (edge_map m) (gs_next_agent st) = None \<and>
    m \<notin> set SUB_AGENTS \<union> {''synthesis'', ''decline'', ''log_query''}"
  using assms by (auto simp: next_node_def split: if_splits option.splits)

lemma inner_run_fails_at_agents:
  assumes "graph_run n E m st cw = (r, nodes, cw')" "node_rank m < n"
  shows "nodes \<noteq> [] \<and> (m \<in> set INNER_NODES \<longrightarrow> (\<forall>e. r = Inl e \<longrightarrow> last nodes \<in> set SUB_AGENTS))"
  using assms
proof (induction rule: graph_run_induct)
  case (Fails m st cw e cw')
  then show ?case using only_sub_agents_raise [OF Fails] by auto
next
  case (Stuck m st cw e st1 cw')
  have "m \<notin> {''router'', ''llm_classifier'', ''supervisor''}" using routed_nodes_go_on [OF Stuck(1)] Stuck(2) by blast
  then show ?case using next_node_stuck [OF Stuck(2)] by (auto simp: INNER_NODES_def)
next
  case (Step m st cw st1 cw1 n r nodes cw')
  then show ?case using next_node_inner [OF Step(2)] by auto
qed simp_all

section \<open>Contexts and the session along a run\<close>

lemma sub_agent_session:
  assumes "sub_agent_node E nm st cw = (r, cw1)"
  shows "\<forall>st1. r = Inr st1 \<longrightarrow> gs_session_id st1 = gs_session_id st"
  using assms by (auto simp: sub_agent_node_def Let_def split: option.splits prod.splits sum.splits)

lemma sub_agent_contexts:
  assumes "sub_agent_node E nm st cw = (r, cw1)"
  shows "cw_contexts cw1 = cw_contexts cw \<or>
    cw_contexts cw1 = snd (context_get (ge_contexts E) (gs_session_id st) (cw_contexts cw))"
proof (cases "map_of (ge_agents E) nm")
  case (Some ac)
  obtain A cfg where ac: "ac = (A, cfg)" by fastforce
  obtain found cs where get: "(if gs_session_id st = [] then (None, cw_contexts cw)
      else context_get (ge_contexts E) (gs_session_id st) (cw_contexts cw)) = (found, cs)" by fastforce
  then have "cw_contexts cw1 = cs" using assms Some ac
    by (auto simp: sub_agent_node_def Let_def split: prod.splits sum.splits)
  then show ?thesis using get by (auto split: if_splits)
qed (use assms in \<open>auto simp: sub_agent_node_def\<close>)

lemma guardrail_contexts:
  assumes "guardrail E st cw = (st1, cw1)"
  shows "cw_contexts cw1 = cw_contexts cw \<or>
    cw_contexts cw1 = snd (context_get (ge_contexts E) (gs_session_id st) (cw_contexts cw))"
proof (cases "is_blocked (gs_user_input st)")
  case True
  then show ?thesis using assms by (auto simp: guardrail_def no_cache)
next
  case False
  obtain found cs where get: "(if gs_session_id st = [] then (None, cw_contexts cw)
      else context_get (ge_contexts E) (gs_session_id st) (cw_contexts cw)) = (found, cs)" by fastforce
  then have "cw_contexts cw1 = cs" using assms False by (auto simp: guardrail_def no_cache split: prod.splits)
  then show ?thesis using get by (auto split: if_splits)
qed

lemma guardrail_context_input:
  assumes "guardrail_context E ctx st w = (st1, w1)"
  shows "gs_session_id st1 = gs_session_id st \<and> gs_user_input st1 = gs_user_input st"
  using assms
  by (auto simp: guardrail_context_def financial_relevance_def follow_to_def Let_def
      split: option.splits if_splits prod.splits)

lemma guardrail_cases:
  assumes "guardrail E st cw = (st1, cw1)"
  obtains (Blocked) "st1 = st\<lparr>gs_start_time := ge_now E, gs_next_agent := ''decline'', gs_error := Some ''blocked''\<rparr>"
  | (Context) ctx w w1 where "guardrail_context E ctx (st\<lparr>gs_start_time := ge_now E\<rparr>) w = (st1, w1)"
  using assms by (auto simp: guardrail_def no_cache Let_def split: prod.splits if_splits)

lemma guardrail_session:
  assumes "guardrail E st cw = (st1, cw1)"
  shows "gs_session_id st1 = gs_session_id st"
  using assms
proof (cases rule: guardrail_cases)
  case (Context ctx w w1)
  then show ?thesis using guardrail_context_input by fastforce
qed simp

lemma node_session:
  assumes "run_node E m st cw = (r, cw1)"
  shows "(\<forall>st1. r = Inr st1 \<longrightarrow> gs_session_id st1 = gs_session_id st) \<and>
    (cw_contexts cw1 = cw_contexts cw \<or>
     cw_contexts cw1 = snd (context_get (ge_contexts E) (gs_session_id st) (cw_contexts cw)))"
proof (cases "m = ''guardrail''")
  case True
  then show ?thesis using assms guardrail_session [of E st cw] guardrail_contexts [of E st cw]
    by (auto simp: run_node_def split: prod.splits)
next
  case False
  note rest = assms [unfolded run_node_def if_not_P [OF False]]
  show ?thesis
  proof (cases "m \<in> {''router'', ''llm_classifier'', ''supervisor'', ''synthesis'', ''decline'', ''log_query''}")
    case True
    then show ?thesis using rest
      by (auto simp: router_node_def llm_classifier_def supervisor_def synthesis_def decline_node_def log_query_def Let_def
          split: if_splits option.splits prod.splits)
  next
    case False
    then have "sub_agent_node E m st cw = (r, cw1)" using rest by simp
    then show ?thesis using sub_agent_session sub_agent_contexts by blast
  qed
qed

lemma graph_run_keyed:
  assumes "graph_run n E m st cw = (r, nodes, cw')" "node_rank m < n"
  shows "session_keyed (gs_session_id st) (cw_contexts cw) \<longrightarrow> session_keyed (gs_session_id st) (cw_contexts cw')"
proof -
  have keyed: "session_keyed (gs_session_id st) (cw_contexts cw1)"
    if "run_node E m st cw = (r, cw1)" "session_keyed (gs_session_id st) (cw_contexts cw)" for m st cw r cw1
    using node_session [OF that(1)] that(2) context_get_keyed [OF that(2)] by (metis prod.collapse)
  show ?thesis using assms
  proof (induction rule: graph_run_induct)
    case (Step m st cw st1 cw1 n r nodes cw')
    then show ?case using keyed [OF Step(1)] node_session [OF Step(1)] by auto
  qed (use keyed in blast)+
qed

section \<open>Clarifications\<close>

lemma financial_relevance_agent [simp]: "gs_current_agent (financial_relevance st) = gs_current_agent st"
  by (simp add: financial_relevance_def)

lemma follow_to_agent [simp]: "gs_current_agent (follow_to c i st) = gs_current_agent st"
  by (simp add: follow_to_def)

lemma guardrail_context_clarifies:
  assumes "guardrail_context E ctx st w = (st1, w1)" "gs_current_agent st \<noteq> ''clarification''"
    "gs_current_agent st1 = ''clarification''"
  shows "gs_next_agent st1 = ''cache_hit'' \<and>
    gs_final_response st1 = build_clarification (cc_last_intent (the ctx)) (the (best_intent (gs_user_input st)))"
  using assms by (auto simp: guardrail_context_def Let_def split: option.splits if_splits prod.splits)

lemma guardrail_clarifies:
  assumes "guardrail E st cw = (st1, cw1)" "gs_current_agent st \<noteq> ''clarification''"
    "gs_current_agent st1 = ''clarification''"
  shows "gs_next_agent st1 = ''cache_hit'' \<and> (\<exists>i j. gs_final_response st1 = build_clarification i j)"
  using assms(1)
proof (cases rule: guardrail_cases)
  case (Context ctx w w1)
  from guardrail_context_clarifies [OF Context] assms(2,3) show ?thesis by auto
qed (use assms in simp)

lemma guardrail_to_log:
  assumes "guardrail E st cw = (st1, cw1)" "gs_next_agent st1 = ''cache_hit''"
  shows "graph_invoke E st cw = (Inr st1, [''guardrail'', ''log_query''], log_query E st1 cw1)"
proof -
  have "next_node ''guardrail'' st1 = Inr (Some ''log_query'')"
    using assms(2) by (simp add: next_node_def edge_map_def SUB_AGENTS_def)
  moreover have "run_node E ''guardrail'' st cw = (Inr st1, cw1)" using assms(1) by (simp add: run_node_def)
  moreover have "run_node E ''log_query'' st1 cw1 = (Inr st1, log_query E st1 cw1)" by (simp add: run_node_def)
  ultimately show ?thesis by (simp add: graph_invoke_def RECURSION_LIMIT_def numeral_eq_Suc next_node_log)
qed

lemma guardrail_stuck:
  assumes "guardrail E st cw = (st1, cw1)" "gs_next_agent st1 = ''clarification''"
  shows "graph_invoke E st cw = (Inl (KeyError ''clarification''), [''guardrail''], cw1)"
proof -
  have "next_node ''guardrail'' st1 = Inl (KeyError ''clarification'')"
    using assms(2) by (simp add: next_node_def edge_map_def SUB_AGENTS_def)
  moreover have "run_node E ''guardrail'' st cw = (Inr st1, cw1)" using assms(1) by (simp add: run_node_def)
  ultimately show ?thesis by (simp add: graph_invoke_def RECURSION_LIMIT_def numeral_eq_Suc)
qed

text \<open>A reply without keyword, after a turn that ended with a clarification, is routed to the agent of that turn.\<close>

lemma guardrail_follows_clarification:
  assumes "\<not> is_blocked (gs_user_input st)" "best_intent (gs_user_input st) = None" "gs_session_id st \<noteq> []"
    "context_get (ge_contexts E) (gs_session_id st) (cw_contexts cw) = (Some a, cs)"
    "cc_last_agent (context_at cs a) = ''clarification''" "is_clarification (cc_last_response (context_at cs a))"
  shows "\<exists>st1 cw1. guardrail E st cw = (st1, cw1) \<and> gs_next_agent st1 = ''clarification''"
  using assms by (simp add: guardrail_def no_cache guardrail_context_def follow_to_def Let_def)

text \<open>
  After a refusal, a message without keyword that has a word like a ticker is refused again, without the question
  whether it is about finance.
\<close>

lemma decline_traps:
  assumes "\<not> is_blocked (gs_user_input st)" "best_intent (gs_user_input st) = None" "ticker_findall (gs_user_input st) \<noteq> []"
    "gs_session_id st \<noteq> []" "context_get (ge_contexts E) (gs_session_id st) (cw_contexts cw) = (Some a, cs)"
    "cc_last_agent (context_at cs a) = ''decline''"
  shows "\<exists>st1 cw1. guardrail E st cw = (st1, cw1) \<and> gs_next_agent st1 = ''decline''"
  using assms by (simp add: guardrail_def no_cache guardrail_context_def follow_to_def Let_def)

end
