(* ===== verification/Chat_Loops.thy ===== *)
theory Chat_Loops
  imports Chat_Agent
begin

text \<open>
  What the tool-calling loops ask their models. A provider refuses a transcript in which a tool call is not followed by
  its results, or a result answers no call. Shown for the loop of a sub-agent, with a model that keeps what it was
  asked; and that the two legacy loops, \<open>agents/loop.py\<close> and \<open>agents/stream.py\<close>, agree.
\<close>

section \<open>Transcripts\<close>

text \<open>The identifiers still to be answered after a transcript; \<^const>\<open>None\<close> when it is not well formed.\<close>

fun due_after :: "string option list \<Rightarrow> message list \<Rightarrow> string option list option" where
  "due_after due [] = Some due"
| "due_after due (ToolMessage c i nm # ms) =
     (case due of [] \<Rightarrow> None | d # ds \<Rightarrow> if d = Some i then due_after ds ms else None)"
| "due_after due (AIMessage c tcs # ms) = (if due = [] then due_after (map tc_id tcs) ms else None)"
| "due_after due (m # ms) = (if due = [] then due_after [] ms else None)"

definition transcript_ok :: "message list \<Rightarrow> bool" where
  "transcript_ok ms \<longleftrightarrow> due_after [] ms = Some []"

lemma due_after_append: "due_after due (xs @ ys) = Option.bind (due_after due xs) (\<lambda>d. due_after d ys)"
  by (induction due xs rule: due_after.induct) (auto split: list.split)

lemma strip_tool_metadata_ok: "transcript_ok (strip_tool_metadata ms)"
proof -
  have "due_after [] (strip_tool_metadata ms) = Some []"
    by (induction ms rule: strip_tool_metadata.induct) (auto simp: tool_as_text_def)
  then show ?thesis by (simp add: transcript_ok_def)
qed

lemma last_human_human: "is_human (last_human ms q)"
  by (auto simp: last_human_def find_Some_iff split: option.split)

lemma human_ok: "is_human m \<Longrightarrow> due_after [] (m # ms) = due_after [] ms"
  by (cases m) auto

lemma first_messages_ok: "transcript_ok (first_messages E cfg u memories ctx ms q)"
  by (simp add: transcript_ok_def first_messages_def due_after_append human_ok last_human_human)

lemma run_calls_answers:
  assumes "run_calls reg agent_id tcs lp w = (None, lp1, w1)" "due_after [] (lp_messages lp) = Some (map tc_id tcs)"
  shows "transcript_ok (lp_messages lp1)"
  using assms
proof (induction reg agent_id tcs lp w rule: run_calls.induct)
  case (1 reg agent_id lp w)
  then show ?case by (simp add: transcript_ok_def)
next
  case (2 reg agent_id tc tcs lp w)
  obtain r w2 where call: "tool_invoke reg (tc_name tc) (tc_args tc) w = (r, w2)" by fastforce
  obtain i where i: "tc_id tc = Some i" using 2(2) call by (auto simp: Let_def split: option.splits)
  show ?case
    by (rule 2(1) [OF call [symmetric] refl refl i])
       (use 2(2,3) call i in \<open>auto simp: Let_def due_after_append\<close>)
qed

section \<open>Models that keep what they are asked\<close>

definition record_model :: "'w model \<Rightarrow> ('w \<times> message list list) model" where
  "record_model m ms it wl = (case wl of (w, l) \<Rightarrow> (case m ms it w of (r, w1) \<Rightarrow> (r, (w1, l @ [ms]))))"

definition record_tool :: "'w tool \<Rightarrow> ('w \<times> message list list) tool" where
  "record_tool t args wl = (case wl of (w, l) \<Rightarrow> (case t args w of (r, w1) \<Rightarrow> (r, (w1, l))))"

definition recording :: "'w agent_env \<Rightarrow> ('w \<times> message list list) agent_env" where
  "recording E = \<lparr>ae_with_tools = record_model (ae_with_tools E), ae_without_tools = record_model (ae_without_tools E),
     ae_registry = map (\<lambda>(nm, t). (nm, record_tool t)) (ae_registry E),
     ae_synthesis = map_option record_model (ae_synthesis E), ae_prompt = ae_prompt E, ae_memory_chars = ae_memory_chars E\<rparr>"

lemma map_of_record: "map_of (map (\<lambda>(nm, t). (nm, f t)) reg) nm = map_option f (map_of reg nm)"
  by (induction reg) auto

lemma record_invoke:
  "tool_invoke (map (\<lambda>(nm, t). (nm, record_tool t)) reg) nm args (w, l) =
     (case tool_invoke reg nm args w of (r, w1) \<Rightarrow> (r, (w1, l)))"
  by (auto simp: tool_invoke_def map_of_record record_tool_def split: option.split prod.split)

lemma record_calls:
  "run_calls (map (\<lambda>(nm, t). (nm, record_tool t)) reg) agent_id tcs lp (w, l) =
     (case run_calls reg agent_id tcs lp w of (e, lp1, w1) \<Rightarrow> (e, lp1, (w1, l)))"
proof (induction tcs arbitrary: lp w)
  case (Cons tc tcs)
  obtain r w1 where "tool_invoke reg (tc_name tc) (tc_args tc) w = (r, w1)" by fastforce
  then show ?case by (auto simp: record_invoke Let_def Cons split: option.split)
qed simp

lemma record_round:
  "agent_round (recording E) cfg it lp (w, l) =
     (case agent_round E cfg it lp w of (r, lp1, w1) \<Rightarrow> (r, lp1, (w1, l @ [lp_messages lp])))"
proof -
  let ?lp = "lp\<lparr>lp_events := lp_events lp @ [Thinking (it + 1) (sa_agent_id cfg)], lp_iteration := it\<rparr>"
  have model: "asked_model (recording E) cfg ?lp = record_model (asked_model E cfg ?lp)"
    "ae_registry (recording E) = map (\<lambda>(nm, t). (nm, record_tool t)) (ae_registry E)"
    by (simp_all add: asked_model_def recording_def)
  obtain r w1 where "asked_model E cfg ?lp (lp_messages ?lp) (it + 1) w = (r, w1)" by fastforce
  then show ?thesis unfolding agent_round_def Let_def model record_calls
    by (auto simp: record_model_def record_calls split: sum.split prod.split option.split)
qed

lemma round_keeps_ok:
  assumes "agent_round E cfg it lp w = (None, lp1, w1)" "transcript_ok (lp_messages lp)"
  shows "transcript_ok (lp_messages lp1)"
proof -
  obtain calls lp2 lp3 w2 where
    "run_calls (ae_registry E) (sa_agent_id cfg) calls lp2 w2 = (None, lp3, w1)" "lp_messages lp1 = lp_messages lp3"
    "\<exists>txt. lp_messages lp2 = lp_messages lp @ [AIMessage (Text txt) calls]"
    using assms(1) unfolding agent_round_def Let_def
    by (auto split: sum.splits prod.splits option.splits if_splits)
  then show ?thesis using assms(2) run_calls_answers [of "ae_registry E" "sa_agent_id cfg" calls lp2 w2 lp3 w1]
    by (auto simp: due_after_append transcript_ok_def)
qed

text \<open>
  The loop with recording models is the loop, with what was asked beside it: well-formed transcripts, at most one for
  each iteration.
\<close>

lemma record_loop:
  assumes "transcript_ok (lp_messages lp)"
  shows "\<exists>asked. agent_loop (recording E) cfg its lp (w, l) =
      (case agent_loop E cfg its lp w of (r, lp1, w1) \<Rightarrow> (r, lp1, (w1, l @ asked))) \<and>
    List.list_all transcript_ok asked \<and> length asked \<le> length its"
  using assms
proof (induction its arbitrary: lp w l)
  case (Cons it its)
  obtain r lp1 w1 where round: "agent_round E cfg it lp w = (r, lp1, w1)" by (metis surj_pair)
  show ?case
  proof (cases r)
    case None
    have "transcript_ok (lp_messages lp1)" by (rule round_keeps_ok [OF round [unfolded None] Cons.prems])
    from Cons.IH [OF this, of w1 "l @ [lp_messages lp]"] obtain more where
      "agent_loop (recording E) cfg its lp1 (w1, l @ [lp_messages lp]) =
         (case agent_loop E cfg its lp1 w1 of (r, lp1, w1) \<Rightarrow> (r, lp1, (w1, (l @ [lp_messages lp]) @ more)))"
      "List.list_all transcript_ok more" "length more \<le> length its" by blast
    then show ?thesis using round None Cons.prems
      by (intro exI [of _ "lp_messages lp # more"]) (simp add: record_round split: prod.split)
  next
    case (Some e)
    then show ?thesis using round Cons.prems by (intro exI [of _ "[lp_messages lp]"]) (simp add: record_round)
  qed
qed simp

lemma record_synthesis:
  "\<exists>asked. synthesis_pass (recording E) cfg lp (w, l) = (case synthesis_pass E cfg lp w of (lp1, w1) \<Rightarrow> (lp1, (w1, l @ asked))) \<and>
     List.list_all transcript_ok asked \<and> length asked \<le> 1"
proof (cases "list_ex is_tool_done (lp_events lp) \<and> lp_response lp \<noteq> None \<and> \<not> sa_skip_synthesis cfg \<and> ae_synthesis E \<noteq> None")
  case True
  then show ?thesis
    by (intro exI [of _ "[strip_tool_metadata (lp_messages lp)]"])
       (auto simp: synthesis_pass_def recording_def record_model_def strip_tool_metadata_ok split: prod.split sum.split)
next
  case False
  then show ?thesis by (intro exI [of _ "[]"]) (auto simp: synthesis_pass_def recording_def)
qed

lemma record_node:
  assumes "transcript_ok ms"
  shows "\<exists>asked. agent_node (recording E) cfg ms (w, []) = (case agent_node E cfg ms w of (r, evs, w1) \<Rightarrow> (r, evs, (w1, asked))) \<and>
    List.list_all transcript_ok asked \<and> length asked \<le> MAX_ITERATIONS + 1"
proof -
  obtain r lp1 w1 where loop: "agent_loop E cfg [0..<MAX_ITERATIONS] (start_loop ms) w = (r, lp1, w1)" by (metis surj_pair)
  obtain asked where asked: "agent_loop (recording E) cfg [0..<MAX_ITERATIONS] (start_loop ms) (w, []) = (r, lp1, (w1, asked))"
    "List.list_all transcript_ok asked" "length asked \<le> MAX_ITERATIONS"
    using record_loop [of "start_loop ms" E cfg "[0..<MAX_ITERATIONS]" w "[]"] assms loop by (auto simp: start_loop_def)
  obtain lp2 w2 where pass: "synthesis_pass E cfg lp1 w1 = (lp2, w2)" by fastforce
  obtain more where more: "synthesis_pass (recording E) cfg lp1 (w1, asked) = (lp2, (w2, asked @ more))"
    "List.list_all transcript_ok more" "length more \<le> 1"
    using record_synthesis [of E cfg lp1 w1 asked] pass by auto
  show ?thesis
  proof (cases r)
    case Loop_over
    then show ?thesis using loop asked pass more
      by (intro exI [of _ "asked @ more"]) (simp add: agent_node_def Let_def)
  qed (use loop asked in \<open>auto simp: agent_node_def\<close>)
qed

section \<open>The legacy loops\<close>

lemma stream_calls_legacy: "snd (stream_calls reg tcs ms w) = legacy_calls reg tcs ms w"
  by (induction reg tcs ms w rule: legacy_calls.induct) (auto simp: Let_def split: sum.split option.split prod.split, metis snd_conv)

lemma stream_loop_run:
  "run_loop A its had response ms w =
     (case stream_loop A its had response ms w of
        (evs, r, w1) \<Rightarrow> (case r of Inl e \<Rightarrow> Inl e | Inr (t, ms1, n) \<Rightarrow> Inr (t, ms1), w1))"
proof (induction A its had response ms w rule: run_loop.induct)
  case (2 A it its had response ms w)
  obtain r w1 where ask: "legacy_llm A had ms it w = (r, w1)" by fastforce
  show ?case
  proof (cases r)
    case (Inr answer)
    obtain t calls where answer: "answer = (t, calls)" by fastforce
    obtain evs err ms2 w2 where calls: "stream_calls (la_registry A) calls (ms @ [AIMessage (Text t) calls]) w1 = (evs, err, ms2, w2)"
      by (metis surj_pair)
    then have "legacy_calls (la_registry A) calls (ms @ [AIMessage (Text t) calls]) w1 = (err, ms2, w2)"
      by (metis snd_conv stream_calls_legacy)
    then show ?thesis using ask Inr answer calls 2 by (auto simp: Let_def split: option.split prod.split)
  qed (use ask in simp)
qed simp

text \<open>The text of the last event.\<close>

definition final_text :: "stream_event list \<Rightarrow> string" where
  "final_text evs = (case rev evs of SFinal t n # _ \<Rightarrow> t | _ \<Rightarrow> [])"

lemma stream_run:
  "agent_run A user_input history None w =
     (case agent_stream A user_input history w of
        (evs, e, w1) \<Rightarrow> (case e of None \<Rightarrow> Inr (final_text evs) | Some x \<Rightarrow> Inl x, w1))"
  by (auto simp: agent_run_def agent_stream_def Let_def stream_loop_run final_text_def split: sum.split prod.split)

end
