(* ===== verification/Chat_Claims.thy ===== *)
theory Chat_Claims
  imports Chat_Session Chat_Loops
begin

text \<open>
  The properties of the chat: every question ends its run through the graph, and is logged once when it is answered;
  a blocked question reaches no model, tool or context; what fails and where; the reply a clarification asks for
  fails; what a turn leaves for the next; what a sub-agent asks its models; the two legacy loops.
\<close>

section \<open>An instance\<close>

text \<open>Models that answer or raise at once, without tools; the six agents; a table that can be read and written.\<close>

definition demo_model :: "bool \<Rightarrow> unit model" where
  "demo_model ok ms it w = (if ok then Inr (''Noted.'', []) else Inl (OtherError ''timeout''), w)"

definition demo_agent :: "bool \<Rightarrow> unit agent_env" where
  "demo_agent ok = \<lparr>ae_with_tools = demo_model ok, ae_without_tools = demo_model ok, ae_registry = [], ae_synthesis = None,
     ae_prompt = (\<lambda>u. ''You advise.''), ae_memory_chars = 1000\<rparr>"

definition demo_contexts_env :: context_env where
  "demo_contexts_env = \<lparr>xc_ttl = 3600, xc_now = 10, xc_load_ok = True, xc_save_ok = True, xc_summarize = (\<lambda>p. None)\<rparr>"

definition demo_env :: "bool \<Rightarrow> unit graph_env" where
  "demo_env ok = \<lparr>ge_contexts = demo_contexts_env, ge_now = 10, ge_followup = (\<lambda>a b c w. (None, w)), ge_classify = (\<lambda>q w. (None, w)),
     ge_synthesis_prompt = [], ge_synthesize = (\<lambda>ms w. (Some ''All noted.'', w)),
     ge_agents = [(''portfolio'', demo_agent ok, PORTFOLIO_CONFIG), (''stock_analyst'', demo_agent ok, STOCK_ANALYST_CONFIG (\<lambda>a b. [])),
       (''forecaster'', demo_agent ok, FORECASTER_CONFIG), (''research'', demo_agent ok, RESEARCH_CONFIG),
       (''sentiment'', demo_agent ok, SENTIMENT_CONFIG), (''recommendation'', demo_agent ok, RECOMMENDATION_CONFIG)],
     ge_fresh = None, ge_loads = (\<lambda>s. None)\<rparr>"

definition demo_request :: "string \<Rightarrow> chat_request" where
  "demo_request msg = \<lparr>rq_message = msg, rq_history = [], rq_user_id = ''u1'', rq_session_id = ''s1'', rq_holdings = None,
     rq_memories = [], rq_role = ''general'', rq_byo = False\<rparr>"

definition demo_world :: "unit chat_world" where
  "demo_world = \<lparr>cw_contexts = empty_contexts, cw_query_log = [], cw_data_gaps = [], cw_sent = [], cw_ext = ()\<rparr>"

text \<open>A conversation about the analysis of a stock, remembered in the store.\<close>

definition demo_asked :: "unit chat_world" where
  "demo_asked = demo_world\<lparr>cw_contexts := \<lparr>cx_heap = [(empty_context ''s1'')\<lparr>cc_user_id := ''u1'', cc_last_agent := ''stock_analyst'',
     cc_last_intent := ''stock_analysis'', cc_turn_count := 1, cc_last_updated := 5\<rparr>], cx_store = [(''s1'', 0)], cx_pg = []\<rparr>\<rparr>"

text \<open>
  C33: every question comes to an end. From the guardrail no run of the graph visits more than seven nodes, each but the
  first a successor of the one before; a limit of seven steps and any higher limit give the same result as the default
  limit of LangGraph, so that the limit is never what ends a run.
\<close>

theorem question_ends:
  "graph_run (7 + k) E ''guardrail'' st cw = graph_invoke E st cw \<and>
   (case graph_invoke E st cw of (r, nodes, cw') \<Rightarrow>
      length nodes \<le> 7 \<and> hd nodes = ''guardrail'' \<and> successively (\<lambda>a b. b \<in> set (successors a)) nodes)"
proof -
  have "graph_run (7 + k) E ''guardrail'' st cw = graph_run 7 E ''guardrail'' st cw" for k
    by (rule graph_run_fuel) (simp add: fixed_ranks)
  from this [of k] this [of 18] have "graph_run (7 + k) E ''guardrail'' st cw = graph_invoke E st cw"
    by (simp add: graph_invoke_def RECURSION_LIMIT_def)
  moreover obtain r nodes cw' where run: "graph_invoke E st cw = (r, nodes, cw')" by (metis surj_pair)
  ultimately show ?thesis
    using graph_run_walk [OF run [unfolded graph_invoke_def] graph_invoke_fuel] by (simp add: fixed_ranks)
qed

text \<open>
  C34: an answered question is logged once. When a run gives a result its last node is the log, and with a warehouse the
  query log has grown by exactly one row, which holds the question, the intent, the agent, the tools and the sources
  of the final state; when a run raises, nothing has been logged.
\<close>

theorem answered_question_logged_once:
  "case graph_invoke E st cw of (r, nodes, cw') \<Rightarrow>
     cw_query_log cw' = cw_query_log cw @
       (case r of Inl e \<Rightarrow> []
        | Inr st' \<Rightarrow> (case ge_fresh E of None \<Rightarrow> [] | Some fresh \<Rightarrow> [query_row_of fresh st'])) \<and>
     (case r of Inl e \<Rightarrow> True | Inr st' \<Rightarrow> last nodes = ''log_query'')"
proof -
  obtain r nodes cw' where run: "graph_invoke E st cw = (r, nodes, cw')" by (metis surj_pair)
  note run' = run [unfolded graph_invoke_def]
  show ?thesis
    using graph_run_logs [OF run' graph_invoke_fuel] graph_run_walk [OF run' graph_invoke_fuel] run
    by (auto simp: log_rows_def split: sum.split)
qed



section \<open>Conversations\<close>

lemma invoke_names:
  assumes "graph_invoke E (input_state q) cw = (r, nodes, cw')" "well_built E"
    "contexts_name (set REMEMBERED) (cw_contexts cw)"
  shows "contexts_name (set REMEMBERED) (cw_contexts cw') \<and> (\<forall>st'. r = Inr st' \<longrightarrow> gs_current_agent st' \<in> set REMEMBERED)"
  using graph_run_names [OF assms(1) [unfolded graph_invoke_def] graph_invoke_fuel assms(2) order_refl] assms(3) remembered_basic
  by (simp add: input_state_def)

lemma turn_names:
  assumes "run_graph_ws E q cw = (ev, subs, cw')" "well_built E" "contexts_name (set REMEMBERED) (cw_contexts cw)"
  shows "contexts_name (set REMEMBERED) (cw_contexts cw')"
proof -
  obtain r nodes cw1 where run: "graph_invoke E (input_state q) cw = (r, nodes, cw1)" by (metis surj_pair)
  show ?thesis
    using invoke_names [OF run assms(2,3)] assms(1) run remembered_basic
    by (auto simp: run_graph_ws_def turn_of_def split: sum.splits intro!: update_context_ws_name)
qed

lemma conversation_names:
  assumes "conversation ts cw = (evs, subs, cw')" "List.list_all (\<lambda>(E, q). well_built E) ts"
    "contexts_name (set REMEMBERED) (cw_contexts cw)"
  shows "contexts_name (set REMEMBERED) (cw_contexts cw')"
  using assms
proof (induction ts cw arbitrary: evs subs rule: conversation.induct)
  case (2 E q ts cw)
  obtain ev subs1 cw1 where turn: "run_graph_ws E q cw = (ev, subs1, cw1)" by (metis surj_pair)
  moreover from turn have "contexts_name (set REMEMBERED) (cw_contexts cw1)" by (rule turn_names) (use 2 in auto)
  ultimately show ?case using 2 by (auto split: prod.splits)
qed simp

lemma guardrail_edge:
  assumes "next_node ''guardrail'' st = Inl e" "gs_next_agent st \<in> {''router'', ''decline'', ''cache_hit''} \<union> (set REMEMBERED - {[]})"
  shows "e = KeyError ''clarification''"
proof -
  have covered: "List.list_all (\<lambda>a. a = [] \<or> a = ''clarification'' \<or> a \<in> set (map fst (edge_map ''guardrail'')))
      ([''router'', ''decline'', ''cache_hit''] @ REMEMBERED)" by code_simp
  have stuck: "e = KeyError (gs_next_agent st)" "gs_next_agent st \<notin> set (map fst (edge_map ''guardrail''))"
    using next_node_stuck [OF assms(1)] by (auto simp: map_of_eq_None_iff)
  have "''router'' \<noteq> []" "''decline'' \<noteq> []" "''cache_hit'' \<noteq> []" by simp_all
  then have "gs_next_agent st \<noteq> [] \<and> gs_next_agent st \<in> set ([''router'', ''decline'', ''cache_hit''] @ REMEMBERED)"
    using assms(2) by (auto simp only: set_append list.set Un_iff insert_iff Diff_iff empty_iff)
  then show ?thesis using covered stuck unfolding List.list_all_iff by blast
qed

lemma invoke_fails:
  assumes "graph_invoke E st cw = (Inl e, nodes, cw')" "contexts_name (set REMEMBERED) (cw_contexts cw)"
  shows "last nodes \<in> set SUB_AGENTS \<or> nodes = [''guardrail''] \<and> e = KeyError ''clarification''"
proof -
  obtain st1 cw1 where guard: "guardrail E st cw = (st1, cw1)" by fastforce
  then have node: "run_node E ''guardrail'' st cw = (Inr st1, cw1)" by (simp add: run_node_def)
  have run: "graph_run (Suc 24) E ''guardrail'' st cw = (Inl e, nodes, cw')"
    using assms(1) by (simp add: graph_invoke_def RECURSION_LIMIT_def)
  note run = run [unfolded graph_run.simps(2)]
  show ?thesis
  proof (cases "next_node ''guardrail'' st1")
    case (Inl e')
    then have "e' = KeyError ''clarification''" using guardrail_edge guardrail_names [OF guard assms(2)] by blast
    then show ?thesis using run node Inl by simp
  next
    case (Inr o1)
    then obtain m where m: "next_node ''guardrail'' st1 = Inr (Some m)" using next_node_end [of "''guardrail''" st1] by (cases o1) auto
    then obtain nodes' where rest: "graph_run 24 E m st1 cw1 = (Inl e, nodes', cw')" "nodes = ''guardrail'' # nodes'"
      using run node by (auto split: prod.splits)
    have "node_rank m < 24" using edge_falls [OF m] by (simp add: fixed_ranks)
    moreover have "m \<in> set INNER_NODES" using next_node_inner [OF m] by simp
    ultimately show ?thesis using inner_run_fails_at_agents [OF rest(1)] rest(2) by auto
  qed
qed

text \<open>
  C36: where a question fails. In any conversation of any users and sessions that begins with contexts the graph has
  written, a question that fails does so in a sub-agent, or it is the one failure of the routing: the guardrail sends
  the reply to a clarification to an agent of that name, for which there is no edge.
\<close>

theorem question_fails_only_at_agents:
  assumes "List.list_all (\<lambda>(E, q). well_built E) ts" "contexts_name (set REMEMBERED) (cw_contexts cw)"
    "conversation ts cw = (evs, subs, cw1)" "graph_invoke E (input_state q) cw1 = (Inl e, nodes, cw2)"
  shows "last nodes \<in> set SUB_AGENTS \<or> nodes = [''guardrail''] \<and> e = KeyError ''clarification''"
  by (rule invoke_fails [OF assms(4) conversation_names [OF assms(3,1,2)]])

theorem question_fails_only_at_agents_witness:
  "case conversation [(demo_env True, demo_request ''show my holdings'')] demo_world of (evs, subs, cw1) \<Rightarrow>
     (case graph_invoke (demo_env False) (input_state (demo_request ''rebalance my holdings'')) cw1 of (r, nodes, cw2) \<Rightarrow>
        (case r of Inl e \<Rightarrow> last nodes \<in> set SUB_AGENTS \<or> nodes = [''guardrail''] \<and> e = KeyError ''clarification'' | Inr st \<Rightarrow> False))"
proof -
  let ?ts = "[(demo_env True, demo_request ''show my holdings'')]"
  have "List.list_all (\<lambda>(E, q). well_built E) ?ts" by code_simp
  moreover have "contexts_name (set REMEMBERED) (cw_contexts demo_world)"
    by (simp add: contexts_name_def store_valid_def demo_world_def empty_contexts_def)
  moreover obtain evs subs cw1 where conv: "conversation ?ts demo_world = (evs, subs, cw1)" by (metis surj_pair)
  moreover obtain r nodes cw2 where run:
    "graph_invoke (demo_env False) (input_state (demo_request ''rebalance my holdings'')) cw1 = (r, nodes, cw2)" by (metis surj_pair)
  moreover have "case conversation ?ts demo_world of (evs, subs, cw1) \<Rightarrow>
      (case graph_invoke (demo_env False) (input_state (demo_request ''rebalance my holdings'')) cw1 of (r, nodes, cw2) \<Rightarrow>
        (case r of Inl e \<Rightarrow> True | Inr st \<Rightarrow> False))" by code_simp
  then obtain e where "r = Inl e" using conv run by (auto split: sum.splits)
  ultimately show ?thesis using question_fails_only_at_agents by fastforce
qed

text \<open>
  C37: the reply a clarification asks for fails. After a turn in which the guardrail answered with a clarification, every
  reply of the session that has no keyword of an intent, such as the \<open>1\<close> or \<open>2\<close> the clarification asks for, ends in
  an error of the graph: nothing is answered, and nothing is counted or stored.
\<close>

theorem clarification_reply_fails:
  assumes "session_keyed (rq_session_id q) (cw_contexts cw)" "rq_session_id q \<noteq> []"
    "guardrail E (input_state q) cw = (st1, cw0)" "gs_current_agent st1 = ''clarification''"
    "xc_save_ok (ge_contexts E)" "xc_load_ok (ge_contexts E2)" "run_graph_ws E q cw = (ev, subs, cw1)"
    "rq_session_id q2 = rq_session_id q" "\<not> is_blocked (rq_message q2)" "best_intent (rq_message q2) = None"
  shows "case run_graph_ws E2 q2 cw1 of (ev2, subs2, cw2) \<Rightarrow> ev2 = Error_event (KeyError ''clarification'') \<and> subs2 = []"
proof -
  let ?sid = "rq_session_id q"
  have input: "gs_session_id (input_state p) = rq_session_id p" "gs_user_input (input_state p) = rq_message p"
    "gs_current_agent (input_state p) = []" for p
    by (simp_all add: input_state_def)
  obtain i j where st1: "gs_next_agent st1 = ''cache_hit''" "gs_final_response st1 = build_clarification i j"
    using guardrail_clarifies [OF assms(3)] assms(4) by (auto simp: input)
  have keyed: "session_keyed ?sid (cw_contexts cw0)"
    using guardrail_contexts [OF assms(3)] context_get_keyed assms(1) by (metis input(1) prod.collapse)
  obtain a0 own cs where resume: "resume_context (ge_contexts E) ?sid (rq_user_id q) (cw_contexts cw0) = ((a0, own), cs)"
    by (metis surj_pair)
  have cw1: "cw_contexts cw1 = update_context_ws (ge_contexts E) ?sid (rq_user_id q) (rq_message q) (turn_of st1) (cw_contexts cw0)"
    using assms(7) guardrail_to_log [OF assms(3) st1(1)]
    by (auto simp: run_graph_ws_def log_query_def split: option.splits)
  obtain a s' where found: "context_get (ge_contexts E2) ?sid (cw_contexts cw1) = (Some a, s')"
    "remembers (turn_of st1) (context_at cs a0) (context_at s' a)"
    using turn_remembered [OF keyed assms(2,5,6) resume cw1, of "cw_contexts cw1"] by blast
  have "\<exists>st2 cw2. guardrail E2 (input_state q2) cw1 = (st2, cw2) \<and> gs_next_agent st2 = ''clarification''"
    by (rule guardrail_follows_clarification)
       (use found assms(2,4,8,9,10) st1 clarification_offers_options in \<open>auto simp: input remembers_def turn_of_def\<close>)
  then show ?thesis using guardrail_stuck by (fastforce simp: run_graph_ws_def)
qed

theorem clarification_reply_fails_witness:
  "case run_graph_ws (demo_env True) (demo_request ''portfolio rsi'') demo_asked of (ev, subs, cw1) \<Rightarrow>
     (case run_graph_ws (demo_env True) (demo_request ''1'') cw1 of (ev2, subs2, cw2) \<Rightarrow>
        ev2 = Error_event (KeyError ''clarification'') \<and> subs2 = [])"
proof -
  obtain st1 cw0 where guard: "guardrail (demo_env True) (input_state (demo_request ''portfolio rsi'')) demo_asked = (st1, cw0)" by fastforce
  have "case guardrail (demo_env True) (input_state (demo_request ''portfolio rsi'')) demo_asked of
      (st1, cw0) \<Rightarrow> gs_current_agent st1 = ''clarification''" by code_simp
  then have clar: "gs_current_agent st1 = ''clarification''" using guard by simp
  obtain ev subs cw1 where turn: "run_graph_ws (demo_env True) (demo_request ''portfolio rsi'') demo_asked = (ev, subs, cw1)"
    by (metis surj_pair)
  have keyed: "session_keyed (rq_session_id (demo_request ''portfolio rsi'')) (cw_contexts demo_asked)"
    by (simp add: session_keyed_def store_valid_def demo_asked_def demo_request_def context_at_def empty_context_def)
  have reply: "\<not> is_blocked (rq_message (demo_request ''1''))" "best_intent (rq_message (demo_request ''1'')) = None" by code_simp+
  have "xc_save_ok (ge_contexts (demo_env True))" "xc_load_ok (ge_contexts (demo_env True))"
    by (simp_all add: demo_env_def demo_contexts_env_def)
  from clarification_reply_fails [OF keyed _ guard clar this turn _ reply] turn show ?thesis by (simp add: demo_request_def)
qed



section \<open>The loops\<close>

text \<open>
  C39: what a sub-agent asks. Whatever the models and the tools answer, a run of a sub-agent asks its models at most
  once for each of the 25 iterations and once for the synthesis, and each transcript it sends is well formed: every tool
  call is followed by its results in order, and no result stands alone. The transcripts are those that models with a
  memory record, in a run that is otherwise the same.
\<close>

theorem agent_asks_well_formed_transcripts:
  "\<exists>asked. agent_node (recording E) cfg (first_messages E cfg u memories ctx ms q) (w, []) =
      (case agent_node E cfg (first_messages E cfg u memories ctx ms q) w of (r, evs, w1) \<Rightarrow> (r, evs, (w1, asked))) \<and>
    List.list_all transcript_ok asked \<and> length asked \<le> MAX_ITERATIONS + 1"
  by (rule record_node [OF first_messages_ok])

text \<open>
  C40: the two legacy loops agree. For every agent, question and history, the loop that returns and the loop that streams
  ask the same models and tools and end in the same state; the one returns the text of the last event of the other, or
  raises the error it reports.
\<close>

theorem run_agrees_with_stream:
  "agent_run A user_input history None w =
     (case agent_stream A user_input history w of
        (evs, e, w1) \<Rightarrow> (case e of None \<Rightarrow> Inr (final_text evs) | Some x \<Rightarrow> Inl x, w1))"
  by (rule stream_run)

end
