(* ===== verification/Spec2Isabelle.thy ===== *)
theory Spec2Isabelle
  imports Account_Properties Cascade_Properties Screen_Properties Ingest_Claims Sched_Claims
    Reco_Quality Reco_Tracking Billing_Claims OAuth_Claims Obs_Claims
    Chat_Claims
begin

text \<open>
  A verification development for the back end of the AI agent UI: a FastAPI service that signs users
  in, answers their questions with large language models under token budgets and quotas, screens a
  universe of stocks, ingests market data on cursors, and runs scheduled jobs.

  Parts and theories (paths are under \<open>src/\<close>). Every definition has the name of the function or class
  it translates where Isabelle permits it; the comment of a theory says which files it holds.

  \<^item> \<open>Prelude\<close>: times, results, ASCII characters and strings, dictionaries as association lists.

  \<^item> Authentication. \<open>Token_Store\<close> (\<open>auth/token_store.py\<close>: in-memory and Redis stores, the contract
  \<open>token_store\<close>), \<open>Auth_Tokens\<close> (\<open>auth/tokens.py\<close>, \<open>password.py\<close>, \<open>service.py\<close>), \<open>User_Repo\<close>
  (\<open>auth/repo/\<close>, \<open>backend/db/models/user.py\<close>), \<open>Auth_Guards\<close> (\<open>auth/dependencies.py\<close>,
  \<open>backend/subscription_config.py\<close>, \<open>backend/usage_tracker.py\<close>), \<open>Auth_Routes\<close>
  (\<open>auth/endpoints/auth_routes.py\<close>, \<open>session_routes.py\<close>). The state of the routes is the users table, the
  audit log and the token store; a handler returns its response or an HTTP error and the new
  state. \<open>Jwt_Reference\<close> is a JWT library that obeys the laws assumed of the real one. Shown in
  \<open>Token_Store\<close>, \<open>Auth_Properties\<close> and \<open>Account_Properties\<close>: the in-memory store refines a map from
  keys to deadlines; a revoked token stays refused on both back ends; refresh rotation; login and
  guards agree; a password reset is used once; tier, role and quota agree.

  \<^item> Language model calls. \<open>Messages\<close>, \<open>Token_Budget\<close> (\<open>backend/token_budget.py\<close>),
  \<open>Message_Compressor\<close> (\<open>backend/message_compressor.py\<close>), \<open>Llm_Byo\<close> (\<open>backend/llm_byo.py\<close> and the
  counters of \<open>backend/cache.py\<close>), \<open>Llm_Fallback\<close> (\<open>backend/llm_fallback.py\<close>). The cascade calls the
  compressor, reserves tokens, calls a provider and releases on failure; the state is the budget, the
  model pinned and the trace of calls. Shown: totals are sums of their windows; what is admitted stays
  under the threshold; compression keeps the current request; the monthly limit of the user's own
  keys holds under interleaving; the cascade settles the budget and answers. \<open>Obs_Collector\<close>
  (\<open>backend/observability.py\<close>, the tier routes of \<open>backend/routes.py\<close>) collects the metrics of the calls: counters, sliding
  windows, prices, health and the buffer of events; shown in \<open>Obs_Claims\<close>: the bounded windows classify as the full
  history would, and no interleaving of recording and flushing loses or repeats an event.

  \<^item> Chat. \<open>Chat_Text\<close> (\<open>backend/agents/router.py\<close>, the texts of \<open>nodes/guardrail.py\<close>, \<open>nodes/router_node.py\<close>,
  \<open>nodes/query_cache.py\<close>), \<open>Chat_Context\<close> (\<open>backend/agents/conversation_context.py\<close>: contexts at addresses, the store
  with its time to live, the table), \<open>Chat_Agent\<close> (\<open>sub_agents.py\<close>, \<open>configs/\<close>, \<open>backend/tools/registry.py\<close>, the legacy
  loops \<open>loop.py\<close> and \<open>stream.py\<close>), \<open>Chat_Graph\<close> (the nodes, the edges and the run of \<open>graph.py\<close>), \<open>Chat_Session\<close> (a turn
  over \<open>backend/ws.py\<close>, conversations of many users). A node is a function on the state of the graph; a conditional
  edge looks the next agent up by name and fails outside its mapping. Models, tools, prompts, reports, JSON and the
  warehouse are parameters on a state of their own. Shown in \<open>Chat_Loops\<close> and \<open>Chat_Claims\<close>: every question ends after
  at most seven nodes and is logged once; a blocked one reaches nothing; a question fails only in a sub-agent, or as
  the reply to a clarification, which always fails; a turn is remembered past expiry and restart; transcripts are well
  formed; the legacy loops agree.

  \<^item> ScreenQL. \<open>Screen_Catalog\<close>, \<open>Screen_Lexer\<close>, \<open>Screen_Parser\<close>, \<open>Screen_Sql\<close>
  (\<open>backend/insights/screen_parser.py\<close> and the screening route of \<open>backend/insights_routes.py\<close>),
  \<open>Screen_Print\<close> (a printer as the reference of the parser). Shown: parsing ends; what parses is
  well-typed; print and parse round-trip; parameters and placeholders agree; no value reaches the SQL
  text; the scope of ordinary users.

  \<^item> Ingestion. \<open>Market_Utils\<close>, \<open>Ingest_Cursor\<close> (\<open>backend/pipeline/cursor.py\<close> and its tables),
  \<open>Ingest_Jobs\<close> (\<open>jobs/ohlcv.py\<close>, \<open>observability.py\<close>), \<open>Ingest_Fundamentals\<close>
  (\<open>jobs/fundamentals.py\<close>, commands of \<open>runner.py\<close>). The bulk job is a step relation with crashes between
  transactions. Shown in \<open>Ingest_Properties\<close> and \<open>Ingest_Claims\<close>: no ticker is lost, the cursor completes,
  the invariant of the tables; how the fundamentals job loses a ticker.

  \<^item> Scheduling. \<open>Calendar\<close> (Gregorian dates), \<open>Sched_Cron\<close> (days, dates and times of a job, the next
  and the last instant), \<open>Sched_Pipeline\<close> (run records, \<open>backend/jobs/pipeline_executor.py\<close>),
  \<open>Sched_Service\<close> (\<open>backend/jobs/scheduler_service.py\<close>). Shown in \<open>Sched_Chain\<close> and \<open>Sched_Claims\<close>: a
  chain stops at its first failure; the next run is the earliest; registrations follow the jobs; the
  catch-up starts each missed job once.

  \<^item> Recommendations. \<open>Py_Float\<close> (floats with NaN, rounding), \<open>Reco_Score\<close>, \<open>Reco_Funnel\<close>, \<open>Reco_Llm\<close>
  (scores, the first two stages and the third of \<open>backend/jobs/recommendation_engine.py\<close>), \<open>Reco_Store\<close>
  (\<open>backend/db/models/recommendation.py\<close> and its functions in \<open>backend/db/pg_stocks.py\<close>), \<open>Reco_Runs\<close> (the quota
  and the monthly get-or-create), \<open>Reco_Jobs\<close> (\<open>backend/recommendation_routes.py\<close>, the administration
  routes of \<open>backend/routes.py\<close>, \<open>_cmd_recommend\<close>, the three jobs of \<open>backend/jobs/executor.py\<close>). The state is the three
  tables and the module cache of candidates. Shown in \<open>Reco_Monthly\<close> and \<open>Reco_Claims\<close>: one run per month over
  all reachable states, the two gates agree, what a failed insertion leaves behind; in \<open>Reco_Quality\<close>: bounds,
  missing data, ranking, tickers; in \<open>Reco_Tracking\<close>: outcomes once, and what is never tracked.

  Interfaces are locales: \<open>token_store\<close> (what both stores promise, interpreted on the in-memory store),
  \<open>cascade_contract\<close> (what attempts may do, interpreted for the budget and for the origin of an answer),
  \<open>recurrence\<close> (a day that comes again within a window, interpreted for weekdays and days of the month).

  Conventions. Text is ASCII. Python integers are \<^typ>\<open>int\<close>; floats are exact rationals where the code only
  compares or adds decimal constants, and rationals with NaN (\<open>Py_Float\<close>) where data can be missing. A raised exception is the left of a sum,
  an HTTP error the left with its status; \<^const>\<open>None\<close> is Python's \<open>None\<close>. Tables are lists of rows in
  insertion order, dictionaries association lists. Clocks, UUIDs, random tokens, provider clients, bcrypt, the JWT
  library, Redis, yfinance, the warehouse and the \<open>schedule\<close> library are parameters, with their documented
  behaviour as hypotheses where a theorem relies on it. Indian time is a fixed offset from UTC.

  Bounds and fuel. The parser of ScreenQL carries fuel, four units per token and three more: every call
  either consumes a token or descends one of four levels, and \<open>parse_query_total\<close> shows that it never
  runs out. The printer's round trip uses that more fuel never changes an answer. The searches over
  days have the windows of the code, 8 and 63 days; \<open>weekday_recurs\<close> and
  \<open>day_of_month_recurs\<close> show that they are enough. All other recursions are structural or have a measure.

  Concurrency. A method under a lock is one step, so a concurrent run is a sequence of calls with clock
  readings in any order. Counters in Redis are interleaved atomically. \<open>asyncio.gather\<close> is a
  sequence whose order is an argument: a subset of the real interleavings, so the defects shown there are real, while
  the safety properties of the bulk job concern a loop that is sequential in the code.

  Not modelled, and why: prompts and the text of reports; the protocol of the WebSocket and the streaming routes
  around a turn (\<open>ws.py\<close>, \<open>routes.py\<close>: threads, queues and time-outs), the extraction of memories and the tools of the
  agents (calls to services and libraries); the dashboard and insight routes that shape query results for
  display, the Dash front end and the React front end; the Iceberg repository \<open>stocks/repository.py\<close> but for
  its wrappers of run records (I/O on a third-party table format); the analytics and forecast jobs
  (floating-point library calls on data frames); the remaining administration routes; tracing and logging; migrations, scripts and tests.
\<close>

end
